(* ===== verification/Prelude.thy ===== *)
theory Prelude
  imports Complex_Main "HOL-Library.Sublist"
begin

text \<open>
  Shared vocabulary of the development: the Python values the server handles (text, JSON,
  exceptions), the text operations its code calls, and the collections of simplification
  and introduction rules the component theories fill.

  Text is a list of characters holding the UTF-8 bytes of the Python string; a non-ASCII
  literal of the source is one of the constants below. The case and white-space operations
  act on ASCII, the other bytes are left as they are. Python integers are \<open>int\<close>, Python
  floats are the rational numbers they denote (rounding of arithmetic on them is not
  modelled), times are microseconds since the epoch.
\<close>

named_theorems act_defs \<open>the primitive database actions, unfolded\<close>
named_theorems hoare_rules \<open>rules for the outcome of an action\<close>
named_theorems keeps_rules \<open>rules for the invariants an action keeps\<close>
named_theorems text_simps \<open>simplification of concrete Python text operations\<close>

type_synonym time = int

section \<open>JSON values and dictionaries\<close>

datatype json =
    JNull
  | JBool bool
  | JInt int
  | JFloat rat
  | JStr string
  | JList "json list"
  | JObj "(string \<times> json) list"

type_synonym dict = "(string \<times> json) list"

text \<open>A dict keeps insertion order; \<open>d[k] = v\<close> replaces in place or appends.\<close>

fun dict_set :: "dict \<Rightarrow> string \<Rightarrow> json \<Rightarrow> dict" where
  "dict_set [] k v = [(k, v)]"
| "dict_set ((k', v') # d) k v = (if k' = k then (k, v) # d else (k', v') # dict_set d k v)"

definition dict_get :: "dict \<Rightarrow> string \<Rightarrow> json" where
  "dict_get d k = (case map_of d k of None \<Rightarrow> JNull | Some v \<Rightarrow> v)"

definition dict_get_or :: "dict \<Rightarrow> string \<Rightarrow> json \<Rightarrow> json" where
  "dict_get_or d k dflt = (case map_of d k of None \<Rightarrow> dflt | Some v \<Rightarrow> v)"

lemma map_of_dict_set [simp]: "map_of (dict_set d k v) = (map_of d)(k \<mapsto> v)"
  by (induction d) (auto simp: fun_eq_iff)

lemma dict_get_set [simp]:
  "dict_get (dict_set d k v) k' = (if k' = k then v else dict_get d k')"
  by (simp add: dict_get_def)

lemma dict_get_or_set [simp]:
  "dict_get_or (dict_set d k v) k' w = (if k' = k then v else dict_get_or d k' w)"
  by (simp add: dict_get_or_def)

lemma keys_dict_set: "fst ` set (dict_set d k v) = insert k (fst ` set d)"
proof (induction d)
  case (Cons p d)
  then show ?case by (cases p) auto
qed simp

lemma distinct_dict_set: "distinct (map fst d) \<Longrightarrow> distinct (map fst (dict_set d k v))"
proof (induction d)
  case (Cons p d)
  obtain k' v' where p: "p = (k', v')" by (cases p)
  have "k' \<noteq> k \<Longrightarrow> k' \<notin> fst ` set (dict_set d k v)"
    using Cons.prems p by (simp add: keys_dict_set)
  with Cons p show ?case by auto
qed simp

text \<open>Python truthiness, as in \<open>x or y\<close> and \<open>if x\<close>.\<close>

fun truthy :: "json \<Rightarrow> bool" where
  "truthy JNull = False"
| "truthy (JBool b) = b"
| "truthy (JInt i) = (i \<noteq> 0)"
| "truthy (JFloat r) = (r \<noteq> 0)"
| "truthy (JStr s) = (s \<noteq> [])"
| "truthy (JList xs) = (xs \<noteq> [])"
| "truthy (JObj d) = (d \<noteq> [])"

definition json_or :: "json \<Rightarrow> json \<Rightarrow> json" where
  "json_or a b = (if truthy a then a else b)"

text \<open>\<open>x or {}\<close> where x is None or a dict.\<close>

definition dict_or_empty :: "dict option \<Rightarrow> dict" where
  "dict_or_empty d = (case d of None \<Rightarrow> [] | Some d \<Rightarrow> d)"

lemma find_SomeD: "find P xs = Some x \<Longrightarrow> x \<in> set xs \<and> P x"
  by (auto simp: find_Some_iff)

lemma find_snoc:
  "find P (xs @ [x]) = (case find P xs of None \<Rightarrow> if P x then Some x else None | Some y \<Rightarrow> Some y)"
  by (induction xs) auto

section \<open>Exceptions\<close>

datatype exn =
    ValueError string
  | RuntimeError string
  | InvalidStateTransition string
  | KeyError string
  | TypeError string
  | AttributeError string
  | IndexError
  | SoftTimeLimitExceeded
  | DatabaseError string
  | PendingRollbackError
  | OSError string
  | HTTPException nat string
  | OtherException string

text \<open>\<open>repr\<close> of text without quotes or escapes.\<close>

definition quoted :: "string \<Rightarrow> string" where
  "quoted s = CHR 0x27 # s @ [CHR 0x27]"

section \<open>Text\<close>

text \<open>UTF-8 bytes of the non-ASCII characters in the source's literals.\<close>

definition u_check :: string where "u_check = [CHR 0xE2, CHR 0x9C, CHR 0x93]"
definition u_arrow :: string where "u_arrow = [CHR 0xE2, CHR 0x86, CHR 0x92]"
definition u_bar :: string where "u_bar = [CHR 0xE2, CHR 0x94, CHR 0x80]"
definition u_dash :: string where "u_dash = [CHR 0xE2, CHR 0x80, CHR 0x94]"
definition u_siren :: string where "u_siren = [CHR 0xF0, CHR 0x9F, CHR 0x9A, CHR 0xA8]"
definition u_red :: string where "u_red = [CHR 0xF0, CHR 0x9F, CHR 0x94, CHR 0xB4]"

definition starts_with :: "string \<Rightarrow> string \<Rightarrow> bool" where
  "starts_with p s = (take (length p) s = p)"

lemma starts_with_prefix: "starts_with p s = prefix p s"
  by (auto simp: starts_with_def prefix_def) (metis append_take_drop_id)

lemma starts_with_append [simp]: "starts_with p (p @ s)"
  by (simp add: starts_with_def)

text \<open>ASCII white space, as \<open>str.strip\<close> and \<open>str.split\<close> see it.\<close>

definition is_ws :: "char \<Rightarrow> bool" where
  "is_ws c = (let n = of_char c :: nat in n \<in> {9..13} \<or> n \<in> {28..32})"

definition py_strip :: "string \<Rightarrow> string" where
  "py_strip s = rev (dropWhile is_ws (rev (dropWhile is_ws s)))"

definition is_upper :: "char \<Rightarrow> bool" where
  "is_upper c = (let n = of_char c :: nat in 65 \<le> n \<and> n \<le> 90)"

definition is_lower :: "char \<Rightarrow> bool" where
  "is_lower c = (let n = of_char c :: nat in 97 \<le> n \<and> n \<le> 122)"

definition is_digit :: "char \<Rightarrow> bool" where
  "is_digit c = (let n = of_char c :: nat in 48 \<le> n \<and> n \<le> 57)"

definition is_alpha :: "char \<Rightarrow> bool" where
  "is_alpha c = (is_upper c \<or> is_lower c)"

definition is_alnum :: "char \<Rightarrow> bool" where
  "is_alnum c = (is_alpha c \<or> is_digit c)"

definition lower_char :: "char \<Rightarrow> char" where
  "lower_char c = (if is_upper c then char_of ((of_char c :: nat) + 32) else c)"

definition upper_char :: "char \<Rightarrow> char" where
  "upper_char c = (if is_lower c then char_of ((of_char c :: nat) - 32) else c)"

definition py_lower :: "string \<Rightarrow> string" where
  "py_lower s = map lower_char s"

definition py_upper :: "string \<Rightarrow> string" where
  "py_upper s = map upper_char s"

lemma of_char_less_256 [simp]: "(of_char c :: nat) < 256"
  by (metis (no_types, lifting) of_char_of of_char_mod_256 mod_less_divisor zero_less_numeral)

lemma lower_char_not_upper: "\<not> is_upper (lower_char c)"
  by (auto simp: lower_char_def is_upper_def Let_def)

lemma lower_char_idem [simp]: "lower_char (lower_char c) = lower_char c"
  using lower_char_not_upper [of c] by (simp add: lower_char_def)

lemma py_lower_idem [simp]: "py_lower (py_lower s) = py_lower s"
  by (simp add: py_lower_def)

lemma py_lower_append [simp]: "py_lower (a @ b) = py_lower a @ py_lower b"
  by (simp add: py_lower_def)

lemma py_lower_Nil [simp]: "py_lower [] = []"
  by (simp add: py_lower_def)

text \<open>\<open>sep.join(parts)\<close>.\<close>

fun py_join :: "string \<Rightarrow> string list \<Rightarrow> string" where
  "py_join sep [] = []"
| "py_join sep [x] = x"
| "py_join sep (x # xs) = x @ sep @ py_join sep xs"

text \<open>\<open>s.split(c)\<close> on one character: always at least one part.\<close>

fun split_char :: "char \<Rightarrow> string \<Rightarrow> string list" where
  "split_char c [] = [[]]"
| "split_char c (x # xs) =
     (if x = c then [] # split_char c xs
      else (case split_char c xs of [] \<Rightarrow> [[x]] | p # ps \<Rightarrow> (x # p) # ps))"

lemma split_char_nonempty [simp]: "split_char c s \<noteq> []"
  by (induction s) (auto split: list.splits)

lemma join_split_char: "py_join [c] (split_char c s) = s"
proof (induction s)
  case (Cons x s)
  obtain p ps where ps: "split_char c s = p # ps"
    by (cases "split_char c s") auto
  with Cons show ?case by (cases ps) auto
qed simp

lemma split_char_parts: "p \<in> set (split_char c s) \<Longrightarrow> c \<notin> set p"
proof (induction s arbitrary: p)
  case (Cons x s)
  then show ?case by (cases "split_char c s") (auto split: if_splits)
qed simp

text \<open>\<open>s.split()\<close>: maximal runs of non-white-space.\<close>

function py_words :: "string \<Rightarrow> string list" where
  "py_words s =
     (case dropWhile is_ws s of
        [] \<Rightarrow> []
      | c # cs \<Rightarrow> takeWhile (\<lambda>x. \<not> is_ws x) (c # cs)
                  # py_words (dropWhile (\<lambda>x. \<not> is_ws x) (c # cs)))"
  by pat_completeness auto
termination
proof (relation "measure length")
  fix s c cs
  assume eq: "dropWhile is_ws s = c # cs"
  then have "\<not> is_ws c" by (metis hd_dropWhile list.discI list.sel(1))
  then have "length (dropWhile (\<lambda>x. \<not> is_ws x) (c # cs)) \<le> length cs"
    by (simp add: length_dropWhile_le)
  also have "length cs < length (dropWhile is_ws s)" using eq by simp
  also have "\<dots> \<le> length s" by (rule length_dropWhile_le)
  finally show "(dropWhile (\<lambda>x. \<not> is_ws x) (c # cs), s) \<in> measure length" by simp
qed simp

declare py_words.simps [simp del]

lemma split_char_join:
  "ps \<noteq> [] \<Longrightarrow> \<forall>p \<in> set ps. c \<notin> set p \<Longrightarrow> split_char c (py_join [c] ps) = ps"
proof (induction ps)
  case (Cons p ps)
  have app: "c \<notin> set q \<Longrightarrow> split_char c (q @ c # s) = q # split_char c s" for q s
    by (induction q) auto
  have one: "c \<notin> set q \<Longrightarrow> split_char c q = [q]" for q by (induction q) auto
  show ?case
  proof (cases ps)
    case Nil
    then show ?thesis using Cons.prems one by simp
  next
    case c: (Cons r rs)
    then show ?thesis using Cons app by simp
  qed
qed simp

text \<open>Decimal numerals, as \<open>str(i)\<close> and \<open>%d\<close> print them.\<close>

fun show_nat :: "nat \<Rightarrow> string" where
  "show_nat n = (if n < 10 then [char_of (48 + n)] else show_nat (n div 10) @ [char_of (48 + n mod 10)])"

declare show_nat.simps [simp del]

definition show_int :: "int \<Rightarrow> string" where
  "show_int i = (if i < 0 then CHR ''-'' # show_nat (nat (- i)) else show_nat (nat i))"

text \<open>\<open>str(exc)\<close>. The text of the last session error is SQLAlchemy's and opaque here.\<close>

fun exc_str :: "exn \<Rightarrow> string" where
  "exc_str (ValueError m) = m"
| "exc_str (RuntimeError m) = m"
| "exc_str (InvalidStateTransition m) = m"
| "exc_str (KeyError k) = quoted k"
| "exc_str (TypeError m) = m"
| "exc_str (AttributeError m) = m"
| "exc_str IndexError = ''list index out of range''"
| "exc_str SoftTimeLimitExceeded = ''SoftTimeLimitExceeded()''"
| "exc_str (DatabaseError m) = m"
| "exc_str PendingRollbackError = ''This Session's transaction has been rolled back''"
| "exc_str (OSError m) = m"
| "exc_str (HTTPException code detail) = show_nat code @ '': '' @ detail"
| "exc_str (OtherException m) = m"

fun read_nat :: "nat \<Rightarrow> string \<Rightarrow> nat option" where
  "read_nat acc [] = Some acc"
| "read_nat acc (c # cs) =
     (if is_digit c then read_nat (acc * 10 + (of_char c - 48)) cs
      else if c = CHR ''_'' then
        (case cs of [] \<Rightarrow> None
         | d # ds \<Rightarrow> if is_digit d then read_nat (acc * 10 + (of_char d - 48)) ds else None)
      else None)"

text \<open>
  \<open>int(text)\<close> in base ten: white space around it, one sign, digits with single underscores
  between them.
\<close>

fun read_unsigned :: "string \<Rightarrow> nat option" where
  "read_unsigned [] = None"
| "read_unsigned (c # cs) = (if is_digit c then read_nat 0 (c # cs) else None)"

definition py_int :: "string \<Rightarrow> int option" where
  "py_int s =
     (case py_strip s of
        [] \<Rightarrow> None
      | c # cs \<Rightarrow>
          if c = CHR ''-'' then map_option (\<lambda>n. - int n) (read_unsigned cs)
          else if c = CHR ''+'' then map_option int (read_unsigned cs)
          else map_option int (read_unsigned (c # cs)))"

lemma is_digit_char_of: "(n::nat) < 10 \<Longrightarrow> is_digit (char_of (48 + n))"
  by (simp add: is_digit_def Let_def)

lemma of_char_digit: "n < 10 \<Longrightarrow> (of_char (char_of (48 + n :: nat)) :: nat) = 48 + n"
  by simp

lemma read_nat_append:
  "\<forall>c \<in> set s. is_digit c \<Longrightarrow> read_nat acc (s @ t) = Option.bind (read_nat acc s) (\<lambda>a. read_nat a t)"
  by (induction s arbitrary: acc) auto

lemma show_nat_digits: "c \<in> set (show_nat n) \<Longrightarrow> is_digit c"
proof (induction n rule: show_nat.induct)
  case (1 n)
  then show ?case
    by (cases "n < 10") (auto simp: show_nat.simps [of n] is_digit_char_of)
qed

lemma read_nat_show: "read_nat acc (show_nat n) = Some (acc * 10 ^ length (show_nat n) + n)"
proof (induction n arbitrary: acc rule: show_nat.induct)
  case (1 n)
  show ?case
  proof (cases "n < 10")
    case True
    then show ?thesis by (subst (1 2) show_nat.simps) (simp add: is_digit_char_of)
  next
    case False
    have d: "n mod 10 < 10" by simp
    have "read_nat acc (show_nat (n div 10))
        = Some (acc * 10 ^ length (show_nat (n div 10)) + n div 10)"
      using "1.IH" [of acc] False by simp
    with False is_digit_char_of [OF d] of_char_digit [OF d] show ?thesis
      by (subst (1 2) show_nat.simps) (simp add: read_nat_append show_nat_digits algebra_simps)
  qed
qed

lemma show_nat_nonempty [simp]: "show_nat n \<noteq> []"
  by (simp add: show_nat.simps [of n])

lemma digit_not_ws: "is_digit c \<Longrightarrow> \<not> is_ws c"
  by (auto simp: is_digit_def is_ws_def Let_def)

lemma dropWhile_none: "\<forall>c \<in> set s. \<not> P c \<Longrightarrow> dropWhile P s = s"
  by (cases s) auto

lemma strip_no_ws: "\<forall>c \<in> set s. \<not> is_ws c \<Longrightarrow> py_strip s = s"
  by (simp add: py_strip_def dropWhile_none)

theorem py_int_show_nat: "py_int (show_nat n) = Some (int n)"
proof -
  have strip: "py_strip (show_nat n) = show_nat n"
    by (rule strip_no_ws) (blast dest: show_nat_digits digit_not_ws)
  obtain c cs where c: "show_nat n = c # cs" by (cases "show_nat n") auto
  then have "is_digit c" using show_nat_digits [of c n] by simp
  then have "c \<noteq> CHR ''-''" and "c \<noteq> CHR ''+''" by (auto simp: is_digit_def Let_def)
  moreover have "read_unsigned (c # cs) = Some n"
    using read_nat_show [of 0 n] c \<open>is_digit c\<close> by (simp del: read_nat.simps)
  ultimately show ?thesis using strip c by (simp add: py_int_def del: read_unsigned.simps)
qed

section \<open>Rows of a table\<close>

text \<open>Rewrite the rows that satisfy a condition; the shape of \<open>UPDATE ... WHERE\<close>.\<close>

definition update_where :: "('a \<Rightarrow> bool) \<Rightarrow> ('a \<Rightarrow> 'a) \<Rightarrow> 'a list \<Rightarrow> 'a list" where
  "update_where p f xs = map (\<lambda>x. if p x then f x else x) xs"

lemma length_update_where [simp]: "length (update_where p f xs) = length xs"
  by (simp add: update_where_def)

lemma map_update_where_frame:
  "(\<And>x. p x \<Longrightarrow> g (f x) = g x) \<Longrightarrow> map g (update_where p f xs) = map g xs"
  by (simp add: update_where_def)

lemma set_update_where: "x \<in> set (update_where p f xs) \<Longrightarrow> x \<in> set xs \<or> (\<exists>y \<in> set xs. p y \<and> x = f y)"
  by (auto simp: update_where_def)

lemma find_update_where:
  "(\<And>x. q (f x) = q x) \<Longrightarrow>
   find q (update_where p f xs) = map_option (\<lambda>x. if p x then f x else x) (find q xs)"
  by (induction xs) (auto simp: update_where_def)

section \<open>Searching text\<close>

text \<open>The text after the first occurrence of \<open>sep\<close>, and the text before it.\<close>

fun after_sub :: "string \<Rightarrow> string \<Rightarrow> string option" where
  "after_sub sep [] = (if sep = [] then Some [] else None)"
| "after_sub sep (c # cs) =
     (if starts_with sep (c # cs) then Some (drop (length sep) (c # cs)) else after_sub sep cs)"

fun before_sub :: "string \<Rightarrow> string \<Rightarrow> string" where
  "before_sub sep [] = []"
| "before_sub sep (c # cs) = (if starts_with sep (c # cs) then [] else c # before_sub sep cs)"

definition contains_sub :: "string \<Rightarrow> string \<Rightarrow> bool" where
  "contains_sub sep s = (after_sub sep s \<noteq> None)"

text \<open>\<open>s.split(sep)[1]\<close>, where sep occurs in s.\<close>

definition second_part :: "string \<Rightarrow> string \<Rightarrow> string" where
  "second_part sep s = (case after_sub sep s of None \<Rightarrow> [] | Some t \<Rightarrow> before_sub sep t)"

text \<open>\<open>str.splitlines()\<close> on ASCII text: CR LF counts as one break, a final break adds no line.\<close>

definition is_break :: "char \<Rightarrow> bool" where
  "is_break c = (let n = of_char c :: nat in n \<in> {10..13} \<or> n \<in> {28..30})"

fun splitlines_acc :: "string \<Rightarrow> string \<Rightarrow> string list" where
  "splitlines_acc acc [] = (if acc = [] then [] else [rev acc])"
| "splitlines_acc acc (c # cs) =
     (if c = CHR 0x0D then
        (case cs of [] \<Rightarrow> [rev acc]
         | d # ds \<Rightarrow> rev acc # (if d = CHR 0x0A then splitlines_acc [] ds else splitlines_acc [] (d # ds)))
      else if is_break c then rev acc # splitlines_acc [] cs
      else splitlines_acc (c # acc) cs)"

definition py_splitlines :: "string \<Rightarrow> string list" where
  "py_splitlines s = splitlines_acc [] s"

text \<open>The double quote, the backslash and the line feed, in literals of shell text.\<close>

definition dq :: string where "dq = [CHR 0x22]"
definition bs :: string where "bs = [CHR 0x5C]"
definition nl :: string where "nl = [CHR 0x0A]"

text \<open>
  \<open>str(x)\<close> of a JSON value; the printing of floats and containers is the argument \<open>rep\<close>.
\<close>

definition str_json :: "(json \<Rightarrow> string) \<Rightarrow> json \<Rightarrow> string" where
  "str_json rep j = (case j of
      JNull \<Rightarrow> ''None''
    | JBool b \<Rightarrow> (if b then ''True'' else ''False'')
    | JInt i \<Rightarrow> show_int i
    | JStr s \<Rightarrow> s
    | _ \<Rightarrow> rep j)"

text \<open>\<open>s.rstrip('/')\<close>.\<close>

definition rstrip_slash :: "string \<Rightarrow> string" where
  "rstrip_slash s = rev (dropWhile (\<lambda>c. c = CHR ''/'') (rev s))"

section \<open>Dynamic typing\<close>

text \<open>The name of a value's type, as the interpreter's error messages give it.\<close>

fun type_name :: "json \<Rightarrow> string" where
  "type_name JNull = ''NoneType''"
| "type_name (JBool _) = ''bool''"
| "type_name (JInt _) = ''int''"
| "type_name (JFloat _) = ''float''"
| "type_name (JStr _) = ''str''"
| "type_name (JList _) = ''list''"
| "type_name (JObj _) = ''dict''"

definition no_attribute :: "json \<Rightarrow> string \<Rightarrow> exn" where
  "no_attribute j a = AttributeError (quoted (type_name j) @ '' object has no attribute '' @ quoted a)"

text \<open>\<open>x.get(k)\<close>, \<open>x.strip()\<close> and \<open>x.lower()\<close> on a value of unknown type.\<close>

definition json_get :: "json \<Rightarrow> string \<Rightarrow> exn + json" where
  "json_get j k = (case j of JObj d \<Rightarrow> Inr (dict_get d k) | _ \<Rightarrow> Inl (no_attribute j ''get''))"

definition json_strip :: "json \<Rightarrow> exn + string" where
  "json_strip j = (case j of JStr s \<Rightarrow> Inr (py_strip s) | _ \<Rightarrow> Inl (no_attribute j ''strip''))"

definition json_lower :: "json \<Rightarrow> exn + string" where
  "json_lower j = (case j of JStr s \<Rightarrow> Inr (py_lower s) | _ \<Rightarrow> Inl (no_attribute j ''lower''))"

text \<open>The number a \<open>%f\<close> or \<open>%d\<close> conversion formats.\<close>

fun json_real :: "json \<Rightarrow> rat option" where
  "json_real (JBool b) = Some (if b then 1 else 0)"
| "json_real (JInt i) = Some (of_int i)"
| "json_real (JFloat r) = Some r"
| "json_real _ = None"

definition real_or_raise :: "json \<Rightarrow> exn + rat" where
  "real_or_raise j = (case json_real j of
      Some r \<Rightarrow> Inr r | None \<Rightarrow> Inl (TypeError (''must be real number, not '' @ type_name j)))"

definition int_or_raise :: "json \<Rightarrow> exn + int" where
  "int_or_raise j = (case json_real j of
      Some r \<Rightarrow> Inr (if 0 \<le> r then \<lfloor>r\<rfloor> else \<lceil>r\<rceil>)
    | None \<Rightarrow> Inl (TypeError (''%d format: a real number is required, not '' @ type_name j)))"

text \<open>\<open>'%.kf' % r\<close>: rounded to k decimals, ties to even.\<close>

definition round_half_even :: "rat \<Rightarrow> int" where
  "round_half_even r =
     (let f = \<lfloor>r\<rfloor>; d = r - of_int f in
      if d < 1 / 2 then f else if d > 1 / 2 then f + 1 else if even f then f else f + 1)"

definition zero_pad :: "nat \<Rightarrow> string \<Rightarrow> string" where
  "zero_pad k s = replicate (k - length s) CHR ''0'' @ s"

definition fmt_fixed :: "nat \<Rightarrow> rat \<Rightarrow> string" where
  "fmt_fixed k r =
     (let n = round_half_even (\<bar>r\<bar> * 10 ^ k); m = nat n in
      (if r < 0 then ''-'' else []) @ show_nat (m div 10 ^ k) @
      (if k = 0 then [] else CHR ''.'' # zero_pad k (show_nat (m mod 10 ^ k))))"

end
