(* ===== verification/Tables.thy ===== *)
theory Tables
  imports Prelude
begin

text \<open>
  The tables of \<open>app/models/\<close> as records, the settings of \<open>app/config.py\<close>, and the
  consistency the database enforces on \<open>benchmark_results\<close> (\<open>__table_args__\<close> and the
  NOT NULL columns). A primary key drawn by \<open>uuid.uuid4\<close> is a natural number, compared as
  PostgreSQL compares UUIDs. A column that the code fills straight from a JSON value keeps
  that value; every other column has its SQL type.
\<close>

type_synonym uuid = nat

section \<open>Workload state and tables\<close>

datatype workload_state =
    CREATED | VALIDATING | VALIDATED | INSTALLING | READY | RUNNING | FAILED

definition state_value :: "workload_state \<Rightarrow> string" where
  "state_value st = (case st of
      CREATED \<Rightarrow> ''CREATED'' | VALIDATING \<Rightarrow> ''VALIDATING'' | VALIDATED \<Rightarrow> ''VALIDATED''
    | INSTALLING \<Rightarrow> ''INSTALLING'' | READY \<Rightarrow> ''READY'' | RUNNING \<Rightarrow> ''RUNNING''
    | FAILED \<Rightarrow> ''FAILED'')"

lemma state_value_inj: "state_value a = state_value b \<Longrightarrow> a = b"
  by (cases a; cases b) (simp_all add: state_value_def)

record workload =
  wl_id :: uuid
  wl_workload_id :: string
  wl_model_name :: string
  wl_config :: "dict option"
  wl_created_by :: "string option"
  wl_state :: workload_state
  wl_error_message :: "string option"
  wl_workload_port :: "int option"
  wl_communication_port :: "int option"
  wl_created_at :: time
  wl_updated_at :: time

record workload_event =
  ev_id :: uuid
  ev_workload_id :: uuid
  ev_state :: workload_state
  ev_trigger :: string
  ev_message :: string
  ev_event_time :: time

datatype node_state =
    N_ADDED | N_VALIDATING | N_VALIDATED | N_INSTALLING | N_READY | N_RUNNING | N_FAILED

record gpu =
  gpu_index :: int
  gpu_name :: string
  gpu_memory_mb :: int

record specs =
  sp_gpus :: "gpu list"
  sp_driver_version :: string
  sp_cuda_version :: string
  sp_server_name :: string

record node =
  nd_id :: uuid
  nd_workload_id :: uuid
  nd_machine_id :: string
  nd_machine_ip :: string
  nd_machine_username :: string
  nd_state :: node_state
  nd_sw_installed :: bool
  nd_gpus :: "gpu list option"
  nd_specs :: "specs option"
  nd_pcie_tree :: "string option"
  nd_heartbeat_interval :: int
  nd_hb_error_count :: int
  nd_running_task :: "string option"
  nd_created_at :: time
  nd_updated_at :: time

record task =
  tk_id :: uuid
  tk_workload_id :: uuid
  tk_node_id :: "uuid option"
  tk_run_name :: string
  tk_config :: "dict option"
  tk_status :: string
  tk_started_at :: time
  tk_completed_at :: "time option"

record task_log =
  tl_id :: uuid
  tl_task_id :: "uuid option"
  tl_line :: string
  tl_logged_at :: time

record benchmark_result =
  br_id :: uuid
  br_run_id :: string
  br_sub_run_index :: int
  br_model_name :: string
  br_pipeline_version :: json
  br_node_ips :: "string list"
  br_gpu_type :: string
  br_gpu_count :: json
  br_gpu_model :: json
  br_server_name :: json
  br_precision :: json
  br_input_tokens :: json
  br_output_tokens :: json
  br_concurrency :: json
  br_parallelism :: "string option"
  br_workload_type :: string
  br_status :: string
  br_total_token_throughput :: json
  br_mean_ttft_ms :: json
  br_mean_tpot_ms :: json
  br_mean_e2el_ms :: json
  br_metrics :: json
  br_started_at :: time
  br_completed_at :: "time option"
  br_duration_seconds :: "rat option"
  br_created_at :: time

record gpu_spec =
  gs_id :: uuid
  gs_gpu_type :: string
  gs_display_name :: string
  gs_vendor :: string
  gs_arch :: string
  gs_vram_gb :: int
  gs_tdp_watts :: int
  gs_tier_rank :: int
  gs_fp16_tflops :: "rat option"
  gs_fp8_tflops :: "rat option"

record workload_type =
  wt_id :: uuid
  wt_name :: string
  wt_display_name :: string
  wt_description :: "string option"
  wt_image_tag :: "string option"

record db =
  workloads :: "workload list"
  events :: "workload_event list"
  nodes :: "node list"
  tasks :: "task list"
  task_logs :: "task_log list"
  results :: "benchmark_result list"
  gpu_specs :: "gpu_spec list"
  workload_types :: "workload_type list"

section \<open>Constraints on benchmark results\<close>

text \<open>\<open>precision = lower(precision)\<close> and the NOT NULL columns, for one row.\<close>

fun json_lower_ok :: "json \<Rightarrow> bool" where
  "json_lower_ok (JStr s) = (py_lower s = s)"
| "json_lower_ok JNull = False"
| "json_lower_ok _ = True"

definition result_checks :: "benchmark_result \<Rightarrow> bool" where
  "result_checks r =
     (py_lower (br_model_name r) = br_model_name r \<and>
      py_lower (br_gpu_type r) = br_gpu_type r \<and>
      json_lower_ok (br_precision r) \<and>
      py_lower (br_workload_type r) = br_workload_type r \<and>
      br_gpu_count r \<noteq> JNull \<and> br_input_tokens r \<noteq> JNull \<and>
      br_output_tokens r \<noteq> JNull \<and> br_concurrency r \<noteq> JNull \<and>
      br_pipeline_version r \<noteq> JNull)"

definition result_key :: "benchmark_result \<Rightarrow> string \<times> int" where
  "result_key r = (br_run_id r, br_sub_run_index r)"

definition results_valid :: "db \<Rightarrow> bool" where
  "results_valid d =
     (distinct (map result_key (results d)) \<and> list_all result_checks (results d))"

text \<open>
  The unique columns: \<open>workloads.workload_id\<close>, \<open>tasks.run_name\<close>, the pair
  (\<open>run_id\<close>, \<open>sub_run_index\<close>), \<open>workload_types.name\<close> and \<open>gpu_specs.gpu_type\<close>.
\<close>

definition db_valid :: "db \<Rightarrow> bool" where
  "db_valid d =
     (distinct (map wl_workload_id (workloads d)) \<and>
      distinct (map tk_run_name (tasks d)) \<and>
      distinct (map wt_name (workload_types d)) \<and>
      distinct (map gs_gpu_type (gpu_specs d)) \<and>
      results_valid d)"

section \<open>Settings\<close>

record settings =
  POSTGRES_HOST :: string
  POSTGRES_PORT :: int
  POSTGRES_USERNAME :: string
  POSTGRES_PASSWORD :: string
  POSTGRES_DATABASE :: string
  RABBITMQ_URL :: string
  RABBITMQ_PORT :: int
  RABBITMQ_USERNAME :: string
  RABBITMQ_PASSWORD :: string
  GCP_REGISTRY_URL :: string
  GCP_PROJECT_ID :: string
  GCP_REPOSITORY :: string
  WORKLOAD_IMAGE_TAG :: string
  JUPYTER_IMAGE_TAG :: string
  MODEL_STORAGE_MODE :: string
  MODEL_LOCAL_PATH :: string
  MODEL_GCS_BUCKET :: string
  NODE_RESULTS_PATH :: string
  NODE_JUPYTER_DATA_PATH :: string
  SSH_KEY_PATH :: string
  SSH_DEFAULT_USER :: string
  PORT :: int
  NGINX_ENABLED :: bool
  PROXY_BASE_URL :: string
  NGINX_CONF_DIR :: string
  NGINX_RELOAD_CMD :: string
  JUPYTER_ASSISTANT_URL :: string
  SLACK_ALERT_WEBHOOK_URL :: string
  SERVICE_HOST_IP :: string
  SLACK_SERVICE_ALERT_COOLDOWN_SECONDS :: int

definition default_settings :: settings where
  "default_settings = \<lparr>
     POSTGRES_HOST = ''localhost'', POSTGRES_PORT = 5432,
     POSTGRES_USERNAME = ''aistudio'', POSTGRES_PASSWORD = ''aistudio'',
     POSTGRES_DATABASE = ''aistudio'',
     RABBITMQ_URL = ''localhost'', RABBITMQ_PORT = 5672,
     RABBITMQ_USERNAME = ''aistudio'', RABBITMQ_PASSWORD = ''aistudio'',
     GCP_REGISTRY_URL = ''us-docker.pkg.dev'', GCP_PROJECT_ID = ''aimlworkbench'',
     GCP_REPOSITORY = ''aistudio'', WORKLOAD_IMAGE_TAG = ''2.3.0-nvidia'',
     JUPYTER_IMAGE_TAG = ''2.2.0-nvidia'',
     MODEL_STORAGE_MODE = ''huggingface'', MODEL_LOCAL_PATH = ''/home/ubuntu/models'',
     MODEL_GCS_BUCKET = '''',
     NODE_RESULTS_PATH = ''/results'', NODE_JUPYTER_DATA_PATH = ''/data'',
     SSH_KEY_PATH = ''~/.ssh/id_rsa'', SSH_DEFAULT_USER = ''ubuntu'', PORT = 8001,
     NGINX_ENABLED = False, PROXY_BASE_URL = '''',
     NGINX_CONF_DIR = ''/etc/nginx/jupyter-locations'',
     NGINX_RELOAD_CMD = ''nginx -s reload'',
     JUPYTER_ASSISTANT_URL = '''', SLACK_ALERT_WEBHOOK_URL = '''', SERVICE_HOST_IP = '''',
     SLACK_SERVICE_ALERT_COOLDOWN_SECONDS = 300 \<rparr>"

definition get_workload_registry :: "settings \<Rightarrow> string" where
  "get_workload_registry s =
     GCP_REGISTRY_URL s @ ''/'' @ GCP_PROJECT_ID s @ ''/'' @ GCP_REPOSITORY s"

text \<open>\<open>urllib.parse.quote(s, safe="")\<close>: everything but the unreserved characters escaped.\<close>

definition hex_digit :: "nat \<Rightarrow> char" where
  "hex_digit n = char_of (if n < 10 then 48 + n else 55 + n)"

definition is_unreserved :: "char \<Rightarrow> bool" where
  "is_unreserved c = (is_alnum c \<or> c \<in> set ''_.-~'')"

definition quote_char :: "char \<Rightarrow> string" where
  "quote_char c =
     (if is_unreserved c then [c]
      else [CHR ''%'', hex_digit (of_char c div 16), hex_digit (of_char c mod 16)])"

definition url_quote :: "string \<Rightarrow> string" where
  "url_quote s = concat (map quote_char s)"

definition pg_authority :: "settings \<Rightarrow> string" where
  "pg_authority s =
     url_quote (POSTGRES_USERNAME s) @ '':'' @ url_quote (POSTGRES_PASSWORD s) @ ''@'' @
     POSTGRES_HOST s @ '':'' @ show_int (POSTGRES_PORT s) @ ''/'' @ POSTGRES_DATABASE s"

definition get_database_url :: "settings \<Rightarrow> string" where
  "get_database_url s = ''postgresql+asyncpg://'' @ pg_authority s"

definition get_sync_database_url :: "settings \<Rightarrow> string" where
  "get_sync_database_url s = ''postgresql://'' @ pg_authority s"

definition get_celery_broker_url :: "settings \<Rightarrow> string" where
  "get_celery_broker_url s =
     ''amqp://'' @ url_quote (RABBITMQ_USERNAME s) @ '':'' @ url_quote (RABBITMQ_PASSWORD s) @
     ''@'' @ RABBITMQ_URL s @ '':'' @ show_int (RABBITMQ_PORT s) @ ''/''"

definition get_celery_result_backend :: "settings \<Rightarrow> string" where
  "get_celery_result_backend s = ''db+postgresql://'' @ pg_authority s"

text \<open>
  What the escaping is for: whatever the password holds, the credentials add no character
  that ends the user-info part of the URL.
\<close>

lemma hex_digit_plain: "n < 16 \<Longrightarrow> hex_digit n \<notin> set '':/@''"
proof -
  assume n: "n < 16"
  have "(of_char (hex_digit n) :: nat) \<in> {48..57} \<union> {65..70}"
    using n by (simp add: hex_digit_def)
  then show ?thesis by auto
qed

lemma url_quote_safe: "c \<in> set (url_quote s) \<Longrightarrow> c \<notin> set '':/@''"
proof -
  assume "c \<in> set (url_quote s)"
  then obtain x where x: "x \<in> set s" and c: "c \<in> set (quote_char x)"
    by (auto simp: url_quote_def)
  have "(of_char x div 16 :: nat) < 16" using of_char_less_256 [of x] by (simp add: less_mult_imp_div_less)
  moreover have "(of_char x mod 16 :: nat) < 16" by simp
  moreover have "is_unreserved x \<Longrightarrow> x \<notin> set '':/@''"
    by (auto simp: is_unreserved_def is_alnum_def is_alpha_def is_upper_def is_lower_def is_digit_def Let_def)
  ultimately show ?thesis using c hex_digit_plain
    by (auto simp: quote_char_def split: if_splits)
qed

end
