(* ===== verification/Session.thy ===== *)
theory Session
  imports Tables
begin

text \<open>
  The effects of \<open>app/database.py\<close> and of the libraries under it, made explicit. An action
  maps a session state to a result, which is a value or a raised exception, and the state
  left behind. The state holds the committed database, the working copy an open SQLAlchemy
  session sees (its own uncommitted changes included), and what the process has sent or
  logged. \<open>commit\<close> publishes the working copy; a commit the database refuses leaves the
  session unusable until a rollback, as SQLAlchemy documents; leaving the \<open>with\<close> block of a
  session discards what was not committed.

  The code not under \<open>src/\<close> is the environment: the answers of the database to a commit, the
  order of a result set without ORDER BY, the clocks, the UUIDs drawn, the SSH transport, the
  file system, the message broker, HTTP and the web hook, and the ISO-8601 parser (whose second
  component says whether the time has a zone). Every one of them is a field of \<open>env\<close>.
\<close>

record ssh_reply =
  reply_lines :: "string list"
  reply_stdout :: string
  reply_stderr :: string
  reply_exit :: int

record env =
  e_settings :: settings
  e_now :: "nat \<Rightarrow> time"
  e_db_now :: "nat \<Rightarrow> time"
  e_uuid :: "nat \<Rightarrow> uuid"
  e_refuse :: "nat \<Rightarrow> db \<Rightarrow> exn option"
  e_scan_nodes :: "nat \<Rightarrow> node list \<Rightarrow> node list"
  e_scan_results :: "nat \<Rightarrow> benchmark_result list \<Rightarrow> benchmark_result list"
  e_scan_logs :: "nat \<Rightarrow> task_log list \<Rightarrow> task_log list"
  e_connect :: "nat \<Rightarrow> string \<Rightarrow> string \<Rightarrow> exn option"
  e_exec :: "nat \<Rightarrow> string \<Rightarrow> string \<Rightarrow> string \<Rightarrow> exn + ssh_reply"
  e_loads :: "string \<Rightarrow> exn + json"
  e_fmt_states :: "workload_state list \<Rightarrow> string"
  e_fmt_ts :: "time \<Rightarrow> string"
  e_repr :: "json \<Rightarrow> string"
  e_post :: "nat \<Rightarrow> string \<Rightarrow> exn option"
  e_write_file :: "nat \<Rightarrow> string \<Rightarrow> exn option"
  e_remove_file :: "nat \<Rightarrow> string \<Rightarrow> exn option"
  e_reload :: "nat \<Rightarrow> exn + (int \<times> string)"
  e_dispatch :: "nat \<Rightarrow> string \<times> string \<Rightarrow> exn option"
  e_http_get :: "nat \<Rightarrow> string \<Rightarrow> exn + (int \<times> int)"
  e_parse_iso :: "string \<Rightarrow> (time \<times> bool) option"

record sess =
  committed :: db
  work :: db
  dead :: bool
  ticks :: nat
  posts :: "string list"
  critical :: "string list"
  files :: "(string \<times> string) list"
  queue :: "(string \<times> string) list"

type_synonym 'a act = "sess \<Rightarrow> (exn + 'a) \<times> sess"

section \<open>Sequencing\<close>

definition ret :: "'a \<Rightarrow> 'a act" where
  "ret a s = (Inr a, s)"

definition raise_exn :: "exn \<Rightarrow> 'a act" where
  "raise_exn e s = (Inl e, s)"

definition bindM :: "'a act \<Rightarrow> ('a \<Rightarrow> 'b act) \<Rightarrow> 'b act" where
  "bindM m f s = (case m s of (Inl e, s') \<Rightarrow> (Inl e, s') | (Inr a, s') \<Rightarrow> f a s')"

definition thenM :: "'a act \<Rightarrow> 'b act \<Rightarrow> 'b act" where
  "thenM m n = bindM m (\<lambda>_. n)"

text \<open>\<open>try: m except Exception as e: h(e)\<close>.\<close>

definition catchM :: "'a act \<Rightarrow> (exn \<Rightarrow> 'a act) \<Rightarrow> 'a act" where
  "catchM m h s = (case m s of (Inl e, s') \<Rightarrow> h e s' | (Inr a, s') \<Rightarrow> (Inr a, s'))"

definition whenM :: "bool \<Rightarrow> unit act \<Rightarrow> unit act" where
  "whenM b m = (if b then m else ret ())"

fun for_each :: "'a list \<Rightarrow> ('a \<Rightarrow> unit act) \<Rightarrow> unit act" where
  "for_each [] f = ret ()"
| "for_each (x # xs) f = thenM (f x) (for_each xs f)"

definition lift_sum :: "exn + 'a \<Rightarrow> 'a act" where
  "lift_sum r s = (r, s)"

section \<open>The environment's answers\<close>

text \<open>Each question the process asks gets the next number, so no two answers are tied.\<close>

definition ask :: "(nat \<Rightarrow> 'a) \<Rightarrow> 'a act" where
  "ask f s = (Inr (f (ticks s)), s\<lparr>ticks := Suc (ticks s)\<rparr>)"

definition ask_fallible :: "(nat \<Rightarrow> exn option) \<Rightarrow> unit act" where
  "ask_fallible f s =
     (case f (ticks s) of
        None \<Rightarrow> (Inr (), s\<lparr>ticks := Suc (ticks s)\<rparr>)
      | Some e \<Rightarrow> (Inl e, s\<lparr>ticks := Suc (ticks s)\<rparr>))"

definition now :: "env \<Rightarrow> time act" where "now env = ask (e_now env)"
definition uuid4 :: "env \<Rightarrow> uuid act" where "uuid4 env = ask (e_uuid env)"
definition server_now :: "env \<Rightarrow> time act" where "server_now env = ask (e_db_now env)"

section \<open>The session\<close>

definition query :: "(db \<Rightarrow> 'a) \<Rightarrow> 'a act" where
  "query f s = (if dead s then (Inl PendingRollbackError, s) else (Inr (f (work s)), s))"

text \<open>A change of loaded objects, or an added one, waits in the working copy.\<close>

definition change :: "(db \<Rightarrow> db) \<Rightarrow> unit act" where
  "change f s = (Inr (), s\<lparr>work := f (work s)\<rparr>)"

definition commit :: "env \<Rightarrow> unit act" where
  "commit env s =
     (if dead s then (Inl PendingRollbackError, s)
      else case e_refuse env (ticks s) (work s) of
        None \<Rightarrow> (Inr (), s\<lparr>committed := work s, ticks := Suc (ticks s)\<rparr>)
      | Some e \<Rightarrow> (Inl e, s\<lparr>work := committed s, dead := True, ticks := Suc (ticks s)\<rparr>))"

definition rollback :: "unit act" where
  "rollback s = (Inr (), s\<lparr>work := committed s, dead := False\<rparr>)"

text \<open>
  \<open>with SyncSessionLocal() as db: m\<close>. Opened inside another session's block, the outer session
  has no pending change at that point, so after it the outer session reads what the inner
  one committed.
\<close>

definition with_session :: "'a act \<Rightarrow> 'a act" where
  "with_session m s =
     (case m (s\<lparr>work := committed s, dead := False\<rparr>) of
        (r, s') \<Rightarrow> (r, s'\<lparr>work := committed s', dead := dead s\<rparr>))"

definition log_critical :: "string \<Rightarrow> unit act" where
  "log_critical m s = (Inr (), s\<lparr>critical := critical s @ [m]\<rparr>)"

lemmas [act_defs] =
  ret_def raise_exn_def bindM_def thenM_def catchM_def whenM_def lift_sum_def ask_def
  ask_fallible_def now_def uuid4_def server_now_def query_def change_def commit_def rollback_def
  with_session_def log_critical_def

section \<open>Outcomes of an action\<close>

text \<open>
  \<open>hoare P m Q E\<close>: started in a state where P holds, m ends in Q with its value or in E with
  the exception it raised.
\<close>

definition hoare ::
  "(sess \<Rightarrow> bool) \<Rightarrow> 'a act \<Rightarrow> ('a \<Rightarrow> sess \<Rightarrow> bool) \<Rightarrow> (exn \<Rightarrow> sess \<Rightarrow> bool) \<Rightarrow> bool" where
  "hoare P m Q E =
     (\<forall>s. P s \<longrightarrow> (case m s of (Inr a, s') \<Rightarrow> Q a s' | (Inl e, s') \<Rightarrow> E e s'))"

lemma hoareI:
  assumes "\<And>s a s'. P s \<Longrightarrow> m s = (Inr a, s') \<Longrightarrow> Q a s'"
    and "\<And>s e s'. P s \<Longrightarrow> m s = (Inl e, s') \<Longrightarrow> E e s'"
  shows "hoare P m Q E"
  using assms by (auto simp: hoare_def split: prod.split sum.split)

lemma hoareD:
  assumes "hoare P m Q E" and "P s"
  shows "m s = (Inr a, s') \<Longrightarrow> Q a s'" and "m s = (Inl e, s') \<Longrightarrow> E e s'"
  using assms by (auto simp: hoare_def split: prod.splits sum.splits)

lemma hoare_ret [hoare_rules]: "(\<And>s. P s \<Longrightarrow> Q a s) \<Longrightarrow> hoare P (ret a) Q E"
  by (simp add: hoare_def ret_def)

lemma hoare_raise [hoare_rules]: "(\<And>s. P s \<Longrightarrow> E e s) \<Longrightarrow> hoare P (raise_exn e) Q E"
  by (simp add: hoare_def raise_exn_def)

lemma hoare_bind:
  assumes "hoare P m R E" and "\<And>a. hoare (R a) (f a) Q E"
  shows "hoare P (bindM m f) Q E"
  using assms by (fastforce simp: hoare_def bindM_def split: prod.splits sum.splits)

lemma hoare_then:
  "hoare P m (\<lambda>_. R) E \<Longrightarrow> hoare R n Q E \<Longrightarrow> hoare P (thenM m n) Q E"
  by (simp add: thenM_def hoare_bind [where R = "\<lambda>_. R"])

lemma hoare_catch:
  assumes "hoare P m Q R" and "\<And>e. hoare (R e) (h e) Q E"
  shows "hoare P (catchM m h) Q E"
  using assms by (fastforce simp: hoare_def catchM_def split: prod.splits sum.splits)

lemma hoare_weaken:
  assumes "hoare P m Q E" and "\<And>s. P' s \<Longrightarrow> P s" and "\<And>a s. Q a s \<Longrightarrow> Q' a s"
    and "\<And>e s. E e s \<Longrightarrow> E' e s"
  shows "hoare P' m Q' E'"
  using assms by (fastforce simp: hoare_def split: prod.splits sum.splits)

lemma hoare_if:
  "(b \<Longrightarrow> hoare P m Q E) \<Longrightarrow> (\<not> b \<Longrightarrow> hoare P n Q E) \<Longrightarrow> hoare P (if b then m else n) Q E"
  by simp

section \<open>Invariants of an action\<close>

definition keeps :: "(sess \<Rightarrow> bool) \<Rightarrow> 'a act \<Rightarrow> bool" where
  "keeps I m = (\<forall>s. I s \<longrightarrow> I (snd (m s)))"

lemma keeps_hoare: "keeps I m = hoare I m (\<lambda>_. I) (\<lambda>_. I)"
  by (simp add: keeps_def hoare_def split_beta split: sum.split)

lemma keepsI: "(\<And>s. I s \<Longrightarrow> I (snd (m s))) \<Longrightarrow> keeps I m"
  by (simp add: keeps_def)

lemma keepsD: "keeps I m \<Longrightarrow> I s \<Longrightarrow> I (snd (m s))"
  by (simp add: keeps_def)

lemma keeps_ret [keeps_rules]: "keeps I (ret a)"
  by (simp add: keeps_def ret_def)

lemma keeps_raise [keeps_rules]: "keeps I (raise_exn e)"
  by (simp add: keeps_def raise_exn_def)

lemma keeps_lift_sum [keeps_rules]: "keeps I (lift_sum r)"
  by (simp add: keeps_def lift_sum_def)

lemma keeps_bind [keeps_rules]: "keeps I m \<Longrightarrow> (\<And>a. keeps I (f a)) \<Longrightarrow> keeps I (bindM m f)"
  by (fastforce simp: keeps_def bindM_def split: prod.splits sum.splits)

lemma keeps_then [keeps_rules]: "keeps I m \<Longrightarrow> keeps I n \<Longrightarrow> keeps I (thenM m n)"
  by (simp add: thenM_def keeps_bind)

lemma keeps_catch [keeps_rules]: "keeps I m \<Longrightarrow> (\<And>e. keeps I (h e)) \<Longrightarrow> keeps I (catchM m h)"
  by (fastforce simp: keeps_def catchM_def split: prod.splits sum.splits)

lemma keeps_when [keeps_rules]: "(b \<Longrightarrow> keeps I m) \<Longrightarrow> keeps I (whenM b m)"
  by (simp add: whenM_def keeps_ret)

lemma keeps_for_each [keeps_rules]: "(\<And>x. keeps I (f x)) \<Longrightarrow> keeps I (for_each xs f)"
  by (induction xs) (simp_all add: keeps_ret keeps_then)

lemma keeps_if [keeps_rules]: "(b \<Longrightarrow> keeps I m) \<Longrightarrow> (\<not> b \<Longrightarrow> keeps I n) \<Longrightarrow> keeps I (if b then m else n)"
  by simp

lemma keeps_case_option [keeps_rules]:
  "keeps I m \<Longrightarrow> (\<And>x. keeps I (f x)) \<Longrightarrow> keeps I (case o' of None \<Rightarrow> m | Some x \<Rightarrow> f x)"
  by (cases o') simp_all

lemma keeps_case_prod [keeps_rules]:
  "(\<And>a b. keeps I (f a b)) \<Longrightarrow> keeps I (case p of (a, b) \<Rightarrow> f a b)"
  by (cases p) simp

lemma keeps_case_list [keeps_rules]:
  "keeps I m \<Longrightarrow> (\<And>x xs. keeps I (f x xs)) \<Longrightarrow> keeps I (case l of [] \<Rightarrow> m | x # xs \<Rightarrow> f x xs)"
  by (cases l) simp_all

text \<open>
  A session invariant is stated on the committed and the working database. It is kept by the
  plumbing of a session, whatever the database answers, because a commit copies one to the
  other; only \<open>change\<close> has to be looked at.
\<close>

definition both :: "(db \<Rightarrow> bool) \<Rightarrow> sess \<Rightarrow> bool" where
  "both J s = (J (committed s) \<and> J (work s))"

lemma keeps_query [keeps_rules]: "keeps I (query f)"
  by (simp add: keeps_def query_def)

lemma keeps_ask [keeps_rules]: "keeps (both J) (ask f)"
  by (simp add: keeps_def ask_def both_def)

lemma keeps_ask_fallible [keeps_rules]: "keeps (both J) (ask_fallible f)"
  by (simp add: keeps_def ask_fallible_def both_def split: option.splits)

lemma keeps_clock [keeps_rules]:
  "keeps (both J) (now env)" "keeps (both J) (uuid4 env)" "keeps (both J) (server_now env)"
  by (simp_all add: now_def uuid4_def server_now_def keeps_ask)

lemma keeps_change: "(\<And>d. J d \<Longrightarrow> J (f d)) \<Longrightarrow> keeps (both J) (change f)"
  by (simp add: keeps_def change_def both_def)

lemma keeps_commit [keeps_rules]: "keeps (both J) (commit env)"
  by (simp add: keeps_def commit_def both_def split: option.splits)

lemma keeps_rollback [keeps_rules]: "keeps (both J) rollback"
  by (simp add: keeps_def rollback_def both_def)

lemma keeps_log_critical [keeps_rules]: "keeps (both J) (log_critical m)"
  by (simp add: keeps_def log_critical_def both_def)

lemma keeps_with_session [keeps_rules]: "keeps (both J) m \<Longrightarrow> keeps (both J) (with_session m)"
proof (rule keepsI)
  fix s assume m: "keeps (both J) m" and s: "both J s"
  then have "both J (s\<lparr>work := committed s, dead := False\<rparr>)" by (simp add: both_def)
  then have "both J (snd (m (s\<lparr>work := committed s, dead := False\<rparr>)))" by (rule keepsD [OF m])
  then show "both J (snd (with_session m s))"
    by (simp add: both_def with_session_def split_beta)
qed

section \<open>A sample environment for concrete runs\<close>

definition fresh_sess :: "db \<Rightarrow> sess" where
  "fresh_sess d = \<lparr>committed = d, work = d, dead = False, ticks = 0, posts = [], critical = [],
     files = [], queue = []\<rparr>"

definition empty_db :: db where
  "empty_db = \<lparr>workloads = [], events = [], nodes = [], tasks = [], task_logs = [], results = [],
     gpu_specs = [], workload_types = []\<rparr>"

definition quiet_reply :: ssh_reply where
  "quiet_reply = \<lparr>reply_lines = [], reply_stdout = '''', reply_stderr = '''', reply_exit = 0\<rparr>"

text \<open>Everything succeeds and clocks and UUIDs count up.\<close>

definition calm_env :: env where
  "calm_env = \<lparr>e_settings = default_settings, e_now = int, e_db_now = int, e_uuid = (\<lambda>n. n),
     e_refuse = (\<lambda>_ _. None), e_scan_nodes = (\<lambda>_ ns. ns),
     e_scan_results = (\<lambda>_ rs. rs), e_scan_logs = (\<lambda>_ ls. ls), e_connect = (\<lambda>_ _ _. None),
     e_exec = (\<lambda>_ _ _ _. Inr quiet_reply), e_loads = (\<lambda>_. Inl (ValueError ''Expecting value'')),
     e_fmt_states = (\<lambda>sts. py_join '', '' (map state_value sts)), e_fmt_ts = (\<lambda>t. show_int t),
     e_repr = (\<lambda>_. []),
     e_post = (\<lambda>_ _. None), e_write_file = (\<lambda>_ _. None),
     e_remove_file = (\<lambda>_ _. None), e_reload = (\<lambda>_. Inr (0, '''')),
     e_dispatch = (\<lambda>_ _. None), e_http_get = (\<lambda>_ _. Inr (200, 1)), e_parse_iso = (\<lambda>_. None)\<rparr>"

definition sample_workload :: "string \<Rightarrow> workload_state \<Rightarrow> dict \<Rightarrow> workload" where
  "sample_workload wid st cfg = \<lparr>wl_id = 1, wl_workload_id = wid, wl_model_name = ''Llama'',
     wl_config = Some cfg, wl_created_by = Some ''ann'', wl_state = st, wl_error_message = None,
     wl_workload_port = None, wl_communication_port = None, wl_created_at = 0, wl_updated_at = 0\<rparr>"

definition sample_node :: node where
  "sample_node = \<lparr>nd_id = 2, nd_workload_id = 1, nd_machine_id = ''node-0'',
     nd_machine_ip = ''10.0.0.1'', nd_machine_username = ''ubuntu'', nd_state = N_ADDED,
     nd_sw_installed = False, nd_gpus = None, nd_specs = None, nd_pcie_tree = None,
     nd_heartbeat_interval = 30, nd_hb_error_count = 0, nd_running_task = None,
     nd_created_at = 0, nd_updated_at = 0\<rparr>"

definition sample_db :: "string \<Rightarrow> workload_state \<Rightarrow> dict \<Rightarrow> db" where
  "sample_db wid st cfg = empty_db\<lparr>workloads := [sample_workload wid st cfg], nodes := [sample_node]\<rparr>"

lemmas sample_defs = fresh_sess_def empty_db_def quiet_reply_def calm_env_def sample_workload_def
  sample_node_def sample_db_def

end
