(* ===== verification/State_Machine.thy ===== *)
theory State_Machine
  imports Session
begin

text \<open>
  \<open>app/services/state_machine.py\<close>: the transition table, the transition with its audit event,
  the life cycle it implements and the audit invariant that ties a workload's state to its
  events. The locale \<open>workload_invariant\<close> is the contract the Celery tasks rely on.
\<close>

section \<open>The transition table\<close>

fun VALID_TRANSITIONS :: "workload_state \<Rightarrow> workload_state list" where
  "VALID_TRANSITIONS CREATED = [VALIDATING, FAILED]"
| "VALID_TRANSITIONS VALIDATING = [VALIDATED, FAILED]"
| "VALID_TRANSITIONS VALIDATED = [INSTALLING, FAILED]"
| "VALID_TRANSITIONS INSTALLING = [READY, FAILED]"
| "VALID_TRANSITIONS READY = [RUNNING, FAILED]"
| "VALID_TRANSITIONS RUNNING = [READY, FAILED]"
| "VALID_TRANSITIONS FAILED = []"

definition find_workload :: "db \<Rightarrow> string \<Rightarrow> workload option" where
  "find_workload d wid = find (\<lambda>w. wl_workload_id w = wid) (workloads d)"

definition state_of :: "db \<Rightarrow> string \<Rightarrow> workload_state option" where
  "state_of d wid = map_option wl_state (find_workload d wid)"

text \<open>The row update and the audit event of one transition, in one transaction.\<close>

definition apply_transition ::
  "workload \<Rightarrow> workload_state \<Rightarrow> string \<Rightarrow> string \<Rightarrow> uuid \<Rightarrow> time \<Rightarrow> db \<Rightarrow> db" where
  "apply_transition w new_state trigger message eid t d = d\<lparr>
     workloads := update_where (\<lambda>x. wl_id x = wl_id w)
       (\<lambda>x. x\<lparr>wl_state := new_state,
              wl_error_message := (if new_state = FAILED then Some message else wl_error_message x),
              wl_updated_at := t\<rparr>) (workloads d),
     events := events d @ [\<lparr>ev_id = eid, ev_workload_id = wl_id w, ev_state = new_state,
       ev_trigger = trigger, ev_message = message, ev_event_time = t\<rparr>]\<rparr>"

definition refusal_text :: "env \<Rightarrow> string \<Rightarrow> workload_state \<Rightarrow> workload_state \<Rightarrow> string" where
  "refusal_text env wid cur new =
     ''Cannot transition workload '' @ quoted wid @ '' from '' @ state_value cur @ '' '' @
     u_arrow @ '' '' @ state_value new @ ''. Allowed: '' @
     (if VALID_TRANSITIONS cur = [] then ''none (terminal state)''
      else e_fmt_states env (VALID_TRANSITIONS cur))"

definition transition_workload_state ::
  "env \<Rightarrow> string \<Rightarrow> workload_state \<Rightarrow> string \<Rightarrow> string \<Rightarrow> unit act" where
  "transition_workload_state env wid new_state trigger message =
     bindM (query (\<lambda>d. find_workload d wid)) (\<lambda>found.
     case found of
       None \<Rightarrow> raise_exn (ValueError (''Workload '' @ quoted wid @ '' not found''))
     | Some w \<Rightarrow>
         if new_state \<notin> set (VALID_TRANSITIONS (wl_state w))
         then raise_exn (InvalidStateTransition (refusal_text env wid (wl_state w) new_state))
         else
           bindM (uuid4 env) (\<lambda>eid.
           bindM (server_now env) (\<lambda>t.
           thenM (change (apply_transition w new_state trigger message eid t))
           (commit env))))"

section \<open>The life cycle\<close>

text \<open>The abstract machine, rule by rule as the \<open>WorkloadState\<close> documentation lists it.\<close>

inductive life_step :: "workload_state \<Rightarrow> workload_state \<Rightarrow> bool" where
  begin_validation: "life_step CREATED VALIDATING"
| node_passed: "life_step VALIDATING VALIDATED"
| begin_install: "life_step VALIDATED INSTALLING"
| installed: "life_step INSTALLING READY"
| begin_run: "life_step READY RUNNING"
| run_done: "life_step RUNNING READY"
| give_up: "st \<noteq> FAILED \<Longrightarrow> life_step st FAILED"

code_pred life_step .

inductive_simps life_step_from_CREATED: "life_step CREATED st"
inductive_simps life_step_from_VALIDATING: "life_step VALIDATING st"
inductive_simps life_step_from_VALIDATED: "life_step VALIDATED st"
inductive_simps life_step_from_INSTALLING: "life_step INSTALLING st"
inductive_simps life_step_from_READY: "life_step READY st"
inductive_simps life_step_from_RUNNING: "life_step RUNNING st"
inductive_simps life_step_from_FAILED: "life_step FAILED st"

lemmas life_step_from =
  life_step_from_CREATED life_step_from_VALIDATING life_step_from_VALIDATED
  life_step_from_INSTALLING life_step_from_READY life_step_from_RUNNING life_step_from_FAILED

lemma table_is_life_step: "new \<in> set (VALID_TRANSITIONS cur) \<longleftrightarrow> life_step cur new"
  by (cases cur) (auto simp: life_step_from)

text \<open>A run of the machine, as the list of states it went through.\<close>

fun life_chain :: "workload_state \<Rightarrow> workload_state list \<Rightarrow> bool" where
  "life_chain a [] = True"
| "life_chain a (b # sts) = (life_step a b \<and> life_chain b sts)"

lemma life_chain_snoc: "life_chain a (sts @ [b]) = (life_chain a sts \<and> life_step (last (a # sts)) b)"
  by (induction sts arbitrary: a) auto

lemma life_chain_from_FAILED: "life_chain FAILED sts \<Longrightarrow> sts = []"
  by (cases sts) (auto simp: life_step_from)

lemma life_chain_failed_last: "life_chain a sts \<Longrightarrow> FAILED \<in> set (butlast (a # sts)) \<Longrightarrow> False"
proof (induction sts arbitrary: a)
  case (Cons b sts)
  then show ?case
    by (cases "a = FAILED") (auto simp: life_step_from split: if_splits)
qed simp

section \<open>The audit invariant\<close>

definition events_of :: "db \<Rightarrow> workload \<Rightarrow> workload_event list" where
  "events_of d w = filter (\<lambda>e. ev_workload_id e = wl_id w) (events d)"

definition row_audited :: "db \<Rightarrow> workload \<Rightarrow> bool" where
  "row_audited d w =
     (life_chain CREATED (map ev_state (events_of d w)) \<and>
      last (CREATED # map ev_state (events_of d w)) = wl_state w \<and>
      (wl_state w = FAILED \<longrightarrow>
        wl_error_message w = Some (ev_message (last (events_of d w)))))"

definition audit_ok :: "db \<Rightarrow> bool" where
  "audit_ok d = (distinct (map wl_id (workloads d)) \<and> list_all (row_audited d) (workloads d))"

text \<open>What the rest of the server may change freely: everything but these columns.\<close>

definition wl_core :: "workload \<Rightarrow> uuid \<times> string \<times> workload_state \<times> string option" where
  "wl_core w = (wl_id w, wl_workload_id w, wl_state w, wl_error_message w)"

definition same_life :: "db \<Rightarrow> db \<Rightarrow> bool" where
  "same_life d d' = (map wl_core (workloads d') = map wl_core (workloads d) \<and> events d' = events d)"

lemma same_life_refl [simp]: "same_life d d"
  by (simp add: same_life_def)

lemma map_eq_map_comp:
  assumes "map f xs = map f ys" and "\<And>x. g x = h (f x)"
  shows "map g xs = map g ys"
proof -
  have eq: "map g zs = map h (map f zs)" for zs by (simp add: assms(2))
  show ?thesis by (simp only: eq assms(1))
qed

lemma row_audited_core:
  "wl_core w' = wl_core w \<Longrightarrow> events d' = events d \<Longrightarrow> row_audited d' w' = row_audited d w"
  by (simp add: wl_core_def row_audited_def events_of_def)

lemma list_all_core:
  assumes "map wl_core xs = map wl_core ys" and "\<And>w w'. wl_core w' = wl_core w \<Longrightarrow> P w' = Q w"
  shows "list_all P xs = list_all Q ys"
  using assms(1)
proof (induction xs arbitrary: ys)
  case (Cons x xs)
  from Cons.prems obtain y ys' where ys: "ys = y # ys'" and xy: "wl_core x = wl_core y"
    and rest: "map wl_core xs = map wl_core ys'" by (cases ys) simp_all
  show ?case using Cons.IH [OF rest] assms(2) [OF xy] by (simp add: ys)
qed simp

lemma audit_same_life: "same_life d d' \<Longrightarrow> audit_ok d \<Longrightarrow> audit_ok d'"
proof -
  assume "same_life d d'" and a: "audit_ok d"
  then have core: "map wl_core (workloads d') = map wl_core (workloads d)" and ev: "events d' = events d"
    by (simp_all add: same_life_def)
  have "map wl_id (workloads d') = map wl_id (workloads d)"
    by (rule map_eq_map_comp [OF core, where h = fst]) (simp add: wl_core_def)
  moreover have "list_all (row_audited d') (workloads d') = list_all (row_audited d) (workloads d)"
    by (rule list_all_core [OF core]) (erule row_audited_core [OF _ ev])
  ultimately show "audit_ok d'" using a by (simp add: audit_ok_def)
qed

lemma events_of_apply:
  "events_of (apply_transition w new tr msg eid t d) x =
     events_of d x @ (if wl_id w = wl_id x
       then [\<lparr>ev_id = eid, ev_workload_id = wl_id w, ev_state = new, ev_trigger = tr,
              ev_message = msg, ev_event_time = t\<rparr>] else [])"
  by (simp add: events_of_def apply_transition_def)

lemma events_of_id: "wl_id x = wl_id y \<Longrightarrow> events_of d x = events_of d y"
  by (simp add: events_of_def)

lemma distinct_id_eq:
  "distinct (map wl_id ws) \<Longrightarrow> x \<in> set ws \<Longrightarrow> y \<in> set ws \<Longrightarrow> wl_id x = wl_id y \<Longrightarrow> x = y"
  by (metis distinct_map inj_onD)

lemma row_audited_apply:
  assumes w: "w \<in> set (workloads d)" and a: "audit_ok d"
    and step: "new \<in> set (VALID_TRANSITIONS (wl_state w))"
    and x: "x \<in> set (workloads (apply_transition w new tr msg eid t d))"
  shows "row_audited (apply_transition w new tr msg eid t d) x"
proof -
  let ?f = "\<lambda>x. x\<lparr>wl_state := new,
      wl_error_message := (if new = FAILED then Some msg else wl_error_message x), wl_updated_at := t\<rparr>"
  from x obtain y where y: "y \<in> set (workloads d)" and xy: "x = (if wl_id y = wl_id w then ?f y else y)"
    by (auto simp: apply_transition_def update_where_def)
  have ra: "row_audited d y" using a y by (auto simp: audit_ok_def list_all_iff)
  show ?thesis
  proof (cases "wl_id y = wl_id w")
    case True
    then have yw: "y = w" using a y w by (auto simp: audit_ok_def intro: distinct_id_eq)
    have idx: "wl_id w = wl_id x" and st: "wl_state x = new"
      and err: "new = FAILED \<Longrightarrow> wl_error_message x = Some msg"
      using xy True by auto
    have evs: "events_of d x = events_of d w" by (rule events_of_id) (simp add: idx)
    show ?thesis using ra step
      by (simp add: row_audited_def events_of_apply evs idx [symmetric] st err yw life_chain_snoc
          table_is_life_step)
  next
    case False
    then show ?thesis using ra by (auto simp: row_audited_def events_of_apply xy)
  qed
qed

lemma audit_apply:
  assumes "w \<in> set (workloads d)" and a: "audit_ok d"
    and "new \<in> set (VALID_TRANSITIONS (wl_state w))"
  shows "audit_ok (apply_transition w new tr msg eid t d)"
proof -
  have "map wl_id (workloads (apply_transition w new tr msg eid t d)) = map wl_id (workloads d)"
    by (simp add: apply_transition_def map_update_where_frame)
  then show ?thesis using a row_audited_apply [OF assms]
    by (simp add: audit_ok_def list_all_iff)
qed

section \<open>What a transition does\<close>

lemma find_workload_SomeD: "find_workload d wid = Some w \<Longrightarrow> w \<in> set (workloads d) \<and> wl_workload_id w = wid"
  by (auto simp: find_workload_def find_Some_iff)

lemma find_workload_apply:
  "find_workload (apply_transition w new tr msg eid t d) wid =
     map_option (\<lambda>x. if wl_id x = wl_id w then x\<lparr>wl_state := new,
        wl_error_message := (if new = FAILED then Some msg else wl_error_message x),
        wl_updated_at := t\<rparr> else x) (find_workload d wid)"
  by (simp add: find_workload_def apply_transition_def find_update_where)

text \<open>The state a lookup by \<open>workload_id\<close> sees, in a table whose primary keys are unique.\<close>

definition in_state :: "string \<Rightarrow> workload_state \<Rightarrow> db \<Rightarrow> bool" where
  "in_state wid st d = (distinct (map wl_id (workloads d)) \<and> state_of d wid = Some st)"

lemma distinct_apply [simp]:
  "map wl_id (workloads (apply_transition w new tr msg eid t d)) = map wl_id (workloads d)"
  by (simp add: apply_transition_def map_update_where_frame)

lemma state_of_apply:
  assumes "distinct (map wl_id (workloads d))" and "find_workload d wid = Some w"
  shows "state_of (apply_transition w new tr msg eid t d) wid' =
           (if wid' = wid then Some new else state_of d wid')"
proof (cases "find_workload d wid'")
  case None
  then show ?thesis using assms by (auto simp: state_of_def find_workload_apply)
next
  case (Some x)
  have x: "x \<in> set (workloads d)" "wl_workload_id x = wid'"
    and w: "w \<in> set (workloads d)" "wl_workload_id w = wid"
    using find_workload_SomeD [OF Some] find_workload_SomeD [OF assms(2)] by blast+
  have "wl_id x = wl_id w \<longleftrightarrow> wid' = wid"
  proof
    assume "wl_id x = wl_id w"
    then have "x = w" by (rule distinct_id_eq [OF assms(1) x(1) w(1)])
    then show "wid' = wid" using x(2) w(2) by simp
  next
    assume "wid' = wid"
    then show "wl_id x = wl_id w" using Some assms(2) by simp
  qed
  then show ?thesis using Some by (auto simp: state_of_def find_workload_apply)
qed

lemma in_state_apply:
  "in_state wid st d \<Longrightarrow> find_workload d wid = Some w \<Longrightarrow>
   in_state wid new (apply_transition w new tr msg eid t d)"
  by (simp add: in_state_def state_of_apply)

lemma in_state_find: "in_state wid st d \<Longrightarrow> \<exists>w. find_workload d wid = Some w \<and> wl_state w = st"
  by (auto simp: in_state_def state_of_def)

lemma state_same_life: "same_life d d' \<Longrightarrow> state_of d' wid = state_of d wid"
proof -
  have core: "map_option wl_state (find (\<lambda>w. wl_workload_id w = wid) xs) =
      map_option wl_state (find (\<lambda>w. wl_workload_id w = wid) ys)"
    if "map wl_core xs = map wl_core ys" for xs ys
    using that
  proof (induction xs arbitrary: ys)
    case (Cons x xs)
    from Cons.prems obtain y ys' where ys: "ys = y # ys'" and xy: "wl_core x = wl_core y"
      and rest: "map wl_core xs = map wl_core ys'" by (cases ys) simp_all
    show ?case using Cons.IH [OF rest] xy by (simp add: ys wl_core_def)
  qed simp
  assume "same_life d d'"
  then have "map wl_core (workloads d') = map wl_core (workloads d)" by (simp add: same_life_def)
  from core [OF this] show ?thesis by (simp add: state_of_def find_workload_def)
qed

lemma in_state_same_life: "same_life d d' \<Longrightarrow> in_state wid st d \<Longrightarrow> in_state wid st d'"
proof -
  assume sl: "same_life d d'" and d: "in_state wid st d"
  then have "map wl_core (workloads d') = map wl_core (workloads d)" by (simp add: same_life_def)
  then have "map wl_id (workloads d') = map wl_id (workloads d)"
    by (rule map_eq_map_comp [where h = fst]) (simp add: wl_core_def)
  then show ?thesis using sl d by (simp add: in_state_def state_same_life)
qed

text \<open>Every branch of the action, exactly.\<close>

lemma transition_missing:
  "\<not> dead s \<Longrightarrow> find_workload (work s) wid = None \<Longrightarrow>
   transition_workload_state env wid new tr msg s =
     (Inl (ValueError (''Workload '' @ quoted wid @ '' not found'')), s)"
  by (simp add: transition_workload_state_def act_defs)

lemma transition_refused:
  "\<not> dead s \<Longrightarrow> find_workload (work s) wid = Some w \<Longrightarrow> \<not> life_step (wl_state w) new \<Longrightarrow>
   transition_workload_state env wid new tr msg s =
     (Inl (InvalidStateTransition (refusal_text env wid (wl_state w) new)), s)"
  by (simp add: transition_workload_state_def act_defs table_is_life_step)

lemma transition_taken:
  assumes "\<not> dead s" and "find_workload (work s) wid = Some w" and "life_step (wl_state w) new"
    and d': "d' = apply_transition w new tr msg (e_uuid env (ticks s)) (e_db_now env (Suc (ticks s))) (work s)"
  shows "transition_workload_state env wid new tr msg s =
     (case e_refuse env (Suc (Suc (ticks s))) d' of
        None \<Rightarrow> (Inr (), s\<lparr>committed := d', work := d', ticks := ticks s + 3\<rparr>)
      | Some e \<Rightarrow> (Inl e, s\<lparr>work := committed s, dead := True, ticks := ticks s + 3\<rparr>))"
  using assms(1-3)
  by (simp add: transition_workload_state_def act_defs table_is_life_step d' numeral_3_eq_3
      split: option.splits)

lemma transition_cases:
  assumes "transition_workload_state env wid new tr msg s = (r, s')"
  obtains
    (taken) w d' where "\<not> dead s" "find_workload (work s) wid = Some w" "life_step (wl_state w) new"
      "d' = apply_transition w new tr msg (e_uuid env (ticks s)) (e_db_now env (Suc (ticks s))) (work s)"
      "e_refuse env (Suc (Suc (ticks s))) d' = None"
      "r = Inr ()" "s' = s\<lparr>committed := d', work := d', ticks := ticks s + 3\<rparr>"
  | (lost) e where "r = Inl e" "s' = s\<lparr>work := committed s, dead := True, ticks := ticks s + 3\<rparr>"
  | (refused) e where "r = Inl e" "s' = s"
proof (cases "dead s")
  case True
  then show thesis using assms refused by (auto simp: transition_workload_state_def act_defs)
next
  case alive: False
  show thesis
  proof (cases "find_workload (work s) wid")
    case None
    then show thesis using assms refused alive by (auto simp: transition_missing)
  next
    case (Some w)
    show thesis
    proof (cases "life_step (wl_state w) new")
      case False
      then show thesis using assms refused alive Some by (auto simp: transition_refused)
    next
      case True
      then show thesis using assms taken lost alive Some
        by (auto simp: transition_taken [OF alive Some True refl] split: option.splits)
    qed
  qed
qed

section \<open>The contract with the tasks\<close>

text \<open>
  \<open>life_frame\<close> is what a property of the database must satisfy to survive everything the
  server does besides a transition; \<open>workload_invariant\<close> adds that an allowed transition
  keeps it. The task theories prove their preservation lemmas once, in these contexts.
\<close>

locale life_frame =
  fixes J :: "db \<Rightarrow> bool"
  assumes J_same_life: "same_life d d' \<Longrightarrow> J d \<Longrightarrow> J d'"
begin

lemma keeps_silent_change: "(\<And>d. same_life d (f d)) \<Longrightarrow> keeps (both J) (change f)"
  by (rule keeps_change) (blast intro: J_same_life)

end

locale workload_invariant = life_frame +
  assumes J_transition:
    "J d \<Longrightarrow> find_workload d wid = Some w \<Longrightarrow> life_step (wl_state w) new \<Longrightarrow>
     J (apply_transition w new tr msg eid t d)"
begin

lemma keeps_transition: "keeps (both J) (transition_workload_state env wid new tr msg)"
proof (rule keepsI)
  fix s assume s: "both J s"
  obtain r s' where run: "transition_workload_state env wid new tr msg s = (r, s')" by fastforce
  from run have "both J s'"
    by (cases rule: transition_cases) (use s in \<open>auto simp: both_def intro: J_transition\<close>)
  then show "both J (snd (transition_workload_state env wid new tr msg s))" by (simp add: run)
qed

end

interpretation at_state: life_frame "in_state wid st" for wid st
  by unfold_locales (rule in_state_same_life)

interpretation audit: workload_invariant audit_ok
  by unfold_locales
    (auto intro: audit_same_life audit_apply dest: find_workload_SomeD simp: table_is_life_step)

interpretation terminal: workload_invariant "in_state wid FAILED" for wid
proof unfold_locales
  fix d wid' w new tr msg eid t
  assume d: "in_state wid FAILED d" and w: "find_workload d wid' = Some w" and st: "life_step (wl_state w) new"
  have "wid' \<noteq> wid" using d w st by (auto simp: in_state_def state_of_def life_step_from)
  then show "in_state wid FAILED (apply_transition w new tr msg eid t d)"
    using d w by (simp add: in_state_def state_of_apply)
qed

text \<open>A transition between known states, as an outcome rule for the tasks.\<close>

lemma hoare_transition:
  assumes "life_step a b"
  shows "hoare (both (in_state wid a)) (transition_workload_state env wid b tr msg)
    (\<lambda>_. both (in_state wid b)) (\<lambda>_. both (in_state wid a))"
proof (rule hoareI)
  fix s u s' assume s: "both (in_state wid a) s"
    and "transition_workload_state env wid b tr msg s = (Inr u, s')"
  from this(2) show "both (in_state wid b) s'"
    by (cases rule: transition_cases) (use s in \<open>auto simp: both_def intro: in_state_apply\<close>)
next
  fix s e s' assume s: "both (in_state wid a) s"
    and "transition_workload_state env wid b tr msg s = (Inl e, s')"
  from this(2) show "both (in_state wid a) s'"
    by (cases rule: transition_cases) (use s in \<open>auto simp: both_def\<close>)
qed

section \<open>Properties of the state machine\<close>

text \<open>C8: a transition that returns moved exactly that workload along an edge of the documented
life cycle, left every other workload where it was and appended exactly one audit event that
names the new state; one that raises left the committed database as it was.\<close>

theorem transition_refines_life_cycle:
  assumes "transition_workload_state env wid new tr msg s = (r, s')"
    and "distinct (map wl_id (workloads (work s)))"
  shows "case r of
      Inr _ \<Rightarrow>
        (\<exists>cur. state_of (work s) wid = Some cur \<and> life_step cur new) \<and>
        state_of (committed s') wid = Some new \<and>
        list_all (\<lambda>w. wl_workload_id w = wid \<or>
          state_of (committed s') (wl_workload_id w) = state_of (work s) (wl_workload_id w))
          (workloads (work s)) \<and>
        (\<exists>ev. events (committed s') = events (work s) @ [ev] \<and> ev_state ev = new \<and>
          ev_trigger ev = tr \<and> ev_message ev = msg)
    | Inl e \<Rightarrow> committed s' = committed s"
  using assms(1)
proof (cases rule: transition_cases)
  case (taken w d')
  then have st: "state_of d' wid' = (if wid' = wid then Some new else state_of (work s) wid')" for wid'
    using assms(2) by (simp add: state_of_apply)
  have "events d' = events (work s) @ [\<lparr>ev_id = e_uuid env (ticks s), ev_workload_id = wl_id w,
      ev_state = new, ev_trigger = tr, ev_message = msg, ev_event_time = e_db_now env (Suc (ticks s))\<rparr>]"
    using taken by (simp add: apply_transition_def)
  with st taken show ?thesis
    by (auto simp: state_of_def list_all_iff)
qed auto

lemma transition_refines_life_cycle_witness:
  "\<exists>ev. events (committed (snd (transition_workload_state calm_env ''wl-1'' VALIDATING ''t'' ''m''
      (fresh_sess (sample_db ''wl-1'' CREATED []))))) = [ev] \<and> ev_state ev = VALIDATING"
proof -
  let ?s = "fresh_sess (sample_db ''wl-1'' CREATED [])"
  obtain r s' where run: "transition_workload_state calm_env ''wl-1'' VALIDATING ''t'' ''m'' ?s = (r, s')"
    by fastforce
  have ok: "r = Inr ()"
    using run by (auto simp: transition_workload_state_def act_defs sample_defs find_workload_def)
  have "distinct (map wl_id (workloads (work ?s)))" by (simp add: sample_defs)
  from transition_refines_life_cycle [OF run this] ok run show ?thesis
    by (auto simp: sample_defs)
qed

text \<open>the audit log of every workload is a path of the life cycle from CREATED to the
state the row shows, and a FAILED row carries the message of its last event; no transition
breaks this, whatever the database answers.\<close>

theorem transition_keeps_audit:
  assumes "audit_ok (committed s)" and "audit_ok (work s)"
  shows "audit_ok (committed (snd (transition_workload_state env wid new tr msg s)))"
  using keepsD [OF audit.keeps_transition, of s env wid new tr msg] assms by (simp add: both_def)

lemma transition_keeps_audit_witness:
  "audit_ok (committed (snd (transition_workload_state calm_env ''wl-1'' VALIDATING ''t'' ''m''
      (fresh_sess (sample_db ''wl-1'' CREATED [])))))"
  by (rule transition_keeps_audit)
    (simp_all add: audit_ok_def row_audited_def events_of_def sample_defs)

text \<open>FAILED is absorbing: no transition leaves it, not even the one to FAILED that
\<open>WorkloadState\<close> lists for ANY state, and the refused call writes nothing.\<close>

theorem failed_is_terminal:
  assumes "\<not> dead s" and "state_of (work s) wid = Some FAILED"
  shows "\<exists>m. transition_workload_state env wid new tr msg s = (Inl (InvalidStateTransition m), s)"
proof -
  from assms(2) obtain w where w: "find_workload (work s) wid = Some w" and "wl_state w = FAILED"
    by (auto simp: state_of_def)
  then show ?thesis using transition_refused [OF assms(1) w, of new env tr msg]
    by (simp add: life_step_from)
qed

lemma failed_is_terminal_witness:
  "\<exists>m. transition_workload_state calm_env ''wl-1'' FAILED ''t'' ''m'' (fresh_sess (sample_db ''wl-1'' FAILED []))
     = (Inl (InvalidStateTransition m), fresh_sess (sample_db ''wl-1'' FAILED []))"
  by (rule failed_is_terminal) (simp_all add: sample_defs state_of_def find_workload_def)

end
