(* ===== verification/Manifest_Builder.thy ===== *)
theory Manifest_Builder
  imports Session
begin

text \<open>
  \<open>app/services/manifest_builder.py\<close> and \<open>app/services/dependency_installer.py\<close>: the shell
  commands the worker sends to a GPU node, character by character, and the control flow of the
  installer's script.
\<close>

section \<open>Commands of the manifest builder\<close>

definition NODE_ENV_FILE :: string where
  "NODE_ENV_FILE = ''$HOME/.aistudio/env''"

definition LOAD_NODE_ENV :: string where
  "LOAD_NODE_ENV = ''if [ -f '' @ NODE_ENV_FILE @ '' ]; then set -a; . '' @ NODE_ENV_FILE @
     ''; set +a; fi''"

definition hf_token_flags :: string where
  "hf_token_flags = ''${HF_TOKEN:+-e HF_TOKEN} '' @
     ''${HF_TOKEN:+-e HUGGING_FACE_HUB_TOKEN='' @ dq @ ''$HF_TOKEN'' @ dq @ ''}''"

definition bench_container :: "string \<Rightarrow> string" where
  "bench_container run_id = (if run_id \<noteq> [] then ''llmbench-'' @ run_id else ''llmbench'')"

definition docker_rm_cmd :: "string \<Rightarrow> string" where
  "docker_rm_cmd name = ''docker rm -f '' @ name @ '' 2>/dev/null || true''"

definition bench_args ::
  "(json \<Rightarrow> string) \<Rightarrow> string \<Rightarrow> dict \<Rightarrow> string \<Rightarrow> string \<Rightarrow> string list" where
  "bench_args rep model_name config run_id dataset_path =
     [''--model'', model_name,
      ''--output_data_path'', ''/results/'' @ run_id,
      ''--run_name'', (if run_id \<noteq> [] then run_id else model_name),
      ''--tp'', str_json rep (dict_get_or config ''gpu_count'' (JInt 1)),
      ''--concurrencies'', str_json rep (dict_get_or config ''concurrency'' (JInt 32)),
      ''--dataset-path'', dataset_path] @
     (if truthy (dict_get config ''max_model_len'')
      then [''--max_model_len'', str_json rep (dict_get config ''max_model_len'')] else []) @
     (if truthy (dict_get_or config ''enable_optimizations'' (JBool False))
      then [''--enable_optimizations''] else [])"

definition llm_image :: "settings \<Rightarrow> string option \<Rightarrow> string" where
  "llm_image st image_tag =
     get_workload_registry st @ ''/llminference:'' @
     (case image_tag of Some t \<Rightarrow> (if t \<noteq> [] then t else WORKLOAD_IMAGE_TAG st)
      | None \<Rightarrow> WORKLOAD_IMAGE_TAG st)"

definition build_llm_benchmark_command ::
  "settings \<Rightarrow> (json \<Rightarrow> string) \<Rightarrow> string \<Rightarrow> dict \<Rightarrow> string option \<Rightarrow> string \<Rightarrow> string \<Rightarrow> string" where
  "build_llm_benchmark_command st rep model_name config image_tag run_id dataset_path =
     (let dataset_mount = (if dataset_path \<noteq> [] then ''-v '' @ dataset_path @ '':'' @ dataset_path else []);
          run_cmd = py_join '' '' (filter (\<lambda>p. p \<noteq> [])
            [''docker run --gpus all --rm --name '' @ bench_container run_id,
             ''--ipc=host'',
             ''--entrypoint python3'',
             ''-v $HOME/.cache/huggingface:/root/.cache/huggingface'',
             ''-v '' @ NODE_RESULTS_PATH st @ '':/results'',
             dataset_mount,
             hf_token_flags,
             llm_image st image_tag,
             ''/llm-inference/benchmark.py'',
             py_join '' '' (bench_args rep model_name config run_id dataset_path)])
      in LOAD_NODE_ENV @ '' ; '' @ docker_rm_cmd (bench_container run_id) @ '' && '' @ run_cmd)"

definition jupyter_container :: "string \<Rightarrow> string" where
  "jupyter_container run_id = (if run_id \<noteq> [] then ''jupyter-'' @ run_id else ''jupyter_server'')"

definition build_jupyter_command :: "settings \<Rightarrow> string \<Rightarrow> string \<Rightarrow> string" where
  "build_jupyter_command st run_id base_url =
     (let image = get_workload_registry st @ ''/jupyternotebook:'' @ JUPYTER_IMAGE_TAG st;
          env_parts = [''-e workload_id='' @ run_id, ''-e workload_port=7008''] @
            (if base_url \<noteq> [] then [''-e JUPYTER_BASE_URL='' @ base_url] else []);
          run_cmd = py_join '' ''
            ([''docker run --gpus all -d --name '' @ jupyter_container run_id,
              ''-p $JUPYTER_PORT:7008 --ipc=host'',
              ''-v '' @ NODE_JUPYTER_DATA_PATH st @ '':/data''] @ env_parts @ [image])
      in LOAD_NODE_ENV @ '' ; '' @ docker_rm_cmd (jupyter_container run_id) @ '' && '' @ run_cmd)"

definition jupyter_api_path :: "string \<Rightarrow> string" where
  "jupyter_api_path base_url =
     (if base_url \<noteq> [] \<and> base_url \<noteq> ''/'' then rstrip_slash base_url @ ''/api'' else ''/api'')"

definition build_jupyter_health_command :: "string \<Rightarrow> string \<Rightarrow> string" where
  "build_jupyter_health_command run_id base_url =
     ''READY=0 && '' @
     ''for i in $(seq 1 300); do '' @
     ''  curl -sf http://localhost:$JUPYTER_PORT'' @ jupyter_api_path base_url @
       '' >/dev/null 2>&1 && READY=1 && break; '' @
     ''  [ $((i % 10)) -eq 0 ] && echo '' @ dq @ ''[$i/300] waiting for Jupyter...'' @ dq @ ''; sleep 1; '' @
     ''done && '' @
     ''[ '' @ dq @ ''$READY'' @ dq @ '' -eq 1 ] || '' @
     ''{ echo '' @ quoted ''ERROR: Jupyter did not start in 5 min'' @ ''; '' @
     ''  docker stop '' @ jupyter_container run_id @ '' 2>/dev/null; exit 1; } && '' @
     ''echo '' @ quoted ''Jupyter ready.''"

section \<open>The installer's script\<close>

definition install_image :: "settings \<Rightarrow> string" where
  "install_image st = get_workload_registry st @ ''/llminference:'' @ WORKLOAD_IMAGE_TAG st"

definition install_script :: "settings \<Rightarrow> string" where
  "install_script st =
     (let image = install_image st in
     ''echo '' @ dq @ ''Checking Docker...'' @ dq @ '' && '' @
     ''if ! command -v docker > /dev/null 2>&1; then '' @
     ''  echo '' @ dq @ ''Docker not found. Please install Docker first.'' @ dq @ '' && exit 1; '' @
     ''fi && '' @
     ''echo '' @ dq @ ''Pulling workload image: '' @ image @ dq @ '' && '' @
     ''docker pull '' @ image @ '' > /tmp/docker_pull.log 2>&1 & '' @
     ''PULL_PID=$! && '' @
     ''while kill -0 $PULL_PID 2>/dev/null; do '' @
     ''  LAYERS=$(grep -c '' @ dq @ ''Pull complete'' @ dq @ '' /tmp/docker_pull.log 2>/dev/null || echo 0); '' @
     ''  echo '' @ dq @ ''Pulling... ($LAYERS layer(s) ready)'' @ dq @ ''; '' @
     ''  sleep 10; '' @
     ''done && '' @
     ''wait $PULL_PID && PULL_EXIT=$? && '' @
     ''cat /tmp/docker_pull.log && '' @
     ''[ $PULL_EXIT -eq 0 ] && echo '' @ dq @ ''Image ready.'' @ dq @ '' || '' @
     ''{ echo '' @ dq @ ''Pull failed (exit $PULL_EXIT)'' @ dq @ ''; exit $PULL_EXIT; }'')"

text \<open>
  The script as a program. A POSIX command leaves a status; \<open>a && b\<close> runs b after status 0 and
  \<open>a || b\<close> after any other, left to right; \<open>exit\<close> without an operand exits with the status of
  the last command. Everything before \<open>&\<close> is one background list, so its \<open>exit 1\<close> ends the
  background shell only; \<open>docker\<close> says whether it is on the node, \<open>pull\<close> is the status of
  \<open>docker pull\<close>. The shell's one variable that matters is \<open>PULL_EXIT\<close>, unset at first.
\<close>

type_synonym status = int

definition background_list :: "bool \<Rightarrow> status \<Rightarrow> status" where
  "background_list docker pull = (if \<not> docker then 1 else pull)"

definition and_then :: "status \<Rightarrow> status \<Rightarrow> status" where
  "and_then a b = (if a = 0 then b else a)"

fun exit_status :: "status \<Rightarrow> int option \<Rightarrow> status" where
  "exit_status last_status None = last_status"
| "exit_status last_status (Some n) = n"

text \<open>\<open>wait && PULL_EXIT=$? && cat && [ PULL_EXIT -eq 0 ] && echo || { echo; exit PULL_EXIT; }\<close>\<close>

definition foreground_list :: "status \<Rightarrow> status \<Rightarrow> status" where
  "foreground_list wait_status cat_status =
     (let pull_exit = (if wait_status = 0 then Some wait_status else None);
          tested = and_then wait_status (and_then cat_status
            (if pull_exit = Some 0 then 0 else 1))
      in if tested = 0 then 0 else exit_status 0 pull_exit)"

definition install_script_exit :: "bool \<Rightarrow> status \<Rightarrow> status \<Rightarrow> status" where
  "install_script_exit docker pull cat_status = foreground_list (background_list docker pull) cat_status"

section \<open>Properties\<close>

text \<open>the installer's script exits 0 whatever \<open>docker pull\<close> returned, and even without
docker on the node: \<open>PULL_EXIT\<close> is assigned only after \<open>wait\<close> succeeded, so the failure branch
runs a bare \<open>exit\<close> after a successful \<open>echo\<close>, and \<open>install_vllm\<close> reports success.\<close>

theorem install_script_always_succeeds: "install_script_exit docker pull cat_status = 0"
  by (simp add: install_script_exit_def foreground_list_def background_list_def and_then_def Let_def)

lemma py_join_append:
  "xs \<noteq> [] \<Longrightarrow> ys \<noteq> [] \<Longrightarrow> py_join sep (xs @ ys) = py_join sep xs @ sep @ py_join sep ys"
proof (induction xs)
  case (Cons x xs)
  then show ?case by (cases xs; cases ys) simp_all
qed simp

definition plain_word :: "string \<Rightarrow> bool" where
  "plain_word s = (s \<noteq> [] \<and> list_all (\<lambda>c. \<not> is_ws c) s)"

lemma space_ws: "is_ws CHR '' ''"
  by (simp add: is_ws_def Let_def)

lemma dropWhile_plain: "plain_word w \<Longrightarrow> dropWhile is_ws (w @ r) = w @ r"
  by (cases w) (auto simp: plain_word_def)

lemma py_words_word: "plain_word w \<Longrightarrow> py_words w = [w]"
proof -
  assume w: "plain_word w"
  then obtain c cs where c: "w = c # cs" by (cases w) (auto simp: plain_word_def)
  have tw: "takeWhile (\<lambda>x. \<not> is_ws x) w = w" "dropWhile (\<lambda>x. \<not> is_ws x) w = []"
    using w by (auto simp: plain_word_def list_all_iff)
  have "dropWhile is_ws w = w" using dropWhile_plain [OF w, of "[]"] by simp
  then show ?thesis using tw c by (subst py_words.simps) (simp add: py_words.simps [of "[]"])
qed

lemma py_words_cons: "plain_word w \<Longrightarrow> py_words (w @ CHR '' '' # r) = w # py_words r"
proof -
  assume w: "plain_word w"
  then obtain c cs where c: "w = c # cs" by (cases w) (auto simp: plain_word_def)
  have tw: "takeWhile (\<lambda>x. \<not> is_ws x) (w @ CHR '' '' # r) = w"
      "dropWhile (\<lambda>x. \<not> is_ws x) (w @ CHR '' '' # r) = CHR '' '' # r"
    using w by (auto simp: plain_word_def list_all_iff space_ws takeWhile_append dropWhile_append)
  have dw: "dropWhile is_ws (w @ CHR '' '' # r) = w @ CHR '' '' # r" by (rule dropWhile_plain [OF w])
  have "py_words (CHR '' '' # r) = py_words r"
    by (subst (1 2) py_words.simps) (simp add: space_ws)
  then show ?thesis using tw dw c by (subst py_words.simps) simp
qed

lemma py_words_join: "list_all plain_word ws \<Longrightarrow> py_words (py_join '' '' ws) = ws"
proof (induction ws)
  case Nil
  then show ?case by (simp add: py_words.simps)
next
  case (Cons w ws)
  then show ?case by (cases ws) (auto simp: py_words_word py_words_cons)
qed

text \<open>splitting the argument part of the benchmark command at white space gives back the
argument list, as long as the model name, the run id, the data set path and the printed numbers
hold no white space: nothing in between quotes them.\<close>

theorem bench_args_roundtrip:
  assumes "list_all plain_word (bench_args rep model_name config run_id dataset_path)"
  shows "py_words (py_join '' '' (bench_args rep model_name config run_id dataset_path)) =
     bench_args rep model_name config run_id dataset_path"
  using assms by (rule py_words_join)

lemma bench_args_roundtrip_witness:
  "py_words (py_join '' '' (bench_args (\<lambda>_. []) ''m'' [] ''wl-1'' ''/d.json'')) =
     bench_args (\<lambda>_. []) ''m'' [] ''wl-1'' ''/d.json''"
  by (rule bench_args_roundtrip)
    (simp add: bench_args_def plain_word_def dict_get_or_def dict_get_def str_json_def show_int_def
      show_nat.simps is_ws_def Let_def)

end
