(* ===== verification/Ssh_Exec.thy ===== *)
theory Ssh_Exec
  imports State_Machine Manifest_Builder
begin

text \<open>
  \<open>app/services/ssh_executor.py\<close>, \<open>node_inspector.py\<close> and the call of
  \<open>dependency_installer.py\<close>: running a command on a node, cleaning its output into log rows,
  and reading the hardware out of it. The transport (Paramiko and the node) is \<open>e_connect\<close> and
  \<open>e_exec\<close>; either may raise, the soft time limit of the task included.
\<close>

section \<open>Cleaning a line\<close>

text \<open>
  \<open>_ANSI_ESCAPE\<close>: ESC [ parameters letter, or ESC ( or ESC ) and one of A B 0 1 2, or CR.
  \<open>ansi_rest s\<close> is the text after a match at the start of s.
\<close>

definition is_csi_param :: "char \<Rightarrow> bool" where
  "is_csi_param c = (is_digit c \<or> c = CHR '';'')"

definition after_csi :: "string \<Rightarrow> string option" where
  "after_csi s = (case dropWhile is_csi_param s of
      [] \<Rightarrow> None | c # cs \<Rightarrow> if is_alpha c then Some cs else None)"

definition after_charset :: "string \<Rightarrow> string option" where
  "after_charset s = (case s of [] \<Rightarrow> None | c # cs \<Rightarrow> if c \<in> set ''AB012'' then Some cs else None)"

fun ansi_rest :: "string \<Rightarrow> string option" where
  "ansi_rest [] = None"
| "ansi_rest (c # cs) =
     (if c = CHR 0x0D then Some cs
      else if c = CHR 0x1B then
        (case cs of [] \<Rightarrow> None
         | d # ds \<Rightarrow> if d = CHR ''['' then after_csi ds
                    else if d = CHR ''('' \<or> d = CHR '')'' then after_charset ds
                    else None)
      else None)"

lemma after_csi_length: "after_csi s = Some r \<Longrightarrow> length r < length s"
  using length_dropWhile_le [of is_csi_param s] by (auto simp: after_csi_def split: list.splits if_splits)

lemma after_charset_length: "after_charset s = Some r \<Longrightarrow> length r < length s"
  by (auto simp: after_charset_def split: list.splits if_splits)

lemma ansi_rest_length: "ansi_rest s = Some r \<Longrightarrow> length r < length s"
  by (cases s) (auto split: if_splits list.splits dest!: after_csi_length after_charset_length)

function strip_ansi :: "string \<Rightarrow> string" where
  "strip_ansi [] = []"
| "strip_ansi (c # cs) =
     (case ansi_rest (c # cs) of Some r \<Rightarrow> strip_ansi r | None \<Rightarrow> c # strip_ansi cs)"
  by pat_completeness auto
termination
  by (relation "measure length") (auto dest: ansi_rest_length simp del: ansi_rest.simps)

declare strip_ansi.simps [simp del]

definition strip_crlf :: "string \<Rightarrow> string" where
  "strip_crlf s = (let e = (\<lambda>c. c = CHR 0x0D \<or> c = CHR 0x0A) in
     rev (dropWhile e (rev (dropWhile e s))))"

definition clean_line :: "string \<Rightarrow> string" where
  "clean_line l = py_strip (strip_crlf (strip_ansi l))"

section \<open>Log rows\<close>

definition log_row :: "uuid \<Rightarrow> uuid option \<Rightarrow> string \<Rightarrow> time \<Rightarrow> task_log" where
  "log_row i tid l t = \<lparr>tl_id = i, tl_task_id = tid, tl_line = l, tl_logged_at = t\<rparr>"

text \<open>\<open>session.add(TaskLog(...)); session.commit()\<close>, as \<open>_write_log\<close> and the executor do.\<close>

definition write_log :: "env \<Rightarrow> uuid option \<Rightarrow> string \<Rightarrow> unit act" where
  "write_log env task_id l =
     bindM (uuid4 env) (\<lambda>i.
     bindM (server_now env) (\<lambda>t.
     thenM (change (\<lambda>d. d\<lparr>task_logs := task_logs d @ [log_row i task_id l t]\<rparr>))
     (commit env)))"

section \<open>The executor\<close>

definition ssh_connect :: "env \<Rightarrow> string \<Rightarrow> string \<Rightarrow> unit act" where
  "ssh_connect env ip user = ask_fallible (\<lambda>n. e_connect env n ip user)"

definition exec_command :: "env \<Rightarrow> string \<Rightarrow> string \<Rightarrow> string \<Rightarrow> ssh_reply act" where
  "exec_command env ip user cmd = bindM (ask (\<lambda>n. e_exec env n ip user cmd)) lift_sum"

definition log_output :: "env \<Rightarrow> uuid option \<Rightarrow> string list \<Rightarrow> unit act" where
  "log_output env task_id ls =
     for_each ls (\<lambda>l. whenM (clean_line l \<noteq> []) (write_log env task_id (clean_line l)))"

definition run_command :: "env \<Rightarrow> string \<Rightarrow> string \<Rightarrow> string \<Rightarrow> uuid option \<Rightarrow> int act" where
  "run_command env ip user cmd task_id =
     bindM (exec_command env ip user cmd) (\<lambda>reply.
     thenM (with_session (log_output env task_id (reply_lines reply)))
     (ret (reply_exit reply)))"

definition run_command_quiet :: "env \<Rightarrow> string \<Rightarrow> string \<Rightarrow> string \<Rightarrow> string act" where
  "run_command_quiet env ip user cmd =
     bindM (exec_command env ip user cmd) (\<lambda>reply.
     if reply_exit reply \<noteq> 0
     then raise_exn (RuntimeError (''Command failed with exit '' @ show_int (reply_exit reply) @
            '': '' @ reply_stderr reply))
     else ret (py_strip (reply_stdout reply)))"

section \<open>The node inspector\<close>

definition parse_int :: "string \<Rightarrow> exn + int" where
  "parse_int s = (case py_int s of
      Some i \<Rightarrow> Inr i
    | None \<Rightarrow> Inl (ValueError (''invalid literal for int() with base 10: '' @ quoted s)))"

text \<open>One CSV line of \<open>nvidia-smi\<close>: lines with fewer than three fields are skipped.\<close>

definition gpu_of_line :: "string \<Rightarrow> exn + gpu option" where
  "gpu_of_line l =
     (case map py_strip (split_char CHR '','' l) of
        a # b # c # _ \<Rightarrow>
          (case parse_int a of Inl e \<Rightarrow> Inl e
           | Inr i \<Rightarrow> (case parse_int c of Inl e \<Rightarrow> Inl e
              | Inr m \<Rightarrow> Inr (Some \<lparr>gpu_index = i, gpu_name = b, gpu_memory_mb = m\<rparr>)))
      | _ \<Rightarrow> Inr None)"

fun gpus_of_lines :: "string list \<Rightarrow> exn + gpu list" where
  "gpus_of_lines [] = Inr []"
| "gpus_of_lines (l # ls) =
     (case gpu_of_line l of Inl e \<Rightarrow> Inl e
      | Inr g \<Rightarrow> (case gpus_of_lines ls of Inl e \<Rightarrow> Inl e
          | Inr gs \<Rightarrow> Inr (case g of None \<Rightarrow> gs | Some x \<Rightarrow> x # gs)))"

definition version_in :: "string \<Rightarrow> string \<Rightarrow> string option" where
  "version_in key l =
     (if contains_sub key l
      then (case py_words (py_strip (second_part key l)) of [] \<Rightarrow> None | v # _ \<Rightarrow> Some v)
      else None)"

fun read_versions :: "string list \<Rightarrow> specs \<Rightarrow> specs" where
  "read_versions [] sp = sp"
| "read_versions (l # ls) sp =
     (let sp1 = (case version_in ''Driver Version:'' l of None \<Rightarrow> sp | Some v \<Rightarrow> sp\<lparr>sp_driver_version := v\<rparr>);
          sp2 = (case version_in ''CUDA Version:'' l of None \<Rightarrow> sp1 | Some v \<Rightarrow> sp1\<lparr>sp_cuda_version := v\<rparr>)
      in read_versions ls sp2)"

definition initial_specs :: "string \<Rightarrow> specs" where
  "initial_specs ip = \<lparr>sp_gpus = [], sp_driver_version = ''unknown'', sp_cuda_version = ''unknown'',
     sp_server_name = ip\<rparr>"

definition gpu_query :: string where
  "gpu_query = ''nvidia-smi --query-gpu=index,name,memory.total --format=csv,noheader,nounits''"

definition inspect_vendor :: "env \<Rightarrow> string \<Rightarrow> string \<Rightarrow> string act" where
  "inspect_vendor env ip user =
     catchM
       (bindM (run_command_quiet env ip user ''cat /sys/class/dmi/id/sys_vendor'') (\<lambda>out.
        ret (if py_strip out \<noteq> [] then py_strip out else ip)))
       (\<lambda>_. ret ip)"

definition inspect :: "env \<Rightarrow> string \<Rightarrow> string \<Rightarrow> specs act" where
  "inspect env ip user =
     catchM
       (thenM (ssh_connect env ip user)
        (bindM (inspect_vendor env ip user) (\<lambda>vendor.
         bindM (run_command_quiet env ip user gpu_query) (\<lambda>out.
         bindM (lift_sum (gpus_of_lines (py_splitlines out))) (\<lambda>gpus.
         bindM (run_command_quiet env ip user ''nvidia-smi'') (\<lambda>versions.
         ret (read_versions (py_splitlines versions)
           ((initial_specs ip)\<lparr>sp_server_name := vendor, sp_gpus := gpus\<rparr>))))))))
       (\<lambda>e. raise_exn (RuntimeError (''Node inspection failed: '' @ exc_str e)))"

definition install_vllm :: "env \<Rightarrow> string \<Rightarrow> string \<Rightarrow> uuid \<Rightarrow> bool act" where
  "install_vllm env ip user task_id =
     thenM (ssh_connect env ip user)
     (bindM (run_command env ip user (install_script (e_settings env)) (Some task_id)) (\<lambda>code.
      ret (code = 0)))"

section \<open>Lemmas\<close>

lemma strip_ansi_no_cr: "CHR 0x0D \<notin> set (strip_ansi s)"
proof (induction s rule: strip_ansi.induct)
  case (2 c cs)
  show ?case
  proof (cases "ansi_rest (c # cs)")
    case None
    then have "c \<noteq> CHR 0x0D" by auto
    with None "2.IH" show ?thesis by (simp add: strip_ansi.simps(2) del: ansi_rest.simps)
  next
    case (Some r)
    with "2.IH" show ?thesis by (simp add: strip_ansi.simps(2) del: ansi_rest.simps)
  qed
qed (simp add: strip_ansi.simps)

lemma strip_ansi_plain:
  "CHR 0x0D \<notin> set s \<Longrightarrow> CHR 0x1B \<notin> set s \<Longrightarrow> strip_ansi s = s"
  by (induction s rule: strip_ansi.induct) (auto simp: strip_ansi.simps)

lemma gpus_of_lines_named: "gpus_of_lines ls = Inr gs \<Longrightarrow> length gs \<le> length ls"
  by (induction ls arbitrary: gs) (fastforce split: sum.splits option.splits)+

context life_frame
begin

lemma keeps_write_log [keeps_rules]: "keeps (both J) (write_log env tid l)"
  unfolding write_log_def
  by (intro keeps_rules keeps_silent_change) (simp add: same_life_def)

lemma keeps_run_command [keeps_rules]: "keeps (both J) (run_command env ip user cmd tid)"
  unfolding run_command_def exec_command_def log_output_def
  by (intro keeps_rules keeps_silent_change)

lemma keeps_inspect [keeps_rules]: "keeps (both J) (inspect env ip user)"
  unfolding inspect_def inspect_vendor_def ssh_connect_def run_command_quiet_def exec_command_def
  by (intro keeps_rules)

lemma keeps_install_vllm [keeps_rules]: "keeps (both J) (install_vllm env ip user tid)"
  unfolding install_vllm_def ssh_connect_def by (intro keeps_rules)

end

section \<open>Properties\<close>

text \<open>no carriage return reaches the log, and a line without escape codes and returns is
logged as it is, white space at its ends removed.\<close>

theorem clean_line_correct:
  "CHR 0x0D \<notin> set (clean_line l) \<and>
   (CHR 0x0D \<in> set l \<or> CHR 0x1B \<in> set l \<or> clean_line l = py_strip (strip_crlf l))"
proof
  have sub: "set (py_strip x) \<subseteq> set x" "set (strip_crlf x) \<subseteq> set x" for x
    unfolding py_strip_def strip_crlf_def Let_def
    by (auto dest!: set_dropWhileD)
  show "CHR 0x0D \<notin> set (clean_line l)"
    using strip_ansi_no_cr [of l] sub(1) [of "strip_crlf (strip_ansi l)"] sub(2) [of "strip_ansi l"]
    by (auto simp: clean_line_def)
  show "CHR 0x0D \<in> set l \<or> CHR 0x1B \<in> set l \<or> clean_line l = py_strip (strip_crlf l)"
    by (cases "CHR 0x0D \<in> set l"; cases "CHR 0x1B \<in> set l") (simp_all add: clean_line_def strip_ansi_plain)
qed

text \<open>whatever goes wrong while a node is inspected surfaces as one \<open>RuntimeError\<close> that
names the cause. The soft time limit is no exception to this: it is raised as an \<open>Exception\<close>
inside the \<open>try\<close>, so the task never sees it as a timeout.\<close>

theorem inspect_raises_runtime_error:
  assumes "inspect env ip user s = (Inl e, s')"
  shows "\<exists>cause. e = RuntimeError (''Node inspection failed: '' @ exc_str cause)"
  using assms by (auto simp: inspect_def catchM_def raise_exn_def split: prod.splits sum.splits)

lemma inspect_raises_runtime_error_witness:
  "\<exists>e s'. inspect (calm_env\<lparr>e_connect := (\<lambda>_ _ _. Some SoftTimeLimitExceeded)\<rparr>) ''h'' ''u'' (fresh_sess empty_db)
       = (Inl e, s') \<and> (\<exists>cause. e = RuntimeError (''Node inspection failed: '' @ exc_str cause))"
proof -
  let ?env = "calm_env\<lparr>e_connect := (\<lambda>_ _ _. Some SoftTimeLimitExceeded)\<rparr>"
  obtain e s' where run: "inspect ?env ''h'' ''u'' (fresh_sess empty_db) = (Inl e, s')"
    by (simp add: inspect_def ssh_connect_def act_defs calm_env_def)
  from run inspect_raises_runtime_error [OF run] show ?thesis by blast
qed

end
