(* ===== verification/Nginx_Proxy.thy ===== *)
theory Nginx_Proxy
  imports Session
begin

text \<open>
  \<open>app/services/nginx_proxy.py\<close>: the public URL and the base path of a Jupyter instance, the
  location file that routes one to the other, and the reload. The configuration directory is
  the session's \<open>files\<close>, an association list from path to content.
\<close>

definition jupyter_base_path :: "string \<Rightarrow> string \<Rightarrow> string" where
  "jupyter_base_path gpu_type task_id = ''/jupyter/'' @ py_upper gpu_type @ ''/'' @ task_id @ ''/''"

definition proxy_url :: "settings \<Rightarrow> string \<Rightarrow> string \<Rightarrow> string" where
  "proxy_url st gpu_type task_id =
     (let base = rstrip_slash (PROXY_BASE_URL st) in
      if base = [] then []
      else base @ ''/jupyter/'' @ py_upper gpu_type @ ''/'' @ task_id @ ''/lab'')"

definition location_header :: "string \<Rightarrow> string \<Rightarrow> string \<Rightarrow> int \<Rightarrow> string" where
  "location_header task_id gpu_type node_ip port =
     ''# Auto-generated by aistudio-server '' @ u_dash @ '' DO NOT EDIT MANUALLY'' @ nl @
     ''# Jupyter proxy for task: '' @ task_id @ nl @
     ''# GPU: '' @ gpu_type @ ''  '' @ u_arrow @ ''  '' @ node_ip @ '':'' @ show_int port @ nl"

definition location_directives :: "string \<Rightarrow> int \<Rightarrow> string" where
  "location_directives node_ip port =
     nl @
     ''    proxy_pass http://'' @ node_ip @ '':'' @ show_int port @ '';'' @ nl @
     ''    proxy_http_version 1.1;'' @ nl @
     ''    proxy_set_header Upgrade $http_upgrade;'' @ nl @
     ''    proxy_set_header Connection '' @ dq @ ''upgrade'' @ dq @ '';'' @ nl @
     ''    proxy_set_header Host $host;'' @ nl @
     ''    proxy_set_header X-Real-IP $remote_addr;'' @ nl @
     ''    proxy_set_header X-Forwarded-For $proxy_add_x_forwarded_for;'' @ nl @
     ''    proxy_cache_bypass $http_upgrade;'' @ nl @
     ''    proxy_read_timeout 86400;'' @ nl @
     ''}'' @ nl"

text \<open>\<open>_LOCATION_TEMPLATE.format(...)\<close>.\<close>

definition location_file :: "string \<Rightarrow> string \<Rightarrow> string \<Rightarrow> int \<Rightarrow> string" where
  "location_file task_id gpu_type node_ip port =
     location_header task_id gpu_type node_ip port @
     ''location /jupyter/'' @ gpu_type @ ''/'' @ task_id @ ''/ {'' @
     location_directives node_ip port"

text \<open>\<open>os.path.join(dir, name)\<close> for a name that does not start with a slash.\<close>

definition path_join :: "string \<Rightarrow> string \<Rightarrow> string" where
  "path_join dir name =
     (if dir = [] \<or> last dir = CHR ''/'' then dir @ name else dir @ ''/'' @ name)"

definition conf_path :: "settings \<Rightarrow> string \<Rightarrow> string" where
  "conf_path st task_id = path_join (NGINX_CONF_DIR st) (''jupyter-'' @ task_id @ ''.conf'')"

definition reload_nginx :: "env \<Rightarrow> unit act" where
  "reload_nginx env =
     bindM (bindM (ask (e_reload env)) lift_sum) (\<lambda>(code, err).
     if code \<noteq> 0 then raise_exn (RuntimeError (''nginx reload failed: '' @ py_strip err)) else ret ())"

definition put_file :: "env \<Rightarrow> string \<Rightarrow> string \<Rightarrow> unit act" where
  "put_file env path content =
     thenM (ask_fallible (\<lambda>n. e_write_file env n path))
       (\<lambda>s. (Inr (), s\<lparr>files := (path, content) # filter (\<lambda>f. fst f \<noteq> path) (files s)\<rparr>))"

definition delete_file :: "env \<Rightarrow> string \<Rightarrow> unit act" where
  "delete_file env path =
     thenM (ask_fallible (\<lambda>n. e_remove_file env n path))
       (\<lambda>s. (Inr (), s\<lparr>files := filter (\<lambda>f. fst f \<noteq> path) (files s)\<rparr>))"

definition file_exists :: "string \<Rightarrow> sess \<Rightarrow> bool" where
  "file_exists path s = (path \<in> fst ` set (files s))"

text \<open>The write and the reload are two \<open>try\<close> blocks: a failed write returns before the reload.\<close>

definition write_jupyter_config :: "env \<Rightarrow> string \<Rightarrow> string \<Rightarrow> string \<Rightarrow> int \<Rightarrow> unit act" where
  "write_jupyter_config env task_id gpu_type node_ip port =
     (if \<not> NGINX_ENABLED (e_settings env) then ret ()
      else
        bindM (catchM
          (thenM (put_file env (conf_path (e_settings env) task_id)
             (location_file task_id (py_upper gpu_type) node_ip port)) (ret True))
          (\<lambda>_. ret False)) (\<lambda>written.
        if \<not> written then ret ()
        else catchM (reload_nginx env) (\<lambda>_. ret ())))"

definition remove_jupyter_config :: "env \<Rightarrow> string \<Rightarrow> unit act" where
  "remove_jupyter_config env task_id =
     (if \<not> NGINX_ENABLED (e_settings env) then ret ()
      else
        (let path = conf_path (e_settings env) task_id in
         catchM
           (bindM (\<lambda>s. (Inr (file_exists path s), s)) (\<lambda>there.
            if there then
              thenM (delete_file env path) (catchM (reload_nginx env) (\<lambda>_. ret ()))
            else ret ()))
           (\<lambda>_. ret ())))"

section \<open>Lemmas\<close>

lemma keeps_write_jupyter_config [keeps_rules]:
  "keeps (both J) (write_jupyter_config env task_id gpu_type node_ip port)"
  by (simp add: keeps_def write_jupyter_config_def put_file_def reload_nginx_def act_defs both_def
      split: option.splits sum.splits prod.splits)

lemma conf_path_inj: "conf_path st a = conf_path st b \<Longrightarrow> a = b"
  by (simp add: conf_path_def path_join_def split: if_splits)

lemma nginx_removal_quiet:
  "\<exists>s'. remove_jupyter_config env task_id s = (Inr (), s') \<and> committed s' = committed s \<and> work s' = work s"
  by (simp add: remove_jupyter_config_def delete_file_def reload_nginx_def act_defs Let_def
      split: option.splits sum.splits prod.splits)

lemma nginx_write_quiet:
  "\<exists>s'. write_jupyter_config env task_id gpu_type node_ip port s = (Inr (), s') \<and>
     committed s' = committed s \<and> work s' = work s"
  by (simp add: write_jupyter_config_def put_file_def reload_nginx_def act_defs Let_def
      split: option.splits sum.splits prod.splits)

section \<open>Properties\<close>

text \<open>a misconfigured nginx never blocks a launch: writing and removing a location return
normally whatever the file system and the reload do, and touch no database.\<close>

theorem nginx_never_raises:
  "(\<exists>s'. write_jupyter_config env task_id gpu_type node_ip port s = (Inr (), s') \<and>
      committed s' = committed s \<and> work s' = work s) \<and>
   (\<exists>s'. remove_jupyter_config env task_id s = (Inr (), s') \<and>
      committed s' = committed s \<and> work s' = work s)"
  by (intro conjI nginx_write_quiet nginx_removal_quiet)

text \<open>the route and the notebook agree: the location nginx matches is the base path the
container is told to serve, the public URL is that path under the proxy, and the file of one
instance never overwrites that of another.\<close>

theorem proxy_paths_agree:
  "(rstrip_slash (PROXY_BASE_URL st) = [] \<or>
    proxy_url st gpu tid = rstrip_slash (PROXY_BASE_URL st) @ jupyter_base_path gpu tid @ ''lab'') \<and>
   contains_sub (''location '' @ jupyter_base_path gpu tid @ '' {'')
     (location_file tid (py_upper gpu) ip port) \<and>
   (conf_path st tid = conf_path st tid' \<longleftrightarrow> tid = tid')"
proof (intro conjI)
  have after: "after_sub p (xs @ p @ ys) \<noteq> None" if "p \<noteq> []" for p xs ys
    using that
  proof (induction xs)
    case Nil
    then show ?case by (cases p) (auto simp: starts_with_def)
  qed auto
  let ?p = "''location '' @ jupyter_base_path gpu tid @ '' {''"
  have "location_file tid (py_upper gpu) ip port =
      location_header tid (py_upper gpu) ip port @ ?p @ location_directives ip port"
    by (simp add: location_file_def jupyter_base_path_def)
  then show "contains_sub ?p (location_file tid (py_upper gpu) ip port)"
    using after [of ?p] by (simp only: contains_sub_def) simp
qed (auto simp: proxy_url_def jupyter_base_path_def Let_def dest: conf_path_inj)

text \<open>a location that was written is gone after its removal, if the file system obeys.\<close>

theorem location_removed:
  assumes "NGINX_ENABLED (e_settings env)" and "\<And>n p. e_remove_file env n p = None"
  shows "\<not> file_exists (conf_path (e_settings env) tid) (snd (remove_jupyter_config env tid s))"
  using assms(1)
  by (auto simp: remove_jupyter_config_def delete_file_def reload_nginx_def act_defs Let_def
      file_exists_def assms(2) split: option.splits sum.splits prod.splits if_splits)

lemma location_removed_witness:
  "\<not> file_exists (conf_path (default_settings\<lparr>NGINX_ENABLED := True\<rparr>) ''j'')
     (snd (remove_jupyter_config (calm_env\<lparr>e_settings := default_settings\<lparr>NGINX_ENABLED := True\<rparr>\<rparr>) ''j''
       ((fresh_sess empty_db)\<lparr>files := [(conf_path default_settings ''j'', ''x'')]\<rparr>)))"
  using location_removed [of "calm_env\<lparr>e_settings := default_settings\<lparr>NGINX_ENABLED := True\<rparr>\<rparr>" "''j''"]
  by (simp add: calm_env_def)

end
