(* ===== verification/Alerts.thy ===== *)
theory Alerts
  imports Session
begin

text \<open>
  \<open>app/services/slack_notifier.py\<close>: the two alert texts, the best-effort post and the
  per-process cooldown of the service alert. The web hook is the environment's \<open>e_post\<close>
  (a failed request or an error status is its exception); a post that went through is appended
  to the session's \<open>posts\<close>.
\<close>

definition resolve_service_ip :: "settings \<Rightarrow> string option \<Rightarrow> string" where
  "resolve_service_ip st lookup =
     (if SERVICE_HOST_IP st \<noteq> [] then SERVICE_HOST_IP st
      else case lookup of Some ip \<Rightarrow> ip | None \<Rightarrow> ''unknown'')"

definition ticked :: "string \<Rightarrow> string" where
  "ticked s = CHR 0x60 # s @ [CHR 0x60]"

definition workload_failure_text :: "env \<Rightarrow> string \<Rightarrow> string option \<Rightarrow> time \<Rightarrow> string" where
  "workload_failure_text env workload_id node_ip occurred_at =
     u_siren @ '' *Workload Failed*'' @ nl @
     ''Workload: '' @ ticked workload_id @ nl @
     ''Time: '' @ ticked (e_fmt_ts env occurred_at) @ nl @
     ''Node: '' @ ticked (case node_ip of Some ip \<Rightarrow> (if ip \<noteq> [] then ip else ''unknown'')
                          | None \<Rightarrow> ''unknown'')"

definition service_error_text :: "env \<Rightarrow> time \<Rightarrow> string \<Rightarrow> string" where
  "service_error_text env occurred_at service_ip =
     u_red @ '' *aistudio-server error*'' @ nl @
     ''Time: '' @ ticked (e_fmt_ts env occurred_at) @ nl @
     ''Service: '' @ ticked service_ip"

definition post_hook :: "env \<Rightarrow> string \<Rightarrow> unit act" where
  "post_hook env txt =
     thenM (ask_fallible (\<lambda>n. e_post env n txt))
       (\<lambda>s. (Inr (), s\<lparr>posts := posts s @ [txt]\<rparr>))"

definition send_sync :: "env \<Rightarrow> string \<Rightarrow> unit act" where
  "send_sync env txt =
     (if SLACK_ALERT_WEBHOOK_URL (e_settings env) = [] then ret ()
      else catchM (post_hook env txt) (\<lambda>_. ret ()))"

definition notify_workload_failure :: "env \<Rightarrow> string \<Rightarrow> string option \<Rightarrow> time option \<Rightarrow> unit act" where
  "notify_workload_failure env workload_id node_ip occurred_at =
     bindM (case occurred_at of Some t \<Rightarrow> ret t | None \<Rightarrow> now env) (\<lambda>t.
     send_sync env (workload_failure_text env workload_id node_ip t))"

section \<open>The cooldown\<close>

text \<open>
  \<open>_service_cooldown_active(now)\<close>: the module variable before, the answer and the variable
  after.
\<close>

definition service_cooldown_active :: "settings \<Rightarrow> time \<Rightarrow> time option \<Rightarrow> bool \<times> time option" where
  "service_cooldown_active st t last_alert =
     (let cooldown = SLACK_SERVICE_ALERT_COOLDOWN_SECONDS st * 1000000 in
      case last_alert of
        Some l \<Rightarrow> if t - l < cooldown then (True, last_alert) else (False, Some t)
      | None \<Rightarrow> (False, Some t))"

definition notify_service_error ::
  "env \<Rightarrow> string option \<Rightarrow> time option \<Rightarrow> time option \<Rightarrow> time option act" where
  "notify_service_error env lookup occurred_at last_alert =
     bindM (case occurred_at of Some t \<Rightarrow> ret t | None \<Rightarrow> now env) (\<lambda>t.
     case service_cooldown_active (e_settings env) t last_alert of
       (True, l) \<Rightarrow> ret l
     | (False, l) \<Rightarrow>
         thenM (send_sync env (service_error_text env t (resolve_service_ip (e_settings env) lookup)))
           (ret l))"

text \<open>The moments at which a sequence of calls gets past the cooldown.\<close>

fun alert_times :: "settings \<Rightarrow> time option \<Rightarrow> time list \<Rightarrow> time list" where
  "alert_times st last_alert [] = []"
| "alert_times st last_alert (t # ts) =
     (case service_cooldown_active st t last_alert of
        (True, l) \<Rightarrow> alert_times st l ts
      | (False, l) \<Rightarrow> t # alert_times st l ts)"

section \<open>Properties\<close>

lemma send_sync_no_raise: "hoare P (send_sync env txt) (\<lambda>_ _. True) (\<lambda>_ _. False)"
  by (simp add: hoare_def send_sync_def post_hook_def act_defs split: option.splits)

lemma notify_no_raise:
  "hoare P (notify_workload_failure env wid ip t) (\<lambda>_ _. True) (\<lambda>_ _. False)"
  by (simp add: hoare_def notify_workload_failure_def send_sync_def post_hook_def act_defs
      split: option.splits)

lemma keeps_send_sync [keeps_rules]: "keeps (both J) (send_sync env txt)"
  by (simp add: keeps_def send_sync_def post_hook_def act_defs both_def split: option.splits)

lemma keeps_notify_failure [keeps_rules]: "keeps (both J) (notify_workload_failure env wid ip t)"
  unfolding notify_workload_failure_def by (intro keeps_rules)

text \<open>The effects of an alert on the rest of the state: nothing but a post and answered questions.\<close>

lemma notify_frame:
  "notify_workload_failure env wid ip t s = (r, s') \<Longrightarrow>
   r = Inr () \<and> committed s' = committed s \<and> work s' = work s \<and> dead s' = dead s \<and>
   critical s' = critical s"
  by (auto simp: notify_workload_failure_def send_sync_def post_hook_def act_defs
      split: option.splits if_splits)

text \<open>alerting never raises into its caller and never touches the database, whatever the web
hook does.\<close>

theorem notify_is_best_effort:
  "\<exists>s'. notify_workload_failure env wid ip t s = (Inr (), s') \<and> committed s' = committed s \<and>
     work s' = work s \<and> (posts s' = posts s \<or> (\<exists>txt. posts s' = posts s @ [txt]))"
  by (auto simp: notify_workload_failure_def send_sync_def post_hook_def act_defs split: option.splits)

lemma alert_times_gap_from:
  "alert_times st (Some l) ts = a # as \<Longrightarrow>
   a - l \<ge> SLACK_SERVICE_ALERT_COOLDOWN_SECONDS st * 1000000"
  by (induction ts) (auto simp: service_cooldown_active_def Let_def split: if_splits)

text \<open>however often the health check polls, two successive service alerts of a process are
at least the cooldown apart.\<close>

theorem service_alerts_spaced:
  "successively (\<lambda>a b. b - a \<ge> SLACK_SERVICE_ALERT_COOLDOWN_SECONDS st * 1000000)
     (alert_times st last_alert ts)"
proof (induction ts arbitrary: last_alert)
  case (Cons t ts)
  show ?case
  proof (cases "service_cooldown_active st t last_alert")
    case (Pair active l)
    show ?thesis
    proof (cases active)
      case True
      with Pair Cons.IH [of l] show ?thesis by simp
    next
      case False
      have l: "l = Some t"
        using Pair False by (auto simp: service_cooldown_active_def Let_def split: option.splits if_splits)
      show ?thesis
        using Cons.IH [of l] Pair False l
        by (cases "alert_times st (Some t) ts") (auto dest: alert_times_gap_from)
    qed
  qed
qed simp

end
