(* ===== verification/Worker.thy ===== *)
theory Worker
  imports Ssh_Exec Nginx_Proxy Alerts
begin

text \<open>
  \<open>app/worker.py\<close>: the Celery tasks. Each task opens a session, moves the workload into a
  working state, drives the node over SSH and moves the workload on; any exception goes through
  \<open>fail_workload\<close> and is raised again, which ends the chain. The locale \<open>celery_task\<close> is the
  contract of one task and the chains are composed in it.
\<close>

section \<open>Helpers of the module\<close>

definition is_word :: "char \<Rightarrow> bool" where
  "is_word c = (is_alnum c \<or> c = CHR ''_'')"

function word_runs :: "string \<Rightarrow> string list" where
  "word_runs s =
     (case dropWhile (\<lambda>c. \<not> is_word c) s of
        [] \<Rightarrow> []
      | c # cs \<Rightarrow> takeWhile is_word (c # cs) # word_runs (dropWhile is_word (c # cs)))"
  by pat_completeness auto
termination
proof (relation "measure length")
  fix s c cs
  assume eq: "dropWhile (\<lambda>c. \<not> is_word c) s = c # cs"
  then have "is_word c" by (metis hd_dropWhile list.discI list.sel(1))
  then have "length (dropWhile is_word (c # cs)) \<le> length cs" by (simp add: length_dropWhile_le)
  also have "length cs < length (dropWhile (\<lambda>c. \<not> is_word c) s)" using eq by simp
  also have "\<dots> \<le> length s" by (rule length_dropWhile_le)
  finally show "(dropWhile is_word (c # cs), s) \<in> measure length" by simp
qed simp

declare word_runs.simps [simp del]

text \<open>
  \<open>re.search(r'\b([A-Za-z]*\d+[A-Za-z0-9]*)\b', name)\<close>: a match starts and ends at word
  boundaries and holds no underscore, so it is the first run of word characters that is
  alphanumeric throughout and has a digit.
\<close>

definition family_match :: "string \<Rightarrow> string option" where
  "family_match name = find (\<lambda>r. list_all is_alnum r \<and> list_ex is_digit r) (word_runs name)"

definition extract_gpu_type :: "specs option \<Rightarrow> exn + string" where
  "extract_gpu_type sp =
     (case (case sp of None \<Rightarrow> [] | Some x \<Rightarrow> sp_gpus x) of
        [] \<Rightarrow> Inr ''unknown''
      | g # _ \<Rightarrow>
          (case family_match (gpu_name g) of
             Some m \<Rightarrow> Inr (py_lower m)
           | None \<Rightarrow>
               if gpu_name g = [] then Inr ''unknown''
               else (case py_words (py_lower (gpu_name g)) of
                   [] \<Rightarrow> Inl IndexError | w # ws \<Rightarrow> Inr (last (w # ws)))))"

text \<open>One formatted line of the summary: the value must be a number or the formatting raises.\<close>

definition log_real :: "env \<Rightarrow> uuid \<Rightarrow> string \<Rightarrow> nat \<Rightarrow> string \<Rightarrow> json \<Rightarrow> unit act" where
  "log_real env tid label k unit_text j =
     bindM (lift_sum (real_or_raise j)) (\<lambda>r.
     write_log env (Some tid) (label @ fmt_fixed k r @ unit_text))"

definition divider :: string where
  "divider = concat (replicate 42 u_bar)"

definition log_result_summary :: "env \<Rightarrow> uuid \<Rightarrow> dict \<Rightarrow> unit act" where
  "log_result_summary env tid m =
     thenM (write_log env (Some tid) divider)
     (thenM (log_real env tid ''Throughput:    '' 1 '' tok/s'' (json_or (dict_get m ''total_token_throughput'') (JInt 0)))
     (thenM (whenM (truthy (dict_get m ''mean_ttft_ms''))
              (log_real env tid ''TTFT (mean):   '' 0 '' ms'' (dict_get m ''mean_ttft_ms'')))
     (thenM (whenM (truthy (dict_get m ''mean_tpot_ms''))
              (log_real env tid ''TPOT (mean):   '' 1 '' ms'' (dict_get m ''mean_tpot_ms'')))
     (thenM (log_real env tid ''E2E  (mean):   '' 0 '' ms'' (json_or (dict_get m ''mean_e2el_ms'') (JInt 0)))
     (thenM (whenM (truthy (dict_get m ''p50_e2el_ms''))
              (log_real env tid ''E2E  (p50):    '' 0 '' ms'' (dict_get m ''p50_e2el_ms'')))
     (thenM (whenM (truthy (dict_get m ''p99_e2el_ms''))
              (log_real env tid ''E2E  (p99):    '' 0 '' ms'' (dict_get m ''p99_e2el_ms'')))
     (thenM (log_real env tid ''Duration:      '' 1 '' s'' (json_or (dict_get m ''duration_s'') (JInt 0)))
     (thenM (whenM (truthy (dict_get m ''cost_metrics''))
              (bindM (lift_sum (json_get (dict_get m ''cost_metrics'') ''cost_per_million_tokens'')) (\<lambda>c.
               log_real env tid ''Cost/1M tok:   $'' 4 [] (json_or c (JInt 0)))))
     (thenM (write_log env (Some tid) divider)
     (write_log env (Some tid) (u_check @ '' Result saved to leaderboard.'')))))))))))"

section \<open>Rows the tasks read and change\<close>

definition nodes_of :: "env \<Rightarrow> workload \<Rightarrow> node list act" where
  "nodes_of env w =
     bindM (query (\<lambda>d. filter (\<lambda>n. nd_workload_id n = wl_id w) (nodes d))) (\<lambda>ns.
     ask (\<lambda>k. e_scan_nodes env k ns))"

definition fetch_workload_and_nodes :: "env \<Rightarrow> string \<Rightarrow> (workload \<times> node list) act" where
  "fetch_workload_and_nodes env wid =
     bindM (query (\<lambda>d. find_workload d wid)) (\<lambda>found.
     case found of
       None \<Rightarrow> raise_exn (no_attribute JNull ''id'')
     | Some w \<Rightarrow> bindM (nodes_of env w) (\<lambda>ns. ret (w, ns)))"

definition set_node :: "env \<Rightarrow> uuid \<Rightarrow> (node \<Rightarrow> node) \<Rightarrow> unit act" where
  "set_node env nid f =
     bindM (server_now env) (\<lambda>t.
     change (\<lambda>d. d\<lparr>nodes := update_where (\<lambda>n. nd_id n = nid) (\<lambda>n. (f n)\<lparr>nd_updated_at := t\<rparr>) (nodes d)\<rparr>))"

definition set_task :: "uuid \<Rightarrow> (task \<Rightarrow> task) \<Rightarrow> unit act" where
  "set_task tid f = change (\<lambda>d. d\<lparr>tasks := update_where (\<lambda>t. tk_id t = tid) f (tasks d)\<rparr>)"

definition add_task :: "env \<Rightarrow> uuid \<Rightarrow> uuid option \<Rightarrow> string \<Rightarrow> dict option \<Rightarrow> uuid act" where
  "add_task env wl nid run_name cfg =
     bindM (uuid4 env) (\<lambda>i.
     bindM (server_now env) (\<lambda>t.
     thenM (change (\<lambda>d. d\<lparr>tasks := tasks d @ [\<lparr>tk_id = i, tk_workload_id = wl, tk_node_id = nid,
        tk_run_name = run_name, tk_config = cfg, tk_status = ''running'', tk_started_at = t,
        tk_completed_at = None\<rparr>]\<rparr>))
     (thenM (commit env) (ret i))))"

definition finish_task :: "env \<Rightarrow> uuid \<Rightarrow> string \<Rightarrow> unit act" where
  "finish_task env tid status =
     bindM (now env) (\<lambda>t. set_task tid (\<lambda>k. k\<lparr>tk_status := status, tk_completed_at := Some t\<rparr>))"

definition add_result :: "benchmark_result \<Rightarrow> unit act" where
  "add_result r = change (\<lambda>d. d\<lparr>results := results d @ [r]\<rparr>)"

definition set_result :: "uuid \<Rightarrow> (benchmark_result \<Rightarrow> benchmark_result) \<Rightarrow> unit act" where
  "set_result rid f = change (\<lambda>d. d\<lparr>results := update_where (\<lambda>r. br_id r = rid) f (results d)\<rparr>)"

definition seconds_between :: "time \<Rightarrow> time \<Rightarrow> rat" where
  "seconds_between a b = of_int (b - a) / 1000000"

section \<open>Failing a workload\<close>

definition failed_result_row :: "uuid \<Rightarrow> workload \<Rightarrow> string \<Rightarrow> string option \<Rightarrow> time \<Rightarrow> time \<Rightarrow> benchmark_result" where
  "failed_result_row i w workload_id node_ip t created =
     \<lparr>br_id = i, br_run_id = workload_id, br_sub_run_index = 0,
      br_model_name = py_lower (wl_model_name w),
      br_pipeline_version = JStr ''vllm-openai:v0.14.1'',
      br_node_ips = (case node_ip of Some ip \<Rightarrow> (if ip \<noteq> [] then [ip] else []) | None \<Rightarrow> []),
      br_gpu_type = [], br_gpu_count = JInt 0, br_gpu_model = JStr [], br_server_name = JNull,
      br_precision = dict_get_or (dict_or_empty (wl_config w)) ''precision'' (JStr []),
      br_input_tokens = JInt 0, br_output_tokens = JInt 0, br_concurrency = JInt 0,
      br_parallelism = None, br_workload_type = ''llm'', br_status = ''failed'',
      br_total_token_throughput = JNull, br_mean_ttft_ms = JNull, br_mean_tpot_ms = JNull,
      br_mean_e2el_ms = JNull, br_metrics = JObj [], br_started_at = t, br_completed_at = Some t,
      br_duration_seconds = Some 0, br_created_at = created\<rparr>"

definition record_failed_result :: "env \<Rightarrow> workload \<Rightarrow> string \<Rightarrow> string option \<Rightarrow> unit act" where
  "record_failed_result env w workload_id node_ip =
     bindM (query (\<lambda>d. filter (\<lambda>r. br_run_id r = workload_id) (results d))) (\<lambda>rs.
     bindM (ask (\<lambda>k. e_scan_results env k rs)) (\<lambda>rs.
     bindM (now env) (\<lambda>t.
     case rs of
       [] \<Rightarrow>
         bindM (uuid4 env) (\<lambda>i.
         bindM (server_now env) (\<lambda>c.
         thenM (add_result (failed_result_row i w workload_id node_ip t c)) (commit env)))
     | existing # _ \<Rightarrow>
         if br_status existing = ''running'' then
           thenM (set_result (br_id existing) (\<lambda>r. r\<lparr>br_status := ''failed'', br_completed_at := Some t,
               br_duration_seconds := Some (seconds_between (br_started_at existing) t)\<rparr>))
             (commit env)
         else ret ())))"

definition is_jupyter :: "workload \<Rightarrow> bool" where
  "is_jupyter w = (dict_get (dict_or_empty (wl_config w)) ''workload_type'' = JStr ''jupyter'')"

definition fail_in_db :: "env \<Rightarrow> string \<Rightarrow> string \<Rightarrow> string \<Rightarrow> string option act" where
  "fail_in_db env wid trigger error =
     thenM (transition_workload_state env wid FAILED trigger error)
     (bindM (query (\<lambda>d. find_workload d wid)) (\<lambda>found.
      case found of
        None \<Rightarrow> ret None
      | Some w \<Rightarrow>
          bindM (nodes_of env w) (\<lambda>ns.
          let node_ip = (case ns of [] \<Rightarrow> None | n # _ \<Rightarrow> Some (nd_machine_ip n)) in
          thenM (if is_jupyter w then ret () else record_failed_result env w wid node_ip)
            (ret node_ip))))"

definition stuck_text :: "string \<Rightarrow> string \<Rightarrow> string" where
  "stuck_text wid trigger = ''WORKLOAD '' @ wid @ '' STUCK: could not write FAILED state (trigger='' @
     trigger @ ''). Manual DB intervention required.''"

definition fail_workload :: "env \<Rightarrow> string \<Rightarrow> string \<Rightarrow> string \<Rightarrow> unit act" where
  "fail_workload env wid trigger error =
     bindM (now env) (\<lambda>occurred_at.
     bindM (catchM
       (bindM (with_session (fail_in_db env wid trigger error)) (\<lambda>ip. ret (Some ip)))
       (\<lambda>_. thenM (log_critical (stuck_text wid trigger)) (ret None))) (\<lambda>written.
     case written of
       None \<Rightarrow> ret ()
     | Some node_ip \<Rightarrow> notify_workload_failure env wid node_ip (Some occurred_at)))"

text \<open>The frame all four tasks share: the session, the two handlers and the return value.\<close>

definition task_frame :: "env \<Rightarrow> string \<Rightarrow> string \<Rightarrow> string \<Rightarrow> unit act \<Rightarrow> string act" where
  "task_frame env wid trigger timeout_text body =
     catchM (thenM (with_session body) (ret wid))
       (\<lambda>e. thenM (fail_workload env wid trigger
               (if e = SoftTimeLimitExceeded then timeout_text else exc_str e))
             (raise_exn e))"

section \<open>validate_node\<close>

definition set_node_state :: "env \<Rightarrow> node \<Rightarrow> node_state \<Rightarrow> unit act" where
  "set_node_state env n st = set_node env (nd_id n) (\<lambda>x. x\<lparr>nd_state := st\<rparr>)"

definition gpu_line :: "gpu \<Rightarrow> string" where
  "gpu_line g = ''GPU '' @ show_int (gpu_index g) @ '': '' @ gpu_name g @ ''  ('' @
     fmt_fixed 1 (of_int (gpu_memory_mb g) / 1024) @ '' GB VRAM)''"

definition log_specs :: "env \<Rightarrow> uuid \<Rightarrow> specs \<Rightarrow> unit act" where
  "log_specs env tid sp =
     thenM (if sp_gpus sp \<noteq> []
            then for_each (sp_gpus sp) (\<lambda>g. write_log env (Some tid) (gpu_line g))
            else write_log env (Some tid) ''WARNING: No GPUs detected via nvidia-smi'')
     (thenM (write_log env (Some tid) (''Driver: '' @ sp_driver_version sp @ ''   CUDA: '' @ sp_cuda_version sp))
     (write_log env (Some tid) (''Server:   '' @ sp_server_name sp)))"

definition validate_one :: "env \<Rightarrow> uuid \<Rightarrow> node \<Rightarrow> unit act" where
  "validate_one env tid n =
     thenM (set_node_state env n N_VALIDATING)
     (thenM (commit env)
     (thenM (write_log env (Some tid)
        (''Connecting to '' @ nd_machine_ip n @ '' as '' @ nd_machine_username n @ ''...''))
     (bindM (catchM (inspect env (nd_machine_ip n) (nd_machine_username n))
        (\<lambda>e. thenM (write_log env (Some tid) (''ERROR: '' @ exc_str e)) (raise_exn e))) (\<lambda>sp.
      thenM (log_specs env tid sp)
     (thenM (set_node env (nd_id n) (\<lambda>x. x\<lparr>nd_specs := Some sp, nd_gpus := Some (sp_gpus sp),
        nd_state := N_VALIDATED\<rparr>))
     (thenM (commit env)
     (write_log env (Some tid) (u_check @ '' Node '' @ nd_machine_ip n @ '' validated.''))))))))"

definition validate_nodes :: "env \<Rightarrow> string \<Rightarrow> nat act" where
  "validate_nodes env wid =
     bindM (fetch_workload_and_nodes env wid) (\<lambda>(w, ns).
     bindM (add_task env (wl_id w) (case ns of [] \<Rightarrow> None | n # _ \<Rightarrow> Some (nd_id n))
        (wid @ ''-validate'') (Some [])) (\<lambda>tid.
     thenM (write_log env (Some tid) ''=== [1/3] Validating Node ==='')
     (thenM (for_each ns (validate_one env tid))
     (thenM (finish_task env tid ''success'')
     (thenM (commit env) (ret (length ns)))))))"

definition validate_node :: "env \<Rightarrow> string \<Rightarrow> string act" where
  "validate_node env wid = task_frame env wid ''validate_node'' ''Node validation timed out''
     (thenM (transition_workload_state env wid VALIDATING ''validate_node'' ''Starting node validation'')
     (bindM (validate_nodes env wid) (\<lambda>k.
      transition_workload_state env wid VALIDATED ''validate_node''
        (''All '' @ show_nat k @ '' node(s) passed validation''))))"

section \<open>install_dependencies\<close>

definition install_one :: "env \<Rightarrow> string \<Rightarrow> workload \<Rightarrow> node \<Rightarrow> unit act" where
  "install_one env wid w n =
     thenM (set_node_state env n N_INSTALLING)
     (bindM (add_task env (wl_id w) (Some (nd_id n)) (wid @ ''-'' @ nd_machine_id n @ ''-install'') (Some [])) (\<lambda>tid.
      thenM (write_log env (Some tid) ''=== [2/3] Installing Dependencies ==='')
     (thenM (write_log env (Some tid) (''Node: '' @ nd_machine_ip n))
     (bindM (install_vllm env (nd_machine_ip n) (nd_machine_username n) tid) (\<lambda>success.
      if success then
        thenM (finish_task env tid ''success'')
        (thenM (set_node env (nd_id n) (\<lambda>x. x\<lparr>nd_sw_installed := True, nd_state := N_READY\<rparr>))
        (commit env))
      else
        thenM (finish_task env tid ''failed'')
        (thenM (set_node_state env n N_FAILED)
        (thenM (commit env)
        (raise_exn (RuntimeError (''Dependency installation failed on node '' @ nd_machine_ip n))))))))))"

definition install_nodes :: "env \<Rightarrow> string \<Rightarrow> unit act" where
  "install_nodes env wid =
     bindM (fetch_workload_and_nodes env wid) (\<lambda>(w, ns). for_each ns (install_one env wid w))"

definition install_dependencies :: "env \<Rightarrow> string \<Rightarrow> string act" where
  "install_dependencies env wid = task_frame env wid ''install_dependencies'' ''Installation timed out''
     (thenM (transition_workload_state env wid INSTALLING ''install_dependencies'' ''Installing dependencies on nodes'')
     (thenM (install_nodes env wid)
     (transition_workload_state env wid READY ''install_dependencies''
        ''All dependencies installed successfully'')))"

section \<open>execute_benchmark\<close>

definition gpu_state_cmd :: string where
  "gpu_state_cmd =
     ''echo '' @ quoted ''--- GPU state before benchmark ---'' @ '' && '' @
     ''nvidia-smi --query-gpu=name,memory.used,memory.free,utilization.gpu '' @
     ''--format=csv,noheader,nounits 2>/dev/null | '' @
     ''awk -F'' @ quoted '','' @ '' '' @
     quoted (''{printf '' @ dq @ ''GPU: %s  VRAM used: %s MB  free: %s MB  util: %s%%'' @ bs @ ''n'' @ dq @
       '',$1,$2,$3,$4}'') @ '' '' @
     ''|| echo '' @ quoted ''nvidia-smi not available''"

definition node_gpus :: "node \<Rightarrow> gpu list" where
  "node_gpus n = (case nd_specs n of None \<Rightarrow> [] | Some sp \<Rightarrow> sp_gpus sp)"

definition node_server_name :: "node \<Rightarrow> string" where
  "node_server_name n = (case nd_specs n of None \<Rightarrow> nd_machine_ip n | Some sp \<Rightarrow> sp_server_name sp)"

definition first_gpu_name :: "node \<Rightarrow> string" where
  "first_gpu_name n = (case node_gpus n of [] \<Rightarrow> [] | g # _ \<Rightarrow> gpu_name g)"

definition gpu_count_of :: "node \<Rightarrow> nat" where
  "gpu_count_of n = (if node_gpus n = [] then 1 else length (node_gpus n))"

text \<open>The keyword arguments the pending row and the sub-run rows have in common.\<close>

definition bench_row :: "uuid \<Rightarrow> time \<Rightarrow> string \<Rightarrow> workload \<Rightarrow> node \<Rightarrow> string \<Rightarrow> string \<Rightarrow> dict \<Rightarrow> time \<Rightarrow> benchmark_result" where
  "bench_row i created wid w n gpu_type precision cfg started =
     \<lparr>br_id = i, br_run_id = wid, br_sub_run_index = 0,
      br_model_name = py_lower (wl_model_name w),
      br_pipeline_version = JStr ''vllm-openai:v0.14.1'',
      br_node_ips = [nd_machine_ip n],
      br_gpu_type = gpu_type, br_gpu_count = JInt (int (gpu_count_of n)),
      br_gpu_model = JStr (first_gpu_name n), br_server_name = JStr (node_server_name n),
      br_precision = JStr precision,
      br_input_tokens = dict_get_or cfg ''input_tokens'' (JInt 0),
      br_output_tokens = dict_get_or cfg ''output_tokens'' (JInt 0),
      br_concurrency = dict_get_or cfg ''concurrency'' (JInt 1),
      br_parallelism = None, br_workload_type = ''llm'', br_status = ''running'',
      br_total_token_throughput = JNull, br_mean_ttft_ms = JNull, br_mean_tpot_ms = JNull,
      br_mean_e2el_ms = JNull, br_metrics = JObj [], br_started_at = started,
      br_completed_at = None, br_duration_seconds = None, br_created_at = created\<rparr>"

definition add_pending_row :: "env \<Rightarrow> string \<Rightarrow> workload \<Rightarrow> node \<Rightarrow> string \<Rightarrow> dict \<Rightarrow> time \<Rightarrow> unit act" where
  "add_pending_row env wid w n gpu_type cfg started =
     catchM
       (bindM (lift_sum (json_lower (dict_get_or cfg ''precision'' (JStr ''fp32'')))) (\<lambda>p.
        bindM (uuid4 env) (\<lambda>i.
        bindM (server_now env) (\<lambda>c.
        thenM (add_result (bench_row i c wid w n gpu_type p cfg started)) (commit env)))))
       (\<lambda>_. rollback)"

text \<open>\<open>line.like("BENCH_RESULT:%")\<close>: in SQL the underscore matches any character.\<close>

definition like_bench_result :: "string \<Rightarrow> bool" where
  "like_bench_result l = (length l \<ge> 13 \<and> take 5 l = ''BENCH'' \<and> take 7 (drop 6 l) = ''RESULT:'')"

definition success_fields :: "json \<Rightarrow> json \<Rightarrow> time \<Rightarrow> rat \<Rightarrow> benchmark_result \<Rightarrow> benchmark_result" where
  "success_fields metrics conc completed secs r =
     (let get = (\<lambda>k. case metrics of JObj d \<Rightarrow> dict_get d k | _ \<Rightarrow> JNull) in
      r\<lparr>br_status := ''success'', br_concurrency := conc,
        br_total_token_throughput := get ''total_token_throughput'',
        br_mean_ttft_ms := get ''mean_ttft_ms'', br_mean_tpot_ms := get ''mean_tpot_ms'',
        br_mean_e2el_ms := get ''mean_e2el_ms'', br_metrics := metrics,
        br_completed_at := Some completed, br_duration_seconds := Some secs\<rparr>)"

definition find_sub_run :: "string \<Rightarrow> int \<Rightarrow> db \<Rightarrow> benchmark_result option" where
  "find_sub_run wid k d = find (\<lambda>r. br_run_id r = wid \<and> br_sub_run_index r = k) (results d)"

definition insert_sub_run ::
  "env \<Rightarrow> string \<Rightarrow> workload \<Rightarrow> node \<Rightarrow> string \<Rightarrow> dict \<Rightarrow> time \<Rightarrow> time \<Rightarrow> int \<Rightarrow> json \<Rightarrow> json \<Rightarrow> unit act" where
  "insert_sub_run env wid w n gpu_type cfg started completed idx metrics conc =
     bindM (lift_sum (json_lower (dict_get_or cfg ''precision'' (JStr ''fp32'')))) (\<lambda>p.
     bindM (uuid4 env) (\<lambda>i.
     bindM (server_now env) (\<lambda>c.
     thenM (add_result (success_fields metrics conc completed (seconds_between started completed)
        ((bench_row i c wid w n gpu_type p cfg started)\<lparr>br_sub_run_index := idx\<rparr>)))
     (commit env))))"

text \<open>One iteration of the loop over the result lines, the \<open>try\<close> included.\<close>

definition save_sub_run ::
  "env \<Rightarrow> uuid \<Rightarrow> string \<Rightarrow> workload \<Rightarrow> node \<Rightarrow> string \<Rightarrow> dict \<Rightarrow> time \<Rightarrow> time \<Rightarrow> nat \<times> task_log \<Rightarrow> unit act" where
  "save_sub_run env tid wid w n gpu_type cfg started completed =
     (\<lambda>(idx, log). catchM
       (bindM (lift_sum (e_loads env (drop 13 (tl_line log)))) (\<lambda>metrics.
        bindM (lift_sum (json_get metrics ''concurrency'')) (\<lambda>c.
        let conc = json_or c (dict_get_or cfg ''concurrency'' (JInt 1));
            m = (case metrics of JObj d \<Rightarrow> d | _ \<Rightarrow> []) in
        bindM (if idx = 0 then query (find_sub_run wid 0) else ret None) (\<lambda>pending.
        case pending of
          Some r \<Rightarrow>
            thenM (set_result (br_id r)
              (success_fields metrics conc completed (seconds_between started completed)))
            (thenM (commit env) (log_result_summary env tid m))
        | None \<Rightarrow>
            thenM (insert_sub_run env wid w n gpu_type cfg started completed (int idx) metrics conc)
            (whenM (idx = 0) (log_result_summary env tid m))))))
       (\<lambda>_. ret ()))"

definition save_results ::
  "env \<Rightarrow> uuid \<Rightarrow> string \<Rightarrow> workload \<Rightarrow> node \<Rightarrow> dict \<Rightarrow> time \<Rightarrow> time \<Rightarrow> unit act" where
  "save_results env tid wid w n cfg started completed =
     bindM (query (\<lambda>d. sort_key tl_id
        (filter (\<lambda>l. tl_task_id l = Some tid \<and> like_bench_result (tl_line l)) (task_logs d)))) (\<lambda>logs.
     if logs = [] then ret ()
     else bindM (lift_sum (extract_gpu_type (nd_specs n))) (\<lambda>gpu_type.
       for_each (enumerate 0 logs) (save_sub_run env tid wid w n gpu_type cfg started completed)))"

definition release_node :: "env \<Rightarrow> node \<Rightarrow> unit act" where
  "release_node env n = set_node env (nd_id n) (\<lambda>x. x\<lparr>nd_state := N_READY, nd_running_task := None\<rparr>)"

definition lookup_image_tag :: "string option act" where
  "lookup_image_tag = query (\<lambda>d. case find (\<lambda>t. wt_name t = ''LLMInference'') (workload_types d) of
      None \<Rightarrow> None | Some t \<Rightarrow> (case wt_image_tag t of None \<Rightarrow> None | Some x \<Rightarrow> if x = [] then None else Some x))"

definition dataset_path_of :: "dict \<Rightarrow> string act" where
  "dataset_path_of cfg =
     bindM (lift_sum (json_strip (dict_get_or cfg ''dataset_path'' (JStr [])))) (\<lambda>p.
     if p = [] then raise_exn (RuntimeError (''dataset_path is required in workload config. '' @
       ''Set it in the UI before starting the benchmark.''))
     else ret p)"

definition log_bench_header :: "env \<Rightarrow> uuid \<Rightarrow> workload \<Rightarrow> node \<Rightarrow> dict \<Rightarrow> string \<Rightarrow> unit act" where
  "log_bench_header env tid w n cfg dataset_path =
     thenM (write_log env (Some tid) ''=== [3/3] Running Benchmark ==='')
     (thenM (write_log env (Some tid) (''Model:       '' @ wl_model_name w))
     (thenM (write_log env (Some tid) (''Node:        '' @ nd_machine_ip n))
     (bindM (lift_sum (int_or_raise (dict_get_or cfg ''concurrency'' (JInt 1)))) (\<lambda>c.
      thenM (write_log env (Some tid) (''Concurrency: '' @ show_int c))
      (write_log env (Some tid) (''Dataset:     '' @ dataset_path))))))"

text \<open>From the moment the node is free for the run to the end of the session's work.\<close>

definition run_benchmark :: "env \<Rightarrow> string \<Rightarrow> workload \<Rightarrow> node \<Rightarrow> uuid \<Rightarrow> unit act" where
  "run_benchmark env wid w n tid =
     bindM lookup_image_tag (\<lambda>image_tag.
     let cfg = dict_or_empty (wl_config w) in
     bindM (dataset_path_of cfg) (\<lambda>dataset_path.
     let bench_cmd = build_llm_benchmark_command (e_settings env) (e_repr env) (wl_model_name w) cfg
           image_tag wid dataset_path in
     thenM (log_bench_header env tid w n cfg dataset_path)
     (bindM (lift_sum (extract_gpu_type (nd_specs n))) (\<lambda>gpu_type.
      bindM (now env) (\<lambda>started.
      thenM (add_pending_row env wid w n gpu_type cfg started)
     (thenM (ssh_connect env (nd_machine_ip n) (nd_machine_username n))
     (bindM (run_command env (nd_machine_ip n) (nd_machine_username n)
        (gpu_state_cmd @ '' && '' @ bench_cmd) (Some tid)) (\<lambda>exit_code.
      bindM (now env) (\<lambda>completed.
      let finish = (\<lambda>st. set_task tid (\<lambda>k. k\<lparr>tk_status := st, tk_completed_at := Some completed\<rparr>)) in
      if exit_code \<noteq> 0 then
        thenM (finish ''failed'') (thenM (release_node env n) (thenM (commit env)
          (raise_exn (RuntimeError (''Benchmark exited with code '' @ show_int exit_code)))))
      else
        thenM (finish ''success'') (thenM (release_node env n) (thenM (commit env)
          (save_results env tid wid w n cfg started completed))))))))))))"

definition benchmark_body :: "env \<Rightarrow> string \<Rightarrow> unit act" where
  "benchmark_body env wid =
     bindM (fetch_workload_and_nodes env wid) (\<lambda>(w, ns).
     case ns of
       [] \<Rightarrow> raise_exn (RuntimeError ''No nodes available for benchmark execution'')
     | n # _ \<Rightarrow>
         thenM (set_node env (nd_id n) (\<lambda>x. x\<lparr>nd_state := N_RUNNING, nd_running_task := Some wid\<rparr>))
         (thenM (commit env)
         (bindM (add_task env (wl_id w) (Some (nd_id n)) wid (wl_config w)) (run_benchmark env wid w n))))"

definition execute_benchmark :: "env \<Rightarrow> string \<Rightarrow> string act" where
  "execute_benchmark env wid = task_frame env wid ''execute_benchmark'' ''Benchmark execution timed out''
     (thenM (transition_workload_state env wid RUNNING ''execute_benchmark'' ''Starting benchmark execution'')
     (thenM (benchmark_body env wid)
     (transition_workload_state env wid READY ''execute_benchmark'' ''Benchmark completed successfully'')))"

section \<open>launch_jupyter\<close>

definition port_cmd :: string where
  "port_cmd =
     ''JUPYTER_PORT=$(python3 -c '' @ dq @
     ''import socket; s=socket.socket(); s.bind(('' @ quoted [] @ '',0)); '' @
     ''p=s.getsockname()[1]; s.close(); print(p)'' @ dq @
     '') && echo '' @ dq @ ''JUPYTER_PORT=$JUPYTER_PORT'' @ dq"

text \<open>The first log row that starts with \<open>JUPYTER_PORT=\<close>, or the container's own port.\<close>

definition port_of_logs :: "task_log list \<Rightarrow> int" where
  "port_of_logs logs =
     (case find (\<lambda>l. starts_with ''JUPYTER_PORT='' (tl_line l)) logs of
        None \<Rightarrow> 7008
      | Some l \<Rightarrow> (case py_int (drop 13 (tl_line l)) of None \<Rightarrow> 7008 | Some p \<Rightarrow> p))"

definition proxy_on :: "settings \<Rightarrow> bool" where
  "proxy_on st = (NGINX_ENABLED st \<and> PROXY_BASE_URL st \<noteq> [])"

definition publish_jupyter :: "env \<Rightarrow> string \<Rightarrow> string \<Rightarrow> string \<Rightarrow> int \<Rightarrow> string act" where
  "publish_jupyter env wid gpu_type ip port =
     (if proxy_on (e_settings env)
      then thenM (write_jupyter_config env wid gpu_type ip port)
             (ret (proxy_url (e_settings env) gpu_type wid))
      else ret (''http://'' @ ip @ '':'' @ show_int port @ ''/lab''))"

definition store_jupyter_url :: "env \<Rightarrow> string \<Rightarrow> string \<Rightarrow> int \<Rightarrow> unit act" where
  "store_jupyter_url env wid url port =
     bindM (query (\<lambda>d. find_workload d wid)) (\<lambda>found.
     case found of
       None \<Rightarrow> raise_exn (no_attribute JNull ''workload_config'')
     | Some w \<Rightarrow>
         bindM (server_now env) (\<lambda>t.
         thenM (change (\<lambda>d. d\<lparr>workloads := update_where (\<lambda>x. wl_id x = wl_id w)
           (\<lambda>x. x\<lparr>wl_config := Some (dict_set (dict_or_empty (wl_config x)) ''jupyter_url'' (JStr url)),
                  wl_workload_port := Some port, wl_updated_at := t\<rparr>) (workloads d)\<rparr>))
         (commit env)))"

definition run_jupyter :: "env \<Rightarrow> string \<Rightarrow> node \<Rightarrow> uuid \<Rightarrow> string act" where
  "run_jupyter env wid n tid =
     thenM (write_log env (Some tid) ''=== [2/2] Launching Jupyter Lab ==='')
     (thenM (write_log env (Some tid) (''Node: '' @ nd_machine_ip n))
     (bindM (lift_sum (extract_gpu_type (nd_specs n))) (\<lambda>gpu_type.
      let base_url = (if proxy_on (e_settings env) then jupyter_base_path gpu_type wid else []);
          server_cmd = build_jupyter_command (e_settings env) wid base_url;
          health_cmd = build_jupyter_health_command wid base_url in
      thenM (ssh_connect env (nd_machine_ip n) (nd_machine_username n))
     (bindM (run_command env (nd_machine_ip n) (nd_machine_username n)
        (port_cmd @ '' && '' @ server_cmd @ '' && '' @ health_cmd) (Some tid)) (\<lambda>exit_code.
      if exit_code \<noteq> 0 then
        thenM (finish_task env tid ''failed'')
        (thenM (set_node_state env n N_FAILED)
        (thenM (commit env)
        (raise_exn (RuntimeError (''Jupyter launch failed with exit code '' @ show_int exit_code)))))
      else
        bindM (query (\<lambda>d. filter (\<lambda>l. tl_task_id l = Some tid) (task_logs d))) (\<lambda>mine.
        bindM (ask (\<lambda>k. e_scan_logs env k mine)) (\<lambda>logs.
        let port = port_of_logs logs in
        bindM (publish_jupyter env wid gpu_type (nd_machine_ip n) port) (\<lambda>url.
        thenM (write_log env (Some tid) (u_check @ '' Jupyter Lab running at: '' @ url))
        (thenM (finish_task env tid ''success'')
        (thenM (set_node_state env n N_READY)
        (thenM (commit env)
        (thenM (store_jupyter_url env wid url port)
        (ret url)))))))))))))"

definition jupyter_body :: "env \<Rightarrow> string \<Rightarrow> string act" where
  "jupyter_body env wid =
     bindM (fetch_workload_and_nodes env wid) (\<lambda>(w, ns).
     case ns of
       [] \<Rightarrow> raise_exn (RuntimeError (''No nodes found for workload '' @ wid))
     | n # _ \<Rightarrow>
         thenM (set_node_state env n N_INSTALLING)
         (bindM (add_task env (wl_id w) (Some (nd_id n)) (wid @ ''-jupyter'') (Some []))
           (run_jupyter env wid n)))"

definition launch_jupyter :: "env \<Rightarrow> string \<Rightarrow> string act" where
  "launch_jupyter env wid = task_frame env wid ''launch_jupyter'' ''Jupyter launch timed out''
     (thenM (transition_workload_state env wid INSTALLING ''launch_jupyter'' ''Launching Jupyter Lab server'')
     (bindM (jupyter_body env wid) (\<lambda>url.
      transition_workload_state env wid READY ''launch_jupyter'' (''Jupyter Lab started at '' @ url))))"

section \<open>The chains\<close>

text \<open>
  A Celery chain passes each task's return value to the next and stops at the first that
  raises, so it is the sequential composition.
\<close>

definition start_benchmark_chain :: "env \<Rightarrow> string \<Rightarrow> string act" where
  "start_benchmark_chain env wid =
     bindM (validate_node env wid) (\<lambda>wid.
     bindM (install_dependencies env wid) (\<lambda>wid. execute_benchmark env wid))"

definition start_jupyter_chain :: "env \<Rightarrow> string \<Rightarrow> string act" where
  "start_jupyter_chain env wid = bindM (validate_node env wid) (\<lambda>wid. launch_jupyter env wid)"

section \<open>What every step leaves alone\<close>

context life_frame
begin

lemma keeps_set_node [keeps_rules]: "keeps (both J) (set_node env nid f)"
  unfolding set_node_def by (intro keeps_rules keeps_silent_change) (simp add: same_life_def)

lemma keeps_set_task [keeps_rules]: "keeps (both J) (set_task tid f)"
  unfolding set_task_def by (intro keeps_rules keeps_silent_change) (simp add: same_life_def)

lemma keeps_add_task [keeps_rules]: "keeps (both J) (add_task env wl nid run_name cfg)"
  unfolding add_task_def by (intro keeps_rules keeps_silent_change) (simp add: same_life_def)

lemma keeps_finish_task [keeps_rules]: "keeps (both J) (finish_task env tid st)"
  unfolding finish_task_def by (intro keeps_rules)

lemma keeps_add_result [keeps_rules]: "keeps (both J) (add_result r)"
  unfolding add_result_def by (intro keeps_rules keeps_silent_change) (simp add: same_life_def)

lemma keeps_set_result [keeps_rules]: "keeps (both J) (set_result rid f)"
  unfolding set_result_def by (intro keeps_rules keeps_silent_change) (simp add: same_life_def)

lemma keeps_fetch [keeps_rules]: "keeps (both J) (fetch_workload_and_nodes env wid)"
  unfolding fetch_workload_and_nodes_def nodes_of_def by (intro keeps_rules)

lemma keeps_validate_nodes [keeps_rules]: "keeps (both J) (validate_nodes env wid)"
  unfolding validate_nodes_def validate_one_def set_node_state_def log_specs_def
  by (intro keeps_rules)

lemma keeps_install_nodes [keeps_rules]: "keeps (both J) (install_nodes env wid)"
  unfolding install_nodes_def install_one_def set_node_state_def by (intro keeps_rules)

lemma keeps_summary [keeps_rules]: "keeps (both J) (log_result_summary env tid m)"
  unfolding log_result_summary_def log_real_def by (intro keeps_rules)

lemma keeps_save_sub_run [keeps_rules]:
  "keeps (both J) (save_sub_run env tid wid w n g cfg started completed p)"
  unfolding save_sub_run_def insert_sub_run_def Let_def by (intro keeps_rules)

lemma keeps_save_results [keeps_rules]: "keeps (both J) (save_results env tid wid w n cfg started completed)"
  unfolding save_results_def by (intro keeps_rules)

lemma keeps_pending_row [keeps_rules]: "keeps (both J) (add_pending_row env wid w n g cfg started)"
  unfolding add_pending_row_def by (intro keeps_rules)

lemma keeps_run_benchmark [keeps_rules]: "keeps (both J) (run_benchmark env wid w n tid)"
  unfolding run_benchmark_def lookup_image_tag_def dataset_path_of_def log_bench_header_def
    ssh_connect_def release_node_def Let_def
  by (intro keeps_rules)

lemma keeps_benchmark_body [keeps_rules]: "keeps (both J) (benchmark_body env wid)"
  unfolding benchmark_body_def by (intro keeps_rules)

lemma keeps_store_url [keeps_rules]: "keeps (both J) (store_jupyter_url env wid url port)"
  unfolding store_jupyter_url_def
  by (intro keeps_rules keeps_silent_change)
    (simp add: same_life_def wl_core_def map_update_where_frame)

lemma keeps_run_jupyter [keeps_rules]: "keeps (both J) (run_jupyter env wid n tid)"
  unfolding run_jupyter_def ssh_connect_def set_node_state_def publish_jupyter_def Let_def
  by (intro keeps_rules)

lemma keeps_jupyter_body [keeps_rules]: "keeps (both J) (jupyter_body env wid)"
  unfolding jupyter_body_def set_node_state_def by (intro keeps_rules)

lemma keeps_record_failed [keeps_rules]: "keeps (both J) (record_failed_result env w wid ip)"
  unfolding record_failed_result_def by (intro keeps_rules)

end

context workload_invariant
begin

lemma keeps_fail_in_db [keeps_rules]: "keeps (both J) (fail_in_db env wid trigger error)"
  unfolding fail_in_db_def nodes_of_def Let_def by (intro keeps_rules keeps_transition)

lemma keeps_fail_workload [keeps_rules]: "keeps (both J) (fail_workload env wid trigger error)"
  unfolding fail_workload_def by (intro keeps_rules)

lemma keeps_task_frame [keeps_rules]:
  "keeps (both J) body \<Longrightarrow> keeps (both J) (task_frame env wid trigger txt body)"
  unfolding task_frame_def by (intro keeps_rules)

lemma keeps_tasks [keeps_rules]:
  "keeps (both J) (validate_node env wid)" "keeps (both J) (install_dependencies env wid)"
  "keeps (both J) (execute_benchmark env wid)" "keeps (both J) (launch_jupyter env wid)"
  unfolding validate_node_def install_dependencies_def execute_benchmark_def launch_jupyter_def
  by (intro keeps_rules keeps_transition)+

lemma keeps_chains:
  "keeps (both J) (start_benchmark_chain env wid)" "keeps (both J) (start_jupyter_chain env wid)"
  unfolding start_benchmark_chain_def start_jupyter_chain_def by (intro keeps_rules)+

end

section \<open>The contract of a task\<close>

definition live :: "string \<Rightarrow> db \<Rightarrow> bool" where
  "live wid d = (case state_of d wid of
      None \<Rightarrow> False | Some st \<Rightarrow> st \<noteq> FAILED \<and> in_state wid st d)"

definition stuck_logged :: "string \<Rightarrow> sess \<Rightarrow> bool" where
  "stuck_logged wid s = list_ex (starts_with (''WORKLOAD '' @ wid @ '' STUCK'')) (critical s)"

text \<open>How a task that raised leaves its workload: FAILED, or reported as stuck.\<close>

definition gave_up :: "string \<Rightarrow> sess \<Rightarrow> bool" where
  "gave_up wid s = (both (in_state wid FAILED) s \<or> stuck_logged wid s)"

lemma live_in_state: "live wid d = (\<exists>st. st \<noteq> FAILED \<and> in_state wid st d)"
  by (auto simp: live_def in_state_def split: option.splits)

lemma stuck_text_logged: "stuck_logged wid (s\<lparr>critical := c @ [stuck_text wid tr]\<rparr>)"
proof -
  have "stuck_text wid tr = (''WORKLOAD '' @ wid @ '' STUCK'') @ ('': could not write FAILED state (trigger='' @
     tr @ ''). Manual DB intervention required.'')"
    by (simp add: stuck_text_def)
  then show ?thesis by (simp only: stuck_logged_def) (simp add: starts_with_def)
qed

lemma hoare_with_session:
  assumes "hoare (both P) m (\<lambda>_. both Q) (\<lambda>_. both E)"
  shows "hoare (both P) (with_session m) (\<lambda>_. both Q) (\<lambda>_. both E)"
  unfolding hoare_def
proof (intro allI impI)
  fix s assume "both P s"
  then have "both P (s\<lparr>work := committed s, dead := False\<rparr>)" by (simp add: both_def)
  then show "case with_session m s of (Inl e, s') \<Rightarrow> both E s' | (Inr a, s') \<Rightarrow> both Q s'"
    using hoareD [OF assms, of "s\<lparr>work := committed s, dead := False\<rparr>"]
    by (cases "m (s\<lparr>work := committed s, dead := False\<rparr>)")
      (auto simp: with_session_def both_def split: sum.split)
qed

lemma hoare_keeps: "keeps I m \<Longrightarrow> hoare I m (\<lambda>_. I) (\<lambda>_. I)"
  by (simp add: keeps_hoare)

lemma hoare_to_failed:
  "hoare (both (live wid)) (transition_workload_state env wid FAILED tr msg)
     (\<lambda>_. both (in_state wid FAILED)) (\<lambda>_. both (live wid))"
proof (rule hoareI)
  fix s u s' assume s: "both (live wid) s"
    and "transition_workload_state env wid FAILED tr msg s = (Inr u, s')"
  from this(2) show "both (in_state wid FAILED) s'"
    by (cases rule: transition_cases)
      (use s in \<open>auto simp: both_def live_in_state intro: in_state_apply\<close>)
next
  fix s e s' assume s: "both (live wid) s"
    and "transition_workload_state env wid FAILED tr msg s = (Inl e, s')"
  from this(2) show "both (live wid) s'"
    by (cases rule: transition_cases) (use s in \<open>auto simp: both_def\<close>)
qed

lemma hoare_fail_in_db:
  "hoare (both (live wid)) (fail_in_db env wid tr msg) (\<lambda>_. both (in_state wid FAILED))
     (\<lambda>_. both (\<lambda>d. live wid d \<or> in_state wid FAILED d))"
  unfolding fail_in_db_def
proof (rule hoare_then)
  show "hoare (both (live wid)) (transition_workload_state env wid FAILED tr msg)
     (\<lambda>_. both (in_state wid FAILED)) (\<lambda>_. both (\<lambda>d. live wid d \<or> in_state wid FAILED d))"
    by (rule hoare_weaken [OF hoare_to_failed]) (simp_all add: both_def)
  show "hoare (both (in_state wid FAILED))
     (bindM (query (\<lambda>d. find_workload d wid)) (\<lambda>found. case found of None \<Rightarrow> ret None
      | Some w \<Rightarrow> bindM (nodes_of env w) (\<lambda>ns.
          let node_ip = (case ns of [] \<Rightarrow> None | n # _ \<Rightarrow> Some (nd_machine_ip n)) in
          thenM (if is_jupyter w then ret () else record_failed_result env w wid node_ip)
            (ret node_ip)))) (\<lambda>_. both (in_state wid FAILED))
     (\<lambda>_. both (\<lambda>d. live wid d \<or> in_state wid FAILED d))"
    by (rule hoare_weaken [OF hoare_keeps [where I = "both (in_state wid FAILED)"]])
      (unfold Let_def nodes_of_def, intro keeps_rules at_state.keeps_record_failed, auto simp: both_def)
qed

lemma hoare_fail_workload:
  "hoare (both (live wid)) (fail_workload env wid tr msg) (\<lambda>_. gave_up wid) (\<lambda>_ _. False)"
  unfolding fail_workload_def
proof (rule hoare_bind)
  show "hoare (both (live wid)) (now env) (\<lambda>_. both (live wid)) (\<lambda>_ _. False)"
    by (simp add: hoare_def act_defs both_def)
  fix t
  show "hoare (both (live wid)) (bindM (catchM
       (bindM (with_session (fail_in_db env wid tr msg)) (\<lambda>ip. ret (Some ip)))
       (\<lambda>_. thenM (log_critical (stuck_text wid tr)) (ret None))) (\<lambda>written.
     case written of None \<Rightarrow> ret ()
     | Some node_ip \<Rightarrow> notify_workload_failure env wid node_ip (Some t))) (\<lambda>_. gave_up wid) (\<lambda>_ _. False)"
  proof (rule hoare_bind)
    show "hoare (both (live wid)) (catchM
       (bindM (with_session (fail_in_db env wid tr msg)) (\<lambda>ip. ret (Some ip)))
       (\<lambda>_. thenM (log_critical (stuck_text wid tr)) (ret None)))
       (\<lambda>r s. case r of None \<Rightarrow> stuck_logged wid s | Some _ \<Rightarrow> both (in_state wid FAILED) s) (\<lambda>_ _. False)"
    proof (rule hoare_catch [where R = "\<lambda>_ _. True"])
      show "hoare (both (live wid)) (bindM (with_session (fail_in_db env wid tr msg)) (\<lambda>ip. ret (Some ip)))
         (\<lambda>r s. case r of None \<Rightarrow> stuck_logged wid s | Some _ \<Rightarrow> both (in_state wid FAILED) s)
         (\<lambda>_ _. True)"
        by (rule hoare_bind [where R = "\<lambda>_. both (in_state wid FAILED)"],
            rule hoare_weaken [OF hoare_with_session [OF hoare_fail_in_db]])
          (simp_all add: hoare_ret)
    qed (simp add: hoare_def act_defs stuck_text_logged)
    fix r
    show "hoare (\<lambda>s. case r of None \<Rightarrow> stuck_logged wid s | Some _ \<Rightarrow> both (in_state wid FAILED) s)
       (case r of None \<Rightarrow> ret () | Some ip \<Rightarrow> notify_workload_failure env wid ip (Some t))
       (\<lambda>_. gave_up wid) (\<lambda>_ _. False)"
      by (cases r) (auto simp: hoare_def gave_up_def ret_def both_def split: sum.split dest: notify_frame)
  qed
qed

text \<open>
  The shape of every task body: into the working state, the work, which leaves workloads and
  events alone, and out of it.
\<close>

lemma hoare_bracket:
  assumes "life_step a b" and "life_step b c" and "b \<noteq> FAILED"
    and mid: "\<And>wid. keeps (both (in_state wid b)) mid"
  shows "hoare (both (in_state wid a))
    (thenM (transition_workload_state env wid b tr m1)
      (bindM mid (\<lambda>x. transition_workload_state env wid c tr (m2 x))))
    (\<lambda>_. both (in_state wid c)) (\<lambda>_. both (live wid))"
proof -
  have alive: "a \<noteq> FAILED" using assms(1) by (auto simp: life_step_from)
  then have E: "both (in_state wid a) s \<Longrightarrow> both (live wid) s"
      "both (in_state wid b) s \<Longrightarrow> both (live wid) s" for s
    using assms(3) by (auto simp: both_def live_in_state)
  show ?thesis
  proof (rule hoare_then)
    show "hoare (both (in_state wid a)) (transition_workload_state env wid b tr m1)
        (\<lambda>_. both (in_state wid b)) (\<lambda>_. both (live wid))"
      by (rule hoare_weaken [OF hoare_transition [OF assms(1)]]) (simp_all add: E)
    show "hoare (both (in_state wid b)) (bindM mid (\<lambda>x. transition_workload_state env wid c tr (m2 x)))
        (\<lambda>_. both (in_state wid c)) (\<lambda>_. both (live wid))"
    proof (rule hoare_bind)
      show "hoare (both (in_state wid b)) mid (\<lambda>_. both (in_state wid b)) (\<lambda>_. both (live wid))"
        by (rule hoare_weaken [OF hoare_keeps [OF mid [of wid]]]) (auto intro: E)
      show "hoare (both (in_state wid b)) (transition_workload_state env wid c tr (m2 x))
          (\<lambda>_. both (in_state wid c)) (\<lambda>_. both (live wid))" for x
        by (rule hoare_weaken [OF hoare_transition [OF assms(2)]]) (simp_all add: E)
    qed
  qed
qed

lemma hoare_task_frame:
  assumes "hoare (both (in_state wid a)) body (\<lambda>_. both (in_state wid c)) (\<lambda>_. both (live wid))"
  shows "hoare (both (in_state wid a)) (task_frame env wid tr txt body)
    (\<lambda>r s. r = wid \<and> both (in_state wid c) s) (\<lambda>_. gave_up wid)"
  unfolding task_frame_def
proof (rule hoare_catch [where R = "\<lambda>_. both (live wid)"])
  show "hoare (both (in_state wid a)) (thenM (with_session body) (ret wid))
      (\<lambda>r s. r = wid \<and> both (in_state wid c) s) (\<lambda>_. both (live wid))"
    by (rule hoare_then [OF hoare_with_session [OF assms]]) (simp add: hoare_ret)
  fix e
  show "hoare (both (live wid)) (thenM (fail_workload env wid tr
      (if e = SoftTimeLimitExceeded then txt else exc_str e)) (raise_exn e))
      (\<lambda>r s. r = wid \<and> both (in_state wid c) s) (\<lambda>_. gave_up wid)"
    by (rule hoare_then [where R = "gave_up wid"], rule hoare_weaken [OF hoare_fail_workload])
      (auto intro: hoare_raise)
qed

text \<open>
  What a chain relies on, task by task: started in its source state, the task returns the id
  it was given with the workload in its target state, or raises with the workload given up.
\<close>

locale celery_task =
  fixes run :: "env \<Rightarrow> string \<Rightarrow> string act" and src dst :: workload_state
  assumes outcome: "hoare (both (in_state wid src)) (run env wid)
    (\<lambda>r s. r = wid \<and> both (in_state wid dst) s) (\<lambda>_. gave_up wid)"
begin

lemma then_next:
  assumes next_task: "hoare (both (in_state wid dst)) (f wid) Q (\<lambda>_. gave_up wid)"
  shows "hoare (both (in_state wid src)) (bindM (run env wid) f) Q (\<lambda>_. gave_up wid)"
proof (rule hoare_bind [OF outcome])
  fix r
  show "hoare (\<lambda>s. r = wid \<and> both (in_state wid dst) s) (f r) Q (\<lambda>_. gave_up wid)"
    using next_task by (cases "r = wid") (simp_all add: hoare_def)
qed

lemma run_cases:
  assumes "run env wid s = (r, s')" and "both (in_state wid src) s"
  shows "case r of Inr v \<Rightarrow> v = wid \<and> both (in_state wid dst) s' | Inl _ \<Rightarrow> gave_up wid s'"
  using assms outcome [of wid env] by (fastforce simp: hoare_def split: sum.split)

end

lemma thenM_const: "thenM m n = bindM m (\<lambda>_. n)"
  by (simp add: thenM_def)

interpretation validate: celery_task validate_node CREATED VALIDATED
  unfolding validate_node_def
  by unfold_locales (intro hoare_task_frame hoare_bracket at_state.keeps_validate_nodes,
    simp_all add: life_step_from)

interpretation install: celery_task install_dependencies VALIDATED READY
  unfolding install_dependencies_def thenM_const [of "install_nodes _ _"]
  by unfold_locales (intro hoare_task_frame hoare_bracket at_state.keeps_install_nodes,
    simp_all add: life_step_from)

interpretation execute: celery_task execute_benchmark READY READY
  unfolding execute_benchmark_def thenM_const [of "benchmark_body _ _"]
  by unfold_locales (intro hoare_task_frame hoare_bracket at_state.keeps_benchmark_body,
    simp_all add: life_step_from)

interpretation jupyter: celery_task launch_jupyter VALIDATED READY
  unfolding launch_jupyter_def
  by unfold_locales (intro hoare_task_frame hoare_bracket at_state.keeps_jupyter_body,
    simp_all add: life_step_from)

interpretation benchmark_chain: celery_task start_benchmark_chain CREATED READY
  unfolding start_benchmark_chain_def
  by unfold_locales (intro validate.then_next install.then_next execute.outcome)

interpretation jupyter_chain: celery_task start_jupyter_chain CREATED READY
  unfolding start_jupyter_chain_def
  by unfold_locales (intro validate.then_next jupyter.outcome)

section \<open>Saving the sub-runs\<close>

definition has_sub_run :: "string \<Rightarrow> nat \<Rightarrow> dict \<Rightarrow> benchmark_result list \<Rightarrow> bool" where
  "has_sub_run wid i m rs = list_ex (\<lambda>r. br_run_id r = wid \<and> br_sub_run_index r = int i \<and>
     br_status r = ''success'' \<and> br_metrics r = JObj m) rs"

text \<open>A usable session whose result table is rs, in the working copy and committed.\<close>

definition settled :: "benchmark_result list \<Rightarrow> sess \<Rightarrow> bool" where
  "settled rs s = (\<not> dead s \<and> results (work s) = rs \<and> results (committed s) = rs)"

definition accepting :: "env \<Rightarrow> bool" where
  "accepting env = (\<forall>n d. e_refuse env n d = None)"

lemma accepting_calm: "accepting (calm_env\<lparr>e_loads := f\<rparr>)" "accepting calm_env"
  by (simp_all add: accepting_def calm_env_def)

lemma settled_write_log: "accepting env \<Longrightarrow> keeps (settled rs) (write_log env tid l)"
  by (simp add: keeps_def write_log_def act_defs settled_def accepting_def)

lemma settled_summary: "accepting env \<Longrightarrow> keeps (settled rs) (log_result_summary env tid m)"
  unfolding log_result_summary_def log_real_def
  by (intro keeps_rules settled_write_log)

lemma keeps_swallow: "keeps I m \<Longrightarrow> I s \<Longrightarrow> \<exists>s'. catchM m (\<lambda>_. ret ()) s = (Inr (), s') \<and> I s'"
  by (cases "m s") (auto simp: keeps_def catchM_def ret_def split: sum.split dest!: spec [of _ s])

lemma has_sub_run_append: "has_sub_run wid i m (rs @ rs') \<longleftrightarrow> has_sub_run wid i m rs \<or> has_sub_run wid i m rs'"
  by (simp add: has_sub_run_def)

text \<open>Once the row is committed, whatever the summary does is swallowed.\<close>

lemma commit_then_summary:
  assumes "accepting env" and "change_act s = (Inr (), s1)" and "\<not> dead s1" and "results (work s1) = rs"
  shows "\<exists>s'. catchM (thenM change_act (thenM (commit env) (log_result_summary env tid m)))
     (\<lambda>_. ret ()) s = (Inr (), s') \<and> settled rs s'"
proof -
  let ?s2 = "s1\<lparr>committed := work s1, ticks := Suc (ticks s1)\<rparr>"
  have c: "commit env s1 = (Inr (), ?s2)" using assms by (simp add: commit_def accepting_def)
  have "settled rs ?s2" using assms by (simp add: settled_def)
  from keeps_swallow [OF settled_summary [OF assms(1)] this, of tid m] show ?thesis
    using assms(2) c by (simp add: catchM_def thenM_def bindM_def)
qed

lemma set_result_run:
  "set_result rid f s = (Inr (), s\<lparr>work := (work s)\<lparr>results := update_where (\<lambda>r. br_id r = rid) f (results (work s))\<rparr>\<rparr>)"
  by (simp add: set_result_def act_defs)

lemma success_fields_keep [simp]:
  "br_run_id (success_fields j c t x r) = br_run_id r"
  "br_sub_run_index (success_fields j c t x r) = br_sub_run_index r"
  "br_status (success_fields j c t x r) = ''success''"
  "br_metrics (success_fields j c t x r) = j"
  by (simp_all add: success_fields_def Let_def)

lemma save_first:
  assumes env: "accepting env" and s: "settled rs s"
    and m: "e_loads env (drop 13 (tl_line l)) = Inr (JObj m)"
    and p: "find_sub_run wid 0 (work s) = Some r"
  shows "\<exists>rs' s'. save_sub_run env tid wid w n g cfg t0 t1 (0, l) s = (Inr (), s') \<and> settled rs' s' \<and>
     has_sub_run wid 0 m rs'"
proof -
  let ?conc = "json_or (dict_get m ''concurrency'') (dict_get_or cfg ''concurrency'' (JInt 1))"
  let ?f = "success_fields (JObj m) ?conc t1 (seconds_between t0 t1)"
  let ?rs = "update_where (\<lambda>x. br_id x = br_id r) ?f rs"
  have s1: "set_result (br_id r) ?f s = (Inr (), s\<lparr>work := (work s)\<lparr>results := ?rs\<rparr>\<rparr>)"
    using s by (simp add: set_result_run settled_def)
  have run: "save_sub_run env tid wid w n g cfg t0 t1 (0, l) s =
      catchM (thenM (set_result (br_id r) ?f) (thenM (commit env) (log_result_summary env tid m))) (\<lambda>_. ret ()) s"
    using s m p by (simp add: save_sub_run_def lift_sum_def json_get_def Let_def query_def settled_def
        catchM_def bindM_def)
  have "r \<in> set rs" "br_run_id r = wid" "br_sub_run_index r = 0"
    using p s by (auto simp: find_sub_run_def find_Some_iff settled_def)
  then have "has_sub_run wid 0 m ?rs"
    by (auto simp: has_sub_run_def list_ex_iff update_where_def intro!: bexI [of _ "?f r"])
  moreover from commit_then_summary [where change_act = "set_result (br_id r) ?f" and s = s, OF env s1, of ?rs] s
  have "\<exists>s'. save_sub_run env tid wid w n g cfg t0 t1 (0, l) s = (Inr (), s') \<and> settled ?rs s'"
    by (simp add: run settled_def)
  ultimately show ?thesis by blast
qed

text \<open>A line that does not parse to an object changes nothing, and the loop goes on.\<close>

lemma save_unparsed:
  assumes "\<nexists>m. e_loads env (drop 13 (tl_line l)) = Inr (JObj m)"
  shows "save_sub_run env tid wid w n g cfg t0 t1 (i, l) s = (Inr (), s)"
proof (cases "e_loads env (drop 13 (tl_line l))")
  case (Inr j)
  then show ?thesis using assms
    by (cases j) (simp_all add: save_sub_run_def act_defs json_get_def)
qed (simp add: save_sub_run_def act_defs)

text \<open>A line with no pending row to complete gets a row of its own.\<close>

lemma save_fresh:
  assumes env: "accepting env" and s: "settled rs s" and i: "i \<noteq> 0 \<or> find_sub_run wid 0 (work s) = None"
    and m: "e_loads env (drop 13 (tl_line l)) = Inr (JObj m)"
    and p: "dict_get_or cfg ''precision'' (JStr ''fp32'') = JStr prec"
  shows "\<exists>row s'. save_sub_run env tid wid w n g cfg t0 t1 (i, l) s = (Inr (), s') \<and> settled (rs @ [row]) s' \<and>
     has_sub_run wid i m [row]"
proof -
  let ?conc = "json_or (dict_get m ''concurrency'') (dict_get_or cfg ''concurrency'' (JInt 1))"
  let ?insert = "insert_sub_run env wid w n g cfg t0 t1 (int i) (JObj m) ?conc"
  obtain row s1 where ins: "?insert s = (Inr (), s1)" and s1: "settled (rs @ [row]) s1" and row: "has_sub_run wid i m [row]"
    using s p env
    by (auto simp: insert_sub_run_def add_result_def act_defs json_lower_def settled_def accepting_def has_sub_run_def bench_row_def)
  have "keeps (settled (rs @ [row])) (whenM (i = 0) (log_result_summary env tid m))"
    using settled_summary [OF env] by (cases "i = 0") (simp_all add: whenM_def keeps_def ret_def)
  from keeps_swallow [OF this s1] obtain s' where "catchM (whenM (i = 0) (log_result_summary env tid m)) (\<lambda>_. ret ()) s1 = (Inr (), s')"
    "settled (rs @ [row]) s'" by blast
  moreover have "save_sub_run env tid wid w n g cfg t0 t1 (i, l) s =
      catchM (whenM (i = 0) (log_result_summary env tid m)) (\<lambda>_. ret ()) s1"
    using m ins i s by (auto simp: save_sub_run_def lift_sum_def json_get_def Let_def query_def ret_def
        catchM_def bindM_def thenM_def settled_def)
  ultimately show ?thesis using row by metis
qed

lemma save_one:
  assumes env: "accepting env" and s: "settled rs s"
    and p: "dict_get_or cfg ''precision'' (JStr ''fp32'') = JStr prec"
  shows "\<exists>rs' s'. save_sub_run env tid wid w n g cfg t0 t1 (i, l) s = (Inr (), s') \<and> settled rs' s' \<and>
     (\<forall>m. e_loads env (drop 13 (tl_line l)) = Inr (JObj m) \<longrightarrow> has_sub_run wid i m rs') \<and>
     (\<forall>j m. j < i \<longrightarrow> has_sub_run wid j m rs \<longrightarrow> has_sub_run wid j m rs')"
proof (cases "\<exists>m. e_loads env (drop 13 (tl_line l)) = Inr (JObj m)")
  case False
  then show ?thesis using save_unparsed [of env l tid wid w n g cfg t0 t1 i s] s by auto
next
  case True
  then obtain m where m: "e_loads env (drop 13 (tl_line l)) = Inr (JObj m)" by blast
  show ?thesis
  proof (cases "i \<noteq> 0 \<or> find_sub_run wid 0 (work s) = None")
    case True
    from save_fresh [OF env s True m p, of tid w n g t0 t1] m show ?thesis
      by (metis has_sub_run_append json.inject(6) sum.inject(2))
  next
    case False
    then obtain r where "i = 0" "find_sub_run wid 0 (work s) = Some r" by auto
    with save_first [OF env s m this(2), of tid w n g cfg t0 t1] m show ?thesis by auto
  qed
qed

lemma save_all:
  assumes env: "accepting env" and p: "dict_get_or cfg ''precision'' (JStr ''fp32'') = JStr prec"
    and "settled rs s"
  shows "\<exists>rs' s'. for_each (enumerate k logs) (save_sub_run env tid wid w n g cfg t0 t1) s = (Inr (), s') \<and>
     settled rs' s' \<and>
     (\<forall>i < length logs. \<forall>m. e_loads env (drop 13 (tl_line (logs ! i))) = Inr (JObj m) \<longrightarrow> has_sub_run wid (k + i) m rs') \<and>
     (\<forall>j m. j < k \<longrightarrow> has_sub_run wid j m rs \<longrightarrow> has_sub_run wid j m rs')"
  using assms(3)
proof (induction logs arbitrary: k s rs)
  case Nil
  then show ?case by (auto simp: ret_def)
next
  case (Cons l logs)
  obtain rs1 s1 where r1: "save_sub_run env tid wid w n g cfg t0 t1 (k, l) s = (Inr (), s1)"
    and s1: "settled rs1 s1" and h1: "\<forall>m. e_loads env (drop 13 (tl_line l)) = Inr (JObj m) \<longrightarrow> has_sub_run wid k m rs1"
    and k1: "\<forall>j m. j < k \<longrightarrow> has_sub_run wid j m rs \<longrightarrow> has_sub_run wid j m rs1"
    using save_one [OF env Cons.prems p] by blast
  obtain rs2 s2 where r2: "for_each (enumerate (Suc k) logs) (save_sub_run env tid wid w n g cfg t0 t1) s1 = (Inr (), s2)"
    and s2: "settled rs2 s2"
    and h2: "\<forall>i < length logs. \<forall>m. e_loads env (drop 13 (tl_line (logs ! i))) = Inr (JObj m) \<longrightarrow> has_sub_run wid (Suc k + i) m rs2"
    and k2: "\<forall>j m. j < Suc k \<longrightarrow> has_sub_run wid j m rs1 \<longrightarrow> has_sub_run wid j m rs2"
    using Cons.IH [OF s1, of "Suc k"] by blast
  have "has_sub_run wid (k + i) m rs2"
    if "i < length (l # logs)" "e_loads env (drop 13 (tl_line ((l # logs) ! i))) = Inr (JObj m)" for i m
    using that h1 h2 k2 by (cases i) auto
  moreover have "\<forall>j m. j < k \<longrightarrow> has_sub_run wid j m rs \<longrightarrow> has_sub_run wid j m rs2" using k1 k2 by simp
  ultimately show ?case using r1 r2 s2
    by (intro exI [of _ rs2] exI [of _ s2]) (simp add: thenM_def bindM_def)
qed

section \<open>Properties\<close>

text \<open>C1: a benchmark chain started on a CREATED workload either returns with the workload READY,
or some task raised and the workload is FAILED, or the critical log says that FAILED could not
be written. No workload is left in a working state unreported, whatever the node, the network
and the database do.\<close>

theorem benchmark_chain_outcome:
  assumes "start_benchmark_chain env wid s = (r, s')"
    and "in_state wid CREATED (committed s)" and "in_state wid CREATED (work s)"
  shows "case r of
      Inr v \<Rightarrow> v = wid \<and> state_of (committed s') wid = Some READY
    | Inl _ \<Rightarrow> state_of (committed s') wid = Some FAILED \<or> stuck_logged wid s'"
  using benchmark_chain.run_cases [OF assms(1)] assms(2,3)
  by (auto simp: both_def gave_up_def in_state_def split: sum.splits)

lemma benchmark_chain_outcome_witness:
  "case fst (start_benchmark_chain calm_env ''w'' (fresh_sess (sample_db ''w'' CREATED []))) of
      Inr v \<Rightarrow> v = ''w'' \<and> state_of (committed (snd (start_benchmark_chain calm_env ''w''
        (fresh_sess (sample_db ''w'' CREATED []))))) ''w'' = Some READY
    | Inl _ \<Rightarrow> state_of (committed (snd (start_benchmark_chain calm_env ''w''
        (fresh_sess (sample_db ''w'' CREATED []))))) ''w'' = Some FAILED \<or>
        stuck_logged ''w'' (snd (start_benchmark_chain calm_env ''w'' (fresh_sess (sample_db ''w'' CREATED []))))"
  by (rule benchmark_chain_outcome [OF prod.collapse [symmetric]])
    (simp_all add: sample_defs in_state_def state_of_def find_workload_def)

text \<open>the same for the Jupyter chain.\<close>

theorem jupyter_chain_outcome:
  assumes "start_jupyter_chain env wid s = (r, s')"
    and "in_state wid CREATED (committed s)" and "in_state wid CREATED (work s)"
  shows "case r of
      Inr v \<Rightarrow> v = wid \<and> state_of (committed s') wid = Some READY
    | Inl _ \<Rightarrow> state_of (committed s') wid = Some FAILED \<or> stuck_logged wid s'"
  using jupyter_chain.run_cases [OF assms(1)] assms(2,3)
  by (auto simp: both_def gave_up_def in_state_def split: sum.splits)

lemma jupyter_chain_outcome_witness:
  "case fst (start_jupyter_chain calm_env ''w'' (fresh_sess (sample_db ''w'' CREATED []))) of
      Inr v \<Rightarrow> v = ''w'' \<and> state_of (committed (snd (start_jupyter_chain calm_env ''w''
        (fresh_sess (sample_db ''w'' CREATED []))))) ''w'' = Some READY
    | Inl _ \<Rightarrow> state_of (committed (snd (start_jupyter_chain calm_env ''w''
        (fresh_sess (sample_db ''w'' CREATED []))))) ''w'' = Some FAILED \<or>
        stuck_logged ''w'' (snd (start_jupyter_chain calm_env ''w'' (fresh_sess (sample_db ''w'' CREATED []))))"
  by (rule jupyter_chain_outcome [OF prod.collapse [symmetric]])
    (simp_all add: sample_defs in_state_def state_of_def find_workload_def)

text \<open>C9: the audit log stays a path of the life cycle through whole chains, the failure
handlers included.\<close>

theorem chains_keep_audit:
  assumes "audit_ok (committed s)" and "audit_ok (work s)"
  shows "audit_ok (committed (snd (start_benchmark_chain env wid s))) \<and>
     audit_ok (committed (snd (start_jupyter_chain env wid s)))"
  using keepsD [OF audit.keeps_chains(1), of s env wid] keepsD [OF audit.keeps_chains(2), of s env wid] assms
  by (simp_all add: both_def)

lemma chains_keep_audit_witness:
  "audit_ok (committed (snd (start_benchmark_chain calm_env ''w'' (fresh_sess (sample_db ''w'' CREATED []))))) \<and>
   audit_ok (committed (snd (start_jupyter_chain calm_env ''w'' (fresh_sess (sample_db ''w'' CREATED [])))))"
  by (rule chains_keep_audit)
    (simp_all add: audit_ok_def row_audited_def events_of_def sample_defs)

text \<open>a second delivery of \<open>execute_benchmark\<close> while the workload is not READY, the run of
the first delivery included, does not only refuse: its failure handler gives the workload up.\<close>

theorem redelivery_gives_up:
  assumes "in_state wid st (committed s)" and "in_state wid st (work s)"
    and "st \<noteq> READY" and "st \<noteq> FAILED"
  shows "\<exists>m s'. execute_benchmark env wid s = (Inl (InvalidStateTransition m), s') \<and> gave_up wid s'"
proof -
  let ?s = "s\<lparr>work := committed s, dead := False\<rparr>"
  obtain w where w: "find_workload (work ?s) wid = Some w" and st: "wl_state w = st"
    using in_state_find [OF assms(1)] by auto
  have no: "\<not> life_step (wl_state w) RUNNING"
    using assms(3) by (cases st) (simp_all add: st life_step_from)
  obtain m where m: "\<And>tr msg. transition_workload_state env wid RUNNING tr msg ?s =
      (Inl (InvalidStateTransition m), ?s)"
    using transition_refused [of ?s wid w RUNNING env] w no by simp
  let ?s1 = "s\<lparr>work := committed s, dead := dead s\<rparr>"
  have l: "both (live wid) ?s1" using assms by (auto simp: both_def live_in_state)
  obtain u s2 where f: "fail_workload env wid ''execute_benchmark'' m ?s1 = (u, s2)" by fastforce
  have "\<nexists>e. u = Inl e" and g: "gave_up wid s2"
    using hoareD [OF hoare_fail_workload l] f by (cases u; blast)+
  then have "u = Inr ()" by (cases u) auto
  with f have "execute_benchmark env wid s = (Inl (InvalidStateTransition m), s2)"
    by (simp add: execute_benchmark_def task_frame_def catchM_def thenM_def bindM_def with_session_def m raise_exn_def)
  then show ?thesis using g by blast
qed

lemma redelivery_gives_up_witness:
  "\<exists>m s'. execute_benchmark calm_env ''w'' (fresh_sess (sample_db ''w'' RUNNING [])) =
     (Inl (InvalidStateTransition m), s') \<and> gave_up ''w'' s'"
  by (rule redelivery_gives_up [where st = RUNNING])
    (simp_all add: sample_defs in_state_def state_of_def find_workload_def)


text \<open>A run that left two result lines, the first of them cut off, in a database that accepts everything.\<close>

definition two_lines_env :: env where
  "two_lines_env = calm_env\<lparr>e_loads := (\<lambda>t. if t = ''{}'' then Inr (JObj [(''concurrency'', JInt 4)]) else Inl (ValueError t))\<rparr>"

definition two_lines :: "task_log list" where
  "two_lines = [log_row 8 (Some 5) ''BENCH_RESULT:{'' 0, log_row 9 (Some 5) ''BENCH_RESULT:{}'' 0]"

definition two_lines_db :: db where
  "two_lines_db = (sample_db ''w'' RUNNING [])\<lparr>
     task_logs := two_lines,
     results := [bench_row 7 0 ''w'' (sample_workload ''w'' RUNNING []) sample_node ''unknown'' ''fp32'' [] 0]\<rparr>"


section \<open>The false STUCK alarm\<close>

text \<open>A database that enforces the constraints of \<open>benchmark_results\<close> and nothing else.\<close>

definition enforcing :: "env \<Rightarrow> bool" where
  "enforcing env = (\<forall>n d. (e_refuse env n d = None) = results_valid d)"

lemma valid_same_results: "results d' = results d \<Longrightarrow> results_valid d' = results_valid d"
  by (simp add: results_valid_def)

text \<open>C10: when a benchmark fails before its pending row exists (its node was not found valid, say, or its
installation failed), the failure handler inserts a failed row with the precision as the client spelled
it. Where that is not lower case, as in FP16, or null, the database refuses the row: the workload is
FAILED all right, but the log claims it is stuck, the leaderboard has no row of the run and no alert is
posted. A run whose row exists already, or a notebook, is not concerned.\<close>

theorem failed_row_refused:
  assumes "enforcing env" and "results_valid (committed s)"
    and "in_state wid st (committed s)" and "st \<noteq> FAILED"
    and "find_workload (committed s) wid = Some w" and "\<not> is_jupyter w"
    and "\<not> json_lower_ok (dict_get_or (dict_or_empty (wl_config w)) ''precision'' (JStr []))"
    and "list_all (\<lambda>r. br_run_id r \<noteq> wid) (results (committed s))" and "\<And>k. e_scan_results env k [] = []"
  shows "\<exists>s'. fail_workload env wid tr msg s = (Inr (), s') \<and>
     state_of (committed s') wid = Some FAILED \<and> stuck_logged wid s' \<and>
     results (committed s') = results (committed s) \<and> posts s' = posts s"
proof -
  let ?s = "s\<lparr>ticks := Suc (ticks s), work := committed s, dead := False\<rparr>"
  have st: "wl_state w = st" and dist: "distinct (map wl_id (workloads (committed s)))"
    using assms(3,5) by (auto simp: in_state_def state_of_def)
  have step: "life_step (wl_state w) FAILED" using assms(4) st by (simp add: give_up)
  let ?d = "apply_transition w FAILED tr msg (e_uuid env (Suc (ticks s))) (e_db_now env (Suc (Suc (ticks s)))) (committed s)"
  have rd: "results ?d = results (committed s)" by (simp add: apply_transition_def)
  have "results_valid ?d" using assms(2) by (simp add: valid_same_results [OF rd])
  then have ok: "e_refuse env n ?d = None" for n using assms(1) by (simp add: enforcing_def)
  have "transition_workload_state env wid FAILED tr msg ?s =
      (Inr (), ?s\<lparr>committed := ?d, work := ?d, ticks := ticks s + 4\<rparr>)"
    using transition_taken [of ?s wid w FAILED ?d tr msg env] assms(5) step ok by (simp add: numeral_eq_Suc)
  moreover
  let ?s2 = "?s\<lparr>committed := ?d, work := ?d, ticks := ticks s + 4\<rparr>"
  let ?w = "w\<lparr>wl_state := FAILED, wl_error_message := Some msg, wl_updated_at := e_db_now env (Suc (Suc (ticks s)))\<rparr>"
  have fw: "find_workload ?d wid = Some ?w" using assms(5) by (simp add: find_workload_apply)
  have jup: "\<not> is_jupyter ?w" using assms(6) by (simp add: is_jupyter_def)
  have none: "filter (\<lambda>r. br_run_id r = wid) (results ?d) = []"
    using assms(8) by (auto simp: rd list_all_iff filter_empty_conv)
  have bad: "e_refuse env n (?d\<lparr>results := results (committed s) @ [failed_result_row i ?w wid ip t c]\<rparr>) \<noteq> None" for n i ip t c
    using assms(1,7) by (simp add: enforcing_def results_valid_def result_checks_def failed_result_row_def)
  have "\<exists>e s3. bindM (nodes_of env ?w) (\<lambda>ns.
          let node_ip = (case ns of [] \<Rightarrow> None | n # _ \<Rightarrow> Some (nd_machine_ip n)) in
          thenM (if is_jupyter ?w then ret () else record_failed_result env ?w wid node_ip) (ret node_ip)) ?s2
        = (Inl e, s3) \<and> committed s3 = ?d \<and> posts s3 = posts s \<and> critical s3 = critical s"
    using bad none jup assms(9)
    by (auto simp: nodes_of_def record_failed_result_def add_result_def act_defs Let_def rd
        split: option.splits)
  ultimately obtain e s3 where "fail_in_db env wid tr msg ?s = (Inl e, s3)" "committed s3 = ?d"
      "posts s3 = posts s" "critical s3 = critical s"
    using fw by (auto simp: fail_in_db_def bindM_def thenM_def query_def)
  moreover have "state_of ?d wid = Some FAILED" using state_of_apply [OF dist assms(5)] by simp
  ultimately show ?thesis
    by (auto simp: fail_workload_def now_def ask_def bindM_def catchM_def with_session_def thenM_def
        log_critical_def ret_def rd stuck_text_logged)
qed

lemma fp16_lower: "py_lower ''FP16'' = ''fp16''"
  by code_simp

lemma failed_row_refused_witness:
  "\<exists>s'. fail_workload (calm_env\<lparr>e_refuse := (\<lambda>_ d. if results_valid d then None else Some (DatabaseError ''check''))\<rparr>)
       ''w'' ''validate_node'' ''boom'' (fresh_sess (sample_db ''w'' CREATED [(''precision'', JStr ''FP16'')])) = (Inr (), s') \<and>
     state_of (committed s') ''w'' = Some FAILED \<and> stuck_logged ''w'' s' \<and>
     results (committed s') = results (committed (fresh_sess (sample_db ''w'' CREATED [(''precision'', JStr ''FP16'')]))) \<and>
     posts s' = posts (fresh_sess (sample_db ''w'' CREATED [(''precision'', JStr ''FP16'')]))"
  by (rule failed_row_refused [where st = CREATED and w = "sample_workload ''w'' CREATED [(''precision'', JStr ''FP16'')]"])
    (simp_all add: enforcing_def sample_defs results_valid_def in_state_def state_of_def find_workload_def
      is_jupyter_def dict_or_empty_def dict_get_def dict_get_or_def fp16_lower)

end
