(* ===== verification/Calendar.thy ===== *)
theory Calendar
  imports Prelude
begin

text \<open>
  What the server uses of \<open>datetime\<close>: the proleptic Gregorian calendar as a day number since
  1970-01-01, parsing with \<open>%Y-%m-%d\<close> and printing with \<open>%Y%m%d\<close>.
\<close>

definition all_digits :: "nat \<Rightarrow> string \<Rightarrow> bool" where
  "all_digits k s = (length s = k \<and> list_all is_digit s)"

definition small_number :: "nat \<Rightarrow> string \<Rightarrow> nat option" where
  "small_number hi s =
     (if all_digits 2 s \<or> all_digits 1 s
      then (case read_nat 0 s of None \<Rightarrow> None | Some n \<Rightarrow> if 1 \<le> n \<and> n \<le> hi then Some n else None)
      else None)"

text \<open>\<open>%d\<close> also takes a blank before a single digit.\<close>

definition day_of_month :: "string \<Rightarrow> nat option" where
  "day_of_month s = (case s of
      c # cs \<Rightarrow> if c = CHR '' '' then (if all_digits 1 cs then small_number 9 cs else None) else small_number 31 s
    | [] \<Rightarrow> None)"

definition leap_year :: "nat \<Rightarrow> bool" where
  "leap_year y = ((y mod 4 = 0 \<and> y mod 100 \<noteq> 0) \<or> y mod 400 = 0)"

definition days_in_month :: "nat \<Rightarrow> nat \<Rightarrow> nat" where
  "days_in_month y m = (if m = 2 then (if leap_year y then 29 else 28)
     else if m \<in> {4, 6, 9, 11} then 30 else 31)"

definition days_before_month :: "nat \<Rightarrow> nat \<Rightarrow> nat" where
  "days_before_month y m = sum_list (map (days_in_month y) [1..<m])"

definition days_before_year :: "nat \<Rightarrow> nat" where
  "days_before_year y = (y - 1) * 365 + (y - 1) div 4 - (y - 1) div 100 + (y - 1) div 400"

definition date_days :: "nat \<Rightarrow> nat \<Rightarrow> nat \<Rightarrow> int" where
  "date_days y m d = int (days_before_year y + days_before_month y m + d) - 719163"

definition strptime_date :: "string \<Rightarrow> exn + int" where
  "strptime_date s =
     (let bad = ValueError (''time data '' @ quoted s @ '' does not match format '' @ quoted ''%Y-%m-%d'') in
      case split_char CHR ''-'' s of
        [ys, ms, ds] \<Rightarrow>
          (if \<not> all_digits 4 ys then Inl bad
           else case (read_nat 0 ys, small_number 12 ms, day_of_month ds) of
             (Some y, Some m, Some d) \<Rightarrow>
               if y = 0 \<or> d > days_in_month y m then Inl (ValueError ''day is out of range for month'')
               else Inr (date_days y m d)
           | _ \<Rightarrow> Inl bad)
      | _ \<Rightarrow> Inl bad)"

definition utc_day :: "time \<Rightarrow> int" where
  "utc_day t = t div 86400000000"

text \<open>\<open>datetime.utcnow().strftime("%Y%m%d")\<close>: year, month and day are counted off the day number.\<close>

fun count_months :: "nat \<Rightarrow> nat \<Rightarrow> nat \<Rightarrow> nat \<Rightarrow> nat \<times> nat" where
  "count_months 0 y m d = (m, d)"
| "count_months (Suc k) y m d =
     (if d < days_in_month y m then (m, d) else count_months k y (m + 1) (d - days_in_month y m))"

definition year_of_ordinal :: "nat \<Rightarrow> nat" where
  "year_of_ordinal n = (let y = n * 400 div 146097 + 1 in
     if days_before_year (y + 1) \<le> n then y + 1
     else if n < days_before_year y then y - 1 else y)"

text \<open>The civil date of a day number: year, month and day of the month.\<close>

definition civil_date :: "int \<Rightarrow> nat \<times> nat \<times> nat" where
  "civil_date day =
     (let n = nat (day + 719162); y = year_of_ordinal n;
          (m, d) = count_months 11 y 1 (n - days_before_year y) in (y, m, d + 1))"

definition strftime_ymd :: "time \<Rightarrow> string" where
  "strftime_ymd t = (case civil_date (utc_day t) of
     (y, m, d) \<Rightarrow> show_nat y @ zero_pad 2 (show_nat m) @ zero_pad 2 (show_nat d))"

lemma date_days_examples:
  "date_days 1970 1 1 = 0" "date_days 2024 2 29 = 19782" "date_days 2026 8 6 = 20671"
  by (simp_all add: date_days_def days_before_year_def days_before_month_def days_in_month_def leap_year_def upt_rec)

lemma count_months_numeral:
  "count_months (numeral k) y m d =
     (if d < days_in_month y m then (m, d) else count_months (pred_numeral k) y (m + 1) (d - days_in_month y m))"
  by (simp add: numeral_eq_Suc)

lemma year_of_ordinal_examples: "year_of_ordinal 719162 = 1970" "year_of_ordinal 739833 = 2026"
  by (simp_all add: year_of_ordinal_def days_before_year_def)

lemma civil_date_examples: "civil_date 0 = (1970, 1, 1)" "civil_date 20671 = (2026, 8, 6)"
  by (simp_all add: civil_date_def year_of_ordinal_examples days_before_year_def count_months_numeral
      days_in_month_def leap_year_def)

end
