(* ===== verification/Masking.thy ===== *)
theory Masking
  imports Prelude
begin

text \<open>
  \<open>_IP_RE\<close> and \<open>_mask_ip\<close>, which \<open>app/utils/sse.py\<close> and \<open>app/schemas/benchmark.py\<close> share: an
  IPv4 address that is not part of a longer number loses its last two octets before it
  reaches a client.
\<close>

definition ip_char :: "char \<Rightarrow> bool" where
  "ip_char c = (is_digit c \<or> c = CHR ''.'')"

text \<open>
  \<open>\d{1,3}\<close> in this pattern is always followed by a dot or by \<open>(?![.\d])\<close>, so only the whole run of
  digits can match: the digits and what follows them.
\<close>

definition octet :: "string \<Rightarrow> (string \<times> string) option" where
  "octet s = (let d = takeWhile is_digit s in
     if 1 \<le> length d \<and> length d \<le> 3 then Some (d, dropWhile is_digit s) else None)"

definition octet_dot :: "string \<Rightarrow> (string \<times> string) option" where
  "octet_dot s = (case octet s of None \<Rightarrow> None
     | Some (d, r) \<Rightarrow> (case r of [] \<Rightarrow> None | c # cs \<Rightarrow> if c = CHR ''.'' then Some (d, cs) else None))"

text \<open>The pattern at the start of s: the text of its group and what follows the match.\<close>

definition ip_match :: "string \<Rightarrow> (string \<times> string) option" where
  "ip_match s =
     (case octet_dot s of None \<Rightarrow> None | Some (a, s1) \<Rightarrow>
     (case octet_dot s1 of None \<Rightarrow> None | Some (b, s2) \<Rightarrow>
     (case octet_dot s2 of None \<Rightarrow> None | Some (c, s3) \<Rightarrow>
     (case octet s3 of None \<Rightarrow> None | Some (d, s4) \<Rightarrow>
        if s4 \<noteq> [] \<and> ip_char (hd s4) then None else Some (a @ ''.'' @ b, s4)))))"

lemma octet_length: "octet s = Some (d, r) \<Longrightarrow> length r < length s \<and> d \<noteq> []"
proof -
  assume a: "octet s = Some (d, r)"
  then have "d = takeWhile is_digit s" and r: "r = dropWhile is_digit s" and "d \<noteq> []"
    by (auto simp: octet_def Let_def split: if_splits)
  moreover have "length s = length (takeWhile is_digit s) + length r"
    unfolding r by (metis length_append takeWhile_dropWhile_id)
  ultimately show ?thesis by auto
qed

lemma octet_dot_length: "octet_dot s = Some (d, r) \<Longrightarrow> length r < length s"
  by (auto simp: octet_dot_def split: option.splits list.splits if_splits dest!: octet_length)

lemma ip_match_length: "ip_match s = Some (g, r) \<Longrightarrow> length r < length s"
  by (auto simp: ip_match_def split: option.splits if_splits dest!: octet_dot_length octet_length)

text \<open>
  \<open>_IP_RE.sub(r'\1.x.x', s)\<close>: scan from the left, p is the character before s. After a match the
  character before is a digit.
\<close>

function mask_from :: "char option \<Rightarrow> string \<Rightarrow> string" where
  "mask_from p [] = []"
| "mask_from p (c # cs) =
     (if (case p of None \<Rightarrow> False | Some q \<Rightarrow> ip_char q) then c # mask_from (Some c) cs
      else case ip_match (c # cs) of
          Some (g, r) \<Rightarrow> g @ ''.x.x'' @ mask_from (Some CHR ''0'') r
        | None \<Rightarrow> c # mask_from (Some c) cs)"
  by pat_completeness auto
termination by (relation "measure (\<lambda>(p, s). length s)") (auto dest: ip_match_length)

declare mask_from.simps [simp del]

definition mask_ip :: "string \<Rightarrow> string" where
  "mask_ip s = mask_from None s"

section \<open>Masking one address in its context\<close>

text \<open>Text that does not end in a digit or a dot cannot take part in a match that starts after it.\<close>

definition closed_text :: "string \<Rightarrow> bool" where
  "closed_text a = (a = [] \<or> \<not> ip_char (last a))"

lemma dropWhile_closed:
  assumes "x \<noteq> []" and "\<not> ip_char (last x)"
  shows "dropWhile is_digit x \<noteq> [] \<and> last (dropWhile is_digit x) = last x \<and>
     takeWhile is_digit (x @ s) = takeWhile is_digit x \<and>
     dropWhile is_digit (x @ s) = dropWhile is_digit x @ s"
proof -
  have l: "last x \<in> set x" "\<not> is_digit (last x)" using assms by (auto simp: ip_char_def)
  then have "dropWhile is_digit x \<noteq> []" by (auto simp: dropWhile_eq_Nil_conv)
  then show ?thesis using l
    by (metis dropWhile_append1 last_appendR takeWhile_append1 takeWhile_dropWhile_id)
qed

lemma octet_closed:
  "x \<noteq> [] \<Longrightarrow> \<not> ip_char (last x) \<Longrightarrow>
   octet (x @ s) = map_option (\<lambda>(d, r). (d, r @ s)) (octet x)"
  using dropWhile_closed [of x s] by (simp add: octet_def Let_def)

lemma octet_rest_closed:
  "octet x = Some (d, r) \<Longrightarrow> x \<noteq> [] \<Longrightarrow> \<not> ip_char (last x) \<Longrightarrow> r \<noteq> [] \<and> last r = last x"
  using dropWhile_closed [of x] by (auto simp: octet_def Let_def split: if_splits)

lemma octet_dot_closed:
  assumes "x \<noteq> []" and "\<not> ip_char (last x)"
  shows "octet_dot (x @ s) = map_option (\<lambda>(d, r). (d, r @ s)) (octet_dot x)"
proof (cases "octet x")
  case None
  then show ?thesis using assms by (simp add: octet_dot_def octet_closed)
next
  case (Some p)
  obtain d r where p: "p = (d, r)" by (cases p)
  then show ?thesis using Some assms octet_rest_closed [of x d r]
    by (cases r) (auto simp: octet_dot_def octet_closed)
qed

lemma octet_dot_rest_closed:
  assumes "octet_dot x = Some (d, r)" and "x \<noteq> []" and "\<not> ip_char (last x)"
  shows "r \<noteq> [] \<and> last r = last x"
proof -
  from assms(1) obtain r' where o: "octet x = Some (d, CHR ''.'' # r)"
    by (auto simp: octet_dot_def split: option.splits list.splits if_splits)
  from octet_rest_closed [OF o assms(2,3)] assms(3) show ?thesis
    by (cases "r = []") (auto simp: ip_char_def)
qed

lemma ip_match_closed:
  assumes "x \<noteq> []" and "\<not> ip_char (last x)"
  shows "ip_match (x @ s) = map_option (\<lambda>(g, r). (g, r @ s)) (ip_match x)"
proof (cases "octet_dot x")
  case None
  then show ?thesis using assms by (simp add: ip_match_def octet_dot_closed)
next
  case (Some p1)
  obtain a s1 where p1: "octet_dot x = Some (a, s1)" using Some by (cases p1) auto
  have c1: "s1 \<noteq> []" "\<not> ip_char (last s1)" using octet_dot_rest_closed [OF p1 assms] assms by auto
  show ?thesis
  proof (cases "octet_dot s1")
    case None
    then show ?thesis using assms p1 c1 by (simp add: ip_match_def octet_dot_closed)
  next
    case (Some p2)
    obtain b s2 where p2: "octet_dot s1 = Some (b, s2)" using Some by (cases p2) auto
    have c2: "s2 \<noteq> []" "\<not> ip_char (last s2)" using octet_dot_rest_closed [OF p2 c1] c1 by auto
    show ?thesis
    proof (cases "octet_dot s2")
      case None
      then show ?thesis using assms p1 c1 p2 c2 by (simp add: ip_match_def octet_dot_closed)
    next
      case (Some p3)
      obtain c s3 where p3: "octet_dot s2 = Some (c, s3)" using Some by (cases p3) auto
      have c3: "s3 \<noteq> []" "\<not> ip_char (last s3)" using octet_dot_rest_closed [OF p3 c2] c2 by auto
      show ?thesis
      proof (cases "octet s3")
        case None
        then show ?thesis using assms p1 c1 p2 c2 p3 c3 by (simp add: ip_match_def octet_dot_closed octet_closed)
      next
        case (Some p4)
        obtain d s4 where p4: "octet s3 = Some (d, s4)" using Some by (cases p4) auto
        have "s4 \<noteq> []" using octet_rest_closed [OF p4 c3] by simp
        then show ?thesis using assms p1 c1 p2 c2 p3 c3 p4
          by (simp add: ip_match_def octet_dot_closed octet_closed)
      qed
    qed
  qed
qed

lemma ip_match_rest_closed:
  assumes "ip_match x = Some (g, r)" and "x \<noteq> []" and "\<not> ip_char (last x)"
  shows "r \<noteq> [] \<and> last r = last x"
proof -
  from assms(1) obtain a s1 b s2 c s3 d where
    m: "octet_dot x = Some (a, s1)" "octet_dot s1 = Some (b, s2)" "octet_dot s2 = Some (c, s3)"
      "octet s3 = Some (d, r)"
    by (auto simp: ip_match_def split: option.splits prod.splits if_splits)
  have 1: "s1 \<noteq> [] \<and> last s1 = last x" using octet_dot_rest_closed [OF m(1) assms(2,3)] .
  then have 2: "s2 \<noteq> [] \<and> last s2 = last x" using octet_dot_rest_closed [OF m(2)] assms(3) by simp
  then have 3: "s3 \<noteq> [] \<and> last s3 = last x" using octet_dot_rest_closed [OF m(3)] assms(3) by simp
  then show ?thesis using octet_rest_closed [OF m(4)] assms(3) by simp
qed

lemma mask_from_closed_start: "\<not> ip_char q \<Longrightarrow> mask_from (Some q) s = mask_from None s"
  by (cases s) (simp_all add: mask_from.simps)

lemma ip_match_start: "ip_match (c # cs) = Some x \<Longrightarrow> is_digit c"
  by (auto simp: ip_match_def octet_dot_def octet_def Let_def split: option.splits if_splits)

lemma mask_from_no_match:
  "\<not> (case p of None \<Rightarrow> False | Some q \<Rightarrow> ip_char q) \<Longrightarrow> ip_match (c # cs) = None \<Longrightarrow>
   mask_from p (c # cs) = c # mask_from (Some c) cs"
  by (simp add: mask_from.simps)

lemma mask_from_match:
  "\<not> (case p of None \<Rightarrow> False | Some q \<Rightarrow> ip_char q) \<Longrightarrow> ip_match (c # cs) = Some (g, r) \<Longrightarrow>
   mask_from p (c # cs) = g @ ''.x.x'' @ mask_from (Some CHR ''0'') r"
  by (simp add: mask_from.simps)

lemma mask_from_inside:
  "(case p of None \<Rightarrow> False | Some q \<Rightarrow> ip_char q) \<Longrightarrow> mask_from p (c # cs) = c # mask_from (Some c) cs"
  by (simp add: mask_from.simps)

lemma mask_from_append:
  "a \<noteq> [] \<Longrightarrow> \<not> ip_char (last a) \<Longrightarrow> mask_from p (a @ s) = mask_from p a @ mask_from None s"
proof (induction p a rule: mask_from.induct)
  case (2 p c cs)
  have tail: "mask_from (Some c) (cs @ s) = mask_from (Some c) cs @ mask_from None s"
    if ih: "cs \<noteq> [] \<Longrightarrow> \<not> ip_char (last cs) \<Longrightarrow>
      mask_from (Some c) (cs @ s) = mask_from (Some c) cs @ mask_from None s"
  proof (cases "cs = []")
    case True
    then show ?thesis using "2.prems" by (simp add: mask_from_closed_start mask_from.simps(1))
  next
    case False
    then show ?thesis using ih "2.prems" by simp
  qed
  show ?case
  proof (cases "case p of None \<Rightarrow> False | Some q \<Rightarrow> ip_char q")
    case True
    show ?thesis using tail [OF "2.IH"(1) [OF True]] by (simp add: mask_from_inside [OF True])
  next
    case start: False
    show ?thesis
    proof (cases "ip_match (c # cs)")
      case None
      then have n: "ip_match (c # (cs @ s)) = None"
        using ip_match_closed [OF "2.prems", of s] by simp
      show ?thesis using tail [OF "2.IH"(2) [OF start None]]
        by (simp add: mask_from_no_match [OF start None] mask_from_no_match [OF start n])
    next
      case (Some x)
      obtain g r where x: "x = (g, r)" by (cases x)
      have m: "ip_match (c # (cs @ s)) = Some (g, r @ s)"
        using ip_match_closed [OF "2.prems", of s] Some x by simp
      have r: "r \<noteq> [] \<and> last r = last (c # cs)"
        by (rule ip_match_rest_closed [OF _ "2.prems", of g]) (simp add: Some x)
      then have "mask_from (Some CHR ''0'') (r @ s) = mask_from (Some CHR ''0'') r @ mask_from None s"
        using "2.IH"(3) [OF start Some x [symmetric]] "2.prems" by (simp add: x)
      then show ?thesis using Some x by (simp add: mask_from_match [OF start m] mask_from_match [OF start])
    qed
  qed
qed simp

lemma mask_after_closed: "closed_text a \<Longrightarrow> mask_ip (a @ s) = mask_ip a @ mask_ip s"
  by (cases "a = []") (simp_all add: closed_text_def mask_ip_def mask_from_append mask_from.simps(1))

definition is_octet :: "string \<Rightarrow> bool" where
  "is_octet d = (1 \<le> length d \<and> length d \<le> 3 \<and> list_all is_digit d)"

lemma octet_run:
  assumes "is_octet d" and "r = [] \<or> \<not> is_digit (hd r)"
  shows "octet (d @ r) = Some (d, r)"
proof -
  have d: "list_all is_digit d" "\<forall>c \<in> set d. is_digit c" using assms(1) by (auto simp: is_octet_def list_all_iff)
  have "takeWhile is_digit r = []" "dropWhile is_digit r = r" using assms(2) by (cases r; simp)+
  then show ?thesis using d assms(1)
    by (simp add: octet_def Let_def takeWhile_append dropWhile_append is_octet_def)
qed

lemma dot_char: "\<not> is_digit CHR ''.''" "ip_char CHR ''.''"
  by (simp_all add: ip_char_def is_digit_def)

lemma ip_match_address:
  assumes "is_octet o1" "is_octet o2" "is_octet o3" "is_octet o4" and "b = [] \<or> \<not> ip_char (hd b)"
  shows "ip_match (o1 @ ''.'' @ o2 @ ''.'' @ o3 @ ''.'' @ o4 @ b) = Some (o1 @ ''.'' @ o2, b)"
proof -
  have dot: "octet_dot (d @ ''.'' @ r) = Some (d, r)" if "is_octet d" for d r
    using octet_run [OF that, of "''.'' @ r"] by (simp add: octet_dot_def dot_char)
  have "octet (o4 @ b) = Some (o4, b)"
    by (rule octet_run [OF assms(4)]) (use assms(5) in \<open>auto simp: ip_char_def\<close>)
  with assms show ?thesis by (auto simp: ip_match_def dot simp del: append.simps)
qed

text \<open>an IPv4 address that stands alone in a text, whatever comes before and after it, reaches
the client as its first two octets; masking does not disturb the text around it.\<close>

theorem standing_address_masked:
  assumes "list_all is_octet [o1, o2, o3, o4]"
    and "closed_text a" and "b = [] \<or> \<not> ip_char (hd b)"
  shows "mask_ip (a @ o1 @ ''.'' @ o2 @ ''.'' @ o3 @ ''.'' @ o4 @ b) =
     mask_ip a @ o1 @ ''.'' @ o2 @ ''.x.x'' @ mask_ip b"
proof -
  let ?ip = "o1 @ ''.'' @ o2 @ ''.'' @ o3 @ ''.'' @ o4 @ b"
  obtain c cs where ip: "?ip = c # cs" using assms(1) by (cases o1) (auto simp: is_octet_def)
  have m: "ip_match (c # cs) = Some (o1 @ ''.'' @ o2, b)"
    using ip_match_address [of o1 o2 o3 o4 b] assms by (simp add: ip [symmetric])
  have "mask_from (Some CHR ''0'') b = mask_ip b"
    using assms(3) ip_match_start by (cases b) (fastforce simp: mask_ip_def mask_from.simps ip_char_def is_digit_def split: option.splits)+
  with mask_from_match [OF _ m, of None] have "mask_ip ?ip = o1 @ ''.'' @ o2 @ ''.x.x'' @ mask_ip b"
    unfolding ip by (simp add: mask_ip_def)
  then show ?thesis by (simp add: mask_after_closed [OF assms(2)])
qed

lemma standing_address_masked_witness:
  "mask_ip (''Node: '' @ ''10'' @ ''.'' @ ''6'' @ ''.'' @ ''12'' @ ''.'' @ ''26'' @ '' ok'') =
     mask_ip ''Node: '' @ ''10'' @ ''.'' @ ''6'' @ ''.x.x'' @ mask_ip '' ok''"
  by (rule standing_address_masked) (simp_all add: is_octet_def is_digit_def closed_text_def ip_char_def)

end
