(* ===== verification/Sse.thy ===== *)
theory Sse
  imports Masking Ssh_Exec "HOL-Library.Multiset"
begin

text \<open>
  \<open>app/utils/sse.py\<close>: the log stream of one connection, one poll of the database per step. The
  cursor is the time of the last row looked at plus the ids already looked at. A run of the
  generator is the list of polls until the client disconnects; the query's row order among
  equal times, the ISO format of a time and its parser are parameters.
\<close>

record sse_state =
  last_seen :: "time option"
  is_reconnect :: bool
  sent_ids :: "uuid list"
  heartbeats :: nat

datatype sse_event = Log_event task_log | Close_event workload_state | Heartbeat

definition render :: "(time \<Rightarrow> string) \<Rightarrow> sse_event \<Rightarrow> string" where
  "render isofmt ev = (case ev of
      Log_event l \<Rightarrow> ''id: '' @ isofmt (tl_logged_at l) @ nl @ ''data: '' @ mask_ip (tl_line l) @ nl @ nl
    | Close_event st \<Rightarrow> ''event: close'' @ nl @ ''data: '' @ state_value st @ nl @ nl
    | Heartbeat \<Rightarrow> '': heartbeat'' @ nl @ nl)"

definition sse_start :: "(string \<Rightarrow> time option) \<Rightarrow> string \<Rightarrow> sse_state" where
  "sse_start parse_iso last_event_id =
     (case (if last_event_id = [] then None else parse_iso last_event_id) of
        None \<Rightarrow> \<lparr>last_seen = None, is_reconnect = False, sent_ids = [], heartbeats = 0\<rparr>
      | Some t \<Rightarrow> \<lparr>last_seen = Some t, is_reconnect = True, sent_ids = [], heartbeats = 0\<rparr>)"

text \<open>The rows of a workload's tasks, and the WHERE clause of the cursor.\<close>

definition workload_logs :: "db \<Rightarrow> uuid \<Rightarrow> task_log list" where
  "workload_logs d w = filter (\<lambda>l. list_ex (\<lambda>t. Some (tk_id t) = tl_task_id l \<and> tk_workload_id t = w) (tasks d))
     (task_logs d)"

definition past_cursor :: "sse_state \<Rightarrow> task_log \<Rightarrow> bool" where
  "past_cursor st l = (case last_seen st of
      None \<Rightarrow> True
    | Some t \<Rightarrow> if is_reconnect st then tl_logged_at l > t else tl_logged_at l \<ge> t)"

definition poll_rows :: "(task_log list \<Rightarrow> task_log list) \<Rightarrow> sse_state \<Rightarrow> task_log list \<Rightarrow> task_log list" where
  "poll_rows scan st rows = sort_key tl_logged_at (scan (filter (past_cursor st) rows))"

definition new_logs :: "(task_log list \<Rightarrow> task_log list) \<Rightarrow> sse_state \<Rightarrow> task_log list \<Rightarrow> task_log list" where
  "new_logs scan st rows = filter (\<lambda>l. tl_id l \<notin> set (sent_ids st)) (poll_rows scan st rows)"

definition hidden :: "bool \<Rightarrow> task_log \<Rightarrow> bool" where
  "hidden filter_bench_result l = (filter_bench_result \<and> starts_with ''BENCH_RESULT:'' (tl_line l))"

text \<open>The loop over the new rows: a hidden row only moves the cursor.\<close>

fun send_logs :: "bool \<Rightarrow> task_log list \<Rightarrow> sse_state \<Rightarrow> sse_event list \<times> sse_state" where
  "send_logs fb [] st = ([], st)"
| "send_logs fb (l # ls) st =
     (if hidden fb l
      then send_logs fb ls (st\<lparr>last_seen := Some (tl_logged_at l), sent_ids := tl_id l # sent_ids st\<rparr>)
      else
        (let st1 = (if Some (tl_logged_at l) \<noteq> last_seen st
                    then st\<lparr>sent_ids := [], last_seen := Some (tl_logged_at l)\<rparr> else st);
             (evs, st2) = send_logs fb ls (st1\<lparr>sent_ids := tl_id l # sent_ids st1\<rparr>)
         in (Log_event l # evs, st2)))"

definition HEARTBEAT_INTERVAL :: nat where "HEARTBEAT_INTERVAL = 15"

text \<open>One turn of the loop: the events, the state, and whether the generator ended.\<close>

definition poll :: "bool \<Rightarrow> (task_log list \<Rightarrow> task_log list) \<Rightarrow> sse_state \<Rightarrow> task_log list \<Rightarrow>
    workload_state option \<Rightarrow> sse_event list \<times> sse_state \<times> bool" where
  "poll fb scan st rows wstate =
     (let new = new_logs scan st rows;
          (evs, st1) = send_logs fb new
            (st\<lparr>is_reconnect := (if last_seen st = None then is_reconnect st else False)\<rparr>)
      in if (wstate = Some READY \<or> wstate = Some FAILED) \<and> new = []
         then (evs @ [Close_event (if wstate = Some FAILED then FAILED else READY)], st1, True)
         else if new = [] then
           (if heartbeats st1 + 1 \<ge> HEARTBEAT_INTERVAL
            then (evs @ [Heartbeat], st1\<lparr>heartbeats := 0\<rparr>, False)
            else (evs, st1\<lparr>heartbeats := heartbeats st1 + 1\<rparr>, False))
         else (evs, st1\<lparr>heartbeats := 0\<rparr>, False))"

type_synonym view = "task_log list \<times> workload_state option"

fun task_log_stream :: "bool \<Rightarrow> (task_log list \<Rightarrow> task_log list) \<Rightarrow> sse_state \<Rightarrow> view list \<Rightarrow> sse_event list" where
  "task_log_stream fb scan st [] = []"
| "task_log_stream fb scan st ((rows, wstate) # views) =
     (case poll fb scan st rows wstate of
        (evs, st1, ended) \<Rightarrow> if ended then evs else evs @ task_log_stream fb scan st1 views)"

section \<open>Lemmas\<close>

definition log_rows :: "sse_event list \<Rightarrow> task_log list" where
  "log_rows evs = concat (map (\<lambda>ev. case ev of Log_event l \<Rightarrow> [l] | _ \<Rightarrow> []) evs)"

lemma log_rows_simps [simp]:
  "log_rows [] = []" "log_rows (Log_event l # evs) = l # log_rows evs"
  "log_rows [Close_event st] = []" "log_rows [Heartbeat] = []"
  "log_rows (evs @ evs') = log_rows evs @ log_rows evs'"
  by (simp_all add: log_rows_def)

lemma send_logs_rows: "log_rows (fst (send_logs fb ls st)) = filter (\<lambda>l. \<not> hidden fb l) ls"
proof (induction ls arbitrary: st)
  case (Cons l ls)
  then show ?case by (auto simp: split_beta Let_def)
qed simp

text \<open>What the cursor knows: nothing looked at is later, and the ids at its time are kept.\<close>

definition cursor_ok :: "sse_state \<Rightarrow> task_log set \<Rightarrow> bool" where
  "cursor_ok st seen = (\<not> is_reconnect st \<and> set (sent_ids st) \<subseteq> tl_id ` seen \<and>
     (case last_seen st of
        None \<Rightarrow> seen = {}
      | Some t \<Rightarrow> t \<in> tl_logged_at ` seen \<and> (\<forall>l \<in> seen. tl_logged_at l \<le> t \<and> (tl_logged_at l = t \<longrightarrow> tl_id l \<in> set (sent_ids st)))))"

lemma cursor_ok_heartbeats [simp]: "cursor_ok (st\<lparr>heartbeats := k\<rparr>) seen = cursor_ok st seen"
  by (cases "last_seen st") (simp_all add: cursor_ok_def)

lemma send_logs_cursor:
  assumes "cursor_ok st seen" and "sorted (map tl_logged_at ls)"
    and "\<And>l t. l \<in> set ls \<Longrightarrow> last_seen st = Some t \<Longrightarrow> t \<le> tl_logged_at l"
  shows "cursor_ok (snd (send_logs fb ls st)) (seen \<union> set ls)"
  using assms
proof (induction ls arbitrary: st seen)
  case (Cons l ls)
  let ?hid = "st\<lparr>last_seen := Some (tl_logged_at l), sent_ids := tl_id l # sent_ids st\<rparr>"
  let ?st1 = "if Some (tl_logged_at l) \<noteq> last_seen st
      then st\<lparr>sent_ids := [], last_seen := Some (tl_logged_at l)\<rparr> else st"
  let ?vis = "?st1\<lparr>sent_ids := tl_id l # sent_ids ?st1\<rparr>"
  have late: "tl_logged_at l \<le> tl_logged_at x" if "x \<in> set ls" for x
    using Cons.prems(2) that by auto
  have old: "tl_logged_at x \<le> tl_logged_at l \<and> (tl_logged_at x = tl_logged_at l \<longrightarrow>
      last_seen st = Some (tl_logged_at l) \<and> tl_id x \<in> set (sent_ids st))" if x: "x \<in> seen" for x
  proof -
    obtain t where t: "last_seen st = Some t" using Cons.prems(1) x by (auto simp: cursor_ok_def split: option.splits)
    then have "t \<le> tl_logged_at l" using Cons.prems(3) [of l] by simp
    then show ?thesis using Cons.prems(1) x t by (fastforce simp: cursor_ok_def)
  qed
  have hid: "cursor_ok ?hid (insert l seen)" using Cons.prems(1) old by (auto simp: cursor_ok_def)
  have vis: "cursor_ok ?vis (insert l seen)"
  proof (cases "last_seen st = Some (tl_logged_at l)")
    case True
    then show ?thesis using Cons.prems(1) old by (auto simp: cursor_ok_def)
  next
    case False
    then have "Some (tl_logged_at l) \<noteq> last_seen st" by simp
    then show ?thesis using Cons.prems(1) old False by (auto simp: cursor_ok_def)
  qed
  have u: "seen \<union> set (l # ls) = insert l seen \<union> set ls" by simp
  have sls: "sorted (map tl_logged_at ls)" using Cons.prems(2) by simp
  show ?case
  proof (cases "hidden fb l")
    case True
    have "cursor_ok (snd (send_logs fb ls ?hid)) (insert l seen \<union> set ls)"
      by (rule Cons.IH [OF hid sls]) (use late in auto)
    then show ?thesis using True by (simp only: u send_logs.simps if_True)
  next
    case False
    have ls1: "last_seen ?vis = Some (tl_logged_at l)" by simp
    have "cursor_ok (snd (send_logs fb ls ?vis)) (insert l seen \<union> set ls)"
      by (rule Cons.IH [OF vis sls]) (use late ls1 in auto)
    then show ?thesis using False by (simp only: u send_logs.simps if_False Let_def split_beta snd_conv)
  qed
qed simp

text \<open>A view grows from what was seen: distinct ids, nothing lost, nothing new in the past.\<close>

definition grows :: "task_log set \<Rightarrow> task_log list \<Rightarrow> bool" where
  "grows seen rows = (distinct (map tl_id rows) \<and> seen \<subseteq> set rows \<and>
     (\<forall>l \<in> set rows - seen. \<forall>x \<in> seen. tl_logged_at x \<le> tl_logged_at l))"

fun growing :: "task_log set \<Rightarrow> view list \<Rightarrow> bool" where
  "growing seen [] = True"
| "growing seen ((rows, wstate) # views) = (grows seen rows \<and> growing (set rows) views)"

lemma new_logs_exact:
  assumes c: "cursor_ok st seen" and g: "grows seen rows" and scan: "\<And>ls. mset (scan ls) = mset ls"
  shows "set (new_logs scan st rows) = set rows - seen" and "distinct (new_logs scan st rows)"
    and "sorted (map tl_logged_at (new_logs scan st rows))"
    and "\<And>l t. l \<in> set (new_logs scan st rows) \<Longrightarrow> last_seen st = Some t \<Longrightarrow> t \<le> tl_logged_at l"
proof -
  have perm: "set (scan ls) = set ls" "distinct (scan ls) = distinct ls" for ls
    using scan [of ls] by (auto dest: mset_eq_setD mset_eq_imp_distinct_iff)
  have inj: "x = y" if "x \<in> set rows" "y \<in> set rows" "tl_id x = tl_id y" for x y
    using g that by (auto simp: grows_def distinct_map dest: inj_onD)
  have rows: "set (poll_rows scan st rows) = {l \<in> set rows. past_cursor st l}"
    by (simp add: poll_rows_def perm)
  have sub: "seen \<subseteq> set rows" using g by (simp add: grows_def)
  have keep: "l \<notin> seen" if l: "l \<in> set rows" "past_cursor st l" "tl_id l \<notin> set (sent_ids st)" for l
  proof
    assume "l \<in> seen"
    then obtain t where t: "last_seen st = Some t" "tl_logged_at l \<le> t"
        "tl_logged_at l = t \<longrightarrow> tl_id l \<in> set (sent_ids st)"
      using c by (auto simp: cursor_ok_def split: option.splits)
    then show False using l c by (auto simp: past_cursor_def cursor_ok_def)
  qed
  have fresh: "past_cursor st l \<and> tl_id l \<notin> set (sent_ids st)" if l: "l \<in> set rows" "l \<notin> seen" for l
  proof
    have "tl_id l \<notin> tl_id ` seen" using inj l sub by blast
    then show "tl_id l \<notin> set (sent_ids st)" using c by (auto simp: cursor_ok_def)
    show "past_cursor st l"
    proof (cases "last_seen st")
      case (Some t)
      then obtain x where "x \<in> seen" "tl_logged_at x = t" using c by (auto simp: cursor_ok_def)
      then have "t \<le> tl_logged_at l" using g l by (auto simp: grows_def)
      then show ?thesis using c Some by (simp add: past_cursor_def cursor_ok_def)
    qed (simp add: past_cursor_def)
  qed
  show "set (new_logs scan st rows) = set rows - seen"
    using keep fresh by (auto simp: new_logs_def rows)
  have "distinct rows" using g by (auto simp: grows_def distinct_map)
  then show "distinct (new_logs scan st rows)"
    by (simp add: new_logs_def poll_rows_def perm)
  show "sorted (map tl_logged_at (new_logs scan st rows))"
    unfolding new_logs_def poll_rows_def by (rule sorted_filter) simp
  show "t \<le> tl_logged_at l" if "l \<in> set (new_logs scan st rows)" "last_seen st = Some t" for l t
    using that c by (auto simp: new_logs_def rows past_cursor_def cursor_ok_def)
qed

lemma poll_step:
  assumes "cursor_ok st seen" and "grows seen rows" and scan: "\<And>ls. mset (scan ls) = mset ls"
    and p: "poll fb scan st rows ws = (evs, st1, ended)"
  shows "cursor_ok st1 (set rows)"
    and "log_rows evs = filter (\<lambda>l. \<not> hidden fb l) (new_logs scan st rows)"
    and "ended \<Longrightarrow> set rows = seen"
proof -
  let ?st = "st\<lparr>is_reconnect := (if last_seen st = None then is_reconnect st else False)\<rparr>"
  let ?new = "new_logs scan st rows"
  note new = new_logs_exact [OF assms(1,2), of scan, OF scan]
  have c: "cursor_ok ?st seen" using assms(1) by (cases "last_seen st") (auto simp: cursor_ok_def)
  have u: "seen \<union> set ?new = set rows" using assms(2) new(1) by (auto simp: grows_def)
  have "cursor_ok (snd (send_logs fb ?new ?st)) (seen \<union> set ?new)"
    by (rule send_logs_cursor [OF c new(3)]) (use new(4) in auto)
  then have fin: "cursor_ok (snd (send_logs fb ?new ?st)) (set rows)" by (simp only: u)
  show "cursor_ok st1 (set rows)"
    using p fin by (auto simp: poll_def Let_def split_beta split: if_splits)
  show "log_rows evs = filter (\<lambda>l. \<not> hidden fb l) ?new"
    using p send_logs_rows [of fb ?new ?st]
    by (auto simp: poll_def Let_def split_beta split: if_splits)
  show "ended \<Longrightarrow> set rows = seen"
    using p u by (auto simp: poll_def Let_def split_beta split: if_splits)
qed

definition delivered :: "bool \<Rightarrow> sse_event list \<Rightarrow> task_log set \<Rightarrow> view list \<Rightarrow> bool" where
  "delivered fb evs seen views = (\<exists>k < length views.
     set (log_rows evs) = {l \<in> set (fst (views ! k)) - seen. \<not> hidden fb l} \<and>
     (Suc k = length views \<or> (\<exists>w. Close_event w \<in> set evs)))"

lemma growing_later: "growing seen views \<Longrightarrow> k < length views \<Longrightarrow> seen \<subseteq> set (fst (views ! k))"
proof (induction views arbitrary: seen k)
  case (Cons v views)
  then show ?case by (cases v; cases k) (auto simp: grows_def)
qed simp

lemma stream_from:
  assumes "cursor_ok st seen" and "growing seen views" and "views \<noteq> []"
    and scan: "\<And>ls. mset (scan ls) = mset ls"
  shows "delivered fb (task_log_stream fb scan st views) seen views \<and>
     distinct (log_rows (task_log_stream fb scan st views))"
  using assms(1-3)
proof (induction views arbitrary: st seen)
  case (Cons v views)
  obtain rows ws where v: "v = (rows, ws)" by (cases v)
  obtain evs st1 ended where p: "poll fb scan st rows ws = (evs, st1, ended)" by (cases "poll fb scan st rows ws") auto
  have g: "grows seen rows" "growing (set rows) views" using Cons.prems(2) v by auto
  note step = poll_step [OF Cons.prems(1) g(1) scan p]
  note new = new_logs_exact [OF Cons.prems(1) g(1), of scan, OF scan]
  have here: "set (log_rows evs) = {l \<in> set rows - seen. \<not> hidden fb l}" "distinct (log_rows evs)"
    using step(2) new(1,2) by auto
  show ?case
  proof (cases "ended \<or> views = []")
    case True
    have "ended \<Longrightarrow> \<exists>w. Close_event w \<in> set evs"
      using p by (auto simp: poll_def Let_def split_beta split: if_splits)
    then show ?thesis using True here p
      by (auto simp: v delivered_def split: if_splits)
  next
    case False
    let ?rest = "task_log_stream fb scan st1 views"
    have ih: "delivered fb ?rest (set rows) views" "distinct (log_rows ?rest)"
      using Cons.IH [OF step(1) g(2)] False by auto
    then obtain k where k: "k < length views"
      and s: "set (log_rows ?rest) = {l \<in> set (fst (views ! k)) - set rows. \<not> hidden fb l}"
      and e: "Suc k = length views \<or> (\<exists>w. Close_event w \<in> set ?rest)" by (auto simp: delivered_def)
    have sub: "set rows \<subseteq> set (fst (views ! k))" by (rule growing_later [OF g(2) k])
    have old: "seen \<subseteq> set rows" using g(1) by (simp add: grows_def)
    have run: "task_log_stream fb scan st (v # views) = evs @ ?rest" using p False by (simp add: v)
    have "set (log_rows (evs @ ?rest)) = {l \<in> set (fst (views ! k)) - seen. \<not> hidden fb l}"
      using here(1) s sub old by auto
    then have "delivered fb (evs @ ?rest) seen (v # views)"
      unfolding delivered_def using k e by (intro exI [of _ "Suc k"]) auto
    moreover have "distinct (log_rows (evs @ ?rest))" using here ih(2) s by auto
    ultimately show ?thesis by (simp only: run)
  qed
qed simp

section \<open>Properties\<close>

text \<open>C3: a client that connects without a last event id receives, over one connection, every log
row of the workload that is not an internal marker exactly once: no row twice, none of the last
view missing, or up to the close event none of that view, as long as rows become visible in the
order of their time stamps.\<close>

theorem stream_exactly_once:
  assumes "growing {} views" and "views \<noteq> []" and "\<And>ls. mset (scan ls) = mset ls"
  shows "delivered fb (task_log_stream fb scan (sse_start parse_iso []) views) {} views \<and>
     distinct (log_rows (task_log_stream fb scan (sse_start parse_iso []) views))"
  by (rule stream_from [OF _ assms]) (simp add: cursor_ok_def sse_start_def)

lemma stream_exactly_once_witness:
  "delivered True (task_log_stream True id (sse_start (\<lambda>_. None) [])
       [([log_row 1 (Some 5) ''a'' 10], Some RUNNING), ([log_row 1 (Some 5) ''a'' 10, log_row 2 (Some 5) ''b'' 10], Some READY)]) {}
       [([log_row 1 (Some 5) ''a'' 10], Some RUNNING), ([log_row 1 (Some 5) ''a'' 10, log_row 2 (Some 5) ''b'' 10], Some READY)] \<and>
   distinct (log_rows (task_log_stream True id (sse_start (\<lambda>_. None) [])
       [([log_row 1 (Some 5) ''a'' 10], Some RUNNING), ([log_row 1 (Some 5) ''a'' 10, log_row 2 (Some 5) ''b'' 10], Some READY)]))"
  by (rule stream_exactly_once) (simp_all add: grows_def log_row_def)

text \<open>after a reconnect the first poll sends exactly the visible rows that are strictly later than
the last event the browser names: none of them again, and a row that shares that event's time
stamp without having been sent never.\<close>

theorem reconnect_resumes_after:
  assumes "last_event_id \<noteq> []" and "parse_iso last_event_id = Some t" and "\<And>ls. mset (scan ls) = mset ls"
  shows "set (log_rows (fst (poll fb scan (sse_start parse_iso last_event_id) rows ws))) =
     {l \<in> set rows. tl_logged_at l > t \<and> \<not> hidden fb l}"
proof -
  let ?st = "sse_start parse_iso last_event_id"
  have "set (scan ls) = set ls" for ls using assms(3) by (rule mset_eq_setD)
  then have "set (new_logs scan ?st rows) = {l \<in> set rows. tl_logged_at l > t}"
    using assms(1,2) by (auto simp: new_logs_def poll_rows_def sse_start_def past_cursor_def)
  moreover have "log_rows (fst (poll fb scan ?st rows ws)) = filter (\<lambda>l. \<not> hidden fb l) (new_logs scan ?st rows)"
    using send_logs_rows [of fb "new_logs scan ?st rows" "?st\<lparr>is_reconnect := (if last_seen ?st = None then is_reconnect ?st else False)\<rparr>"]
    by (simp add: poll_def Let_def split_beta)
  ultimately show ?thesis by auto
qed

lemma reconnect_resumes_after_witness:
  "set (log_rows (fst (poll True id (sse_start (\<lambda>_. Some 10) ''x'')
      [log_row 1 (Some 5) ''a'' 10, log_row 2 (Some 5) ''b'' 10, log_row 3 (Some 5) ''c'' 11] None))) =
   {l \<in> set [log_row 1 (Some 5) ''a'' 10, log_row 2 (Some 5) ''b'' 10, log_row 3 (Some 5) ''c'' 11].
      tl_logged_at l > 10 \<and> \<not> hidden True l}"
  by (rule reconnect_resumes_after) simp_all

end
