(* ===== verification/Benchmarks_Api.thy ===== *)
theory Benchmarks_Api
  imports Worker Calendar Sse
begin

text \<open>
  \<open>app/routers/benchmarks.py\<close>: submitting a run, its status and its log stream. Creating the rows
  of a workload is shared with the Jupyter launch. The message broker is \<open>e_dispatch\<close>; a chain
  that was accepted is appended to the session's \<open>queue\<close>. Validation of the request's types is
  FastAPI's.
\<close>

section \<open>Creating a workload\<close>

definition hex_lower :: "nat \<Rightarrow> char" where
  "hex_lower n = char_of (if n < 10 then 48 + n else 87 + n)"

text \<open>\<open>str(uuid.uuid4())[:6]\<close>: the six leading hexadecimal digits of the 128 bits.\<close>

definition short_uuid :: "uuid \<Rightarrow> string" where
  "short_uuid u = map (\<lambda>i. hex_lower (u div 16 ^ (31 - i) mod 16)) [0..<6]"

definition task_id_text :: "string \<Rightarrow> time \<Rightarrow> string \<Rightarrow> string" where
  "task_id_text kind t short = kind @ ''-'' @ strftime_ymd t @ ''-'' @ short"

definition new_workload :: "uuid \<Rightarrow> string \<Rightarrow> string \<Rightarrow> string option \<Rightarrow> dict \<Rightarrow> time \<Rightarrow> workload" where
  "new_workload i task_id model_name created_by cfg t = \<lparr>wl_id = i, wl_workload_id = task_id,
     wl_model_name = model_name, wl_config = Some cfg, wl_created_by = created_by, wl_state = CREATED,
     wl_error_message = None, wl_workload_port = None, wl_communication_port = None,
     wl_created_at = t, wl_updated_at = t\<rparr>"

definition new_node :: "settings \<Rightarrow> uuid \<Rightarrow> uuid \<Rightarrow> string \<Rightarrow> nat \<Rightarrow> string \<Rightarrow> time \<Rightarrow> node" where
  "new_node st nid w short i ip t = \<lparr>nd_id = nid, nd_workload_id = w,
     nd_machine_id = ''node-'' @ short @ ''-'' @ show_nat i, nd_machine_ip = ip,
     nd_machine_username = SSH_DEFAULT_USER st, nd_state = N_ADDED, nd_sw_installed = False,
     nd_gpus = None, nd_specs = None, nd_pcie_tree = None, nd_heartbeat_interval = 30,
     nd_hb_error_count = 0, nd_running_task = None, nd_created_at = t, nd_updated_at = t\<rparr>"

definition add_node :: "env \<Rightarrow> uuid \<Rightarrow> string \<Rightarrow> nat \<times> string \<Rightarrow> unit act" where
  "add_node env w short = (\<lambda>(i, ip).
     bindM (uuid4 env) (\<lambda>nid.
     bindM (server_now env) (\<lambda>t.
     change (\<lambda>d. d\<lparr>nodes := nodes d @ [new_node (e_settings env) nid w short i ip t]\<rparr>))))"

definition create_workload ::
  "env \<Rightarrow> string \<Rightarrow> string \<Rightarrow> string \<Rightarrow> string option \<Rightarrow> dict \<Rightarrow> string list \<Rightarrow> unit act" where
  "create_workload env task_id short model_name created_by cfg ips =
     bindM (uuid4 env) (\<lambda>w.
     bindM (server_now env) (\<lambda>t.
     thenM (change (\<lambda>d. d\<lparr>workloads := workloads d @ [new_workload w task_id model_name created_by cfg t]\<rparr>))
     (thenM (for_each (enumerate 0 ips) (add_node env w short))
     (commit env))))"

text \<open>\<open>chain.delay(task_id)\<close>.\<close>

definition dispatch :: "env \<Rightarrow> string \<Rightarrow> string \<Rightarrow> unit act" where
  "dispatch env chain_name task_id =
     thenM (ask_fallible (\<lambda>n. e_dispatch env n (chain_name, task_id)))
       (\<lambda>s. (Inr (), s\<lparr>queue := queue s @ [(chain_name, task_id)]\<rparr>))"

section \<open>The endpoints\<close>

record start_request =
  sr_model_name :: string
  sr_node_ips :: "string list"
  sr_config :: dict
  sr_created_by :: "string option"

record start_response =
  st_status :: string
  st_task_id :: string
  st_message :: string

definition dataset_required :: exn where
  "dataset_required = HTTPException 422 (''config.dataset_path is required: an absolute path to a '' @
     ''ShareGPT-format JSON file that already exists on the '' @ ''target GPU node.'')"

definition start_benchmark :: "env \<Rightarrow> start_request \<Rightarrow> start_response act" where
  "start_benchmark env req = with_session
     (bindM (lift_sum (json_strip (json_or (dict_get (sr_config req) ''dataset_path'') (JStr [])))) (\<lambda>dataset_path.
      if dataset_path = [] then raise_exn dataset_required
      else
        bindM (now env) (\<lambda>t.
        bindM (uuid4 env) (\<lambda>u.
        let task_id = task_id_text ''wl'' t (short_uuid u) in
        thenM (create_workload env task_id (short_uuid u) (sr_model_name req) (sr_created_by req)
           (sr_config req) (sr_node_ips req))
        (thenM (dispatch env ''start_benchmark_chain'' task_id)
        (ret \<lparr>st_status = ''success'', st_task_id = task_id,
              st_message = ''Benchmark workload created and dispatched to Celery.''\<rparr>))))))"

record status_response =
  ss_task_id :: string
  ss_workload_id :: string
  ss_state :: workload_state
  ss_error_message :: "string option"
  ss_created_by :: "string option"
  ss_updated_at :: time

definition get_benchmark_status :: "string \<Rightarrow> status_response act" where
  "get_benchmark_status task_id = with_session
     (bindM (query (\<lambda>d. find_workload d task_id)) (\<lambda>found.
      case found of
        None \<Rightarrow> raise_exn (HTTPException 404 ''Workload not found'')
      | Some w \<Rightarrow> ret \<lparr>ss_task_id = wl_workload_id w, ss_workload_id = wl_workload_id w,
          ss_state = wl_state w, ss_error_message = wl_error_message w,
          ss_created_by = wl_created_by w, ss_updated_at = wl_updated_at w\<rparr>))"

text \<open>
  The id is resolved once; the generator then polls views of that workload. The answer is the
  text the client receives.
\<close>

definition view_of :: "uuid \<Rightarrow> db \<Rightarrow> view" where
  "view_of w d = (workload_logs d w, map_option wl_state (find (\<lambda>x. wl_id x = w) (workloads d)))"

definition stream_benchmark_logs ::
  "env \<Rightarrow> (task_log list \<Rightarrow> task_log list) \<Rightarrow> (time \<Rightarrow> string) \<Rightarrow> string \<Rightarrow> string \<Rightarrow> db list \<Rightarrow> string list act" where
  "stream_benchmark_logs env scan isofmt task_id last_event_id dbs = with_session
     (bindM (query (\<lambda>d. find_workload d task_id)) (\<lambda>found.
      case found of
        None \<Rightarrow> raise_exn (HTTPException 404 ''Workload not found.'')
      | Some w \<Rightarrow> ret (map (render isofmt)
          (task_log_stream True scan
            (sse_start (\<lambda>x. map_option fst (e_parse_iso env x)) last_event_id)
            (map (view_of (wl_id w)) dbs)))))"

section \<open>What creating a workload does\<close>

lemma add_nodes_run:
  "\<exists>ns t. for_each (enumerate k ips) (add_node env w short) s =
      (Inr (), s\<lparr>work := (work s)\<lparr>nodes := nodes (work s) @ ns\<rparr>, ticks := t\<rparr>) \<and>
    map nd_machine_ip ns = ips \<and> list_all (\<lambda>n. nd_workload_id n = w \<and> nd_state n = N_ADDED) ns"
proof (induction ips arbitrary: k s)
  case Nil
  show ?case by (intro exI [of _ "[]"] exI [of _ "ticks s"]) (simp add: ret_def)
next
  case (Cons ip ips)
  let ?n = "new_node (e_settings env) (e_uuid env (ticks s)) w short k ip (e_db_now env (Suc (ticks s)))"
  let ?s1 = "s\<lparr>work := (work s)\<lparr>nodes := nodes (work s) @ [?n]\<rparr>, ticks := Suc (Suc (ticks s))\<rparr>"
  have one: "add_node env w short (k, ip) s = (Inr (), ?s1)" by (simp add: add_node_def act_defs)
  obtain ns t where "for_each (enumerate (Suc k) ips) (add_node env w short) ?s1 =
      (Inr (), ?s1\<lparr>work := (work ?s1)\<lparr>nodes := nodes (work ?s1) @ ns\<rparr>, ticks := t\<rparr>)"
    and "map nd_machine_ip ns = ips" "list_all (\<lambda>n. nd_workload_id n = w \<and> nd_state n = N_ADDED) ns"
    using Cons.IH [of "Suc k" ?s1] by blast
  then show ?case using one
    by (intro exI [of _ "?n # ns"] exI [of _ t]) (simp add: thenM_def bindM_def new_node_def)
qed

definition created :: "string \<Rightarrow> string \<Rightarrow> string option \<Rightarrow> dict \<Rightarrow> string list \<Rightarrow> db \<Rightarrow> db \<Rightarrow> bool" where
  "created task_id model_name created_by cfg ips d d' =
     (\<exists>w t ns. d' = d\<lparr>workloads := workloads d @ [new_workload w task_id model_name created_by cfg t],
          nodes := nodes d @ ns\<rparr> \<and> map nd_machine_ip ns = ips \<and>
        list_all (\<lambda>n. nd_workload_id n = w \<and> nd_state n = N_ADDED) ns)"

lemma create_workload_run:
  assumes "create_workload env task_id short model_name created_by cfg ips s = (r, s')" and "\<not> dead s"
  shows "case r of
      Inr _ \<Rightarrow> created task_id model_name created_by cfg ips (work s) (committed s')
    | Inl _ \<Rightarrow> committed s' = committed s"
    and "queue s' = queue s"
proof -
  let ?w = "e_uuid env (ticks s)"
  let ?row = "new_workload ?w task_id model_name created_by cfg (e_db_now env (Suc (ticks s)))"
  let ?s1 = "s\<lparr>ticks := Suc (Suc (ticks s)), work := (work s)\<lparr>workloads := workloads (work s) @ [?row]\<rparr>\<rparr>"
  obtain ns t where n: "for_each (enumerate 0 ips) (add_node env ?w short) ?s1 =
      (Inr (), ?s1\<lparr>work := (work ?s1)\<lparr>nodes := nodes (work ?s1) @ ns\<rparr>, ticks := t\<rparr>)"
    and ns: "map nd_machine_ip ns = ips" "list_all (\<lambda>n. nd_workload_id n = ?w \<and> nd_state n = N_ADDED) ns"
    using add_nodes_run [of 0 ips env ?w short ?s1] by blast
  let ?d = "(work s)\<lparr>workloads := workloads (work s) @ [?row], nodes := nodes (work s) @ ns\<rparr>"
  let ?s2 = "s\<lparr>work := ?d, ticks := t\<rparr>"
  have run: "create_workload env task_id short model_name created_by cfg ips s = commit env ?s2"
    using n by (simp add: create_workload_def uuid4_def server_now_def ask_def change_def thenM_def bindM_def)
  have "created task_id model_name created_by cfg ips (work s) ?d"
    unfolding created_def using ns by blast
  with assms run show "case r of
      Inr _ \<Rightarrow> created task_id model_name created_by cfg ips (work s) (committed s')
    | Inl _ \<Rightarrow> committed s' = committed s" and "queue s' = queue s"
    by (auto simp: commit_def split: option.splits)
qed

lemma dispatch_run:
  "dispatch env c task_id s = (r, s') \<Longrightarrow> committed s' = committed s \<and>
   (case r of Inr _ \<Rightarrow> queue s' = queue s @ [(c, task_id)] | Inl _ \<Rightarrow> queue s' = queue s)"
  by (auto simp: dispatch_def act_defs split: option.splits)

text \<open>The shape of both submissions: create, dispatch, answer.\<close>

lemma submission_run:
  assumes "thenM (create_workload env task_id short model_name created_by cfg ips)
      (thenM (dispatch env c task_id) (ret a)) s = (r, s')" and "\<not> dead s"
  shows "case r of
      Inr b \<Rightarrow> b = a \<and> created task_id model_name created_by cfg ips (work s) (committed s') \<and>
        queue s' = queue s @ [(c, task_id)]
    | Inl _ \<Rightarrow> queue s' = queue s \<and>
        (committed s' = committed s \<or> created task_id model_name created_by cfg ips (work s) (committed s'))"
proof -
  obtain r1 s1 where c1: "create_workload env task_id short model_name created_by cfg ips s = (r1, s1)"
    by fastforce
  note cr = create_workload_run [OF c1 assms(2)]
  show ?thesis
  proof (cases r1)
    case (Inl e)
    then show ?thesis using assms(1) c1 cr by (auto simp: thenM_def bindM_def)
  next
    case (Inr u)
    obtain r2 s2 where d: "dispatch env c task_id s1 = (r2, s2)" by fastforce
    show ?thesis using assms(1) c1 d Inr cr dispatch_run [OF d]
      by (cases r2) (auto simp: thenM_def bindM_def ret_def)
  qed
qed

lemma start_benchmark_run:
  assumes "start_benchmark env req s = (r, s')"
  shows "(case r of
      Inr a \<Rightarrow>
        created (st_task_id a) (sr_model_name req) (sr_created_by req) (sr_config req) (sr_node_ips req)
          (committed s) (committed s') \<and>
        queue s' = queue s @ [(''start_benchmark_chain'', st_task_id a)]
    | Inl e \<Rightarrow> queue s' = queue s) \<and>
    (json_strip (json_or (dict_get (sr_config req) ''dataset_path'') (JStr [])) = Inr [] \<longrightarrow>
      r = Inl dataset_required \<and> committed s' = committed s)"
proof (cases "json_strip (json_or (dict_get (sr_config req) ''dataset_path'') (JStr []))")
  case (Inl e)
  then show ?thesis using assms
    by (auto simp: start_benchmark_def with_session_def bindM_def lift_sum_def)
next
  case (Inr p)
  show ?thesis
  proof (cases "p = []")
    case True
    then show ?thesis using assms Inr
      by (auto simp: start_benchmark_def with_session_def bindM_def lift_sum_def raise_exn_def)
  next
    case False
    let ?s = "s\<lparr>work := committed s, dead := False, ticks := Suc (Suc (ticks s))\<rparr>"
    let ?short = "short_uuid (e_uuid env (Suc (ticks s)))"
    let ?tid = "task_id_text ''wl'' (e_now env (ticks s)) ?short"
    obtain r1 s1 where run: "thenM (create_workload env ?tid ?short (sr_model_name req) (sr_created_by req)
           (sr_config req) (sr_node_ips req)) (thenM (dispatch env ''start_benchmark_chain'' ?tid)
        (ret \<lparr>st_status = ''success'', st_task_id = ?tid,
              st_message = ''Benchmark workload created and dispatched to Celery.''\<rparr>)) ?s = (r1, s1)"
      by fastforce
    then have "r = r1" "committed s' = committed s1" "queue s' = queue s1"
      using assms Inr False
      by (auto simp: start_benchmark_def with_session_def bindM_def lift_sum_def now_def uuid4_def ask_def Let_def)
    with submission_run [OF run] Inr False show ?thesis by (auto split: sum.splits)
  qed
qed

section \<open>Properties\<close>

text \<open>a submitted run is committed as one CREATED workload with one ADDED node per address, in
the request's order, and then dispatched exactly once under the id the client gets; a blank
data set path is refused with 422 before anything is written, and no failure dispatches.\<close>

theorem start_benchmark_creates:
  assumes "start_benchmark env req s = (r, s')"
  shows "(case r of
      Inr a \<Rightarrow>
        created (st_task_id a) (sr_model_name req) (sr_created_by req) (sr_config req) (sr_node_ips req)
          (committed s) (committed s') \<and>
        queue s' = queue s @ [(''start_benchmark_chain'', st_task_id a)]
    | Inl e \<Rightarrow> queue s' = queue s) \<and>
    (json_strip (json_or (dict_get (sr_config req) ''dataset_path'') (JStr [])) = Inr [] \<longrightarrow>
      r = Inl dataset_required \<and> committed s' = committed s)"
  using assms by (rule start_benchmark_run)

definition sample_request :: "dict \<Rightarrow> start_request" where
  "sample_request cfg = \<lparr>sr_model_name = ''Llama'', sr_node_ips = [''10.0.0.1''], sr_config = cfg,
     sr_created_by = Some ''ann''\<rparr>"

lemma start_benchmark_creates_witness:
  "(\<exists>a s'. start_benchmark calm_env (sample_request [(''dataset_path'', JStr ''/d'')]) (fresh_sess empty_db) = (Inr a, s') \<and>
      created (st_task_id a) ''Llama'' (Some ''ann'') [(''dataset_path'', JStr ''/d'')] [''10.0.0.1'']
        (committed (fresh_sess empty_db)) (committed s') \<and>
      queue s' = [(''start_benchmark_chain'', st_task_id a)]) \<and>
   fst (start_benchmark calm_env (sample_request []) (fresh_sess empty_db)) = Inl dataset_required"
proof
  let ?req = "sample_request [(''dataset_path'', JStr ''/d'')]" and ?s = "fresh_sess empty_db"
  obtain r s' where run: "start_benchmark calm_env ?req ?s = (r, s')" by fastforce
  have slash: "py_strip ''/d'' = ''/d''" by code_simp
  obtain a where a: "r = Inr a"
    using run by (auto simp: start_benchmark_def act_defs dispatch_def create_workload_def add_node_def
        sample_request_def calm_env_def json_strip_def json_or_def dict_get_def slash Let_def fresh_sess_def)
  show "\<exists>a s'. start_benchmark calm_env ?req ?s = (Inr a, s') \<and>
      created (st_task_id a) ''Llama'' (Some ''ann'') [(''dataset_path'', JStr ''/d'')] [''10.0.0.1'']
        (committed ?s) (committed s') \<and> queue s' = [(''start_benchmark_chain'', st_task_id a)]"
    using start_benchmark_creates [OF run] run a by (auto simp: sample_request_def fresh_sess_def)
  have blank: "json_strip (json_or (dict_get (sr_config (sample_request [])) ''dataset_path'') (JStr [])) = Inr []"
    by (simp add: sample_request_def json_strip_def json_or_def dict_get_def py_strip_def)
  show "fst (start_benchmark calm_env (sample_request []) ?s) = Inl dataset_required"
    using start_benchmark_creates [OF prod.collapse [symmetric], of calm_env "sample_request []" ?s] blank by simp
qed

section \<open>From a submission to the end of its chain\<close>

lemma created_in_state:
  assumes "created task_id m b cfg ips d d'" and "distinct (map wl_id (workloads d'))"
    and "distinct (map wl_workload_id (workloads d'))"
  shows "in_state task_id CREATED d'"
proof -
  obtain w t ns where d': "d' = d\<lparr>workloads := workloads d @ [new_workload w task_id m b cfg t], nodes := nodes d @ ns\<rparr>"
    using assms(1) by (auto simp: created_def)
  have "task_id \<notin> wl_workload_id ` set (workloads d)"
    using assms(3) by (auto simp: d' new_workload_def)
  then have "find (\<lambda>x. wl_workload_id x = task_id) (workloads d) = None"
    by (auto simp: find_None_iff)
  then have "find (\<lambda>x. wl_workload_id x = task_id) (workloads d @ [new_workload w task_id m b cfg t]) =
      Some (new_workload w task_id m b cfg t)"
    by (simp add: find_snoc new_workload_def)
  then show ?thesis using assms(2)
    by (simp add: in_state_def state_of_def find_workload_def d' new_workload_def)
qed

text \<open>C2: whatever happens after the client got its id, the run it names ends READY or FAILED or
is reported as stuck: the chain the broker delivers starts from the state the submission left.\<close>

theorem submitted_run_settles:
  assumes "start_benchmark env req s = (Inr a, s1)"
    and "distinct (map wl_id (workloads (committed s1)))"
    and "distinct (map wl_workload_id (workloads (committed s1)))"
    and "start_benchmark_chain env' (st_task_id a) s1 = (r, s2)"
  shows "case r of
      Inr v \<Rightarrow> v = st_task_id a \<and> state_of (committed s2) (st_task_id a) = Some READY
    | Inl _ \<Rightarrow> state_of (committed s2) (st_task_id a) = Some FAILED \<or> stuck_logged (st_task_id a) s2"
proof -
  have "created (st_task_id a) (sr_model_name req) (sr_created_by req) (sr_config req) (sr_node_ips req)
      (committed s) (committed s1)"
    using start_benchmark_run [OF assms(1)] by simp
  from created_in_state [OF this assms(2,3)] have c: "in_state (st_task_id a) CREATED (committed s1)" .
  moreover have "work s1 = committed s1"
    using assms(1) by (auto simp: start_benchmark_def with_session_def split: prod.splits)
  ultimately have "both (in_state (st_task_id a) CREATED) s1" by (simp add: both_def)
  from benchmark_chain.run_cases [OF assms(4) this] show ?thesis
    by (auto simp: both_def gave_up_def in_state_def split: sum.splits)
qed

lemma submitted_run_settles_witness:
  "\<exists>a s1. start_benchmark calm_env (sample_request [(''dataset_path'', JStr ''/d'')]) (fresh_sess empty_db) = (Inr a, s1) \<and>
     (case fst (start_benchmark_chain calm_env (st_task_id a) s1) of
        Inr v \<Rightarrow> v = st_task_id a \<and>
          state_of (committed (snd (start_benchmark_chain calm_env (st_task_id a) s1))) (st_task_id a) = Some READY
      | Inl _ \<Rightarrow>
          state_of (committed (snd (start_benchmark_chain calm_env (st_task_id a) s1))) (st_task_id a) = Some FAILED \<or>
          stuck_logged (st_task_id a) (snd (start_benchmark_chain calm_env (st_task_id a) s1)))"
proof -
  let ?req = "sample_request [(''dataset_path'', JStr ''/d'')]" and ?s = "fresh_sess empty_db"
  obtain r s1 where run: "start_benchmark calm_env ?req ?s = (r, s1)" by fastforce
  have slash: "py_strip ''/d'' = ''/d''" by code_simp
  obtain a where a: "r = Inr a"
    using run by (auto simp: start_benchmark_def act_defs dispatch_def create_workload_def add_node_def
        sample_request_def calm_env_def json_strip_def json_or_def dict_get_def slash Let_def fresh_sess_def)
  have "created (st_task_id a) (sr_model_name ?req) (sr_created_by ?req) (sr_config ?req) (sr_node_ips ?req)
      (committed ?s) (committed s1)"
    using start_benchmark_run [OF run] a by simp
  then have "distinct (map wl_id (workloads (committed s1)))" "distinct (map wl_workload_id (workloads (committed s1)))"
    by (auto simp: created_def fresh_sess_def empty_db_def)
  from submitted_run_settles [OF run [unfolded a] this prod.collapse [symmetric]] show ?thesis
    using run a by blast
qed

end
