(* ===== verification/Jupyter_Api.thy ===== *)
theory Jupyter_Api
  imports Benchmarks_Api "HOL-Library.Product_Lexorder"
begin

text \<open>
  \<open>app/routers/jupyter.py\<close>: the assistant, the on-demand instances, the persistent mark and the
  deletion with its cascade. The rows of the tables a deleted workload owns go with it
  (\<open>ondelete="CASCADE"\<close> of the foreign keys). HTTP is \<open>e_http_get\<close>: a status and a latency in
  milliseconds, or an exception.
\<close>

section \<open>Health\<close>

record health =
  hl_healthy :: bool
  hl_latency_ms :: "int option"

definition ping_url :: "env \<Rightarrow> string \<Rightarrow> health act" where
  "ping_url env url =
     bindM (ask (\<lambda>n. e_http_get env n url)) (\<lambda>reply.
     ret (case reply of
         Inr (code, latency) \<Rightarrow> \<lparr>hl_healthy = (code < 500), hl_latency_ms = Some latency\<rparr>
       | Inl _ \<Rightarrow> \<lparr>hl_healthy = False, hl_latency_ms = None\<rparr>))"

definition get_jupyter_assistant :: "settings \<Rightarrow> string option \<times> bool" where
  "get_jupyter_assistant st =
     (if JUPYTER_ASSISTANT_URL st \<noteq> [] then (Some (JUPYTER_ASSISTANT_URL st), True) else (None, False))"

definition check_assistant_health :: "env \<Rightarrow> (string option \<times> health) act" where
  "check_assistant_health env =
     (if JUPYTER_ASSISTANT_URL (e_settings env) = []
      then ret (None, \<lparr>hl_healthy = False, hl_latency_ms = None\<rparr>)
      else bindM (ping_url env (JUPYTER_ASSISTANT_URL (e_settings env))) (\<lambda>h.
        ret (Some (JUPYTER_ASSISTANT_URL (e_settings env)), h)))"

section \<open>Instances\<close>

definition wl_dict :: "workload \<Rightarrow> dict" where
  "wl_dict w = dict_or_empty (wl_config w)"

definition is_persistent :: "workload \<Rightarrow> bool" where
  "is_persistent w = truthy (dict_get (wl_dict w) ''is_persistent'')"

definition find_jupyter :: "string \<Rightarrow> db \<Rightarrow> workload option" where
  "find_jupyter task_id d =
     find (\<lambda>w. wl_workload_id w = task_id \<and> wl_model_name w = ''jupyter'') (workloads d)"

record instance_row =
  ji_task_id :: string
  ji_state :: workload_state
  ji_node_ip :: "string option"
  ji_jupyter_url :: json
  ji_is_persistent :: bool
  ji_created_by :: "string option"
  ji_created_at :: time
  ji_updated_at :: time

text \<open>The outer join: one row per node of the workload, or one without a node.\<close>

definition join_nodes :: "node list \<Rightarrow> workload \<Rightarrow> (workload \<times> string option) list" where
  "join_nodes ns w =
     (case filter (\<lambda>n. nd_workload_id n = wl_id w) ns of
        [] \<Rightarrow> [(w, None)] | own \<Rightarrow> map (\<lambda>n. (w, Some (nd_machine_ip n))) own)"

definition instance_of :: "workload \<times> string option \<Rightarrow> instance_row" where
  "instance_of = (\<lambda>(w, ip). \<lparr>ji_task_id = wl_workload_id w, ji_state = wl_state w, ji_node_ip = ip,
     ji_jupyter_url = dict_get (wl_dict w) ''jupyter_url'', ji_is_persistent = is_persistent w,
     ji_created_by = wl_created_by w, ji_created_at = wl_created_at w, ji_updated_at = wl_updated_at w\<rparr>)"

definition instance_key :: "instance_row \<Rightarrow> nat \<times> time" where
  "instance_key i = (if ji_is_persistent i then 0 else 1, ji_created_at i)"

definition jupyter_rows :: "workload list \<Rightarrow> workload list" where
  "jupyter_rows ws = sort_key (\<lambda>w. - wl_created_at w)
     (filter (\<lambda>w. wl_model_name w = ''jupyter'' \<and> wl_state w = READY \<and> wl_workload_id w \<noteq> ''persistent'') ws)"

definition instances_of :: "workload list \<Rightarrow> node list \<Rightarrow> instance_row list" where
  "instances_of ws ns =
     sort_key instance_key
       (map instance_of (filter (\<lambda>p. truthy (dict_get (wl_dict (fst p)) ''jupyter_url''))
         (concat (map (join_nodes ns) (jupyter_rows ws)))))"

definition list_jupyter_instances :: "env \<Rightarrow> instance_row list act" where
  "list_jupyter_instances env = with_session
     (bindM (query (\<lambda>d. (workloads d, nodes d))) (\<lambda>(ws, ns).
      bindM (ask (\<lambda>k. e_scan_nodes env k ns)) (\<lambda>ns. ret (instances_of ws ns))))"

section \<open>The persistent instance\<close>

definition set_persistent :: "bool \<Rightarrow> time \<Rightarrow> workload \<Rightarrow> workload" where
  "set_persistent b t w = w\<lparr>wl_config := Some (dict_set (wl_dict w) ''is_persistent'' (JBool b)),
     wl_updated_at := t\<rparr>"

text \<open>\<open>sql_delete(Workload)\<close> with what the foreign keys cascade to.\<close>

definition cascade_delete :: "(workload \<Rightarrow> bool) \<Rightarrow> db \<Rightarrow> db" where
  "cascade_delete p d =
     (let gone = map wl_id (filter p (workloads d));
          gone_nodes = map nd_id (filter (\<lambda>n. nd_workload_id n \<in> set gone) (nodes d));
          gone_tasks = map tk_id (filter (\<lambda>t. tk_workload_id t \<in> set gone) (tasks d)) in
      d\<lparr>workloads := filter (\<lambda>w. \<not> p w) (workloads d),
        events := filter (\<lambda>e. ev_workload_id e \<notin> set gone) (events d),
        nodes := filter (\<lambda>n. nd_workload_id n \<notin> set gone) (nodes d),
        tasks := map (\<lambda>t. case tk_node_id t of
              None \<Rightarrow> t
            | Some i \<Rightarrow> if i \<in> set gone_nodes then t\<lparr>tk_node_id := None\<rparr> else t)
          (filter (\<lambda>t. tk_workload_id t \<notin> set gone) (tasks d)),
        task_logs := filter (\<lambda>l. case tl_task_id l of None \<Rightarrow> True | Some i \<Rightarrow> i \<notin> set gone_tasks) (task_logs d)\<rparr>)"

definition unmark_others :: "string \<Rightarrow> time \<Rightarrow> db \<Rightarrow> db" where
  "unmark_others task_id t d = d\<lparr>workloads := update_where
     (\<lambda>w. wl_model_name w = ''jupyter'' \<and> wl_workload_id w \<noteq> task_id \<and> is_persistent w)
     (set_persistent False t) (workloads d)\<rparr>"

definition mark :: "uuid \<Rightarrow> time \<Rightarrow> db \<Rightarrow> db" where
  "mark i t d = d\<lparr>workloads := update_where (\<lambda>w. wl_id w = i) (set_persistent True t) (workloads d)\<rparr>"

definition jupyter_not_found :: exn where
  "jupyter_not_found = HTTPException 404 ''Jupyter workload not found''"

definition set_persistent_jupyter :: "env \<Rightarrow> string \<Rightarrow> (string \<times> json) act" where
  "set_persistent_jupyter env task_id = with_session
     (bindM (query (find_jupyter task_id)) (\<lambda>found.
      case found of
        None \<Rightarrow> raise_exn (HTTPException 404 (''Jupyter workload not found: '' @ task_id))
      | Some w \<Rightarrow>
          bindM (now env) (\<lambda>t.
          thenM (change (unmark_others task_id t))
          (thenM (change (cascade_delete (\<lambda>x. wl_workload_id x = ''persistent'')))
          (bindM (now env) (\<lambda>t.
           thenM (change (mark (wl_id w) t))
          (thenM (commit env)
          (ret (task_id, dict_get (wl_dict w) ''jupyter_url''))))))))) "

section \<open>Launch, status, stream\<close>

record launch_response =
  lr_status :: string
  lr_task_id :: string
  lr_message :: string

definition jupyter_config :: dict where
  "jupyter_config = [(''workload_type'', JStr ''jupyter'')]"

definition launch_jupyter_request :: "env \<Rightarrow> string \<Rightarrow> string option \<Rightarrow> launch_response act" where
  "launch_jupyter_request env node_ip created_by = with_session
     (bindM (now env) (\<lambda>t.
      bindM (uuid4 env) (\<lambda>u.
      let task_id = task_id_text ''jup'' t (short_uuid u) in
      thenM (create_workload env task_id (short_uuid u) ''jupyter'' created_by jupyter_config [node_ip])
      (thenM (dispatch env ''start_jupyter_chain'' task_id)
      (ret \<lparr>lr_status = ''accepted'', lr_task_id = task_id,
            lr_message = ''Jupyter launch started. Poll GET /api/v1/jupyter/instances '' @ u_dash @
              '' the instance appears once it reaches READY state.''\<rparr>)))))"

record instance_status =
  is_task_id :: string
  is_state :: workload_state
  is_jupyter_url :: json
  is_workload_port :: "int option"
  is_error_message :: "string option"
  is_created_by :: "string option"
  is_updated_at :: time

definition get_jupyter_instance_status :: "string \<Rightarrow> instance_status act" where
  "get_jupyter_instance_status task_id = with_session
     (bindM (query (find_jupyter task_id)) (\<lambda>found.
      case found of
        None \<Rightarrow> raise_exn jupyter_not_found
      | Some w \<Rightarrow> ret \<lparr>is_task_id = task_id, is_state = wl_state w,
          is_jupyter_url = dict_get (wl_dict w) ''jupyter_url'', is_workload_port = wl_workload_port w,
          is_error_message = wl_error_message w, is_created_by = wl_created_by w,
          is_updated_at = wl_updated_at w\<rparr>))"

text \<open>The lookup looks up to five times, once a second; the argument is what each look sees.\<close>

definition stream_jupyter_logs ::
  "env \<Rightarrow> (task_log list \<Rightarrow> task_log list) \<Rightarrow> (time \<Rightarrow> string) \<Rightarrow> string \<Rightarrow> string \<Rightarrow> db list \<Rightarrow> db list \<Rightarrow> exn + string list" where
  "stream_jupyter_logs env scan isofmt task_id last_event_id looks dbs =
     (case List.map_filter (find_jupyter task_id) (take 5 looks) of
        [] \<Rightarrow> Inl jupyter_not_found
      | w # _ \<Rightarrow> Inr (map (render isofmt)
          (task_log_stream False scan (sse_start (\<lambda>x. map_option fst (e_parse_iso env x)) last_event_id)
            (map (view_of (wl_id w)) dbs))))"

definition check_instance_health :: "env \<Rightarrow> string \<Rightarrow> (string \<times> json \<times> health) act" where
  "check_instance_health env task_id = with_session
     (bindM (query (find_jupyter task_id)) (\<lambda>found.
      case found of
        None \<Rightarrow> raise_exn jupyter_not_found
      | Some w \<Rightarrow>
          (case dict_get (wl_dict w) ''jupyter_url'' of
             JStr url \<Rightarrow>
               if url = [] then ret (task_id, JNull, \<lparr>hl_healthy = False, hl_latency_ms = None\<rparr>)
               else bindM (ping_url env url) (\<lambda>h. ret (task_id, JStr url, h))
           | j \<Rightarrow>
               if truthy j then ret (task_id, j, \<lparr>hl_healthy = False, hl_latency_ms = None\<rparr>)
               else ret (task_id, JNull, \<lparr>hl_healthy = False, hl_latency_ms = None\<rparr>))))"

section \<open>Deletion\<close>

definition stop_container :: "env \<Rightarrow> string \<Rightarrow> node \<Rightarrow> unit act" where
  "stop_container env task_id n =
     catchM
       (thenM (ssh_connect env (nd_machine_ip n) (nd_machine_username n))
        (bindM (run_command env (nd_machine_ip n) (nd_machine_username n)
           (docker_rm_cmd (''jupyter-'' @ task_id)) None) (\<lambda>_. ret ())))
       (\<lambda>_. ret ())"

definition stop_on_node :: "env \<Rightarrow> string \<Rightarrow> node list \<Rightarrow> unit act" where
  "stop_on_node env task_id ns =
     (case ns of
        [] \<Rightarrow> ret ()
      | [n] \<Rightarrow> stop_container env task_id n
      | _ \<Rightarrow> raise_exn (OtherException ''Multiple rows were found when one or none was required''))"

definition delete_rows :: "env \<Rightarrow> string \<Rightarrow> workload \<Rightarrow> unit act" where
  "delete_rows env task_id w =
     thenM (change (cascade_delete (\<lambda>x. wl_id x = wl_id w)))
     (thenM (commit env)
     (catchM (remove_jupyter_config env task_id) (\<lambda>_. ret ())))"

definition delete_found :: "env \<Rightarrow> string \<Rightarrow> workload \<Rightarrow> unit act" where
  "delete_found env task_id w =
     bindM (nodes_of env w) (\<lambda>ns.
     thenM (stop_on_node env task_id ns) (delete_rows env task_id w))"

definition delete_jupyter_instance :: "env \<Rightarrow> string \<Rightarrow> unit act" where
  "delete_jupyter_instance env task_id = with_session
     (if task_id = ''persistent''
      then raise_exn (HTTPException 400 (''Legacy persistent row '' @ u_dash @ '' delete via DB directly.''))
      else
        bindM (query (find_jupyter task_id)) (\<lambda>found.
        case found of
          None \<Rightarrow> raise_exn jupyter_not_found
        | Some w \<Rightarrow>
            if is_persistent w
            then raise_exn (HTTPException 400 (''Cannot delete a persistent instance. Un-mark it first via '' @
              ''POST /api/v1/jupyter/persistent with another task_id.''))
            else delete_found env task_id w))"

section \<open>Lemmas\<close>

text \<open>Stopping a container leaves every table but the log alone.\<close>

definition but_logs :: "db \<Rightarrow> db \<Rightarrow> bool" where
  "but_logs d0 d = (d\<lparr>task_logs := []\<rparr> = d0\<lparr>task_logs := []\<rparr>)"

lemma keeps_stop_container: "keeps (both (but_logs d0)) (stop_container env task_id n)"
  unfolding stop_container_def ssh_connect_def run_command_def exec_command_def log_output_def write_log_def
  by (intro keeps_rules keeps_change) (simp add: but_logs_def)

lemma but_logs_fields:
  "but_logs d0 d \<Longrightarrow> workloads d = workloads d0 \<and> nodes d = nodes d0 \<and> tasks d = tasks d0 \<and> events d = events d0 \<and>
     results d = results d0"
  unfolding but_logs_def
  by (metis (no_types, lifting) db.select_convs db.surjective db.update_convs(5))

lemma cascade_delete_workloads: "workloads (cascade_delete p d) = filter (\<lambda>w. \<not> p w) (workloads d)"
  by (simp add: cascade_delete_def Let_def)

text \<open>What the deletion of one workload leaves of each of the other tables.\<close>

lemma cascade_delete_fields:
  assumes "w \<in> set (workloads d)"
  defines "d' \<equiv> cascade_delete (\<lambda>x. wl_id x = wl_id w) d"
  shows "nodes d' = filter (\<lambda>n. nd_workload_id n \<noteq> wl_id w) (nodes d)"
    "map tk_id (tasks d') = map tk_id (filter (\<lambda>t. tk_workload_id t \<noteq> wl_id w) (tasks d))"
    "list_all (\<lambda>t. tk_workload_id t \<noteq> wl_id w) (tasks d')"
    "list_all (\<lambda>l. \<forall>t \<in> set (tasks d). tk_workload_id t = wl_id w \<longrightarrow> tl_task_id l \<noteq> Some (tk_id t)) (task_logs d')"
    "events d' = filter (\<lambda>e. ev_workload_id e \<noteq> wl_id w) (events d)"
proof -
  have gone: "set (map wl_id (filter (\<lambda>x. wl_id x = wl_id w) (workloads d))) = {wl_id w}" using assms(1) by auto
  show "nodes d' = filter (\<lambda>n. nd_workload_id n \<noteq> wl_id w) (nodes d)"
    "events d' = filter (\<lambda>e. ev_workload_id e \<noteq> wl_id w) (events d)"
    using gone by (simp_all add: d'_def cascade_delete_def Let_def)
  show "map tk_id (tasks d') = map tk_id (filter (\<lambda>t. tk_workload_id t \<noteq> wl_id w) (tasks d))"
    using gone by (auto simp: d'_def cascade_delete_def Let_def split: option.split)
  show "list_all (\<lambda>t. tk_workload_id t \<noteq> wl_id w) (tasks d')"
    using gone by (auto simp: d'_def cascade_delete_def Let_def list_all_iff split: option.split)
  show "list_all (\<lambda>l. \<forall>t \<in> set (tasks d). tk_workload_id t = wl_id w \<longrightarrow> tl_task_id l \<noteq> Some (tk_id t)) (task_logs d')"
    using gone by (auto simp: d'_def cascade_delete_def Let_def list_all_iff split: option.splits)
qed

lemma remove_config_run: "\<exists>s'. catchM (remove_jupyter_config env tid) (\<lambda>_. ret ()) s = (Inr (), s') \<and>
    committed s' = committed s"
  using nginx_removal_quiet [of env tid s] by (auto simp: catchM_def)

lemma delete_rows_run:
  assumes "delete_rows env tid w s = (r, s')"
  shows "case r of Inr _ \<Rightarrow> committed s' = cascade_delete (\<lambda>x. wl_id x = wl_id w) (work s)
    | Inl _ \<Rightarrow> committed s' = committed s"
proof -
  let ?s1 = "s\<lparr>work := cascade_delete (\<lambda>x. wl_id x = wl_id w) (work s)\<rparr>"
  obtain r2 s2 where c: "commit env ?s1 = (r2, s2)" by fastforce
  obtain s3 where n: "catchM (remove_jupyter_config env tid) (\<lambda>_. ret ()) s2 = (Inr (), s3)"
    and "committed s3 = committed s2" using remove_config_run by blast
  then show ?thesis using assms c
    by (cases r2) (auto simp: delete_rows_def thenM_def bindM_def change_def commit_def split: option.splits if_splits)
qed

lemma delete_found_run:
  assumes "delete_found env tid w s = (r, s')" and "work s = committed s"
  shows "case r of
      Inr _ \<Rightarrow> (\<exists>d. but_logs (committed s) d \<and> committed s' = cascade_delete (\<lambda>x. wl_id x = wl_id w) d)
    | Inl _ \<Rightarrow> but_logs (committed s) (committed s')"
proof -
  obtain rn sn where n: "nodes_of env w s = (rn, sn)" by fastforce
  then have sn: "committed sn = committed s" "work sn = work s"
    by (auto simp: nodes_of_def bindM_def query_def ask_def split: if_splits)
  show ?thesis
  proof (cases rn)
    case (Inl e)
    then show ?thesis using assms n sn by (auto simp: delete_found_def bindM_def but_logs_def)
  next
    case (Inr ns)
    obtain r1 s1 where stop: "stop_on_node env tid ns sn = (r1, s1)" by fastforce
    have "keeps (both (but_logs (committed s))) (stop_on_node env tid ns)"
      unfolding stop_on_node_def by (auto intro!: keeps_ret keeps_raise keeps_stop_container split: list.split)
    from keepsD [OF this, of sn] have s1: "but_logs (committed s) (committed s1)" "but_logs (committed s) (work s1)"
      using stop sn assms(2) by (simp_all add: both_def but_logs_def)
    obtain r2 s2 where tail: "delete_rows env tid w s1 = (r2, s2)" by fastforce
    show ?thesis using assms(1) n Inr stop tail s1 delete_rows_run [OF tail]
      by (cases r1; cases r2) (auto simp: delete_found_def bindM_def thenM_def)
  qed
qed

lemma delete_run:
  assumes "delete_jupyter_instance env task_id s = (r, s')"
  shows "case r of
      Inr _ \<Rightarrow> (\<exists>w d. find_jupyter task_id (committed s) = Some w \<and> \<not> is_persistent w \<and> but_logs (committed s) d \<and>
        committed s' = cascade_delete (\<lambda>x. wl_id x = wl_id w) d)
    | Inl _ \<Rightarrow> but_logs (committed s) (committed s')"
proof (cases "task_id = ''persistent''")
  case True
  then show ?thesis using assms
    by (auto simp: delete_jupyter_instance_def with_session_def raise_exn_def but_logs_def)
next
  case np: False
  let ?s = "s\<lparr>work := committed s, dead := False\<rparr>"
  show ?thesis
  proof (cases "find_jupyter task_id (committed s)")
    case None
    then show ?thesis using assms np
      by (auto simp: delete_jupyter_instance_def with_session_def bindM_def query_def raise_exn_def but_logs_def)
  next
    case (Some w)
    obtain r2 s2 where d: "delete_found env task_id w ?s = (r2, s2)" by fastforce
    show ?thesis using assms np Some d delete_found_run [OF d]
      by (cases "is_persistent w") (auto simp: delete_jupyter_instance_def with_session_def bindM_def query_def
          raise_exn_def but_logs_def split: sum.splits)
  qed
qed

section \<open>Properties\<close>


definition jupyter_row :: "string \<Rightarrow> dict \<Rightarrow> workload" where
  "jupyter_row task_id cfg = (sample_workload task_id READY cfg)\<lparr>wl_model_name := ''jupyter''\<rparr>"

definition one_notebook :: db where
  "one_notebook = empty_db\<lparr>workloads := [jupyter_row ''j'' []],
     tasks := [\<lparr>tk_id = 7, tk_workload_id = wl_id (jupyter_row ''j'' []), tk_node_id = None, tk_run_name = [], tk_config = None,
       tk_status = ''success'', tk_started_at = 0, tk_completed_at = None\<rparr>],
     task_logs := [log_row 9 (Some 7) ''started'' 0]\<rparr>"


lemma wl_dict_set_persistent [simp]:
  "is_persistent (set_persistent b t w) = b" "wl_id (set_persistent b t w) = wl_id w"
  "wl_workload_id (set_persistent b t w) = wl_workload_id w" "wl_model_name (set_persistent b t w) = wl_model_name w"
  by (simp_all add: is_persistent_def set_persistent_def wl_dict_def dict_or_empty_def)

lemma set_persistent_run:
  assumes "set_persistent_jupyter env task_id s = (r, s')"
  shows "case r of
      Inr _ \<Rightarrow> (\<exists>w t t'. find_jupyter task_id (committed s) = Some w \<and>
        workloads (committed s') = workloads (mark (wl_id w) t'
          (cascade_delete (\<lambda>x. wl_workload_id x = ''persistent'') (unmark_others task_id t (committed s)))))
    | Inl _ \<Rightarrow> committed s' = committed s"
  using assms
  by (auto simp: set_persistent_jupyter_def act_defs split: option.splits) blast?

lemma marked_workloads:
  assumes "x \<in> set (workloads (mark i t' (cascade_delete p (unmark_others task_id t d))))"
    and "\<And>b t w. p (set_persistent b t w) = p w"
  obtains y where "y \<in> set (workloads d)" and "\<not> p y"
    and "wl_id x = wl_id y" "wl_workload_id x = wl_workload_id y" "wl_model_name x = wl_model_name y"
    and "is_persistent x = (wl_id y = i \<or>
      \<not> (wl_model_name y = ''jupyter'' \<and> wl_workload_id y \<noteq> task_id) \<and> is_persistent y)"
  using assms(1)
  by (auto simp: mark_def unmark_others_def cascade_delete_workloads update_where_def assms(2) split: if_splits)

lemma marked_ids:
  "map wl_workload_id (workloads (mark i t'
     (cascade_delete (\<lambda>x. wl_workload_id x = ''persistent'') (unmark_others task_id t d)))) =
   filter (\<lambda>x. x \<noteq> ''persistent'') (map wl_workload_id (workloads d))"
proof -
  have "map wl_workload_id (filter (\<lambda>x. wl_workload_id x \<noteq> ''persistent'') ws) =
      filter (\<lambda>x. x \<noteq> ''persistent'') (map wl_workload_id ws)" for ws
    by (simp add: filter_map comp_def)
  from this [of "workloads (unmark_others task_id t d)"] show ?thesis
    by (simp add: mark_def unmark_others_def map_update_where_frame cascade_delete_workloads)
qed

text \<open>C12: marking an instance persistent un-marks every other one, so that the marked instance is
the only persistent one; but the legacy row is deleted on the way, so marking the instance
whose id is \<open>persistent\<close> answers ok and deletes it.\<close>


theorem marked_is_only_persistent:
  assumes "set_persistent_jupyter env task_id s = (r, s')"
    and "distinct (map wl_id (workloads (committed s)))"
    and "distinct (map wl_workload_id (workloads (committed s)))"
  shows "case r of
      Inr _ \<Rightarrow>
        list_all (\<lambda>w. wl_model_name w \<noteq> ''jupyter'' \<or> is_persistent w = (wl_workload_id w = task_id))
          (workloads (committed s')) \<and>
        list_ex (\<lambda>w. wl_workload_id w = task_id) (workloads (committed s')) = (task_id \<noteq> ''persistent'')
    | Inl _ \<Rightarrow> committed s' = committed s"
proof (cases r)
  case (Inr a)
  then obtain w t t' where w: "find_jupyter task_id (committed s) = Some w"
    and s': "workloads (committed s') = workloads (mark (wl_id w) t'
          (cascade_delete (\<lambda>x. wl_workload_id x = ''persistent'') (unmark_others task_id t (committed s))))"
    using set_persistent_run [OF assms(1)] by auto
  have wm: "w \<in> set (workloads (committed s))" "wl_workload_id w = task_id"
    using w by (auto simp: find_jupyter_def find_Some_iff)
  have one: "wl_id y = wl_id w \<longleftrightarrow> wl_workload_id y = task_id" if "y \<in> set (workloads (committed s))" for y
    using assms(2,3) wm that by (metis distinct_map inj_onD)
  have p: "(wl_workload_id (set_persistent b t x) = ''persistent'') = (wl_workload_id x = ''persistent'')" for b t x
    by simp
  have "wl_model_name x \<noteq> ''jupyter'' \<or> is_persistent x = (wl_workload_id x = task_id)"
    if "x \<in> set (workloads (committed s'))" for x
    using that unfolding s' by (rule marked_workloads [OF _ p]) (auto simp: one)
  moreover have "list_ex (\<lambda>w. wl_workload_id w = task_id) (workloads (committed s')) = (task_id \<noteq> ''persistent'')"
  proof -
    have "task_id \<in> set (map wl_workload_id (workloads (committed s'))) \<longleftrightarrow> task_id \<noteq> ''persistent''"
      unfolding s' marked_ids using wm by auto
    then show ?thesis by (force simp: list_ex_iff)
  qed
  ultimately show ?thesis using Inr by (simp add: list_all_iff)
qed (use set_persistent_run [OF assms(1)] in auto)

lemma marked_is_only_persistent_witness:
  "\<not> list_ex (\<lambda>w. wl_workload_id w = ''persistent'') (workloads (committed (snd
     (set_persistent_jupyter calm_env ''persistent''
       (fresh_sess (empty_db\<lparr>workloads := [jupyter_row ''persistent'' []]\<rparr>))))))"
proof -
  let ?s = "fresh_sess (empty_db\<lparr>workloads := [jupyter_row ''persistent'' []]\<rparr>)"
  obtain r s' where run: "set_persistent_jupyter calm_env ''persistent'' ?s = (r, s')" by fastforce
  obtain u where u: "r = Inr u"
    using run by (auto simp: set_persistent_jupyter_def act_defs find_jupyter_def jupyter_row_def sample_defs)
  have d: "distinct (map wl_id (workloads (committed ?s)))" "distinct (map wl_workload_id (workloads (committed ?s)))"
    by (simp_all add: fresh_sess_def)
  with marked_is_only_persistent [OF run d] u run show ?thesis by auto
qed

text \<open>the list of instances puts the persistent ones first and, among the others, the oldest
first, although the code's comment says newest first.\<close>

theorem instances_persistent_then_oldest:
  assumes "L = instances_of ws ns" and "i < j" and "j < length L"
  shows "(ji_is_persistent (L ! j) \<longrightarrow> ji_is_persistent (L ! i)) \<and>
    (ji_is_persistent (L ! i) = ji_is_persistent (L ! j) \<longrightarrow> ji_created_at (L ! i) \<le> ji_created_at (L ! j))"
proof -
  have "sorted (map instance_key L)" by (simp add: assms(1) instances_of_def)
  then have "instance_key (L ! i) \<le> instance_key (L ! j)"
    using assms(2,3) sorted_nth_mono [of "map instance_key L" i j] by simp
  then show ?thesis by (auto simp: instance_key_def less_eq_prod_def split: if_splits)
qed

lemma instances_persistent_then_oldest_witness:
  "ji_created_at (instances_of
      [(jupyter_row ''a'' [(''jupyter_url'', JStr ''u'')])\<lparr>wl_created_at := 5\<rparr>,
       (jupyter_row ''b'' [(''jupyter_url'', JStr ''v'')])\<lparr>wl_id := 3, wl_created_at := 2\<rparr>] [] ! 0) \<le>
   ji_created_at (instances_of
      [(jupyter_row ''a'' [(''jupyter_url'', JStr ''u'')])\<lparr>wl_created_at := 5\<rparr>,
       (jupyter_row ''b'' [(''jupyter_url'', JStr ''v'')])\<lparr>wl_id := 3, wl_created_at := 2\<rparr>] [] ! 1)"
proof -
  let ?ws = "[(jupyter_row ''a'' [(''jupyter_url'', JStr ''u'')])\<lparr>wl_created_at := 5\<rparr>,
       (jupyter_row ''b'' [(''jupyter_url'', JStr ''v'')])\<lparr>wl_id := 3, wl_created_at := 2\<rparr>]"
  have l: "length (instances_of ?ws []) = 2" "list_all (\<lambda>i. \<not> ji_is_persistent i) (instances_of ?ws [])"
    by (simp_all add: instances_of_def jupyter_rows_def jupyter_row_def sample_workload_def join_nodes_def
        instance_of_def wl_dict_def dict_or_empty_def dict_get_def is_persistent_def list_all_iff)
  then have "\<not> ji_is_persistent (instances_of ?ws [] ! 0)" "\<not> ji_is_persistent (instances_of ?ws [] ! 1)"
    by (simp_all add: list_all_length)
  with instances_persistent_then_oldest [of "instances_of ?ws []" ?ws "[]" 0 1] l(1) show ?thesis by simp
qed

end
