(* ===== verification/Keyed_Rows.thy ===== *)
theory Keyed_Rows
  imports Prelude
begin

text \<open>
  INSERT ... ON CONFLICT DO UPDATE as an interface: rows with a unique key, an operation that puts a
  row in, and the relation of a stored row to the row it came from, which some columns (the id, the
  time of creation) may tell apart. The ingest endpoint and the GPU catalogue provide it; the seed
  scripts rest on it.
\<close>

lemma list_all2_found: "list_all2 P xs ys \<Longrightarrow> x \<in> set xs \<Longrightarrow> \<exists>y \<in> set ys. P x y"
  by (induction rule: list_all2_induct) auto

locale keyed_rows =
  fixes key :: "'r \<Rightarrow> 'k"
    and put :: "'r \<Rightarrow> 'r list \<Rightarrow> 'r list"
    and agrees :: "'r \<Rightarrow> 'r \<Rightarrow> bool"
  assumes put_found: "\<exists>x \<in> set (put new rs). key x = key new \<and> agrees new x"
    and put_others: "filter (\<lambda>r. key r \<noteq> key new) (put new rs) = filter (\<lambda>r. key r \<noteq> key new) rs"
    and put_distinct: "distinct (map key rs) \<Longrightarrow> distinct (map key (put new rs))"
    and put_same: "distinct (map key rs) \<Longrightarrow> x \<in> set rs \<Longrightarrow> key x = key new \<Longrightarrow> agrees new x \<Longrightarrow> put new rs = rs"
    and agrees_trans: "agrees n' n \<Longrightarrow> agrees n x \<Longrightarrow> agrees n' x"
begin

lemma put_keeps: "x \<in> set rs \<Longrightarrow> key x \<noteq> key new \<Longrightarrow> x \<in> set (put new rs)"
proof -
  assume "x \<in> set rs" "key x \<noteq> key new"
  then have "x \<in> set (filter (\<lambda>r. key r \<noteq> key new) (put new rs))" by (simp add: put_others)
  then show ?thesis by simp
qed

lemma puts_keep: "x \<in> set rs \<Longrightarrow> key x \<notin> key ` set news \<Longrightarrow> x \<in> set (fold put news rs)"
  by (induction news arbitrary: rs) (auto intro: put_keeps)

lemma puts_distinct: "distinct (map key rs) \<Longrightarrow> distinct (map key (fold put news rs))"
  by (induction news arbitrary: rs) (auto intro: put_distinct)

lemma puts_found:
  assumes "distinct (map key news)" and "n \<in> set news"
  shows "\<exists>x \<in> set (fold put news rs). key x = key n \<and> agrees n x"
  using assms
proof (induction news arbitrary: rs)
  case (Cons m news)
  show ?case
  proof (cases "n = m")
    case True
    then show ?thesis using put_found [of m rs] puts_keep [of _ "put m rs" news] Cons.prems(1) by fastforce
  next
    case False
    then show ?thesis using Cons by simp
  qed
qed simp

lemma put_others_outside:
  assumes "key new \<in> K"
  shows "filter (\<lambda>r. key r \<notin> K) (put new rs) = filter (\<lambda>r. key r \<notin> K) rs"
proof -
  have f: "filter (\<lambda>r. key r \<notin> K) xs = filter (\<lambda>r. key r \<notin> K) (filter (\<lambda>r. key r \<noteq> key new) xs)" for xs
    using assms by (auto intro!: filter_cong)
  show ?thesis using f [of rs] f [of "put new rs"] by (simp only: put_others)
qed

lemma puts_others:
  "key ` set news \<subseteq> K \<Longrightarrow> filter (\<lambda>r. key r \<notin> K) (fold put news rs) = filter (\<lambda>r. key r \<notin> K) rs"
  by (induction news arbitrary: rs) (simp_all add: put_others_outside)

lemma puts_same:
  assumes "distinct (map key rs)" and "\<forall>n \<in> set news. \<exists>x \<in> set rs. key x = key n \<and> agrees n x"
  shows "fold put news rs = rs"
  using assms(2) by (induction news) (auto dest: put_same [OF assms(1)])

lemma puts_again:
  assumes "distinct (map key rs)" and "distinct (map key news)"
    and "list_all2 (\<lambda>n' n. key n' = key n \<and> agrees n' n) news' news"
  shows "fold put news' (fold put news rs) = fold put news rs"
proof (rule puts_same [OF puts_distinct [OF assms(1)]], rule ballI)
  fix n' assume "n' \<in> set news'"
  then obtain n where n: "n \<in> set news" "key n' = key n" "agrees n' n"
    using list_all2_found [OF assms(3)] by blast
  obtain x where "x \<in> set (fold put news rs)" "key x = key n" "agrees n x"
    using puts_found [OF assms(2) n(1)] by blast
  then show "\<exists>x \<in> set (fold put news rs). key x = key n' \<and> agrees n' x"
    using n agrees_trans [OF n(3)] by auto
qed

end

end
