(* ===== verification/Ingest_Api.thy ===== *)
theory Ingest_Api
  imports Worker Keyed_Rows
begin

text \<open>
  \<open>app/routers/ingest.py\<close>: a runner's payload becomes one row of \<open>benchmark_results\<close>, inserted or,
  on a conflict of (\<open>run_id\<close>, \<open>sub_run_index\<close>), merged into the row that is there. A time is a
  pair of the instant and whether it carries a zone; subtracting a mixed pair raises.
\<close>

type_synonym datetime = "time \<times> bool"

record ingest_payload =
  in_run_id :: string
  in_timestamp :: datetime
  in_workload_name :: string
  in_workload_type :: string
  in_metrics :: dict
  in_status :: string
  in_gpu_type :: string
  in_node_ip :: string
  in_config :: dict
  in_sub_run_index :: int

section \<open>Fields of the row\<close>

text \<open>\<open>int(x)\<close> of a JSON value.\<close>

definition json_int :: "json \<Rightarrow> exn + int" where
  "json_int j = (case j of
      JInt i \<Rightarrow> Inr i
    | JBool b \<Rightarrow> Inr (if b then 1 else 0)
    | JFloat r \<Rightarrow> Inr (if 0 \<le> r then \<lfloor>r\<rfloor> else \<lceil>r\<rceil>)
    | JStr s \<Rightarrow> (case py_int s of Some i \<Rightarrow> Inr i
        | None \<Rightarrow> Inl (ValueError (''invalid literal for int() with base 10: '' @ quoted s)))
    | _ \<Rightarrow> Inl (TypeError (''int() argument must be a string, a bytes-like object or a real number, not '' @
        quoted (type_name j))))"

definition parallelism_text :: "int \<Rightarrow> int \<Rightarrow> string" where
  "parallelism_text tp pp =
     (if tp > 1 \<and> pp > 1 then ''tp'' @ show_int tp @ ''pp'' @ show_int pp
      else if pp > 1 then ''pp'' @ show_int pp
      else if tp > 1 then ''tp'' @ show_int tp
      else ''tp1'')"

definition degree :: "dict \<Rightarrow> string \<Rightarrow> exn + int" where
  "degree d k = json_int (json_or (dict_get_or d k (JInt 1)) (JInt 1))"

definition parallelism_of :: "dict \<Rightarrow> exn + string option" where
  "parallelism_of metrics =
     (case dict_get metrics ''parallelism'' of
        JObj d \<Rightarrow>
          (case degree d ''tensor_parallel_size'' of Inl e \<Rightarrow> Inl e
           | Inr tp \<Rightarrow> (case degree d ''pipeline_parallel_size'' of Inl e \<Rightarrow> Inl e
              | Inr pp \<Rightarrow> Inr (Some (parallelism_text tp pp))))
      | _ \<Rightarrow> Inr None)"

definition workload_type_text :: "string \<Rightarrow> string" where
  "workload_type_text t = py_strip (py_lower (if t = [] then ''llm'' else t))"

definition minus_error :: "json \<Rightarrow> exn" where
  "minus_error j = TypeError (''unsupported operand type(s) for -: '' @ quoted ''datetime.datetime'' @ '' and '' @
     quoted (type_name j))"

definition started_of :: "env \<Rightarrow> datetime \<Rightarrow> json \<Rightarrow> exn + datetime" where
  "started_of env timestamp j =
     (case j of
        JStr s \<Rightarrow> Inr (case e_parse_iso env s of Some t \<Rightarrow> t | None \<Rightarrow> timestamp)
      | _ \<Rightarrow> if truthy j then Inl (minus_error j) else Inr timestamp)"

definition duration_of :: "datetime \<Rightarrow> datetime \<Rightarrow> exn + rat option" where
  "duration_of timestamp started =
     (if snd timestamp \<noteq> snd started
      then Inl (TypeError ''can't subtract offset-naive and offset-aware datetimes'')
      else Inr (if fst timestamp - fst started > 0 then Some (seconds_between (fst started) (fst timestamp)) else None))"

definition ingest_row ::
  "env \<Rightarrow> ingest_payload \<Rightarrow> exn + (uuid \<Rightarrow> time \<Rightarrow> benchmark_result)" where
  "ingest_row env p =
     (let m = in_metrics p; cfg = in_config p in
      case parallelism_of m of Inl e \<Rightarrow> Inl e | Inr par \<Rightarrow>
     (case started_of env (in_timestamp p) (dict_get cfg ''started_at'') of Inl e \<Rightarrow> Inl e | Inr st \<Rightarrow>
     (case duration_of (in_timestamp p) st of Inl e \<Rightarrow> Inl e | Inr dur \<Rightarrow>
      Inr (\<lambda>i created. \<lparr>br_id = i, br_run_id = in_run_id p, br_sub_run_index = in_sub_run_index p,
        br_model_name = in_workload_name p,
        br_pipeline_version = dict_get_or cfg ''pipeline_version'' (JStr ''unknown''),
        br_node_ips = [in_node_ip p], br_gpu_type = py_lower (in_gpu_type p),
        br_gpu_count = dict_get_or cfg ''gpu_count'' (JInt 1), br_gpu_model = dict_get cfg ''gpu_model'',
        br_server_name = json_or (dict_get m ''server_name'') (dict_get cfg ''server_name''),
        br_precision = dict_get_or cfg ''precision'' (JStr ''fp16''),
        br_input_tokens = dict_get_or cfg ''input_tokens'' (JInt 0),
        br_output_tokens = dict_get_or cfg ''output_tokens'' (JInt 0),
        br_concurrency = dict_get_or cfg ''concurrency'' (JInt 1),
        br_parallelism = par, br_workload_type = workload_type_text (in_workload_type p),
        br_status = py_lower (in_status p),
        br_total_token_throughput = dict_get m ''total_token_throughput'',
        br_mean_ttft_ms = dict_get m ''mean_ttft_ms'', br_mean_tpot_ms = dict_get m ''mean_tpot_ms'',
        br_mean_e2el_ms = dict_get m ''mean_e2el_ms'', br_metrics = JObj m, br_started_at = fst st,
        br_completed_at = Some (fst (in_timestamp p)), br_duration_seconds = dur,
        br_created_at = created\<rparr>))))"

section \<open>The upsert\<close>

text \<open>ON CONFLICT: every column but the key, the id and \<open>created_at\<close> takes the new value.\<close>

definition merge_row :: "benchmark_result \<Rightarrow> benchmark_result \<Rightarrow> benchmark_result" where
  "merge_row new old = new\<lparr>br_id := br_id old, br_created_at := br_created_at old\<rparr>"

definition upsert :: "benchmark_result \<Rightarrow> benchmark_result list \<Rightarrow> benchmark_result list" where
  "upsert new rs =
     (if list_ex (\<lambda>r. result_key r = result_key new) rs
      then update_where (\<lambda>r. result_key r = result_key new) (merge_row new) rs
      else rs @ [new])"

definition ingest_metrics :: "env \<Rightarrow> ingest_payload \<Rightarrow> string act" where
  "ingest_metrics env p = with_session
     (bindM (lift_sum (ingest_row env p)) (\<lambda>row.
      bindM (uuid4 env) (\<lambda>i.
      bindM (server_now env) (\<lambda>t.
      thenM (catchM
         (thenM (change (\<lambda>d. d\<lparr>results := upsert (row i t) (results d)\<rparr>)) (commit env))
         (\<lambda>e. thenM rollback (raise_exn (HTTPException 500 (''Database error during ingestion: '' @ exc_str e)))))
      (ret (in_run_id p))))))"

section \<open>Lemmas\<close>

lemma ingest_row_key:
  "ingest_row env p = Inr row \<Longrightarrow> result_key (row i t) = (in_run_id p, in_sub_run_index p)"
  by (auto simp: ingest_row_def Let_def result_key_def split: sum.splits)

lemma ingest_row_merge:
  "ingest_row env p = Inr row \<Longrightarrow> merge_row (row i t) (row j u) = row j u"
  "ingest_row env p = Inr row \<Longrightarrow> merge_row (row i t) (merge_row (row j u) r) = merge_row (row j u) r"
  by (auto simp: ingest_row_def Let_def merge_row_def split: sum.splits)

lemma merge_row_key [simp]: "result_key (merge_row new old) = result_key new"
  by (simp add: merge_row_def result_key_def)

lemma upsert_keys:
  "map result_key (upsert new rs) =
     (if list_ex (\<lambda>r. result_key r = result_key new) rs then map result_key rs
      else map result_key rs @ [result_key new])"
  by (auto simp: upsert_def update_where_def)

lemma ex_key: "list_ex (\<lambda>r. result_key r = k) rs = (k \<in> set (map result_key rs))"
  by (auto simp: list_ex_iff)

lemma merge_row_fields [simp]:
  "br_metrics (merge_row new old) = br_metrics new" "br_status (merge_row new old) = br_status new"
  by (simp_all add: merge_row_def)

lemma upsert_stored:
  "\<exists>x. x \<in> set (upsert new rs) \<and> result_key x = result_key new \<and> br_metrics x = br_metrics new \<and>
     br_status x = br_status new"
proof (cases "list_ex (\<lambda>r. result_key r = result_key new) rs")
  case True
  then obtain r where "r \<in> set rs" "result_key r = result_key new" by (auto simp: list_ex_iff)
  then show ?thesis using True
    by (intro exI [of _ "merge_row new r"]) (auto simp: upsert_def update_where_def)
next
  case False
  then show ?thesis by (auto simp: upsert_def)
qed

lemma upsert_keys_distinct: "distinct (map result_key rs) \<Longrightarrow> distinct (map result_key (upsert new rs))"
  unfolding upsert_keys by (auto simp: list_ex_iff)

lemma upsert_others:
  "filter (\<lambda>r. result_key r \<noteq> result_key new) (upsert new rs) = filter (\<lambda>r. result_key r \<noteq> result_key new) rs"
proof -
  have "filter (\<lambda>r. result_key r \<noteq> result_key new)
      (update_where (\<lambda>r. result_key r = result_key new) (merge_row new) rs) =
    filter (\<lambda>r. result_key r \<noteq> result_key new) rs"
    by (induction rs) (auto simp: update_where_def)
  then show ?thesis by (simp add: upsert_def)
qed

lemma upsert_again:
  assumes "ingest_row env p = Inr row"
  shows "upsert (row i t) (upsert (row j u) rs) = upsert (row j u) rs"
proof -
  note k = ingest_row_key [OF assms] and m = ingest_row_merge [OF assms]
  show ?thesis
  proof (cases "list_ex (\<lambda>r. result_key r = result_key (row j u)) rs")
    case True
    have "update_where (\<lambda>r. result_key r = result_key (row i t)) (merge_row (row i t))
        (update_where (\<lambda>r. result_key r = result_key (row j u)) (merge_row (row j u)) rs) =
      update_where (\<lambda>r. result_key r = result_key (row j u)) (merge_row (row j u)) rs"
      by (induction rs) (auto simp: update_where_def k m)
    moreover have "list_ex (\<lambda>r. result_key r = result_key (row i t)) (upsert (row j u) rs)"
      using True by (simp only: ex_key upsert_keys k if_True)
    ultimately show ?thesis using True by (simp add: upsert_def)
  next
    case False
    have "update_where (\<lambda>r. result_key r = result_key (row i t)) (merge_row (row i t)) rs = rs"
      using False by (induction rs) (auto simp: update_where_def k)
    then show ?thesis using False by (simp add: upsert_def k m update_where_def)
  qed
qed

lemma ingest_run:
  assumes "ingest_metrics env p s = (r, s')"
  shows "case r of
      Inr a \<Rightarrow> (\<exists>row i t. ingest_row env p = Inr row \<and> a = in_run_id p \<and>
        e_refuse env (Suc (Suc (ticks s))) (committed s') = None \<and>
        committed s' = (committed s)\<lparr>results := upsert (row i t) (results (committed s))\<rparr>)
    | Inl _ \<Rightarrow> committed s' = committed s"
  using assms by (fastforce simp: ingest_metrics_def act_defs split: sum.splits option.splits)

lemma ingest_accepted:
  assumes "accepting env" and "ingest_row env p = Inr row"
  shows "\<exists>s' i t. ingest_metrics env p s = (Inr (in_run_id p), s') \<and>
     committed s' = (committed s)\<lparr>results := upsert (row i t) (results (committed s))\<rparr>"
  using assms by (auto simp: ingest_metrics_def act_defs accepting_def)

lemma upsert_same:
  assumes "distinct (map result_key rs)" and "x \<in> set rs" and "result_key x = result_key new" and "merge_row new x = x"
  shows "upsert new rs = rs"
proof -
  have "list_ex (\<lambda>r. result_key r = result_key new) rs" using assms(2,3) by (auto simp: list_ex_iff)
  moreover have "y = x" if "y \<in> set rs" "result_key y = result_key new" for y
    using assms(1-3) that by (metis distinct_map inj_on_def)
  then have "update_where (\<lambda>r. result_key r = result_key new) (merge_row new) rs = rs"
    using assms(4) by (auto simp: update_where_def intro!: map_idI)
  ultimately show ?thesis by (simp add: upsert_def)
qed

lemma upsert_found: "\<exists>x \<in> set (upsert new rs). result_key x = result_key new \<and> merge_row new x = x"
proof (cases "list_ex (\<lambda>r. result_key r = result_key new) rs")
  case True
  then obtain r where "r \<in> set rs" "result_key r = result_key new" by (auto simp: list_ex_iff)
  then show ?thesis using True
    by (intro bexI [of _ "merge_row new r"]) (auto simp: upsert_def update_where_def merge_row_def result_key_def)
qed (auto simp: upsert_def merge_row_def)

lemma merge_row_trans: "merge_row n' n = n \<Longrightarrow> merge_row n x = x \<Longrightarrow> merge_row n' x = x"
  by (cases n; cases n'; cases x) (simp add: merge_row_def)

text \<open>The rows of the table, put in by the endpoint.\<close>

interpretation measured: keyed_rows result_key upsert "\<lambda>new x. merge_row new x = x"
  by unfold_locales (fact upsert_found upsert_others upsert_keys_distinct upsert_same merge_row_trans)+

section \<open>Properties\<close>

text \<open>C5: posting the same payload twice changes nothing the second time: ingestion is idempotent,
as the endpoint promises.\<close>

theorem ingest_idempotent:
  assumes "accepting env" and "ingest_metrics env p s = (Inr a, s1)"
  shows "\<exists>s2. ingest_metrics env p s1 = (Inr a, s2) \<and> committed s2 = committed s1"
proof -
  obtain row i t where row: "ingest_row env p = Inr row" and a: "a = in_run_id p"
    and s1: "committed s1 = (committed s)\<lparr>results := upsert (row i t) (results (committed s))\<rparr>"
    using ingest_run [OF assms(2)] by auto
  obtain s2 j u where "ingest_metrics env p s1 = (Inr (in_run_id p), s2)"
    and "committed s2 = (committed s1)\<lparr>results := upsert (row j u) (results (committed s1))\<rparr>"
    using ingest_accepted [OF assms(1) row] by blast
  then show ?thesis using upsert_again [OF row] by (simp add: a s1)
qed

definition sample_payload :: ingest_payload where
  "sample_payload = \<lparr>in_run_id = ''r'', in_timestamp = (10, True), in_workload_name = ''llama'',
     in_workload_type = ''llm'', in_metrics = [], in_status = ''SUCCESS'', in_gpu_type = ''T4'',
     in_node_ip = ''10.0.0.1'', in_config = [], in_sub_run_index = 0\<rparr>"

lemma ingest_row_sample:
  "\<exists>row. ingest_row calm_env (sample_payload\<lparr>in_workload_name := m\<rparr>) = Inr row"
  by (simp add: ingest_row_def sample_payload_def parallelism_of_def dict_get_def started_of_def duration_of_def)

lemma ingest_idempotent_witness:
  "\<exists>s1 s2. ingest_metrics calm_env sample_payload (fresh_sess empty_db) = (Inr ''r'', s1) \<and>
     ingest_metrics calm_env sample_payload s1 = (Inr ''r'', s2) \<and> committed s2 = committed s1"
proof -
  obtain row where row: "ingest_row calm_env sample_payload = Inr row"
    using ingest_row_sample [of "''llama''"] by (auto simp: sample_payload_def)
  obtain s1 where s1: "ingest_metrics calm_env sample_payload (fresh_sess empty_db) = (Inr (in_run_id sample_payload), s1)"
    using ingest_accepted [OF accepting_calm(2) row] by blast
  from ingest_idempotent [OF accepting_calm(2) s1] s1 show ?thesis by (auto simp: sample_payload_def)
qed

text \<open>an accepted payload leaves exactly one row under its key, holding its metrics and its
status in lower case, keeps keys unique and touches no other row; a refused one changes
nothing.\<close>

theorem ingest_upserts:
  assumes "ingest_metrics env p s = (r, s')" and "distinct (map result_key (results (committed s)))"
  shows "case r of
      Inr _ \<Rightarrow>
        (let k = (in_run_id p, in_sub_run_index p) in
         distinct (map result_key (results (committed s'))) \<and>
         (\<exists>x. x \<in> set (results (committed s')) \<and> result_key x = k \<and> br_metrics x = JObj (in_metrics p) \<and>
           br_status x = py_lower (in_status p)) \<and>
         filter (\<lambda>x. result_key x \<noteq> k) (results (committed s')) = filter (\<lambda>x. result_key x \<noteq> k) (results (committed s)))
    | Inl _ \<Rightarrow> committed s' = committed s"
proof (cases r)
  case (Inr a)
  then obtain row i t where row: "ingest_row env p = Inr row"
    and s': "committed s' = (committed s)\<lparr>results := upsert (row i t) (results (committed s))\<rparr>"
    using ingest_run [OF assms(1)] by auto
  have k: "result_key (row i t) = (in_run_id p, in_sub_run_index p)" by (rule ingest_row_key [OF row])
  have f: "br_metrics (row i t) = JObj (in_metrics p)" "br_status (row i t) = py_lower (in_status p)"
    using row by (auto simp: ingest_row_def Let_def split: sum.splits)
  show ?thesis using Inr upsert_keys_distinct [OF assms(2)] upsert_others [of "row i t"]
      upsert_stored [of "row i t" "results (committed s)"]
    by (simp add: s' Let_def k f)
qed (use ingest_run [OF assms(1)] in auto)

lemma ingest_upserts_witness:
  "case fst (ingest_metrics calm_env sample_payload (fresh_sess empty_db)) of
      Inr _ \<Rightarrow> list_ex (\<lambda>x. br_status x = ''success'')
        (results (committed (snd (ingest_metrics calm_env sample_payload (fresh_sess empty_db)))))
    | Inl _ \<Rightarrow> committed (snd (ingest_metrics calm_env sample_payload (fresh_sess empty_db))) = empty_db"
proof -
  have low: "py_lower ''SUCCESS'' = ''success''" by code_simp
  have d: "distinct (map result_key (results (committed (fresh_sess empty_db))))"
    by (simp add: fresh_sess_def empty_db_def)
  from ingest_upserts [OF prod.collapse [symmetric] d, of calm_env sample_payload] low show ?thesis
    by (auto simp: Let_def sample_payload_def list_ex_iff fresh_sess_def split: sum.splits)
qed

text \<open>the endpoint stores the model name as it came, while the table only takes lower case: a
payload with an upper-case letter in it is answered with an error and stores nothing.\<close>

theorem ingest_mixed_case_rejected:
  assumes "enforcing env" and "py_lower (in_workload_name p) \<noteq> in_workload_name p"
  shows "\<exists>e s'. ingest_metrics env p s = (Inl e, s') \<and> committed s' = committed s"
proof -
  obtain r s' where run: "ingest_metrics env p s = (r, s')" by fastforce
  show ?thesis
  proof (cases r)
    case (Inr a)
    then obtain row i t where row: "ingest_row env p = Inr row"
      and ok: "e_refuse env (Suc (Suc (ticks s))) (committed s') = None"
      and s': "committed s' = (committed s)\<lparr>results := upsert (row i t) (results (committed s))\<rparr>"
      using ingest_run [OF run] by auto
    obtain x where "x \<in> set (upsert (row i t) (results (committed s)))" "br_model_name x = in_workload_name p"
    proof (cases "list_ex (\<lambda>r. result_key r = result_key (row i t)) (results (committed s))")
      case True
      then obtain r0 where "r0 \<in> set (results (committed s))" "result_key r0 = result_key (row i t)"
        by (auto simp: list_ex_iff)
      moreover have "br_model_name (merge_row (row i t) r0) = in_workload_name p"
        using row by (auto simp: merge_row_def ingest_row_def Let_def split: sum.splits)
      ultimately show thesis using that True by (auto simp: upsert_def update_where_def)
    next
      case False
      have "br_model_name (row i t) = in_workload_name p"
        using row by (auto simp: ingest_row_def Let_def split: sum.splits)
      then show thesis using that False by (auto simp: upsert_def)
    qed
    moreover have "\<not> result_checks x" using assms(2) calculation by (simp add: result_checks_def)
    ultimately have "\<not> results_valid (committed s')"
      by (auto simp: s' results_valid_def list_all_iff)
    then show ?thesis using ok assms(1) by (simp add: enforcing_def)
  qed (use run ingest_run [OF run] in auto)
qed

lemma ingest_mixed_case_rejected_witness:
  "\<exists>e s'. ingest_metrics (calm_env\<lparr>e_refuse := (\<lambda>_ d. if results_valid d then None else Some (DatabaseError ''check''))\<rparr>)
     (sample_payload\<lparr>in_workload_name := ''FP16''\<rparr>) (fresh_sess empty_db) = (Inl e, s') \<and>
     committed s' = committed (fresh_sess empty_db)"
  by (rule ingest_mixed_case_rejected) (simp_all add: enforcing_def fp16_lower)

end
