(* ===== verification/Results_Api.thy ===== *)
theory Results_Api
  imports Masking Calendar Session "HOL-Library.Product_Lexorder" "HOL-Library.List_Lexorder" "HOL-Library.Char_ord"
begin

text \<open>
  \<open>app/routers/results.py\<close> and the response models of \<open>app/schemas/benchmark.py\<close>: the filter
  conditions the leaderboard and the delete share, the leaderboard's order, the four deletes,
  the dropdowns and the summary. A query parameter that was not given is None; PostgreSQL
  compares dates in UTC.
\<close>

section \<open>Filter conditions\<close>

record filters =
  f_model :: "string option"
  f_gpu_type :: "string option"
  f_node_ip :: "string option"
  f_concurrency :: "int option"
  f_precision :: "string option"
  f_input_tokens :: "int option"
  f_output_tokens :: "int option"
  f_status :: "string option"
  f_date :: "string option"
  f_server_name :: "string option"
  f_workload_type :: "string option"
  f_run_id :: "string option"

definition no_filters :: filters where
  "no_filters = \<lparr>f_model = None, f_gpu_type = None, f_node_ip = None, f_concurrency = None,
     f_precision = None, f_input_tokens = None, f_output_tokens = None, f_status = None, f_date = None,
     f_server_name = None, f_workload_type = None, f_run_id = None\<rparr>"

type_synonym condition = "benchmark_result \<Rightarrow> bool"

text \<open>\<open>if p: conditions.append(...)\<close> for a text or an integer parameter.\<close>

definition text_given :: "string option \<Rightarrow> (string \<Rightarrow> condition) \<Rightarrow> condition list" where
  "text_given p c = (case p of None \<Rightarrow> [] | Some s \<Rightarrow> if s = [] then [] else [c s])"

definition int_given :: "int option \<Rightarrow> (int \<Rightarrow> condition) \<Rightarrow> condition list" where
  "int_given p c = (case p of None \<Rightarrow> [] | Some n \<Rightarrow> if n = 0 then [] else [c n])"

definition date_error :: exn where
  "date_error = HTTPException 400 ''Invalid date format. Use YYYY-MM-DD''"

definition completed_on :: "int \<Rightarrow> condition" where
  "completed_on day r = (case br_completed_at r of None \<Rightarrow> False | Some t \<Rightarrow> utc_day t = day)"

definition date_given :: "string option \<Rightarrow> exn + condition list" where
  "date_given p = (case p of None \<Rightarrow> Inr [] | Some s \<Rightarrow>
     if s = [] then Inr []
     else (case strptime_date s of Inl _ \<Rightarrow> Inl date_error | Inr day \<Rightarrow> Inr [completed_on day]))"

definition build_filter_conditions :: "filters \<Rightarrow> exn + condition list" where
  "build_filter_conditions f =
     (let conditions =
        text_given (f_model f) (\<lambda>v r. br_model_name r = v) @
        text_given (f_gpu_type f) (\<lambda>v r. br_gpu_type r = py_lower v) @
        text_given (f_node_ip f) (\<lambda>v r. v \<in> set (br_node_ips r)) @
        int_given (f_concurrency f) (\<lambda>v r. br_concurrency r = JInt v) @
        text_given (f_precision f) (\<lambda>v r. br_precision r = JStr (py_lower v)) @
        int_given (f_input_tokens f) (\<lambda>v r. br_input_tokens r = JInt v) @
        int_given (f_output_tokens f) (\<lambda>v r. br_output_tokens r = JInt v) @
        text_given (f_status f) (\<lambda>v r. br_status r = py_lower v) @
        text_given (f_server_name f) (\<lambda>v r. br_server_name r = JStr v) @
        text_given (f_workload_type f) (\<lambda>v r. br_workload_type r = py_lower v) @
        text_given (f_run_id f) (\<lambda>v r. br_run_id r = v)
      in case date_given (f_date f) of Inl e \<Rightarrow> Inl e | Inr ds \<Rightarrow> Inr (conditions @ ds))"

definition meets :: "condition list \<Rightarrow> condition" where
  "meets conditions r = list_all (\<lambda>c. c r) conditions"

section \<open>Responses\<close>

record result_response =
  rr_run_id :: string
  rr_sub_run_index :: int
  rr_workload_type :: string
  rr_model_name :: string
  rr_pipeline_version :: json
  rr_node_ips :: "string list"
  rr_gpu_type :: string
  rr_gpu_count :: json
  rr_gpu_model :: json
  rr_server_name :: json
  rr_precision :: json
  rr_input_tokens :: json
  rr_output_tokens :: json
  rr_concurrency :: json
  rr_status :: string
  rr_total_token_throughput :: json
  rr_mean_ttft_ms :: json
  rr_mean_tpot_ms :: json
  rr_mean_e2el_ms :: json
  rr_per_gpu_throughput_tok_s :: "rat option"
  rr_started_at :: time
  rr_completed_at :: "time option"
  rr_duration_seconds :: "rat option"
  rr_created_at :: time

record detail_sub_run = result_response +
  rr_parallelism :: "string option"
  rr_metrics :: json

definition round_to :: "nat \<Rightarrow> rat \<Rightarrow> rat" where
  "round_to k r = of_int (round_half_even (r * 10 ^ k)) / 10 ^ k"

text \<open>\<open>round(tpt / gc, 2) if tpt else None\<close> with \<open>gc = gpu_count or 1\<close>.\<close>

definition per_gpu_throughput :: "benchmark_result \<Rightarrow> rat option" where
  "per_gpu_throughput r =
     (case json_real (br_total_token_throughput r) of
        None \<Rightarrow> None
      | Some tpt \<Rightarrow>
          if tpt = 0 then None
          else (case json_real (json_or (br_gpu_count r) (JInt 1)) of
              None \<Rightarrow> None | Some gc \<Rightarrow> Some (round_to 2 (tpt / gc))))"

definition from_orm_row :: "benchmark_result \<Rightarrow> result_response" where
  "from_orm_row r = \<lparr>rr_run_id = br_run_id r, rr_sub_run_index = br_sub_run_index r,
     rr_workload_type = br_workload_type r, rr_model_name = br_model_name r,
     rr_pipeline_version = br_pipeline_version r, rr_node_ips = map mask_ip (br_node_ips r),
     rr_gpu_type = br_gpu_type r, rr_gpu_count = br_gpu_count r, rr_gpu_model = br_gpu_model r,
     rr_server_name = br_server_name r, rr_precision = br_precision r,
     rr_input_tokens = br_input_tokens r, rr_output_tokens = br_output_tokens r,
     rr_concurrency = br_concurrency r, rr_status = br_status r,
     rr_total_token_throughput = br_total_token_throughput r, rr_mean_ttft_ms = br_mean_ttft_ms r,
     rr_mean_tpot_ms = br_mean_tpot_ms r, rr_mean_e2el_ms = br_mean_e2el_ms r,
     rr_per_gpu_throughput_tok_s = per_gpu_throughput r, rr_started_at = br_started_at r,
     rr_completed_at = br_completed_at r, rr_duration_seconds = br_duration_seconds r,
     rr_created_at = br_created_at r\<rparr>"

text \<open>The detail model overrides the constructor: it adds two fields and does not mask.\<close>

definition detail_from_orm_row :: "benchmark_result \<Rightarrow> detail_sub_run" where
  "detail_from_orm_row r =
     result_response.extend ((from_orm_row r)\<lparr>rr_node_ips := br_node_ips r\<rparr>)
       (detail_sub_run.fields (br_parallelism r) (br_metrics r))"

section \<open>Leaderboard\<close>

definition server_priority :: "json \<Rightarrow> nat" where
  "server_priority s = (if s = JStr ''PRU'' then 0 else if s = JStr ''Johnaic'' then 1 else 2)"

definition tier_rank_of :: "gpu_spec list \<Rightarrow> benchmark_result \<Rightarrow> int option" where
  "tier_rank_of specs r = map_option gs_tier_rank (find (\<lambda>g. gs_gpu_type g = br_gpu_type r) specs)"

text \<open>
  The four ORDER BY terms. \<open>nulls_last\<close> is asked for the tier; the descending throughput keeps
  PostgreSQL's default, which puts NULL first.
\<close>

type_synonym rank_key = "nat \<times> nat \<times> (nat \<times> int) \<times> nat \<times> rat"

definition rank_key :: "gpu_spec list \<Rightarrow> benchmark_result \<Rightarrow> rank_key" where
  "rank_key specs r =
     ((if br_status r = ''running'' then 0 else 1), server_priority (br_server_name r),
      (case tier_rank_of specs r of Some t \<Rightarrow> (0, t) | None \<Rightarrow> (1, 0)),
      (case json_real (br_total_token_throughput r) of None \<Rightarrow> (0, 0) | Some x \<Rightarrow> (1, - x)))"

definition leaderboard :: "gpu_spec list \<Rightarrow> condition list \<Rightarrow> nat \<Rightarrow> benchmark_result list \<Rightarrow> benchmark_result list" where
  "leaderboard specs conditions limit rs = take limit (sort_key (rank_key specs) (filter (meets conditions) rs))"

definition list_benchmarks :: "env \<Rightarrow> filters \<Rightarrow> nat \<Rightarrow> result_response list act" where
  "list_benchmarks env f limit = with_session
     (bindM (lift_sum (build_filter_conditions f)) (\<lambda>conditions.
      bindM (query (\<lambda>d. (gpu_specs d, results d))) (\<lambda>(specs, rs).
      bindM (ask (\<lambda>k. e_scan_results env k rs)) (\<lambda>rs.
      ret (map from_orm_row (leaderboard specs conditions limit rs))))))"

definition find_run_zero :: "string \<Rightarrow> db \<Rightarrow> benchmark_result option" where
  "find_run_zero run d = find (\<lambda>r. br_run_id r = run \<and> br_sub_run_index r = 0) (results d)"

definition compare_benchmarks :: "string \<Rightarrow> string \<Rightarrow> (benchmark_result \<times> benchmark_result) act" where
  "compare_benchmarks run_a run_b = with_session
     (bindM (query (find_run_zero run_a)) (\<lambda>a.
      bindM (query (find_run_zero run_b)) (\<lambda>b.
      case a of
        None \<Rightarrow> raise_exn (HTTPException 404 (''Run A '' @ quoted run_a @ '' not found.''))
      | Some ra \<Rightarrow> (case b of
          None \<Rightarrow> raise_exn (HTTPException 404 (''Run B '' @ quoted run_b @ '' not found.''))
        | Some rb \<Rightarrow> ret (ra, rb)))))"

definition run_not_found :: "string \<Rightarrow> exn" where
  "run_not_found run_id = HTTPException 404 (''Run '' @ quoted run_id @ '' not found.'')"

definition get_benchmark :: "string \<Rightarrow> (string \<times> detail_sub_run list) act" where
  "get_benchmark run_id = with_session
     (bindM (query (\<lambda>d. sort_key br_sub_run_index (filter (\<lambda>r. br_run_id r = run_id) (results d)))) (\<lambda>runs.
      if runs = [] then raise_exn (run_not_found run_id)
      else ret (run_id, map detail_from_orm_row runs)))"

section \<open>Deletes\<close>

definition delete_where :: "condition \<Rightarrow> unit act" where
  "delete_where c = change (\<lambda>d. d\<lparr>results := filter (\<lambda>r. \<not> c r) (results d)\<rparr>)"

definition count_where :: "condition \<Rightarrow> nat act" where
  "count_where c = query (\<lambda>d. length (filter c (results d)))"

text \<open>Count, refuse when nothing matches, delete, commit: the shape of three of the deletes.\<close>

definition delete_matching :: "env \<Rightarrow> condition \<Rightarrow> exn \<Rightarrow> nat act" where
  "delete_matching env c not_found =
     bindM (count_where c) (\<lambda>count.
     if count = 0 then raise_exn not_found
     else thenM (delete_where c) (thenM (commit env) (ret count)))"

definition delete_benchmarks_bulk :: "env \<Rightarrow> string list \<Rightarrow> nat act" where
  "delete_benchmarks_bulk env run_ids = with_session
     (if run_ids = [] then raise_exn (HTTPException 400 ''run_ids list must not be empty.'')
      else delete_matching env (\<lambda>r. br_run_id r \<in> set run_ids)
        (HTTPException 404 ''None of the provided run_ids were found.''))"

definition text_truthy :: "string option \<Rightarrow> bool" where
  "text_truthy p = (case p of None \<Rightarrow> False | Some s \<Rightarrow> s \<noteq> [])"

definition int_truthy :: "int option \<Rightarrow> bool" where
  "int_truthy p = (case p of None \<Rightarrow> False | Some n \<Rightarrow> n \<noteq> 0)"

definition any_filter :: "filters \<Rightarrow> bool" where
  "any_filter f = (list_ex text_truthy [f_model f, f_gpu_type f, f_node_ip f, f_precision f, f_status f,
     f_date f, f_server_name f] \<or> list_ex int_truthy [f_concurrency f, f_input_tokens f, f_output_tokens f])"

text \<open>The endpoint takes neither \<open>workload_type\<close> nor \<open>run_id\<close>.\<close>

definition delete_filters :: "filters \<Rightarrow> filters" where
  "delete_filters f = f\<lparr>f_workload_type := None, f_run_id := None\<rparr>"

definition delete_benchmarks_by_filter :: "env \<Rightarrow> filters \<Rightarrow> nat act" where
  "delete_benchmarks_by_filter env f = with_session
     (if \<not> any_filter f
      then raise_exn (HTTPException 400 (''At least one filter is required. Use DELETE '' @
        ''/api/v1/benchmarks/all to wipe everything.''))
      else bindM (lift_sum (build_filter_conditions (delete_filters f))) (\<lambda>conditions.
        delete_matching env (meets conditions) (HTTPException 404 ''No matching benchmark results found.'')))"

definition delete_all_benchmarks :: "env \<Rightarrow> bool \<Rightarrow> nat act" where
  "delete_all_benchmarks env confirm = with_session
     (if \<not> confirm
      then raise_exn (HTTPException 400 ''Pass ?confirm=true to confirm wiping all benchmark results.'')
      else bindM (count_where (\<lambda>_. True)) (\<lambda>count.
        thenM (delete_where (\<lambda>_. True)) (thenM (commit env) (ret count))))"

definition delete_benchmark :: "env \<Rightarrow> string \<Rightarrow> nat act" where
  "delete_benchmark env run_id = with_session
     (delete_matching env (\<lambda>r. br_run_id r = run_id) (run_not_found run_id))"

section \<open>Dropdowns\<close>

text \<open>
  \<open>_distinct_values\<close>: \<open>keep\<close> is the Python-side filter of the fetched values, None is never kept.
  The order of SELECT DISTINCT is that of the scan.
\<close>

definition distinct_values ::
  "env \<Rightarrow> (benchmark_result \<Rightarrow> 'a option) \<Rightarrow> ('a \<Rightarrow> bool) \<Rightarrow> string option \<Rightarrow> 'a list act" where
  "distinct_values env column keep date =
     bindM (lift_sum (date_given date)) (\<lambda>conditions.
     bindM (query (\<lambda>d. filter (meets conditions) (results d))) (\<lambda>rs.
     bindM (ask (\<lambda>k. e_scan_results env k rs)) (\<lambda>rs.
     ret (filter keep (remdups (List.map_filter column rs))))))"

definition text_column :: "(benchmark_result \<Rightarrow> json) \<Rightarrow> benchmark_result \<Rightarrow> string option" where
  "text_column f r = (case f r of JStr s \<Rightarrow> Some s | _ \<Rightarrow> None)"

definition int_column :: "(benchmark_result \<Rightarrow> json) \<Rightarrow> benchmark_result \<Rightarrow> int option" where
  "int_column f r = (case f r of JInt i \<Rightarrow> Some i | _ \<Rightarrow> None)"

definition non_empty :: "string \<Rightarrow> bool" where "non_empty s = (s \<noteq> [])"

definition list_models :: "env \<Rightarrow> string list \<Rightarrow> string option \<Rightarrow> string list act" where
  "list_models env catalog date = with_session
     (bindM (distinct_values env (\<lambda>r. Some (br_model_name r)) non_empty date) (\<lambda>historical.
      ret (catalog @ filter (\<lambda>m. m \<notin> set catalog) historical)))"

definition list_gpu_types :: "env \<Rightarrow> string option \<Rightarrow> string list act" where
  "list_gpu_types env date = with_session
     (distinct_values env (\<lambda>r. Some (br_gpu_type r)) non_empty date)"

definition list_servers :: "env \<Rightarrow> string option \<Rightarrow> string list act" where
  "list_servers env date = with_session
     (bindM (distinct_values env (text_column br_server_name) non_empty date) (\<lambda>vs. ret (sort vs)))"

definition list_nodes :: "env \<Rightarrow> string option \<Rightarrow> string list act" where
  "list_nodes env date = with_session
     (bindM (lift_sum (date_given date)) (\<lambda>conditions.
      bindM (query (\<lambda>d. filter (meets conditions) (results d))) (\<lambda>rs.
      bindM (ask (\<lambda>k. e_scan_results env k rs)) (\<lambda>rs.
      ret (sort (filter non_empty (remdups (concat (map br_node_ips rs)))))))))"

definition list_concurrencies :: "env \<Rightarrow> string list act" where
  "list_concurrencies env = with_session
     (bindM (distinct_values env (int_column br_concurrency) (\<lambda>_. True) None) (\<lambda>vs.
      ret (sort (map show_int vs))))"

definition list_precisions :: "env \<Rightarrow> string list act" where
  "list_precisions env = with_session
     (bindM (distinct_values env (text_column br_precision) non_empty None) (\<lambda>vs. ret (sort vs)))"

definition list_input_tokens :: "env \<Rightarrow> int list act" where
  "list_input_tokens env = with_session
     (bindM (distinct_values env (int_column br_input_tokens) (\<lambda>_. True) None) (\<lambda>vs. ret (sort vs)))"

definition list_output_tokens :: "env \<Rightarrow> int list act" where
  "list_output_tokens env = with_session
     (bindM (distinct_values env (int_column br_output_tokens) (\<lambda>_. True) None) (\<lambda>vs. ret (sort vs)))"

section \<open>Summary\<close>

record summary =
  sm_total_runs :: nat
  sm_successful_runs :: nat
  sm_success_rate :: rat
  sm_avg_throughput :: rat
  sm_date :: string

definition summarize :: "string \<Rightarrow> benchmark_result list \<Rightarrow> summary" where
  "summarize label rs =
     (let n = length rs; ok = length (filter (\<lambda>r. br_status r = ''success'') rs);
          ts = List.map_filter (\<lambda>r. json_real (br_total_token_throughput r)) rs;
          avg = (if ts = [] then 0 else sum_list ts / of_nat (length ts));
          rate = (if n > 0 then of_nat ok / of_nat n * 100 else 0)
      in \<lparr>sm_total_runs = n, sm_successful_runs = ok, sm_success_rate = round_to 2 rate,
          sm_avg_throughput = round_to 2 avg, sm_date = label\<rparr>)"

definition since :: "time \<Rightarrow> condition" where
  "since t0 r = (case br_completed_at r of None \<Rightarrow> False | Some t \<Rightarrow> t \<ge> t0)"

text \<open>Unlike the other endpoints this one does not catch a bad date.\<close>

definition get_summary :: "env \<Rightarrow> string option \<Rightarrow> summary act" where
  "get_summary env date = with_session
     (if text_truthy date
      then (case date of None \<Rightarrow> raise_exn IndexError | Some s \<Rightarrow>
        bindM (lift_sum (strptime_date s)) (\<lambda>day.
        query (\<lambda>d. summarize s (filter (completed_on day) (results d)))))
      else bindM (now env) (\<lambda>t.
        query (\<lambda>d. summarize ''last_30d'' (filter (since (t - 30 * 86400000000)) (results d)))))"

section \<open>Lemmas\<close>

lemma any_filter_conditions:
  assumes "any_filter f" and "build_filter_conditions (delete_filters f) = Inr conditions"
  shows "conditions \<noteq> []"
proof -
  have t: "text_given p c = [] \<Longrightarrow> \<not> text_truthy p" for p c
    by (auto simp: text_given_def text_truthy_def split: option.splits if_splits)
  have i: "int_given p c = [] \<Longrightarrow> \<not> int_truthy p" for p c
    by (auto simp: int_given_def int_truthy_def split: option.splits if_splits)
  have d: "date_given p = Inr [] \<Longrightarrow> \<not> text_truthy p" for p
    by (auto simp: date_given_def text_truthy_def split: option.splits if_splits sum.splits)
  show ?thesis using assms
    by (auto simp: build_filter_conditions_def Let_def any_filter_def delete_filters_def
        split: sum.splits dest!: t i d)
qed

lemma delete_matching_cases:
  assumes "delete_matching env c e s = (r, s')" and "\<not> dead s"
  shows "case r of
      Inr n \<Rightarrow> n = length (filter c (results (work s))) \<and> 0 < n \<and>
        committed s' = (work s)\<lparr>results := filter (\<lambda>x. \<not> c x) (results (work s))\<rparr>
    | Inl _ \<Rightarrow> committed s' = committed s"
  using assms
  by (auto simp: delete_matching_def count_where_def delete_where_def act_defs filter_empty_conv
      split: option.splits if_splits)

lemma leaderboard_members: "set (leaderboard specs conditions limit rs) \<subseteq> {r \<in> set rs. meets conditions r}"
  by (auto simp: leaderboard_def dest: in_set_takeD)

section \<open>Properties\<close>

text \<open>C4: deleting by filter removes exactly the rows that meet every given filter and reports
their number, never runs without an effective filter, and a refused or failed delete removes
nothing.\<close>

theorem delete_by_filter_exact:
  assumes "delete_benchmarks_by_filter env f s = (r, s')"
  shows "case r of
      Inr n \<Rightarrow> any_filter f \<and> (\<exists>conditions. build_filter_conditions (delete_filters f) = Inr conditions \<and>
        conditions \<noteq> [] \<and> 0 < n \<and> n = length (filter (meets conditions) (results (committed s))) \<and>
        committed s' = (committed s)\<lparr>results := filter (\<lambda>r. \<not> meets conditions r) (results (committed s))\<rparr>)
    | Inl _ \<Rightarrow> committed s' = committed s"
proof (cases "any_filter f")
  case False
  then show ?thesis using assms by (auto simp: delete_benchmarks_by_filter_def with_session_def raise_exn_def)
next
  case True
  show ?thesis
  proof (cases "build_filter_conditions (delete_filters f)")
    case (Inl e)
    then show ?thesis using assms True
      by (auto simp: delete_benchmarks_by_filter_def with_session_def bindM_def lift_sum_def)
  next
    case (Inr conditions)
    let ?s = "s\<lparr>work := committed s, dead := False\<rparr>"
    let ?e = "HTTPException 404 ''No matching benchmark results found.''"
    obtain s2 where d: "delete_matching env (meets conditions) ?e ?s = (r, s2)" and s': "committed s' = committed s2"
      using assms True Inr
      by (auto simp: delete_benchmarks_by_filter_def with_session_def bindM_def lift_sum_def split: prod.splits)
    show ?thesis using delete_matching_cases [OF d] s' True Inr any_filter_conditions [OF True Inr]
      by (auto split: sum.splits)
  qed
qed

lemma delete_by_filter_exact_witness:
  "case fst (delete_benchmarks_by_filter calm_env (no_filters\<lparr>f_status := Some ''failed''\<rparr>) (fresh_sess empty_db)) of
      Inr n \<Rightarrow> any_filter (no_filters\<lparr>f_status := Some ''failed''\<rparr>) \<and> (\<exists>conditions.
        build_filter_conditions (delete_filters (no_filters\<lparr>f_status := Some ''failed''\<rparr>)) = Inr conditions \<and>
        conditions \<noteq> [] \<and> 0 < n \<and> n = length (filter (meets conditions) (results (committed (fresh_sess empty_db)))) \<and>
        committed (snd (delete_benchmarks_by_filter calm_env (no_filters\<lparr>f_status := Some ''failed''\<rparr>) (fresh_sess empty_db)))
          = (committed (fresh_sess empty_db))\<lparr>results := filter (\<lambda>r. \<not> meets conditions r) (results (committed (fresh_sess empty_db)))\<rparr>)
    | Inl _ \<Rightarrow> committed (snd (delete_benchmarks_by_filter calm_env (no_filters\<lparr>f_status := Some ''failed''\<rparr>) (fresh_sess empty_db)))
        = committed (fresh_sess empty_db)"
  by (rule delete_by_filter_exact [OF prod.collapse [symmetric]])

text \<open>the leaderboard's order. In-progress runs lead, then the preferred servers, then the
better tiers with unregistered GPUs last; within a server and tier a row without throughput,
such as a failed run, comes before every row that has one, and those come fastest first.\<close>

theorem leaderboard_order:
  assumes "L = leaderboard specs conditions limit rs" and "i < j" and "j < length L"
  shows "(br_status (L ! j) = ''running'' \<longrightarrow> br_status (L ! i) = ''running'') \<and>
    ((br_status (L ! i) = ''running'') = (br_status (L ! j) = ''running'') \<longrightarrow>
       server_priority (br_server_name (L ! i)) \<le> server_priority (br_server_name (L ! j)) \<and>
       (server_priority (br_server_name (L ! i)) = server_priority (br_server_name (L ! j)) \<longrightarrow>
          (tier_rank_of specs (L ! i) = None \<longrightarrow> tier_rank_of specs (L ! j) = None) \<and>
          (tier_rank_of specs (L ! i) = tier_rank_of specs (L ! j) \<longrightarrow>
             (case (json_real (br_total_token_throughput (L ! i)), json_real (br_total_token_throughput (L ! j))) of
                (Some x, Some y) \<Rightarrow> y \<le> x | (Some _, None) \<Rightarrow> False | (None, _) \<Rightarrow> True))))"
proof -
  have "sorted (map (rank_key specs) L)" by (simp add: assms(1) leaderboard_def flip: take_map)
  then have le: "rank_key specs (L ! i) \<le> rank_key specs (L ! j)"
    using assms(2,3) sorted_nth_mono [of "map (rank_key specs) L" i j] by simp
  show ?thesis using le
    by (auto simp: rank_key_def less_eq_prod_def less_prod_def split: option.splits if_splits)
qed

definition sample_result :: "string \<Rightarrow> json \<Rightarrow> benchmark_result" where
  "sample_result status throughput = \<lparr>br_id = 1, br_run_id = ''r'', br_sub_run_index = 0, br_model_name = ''m'',
     br_pipeline_version = JStr ''v'', br_node_ips = [], br_gpu_type = ''t4'', br_gpu_count = JInt 1,
     br_gpu_model = JNull, br_server_name = JNull, br_precision = JStr ''fp16'', br_input_tokens = JInt 0,
     br_output_tokens = JInt 0, br_concurrency = JInt 1, br_parallelism = None, br_workload_type = ''llm'',
     br_status = status, br_total_token_throughput = throughput, br_mean_ttft_ms = JNull,
     br_mean_tpot_ms = JNull, br_mean_e2el_ms = JNull, br_metrics = JObj [], br_started_at = 0,
     br_completed_at = None, br_duration_seconds = None, br_created_at = 0\<rparr>"

lemma leaderboard_order_witness:
  "\<exists>a b. leaderboard [] [] 5 [sample_result ''success'' (JInt 9), sample_result ''failed'' JNull] = [a, b] \<and>
     (br_status b = ''running'' \<longrightarrow> br_status a = ''running'')"
proof -
  let ?L = "leaderboard [] [] 5 [sample_result ''success'' (JInt 9), sample_result ''failed'' JNull]"
  have "length ?L = 2" by (simp add: leaderboard_def meets_def)
  then obtain a b where L: "?L = [a, b]" by (cases ?L; cases "tl ?L") auto
  then show ?thesis using leaderboard_order [OF L [symmetric], of 0 1] by simp
qed

end
