(* ===== verification/System_Api.thy ===== *)
theory System_Api
  imports Alerts Keyed_Rows
begin

text \<open>
  \<open>app/routers/system.py\<close>, \<open>app/routers/gpu_specs.py\<close>, \<open>app/catalog.py\<close>,
  \<open>app/services/catalog_seeder.py\<close> and the exception handlers of \<open>app/main.py\<close>: health, the
  hardware catalogue, the model catalogue and the seeding of the workload types. The catalogue
  file is a JSON value, an argument.
\<close>

section \<open>Health\<close>

definition liveness_check :: "string \<times> string" where
  "liveness_check = (''status'', ''alive'')"

text \<open>\<open>db.execute(select(1))\<close>: the database answers or raises.\<close>

definition ping_db :: "(nat \<Rightarrow> exn option) \<Rightarrow> unit act" where
  "ping_db down = ask_fallible down"

definition readiness_check :: "(nat \<Rightarrow> exn option) \<Rightarrow> (nat \<times> string \<times> string) act" where
  "readiness_check down =
     catchM (thenM (ping_db down) (ret (200, ''ready'', ''ok'')))
       (\<lambda>_. ret (503, ''not_ready'', ''unreachable''))"

text \<open>The overview: status and database text, and the alert's cooldown state after the call.\<close>

definition health_check ::
  "env \<Rightarrow> (nat \<Rightarrow> exn option) \<Rightarrow> string option \<Rightarrow> time option \<Rightarrow> ((string \<times> string) \<times> time option) act" where
  "health_check env down lookup last_alert =
     bindM (catchM (thenM (ping_db down) (ret (''ok'', last_alert)))
       (\<lambda>e. bindM (notify_service_error env lookup None last_alert) (\<lambda>l.
         ret (''unreachable: '' @ exc_str e, l)))) (\<lambda>(db_status, l).
     ret ((if db_status = ''ok'' then ''healthy'' else ''degraded'', db_status), l))"

record error_response =
  er_code :: nat
  er_detail :: string
  er_hint :: string

definition generic_exception_handler ::
  "env \<Rightarrow> string option \<Rightarrow> time option \<Rightarrow> exn \<Rightarrow> (error_response \<times> time option) act" where
  "generic_exception_handler env lookup last_alert exc =
     bindM (notify_service_error env lookup None last_alert) (\<lambda>l.
     ret (\<lparr>er_code = 500, er_detail = ''An internal server error occurred.'', er_hint = exc_str exc\<rparr>, l))"

text \<open>The first of the errors of a refused request: its text and the path to the field.\<close>

definition validation_exception_handler :: "(json \<Rightarrow> string) \<Rightarrow> (string \<times> json list) list \<Rightarrow> error_response" where
  "validation_exception_handler rep errors =
     (let (msg, loc) = (case errors of [] \<Rightarrow> (''Validation failed'', []) | e # _ \<Rightarrow> e) in
      \<lparr>er_code = 422,
       er_detail = ''Field '' @ quoted (if loc \<noteq> [] then str_json rep (last loc) else ''unknown'') @ '' error: '' @ msg,
       er_hint = ''Check the request schema.''\<rparr>)"

section \<open>The model catalogue\<close>

text \<open>\<open>d[k]\<close> and \<open>d.get(k, [])\<close> on JSON.\<close>

definition json_item :: "json \<Rightarrow> string \<Rightarrow> exn + json" where
  "json_item j k = (case j of
      JObj d \<Rightarrow> (case map_of d k of Some v \<Rightarrow> Inr v | None \<Rightarrow> Inl (KeyError k))
    | _ \<Rightarrow> Inl (TypeError (quoted (type_name j) @ '' object is not subscriptable'')))"

definition json_fields :: "json \<Rightarrow> dict" where
  "json_fields j = (case j of JObj d \<Rightarrow> d | _ \<Rightarrow> [])"

definition json_elems :: "json \<Rightarrow> json list" where
  "json_elems j = (case j of JList xs \<Rightarrow> xs | _ \<Rightarrow> [])"

definition supported_models :: "dict \<Rightarrow> json list" where
  "supported_models catalog = json_elems (dict_get_or catalog ''supported_models'' (JList []))"

definition model_id_of :: "json \<Rightarrow> exn + string" where
  "model_id_of m = (case json_item m ''model_id'' of Inl e \<Rightarrow> Inl e | Inr j \<Rightarrow> json_lower j)"

definition model_config :: "json \<Rightarrow> dict" where
  "model_config m =
     (let dc = json_fields (dict_get_or (json_fields m) ''default_config'' (JObj [])) in
      [(''gpu_count'', dict_get_or dc ''gpu_count'' (JInt 1)),
       (''concurrency'', dict_get_or dc ''concurrency'' (JInt 4)),
       (''max_model_len'', dict_get_or dc ''max_model_len'' (JInt 4096)),
       (''enable_optimizations'', dict_get_or dc ''enable_optimizations'' (JBool False)),
       (''dataset_path'', JStr [])])"

definition model_info :: "string \<Rightarrow> json \<Rightarrow> dict" where
  "model_info model_id m =
     (let f = json_fields m in
      [(''display_name'', dict_get_or f ''display_name'' (JStr model_id)),
       (''hf_repo'', dict_get_or f ''hf_repo'' (JStr [])),
       (''gated'', dict_get_or f ''gated'' (JBool False)),
       (''license'', dict_get_or f ''license'' (JStr [])),
       (''license_url'', dict_get_or f ''license_url'' (JStr [])),
       (''min_gpu_memory_gb'', dict_get_or f ''min_gpu_memory_gb'' (JInt 0))])"

text \<open>Both builders fold the list into a dict; a later model with the same id replaces the value.\<close>

fun fold_models :: "(string \<Rightarrow> json \<Rightarrow> dict) \<Rightarrow> json list \<Rightarrow> dict \<Rightarrow> exn + dict" where
  "fold_models f [] acc = Inr acc"
| "fold_models f (m # ms) acc =
     (case model_id_of m of Inl e \<Rightarrow> Inl e | Inr i \<Rightarrow> fold_models f ms (dict_set acc i (JObj (f i m))))"

definition build_model_configs :: "dict \<Rightarrow> exn + dict" where
  "build_model_configs catalog = fold_models (\<lambda>_ m. model_config m) (supported_models catalog) []"

definition build_model_info :: "dict \<Rightarrow> exn + dict" where
  "build_model_info catalog = fold_models model_info (supported_models catalog) []"

definition DEFAULT_CONFIG :: dict where
  "DEFAULT_CONFIG = [(''gpu_count'', JInt 1), (''concurrency'', JInt 4), (''max_model_len'', JInt 4096),
     (''enable_optimizations'', JBool False), (''dataset_path'', JStr [])]"

definition get_model_config :: "dict \<Rightarrow> dict \<Rightarrow> string \<Rightarrow> dict" where
  "get_model_config configs infos model =
     (let config = json_fields (dict_get_or configs (py_lower model) (JObj DEFAULT_CONFIG));
          info = json_fields (dict_get_or infos (py_lower model) (JObj [])) in
      dict_set (dict_set (dict_set (dict_set config
        ''gated'' (dict_get_or info ''gated'' (JBool False)))
        ''license'' (dict_get_or info ''license'' (JStr [])))
        ''license_url'' (dict_get_or info ''license_url'' (JStr [])))
        ''hf_repo'' (dict_get_or info ''hf_repo'' (JStr [])))"

section \<open>Workload types\<close>

record type_response =
  ty_id :: uuid
  ty_name :: string
  ty_display_name :: string
  ty_description :: "string option"

definition list_workload_types :: "type_response list act" where
  "list_workload_types = with_session (query (\<lambda>d. map (\<lambda>t. \<lparr>ty_id = wt_id t, ty_name = wt_name t,
     ty_display_name = wt_display_name t, ty_description = wt_description t\<rparr>) (workload_types d)))"

text \<open>One entry of \<open>catalog["workload_types"]\<close>, its missing keys resolved.\<close>

record seed_entry =
  se_name :: string
  se_display_name :: string
  se_description :: string
  se_image_tag :: "string option"

definition seed_one :: "env \<Rightarrow> seed_entry \<Rightarrow> nat act" where
  "seed_one env e =
     bindM (query (\<lambda>d. find (\<lambda>t. wt_name t = se_name e) (workload_types d))) (\<lambda>existing.
     case existing of
       Some t \<Rightarrow>
         thenM (change (\<lambda>d. d\<lparr>workload_types := update_where (\<lambda>x. wt_id x = wt_id t)
           (\<lambda>x. x\<lparr>wt_display_name := se_display_name e, wt_description := Some (se_description e),
                  wt_image_tag := se_image_tag e\<rparr>) (workload_types d)\<rparr>))
         (ret 0)
     | None \<Rightarrow>
         bindM (uuid4 env) (\<lambda>i.
         thenM (change (\<lambda>d. d\<lparr>workload_types := workload_types d @ [\<lparr>wt_id = i, wt_name = se_name e,
           wt_display_name = se_display_name e, wt_description = Some (se_description e),
           wt_image_tag = se_image_tag e\<rparr>]\<rparr>))
         (ret 1)))"

fun seed_entries :: "env \<Rightarrow> seed_entry list \<Rightarrow> nat act" where
  "seed_entries env [] = ret 0"
| "seed_entries env (e # es) = bindM (seed_one env e) (\<lambda>k. bindM (seed_entries env es) (\<lambda>n. ret (k + n)))"

text \<open>No file, nothing to do; one commit for the whole catalogue.\<close>

definition seed_catalog :: "env \<Rightarrow> seed_entry list option \<Rightarrow> nat act" where
  "seed_catalog env catalog =
     (case catalog of
        None \<Rightarrow> ret 0
      | Some entries \<Rightarrow> with_session
          (bindM (seed_entries env entries) (\<lambda>n. thenM (commit env) (ret n))))"

section \<open>GPU specifications\<close>

record gpu_payload =
  gp_gpu_type :: string
  gp_display_name :: string
  gp_vendor :: string
  gp_arch :: string
  gp_vram_gb :: int
  gp_tdp_watts :: int
  gp_tier_rank :: int
  gp_fp16_tflops :: "rat option"
  gp_fp8_tflops :: "rat option"

definition list_gpu_specs :: "gpu_spec list act" where
  "list_gpu_specs = with_session (query (\<lambda>d. sort_key gs_tier_rank (gpu_specs d)))"

definition get_gpu_spec :: "string \<Rightarrow> gpu_spec act" where
  "get_gpu_spec gpu_type = with_session
     (bindM (query (\<lambda>d. find (\<lambda>g. gs_gpu_type g = py_lower gpu_type) (gpu_specs d))) (\<lambda>found.
      case found of
        None \<Rightarrow> raise_exn (HTTPException 404 (''GPU type '' @ quoted gpu_type @ '' not found in catalog.''))
      | Some g \<Rightarrow> ret g))"

definition gpu_row :: "uuid \<Rightarrow> gpu_payload \<Rightarrow> gpu_spec" where
  "gpu_row i p = \<lparr>gs_id = i, gs_gpu_type = py_lower (gp_gpu_type p), gs_display_name = gp_display_name p,
     gs_vendor = py_lower (gp_vendor p), gs_arch = py_lower (gp_arch p), gs_vram_gb = gp_vram_gb p,
     gs_tdp_watts = gp_tdp_watts p, gs_tier_rank = gp_tier_rank p, gs_fp16_tflops = gp_fp16_tflops p,
     gs_fp8_tflops = gp_fp8_tflops p\<rparr>"

definition upsert_gpu :: "gpu_spec \<Rightarrow> gpu_spec list \<Rightarrow> gpu_spec list" where
  "upsert_gpu new gs =
     (if list_ex (\<lambda>g. gs_gpu_type g = gs_gpu_type new) gs
      then update_where (\<lambda>g. gs_gpu_type g = gs_gpu_type new) (\<lambda>old. new\<lparr>gs_id := gs_id old\<rparr>) gs
      else gs @ [new])"

definition upsert_gpu_spec :: "env \<Rightarrow> gpu_payload \<Rightarrow> string act" where
  "upsert_gpu_spec env p = with_session
     (bindM (uuid4 env) (\<lambda>i.
      thenM (change (\<lambda>d. d\<lparr>gpu_specs := upsert_gpu (gpu_row i p) (gpu_specs d)\<rparr>))
      (thenM (commit env) (ret (py_lower (gp_gpu_type p))))))"

section \<open>Lemmas\<close>

definition type_names :: "db \<Rightarrow> string list" where
  "type_names d = map wt_name (workload_types d)"

lemma find_name: "(find (\<lambda>t. wt_name t = n) ts = None) = (n \<notin> set (map wt_name ts))"
  by (auto simp: find_None_iff)

lemma seed_one_run:
  "\<not> dead s \<Longrightarrow> \<exists>k s'. seed_one env e s = (Inr k, s') \<and> \<not> dead s' \<and> committed s' = committed s \<and>
     type_names (work s') = type_names (work s) @ (if se_name e \<in> set (type_names (work s)) then [] else [se_name e]) \<and>
     k = (if se_name e \<in> set (type_names (work s)) then 0 else 1)"
proof (cases "find (\<lambda>t. wt_name t = se_name e) (workload_types (work s))")
  case None
  moreover assume "\<not> dead s"
  moreover have "se_name e \<notin> set (type_names (work s))" using None by (simp add: type_names_def find_name)
  ultimately show ?thesis by (simp add: seed_one_def act_defs type_names_def)
next
  case (Some t)
  moreover assume "\<not> dead s"
  moreover have "se_name e \<in> set (type_names (work s))" using find_SomeD [OF Some] by (force simp: type_names_def)
  ultimately show ?thesis by (simp add: seed_one_def act_defs type_names_def map_update_where_frame)
qed

lemma seed_entries_run:
  "\<not> dead s \<Longrightarrow> \<exists>n s' new. seed_entries env es s = (Inr n, s') \<and> \<not> dead s' \<and> committed s' = committed s \<and>
     type_names (work s') = type_names (work s) @ new \<and> n = length new \<and>
     set (type_names (work s')) = set (type_names (work s)) \<union> se_name ` set es \<and>
     (distinct (type_names (work s)) \<longrightarrow> distinct (type_names (work s')))"
proof (induction es arbitrary: s)
  case (Cons e es)
  obtain k s1 where 1: "seed_one env e s = (Inr k, s1)" "\<not> dead s1" "committed s1 = committed s"
    "type_names (work s1) = type_names (work s) @ (if se_name e \<in> set (type_names (work s)) then [] else [se_name e])"
    "k = (if se_name e \<in> set (type_names (work s)) then 0 else 1)"
    using seed_one_run [OF Cons.prems] by blast
  obtain n s2 new where 2: "seed_entries env es s1 = (Inr n, s2)" "\<not> dead s2" "committed s2 = committed s1"
    "type_names (work s2) = type_names (work s1) @ new" "n = length new"
    "set (type_names (work s2)) = set (type_names (work s1)) \<union> se_name ` set es"
    "distinct (type_names (work s1)) \<longrightarrow> distinct (type_names (work s2))"
    using Cons.IH [OF 1(2)] by blast
  show ?case using 1 2
    by (intro exI [of _ "k + n"] exI [of _ s2]) (auto simp: bindM_def ret_def split: if_splits)
qed (simp add: ret_def)

section \<open>Properties\<close>

text \<open>seeding the catalogue keeps the type names unique and makes every catalogue name
present; seeding it again inserts nothing.\<close>

theorem seed_catalog_idempotent:
  assumes "seed_catalog env (Some es) s = (Inr n, s1)" and "\<And>k d. e_refuse env k d = None"
    and "distinct (type_names (committed s))"
  shows "distinct (type_names (committed s1)) \<and> se_name ` set es \<subseteq> set (type_names (committed s1)) \<and>
    (\<exists>s2. seed_catalog env (Some es) s1 = (Inr 0, s2) \<and> type_names (committed s2) = type_names (committed s1))"
proof -
  have run: "\<exists>n s' new. seed_catalog env (Some es) s = (Inr n, s') \<and>
     type_names (committed s') = type_names (committed s) @ new \<and> n = length new \<and>
     set (type_names (committed s')) = set (type_names (committed s)) \<union> se_name ` set es \<and>
     (distinct (type_names (committed s)) \<longrightarrow> distinct (type_names (committed s')))" for s
    using seed_entries_run [of "s\<lparr>work := committed s, dead := False\<rparr>" env es]
    by (auto simp: seed_catalog_def with_session_def bindM_def thenM_def commit_def ret_def assms(2))
  have 1: "set (type_names (committed s1)) = set (type_names (committed s)) \<union> se_name ` set es"
    "distinct (type_names (committed s1))"
    using run [of s] assms(1,3) by auto
  obtain m s2 new where 2: "seed_catalog env (Some es) s1 = (Inr m, s2)"
    "type_names (committed s2) = type_names (committed s1) @ new" "m = length new"
    "set (type_names (committed s2)) = set (type_names (committed s1)) \<union> se_name ` set es"
    "distinct (type_names (committed s2))"
    using run [of s1] 1(2) by blast
  have "new = []" using 2(2,4,5) 1(1) by (cases new) auto
  then show ?thesis using 1 2 by auto
qed

lemma seed_catalog_idempotent_witness:
  "\<exists>n s1. seed_catalog calm_env (Some [\<lparr>se_name = ''LLMInference'', se_display_name = ''LLM'', se_description = [],
       se_image_tag = None\<rparr>]) (fresh_sess empty_db) = (Inr n, s1) \<and>
     (\<exists>s2. seed_catalog calm_env (Some [\<lparr>se_name = ''LLMInference'', se_display_name = ''LLM'', se_description = [],
       se_image_tag = None\<rparr>]) s1 = (Inr 0, s2))"
proof -
  let ?es = "[\<lparr>se_name = ''LLMInference'', se_display_name = ''LLM'', se_description = [], se_image_tag = None\<rparr>]"
  obtain n s1 where run: "seed_catalog calm_env (Some ?es) (fresh_sess empty_db) = (Inr n, s1)"
    by (auto simp: seed_catalog_def seed_one_def act_defs sample_defs)
  have "distinct (type_names (committed (fresh_sess empty_db)))"
    by (simp add: type_names_def fresh_sess_def empty_db_def)
  from seed_catalog_idempotent [OF run _ this] run show ?thesis by (auto simp: calm_env_def)
qed

lemma find_upsert_gpu:
  "find (\<lambda>g. gs_gpu_type g = gs_gpu_type new) (upsert_gpu new gs) =
     Some (case find (\<lambda>g. gs_gpu_type g = gs_gpu_type new) gs of None \<Rightarrow> new | Some old \<Rightarrow> new\<lparr>gs_id := gs_id old\<rparr>)"
proof (induction gs)
  case (Cons g gs)
  then show ?case by (auto simp: upsert_gpu_def update_where_def split: if_splits)
qed (simp add: upsert_gpu_def)

lemma upsert_gpu_keys:
  "map gs_gpu_type (upsert_gpu new gs) = map gs_gpu_type gs @
     (if list_ex (\<lambda>g. gs_gpu_type g = gs_gpu_type new) gs then [] else [gs_gpu_type new])"
  by (auto simp: upsert_gpu_def update_where_def)

lemma upsert_gpu_distinct: "distinct (map gs_gpu_type gs) \<Longrightarrow> distinct (map gs_gpu_type (upsert_gpu new gs))"
  unfolding upsert_gpu_keys by (auto simp: list_ex_iff)

lemma upsert_gpu_others:
  "filter (\<lambda>g. gs_gpu_type g \<noteq> gs_gpu_type new) (upsert_gpu new gs) = filter (\<lambda>g. gs_gpu_type g \<noteq> gs_gpu_type new) gs"
proof -
  have "filter (\<lambda>g. gs_gpu_type g \<noteq> gs_gpu_type new)
      (update_where (\<lambda>g. gs_gpu_type g = gs_gpu_type new) (\<lambda>old. new\<lparr>gs_id := gs_id old\<rparr>) gs) =
    filter (\<lambda>g. gs_gpu_type g \<noteq> gs_gpu_type new) gs"
    by (induction gs) (auto simp: update_where_def)
  then show ?thesis by (simp add: upsert_gpu_def)
qed

lemma upsert_gpu_stored:
  "\<exists>x \<in> set (upsert_gpu new gs). gs_gpu_type x = gs_gpu_type new \<and> new\<lparr>gs_id := gs_id x\<rparr> = x"
proof (cases "list_ex (\<lambda>g. gs_gpu_type g = gs_gpu_type new) gs")
  case True
  then obtain g where "g \<in> set gs" "gs_gpu_type g = gs_gpu_type new" by (auto simp: list_ex_iff)
  then show ?thesis using True
    by (intro bexI [of _ "new\<lparr>gs_id := gs_id g\<rparr>"]) (auto simp: upsert_gpu_def update_where_def)
qed (auto simp: upsert_gpu_def)

lemma upsert_gpu_same:
  assumes "distinct (map gs_gpu_type gs)" and "x \<in> set gs" and "gs_gpu_type x = gs_gpu_type new"
    and "new\<lparr>gs_id := gs_id x\<rparr> = x"
  shows "upsert_gpu new gs = gs"
proof -
  have "list_ex (\<lambda>g. gs_gpu_type g = gs_gpu_type new) gs" using assms(2,3) by (auto simp: list_ex_iff)
  moreover have "y = x" if "y \<in> set gs" "gs_gpu_type y = gs_gpu_type new" for y
    using assms(1-3) that by (metis distinct_map inj_on_def)
  then have "update_where (\<lambda>g. gs_gpu_type g = gs_gpu_type new) (\<lambda>old. new\<lparr>gs_id := gs_id old\<rparr>) gs = gs"
    using assms(4) by (auto simp: update_where_def intro!: map_idI)
  ultimately show ?thesis by (simp add: upsert_gpu_def)
qed

lemma gpu_id_trans: "n'\<lparr>gs_id := gs_id n\<rparr> = n \<Longrightarrow> n\<lparr>gs_id := gs_id x\<rparr> = x \<Longrightarrow> n'\<lparr>gs_id := gs_id x\<rparr> = x"
  by (cases n; cases n'; cases x) simp

text \<open>The catalogue, put in by the endpoint.\<close>

interpretation catalogue: keyed_rows gs_gpu_type upsert_gpu "\<lambda>new x. new\<lparr>gs_id := gs_id x\<rparr> = x"
  by unfold_locales (fact upsert_gpu_stored upsert_gpu_others upsert_gpu_distinct upsert_gpu_same gpu_id_trans)+

text \<open>a specification that was stored is what a lookup returns, however the client spells the
type's case, and the table keeps one row per type.\<close>

theorem upserted_gpu_found:
  assumes "upsert_gpu_spec env p s = (Inr a, s1)" and "py_lower t = py_lower (gp_gpu_type p)"
  shows "\<exists>g s2. get_gpu_spec t s1 = (Inr g, s2) \<and> g = gpu_row (gs_id g) p \<and>
    (distinct (map gs_gpu_type (gpu_specs (committed s))) \<longrightarrow> distinct (map gs_gpu_type (gpu_specs (committed s1))))"
proof -
  obtain i where s1: "committed s1 = (committed s)\<lparr>gpu_specs := upsert_gpu (gpu_row i p) (gpu_specs (committed s))\<rparr>"
    using assms(1) by (auto simp: upsert_gpu_spec_def act_defs split: option.splits)
  have t: "gs_gpu_type (gpu_row i p) = py_lower t" using assms(2) by (simp add: gpu_row_def)
  have "(gpu_row i p)\<lparr>gs_id := j\<rparr> = gpu_row j p" "gs_id (gpu_row j p) = j" for j by (simp_all add: gpu_row_def)
  then have "\<exists>g. find (\<lambda>g. gs_gpu_type g = py_lower t) (gpu_specs (committed s1)) = Some g \<and> g = gpu_row (gs_id g) p"
    using find_upsert_gpu [of "gpu_row i p" "gpu_specs (committed s)"]
    by (cases "find (\<lambda>g. gs_gpu_type g = py_lower t) (gpu_specs (committed s))") (simp_all add: s1 t)
  then obtain g where "find (\<lambda>g. gs_gpu_type g = py_lower t) (gpu_specs (committed s1)) = Some g" "g = gpu_row (gs_id g) p"
    by blast
  then show ?thesis using upsert_gpu_distinct [of _ "gpu_row i p"]
    by (auto simp: get_gpu_spec_def with_session_def bindM_def query_def ret_def s1)
qed

definition sample_gpu :: gpu_payload where
  "sample_gpu = \<lparr>gp_gpu_type = ''H100'', gp_display_name = ''NVIDIA H100'', gp_vendor = ''nvidia'', gp_arch = ''hopper'',
     gp_vram_gb = 80, gp_tdp_watts = 700, gp_tier_rank = 1, gp_fp16_tflops = None, gp_fp8_tflops = None\<rparr>"

lemma upserted_gpu_found_witness:
  "\<exists>a s1 g s2. upsert_gpu_spec calm_env sample_gpu (fresh_sess empty_db) = (Inr a, s1) \<and>
     get_gpu_spec ''H100'' s1 = (Inr g, s2) \<and> g = gpu_row (gs_id g) sample_gpu"
proof -
  obtain a s1 where run: "upsert_gpu_spec calm_env sample_gpu (fresh_sess empty_db) = (Inr a, s1)"
    by (auto simp: upsert_gpu_spec_def act_defs calm_env_def fresh_sess_def)
  from upserted_gpu_found [OF run, of "''H100''"] run show ?thesis by (auto simp: sample_gpu_def)
qed

end
