(* ===== verification/Policy.thy ===== *)
theory Policy
  imports Prelude
begin

text \<open>
  \<open>mcp-server/app/policy.py\<close> and the rule generator of \<open>mcp-server/app/manifest.py\<close>: the table of
  tools with the least role and the hints of each, the role checks, the manifest, and the
  allow rules agentgateway runs in front of the server. A role is a text the token carries, so
  the code's checks are on texts; the type \<open>role\<close> below, with its order, is what they promise.
\<close>

section \<open>Roles\<close>

definition ROLES :: "string list" where
  "ROLES = [''viewer'', ''operator'', ''admin'']"

definition RANK :: "string \<Rightarrow> nat option" where
  "RANK = map_of (zip ROLES [0..<length ROLES])"

definition META_MIN_ROLE :: string where "META_MIN_ROLE = ''corespan.ai/minRole''"
definition META_TIER :: string where "META_TIER = ''corespan.ai/tier''"

definition role_at_least :: "string option \<Rightarrow> string option \<Rightarrow> bool" where
  "role_at_least role need =
     (case (Option.bind role RANK, Option.bind need RANK) of
        (Some a, Some b) \<Rightarrow> a \<ge> b
      | _ \<Rightarrow> False)"

definition capped :: "string option \<Rightarrow> string option \<Rightarrow> string option" where
  "capped role cap =
     (case (Option.bind role RANK, Option.bind cap RANK) of
        (Some a, Some b) \<Rightarrow> Some (ROLES ! min a b)
      | _ \<Rightarrow> None)"

section \<open>The table\<close>

record tool_policy =
  tp_tier :: string
  tp_min_role :: string
  tp_read_only :: bool
  tp_destructive :: bool
  tp_idempotent :: bool

definition tool_policy_of :: "string \<Rightarrow> string \<Rightarrow> bool \<Rightarrow> bool \<Rightarrow> bool \<Rightarrow> tool_policy" where
  "tool_policy_of tier role ro destr idem = \<lparr>tp_tier = tier, tp_min_role = role, tp_read_only = ro,
     tp_destructive = destr, tp_idempotent = idem\<rparr>"

definition read_policy :: tool_policy where
  "read_policy = tool_policy_of ''read'' ''viewer'' True False True"

definition host_policy :: tool_policy where
  "host_policy = tool_policy_of ''host'' ''admin'' True False False"

definition TOOL_POLICY :: "(string \<times> tool_policy) list" where
  "TOOL_POLICY =
  [(''workload_history'', read_policy),
   (''throughput_compare'', read_policy),
   (''check_service_health'', read_policy),
   (''platform_catalog'', read_policy),
   (''list_benchmarks'', read_policy),
   (''get_benchmark'', read_policy),
   (''summary'', read_policy),
   (''model_config'', read_policy),
   (''get_task_status'', read_policy),
   (''get_task_logs'', read_policy),
   (''start_workload'', tool_policy_of ''write'' ''operator'' False False False),
   (''start_jupyter'', tool_policy_of ''write'' ''operator'' False False False),
   (''stop_jupyter'', tool_policy_of ''write'' ''operator'' False True True),
   (''delete_run_results'', tool_policy_of ''write'' ''operator'' False True True),
   (''timeline'', host_policy),
   (''list_containers'', host_policy),
   (''docker_logs'', host_policy),
   (''inspect_container'', host_policy),
   (''container_diff'', host_policy),
   (''read_file'', host_policy),
   (''list_dir'', host_policy),
   (''grep_logs'', host_policy),
   (''git_log'', host_policy),
   (''git_show'', host_policy),
   (''network_check'', host_policy),
   (''list_listening_ports'', host_policy),
   (''tcpdump_capture'', host_policy),
   (''check_tls_cert'', host_policy),
   (''check_clock_skew'', host_policy),
   (''frontend_check'', host_policy),
   (''queue_status'', host_policy),
   (''check_ssh_connectivity'', host_policy),
   (''check_node_docker'', host_policy),
   (''node_docker_logs'', host_policy),
   (''node_exec'', host_policy)]"

definition is_write :: "string \<Rightarrow> bool option" where
  "is_write name = map_option (\<lambda>p. \<not> tp_read_only p) (map_of TOOL_POLICY name)"

record tool_annotations =
  readOnlyHint :: bool
  destructiveHint :: bool
  idempotentHint :: bool
  openWorldHint :: bool

definition annotations :: "string \<Rightarrow> tool_annotations option" where
  "annotations name = map_option (\<lambda>p. \<lparr>readOnlyHint = tp_read_only p,
     destructiveHint = (if \<not> tp_read_only p then tp_destructive p else False),
     idempotentHint = tp_idempotent p, openWorldHint = True\<rparr>) (map_of TOOL_POLICY name)"

definition meta :: "string \<Rightarrow> (string \<times> string) list option" where
  "meta name = map_option (\<lambda>p. [(META_MIN_ROLE, tp_min_role p), (META_TIER, tp_tier p)])
     (map_of TOOL_POLICY name)"

definition min_role :: "string \<Rightarrow> string option" where
  "min_role name = map_option tp_min_role (map_of TOOL_POLICY name)"

definition role_allows :: "string option \<Rightarrow> string \<Rightarrow> bool" where
  "role_allows role name = role_at_least role (min_role name)"

definition tools_for_role :: "string option \<Rightarrow> string list option \<Rightarrow> string list" where
  "tools_for_role role registered = filter
     (\<lambda>n. (case registered of None \<Rightarrow> True | Some reg \<Rightarrow> n \<in> set reg) \<and> role_allows role n)
     (map fst TOOL_POLICY)"

section \<open>The manifest and the gateway's rules\<close>

definition manifest_tool :: "string \<times> tool_policy \<Rightarrow> json" where
  "manifest_tool = (\<lambda>(n, p). JObj [(''name'', JStr n), (''minRole'', JStr (tp_min_role p)),
     (''tier'', JStr (tp_tier p)), (''readOnlyHint'', JBool (tp_read_only p)),
     (''destructiveHint'', JBool (if \<not> tp_read_only p then tp_destructive p else False)),
     (''idempotentHint'', JBool (tp_idempotent p))])"

definition manifest :: json where
  "manifest = JObj [(''server'', JStr ''aistudio''), (''version'', JInt 1),
     (''roles'', JList (map JStr ROLES)), (''tools'', JList (map manifest_tool TOOL_POLICY))]"

text \<open>One allow rule per least role: the roles from it upwards and the tools that ask for it.\<close>

definition tools_needing :: "string \<Rightarrow> string list" where
  "tools_needing role = map fst (filter (\<lambda>(_, p). tp_min_role p = role) TOOL_POLICY)"

definition allow_rules :: "(string list \<times> string list) list" where
  "allow_rules = map (\<lambda>(i, role). (drop i ROLES, tools_needing role))
     (filter (\<lambda>(_, role). tools_needing role \<noteq> []) (enumerate 0 ROLES))"

definition quote_list :: "string list \<Rightarrow> string" where
  "quote_list names = ''['' @ py_join '', '' (map quoted names) @ '']''"

definition cel_rules :: "string list" where
  "cel_rules = map (\<lambda>(roles, names). ''jwt.roles.aistudio in '' @ quote_list roles @
     '' && mcp.tool.name in '' @ quote_list names) allow_rules"

section \<open>What the checks promise\<close>

datatype role = Viewer | Operator | Admin

instantiation role :: linorder
begin

fun level :: "role \<Rightarrow> nat" where
  "level Viewer = 0"
| "level Operator = 1"
| "level Admin = 2"

definition less_eq_role :: "role \<Rightarrow> role \<Rightarrow> bool" where "less_eq_role a b = (level a \<le> level b)"
definition less_role :: "role \<Rightarrow> role \<Rightarrow> bool" where "less_role a b = (level a < level b)"

instance
proof
  fix a b :: role
  show "a \<le> b \<Longrightarrow> b \<le> a \<Longrightarrow> a = b"
    by (cases a; cases b) (simp_all add: less_eq_role_def)
qed (auto simp: less_eq_role_def less_role_def)

end

fun role_name :: "role \<Rightarrow> string" where
  "role_name Viewer = ''viewer''"
| "role_name Operator = ''operator''"
| "role_name Admin = ''admin''"

definition role_of :: "string \<Rightarrow> role option" where
  "role_of s = (if s = ''viewer'' then Some Viewer else if s = ''operator'' then Some Operator
     else if s = ''admin'' then Some Admin else None)"

lemma role_of_name [simp]: "role_of (role_name r) = Some r"
  by (cases r) (simp_all add: role_of_def)

lemma role_of_eq: "(role_of s = Some r) = (s = role_name r)"
  by (cases r) (auto simp: role_of_def)

lemma ex_role: "(\<exists>r. P r) = (P Viewer \<or> P Operator \<or> P Admin)"
  by (metis role.exhaust)

lemma RANK_role_of: "RANK s = map_option level (role_of s)"
  by (simp add: RANK_def ROLES_def role_of_def upt_rec)

lemma ROLES_level: "ROLES ! level r = role_name r"
  by (cases r) (simp_all add: ROLES_def)

lemma role_at_least_order:
  "role_at_least role need =
     (\<exists>a b. Option.bind role role_of = Some a \<and> Option.bind need role_of = Some b \<and> b \<le> a)"
  by (cases role; cases need)
    (auto simp: role_at_least_def RANK_role_of less_eq_role_def split: option.splits)

lemma min_level: "min (level a) (level b) = level (min a b)"
  by (simp add: min_def less_eq_role_def)

lemma capped_meet:
  "capped role cap = (case (Option.bind role role_of, Option.bind cap role_of) of
     (Some a, Some b) \<Rightarrow> Some (role_name (min a b)) | _ \<Rightarrow> None)"
  by (cases role; cases cap)
    (auto simp: capped_def RANK_role_of min_level ROLES_level split: option.splits)

lemma table_roles: "map_of TOOL_POLICY name = Some p \<Longrightarrow> role_of (tp_min_role p) \<noteq> None"
proof -
  have "list_all (\<lambda>(n, p). role_of (tp_min_role p) \<noteq> None) TOOL_POLICY"
    by (simp add: TOOL_POLICY_def role_of_def tool_policy_of_def read_policy_def host_policy_def)
  moreover assume "map_of TOOL_POLICY name = Some p"
  ultimately show ?thesis by (auto simp: list_all_iff dest!: map_of_SomeD)
qed

text \<open>The least role of a tool follows from its tier, and only the tier of writes is not read-only.\<close>

definition tier_role :: "string \<Rightarrow> role" where
  "tier_role tier = (if tier = ''read'' then Viewer else if tier = ''write'' then Operator else Admin)"

lemma table_tiers:
  assumes "map_of TOOL_POLICY name = Some p"
  shows "role_of (tp_min_role p) = Some (tier_role (tp_tier p)) \<and> (tp_read_only p = (tp_tier p \<noteq> ''write''))"
proof -
  have "list_all (\<lambda>(n, p). role_of (tp_min_role p) = Some (tier_role (tp_tier p)) \<and>
      (tp_read_only p = (tp_tier p \<noteq> ''write''))) TOOL_POLICY"
    by (simp add: TOOL_POLICY_def role_of_def tool_policy_of_def read_policy_def host_policy_def
        tier_role_def)
  with assms show ?thesis by (auto simp: list_all_iff dest!: map_of_SomeD)
qed

lemma table_distinct: "distinct (map fst TOOL_POLICY)"
  by (simp add: TOOL_POLICY_def)

lemma role_allows_tier:
  "role_allows role name = (\<exists>r p. Option.bind role role_of = Some r \<and> map_of TOOL_POLICY name = Some p \<and>
     tier_role (tp_tier p) \<le> r)"
proof (cases "map_of TOOL_POLICY name")
  case (Some p)
  with table_tiers [OF Some] show ?thesis
    by (simp add: role_allows_def role_at_least_order min_role_def)
qed (simp add: role_allows_def role_at_least_order min_role_def)

lemma tier_le: "(tier_role t \<le> Viewer) = (tier_role t = Viewer)"
  "(tier_role t \<le> Operator) = (tier_role t = Viewer \<or> tier_role t = Operator)" "(tier_role t \<le> Admin) = True"
  by (cases "tier_role t"; simp add: less_eq_role_def)+

text \<open>C13: the access check fails closed and follows the tiers: a tool without a row and a text
that is no role reach nothing; a viewer reaches the tools of the read tier only, an operator
those and the writes, an administrator every tool of the table; and whoever may call a tool
that is not read-only is an operator or an administrator.\<close>

theorem access_follows_tiers:
  "role_allows role name = (\<exists>p. map_of TOOL_POLICY name = Some p \<and>
     (role = Some ''admin'' \<or> role = Some ''operator'' \<and> tp_tier p \<in> {''read'', ''write''} \<or>
      role = Some ''viewer'' \<and> tp_tier p = ''read'')) \<and>
   (role_allows role name \<and> is_write name \<noteq> Some False \<longrightarrow> role \<in> {Some ''operator'', Some ''admin''})"
proof (cases "map_of TOOL_POLICY name")
  case (Some p)
  have t: "(tier_role (tp_tier p) \<le> r) = (r = Admin \<or> r = Operator \<and> tp_tier p \<in> {''read'', ''write''} \<or>
      r = Viewer \<and> tp_tier p = ''read'')" for r
    by (cases r) (simp_all add: less_eq_role_def tier_role_def)
  have w: "is_write name = Some (tp_tier p = ''write'')"
    using table_tiers [OF Some] by (simp add: is_write_def Some)
  show ?thesis
    by (cases role) (auto simp: role_allows_tier role_of_eq ex_role t Some w)
qed (simp add: role_allows_tier)

lemma access_follows_tiers_witness:
  "role_allows (Some ''operator'') ''start_jupyter'' \<and> \<not> role_allows (Some ''viewer'') ''start_jupyter''"
proof -
  have "map_of TOOL_POLICY ''start_jupyter'' = Some (tool_policy_of ''write'' ''operator'' False False False)"
    by (simp add: TOOL_POLICY_def)
  then show ?thesis unfolding access_follows_tiers [THEN conjunct1] by (simp add: tool_policy_of_def)
qed

text \<open>a capped role allows exactly what both roles allow: capping never adds a tool, and a
role the server does not know caps everything away.\<close>

theorem capped_allows_both:
  "role_allows (capped role cap) name = (role_allows role name \<and> role_allows cap name)"
proof (cases "map_of TOOL_POLICY name")
  case (Some p)
  then show ?thesis
    by (simp add: role_allows_tier capped_meet split: option.split)
qed (simp add: role_allows_tier)

lemma needed_tools: "role \<in> {''viewer'', ''operator'', ''admin''} \<Longrightarrow> tools_needing role \<noteq> []"
proof -
  have "''summary'' \<in> set (tools_needing ''viewer'')" "''start_jupyter'' \<in> set (tools_needing ''operator'')"
    "''node_exec'' \<in> set (tools_needing ''admin'')"
    by (simp_all add: tools_needing_def TOOL_POLICY_def tool_policy_of_def read_policy_def host_policy_def)
  moreover assume "role \<in> {''viewer'', ''operator'', ''admin''}"
  ultimately show ?thesis by auto
qed

text \<open>C14: the generated gateway rules admit a role to a tool exactly when the server's own check
does, so the two layers cannot disagree.\<close>

theorem gateway_agrees:
  "(\<exists>rule \<in> set allow_rules. role \<in> set (fst rule) \<and> name \<in> set (snd rule)) = role_allows (Some role) name"
proof -
  have rules: "allow_rules = [([''viewer'', ''operator'', ''admin''], tools_needing ''viewer''),
      ([''operator'', ''admin''], tools_needing ''operator''), ([''admin''], tools_needing ''admin'')]"
    by (simp add: allow_rules_def ROLES_def enumerate_eq_zip upt_rec needed_tools)
  have need: "name \<in> set (tools_needing (role_name r)) =
      (\<exists>p. map_of TOOL_POLICY name = Some p \<and> tier_role (tp_tier p) = r)" for r
  proof -
    have "name \<in> set (tools_needing (role_name r)) =
        (\<exists>p. map_of TOOL_POLICY name = Some p \<and> tp_min_role p = role_name r)"
      using table_distinct by (force simp: tools_needing_def dest: map_of_SomeD)
    also have "\<dots> = (\<exists>p. map_of TOOL_POLICY name = Some p \<and> role_of (tp_min_role p) = Some r)"
      by (simp add: role_of_eq)
    finally show ?thesis using table_tiers by fastforce
  qed
  note n = need [of Viewer] need [of Operator] need [of Admin]
  show ?thesis
  proof (cases "role_of role")
    case None
    then have "role \<notin> {''viewer'', ''operator'', ''admin''}" by (auto simp: role_of_def)
    then show ?thesis using None by (simp add: rules role_allows_tier)
  next
    case (Some r)
    then have role: "role = role_name r" by (simp add: role_of_eq)
    show ?thesis
    proof (cases "map_of TOOL_POLICY name")
      case tool: (Some p)
      have "role_allows (Some role) name = (tier_role (tp_tier p) \<le> r)"
        by (simp add: role_allows_tier Some tool)
      then show ?thesis using n tool
        by (cases r; cases "tier_role (tp_tier p)") (simp_all add: rules role less_eq_role_def)
    qed (use n in \<open>simp add: rules role_allows_tier\<close>)
  qed
qed

text \<open>What a role reaches lists exactly the tools it may call, in the table's order.\<close>

lemma tools_for_role_exact: "set (tools_for_role role None) = {n. role_allows role n}"
proof -
  have "role_allows role n \<Longrightarrow> n \<in> fst ` set TOOL_POLICY" for n
    by (force simp: role_allows_tier dest: map_of_SomeD)
  then show ?thesis by (auto simp: tools_for_role_def)
qed

end
