(* ===== verification/Gateway_Rules.thy ===== *)
theory Gateway_Rules
  imports Policy "HOL-Library.AList"
begin

text \<open>
  \<open>mcp-server/app/manifest.py\<close>: the block of generated allow rules in agentgateway's
  configuration file and its replacement in the text of the file. A text without the markers
  raises ValueError, as \<open>str.index\<close> and \<open>str.rindex\<close> do.
\<close>

definition BEGIN_MARK :: string where
  "BEGIN_MARK = ''# BEGIN generated: python -m app.manifest <this file> (from aistudio mcp-server app/policy.py)''"

definition END_MARK :: string where "END_MARK = ''# END generated''"

definition render_block :: "string \<Rightarrow> string" where
  "render_block indent = py_join nl ((indent @ BEGIN_MARK) #
     map (\<lambda>r. indent @ ''- '' @ dq @ r @ dq) cel_rules @ [indent @ END_MARK])"

definition not_found :: exn where "not_found = ValueError ''substring not found''"

text \<open>What stands between the last line break and the marker.\<close>

definition block_indent :: "string \<Rightarrow> string" where
  "block_indent before = rev (takeWhile (\<lambda>c. c \<noteq> CHR 0x0A) (rev before))"

definition rewrite :: "string \<Rightarrow> exn + string" where
  "rewrite text =
     (if \<not> contains_sub BEGIN_MARK text then Inl not_found
      else let before = before_sub BEGIN_MARK text; indent = block_indent before in
        if CHR 0x0A \<notin> set before then Inl not_found
        else (case after_sub END_MARK (drop (length before) text) of
            None \<Rightarrow> Inl not_found
          | Some rest \<Rightarrow> Inr (take (length before - length indent) text @ render_block indent @ rest)))"

section \<open>Lemmas\<close>

lemma contains_split: "contains_sub p s \<Longrightarrow> \<exists>t. s = before_sub p s @ p @ t \<and> after_sub p s = Some t"
proof (induction s)
  case (Cons c cs)
  then show ?case
    by (auto simp: contains_sub_def starts_with_prefix prefix_def split: if_splits)
qed (auto simp: contains_sub_def split: if_splits)

lemma before_sub_change_tail:
  "contains_sub p s \<Longrightarrow> p \<noteq> [] \<Longrightarrow> before_sub p (before_sub p s @ p @ t) = before_sub p s \<and>
     after_sub p (before_sub p s @ p @ t) = Some t"
proof (induction s)
  case (Cons c cs)
  show ?case
  proof (cases "starts_with p (c # cs)")
    case True
    then show ?thesis using Cons.prems by (cases p) (auto simp: starts_with_prefix)
  next
    case False
    then have cs: "contains_sub p cs" using Cons.prems by (simp add: contains_sub_def)
    then obtain u where u: "cs = before_sub p cs @ p @ u" using contains_split by blast
    have "\<not> starts_with p (c # before_sub p cs @ p @ t)"
    proof
      assume "starts_with p (c # before_sub p cs @ p @ t)"
      then have "prefix p ((c # before_sub p cs @ p) @ t)" by (simp add: starts_with_prefix)
      then have "prefix p (c # before_sub p cs @ p)"
        by (rule prefix_length_prefix) (auto simp: prefix_def)
      then have "prefix p ((c # before_sub p cs @ p) @ u)" by (rule prefix_prefix)
      with u False show False by (simp add: starts_with_prefix)
    qed
    with Cons.IH [OF cs] Cons.prems(2) False show ?thesis by simp
  qed
next
  case Nil
  then show ?case by (simp add: contains_sub_def split: if_splits)
qed

lemma after_sub_skip: "c \<notin> set xs \<Longrightarrow> after_sub (c # p) (xs @ s) = after_sub (c # p) s"
  by (induction xs) (auto simp: starts_with_prefix)

lemma after_begin: "after_sub END_MARK (BEGIN_MARK @ s) = after_sub END_MARK s"
proof -
  have "END_MARK = CHR ''#'' # tl END_MARK" "CHR ''#'' \<notin> set (tl BEGIN_MARK)"
    by (simp_all add: END_MARK_def BEGIN_MARK_def)
  then have "after_sub END_MARK (tl BEGIN_MARK @ s) = after_sub END_MARK s" by (metis after_sub_skip)
  then show ?thesis by (simp add: BEGIN_MARK_def END_MARK_def starts_with_prefix)
qed

lemma after_marks: "CHR ''#'' \<notin> set m \<Longrightarrow> after_sub END_MARK (BEGIN_MARK @ m @ END_MARK @ rest) = Some rest"
  unfolding after_begin by (simp add: END_MARK_def after_sub_skip starts_with_prefix)

lemma block_indent_suffix: "\<exists>a. before = a @ block_indent before"
  by (metis block_indent_def rev_append rev_rev_ident takeWhile_dropWhile_id)

lemma no_break_in_indent: "CHR 0x0A \<notin> set (block_indent before)"
  by (auto simp: block_indent_def dest: set_takeWhileD)

lemma hash_free_rules: "list_all (\<lambda>r. CHR ''#'' \<notin> set r) cel_rules"
  by code_simp

lemma py_join_set: "set (py_join sep xs) \<subseteq> set sep \<union> \<Union> (set ` set xs)"
  by (induction sep xs rule: py_join.induct) auto

lemma py_join_snoc: "xs \<noteq> [] \<Longrightarrow> py_join sep (xs @ [x]) = py_join sep xs @ sep @ x"
  by (induction sep xs rule: py_join.induct) auto

lemma render_block_parts:
  assumes "CHR ''#'' \<notin> set indent"
  shows "\<exists>m. render_block indent = indent @ BEGIN_MARK @ m @ END_MARK \<and> CHR ''#'' \<notin> set m"
proof -
  let ?lines = "map (\<lambda>r. indent @ ''- '' @ dq @ r @ dq) cel_rules"
  have "render_block indent = indent @ BEGIN_MARK @
      (if ?lines = [] then [] else nl @ py_join nl ?lines) @ nl @ indent @ END_MARK"
    using py_join_snoc [of "(indent @ BEGIN_MARK) # ?lines" nl "indent @ END_MARK"]
    by (cases ?lines) (simp_all add: render_block_def)
  moreover have "CHR ''#'' \<notin> set (py_join nl ?lines)"
    using subsetD [OF py_join_set, of "CHR ''#''" nl ?lines] hash_free_rules assms
    by (auto simp: nl_def dq_def list_all_iff split: if_splits)
  ultimately show ?thesis using assms
    by (intro exI [of _ "(if ?lines = [] then [] else nl @ py_join nl ?lines) @ nl @ indent"]) (simp add: nl_def)
qed

text \<open>a rewrite replaces the generated block and nothing else, and rewriting its own output
changes nothing, so the staleness check passes after a write. The indent of the block must hold
no number sign, as white space does not.\<close>

theorem rewrite_idempotent:
  assumes "rewrite text = Inr out" and "CHR ''#'' \<notin> set (block_indent (before_sub BEGIN_MARK text))"
  shows "rewrite out = Inr out \<and> (\<exists>a indent old rest.
      text = a @ indent @ BEGIN_MARK @ old @ rest \<and> out = a @ render_block indent @ rest)"
proof -
  let ?b = "before_sub BEGIN_MARK text" let ?i = "block_indent ?b"
  have c: "contains_sub BEGIN_MARK text" "CHR 0x0A \<in> set ?b" using assms(1)
    by (auto simp: rewrite_def Let_def split: if_splits)
  obtain u where u: "text = ?b @ BEGIN_MARK @ u" using contains_split [OF c(1)] by blast
  obtain a where a: "?b = a @ ?i" using block_indent_suffix by blast
  then have ta: "take (length ?b - length ?i) text = a"
    by (metis append.assoc append_eq_conv_conj diff_add_inverse2 length_append u)
  obtain rest where rest: "after_sub END_MARK (drop (length ?b) text) = Some rest" "out = a @ render_block ?i @ rest"
    using assms(1) c ta by (auto simp: rewrite_def Let_def split: option.splits)
  obtain m where m: "render_block ?i = ?i @ BEGIN_MARK @ m @ END_MARK" "CHR ''#'' \<notin> set m"
    using render_block_parts [OF assms(2)] by blast
  have out: "out = ?b @ BEGIN_MARK @ m @ END_MARK @ rest" using rest(2) m(1) a by simp
  have b': "before_sub BEGIN_MARK out = ?b" and c': "contains_sub BEGIN_MARK out"
    using before_sub_change_tail [OF c(1), of "m @ END_MARK @ rest"] out
    by (auto simp: contains_sub_def BEGIN_MARK_def)
  have "drop (length ?b) out = BEGIN_MARK @ m @ END_MARK @ rest" using out by (metis append_eq_conv_conj)
  then have e: "after_sub END_MARK (drop (length ?b) out) = Some rest" using after_marks [OF m(2)] by simp
  have "take (length ?b - length ?i) out = a" by (metis a out append.assoc append_eq_conv_conj diff_add_inverse2 length_append)
  then have "rewrite out = Inr out"
    using b' c' c(2) e rest(2) by (simp add: rewrite_def Let_def)
  moreover have "\<exists>old. text = a @ ?i @ BEGIN_MARK @ old @ rest"
  proof -
    have "after_sub END_MARK u = Some rest" using rest(1) u after_begin by (metis append_eq_conv_conj)
    then have "u = before_sub END_MARK u @ END_MARK @ rest"
      using contains_split [of END_MARK u] by (auto simp: contains_sub_def)
    then show ?thesis using u a by (metis append.assoc)
  qed
  ultimately show ?thesis using rest(2) by blast
qed

definition sample_config :: string where
  "sample_config = ''rules:'' @ nl @ ''  '' @ BEGIN_MARK @ nl @ ''  '' @ END_MARK @ nl @ ''port: 1''"

lemma rewrite_idempotent_witness:
  "\<exists>out. rewrite sample_config = Inr out \<and> rewrite out = Inr out \<and>
     out = ''rules:'' @ nl @ render_block ''  '' @ nl @ ''port: 1''"
proof -
  have b: "before_sub BEGIN_MARK sample_config = ''rules:'' @ nl @ ''  ''"
      "contains_sub BEGIN_MARK sample_config"
      "after_sub END_MARK (drop 9 sample_config) = Some (nl @ ''port: 1'')"
    by code_simp+
  have i: "block_indent (''rules:'' @ nl @ ''  '') = ''  ''" by (simp add: block_indent_def nl_def)
  have r: "rewrite sample_config = Inr (''rules:'' @ nl @ render_block ''  '' @ nl @ ''port: 1'')"
    unfolding rewrite_def b(1) Let_def i using b(2,3)
    by (simp add: nl_def sample_config_def)
  have "CHR ''#'' \<notin> set (block_indent (before_sub BEGIN_MARK sample_config))" unfolding b(1) i by simp
  from rewrite_idempotent [OF r this] have "rewrite (''rules:'' @ nl @ render_block ''  '' @ nl @ ''port: 1'') =
      Inr (''rules:'' @ nl @ render_block ''  '' @ nl @ ''port: 1'')"
    by (rule conjunct1)
  with r show ?thesis by blast
qed

section \<open>The command line\<close>

text \<open>
  The files are a map from paths to texts, as \<open>read_text\<close> gives them, with line feeds only. The text
  \<open>json.dumps\<close> makes of the manifest is the argument \<open>dumped\<close>. The dictionary of wanted texts keeps
  the order of its paths; the result is the exit code, the lines printed and the files.
\<close>

type_synonym files = "string \<rightharpoonup> string"

definition MANIFEST_PATH :: string where "MANIFEST_PATH = ''tool-manifest.json''"

definition render_manifest :: "string \<Rightarrow> string" where "render_manifest dumped = dumped @ nl"

definition read_or_empty :: "files \<Rightarrow> string \<Rightarrow> string" where
  "read_or_empty fs p = (case fs p of None \<Rightarrow> [] | Some t \<Rightarrow> t)"

fun wanted_texts :: "files \<Rightarrow> (string \<times> string) list \<Rightarrow> string list \<Rightarrow> exn + (string \<times> string) list" where
  "wanted_texts fs acc [] = Inr acc"
| "wanted_texts fs acc (p # ps) =
     (case fs p of
        None \<Rightarrow> Inl (OSError (''No such file or directory: '' @ p))
      | Some t \<Rightarrow> (case rewrite t of Inl e \<Rightarrow> Inl e | Inr out \<Rightarrow> wanted_texts fs (AList.update p out acc) ps))"

definition file_name :: "string \<Rightarrow> string" where
  "file_name p = last (split_char (CHR ''/'') p)"

definition stale_texts :: "files \<Rightarrow> (string \<times> string) list \<Rightarrow> (string \<times> string) list" where
  "stale_texts fs wanted = filter (\<lambda>(p, t). read_or_empty fs p \<noteq> t) wanted"

definition write_texts :: "files \<Rightarrow> (string \<times> string) list \<Rightarrow> files" where
  "write_texts fs stale = foldl (\<lambda>fs (p, t). fs(p \<mapsto> t)) fs stale"

definition manifest_main :: "bool \<Rightarrow> string list \<Rightarrow> string \<Rightarrow> files \<Rightarrow> exn + nat \<times> string list \<times> files" where
  "manifest_main check configs dumped fs =
     (case wanted_texts fs [(MANIFEST_PATH, render_manifest dumped)] configs of
        Inl e \<Rightarrow> Inl e
      | Inr wanted \<Rightarrow>
          let stale = stale_texts fs wanted in
          if check then
            Inr (if stale \<noteq> [] then 1 else 0,
              map (\<lambda>(p, _). file_name p @ '' is stale: run '' @ quoted ''python -m app.manifest'') stale @
                (if stale = [] then [''tool manifest and gateway rules are up to date''] else []), fs)
          else Inr (0, map (\<lambda>(p, _). ''wrote '' @ p) stale, write_texts fs stale))"

lemma map_of_write: "distinct (map fst ps) \<Longrightarrow> write_texts fs ps p = (case map_of ps p of None \<Rightarrow> fs p | Some t \<Rightarrow> Some t)"
proof (induction ps arbitrary: fs)
  case (Cons q ps)
  obtain k t where q: "q = (k, t)" by (cases q)
  have "map_of ps k = None" using Cons.prems q by (simp add: map_of_eq_None_iff)
  then show ?case using Cons q by (auto simp: write_texts_def split: option.splits)
qed (simp add: write_texts_def)

lemma map_of_filter_pairs:
  "distinct (map fst ps) \<Longrightarrow> map_of (filter P ps) k =
     (case map_of ps k of None \<Rightarrow> None | Some v \<Rightarrow> if P (k, v) then Some v else None)"
proof (induction ps)
  case (Cons q ps)
  obtain k' v where q: "q = (k', v)" by (cases q)
  have "map_of ps k' = None" using Cons.prems q by (simp add: map_of_eq_None_iff)
  then show ?case using Cons q by (auto split: option.split)
qed simp

lemma wanted_result:
  "wanted_texts fs acc ps = Inr wanted \<Longrightarrow> distinct (map fst acc) \<Longrightarrow> distinct (map fst wanted) \<and>
     (\<forall>p. map_of wanted p = (if p \<in> set ps then Some (projr (rewrite (the (fs p)))) else map_of acc p)) \<and>
     (\<forall>p \<in> set ps. \<exists>t out. fs p = Some t \<and> rewrite t = Inr out)"
proof (induction fs acc ps rule: wanted_texts.induct)
  case (2 fs acc p ps)
  obtain t out where t: "fs p = Some t" "rewrite t = Inr out" "wanted_texts fs (AList.update p out acc) ps = Inr wanted"
    using 2(2) by (auto split: option.splits sum.splits)
  have "distinct (map fst (AList.update p out acc))" using 2(3) by (rule distinct_update)
  from 2(1) [OF t(1,2,3) this] show ?case using t(1,2) by (auto simp: update_conv')
qed simp

lemma wanted_texts_total:
  "\<forall>p \<in> set ps. \<exists>t out. fs p = Some t \<and> rewrite t = Inr out \<Longrightarrow> \<exists>wanted. wanted_texts fs acc ps = Inr wanted"
  by (induction fs acc ps rule: wanted_texts.induct) auto

text \<open>C36: after the generator has run, its check finds nothing stale and answers 0, and another run writes
nothing; the indent of a configuration's block must hold no number sign, as white space does not.\<close>

theorem generated_files_up_to_date:
  assumes "manifest_main False configs dumped fs = Inr (code, printed, fs')" and "MANIFEST_PATH \<notin> set configs"
    and "\<forall>p \<in> set configs. \<forall>t. fs p = Some t \<longrightarrow> CHR ''#'' \<notin> set (block_indent (before_sub BEGIN_MARK t))"
  shows "manifest_main True configs dumped fs' = Inr (0, [''tool manifest and gateway rules are up to date''], fs') \<and>
    manifest_main False configs dumped fs' = Inr (0, [], fs')"
proof -
  let ?acc = "[(MANIFEST_PATH, render_manifest dumped)]"
  obtain wanted where wanted: "wanted_texts fs ?acc configs = Inr wanted" and fs': "fs' = write_texts fs (stale_texts fs wanted)"
    using assms(1) by (auto simp: manifest_main_def Let_def split: sum.splits)
  have w: "distinct (map fst wanted)"
    "map_of wanted p = (if p \<in> set configs then Some (projr (rewrite (the (fs p)))) else map_of ?acc p)"
    "p \<in> set configs \<Longrightarrow> \<exists>t out. fs p = Some t \<and> rewrite t = Inr out" for p
    using wanted_result [OF wanted] by auto
  have d: "distinct (map fst (stale_texts fs wanted))"
    using w(1) unfolding stale_texts_def by (rule distinct_map_filter)
  have stale: "map_of (stale_texts fs wanted) p = (case map_of wanted p of None \<Rightarrow> None
      | Some t \<Rightarrow> if read_or_empty fs p \<noteq> t then Some t else None)" for p
    using map_of_filter_pairs [OF w(1)] by (simp add: stale_texts_def split: option.split)
  have kept: "fs' p = Some out" if "p \<in> set configs" "fs p = Some t" "rewrite t = Inr out" for p t out
    using that w(2) [of p] stale [of p] map_of_write [OF d, of fs p] fs' by (auto simp: read_or_empty_def)
  have manifest: "read_or_empty fs' MANIFEST_PATH = render_manifest dumped"
    using w(2) [of MANIFEST_PATH] stale [of MANIFEST_PATH] map_of_write [OF d, of fs MANIFEST_PATH] fs' assms(2)
    by (auto simp: read_or_empty_def)
  have same: "\<exists>out. fs' p = Some out \<and> rewrite out = Inr out" if p: "p \<in> set configs" for p
  proof -
    obtain t out where t: "fs p = Some t" "rewrite t = Inr out" using w(3) [OF p] by blast
    then have "rewrite out = Inr out" using rewrite_idempotent assms(3) p by blast
    then show ?thesis using kept [OF p t] by blast
  qed
  then have "\<forall>p \<in> set configs. \<exists>t out. fs' p = Some t \<and> rewrite t = Inr out" by blast
  then obtain wanted' where wanted': "wanted_texts fs' ?acc configs = Inr wanted'" using wanted_texts_total by blast
  have w': "distinct (map fst wanted')"
    "map_of wanted' p = (if p \<in> set configs then Some (projr (rewrite (the (fs' p)))) else map_of ?acc p)" for p
    using wanted_result [OF wanted'] by auto
  have "read_or_empty fs' p = t" if "(p, t) \<in> set wanted'" for p t
  proof -
    have "map_of wanted' p = Some t" using that w'(1) by simp
    then show ?thesis using w'(2) [of p] same [of p] manifest by (auto simp: read_or_empty_def split: if_splits)
  qed
  then have "stale_texts fs' wanted' = []" by (auto simp: stale_texts_def filter_empty_conv)
  then show ?thesis using wanted' by (simp add: manifest_main_def Let_def write_texts_def)
qed

definition sample_files :: files where "sample_files = [''config.yaml'' \<mapsto> sample_config]"

lemma generated_files_up_to_date_witness:
  "\<exists>fs. manifest_main False [''config.yaml''] ''{}'' sample_files = Inr (0, [''wrote tool-manifest.json'', ''wrote config.yaml''], fs) \<and>
     manifest_main False [''config.yaml''] ''{}'' fs = Inr (0, [], fs)"
proof -
  let ?out = "''rules:'' @ nl @ render_block ''  '' @ nl @ ''port: 1''"
  have b: "before_sub BEGIN_MARK sample_config = ''rules:'' @ nl @ ''  ''" "contains_sub BEGIN_MARK sample_config"
    "after_sub END_MARK (drop 9 sample_config) = Some (nl @ ''port: 1'')"
    by code_simp+
  have i: "block_indent (''rules:'' @ nl @ ''  '') = ''  ''" by (simp add: block_indent_def nl_def)
  have r: "rewrite sample_config = Inr ?out"
    unfolding rewrite_def b(1) Let_def i using b(2,3) by (simp add: nl_def sample_config_def)
  have "sample_config \<noteq> ?out" by (simp add: sample_config_def render_block_def BEGIN_MARK_def END_MARK_def nl_def) code_simp
  then obtain fs where run: "manifest_main False [''config.yaml''] ''{}'' sample_files =
      Inr (0, [''wrote tool-manifest.json'', ''wrote config.yaml''], fs)"
    using r by (simp add: manifest_main_def sample_files_def MANIFEST_PATH_def stale_texts_def read_or_empty_def render_manifest_def nl_def)
  have indent: "\<forall>p \<in> set [''config.yaml'']. \<forall>t. sample_files p = Some t \<longrightarrow> CHR ''#'' \<notin> set (block_indent (before_sub BEGIN_MARK t))"
    by (simp add: sample_files_def b(1)) (simp add: block_indent_def nl_def)
  have "MANIFEST_PATH \<notin> set [''config.yaml'']" by (simp add: MANIFEST_PATH_def)
  from generated_files_up_to_date [OF run this indent] show ?thesis using run by blast
qed

end
