(* ===== verification/Shlex.thy ===== *)
theory Shlex
  imports Prelude
begin

text \<open>
  The parts of Python's \<open>shlex\<close>, \<open>repr\<close> and \<open>posixpath\<close> the MCP probes call: splitting a command
  as a POSIX shell does, quoting and joining its words, and normalising a path. The lexer is
  \<open>shlex.split\<close> with its defaults (POSIX mode, no comments), one state per character.
\<close>

definition sq :: char where "sq = CHR 0x27"

definition is_quote :: "char \<Rightarrow> bool" where "is_quote c = (c = sq \<or> c = CHR 0x22)"

definition is_backslash :: "char \<Rightarrow> bool" where "is_backslash c = (c = CHR 0x5C)"

definition is_blank :: "char \<Rightarrow> bool" where
  "is_blank c = (c \<in> {CHR '' '', CHR 0x09, CHR 0x0D, CHR 0x0A})"

datatype lex_state = Blank | Word | Quote char | Escape lex_state

definition cons_word :: "string \<Rightarrow> exn + string list \<Rightarrow> exn + string list" where
  "cons_word w r = (case r of Inl e \<Rightarrow> Inl e | Inr ws \<Rightarrow> Inr (w # ws))"

fun lex :: "lex_state \<Rightarrow> string \<Rightarrow> string \<Rightarrow> exn + string list" where
  "lex Blank acc [] = Inr []"
| "lex Word acc [] = Inr [rev acc]"
| "lex (Quote q) acc [] = Inl (ValueError ''No closing quotation'')"
| "lex (Escape st) acc [] = Inl (ValueError ''No escaped character'')"
| "lex Blank acc (c # cs) =
     (if is_blank c then lex Blank [] cs
      else if is_backslash c then lex (Escape Word) [] cs
      else if is_quote c then lex (Quote c) [] cs
      else lex Word [c] cs)"
| "lex Word acc (c # cs) =
     (if is_blank c then cons_word (rev acc) (lex Blank [] cs)
      else if is_quote c then lex (Quote c) acc cs
      else if is_backslash c then lex (Escape Word) acc cs
      else lex Word (c # acc) cs)"
| "lex (Quote q) acc (c # cs) =
     (if c = q then lex Word acc cs
      else if is_backslash c \<and> q \<noteq> sq then lex (Escape (Quote q)) acc cs
      else lex (Quote q) (c # acc) cs)"
| "lex (Escape st) acc (c # cs) =
     lex st (c # (case st of Quote q \<Rightarrow> if is_backslash c \<or> c = q then acc else CHR 0x5C # acc | _ \<Rightarrow> acc)) cs"

definition shlex_split :: "string \<Rightarrow> exn + string list" where
  "shlex_split s = lex Blank [] s"

definition safe_char :: "char \<Rightarrow> bool" where
  "safe_char c = (is_alnum c \<or> c \<in> set ''_@%+=:,./-'')"

definition shlex_quote :: "string \<Rightarrow> string" where
  "shlex_quote s =
     (if s = [] then [sq, sq]
      else if list_all safe_char s then s
      else sq # concat (map (\<lambda>c. if c = sq then [sq, CHR 0x22, sq, CHR 0x22, sq] else [c]) s) @ [sq])"

definition shlex_join :: "string list \<Rightarrow> string" where
  "shlex_join ws = py_join '' '' (map shlex_quote ws)"

text \<open>\<open>repr\<close> of a text: bytes of non-ASCII characters stand for themselves.\<close>

definition low_hex_digit :: "nat \<Rightarrow> char" where
  "low_hex_digit n = char_of (if n < 10 then 48 + n else 87 + n)"

definition repr_char :: "char \<Rightarrow> char \<Rightarrow> string" where
  "repr_char q c =
     (if c = q \<or> is_backslash c then [CHR 0x5C, c]
      else if c = CHR 0x0A then [CHR 0x5C, CHR ''n'']
      else if c = CHR 0x0D then [CHR 0x5C, CHR ''r'']
      else if c = CHR 0x09 then [CHR 0x5C, CHR ''t'']
      else if (of_char c :: nat) < 32 \<or> (of_char c :: nat) = 127
      then [CHR 0x5C, CHR ''x'', low_hex_digit (of_char c div 16), low_hex_digit (of_char c mod 16)]
      else [c])"

definition py_repr :: "string \<Rightarrow> string" where
  "py_repr s = (let q = (if sq \<in> set s \<and> CHR 0x22 \<notin> set s then CHR 0x22 else sq) in
     q # concat (map (repr_char q) s) @ [q])"

text \<open>\<open>posixpath.normpath\<close>: exactly two leading slashes are kept.\<close>

definition norm_step :: "bool \<Rightarrow> string list \<Rightarrow> string \<Rightarrow> string list" where
  "norm_step rooted comps c =
     (if c = [] \<or> c = ''.'' then comps
      else if c \<noteq> ''..'' \<or> (\<not> rooted \<and> comps = []) \<or> (comps \<noteq> [] \<and> last comps = ''..'') then comps @ [c]
      else butlast comps)"

definition initial_slashes :: "string \<Rightarrow> nat" where
  "initial_slashes path =
     (if \<not> starts_with ''/'' path then 0
      else if starts_with ''//'' path \<and> \<not> starts_with ''///'' path then 2 else 1)"

definition normpath :: "string \<Rightarrow> string" where
  "normpath path =
     (if path = [] then ''.''
      else let n = initial_slashes path;
               p = replicate n (CHR ''/'') @
                   py_join ''/'' (foldl (norm_step (n > 0)) [] (split_char (CHR ''/'') path))
           in if p = [] then ''.'' else p)"

section \<open>Splitting what was joined\<close>

lemma safe_not_special [simp]:
  "safe_char c \<Longrightarrow> \<not> is_blank c \<and> \<not> is_quote c \<and> \<not> is_backslash c"
  by (auto simp: safe_char_def is_blank_def is_quote_def is_backslash_def sq_def is_alnum_def is_alpha_def
      is_upper_def is_lower_def is_digit_def)

lemma lex_safe: "list_all safe_char s \<Longrightarrow> lex Word acc (s @ rest) = lex Word (rev s @ acc) rest"
  by (induction s arbitrary: acc) auto

lemma quote_chars [simp]: "is_quote sq" "is_quote (CHR 0x22)" "\<not> is_blank sq" "\<not> is_blank (CHR 0x22)"
  "\<not> is_backslash sq" "\<not> is_backslash (CHR 0x22)" "sq \<noteq> CHR 0x22" "CHR 0x22 \<noteq> sq"
  by (simp_all add: is_quote_def is_blank_def is_backslash_def sq_def)

lemma lex_quoted:
  "lex (Quote sq) acc
     (concat (map (\<lambda>c. if c = sq then [sq, CHR 0x22, sq, CHR 0x22, sq] else [c]) s) @ sq # rest) =
   lex Word (rev s @ acc) rest"
  by (induction s arbitrary: acc) auto

lemma lex_word: "lex Blank [] (shlex_quote s @ rest) = lex Word (rev s) rest"
proof -
  consider "s = []" | c cs where "s = c # cs" "list_all safe_char s" | "s \<noteq> []" "\<not> list_all safe_char s"
    by (cases s) auto
  then show ?thesis
  proof cases
    case 2
    then show ?thesis using lex_safe [of cs "[c]" rest] by (simp add: shlex_quote_def)
  next
    case 3
    then show ?thesis using lex_quoted [of "[]" s rest] by (simp add: shlex_quote_def)
  qed (simp add: shlex_quote_def)
qed

lemma split_join: "shlex_split (shlex_join ws) = Inr ws"
proof -
  have "lex Blank [] (py_join '' '' (map shlex_quote ws)) = Inr ws"
  proof (induction ws)
    case (Cons w ws)
    show ?case
    proof (cases ws)
      case Nil
      then show ?thesis using lex_word [of w "[]"] by simp
    next
      case (Cons v vs)
      then have "py_join '' '' (map shlex_quote (w # ws)) =
          shlex_quote w @ CHR '' '' # py_join '' '' (map shlex_quote ws)" by simp
      then show ?thesis using lex_word [of w] Cons.IH by (simp add: is_blank_def cons_word_def)
    qed
  qed simp
  then show ?thesis by (simp add: shlex_split_def shlex_join_def)
qed

text \<open>Without backslashes every character of a word comes from the text.\<close>

lemma lex_chars:
  "lex st acc s = Inr ws \<Longrightarrow> CHR 0x5C \<notin> set s \<Longrightarrow> (\<And>u. st \<noteq> Escape u) \<Longrightarrow> w \<in> set ws \<Longrightarrow>
   set w \<subseteq> set acc \<union> set s"
proof (induction st acc s arbitrary: ws rule: lex.induct)
  case (6 acc c cs)
  show ?case
  proof (cases "is_blank c")
    case True
    then obtain vs where "lex Blank [] cs = Inr vs" "ws = rev acc # vs"
      using "6.prems"(1) by (auto simp: cons_word_def split: sum.splits)
    then show ?thesis using "6.IH"(1) [OF True] "6.prems" by fastforce
  next
    case False
    then show ?thesis using 6 by (auto simp: is_backslash_def split: if_splits; fastforce)
  qed
qed (auto simp: is_backslash_def split: if_splits; fastforce)+

end
