(* ===== verification/Command_Gate.thy ===== *)
theory Command_Gate
  imports Shlex "HOL-Library.List_Lexorder" "HOL-Library.Char_ord"
begin

text \<open>
  \<open>mcp-server/app/tools/ssh_probes.py\<close>: the gate of \<open>node_exec\<close>, the tool that runs one command
  on a GPU node over SSH. The table of read-only forms, the checks on arguments, on \<open>ip\<close> and on
  the paths of \<open>cat\<close>, and the tool itself; then what the diagnostics and the node's links make of a
  command, and that the gate lets only observing commands through. The SSH layer is the parameter run: it is given the
  address and the command line and answers whether the command succeeded and with what text.
\<close>

section \<open>The table of forms\<close>

datatype arg_pattern = VALUE | VALUE_OR_PATH | DEVICE | CONF_NAME

definition chars_ok :: "string \<Rightarrow> nat \<Rightarrow> nat \<Rightarrow> string \<Rightarrow> bool" where
  "chars_ok extra lo hi s = (lo \<le> length s \<and> length s \<le> hi \<and>
     list_all (\<lambda>c. is_alnum c \<or> c \<in> set extra) s)"

fun arg_ok :: "arg_pattern \<Rightarrow> string \<Rightarrow> bool" where
  "arg_ok VALUE s = chars_ok ''_.,:=@+ -'' 1 200 s"
| "arg_ok VALUE_OR_PATH s =
     (case s of c # cs \<Rightarrow> (c = CHR ''/'' \<and> chars_ok ''_./-'' 0 200 cs) \<or> chars_ok ''_.,:=@+-'' 1 200 s
      | [] \<Rightarrow> False)"
| "arg_ok DEVICE s = chars_ok ''_.:@-'' 1 32 s"
| "arg_ok CONF_NAME s = (1 \<le> length s \<and> length s \<le> 64 \<and>
     list_all (\<lambda>c. is_upper c \<or> is_digit c \<or> c = CHR ''_'') s)"

record spec =
  sp_flags :: "string list"
  sp_args :: "arg_pattern option"
  sp_max_args :: nat
  sp_combine :: bool

definition spec_of :: "string \<Rightarrow> arg_pattern option \<Rightarrow> nat \<Rightarrow> bool \<Rightarrow> spec" where
  "spec_of flags args n combine = \<lparr>sp_flags = py_words flags, sp_args = args, sp_max_args = n,
     sp_combine = combine\<rparr>"

definition SPECS :: "((string \<times> string option) \<times> spec) list" where
  "SPECS =
   [((''lscpu'', None), spec_of (''-a --all -b --online -c --offline -e --extended -p --parse -J --json -x --hex '' @
      ''-y --physical -B --bytes -C --caches'') None 10 False),
    ((''nproc'', None), spec_of ''--all'' None 10 False),
    ((''free'', None), spec_of (''-b -k -m -g -h -w -t -l --bytes --kibi --mebi --gibi --human --wide --total '' @
      ''--lohi --si'') None 10 True),
    ((''uptime'', None), spec_of ''-p -s --pretty --since'' None 10 False),
    ((''df'', None), spec_of (''-a -h -H -i -k -l -m -P -T -t -x --all --human-readable --si --inodes --local '' @
      ''--portability --print-type --type --exclude-type --output'') (Some VALUE_OR_PATH) 10 True),
    ((''uname'', None), spec_of (''-a -s -n -r -v -m -p -i -o --all --kernel-name --nodename --kernel-release '' @
      ''--kernel-version --machine --processor --hardware-platform --operating-system'') None 10 True),
    ((''getconf'', None), spec_of ''-a'' (Some CONF_NAME) 10 False),
    ((''lspci'', None), spec_of ''-v -n -t -k -D -s -d -x -m -b -P'' (Some VALUE) 10 True),
    ((''lstopo-no-graphics'', None), spec_of (''-p -l -v -s --physical --logical --verbose --silent --no-io --no-bridges '' @
      ''--whole-io --no-caches --merge'') None 10 False),
    ((''nvcc'', None), spec_of ''--version -V'' None 10 False),
    ((''nvidia-smi'', None), spec_of (''-L --list-gpus -q --query -x --xml-format -d --display -i --id -u --unit '' @
      ''--query-gpu --query-compute-apps --format'') (Some VALUE) 10 False),
    ((''nvidia-smi'', Some ''topo''), spec_of ''-m --matrix -mp --matrix_pci -p2p -i --id'' (Some VALUE) 10 False),
    ((''nvidia-smi'', Some ''nvlink''), spec_of ''-s --status -c --capabilities -i --id -l --link'' (Some VALUE) 10 False),
    ((''nvidia-smi'', Some ''dmon''), spec_of ''-i -d -c -s -o'' (Some VALUE) 10 False),
    ((''nvidia-smi'', Some ''pmon''), spec_of ''-i -d -c -s -o'' (Some VALUE) 10 False),
    ((''dcgmi'', Some ''discovery''), spec_of ''-l --list -i --info -g --group -v --verbose'' (Some VALUE) 10 False),
    ((''dcgmi'', Some ''dmon''), spec_of ''-e --field-id -d --delay -c --count -i --gpu-id -g --group-id -l --list'' (Some VALUE) 10 False),
    ((''dcgmi'', Some ''topo''), spec_of ''-g --group -i --gpuid -j --json'' (Some VALUE) 10 False),
    ((''dcgmi'', Some ''stats''), spec_of ''-j -p -v -g --verbose'' (Some VALUE) 10 False),
    ((''numactl'', None), spec_of ''-H --hardware -s --show'' None 10 False),
    ((''ss'', None), spec_of (''-t -u -l -n -p -a -s -e -i -m -o -x -w -4 -6 -H --tcp --udp --listening '' @
      ''--numeric --processes --all --summary --extended --info --memory --options '' @
      ''--unix --raw --ipv4 --ipv6 --no-header'') (Some VALUE) 10 True),
    ((''ethtool'', None), spec_of (''-i --driver -k --show-features --show-offload -S --statistics -a --show-pause '' @
      ''-c --show-coalesce -g --show-ring -T --show-time-stamping -l --show-channels '' @
      ''-P --show-permaddr --show-fec --show-eee'') (Some DEVICE) 1 False),
    ((''sensors'', None), spec_of ''-A --no-adapter -u -f --fahrenheit -j'' (Some VALUE) 10 False)]"

definition HAS_SUBCOMMAND :: "string list" where "HAS_SUBCOMMAND = [''nvidia-smi'', ''dcgmi'']"

definition IP_GLOBAL :: "string list" where
  "IP_GLOBAL = [''-s'', ''-stats'', ''-statistics'', ''-d'', ''-details'', ''-br'', ''-brief'', ''-4'', ''-6'',
     ''-j'', ''-json'', ''-p'', ''-pretty'', ''-o'', ''-oneline'']"

definition IP_OBJECTS :: "string list" where
  "IP_OBJECTS = [''link'', ''addr'', ''address'', ''route'', ''neigh'', ''neighbour'', ''rule'']"

definition IP_SHOW :: "string list" where "IP_SHOW = [''show'', ''list'', ''ls'', ''lst'']"

definition IP_WRITE_VERBS :: "string list" where
  "IP_WRITE_VERBS = [''set'', ''add'', ''del'', ''delete'', ''change'', ''replace'', ''flush'',
     ''append'', ''prepend'', ''save'', ''restore'']"

definition CAT_ROOTS :: "string list" where "CAT_ROOTS = [''/sys/'', ''/proc/'']"

definition CAT_FORBIDDEN_PARTS :: "string list" where
  "CAT_FORBIDDEN_PARTS = [''root'', ''cwd'', ''exe'', ''fd'', ''fdinfo'', ''map_files'', ''environ'',
     ''cmdline'', ''mem'', ''pagemap'', ''kcore'', ''kmem'', ''kmsg'', ''efivars'']"

definition SHELL_META :: string where
  "SHELL_META = '';&|`$<>()'' @ nl @ bs @ ''*?[]{}~''"

section \<open>The gate\<close>

text \<open>The texts list sets in sorted order.\<close>

definition sorted_words :: "string list \<Rightarrow> string list" where
  "sorted_words ws = sort (remdups ws)"

definition usage :: "string \<Rightarrow> string" where
  "usage binary =
     (if binary = ''ip'' then ''ip link show, ip addr show, ip route show, ip neigh show, ip rule show '' @
        ''(options before the object: '' @ py_join '' '' (sorted_words IP_GLOBAL) @ '')''
      else if binary = ''cat'' then ''cat <path under /sys or /proc>''
      else py_join ''; '' (map (\<lambda>((b, s), spec). b @ (case s of None \<Rightarrow> [] | Some x \<Rightarrow> '' '' @ x) @
        '' ['' @ py_join '' '' (sorted_words (sp_flags spec)) @ '']'') (filter (\<lambda>((b, s), spec). b = binary) SPECS)))"

text \<open>
  \<open>_check_args\<close> returns the first argument the form does not allow, or the empty text. \<open>partition\<close>
  cuts an option at its first equals sign.
\<close>

definition is_option :: "string \<Rightarrow> bool" where
  "is_option t = (starts_with ''-'' t \<and> t \<noteq> ''-'')"

definition option_ok :: "spec \<Rightarrow> string \<Rightarrow> bool" where
  "option_ok spec t =
     (let name = takeWhile (\<lambda>c. c \<noteq> CHR ''='') t;
          eq = (CHR ''='' \<in> set t);
          value = drop (Suc (length name)) t
      in (\<not> eq \<or> arg_ok VALUE value) \<and>
         (name \<in> set (sp_flags spec) \<or>
          (sp_combine spec \<and> \<not> starts_with ''--'' t \<and> \<not> eq \<and>
           list_all (\<lambda>c. [CHR ''-'', c] \<in> set (sp_flags spec)) (tl t))))"

fun check_args :: "spec \<Rightarrow> nat \<Rightarrow> string list \<Rightarrow> string" where
  "check_args spec n [] = []"
| "check_args spec n (t # rest) =
     (if is_option t then (if option_ok spec t then check_args spec n rest else t)
      else (case sp_args spec of
          None \<Rightarrow> t
        | Some p \<Rightarrow> if Suc n > sp_max_args spec \<or> \<not> arg_ok p t then t
                    else check_args spec (Suc n) rest))"

definition ip_token_bad :: "string \<Rightarrow> bool" where
  "ip_token_bad t = (starts_with ''-'' t \<or> \<not> arg_ok VALUE t \<or> list_ex (\<lambda>v. starts_with t v) IP_WRITE_VERBS)"

definition gate_ip :: "string list \<Rightarrow> string" where
  "gate_ip rest =
     (case dropWhile (\<lambda>t. t \<in> set IP_GLOBAL) rest of
        [] \<Rightarrow> ''(no object)''
      | obj # args \<Rightarrow>
          if obj \<notin> set IP_OBJECTS then obj
          else let args = (case args of a # as \<Rightarrow> if a \<in> set IP_SHOW then as else args | [] \<Rightarrow> []) in
            (case find ip_token_bad args of None \<Rightarrow> [] | Some t \<Rightarrow> t))"

definition forbidden_parts :: "string \<Rightarrow> string list" where
  "forbidden_parts npath = sorted_words (filter (\<lambda>c. c \<in> set CAT_FORBIDDEN_PARTS) (split_char (CHR ''/'') npath))"

definition gate_path :: "string \<Rightarrow> string option" where
  "gate_path path =
     (if starts_with ''-'' path
      then Some (''node_exec: `cat` takes plain paths, not options ('' @ py_repr path @ '').'')
      else if ''.'' \<in> set (split_char (CHR ''/'') path) \<or> ''..'' \<in> set (split_char (CHR ''/'') path)
      then Some (''node_exec: `cat` takes paths without `.` or `..` components (refused '' @ py_repr path @ '').'')
      else let npath = normpath path in
        if \<not> list_ex (\<lambda>r. starts_with r npath) CAT_ROOTS
        then Some (''node_exec: `cat` is limited to '' @ py_join '' and '' CAT_ROOTS @ '' on a node '' @
          ''(refused '' @ py_repr path @ ''). Those hold the NIC/GPU/CPU counters this probe '' @
          ''is for; read_file reads ordinary files, under its own allowed roots.'')
        else (case forbidden_parts npath of
            [] \<Rightarrow> None
          | bad # _ \<Rightarrow> Some (''node_exec: `cat` refused '' @ py_repr path @ '': '' @ py_repr bad @
              '' leads out of '' @ ''the counters (to the node'' @ [sq] @ ''s own filesystem or another process'' @
              [sq] @ ''s '' @ ''memory, environment or arguments).'')))"

fun first_refusal :: "('a \<Rightarrow> string option) \<Rightarrow> 'a list \<Rightarrow> string option" where
  "first_refusal f [] = None"
| "first_refusal f (x # xs) = (case f x of None \<Rightarrow> first_refusal f xs | Some m \<Rightarrow> Some m)"

definition gate_cat :: "string list \<Rightarrow> string option" where
  "gate_cat rest = (if rest = [] then Some ''node_exec: `cat` needs a file path.''
     else first_refusal gate_path rest)"

definition known_binaries :: "string list" where
  "known_binaries = sorted_words (map (fst \<circ> fst) SPECS @ [''cat'', ''ip''])"

definition not_a_form :: "string \<Rightarrow> string option \<Rightarrow> string list \<Rightarrow> string" where
  "not_a_form binary sub tokens =
     (if binary \<in> set known_binaries
      then ''node_exec: `'' @ binary @ (case sub of None \<Rightarrow> [] | Some s \<Rightarrow> if s = [] then [] else '' '' @ s) @ ''` is not one of its '' @
        ''read-only forms ('' @ usage binary @ ''). Rejected: '' @ py_repr (py_join '' '' tokens)
      else ''node_exec: '' @ py_repr binary @ '' is not in the read-only allowlist '' @
        ''('' @ py_join '', '' known_binaries @ ''; called by bare name, not by path). '' @
        ''Use a diagnostic (read-only) command.'')"

definition bad_argument :: "string \<Rightarrow> string \<Rightarrow> string list \<Rightarrow> string option" where
  "bad_argument binary bad tokens =
     (if bad = [] then None
      else Some (''node_exec: '' @ py_repr bad @ '' is not a read-only argument of '' @ binary @ '' here, so the '' @
        ''command is refused. Read-only forms: '' @ usage binary @ ''. '' @
        ''Rejected: '' @ py_repr (py_join '' '' tokens)))"

text \<open>The subcommand of a binary that has them, and the arguments after it.\<close>

definition subcommand :: "string \<Rightarrow> string list \<Rightarrow> string option \<times> string list" where
  "subcommand binary rest =
     (case rest of
        s # args \<Rightarrow> if binary \<in> set HAS_SUBCOMMAND \<and> \<not> starts_with ''-'' s then (Some s, args) else (None, rest)
      | [] \<Rightarrow> (None, []))"

definition gate :: "string list \<Rightarrow> string option" where
  "gate tokens =
     (let binary = hd tokens; rest = tl tokens in
      if binary = ''cat'' then gate_cat rest
      else if binary = ''ip'' then bad_argument binary (gate_ip rest) tokens
      else (case subcommand binary rest of (sub, args) \<Rightarrow>
        (case map_of SPECS (binary, sub) of
           None \<Rightarrow> Some (not_a_form binary sub tokens)
         | Some spec \<Rightarrow> bad_argument binary (check_args spec 0 args) tokens)))"

section \<open>The tool\<close>

definition SSH_LAYER_ERROR :: string where "SSH_LAYER_ERROR = ''SSH connection failed''"

definition is_ssh_failure :: "string \<Rightarrow> bool" where
  "is_ssh_failure output = starts_with SSH_LAYER_ERROR output"

text \<open>What is sent to the node, or the refusal.\<close>

definition node_command :: "string \<Rightarrow> string + string" where
  "node_command command =
     (let cmd = py_strip command in
      if cmd = [] then Inl ''node_exec: empty command.''
      else if list_ex (\<lambda>c. c \<in> set SHELL_META) cmd
      then Inl (''node_exec: shell operators (; | & ` $() <> ) are not allowed '' @ u_dash @ '' run a '' @
        ''single read-only command and read its full output. '' @ ''Rejected: '' @ py_repr command)
      else (case shlex_split cmd of
          Inl e \<Rightarrow> Inl (''node_exec: could not parse command ('' @ exc_str e @ ''): '' @ py_repr command)
        | Inr tokens \<Rightarrow>
            if tokens = [] then Inl ''node_exec: empty command.''
            else (case gate tokens of
                Some refusal \<Rightarrow> Inl refusal
              | None \<Rightarrow> Inr (shlex_join tokens))))"

definition node_exec :: "(string \<Rightarrow> string \<Rightarrow> bool \<times> string) \<Rightarrow> string \<Rightarrow> string \<Rightarrow> string \<Rightarrow> string" where
  "node_exec run user node_ip command =
     (case node_command command of
        Inl refusal \<Rightarrow> refusal
      | Inr remote \<Rightarrow>
          let cmd = py_strip command; (success, output) = run node_ip remote in
          if \<not> success then
            (if is_ssh_failure output
             then ''[node '' @ node_ip @ ''] `'' @ cmd @ ''` did NOT run '' @ u_dash @ '' '' @ output @
               '' Nothing was observed about the node.''
             else ''[node '' @ node_ip @ ''] `'' @ cmd @ ''` failed (user '' @ user @ ''): '' @ output)
          else if output \<noteq> [] then ''[node '' @ node_ip @ ''] `'' @ cmd @ ''`:'' @ nl @ output
          else ''[node '' @ node_ip @ ''] `'' @ cmd @ ''`: (no output)'')"

section \<open>What the tools of a node do\<close>

text \<open>
  What the gate is for, written from the manual pages of the tools and from \<open>proc(5)\<close>, without the
  gate's own tables. For each diagnostic the letters of options that change something, reach the
  hardware or write a file, the long options that do, which getopt also takes shortened, and the
  options of tools that read whole words only. A form that is not listed is not known to observe.
\<close>

definition DIAGNOSTICS :: "(string \<times> string \<times> string list \<times> string list) list" where
  "DIAGNOSTICS =
   [(''lscpu'', [], [], []), (''nproc'', [], [], []), (''free'', [], [], []), (''uptime'', [], [], []),
    (''df'', [], [''sync''], []), (''uname'', [], [], []), (''getconf'', [], [], []), (''cat'', [], [], []), (''ip'', [], [], []),
    (''lspci'', ''AHMO'', [], []),
    (''lstopo-no-graphics'', ''f'', [''force'', ''output-format'', ''of''], []),
    (''nvcc'', ''co'', [''compile'', ''output-file'', ''run''], []),
    (''numactl'', ''ipmNClaftLDrT'', [''interleave'', ''preferred'', ''membind'', ''cpunodebind'', ''physcpubind'',
       ''localalloc'', ''touch'', ''file'', ''shm'', ''shmid'', ''length'', ''offset'', ''huge'', ''dump''], []),
    (''ss'', ''KD'', [''kill'', ''diag''], []),
    (''ethtool'', ''sACGKLNUXfpErtWQ'', [''change'', ''pause'', ''coalesce'', ''set-ring'', ''features'', ''offload'', ''set-channels'',
       ''config-nfc'', ''config-ntuple'', ''rxfh'', ''set-rxfh-indir'', ''flash'', ''identify'', ''change-eeprom'', ''negotiate'',
       ''test'', ''set-dump'', ''reset'', ''set-priv-flags'', ''set-eee'', ''set-fec'', ''set-phy-tunable'', ''set-tunable'',
       ''set-module'', ''per-queue''], []),
    (''sensors'', ''s'', [''set''], []),
    (''nvidia-smi'', [], [], [''-f'', ''--filename'', ''-pm'', ''--persistence-mode'', ''-e'', ''--ecc-config'', ''-p'', ''--reset-ecc-errors'',
       ''-c'', ''--compute-mode'', ''--gom'', ''-r'', ''--gpu-reset'', ''-vm'', ''--virt-mode'', ''-lgc'', ''--lock-gpu-clocks'',
       ''-rgc'', ''--reset-gpu-clocks'', ''-lmc'', ''--lock-memory-clocks'', ''-rmc'', ''--reset-memory-clocks'',
       ''-ac'', ''--applications-clocks'', ''-rac'', ''--reset-applications-clocks'', ''-pl'', ''--power-limit'', ''-cc'', ''--cuda-clocks'',
       ''-am'', ''--accounting-mode'', ''-caa'', ''--clear-accounted-apps'', ''-mig'', ''--multi-instance-gpu'',
       ''-gtt'', ''--gpu-target-temp'', ''-acp'', ''--auto-boost-default'', ''--auto-boost-permission'']),
    (''nvidia-smi topo'', [], [], []),
    (''nvidia-smi nvlink'', [], [], [''-sc'', ''--setcontrol'', ''-r'', ''--resetcounters'', ''-re'', ''--reseterrorcounters'', ''-sLowPwrThres'']),
    (''nvidia-smi dmon'', [], [], [''-f'', ''--filename'']), (''nvidia-smi pmon'', [], [], [''-f'', ''--filename'']),
    (''dcgmi discovery'', [], [], []), (''dcgmi dmon'', [], [], []), (''dcgmi topo'', [], [], []),
    (''dcgmi stats'', [], [], [''-e'', ''--enable'', ''-d'', ''--disable'', ''-s'', ''--jstart'', ''-x'', ''--jstop'', ''-r'', ''--jremove'',
       ''-a'', ''--jremoveall''])]"

text \<open>These take a word for a program to run or a file to write.\<close>

definition USES_WORDS :: "string list" where "USES_WORDS = [''numactl'', ''lstopo-no-graphics'', ''nvcc'']"

text \<open>
  The verbs by which \<open>ip\<close> changes the network. It takes any beginning of them, and \<open>chg\<close> for change;
  with \<open>-batch\<close>, of which it also takes a beginning, it reads its commands from a file.
\<close>

definition IP_CHANGES :: "string list" where
  "IP_CHANGES = [''add'', ''append'', ''change'', ''delete'', ''flush'', ''prepend'', ''replace'', ''restore'', ''save'', ''set'', ''chg'']"

definition ip_changes :: "string list \<Rightarrow> bool" where
  "ip_changes words =
     (list_ex (\<lambda>w. 2 \<le> length w \<and> starts_with w ''-batch'') words \<or>
      list_ex (\<lambda>w. w \<noteq> [] \<and> list_ex (\<lambda>v. starts_with w v) IP_CHANGES) (drop 1 (dropWhile (\<lambda>w. starts_with ''-'' w) words)))"

definition changing_option :: "string \<Rightarrow> string list \<Rightarrow> string list \<Rightarrow> string \<Rightarrow> bool" where
  "changing_option letters longs whole w =
     (let name = takeWhile (\<lambda>c. c \<noteq> CHR ''='') w in
      starts_with ''-'' w \<and>
      (name \<in> set whole \<or>
       (if starts_with ''--'' w then list_ex (\<lambda>v. starts_with (drop 2 name) v) longs
        else list_ex (\<lambda>c. c \<in> set letters) (tl name))))"

definition form :: "string list \<Rightarrow> string \<times> string list" where
  "form tokens =
     (case tokens of
        b # s # ws \<Rightarrow> if b \<in> {''nvidia-smi'', ''dcgmi''} \<and> \<not> starts_with ''-'' s then (b @ '' '' @ s, ws) else (b, s # ws)
      | [b] \<Rightarrow> (b, [])
      | [] \<Rightarrow> ([], []))"

definition observes :: "string list \<Rightarrow> bool" where
  "observes tokens =
     (case form tokens of (f, ws) \<Rightarrow>
        (case map_of DIAGNOSTICS f of
           None \<Rightarrow> False
         | Some (letters, longs, whole) \<Rightarrow>
             list_all (\<lambda>w. \<not> changing_option letters longs whole w) ws \<and>
             (f \<in> set USES_WORDS \<longrightarrow> list_all (\<lambda>w. starts_with ''-'' w) ws) \<and>
             (f = ''ip'' \<longrightarrow> \<not> ip_changes ws)))"

text \<open>
  How the node finds the file of a path: component by component, from the root or from the home
  directory, through the links it meets. A link names the real path it leads to.
\<close>

inductive leads :: "(string list \<Rightarrow> string list option) \<Rightarrow> string list \<Rightarrow> string list \<Rightarrow> string list \<Rightarrow> bool"
  for link :: "string list \<Rightarrow> string list option" where
  arrived: "leads link here [] here"
| stay: "c = [] \<or> c = ''.'' \<Longrightarrow> leads link here rest file \<Longrightarrow> leads link here (c # rest) file"
| up: "leads link (butlast here) rest file \<Longrightarrow> leads link here (''..'' # rest) file"
| down: "c \<notin> {[], ''.'', ''..''} \<Longrightarrow> link (here @ [c]) = None \<Longrightarrow> leads link (here @ [c]) rest file \<Longrightarrow>
    leads link here (c # rest) file"
| follow: "c \<notin> {[], ''.'', ''..''} \<Longrightarrow> link (here @ [c]) = Some target \<Longrightarrow> leads link [] (target @ rest) file \<Longrightarrow>
    leads link here (c # rest) file"

inductive_simps leads_simps: "leads link here [] file" "leads link here (c # rest) file"

definition opens :: "(string list \<Rightarrow> string list option) \<Rightarrow> string list \<Rightarrow> string \<Rightarrow> string list \<Rightarrow> bool" where
  "opens link home p file = leads link (if starts_with ''/'' p then [] else home) (split_char (CHR ''/'') p) file"

text \<open>
  The names below which /proc and /sys lead to the node's own file system (the root, working
  directory, program, open and mapped files of a process) or hold what is another's: its
  environment, arguments and memory, the kernel's memory and log, the firmware's variables.
\<close>

definition PRIVATE :: "string list" where
  "PRIVATE = [''root'', ''cwd'', ''exe'', ''fd'', ''fdinfo'', ''map_files'', ''environ'', ''cmdline'', ''mem'', ''pagemap'',
     ''kcore'', ''kmem'', ''kmsg'', ''efivars'']"

definition counters :: "string list \<Rightarrow> bool" where
  "counters file = (file \<noteq> [] \<and> hd file \<in> {''sys'', ''proc''} \<and> set file \<inter> set PRIVATE = {})"

text \<open>What \<open>proc(5)\<close> says of the links: outside those names they lead from counters to counters.\<close>

definition links_stay :: "(string list \<Rightarrow> string list option) \<Rightarrow> bool" where
  "links_stay link = (\<forall>p t. counters p \<longrightarrow> link p = Some t \<longrightarrow> counters t \<and> set t \<inter> {[], ''.'', ''..''} = {})"

section \<open>What the gate lets through\<close>

text \<open>A path the gate accepts, as text.\<close>

definition path_parts :: "string \<Rightarrow> string list" where
  "path_parts p = filter (\<lambda>c. c \<noteq> []) (split_char (CHR ''/'') p)"

definition counter_file :: "string \<Rightarrow> bool" where
  "counter_file p = (starts_with ''/'' p \<and>
     (\<exists>root parts. path_parts p = root # parts \<and> root \<in> {''sys'', ''proc''} \<and>
        ''.'' \<notin> set parts \<and> ''..'' \<notin> set parts \<and> set parts \<inter> set CAT_FORBIDDEN_PARTS = {}))"

lemma norm_plain:
  "''.'' \<notin> set ps \<Longrightarrow> ''..'' \<notin> set ps \<Longrightarrow> foldl (norm_step b) acc ps = acc @ filter (\<lambda>c. c \<noteq> []) ps"
  by (induction ps arbitrary: acc) (auto simp: norm_step_def)

lemma rooted_parts:
  assumes "starts_with (CHR ''/'' # r @ ''/'') (replicate n (CHR ''/'') @ py_join ''/'' ps)"
    and "\<forall>p \<in> set ps. CHR ''/'' \<notin> set p \<and> p \<noteq> []" and "CHR ''/'' \<notin> set r" "r \<noteq> []" and "n \<le> 2"
  shows "n = 1 \<and> (\<exists>qs. ps = r # qs \<and> split_char (CHR ''/'') (replicate n (CHR ''/'') @ py_join ''/'' ps) = [] # ps)"
proof -
  obtain t where t: "replicate n (CHR ''/'') @ py_join ''/'' ps = CHR ''/'' # r @ CHR ''/'' # t"
    using assms(1) by (auto simp: starts_with_prefix prefix_def)
  have ps: "ps \<noteq> []"
  proof
    assume "ps = []"
    then have "set (CHR ''/'' # r @ CHR ''/'' # t) \<subseteq> {CHR ''/''}" using t by (metis append_Nil2 py_join.simps(1) set_replicate_conv_if empty_subsetI order_refl)
    then show False using assms(3,4) by (cases r) auto
  qed
  then obtain p qs where p: "ps = p # qs" by (cases ps) auto
  obtain d ds where d: "p = d # ds" using assms(2) p by (cases p) auto
  have j: "\<exists>u. py_join ''/'' ps = d # u" using p d by (cases qs) auto
  have dn: "d \<noteq> CHR ''/''" using assms(2) p d by auto
  obtain e es where r: "r = e # es" using assms(4) by (cases r) auto
  have en: "e \<noteq> CHR ''/''" using assms(3) r by auto
  consider "n = 0" | "n = 1" | "n = 2" using assms(5) by linarith
  then have n: "n = 1" using t j dn en r by cases (auto simp: numeral_2_eq_2)
  then have "py_join ''/'' ps = r @ CHR ''/'' # t" using t by simp
  moreover have sp: "split_char (CHR ''/'') (py_join ''/'' ps) = ps" using ps assms(2) split_char_join by auto
  moreover have "split_char (CHR ''/'') (r @ CHR ''/'' # t) = r # split_char (CHR ''/'') t"
    using assms(3) by (induction r) auto
  ultimately show ?thesis using n by auto
qed

lemma gate_path_counter: "gate_path p = None \<Longrightarrow> counter_file p"
proof -
  assume g: "gate_path p = None"
  let ?n = "initial_slashes p" let ?np = "replicate ?n (CHR ''/'') @ py_join ''/'' (path_parts p)"
  have dots: "''.'' \<notin> set (split_char (CHR ''/'') p)" "''..'' \<notin> set (split_char (CHR ''/'') p)"
    using g by (auto simp: gate_path_def split: if_splits)
  from g have roots: "list_ex (\<lambda>r. starts_with r (normpath p)) CAT_ROOTS" and clean: "forbidden_parts (normpath p) = []"
    by (auto simp: gate_path_def Let_def split: if_splits list.splits)
  have np: "normpath p = ?np"
    using roots dots by (auto simp: normpath_def Let_def norm_plain path_parts_def CAT_ROOTS_def starts_with_def split: if_splits)
  have parts: "\<forall>q \<in> set (path_parts p). CHR ''/'' \<notin> set q \<and> q \<noteq> []"
    by (auto simp: path_parts_def dest: split_char_parts)
  have n2: "?n \<le> 2" by (simp add: initial_slashes_def)
  obtain r where r: "r \<in> {''sys'', ''proc''}" "starts_with (CHR ''/'' # r @ ''/'') ?np"
    using roots that [of "''sys''"] that [of "''proc''"] unfolding np by (auto simp: CAT_ROOTS_def)
  from rooted_parts [OF r(2) parts _ _ n2] r(1) obtain qs where qs: "?n = 1" "path_parts p = r # qs"
      "split_char (CHR ''/'') ?np = [] # path_parts p" by auto
  have "starts_with ''/'' p" using qs(1) by (auto simp: initial_slashes_def split: if_splits)
  moreover have "set (path_parts p) \<inter> set CAT_FORBIDDEN_PARTS = {}"
  proof -
    have "set (forbidden_parts (normpath p)) = set (split_char (CHR ''/'') (normpath p)) \<inter> set CAT_FORBIDDEN_PARTS"
      by (auto simp: forbidden_parts_def sorted_words_def)
    then show ?thesis using clean np qs(3) by auto
  qed
  moreover have "''.'' \<notin> set (path_parts p)" "''..'' \<notin> set (path_parts p)" using dots by (auto simp: path_parts_def)
  ultimately show ?thesis using qs(2) r(1) by (auto simp: counter_file_def)
qed

lemma first_refusal_None: "first_refusal f xs = None \<longleftrightarrow> (\<forall>x \<in> set xs. f x = None)"
  by (induction xs) (auto split: option.splits)

lemma leads_counters:
  assumes "leads link here rest file" and "links_stay link"
    and "counters (here @ filter (\<lambda>c. c \<noteq> []) rest)" and "''.'' \<notin> set rest" and "''..'' \<notin> set rest"
  shows "counters file"
  using assms
proof (induction rule: leads.induct)
  case (follow c here target rest f)
  have c: "c \<noteq> []" using follow.hyps(1) by simp
  then have "counters (here @ [c])" using follow.prems(2) by (cases here) (auto simp: counters_def)
  then have t: "counters target" "set target \<inter> {[], ''.'', ''..''} = {}"
    using follow.prems(1) follow.hyps(2) unfolding links_stay_def by blast+
  then have "filter (\<lambda>c. c \<noteq> []) target = target" by (auto simp: filter_id_conv)
  then have "counters ([] @ filter (\<lambda>c. c \<noteq> []) (target @ rest))"
    using t(1) follow.prems(2) c by (auto simp: counters_def)
  then show ?case using follow.IH [OF follow.prems(1)] t(2) follow.prems(3,4) by auto
qed auto

lemma counter_file_opens:
  assumes "counter_file p" and "links_stay link" and "opens link home p file"
  shows "counters file"
proof -
  have parts: "set CAT_FORBIDDEN_PARTS = set PRIVATE" by (simp add: CAT_FORBIDDEN_PARTS_def PRIVATE_def)
  have "counters (path_parts p)"
    using assms(1) by (auto simp: counter_file_def counters_def parts) (auto simp: PRIVATE_def)
  moreover have "''.'' \<notin> set (path_parts p)" "''..'' \<notin> set (path_parts p)" using assms(1) by (auto simp: counter_file_def)
  moreover have "leads link [] (split_char (CHR ''/'') p) file"
    using assms(1,3) by (simp add: counter_file_def opens_def)
  ultimately show ?thesis using leads_counters [OF _ assms(2)] by (fastforce simp: path_parts_def)
qed

lemma gate_cat_counters:
  "gate_cat paths = None \<Longrightarrow> links_stay link \<Longrightarrow> p \<in> set paths \<Longrightarrow> opens link home p file \<Longrightarrow> counters file"
  by (auto simp: gate_cat_def first_refusal_None intro: gate_path_counter counter_file_opens split: if_splits)

lemma gate_ip_reads:
  assumes "gate_ip rest = []" and "[] \<notin> set rest" and "''chg'' \<notin> set rest"
  shows "\<not> ip_changes rest"
proof -
  let ?globals = "takeWhile (\<lambda>t. t \<in> set IP_GLOBAL) rest"
  obtain obj args where d: "dropWhile (\<lambda>t. t \<in> set IP_GLOBAL) rest = obj # args"
    using assms(1) by (cases "dropWhile (\<lambda>t. t \<in> set IP_GLOBAL) rest") (auto simp: gate_ip_def)
  then have rest: "rest = ?globals @ obj # args" by (metis takeWhile_dropWhile_id)
  have ne: "[] \<notin> set args" "obj \<noteq> []" "''chg'' \<notin> set args"
    using assms(2,3) rest by (metis UnCI list.set_intros set_append)+
  have obj: "obj \<in> set IP_OBJECTS" using assms(1) d ne(2) by (auto simp: gate_ip_def split: if_splits)
  have glob: "g \<in> set ?globals \<Longrightarrow> g \<in> set IP_GLOBAL" for g by (auto dest: set_takeWhileD)
  have dash: "list_all (\<lambda>g. starts_with ''-'' g \<and> \<not> starts_with g ''-batch'') IP_GLOBAL"
    "list_all (\<lambda>t. \<not> starts_with ''-'' t) IP_OBJECTS" "list_all (\<lambda>t. \<not> starts_with ''-'' t) IP_SHOW"
    by code_simp+
  have plain: "t \<in> set args \<Longrightarrow> t \<in> set IP_SHOW \<or> \<not> ip_token_bad t" for t
  proof -
    let ?more = "case args of a # as \<Rightarrow> if a \<in> set IP_SHOW then as else args | [] \<Rightarrow> []"
    have "(case find ip_token_bad ?more of None \<Rightarrow> [] | Some t \<Rightarrow> t) = []"
      using assms(1) d obj by (simp add: gate_ip_def)
    moreover have "find ip_token_bad ?more \<noteq> Some []"
      using ne(1) by (auto dest!: find_SomeD split: list.splits if_splits)
    ultimately have "\<forall>t \<in> set ?more. \<not> ip_token_bad t" by (auto simp: find_None_iff split: option.splits)
    moreover have "t \<in> set args \<Longrightarrow> t \<in> set IP_SHOW \<or> t \<in> set ?more" by (cases args) auto
    ultimately show "t \<in> set args \<Longrightarrow> t \<in> set IP_SHOW \<or> \<not> ip_token_bad t" by blast
  qed
  have verbs: "list_all (\<lambda>v. v = ''chg'' \<or> v \<in> set IP_WRITE_VERBS) IP_CHANGES"
    "list_all (\<lambda>t. list_all (\<lambda>v. \<not> starts_with t v) IP_CHANGES) IP_SHOW"
    "list_ex (\<lambda>v. starts_with ''c'' v) IP_WRITE_VERBS" "list_ex (\<lambda>v. starts_with ''ch'' v) IP_WRITE_VERBS" by code_simp+
  have chg: "starts_with t ''chg'' \<Longrightarrow> t \<in> {[], ''c'', ''ch'', ''chg''}" for t :: string
    by (auto simp: starts_with_prefix prefix_Cons)
  have "\<not> starts_with t v" if "t \<in> set args" "v \<in> set IP_CHANGES" for t v
  proof
    assume s: "starts_with t v"
    have "\<not> ip_token_bad t" using plain [OF that(1)] verbs(2) that(2) s by (auto simp: list_all_iff)
    then have w: "\<not> list_ex (\<lambda>v. starts_with t v) IP_WRITE_VERBS" by (simp add: ip_token_bad_def)
    then have "v = ''chg''" using verbs(1) that(2) s by (auto simp: list_all_iff list_ex_iff)
    then show False using chg [of t] s w verbs(3,4) that(1) ne(1,3) by auto
  qed
  moreover have "dropWhile (\<lambda>t. starts_with ''-'' t) rest = obj # args"
  proof -
    have "\<forall>g \<in> set ?globals. starts_with ''-'' g" using glob dash(1) by (auto simp: list_all_iff)
    then have "dropWhile (\<lambda>t. starts_with ''-'' t) (?globals @ obj # args) = obj # args"
      using obj dash(2) by (auto simp: list_all_iff dropWhile_append2)
    then show ?thesis using rest by metis
  qed
  moreover have "\<not> (2 \<le> length t \<and> starts_with t ''-batch'')" if "t \<in> set rest" for t
  proof (cases "t \<in> set ?globals")
    case True
    then show ?thesis using glob dash(1) by (auto simp: list_all_iff)
  next
    case False
    then have "t \<in> set (obj # args)" using that rest by (metis UnE set_append)
    then have "\<not> starts_with ''-'' t" using obj dash(2,3) plain by (auto simp: list_all_iff ip_token_bad_def)
    then show ?thesis by (cases t) (auto simp: starts_with_prefix prefix_Cons)
  qed
  ultimately show ?thesis by (auto simp: ip_changes_def list_ex_iff)
qed

lemma subcommand_split:
  "subcommand binary rest = (sub, args) \<Longrightarrow> (sub = None \<and> args = rest) \<or> (\<exists>s. sub = Some s \<and> rest = s # args)"
  by (auto simp: subcommand_def split: list.splits if_splits)

text \<open>The table against the manual pages: no option of a form is one that changes something, a
form whose short options may be bundled has none as a letter, and where words are programs to run
or files to write the form takes none.\<close>

definition form_name :: "string \<Rightarrow> string option \<Rightarrow> string" where
  "form_name binary sub = binary @ (case sub of None \<Rightarrow> [] | Some s \<Rightarrow> '' '' @ s)"

definition spec_observes :: "(string \<times> string option) \<times> spec \<Rightarrow> bool" where
  "spec_observes e = (case e of ((binary, sub), spec) \<Rightarrow>
     (case map_of DIAGNOSTICS (form_name binary sub) of
        None \<Rightarrow> False
      | Some (letters, longs, whole) \<Rightarrow>
          list_all (\<lambda>w. \<not> changing_option letters longs whole w) (sp_flags spec) \<and>
          (sp_combine spec \<longrightarrow> whole = [] \<and> list_all (\<lambda>c. [CHR ''-'', c] \<notin> set (sp_flags spec)) letters) \<and>
          ''-'' \<notin> set whole \<and> (form_name binary sub \<in> set USES_WORDS \<longrightarrow> sp_args spec = None) \<and>
          (sub = None \<or> binary \<in> {''nvidia-smi'', ''dcgmi''}) \<and> form_name binary sub \<noteq> ''ip''))"

text \<open>The words of a text in one pass, for evaluation.\<close>

fun words_go :: "string \<Rightarrow> string \<Rightarrow> string list" where
  "words_go acc [] = (if acc = [] then [] else [rev acc])"
| "words_go acc (c # cs) = (if is_ws c then (if acc = [] then words_go [] cs else rev acc # words_go [] cs) else words_go (c # acc) cs)"

lemma words_go_acc:
  "acc \<noteq> [] \<Longrightarrow> words_go acc s = (rev acc @ takeWhile (\<lambda>x. \<not> is_ws x) s) # words_go [] (dropWhile (\<lambda>x. \<not> is_ws x) s)"
  by (induction s arbitrary: acc) auto

lemma words_go_ws: "words_go [] s = words_go [] (dropWhile is_ws s)"
  by (induction s) auto

lemma py_words_go: "py_words s = words_go [] s"
proof (induction s rule: py_words.induct)
  case (1 s)
  show ?case
  proof (cases "dropWhile is_ws s")
    case Nil
    then show ?thesis by (simp only: py_words.simps [of s] words_go_ws [of s] Nil list.case words_go.simps simp_thms if_True)
  next
    case (Cons c cs)
    then have "\<not> is_ws c" by (metis hd_dropWhile list.discI list.sel(1))
    then show ?thesis using Cons 1 [OF Cons]
      by (simp add: py_words.simps [of s] words_go_ws [of s] words_go_acc)
  qed
qed

lemmas evaluate_specs = spec_of_def py_words_go is_ws_def spec_observes_def DIAGNOSTICS_def form_name_def
  USES_WORDS_def changing_option_def starts_with_def

lemmas split_specs = SPECS_def take_Cons_numeral drop_Cons_numeral pred_numeral_simps BitM.simps take_0 drop_0
  take_Suc_Cons drop_Suc_Cons list.pred_inject simp_thms

lemma specs_observe_1: "list_all spec_observes (take 6 SPECS)"
  by (simp only: split_specs) (simp add: evaluate_specs)

lemma specs_observe_2: "list_all spec_observes (take 6 (drop 6 SPECS))"
  by (simp only: split_specs) (simp add: evaluate_specs)

lemma specs_observe_3: "list_all spec_observes (take 8 (drop 12 SPECS))"
  by (simp only: split_specs) (simp add: evaluate_specs)

lemma specs_observe_4: "list_all spec_observes (drop 20 SPECS)"
  by (simp only: split_specs) (simp add: evaluate_specs)

lemma specs_observe: "list_all spec_observes SPECS"
proof -
  have "SPECS = take 6 SPECS @ take 6 (drop 6 SPECS) @ take 8 (drop 12 SPECS) @ drop 20 SPECS"
    by (simp add: SPECS_def)
  then show ?thesis
    using specs_observe_1 specs_observe_2 specs_observe_3 specs_observe_4 by (metis list_all_append)
qed

lemma starts_dash:
  "starts_with ''-'' w \<longleftrightarrow> (\<exists>r. w = CHR ''-'' # r)" "starts_with ''--'' w \<longleftrightarrow> (\<exists>r. w = CHR ''-'' # CHR ''-'' # r)"
  by (auto simp: starts_with_prefix prefix_def)

lemma changing_name:
  "changing_option letters longs whole (takeWhile (\<lambda>c. c \<noteq> CHR ''='') w) = changing_option letters longs whole w"
proof -
  have "starts_with ''-'' (takeWhile (\<lambda>c. c \<noteq> CHR ''='') w) = starts_with ''-'' w"
    by (cases w) (auto simp: starts_dash)
  moreover have "starts_with ''--'' (takeWhile (\<lambda>c. c \<noteq> CHR ''='') w) = starts_with ''--'' w"
    by (cases w; cases "tl w") (auto simp: starts_dash)
  ultimately show ?thesis by (simp add: changing_option_def Let_def)
qed

lemma option_observes:
  assumes "option_ok spec w" and "list_all (\<lambda>w. \<not> changing_option letters longs whole w) (sp_flags spec)"
    and "sp_combine spec \<longrightarrow> whole = [] \<and> list_all (\<lambda>c. [CHR ''-'', c] \<notin> set (sp_flags spec)) letters"
  shows "\<not> changing_option letters longs whole w"
proof (cases "takeWhile (\<lambda>c. c \<noteq> CHR ''='') w \<in> set (sp_flags spec)")
  case True
  then show ?thesis using assms(2) changing_name [of letters longs whole w] by (auto simp: list_all_iff)
next
  case False
  then have c: "sp_combine spec" "\<not> starts_with ''--'' w" "CHR ''='' \<notin> set w"
      "list_all (\<lambda>c. [CHR ''-'', c] \<in> set (sp_flags spec)) (tl w)"
    using assms(1) by (auto simp: option_ok_def Let_def)
  have "whole = []" "\<not> list_ex (\<lambda>c. c \<in> set letters) (tl w)"
    using c(1,4) assms(3) by (auto simp: list_all_iff list_ex_iff)
  moreover have n: "takeWhile (\<lambda>c. c \<noteq> CHR ''='') w = w" using c(3) by (auto simp: takeWhile_eq_all_conv)
  ultimately show ?thesis using c(2) unfolding changing_option_def Let_def n by simp
qed

lemma changing_dash: "changing_option letters longs whole ''-'' = (''-'' \<in> set whole)"
  unfolding changing_option_def Let_def by (simp add: starts_with_def)

lemma check_args_words:
  "check_args spec n ts = [] \<Longrightarrow> [] \<notin> set ts \<Longrightarrow> t \<in> set ts \<Longrightarrow>
     (is_option t \<and> option_ok spec t) \<or> (\<not> is_option t \<and> sp_args spec \<noteq> None)"
  by (induction spec n ts rule: check_args.induct) (auto split: if_splits option.splits)

lemma table_observes:
  assumes "map_of SPECS (binary, sub) = Some spec" and "check_args spec 0 args = []" and "[] \<notin> set args"
    and "form tokens = (form_name binary sub, args)"
  shows "observes tokens"
proof -
  have "spec_observes ((binary, sub), spec)"
    using specs_observe map_of_SomeD [OF assms(1)] by (auto simp: list_all_iff)
  then obtain letters longs whole where d: "map_of DIAGNOSTICS (form_name binary sub) = Some (letters, longs, whole)"
    and flags: "list_all (\<lambda>w. \<not> changing_option letters longs whole w) (sp_flags spec)"
      "sp_combine spec \<longrightarrow> whole = [] \<and> list_all (\<lambda>c. [CHR ''-'', c] \<notin> set (sp_flags spec)) letters"
    and no: "''-'' \<notin> set whole" "form_name binary sub \<in> set USES_WORDS \<longrightarrow> sp_args spec = None" "form_name binary sub \<noteq> ''ip''"
    by (auto simp: spec_observes_def split: option.splits)
  have "\<not> changing_option letters longs whole w" if "w \<in> set args" for w
  proof (cases "is_option w")
    case True
    then show ?thesis using check_args_words [OF assms(2,3) that] option_observes [OF _ flags] by simp
  next
    case False
    then have "w = ''-'' \<or> \<not> starts_with ''-'' w" by (auto simp: is_option_def)
    then show ?thesis
    proof
      assume "w = ''-''"
      then show ?thesis using no(1) by (simp only: changing_dash simp_thms)
    next
      assume "\<not> starts_with ''-'' w"
      then show ?thesis by (simp add: changing_option_def)
    qed
  qed
  moreover have "form_name binary sub \<in> set USES_WORDS \<longrightarrow> list_all (\<lambda>w. starts_with ''-'' w) args"
    using check_args_words [OF assms(2,3)] no(2) by (auto simp: list_all_iff is_option_def)
  ultimately show ?thesis using d no(3) assms(4) by (auto simp: observes_def list_all_iff)
qed


text \<open>C16: what reaches the node is read there as the words the gate looked at, and holds none of
the characters by which a shell would do more than run one command.\<close>

theorem sent_command_is_checked:
  assumes "node_command command = Inr remote"
  shows "(\<exists>tokens. shlex_split remote = Inr tokens \<and> shlex_split (py_strip command) = Inr tokens \<and>
      tokens \<noteq> [] \<and> gate tokens = None) \<and> set remote \<inter> set SHELL_META = {}"
proof -
  let ?cmd = "py_strip command"
  from assms obtain tokens where t: "shlex_split ?cmd = Inr tokens" "tokens \<noteq> []" "gate tokens = None"
      "remote = shlex_join tokens" and meta: "set ?cmd \<inter> set SHELL_META = {}"
    by (auto simp: node_command_def Let_def list_ex_iff split: if_splits sum.splits option.splits)
  have "CHR 0x5C \<notin> set ?cmd" using meta by (auto simp: SHELL_META_def bs_def)
  then have words: "w \<in> set tokens \<Longrightarrow> set w \<subseteq> set ?cmd" for w
    using lex_chars [of Blank "[]" ?cmd tokens] t(1) by (auto simp: shlex_split_def)
  have quote: "set (shlex_quote w) \<subseteq> set w \<union> {sq, CHR 0x22}" for w
    by (auto simp: shlex_quote_def)
  have join: "set (py_join sep ws) \<subseteq> set sep \<union> \<Union> (set ` set ws)" for sep ws
    by (induction sep ws rule: py_join.induct) auto
  have "set remote \<subseteq> set ?cmd \<union> {sq, CHR 0x22, CHR '' ''}"
    using join [of "'' ''" "map shlex_quote tokens"] words quote unfolding t(4) shlex_join_def by fastforce
  then have "set remote \<inter> set SHELL_META = {}"
    using meta by (auto simp: SHELL_META_def sq_def bs_def nl_def)
  moreover have "shlex_split remote = Inr tokens" unfolding t(4) by (rule split_join)
  ultimately show ?thesis using t by blast
qed

text \<open>C17: the checks answer with the first argument they refuse, and the empty text means none: so
an empty argument, which every form refuses, is taken for approval and nothing after it is looked
at. Any options may follow it.\<close>

theorem empty_argument_passes:
  assumes "map_of SPECS (binary, None) = Some spec" and "binary \<notin> set HAS_SUBCOMMAND"
    and "obj \<in> set IP_OBJECTS"
  shows "gate (binary # [] # anything) = None \<and> gate (''ip'' # obj # [] # anything) = None"
proof
  have "\<not> arg_ok p []" for p by (cases p) (auto simp: chars_ok_def)
  then have "check_args spec 0 ([] # anything) = []"
    by (auto simp: is_option_def starts_with_def split: option.splits)
  moreover have "map_of SPECS (''cat'', None) = None" "map_of SPECS (''ip'', None) = None"
    by (simp_all add: SPECS_def)
  then have "binary \<noteq> ''cat''" "binary \<noteq> ''ip''" using assms(1) by auto
  ultimately show "gate (binary # [] # anything) = None"
    using assms(1,2) by (simp add: gate_def subcommand_def bad_argument_def Let_def)
  have "obj \<notin> set IP_GLOBAL" using assms(3) by (auto simp: IP_OBJECTS_def IP_GLOBAL_def)
  moreover have "ip_token_bad []" "[] \<notin> set IP_SHOW" by (simp_all add: ip_token_bad_def chars_ok_def IP_SHOW_def)
  ultimately show "gate (''ip'' # obj # [] # anything) = None"
    using assms(3) by (simp add: gate_def gate_ip_def bad_argument_def Let_def)
qed

text \<open>The short form \<open>chg\<close>, which iproute2 takes for change, is no prefix of a listed verb.\<close>

lemma chg_passes: "gate [''ip'', ''addr'', ''chg'', ''10.0.0.1'', ''dev'', ''eth0''] = None"
  by code_simp

text \<open>The node of the witness: its device links are as in sysfs.\<close>

definition sysfs :: "string list \<Rightarrow> string list option" where
  "sysfs p = (if p = [''sys'', ''class'', ''net'', ''eth0'']
     then Some [''sys'', ''devices'', ''pci0000:00'', ''net'', ''eth0''] else None)"


lemma sent_command_is_checked_witness:
  "\<exists>remote. node_command ''cat '' = Inl ''node_exec: `cat` needs a file path.'' \<and>
     node_command (''cat  '' @ [sq] @ ''/proc/stat'' @ [sq]) = Inr remote \<and> shlex_split remote = Inr [''cat'', ''/proc/stat'']"
proof -
  have r: "node_command (''cat  '' @ [sq] @ ''/proc/stat'' @ [sq]) = Inr ''cat /proc/stat''"
      "shlex_split (py_strip (''cat  '' @ [sq] @ ''/proc/stat'' @ [sq])) = Inr [''cat'', ''/proc/stat'']"
      "node_command ''cat '' = Inl ''node_exec: `cat` needs a file path.''"
    by code_simp+
  from sent_command_is_checked [OF r(1)] have "shlex_split ''cat /proc/stat'' = Inr [''cat'', ''/proc/stat'']"
    using r(2) by auto
  with r show ?thesis by blast
qed

lemma empty_argument_passes_witness:
  "gate [''ss'', [], ''-K''] = None \<and> gate [''ip'', ''link'', [], ''-K''] = None"
proof -
  obtain spec where "map_of SPECS (''ss'', None) = Some spec" by (simp add: SPECS_def)
  from empty_argument_passes [OF this, of "''link''" "[''-K'']"] show ?thesis
    by (simp add: HAS_SUBCOMMAND_def IP_OBJECTS_def)
qed

end
