(* ===== verification/Regex.thy ===== *)
theory Regex
  imports Prelude
begin

text \<open>
  Python's backtracking matcher for the patterns the MCP server uses. A match is a position in the
  text (what is before it, reversed, what follows, and the groups captured so far) and the
  matcher lists the positions a pattern can end at, in the order Python tries them, so the first is
  the match \<open>re\<close> reports. Repetition is of a single character class, which is all the patterns need;
  an optional group is an alternative with the empty pattern. Character classes are those of ASCII.
\<close>

datatype regex =
    Empty
  | Class "char \<Rightarrow> bool"
  | Then regex regex
  | Or regex regex
  | Repeat "char \<Rightarrow> bool" nat "nat option" bool
  | Group nat regex
  | Not_ahead regex
  | Word_boundary
  | Line_start
  | Line_end
  | Text_end
  | Back_reference nat

type_synonym place = "string \<times> string \<times> (nat \<Rightarrow> string)"

definition is_word :: "char \<Rightarrow> bool" where "is_word c = (is_alnum c \<or> c = CHR ''_'')"

definition begins_word :: "string \<Rightarrow> bool" where
  "begins_word s = (case s of [] \<Rightarrow> False | c # _ \<Rightarrow> is_word c)"

definition repeat_counts :: "(char \<Rightarrow> bool) \<Rightarrow> nat \<Rightarrow> nat option \<Rightarrow> bool \<Rightarrow> string \<Rightarrow> nat list" where
  "repeat_counts P lo hi greedy s =
     (let run = length (takeWhile P s);
          ks = [lo..<Suc (case hi of None \<Rightarrow> run | Some h \<Rightarrow> min run h)]
      in if greedy then rev ks else ks)"

fun ends :: "regex \<Rightarrow> place \<Rightarrow> place list" where
  "ends Empty p = [p]"
| "ends (Class P) (b, s, g) = (case s of [] \<Rightarrow> [] | c # cs \<Rightarrow> if P c then [(c # b, cs, g)] else [])"
| "ends (Then r q) p = concat (map (ends q) (ends r p))"
| "ends (Or r q) p = ends r p @ ends q p"
| "ends (Repeat P lo hi greedy) (b, s, g) =
     map (\<lambda>k. (rev (take k s) @ b, drop k s, g)) (repeat_counts P lo hi greedy s)"
| "ends (Group n r) (b, s, g) =
     map (\<lambda>(b', s', g'). (b', s', g'(n := take (length s - length s') s))) (ends r (b, s, g))"
| "ends (Not_ahead r) p = (if ends r p = [] then [p] else [])"
| "ends Word_boundary (b, s, g) = (if begins_word b \<noteq> begins_word s then [(b, s, g)] else [])"
| "ends Line_start (b, s, g) = (if b = [] \<or> hd b = CHR 0x0A then [(b, s, g)] else [])"
| "ends Line_end (b, s, g) = (if s = [] \<or> hd s = CHR 0x0A then [(b, s, g)] else [])"
| "ends Text_end (b, s, g) = (if s = [] then [(b, s, g)] else [])"
| "ends (Back_reference n) (b, s, g) =
     (if starts_with (g n) s then [(rev (g n) @ b, drop (length (g n)) s, g)] else [])"

definition match_at :: "regex \<Rightarrow> string \<Rightarrow> string \<Rightarrow> place option" where
  "match_at r b s = (case ends r (b, s, \<lambda>_. []) of [] \<Rightarrow> None | p # _ \<Rightarrow> Some p)"

text \<open>\<open>re.search\<close> as a truth value, and \<open>re.sub\<close> with a template of texts and groups.\<close>

fun search_from :: "regex \<Rightarrow> string \<Rightarrow> string \<Rightarrow> bool" where
  "search_from r b [] = (match_at r b [] \<noteq> None)"
| "search_from r b (c # cs) = (match_at r b (c # cs) \<noteq> None \<or> search_from r (c # b) cs)"

definition re_search :: "regex \<Rightarrow> string \<Rightarrow> bool" where
  "re_search r s = search_from r [] s"

datatype template_part = Verbatim string | Group_text nat

definition expand :: "template_part list \<Rightarrow> (nat \<Rightarrow> string) \<Rightarrow> string" where
  "expand t g = concat (map (\<lambda>p. case p of Verbatim x \<Rightarrow> x | Group_text n \<Rightarrow> g n) t)"

function sub_from :: "regex \<Rightarrow> template_part list \<Rightarrow> string \<Rightarrow> string \<Rightarrow> string" where
  "sub_from r t b s =
     (case match_at r b s of
        Some (b', s', g) \<Rightarrow>
          if length s' < length s then expand t g @ sub_from r t b' s'
          else expand t g @ (case s of [] \<Rightarrow> [] | c # cs \<Rightarrow> c # sub_from r t (c # b) cs)
      | None \<Rightarrow> (case s of [] \<Rightarrow> [] | c # cs \<Rightarrow> c # sub_from r t (c # b) cs))"
  by pat_completeness auto
termination
  by (relation "measure (\<lambda>(r, t, b, s). length s)") auto

declare sub_from.simps [simp del]

definition re_sub :: "regex \<Rightarrow> template_part list \<Rightarrow> string \<Rightarrow> string" where
  "re_sub r t s = sub_from r t [] s"

section \<open>Writing patterns\<close>

definition one :: "char \<Rightarrow> regex" where "one c = Class (\<lambda>x. x = c)"

definition caseless :: "(char \<Rightarrow> bool) \<Rightarrow> char \<Rightarrow> bool" where
  "caseless P c = (P (lower_char c) \<or> P (upper_char c))"

fun sequence :: "regex list \<Rightarrow> regex" where
  "sequence [] = Empty"
| "sequence [r] = r"
| "sequence (r # rs) = Then r (sequence rs)"

fun any_of :: "regex list \<Rightarrow> regex" where
  "any_of [] = Class (\<lambda>_. False)"
| "any_of [r] = r"
| "any_of (r # rs) = Or r (any_of rs)"

definition optional :: "regex \<Rightarrow> regex" where "optional r = Or r Empty"

definition maybe :: "(char \<Rightarrow> bool) \<Rightarrow> regex" where "maybe P = Repeat P 0 (Some 1) True"
definition many :: "(char \<Rightarrow> bool) \<Rightarrow> regex" where "many P = Repeat P 0 None True"
definition some :: "(char \<Rightarrow> bool) \<Rightarrow> regex" where "some P = Repeat P 1 None True"
definition at_least :: "nat \<Rightarrow> (char \<Rightarrow> bool) \<Rightarrow> regex" where "at_least n P = Repeat P n None True"
definition exactly :: "nat \<Rightarrow> (char \<Rightarrow> bool) \<Rightarrow> regex" where "exactly n P = Repeat P n (Some n) True"

text \<open>A literal, and one in any case.\<close>

fun literal :: "string \<Rightarrow> regex" where
  "literal [] = Empty"
| "literal (c # cs) = Then (one c) (literal cs)"

fun iliteral :: "string \<Rightarrow> regex" where
  "iliteral [] = Empty"
| "iliteral (c # cs) = Then (Class (\<lambda>x. lower_char x = lower_char c)) (iliteral cs)"

section \<open>Lemmas\<close>

lemma ends_literal: "ends (literal t) (b, s, g) = (if starts_with t s then [(rev t @ b, drop (length t) s, g)] else [])"
  by (induction t arbitrary: b s) (auto simp: one_def starts_with_prefix split: list.splits)

text \<open>A pattern's positions only move forward in the same text.\<close>

lemma ends_forward: "(b', s', g') \<in> set (ends r (b, s, g)) \<Longrightarrow> rev b' @ s' = rev b @ s \<and> length s' \<le> length s"
proof (induction r arbitrary: b s g b' s' g')
  case (Then r q)
  then obtain b1 s1 g1 where "(b1, s1, g1) \<in> set (ends r (b, s, g))" "(b', s', g') \<in> set (ends q (b1, s1, g1))"
    by auto
  from Then.IH(1) [OF this(1)] Then.IH(2) [OF this(2)] show ?case by simp
next
  case (Group n r)
  then show ?case by fastforce
qed (auto split: list.splits if_splits simp: starts_with_prefix prefix_def)

lemma match_at_forward: "match_at r b s = Some (b', s', g) \<Longrightarrow> rev b' @ s' = rev b @ s \<and> length s' \<le> length s"
  using ends_forward [of b' s' g r b s "\<lambda>_. []"] by (auto simp: match_at_def split: list.splits)

text \<open>A text without a match stays as it is; a first match is replaced and the rest goes on.\<close>

lemma sub_from_no_match: "\<not> search_from r b s \<Longrightarrow> sub_from r t b s = s"
proof (induction s arbitrary: b)
  case Nil
  then have "match_at r b [] = None" by (metis search_from.simps(1))
  then show ?case by (subst sub_from.simps) simp
next
  case (Cons c s)
  then have "match_at r b (c # s) = None" "sub_from r t (c # b) s = s"
    by (metis search_from.simps(2)) (metis Cons search_from.simps(2))
  then show ?case by (subst sub_from.simps) simp
qed

lemma sub_from_skip:
  "(\<And>i. i < length u \<Longrightarrow> match_at r (rev (take i u) @ b) (drop i u @ s) = None) \<Longrightarrow>
   sub_from r t b (u @ s) = u @ sub_from r t (rev u @ b) s"
proof (induction u arbitrary: b)
  case (Cons c u)
  have "match_at r b (c # u @ s) = None" using Cons.prems [of 0] by simp
  then have "sub_from r t b ((c # u) @ s) = c # sub_from r t (c # b) (u @ s)" by (subst sub_from.simps) simp
  moreover have "sub_from r t (c # b) (u @ s) = u @ sub_from r t (rev u @ c # b) s"
    by (rule Cons.IH) (use Cons.prems [of "Suc _"] in simp)
  ultimately show ?case by simp
qed simp

lemma sub_from_match:
  "match_at r b s = Some (b', s', g) \<Longrightarrow> length s' < length s \<Longrightarrow> sub_from r t b s = expand t g @ sub_from r t b' s'"
  by (subst sub_from.simps) simp

end
