(* ===== verification/Guards.thy ===== *)
theory Guards
  imports Policy
begin

text \<open>
  \<open>mcp-server/app/guards.py\<close>: the write switch and the deduplication of retried writes. The two
  module-level dictionaries are maps in the state; the hash of a call's arguments (SHA-256 of
  their JSON text) is a parameter. Times are microseconds. The second half is the use of the guards
  by concurrent tool calls, as the bridge of \<open>mcp_server.py\<close> makes it: one step per stretch of code
  between two awaits.
\<close>

record identity =
  id_sub :: string
  id_role :: "string option"
  id_client_id :: "string option"

type_synonym dedup_key = "string \<times> string \<times> string \<times> string"
type_synonym recent = "dedup_key \<rightharpoonup> time \<times> string \<times> time"

datatype refused = Refused string string

definition dedup_key_of :: "(dict \<Rightarrow> string) \<Rightarrow> identity \<Rightarrow> string \<Rightarrow> dict \<Rightarrow> dedup_key" where
  "dedup_key_of args_hash ident tool args =
     (id_sub ident, (case id_client_id ident of None \<Rightarrow> [] | Some c \<Rightarrow> c), tool, args_hash args)"

definition sweep :: "time \<Rightarrow> recent \<Rightarrow> recent" where
  "sweep now r = (\<lambda>k. case r k of None \<Rightarrow> None | Some v \<Rightarrow> if fst v \<le> now then None else Some v)"

definition check_write :: "bool \<Rightarrow> string \<Rightarrow> refused + unit" where
  "check_write writes_enabled tool =
     (case map_of TOOL_POLICY tool of
        None \<Rightarrow> Inr ()
      | Some row \<Rightarrow>
          if tp_read_only row then Inr ()
          else if \<not> writes_enabled
          then Inl (Refused ''writes_off'' (tool @ '' is turned off on this deployment (MCP_WRITES_ENABLED is off).''))
          else Inr ())"

definition write_key :: "(dict \<Rightarrow> string) \<Rightarrow> int \<Rightarrow> identity option \<Rightarrow> string \<Rightarrow> dict \<Rightarrow> dedup_key option" where
  "write_key args_hash dedup_seconds ident tool args =
     (case (ident, map_of TOOL_POLICY tool) of
        (Some who, Some row) \<Rightarrow>
          if tp_read_only row \<or> dedup_seconds \<le> 0 then None
          else Some (dedup_key_of args_hash who tool args)
      | _ \<Rightarrow> None)"

text \<open>\<open>int(x)\<close> of a number of seconds cuts towards zero.\<close>

definition whole_seconds :: "int \<Rightarrow> int" where
  "whole_seconds d = (if d \<ge> 0 then d div 1000000 else - (- d div 1000000))"

definition recall :: "time \<Rightarrow> dedup_key option \<Rightarrow> recent \<Rightarrow> (int \<times> string) option \<times> recent" where
  "recall now key r =
     (case key of
        None \<Rightarrow> (None, r)
      | Some k \<Rightarrow> let r1 = sweep now r in
          (map_option (\<lambda>(expires, result, done_at). (whole_seconds (now - done_at), result)) (r1 k), r1))"

definition replay_note :: "int \<Rightarrow> string \<Rightarrow> int \<Rightarrow> string" where
  "replay_note dedup_seconds tool seconds_ago =
     ''ALREADY DONE: an identical '' @ tool @ '' call (same arguments) succeeded '' @ show_int seconds_ago @
     '' s ago, so nothing '' @ ''ran this time. To do it again on purpose, retry after '' @
     show_int dedup_seconds @ '' s. '' @ ''That call'' @ [CHR 0x27] @ ''s result:'' @ nl"

definition remember :: "int \<Rightarrow> time \<Rightarrow> dedup_key option \<Rightarrow> string \<Rightarrow> recent \<Rightarrow> recent" where
  "remember dedup_seconds now key result r =
     (case key of
        None \<Rightarrow> r
      | Some k \<Rightarrow> (sweep now r)(k \<mapsto> (now + 1000000 * dedup_seconds, result, now)))"

section \<open>Concurrent calls\<close>

text \<open>
  \<open>serialized\<close>: an entry of \<open>_inflight\<close> is its lock and the number of calls that hold a reference to
  it; the call that brings the number to zero removes the entry.
\<close>

type_synonym inflight = "dedup_key \<rightharpoonup> bool \<times> nat"

definition enter :: "dedup_key \<Rightarrow> inflight \<Rightarrow> inflight" where
  "enter k f = (case f k of None \<Rightarrow> f(k \<mapsto> (False, 1)) | Some (locked, n) \<Rightarrow> f(k \<mapsto> (locked, n + 1)))"

definition acquire :: "dedup_key \<Rightarrow> inflight \<Rightarrow> inflight" where
  "acquire k f = (case f k of None \<Rightarrow> f | Some (locked, n) \<Rightarrow> f(k \<mapsto> (True, n)))"

definition leave :: "bool \<Rightarrow> dedup_key \<Rightarrow> inflight \<Rightarrow> inflight" where
  "leave unlock k f = (case f k of None \<Rightarrow> f
     | Some (locked, n) \<Rightarrow> if n - 1 = 0 then f(k := None) else f(k \<mapsto> (if unlock then False else locked, n - 1)))"

datatype phase = Fresh | Queued | Holding | Running | Finished

datatype happening = Started dedup_key time | Succeeded dedup_key time

record calls =
  clock :: time
  phase_of :: "nat \<Rightarrow> phase"
  inflight_locks :: inflight
  recent_writes :: recent
  history :: "happening list"

text \<open>
  The steps of the calls, call i having the key \<open>key i\<close>: it queues, takes the lock, then either replays
  a recorded result or starts the tool, which later succeeds or fails; waiting may be cancelled.
  The clock does not go back. The history is newest first.
\<close>

inductive call_step :: "(nat \<Rightarrow> dedup_key) \<Rightarrow> int \<Rightarrow> calls \<Rightarrow> calls \<Rightarrow> bool" for key :: "nat \<Rightarrow> dedup_key" and secs :: int where
  ticks: "t \<ge> clock s \<Longrightarrow> call_step key secs s (s\<lparr>clock := t\<rparr>)"
| queues: "phase_of s i = Fresh \<Longrightarrow>
    call_step key secs s (s\<lparr>phase_of := (phase_of s)(i := Queued), inflight_locks := enter (key i) (inflight_locks s)\<rparr>)"
| takes_lock: "phase_of s i = Queued \<Longrightarrow> inflight_locks s (key i) = Some (False, n) \<Longrightarrow>
    call_step key secs s (s\<lparr>phase_of := (phase_of s)(i := Holding), inflight_locks := acquire (key i) (inflight_locks s)\<rparr>)"
| cancelled: "phase_of s i = Queued \<Longrightarrow>
    call_step key secs s (s\<lparr>phase_of := (phase_of s)(i := Finished),
      inflight_locks := leave False (key i) (inflight_locks s)\<rparr>)"
| replays: "phase_of s i = Holding \<Longrightarrow> recall (clock s) (Some (key i)) (recent_writes s) = (Some hit, r) \<Longrightarrow>
    call_step key secs s (s\<lparr>phase_of := (phase_of s)(i := Finished),
      inflight_locks := leave True (key i) (inflight_locks s), recent_writes := r\<rparr>)"
| refuses: "phase_of s i = Holding \<Longrightarrow> recall (clock s) (Some (key i)) (recent_writes s) = (None, r) \<Longrightarrow>
    call_step key secs s (s\<lparr>phase_of := (phase_of s)(i := Finished),
      inflight_locks := leave True (key i) (inflight_locks s), recent_writes := r\<rparr>)"
| starts: "phase_of s i = Holding \<Longrightarrow> recall (clock s) (Some (key i)) (recent_writes s) = (None, r) \<Longrightarrow>
    call_step key secs s (s\<lparr>phase_of := (phase_of s)(i := Running), recent_writes := r,
      history := Started (key i) (clock s) # history s\<rparr>)"
| succeeds: "phase_of s i = Running \<Longrightarrow>
    call_step key secs s (s\<lparr>phase_of := (phase_of s)(i := Finished),
      inflight_locks := leave True (key i) (inflight_locks s),
      recent_writes := remember secs (clock s) (Some (key i)) result (recent_writes s),
      history := Succeeded (key i) (clock s) # history s\<rparr>)"
| fails: "phase_of s i = Running \<Longrightarrow>
    call_step key secs s (s\<lparr>phase_of := (phase_of s)(i := Finished),
      inflight_locks := leave True (key i) (inflight_locks s)\<rparr>)"

definition no_calls :: "time \<Rightarrow> calls" where
  "no_calls t = \<lparr>clock = t, phase_of = (\<lambda>_. Fresh), inflight_locks = Map.empty, recent_writes = Map.empty, history = []\<rparr>"

inductive reached :: "(nat \<Rightarrow> dedup_key) \<Rightarrow> int \<Rightarrow> calls \<Rightarrow> bool" for key :: "nat \<Rightarrow> dedup_key" and secs :: int where
  at_start: "reached key secs (no_calls t)"
| after_step: "reached key secs s \<Longrightarrow> call_step key secs s s' \<Longrightarrow> reached key secs s'"

section \<open>The lock\<close>

definition users :: "(nat \<Rightarrow> dedup_key) \<Rightarrow> (nat \<Rightarrow> phase) \<Rightarrow> dedup_key \<Rightarrow> nat set" where
  "users key ph k = {i. key i = k \<and> ph i \<in> {Queued, Holding, Running}}"

definition inside :: "(nat \<Rightarrow> dedup_key) \<Rightarrow> (nat \<Rightarrow> phase) \<Rightarrow> dedup_key \<Rightarrow> nat set" where
  "inside key ph k = {i. key i = k \<and> ph i \<in> {Holding, Running}}"

lemma users_upd: "users key (ph(i := p)) k =
    (if key i \<noteq> k then users key ph k
     else if p \<in> {Queued, Holding, Running} then insert i (users key ph k) else users key ph k - {i})"
  by (auto simp: users_def)

lemma inside_upd: "inside key (ph(i := p)) k =
    (if key i \<noteq> k then inside key ph k
     else if p \<in> {Holding, Running} then insert i (inside key ph k) else inside key ph k - {i})"
  by (auto simp: inside_def)

text \<open>The entry of a key counts its users and tells whether one of them is inside.\<close>

definition lock_ok :: "nat set \<Rightarrow> nat set \<Rightarrow> (bool \<times> nat) option \<Rightarrow> bool" where
  "lock_ok U I e = (finite U \<and> I \<subseteq> U \<and>
     (case e of
        None \<Rightarrow> U = {}
      | Some (locked, n) \<Rightarrow> n = card U \<and> 0 < n \<and> (if locked then \<exists>j. I = {j} else I = {})))"

definition entry_ok :: "(nat \<Rightarrow> dedup_key) \<Rightarrow> (nat \<Rightarrow> phase) \<Rightarrow> inflight \<Rightarrow> dedup_key \<Rightarrow> bool" where
  "entry_ok key ph f k = lock_ok (users key ph k) (inside key ph k) (f k)"

lemma lock_ok_enter:
  "lock_ok U I None \<Longrightarrow> lock_ok (insert i U) I (Some (False, Suc 0))"
  "lock_ok U I (Some (l, n)) \<Longrightarrow> i \<notin> U \<Longrightarrow> lock_ok (insert i U) I (Some (l, Suc n))"
  by (auto simp: lock_ok_def split: if_splits)

lemma lock_ok_acquire: "lock_ok U I (Some (False, n)) \<Longrightarrow> i \<in> U \<Longrightarrow> lock_ok U (insert i I) (Some (True, n))"
  by (auto simp: lock_ok_def)

lemma lock_ok_leave:
  assumes "lock_ok U I (Some (l, n))" and "i \<in> U"
  shows "lock_ok (U - {i}) (I - {i}) (if n - 1 = 0 then None else Some (if i \<in> I then False else l, n - 1))"
proof -
  have n: "finite U" "n = card U" using assms by (auto simp: lock_ok_def)
  then have "card (U - {i}) = n - 1" using assms(2) by simp
  moreover have "n - 1 = 0 \<Longrightarrow> U - {i} = {}" using n calculation by simp
  ultimately show ?thesis using assms by (auto simp: lock_ok_def split: if_splits)
qed

lemma entry_ok_enter:
  "entry_ok key ph f k \<Longrightarrow> ph i = Fresh \<Longrightarrow> entry_ok key (ph(i := Queued)) (enter (key i) f) k"
proof -
  assume a: "entry_ok key ph f k" "ph i = Fresh"
  then have "i \<notin> users key ph k" "i \<notin> inside key ph k" by (auto simp: users_def inside_def)
  with a show ?thesis
    by (cases "f k") (auto simp: entry_ok_def enter_def users_upd inside_upd lock_ok_enter split: option.splits)
qed

lemma entry_ok_acquire:
  "entry_ok key ph f k \<Longrightarrow> ph i = Queued \<Longrightarrow> f (key i) = Some (False, n) \<Longrightarrow>
   entry_ok key (ph(i := Holding)) (acquire (key i) f) k"
proof -
  assume a: "entry_ok key ph f k" "ph i = Queued" "f (key i) = Some (False, n)"
  then have "key i = k \<Longrightarrow> i \<in> users key ph k" by (auto simp: users_def)
  with a show ?thesis
    by (auto simp: entry_ok_def acquire_def users_upd inside_upd insert_absorb lock_ok_acquire)
qed

lemma entry_ok_run:
  "entry_ok key ph f k \<Longrightarrow> ph i = Holding \<Longrightarrow> entry_ok key (ph(i := Running)) f k"
proof -
  assume a: "entry_ok key ph f k" "ph i = Holding"
  then have "users key (ph(i := Running)) k = users key ph k" "inside key (ph(i := Running)) k = inside key ph k"
    by (auto simp: users_def inside_def)
  with a show ?thesis by (simp add: entry_ok_def)
qed

lemma entry_ok_leave:
  assumes "entry_ok key ph f k" and "ph i \<in> {Queued, Holding, Running}"
  shows "entry_ok key (ph(i := Finished)) (leave (ph i \<noteq> Queued) (key i) f) k"
proof (cases "key i = k")
  case True
  have i: "i \<in> users key ph k" "(ph i \<noteq> Queued) = (i \<in> inside key ph k)"
    using assms(2) True by (auto simp: users_def inside_def)
  then obtain l n where f: "f k = Some (l, n)" "lock_ok (users key ph k) (inside key ph k) (Some (l, n))"
    using assms(1) by (cases "f k") (auto simp: entry_ok_def lock_ok_def)
  have "leave (ph i \<noteq> Queued) k f k = (if n - 1 = 0 then None else Some (if i \<in> inside key ph k then False else l, n - 1))"
    using f(1) i(2) by (simp add: leave_def)
  then show ?thesis using lock_ok_leave [OF f(2) i(1)] True
    by (simp only: entry_ok_def users_upd inside_upd) simp
next
  case False
  then have "leave (ph i \<noteq> Queued) (key i) f k = f k" by (simp add: leave_def split: option.splits prod.splits)
  then show ?thesis using assms(1) False by (simp add: entry_ok_def users_upd inside_upd)
qed

lemma entry_ok_leave':
  "entry_ok key ph f k \<Longrightarrow> ph i = Queued \<Longrightarrow> entry_ok key (ph(i := Finished)) (leave False (key i) f) k"
  "entry_ok key ph f k \<Longrightarrow> ph i = Holding \<Longrightarrow> entry_ok key (ph(i := Finished)) (leave True (key i) f) k"
  "entry_ok key ph f k \<Longrightarrow> ph i = Running \<Longrightarrow> entry_ok key (ph(i := Finished)) (leave True (key i) f) k"
  using entry_ok_leave [of key ph f k i] by simp_all

lemma call_step_lock:
  "call_step key secs s s' \<Longrightarrow> entry_ok key (phase_of s) (inflight_locks s) k \<Longrightarrow>
   entry_ok key (phase_of s') (inflight_locks s') k"
  by (induction rule: call_step.induct)
    (auto intro: entry_ok_enter entry_ok_acquire entry_ok_run entry_ok_leave')

lemma reached_lock: "reached key secs s \<Longrightarrow> entry_ok key (phase_of s) (inflight_locks s) k"
  by (induction rule: reached.induct)
    (simp add: no_calls_def entry_ok_def lock_ok_def users_def inside_def, blast intro: call_step_lock)

section \<open>The window\<close>

text \<open>No run of a key starts within w of an earlier success of the same key.\<close>

fun spaced :: "int \<Rightarrow> happening list \<Rightarrow> bool" where
  "spaced w [] = True"
| "spaced w (Started k t # h) = (list_all (\<lambda>x. case x of Succeeded k' d \<Rightarrow> k' = k \<longrightarrow> d + w \<le> t | _ \<Rightarrow> True) h \<and> spaced w h)"
| "spaced w (Succeeded k d # h) = spaced w h"

definition covers :: "int \<Rightarrow> time \<Rightarrow> recent \<Rightarrow> dedup_key \<Rightarrow> time \<Rightarrow> bool" where
  "covers w t r k d = (d \<le> t \<and> (t < d + w \<longrightarrow> (case r k of None \<Rightarrow> False | Some v \<Rightarrow> d + w \<le> fst v)))"

definition recorded :: "int \<Rightarrow> time \<Rightarrow> recent \<Rightarrow> happening list \<Rightarrow> bool" where
  "recorded w t r h = list_all (\<lambda>x. case x of Succeeded k d \<Rightarrow> covers w t r k d | Started _ _ \<Rightarrow> True) h"

lemma covers_later: "covers w t r k d \<Longrightarrow> t \<le> t' \<Longrightarrow> covers w t' r k d"
  by (auto simp: covers_def)

lemma covers_sweep: "covers w t r k d \<Longrightarrow> covers w t (sweep t r) k d"
  by (auto simp: covers_def sweep_def split: option.splits)

lemma covers_remember:
  "covers w t r k d \<Longrightarrow> w = 1000000 * secs \<Longrightarrow> covers w t (remember secs t (Some k') res r) k d"
  by (auto simp: covers_def remember_def sweep_def split: option.splits)

lemma covers_none: "covers w t r k d \<Longrightarrow> sweep t r k = None \<Longrightarrow> d + w \<le> t"
  by (auto simp: covers_def sweep_def split: option.splits if_splits)

lemma recorded_mono:
  "recorded w t r h \<Longrightarrow> (\<And>k d. covers w t r k d \<Longrightarrow> covers w t' r' k d) \<Longrightarrow> recorded w t' r' h"
  unfolding recorded_def by (erule list.pred_mono_strong) (auto split: happening.splits)

lemma recall_recent: "recall t (Some k) r = (res, r') \<Longrightarrow> r' = sweep t r \<and> (res = None \<longrightarrow> sweep t r k = None)"
  by (auto simp: recall_def Let_def)

lemma spaced_start:
  "recorded w t r h \<Longrightarrow> sweep t r k = None \<Longrightarrow> spaced w h \<Longrightarrow> spaced w (Started k t # h)"
  unfolding recorded_def
  by (simp, erule list.pred_mono_strong) (auto dest: covers_none split: happening.splits)

definition window_ok :: "int \<Rightarrow> calls \<Rightarrow> bool" where
  "window_ok w s = (recorded w (clock s) (recent_writes s) (history s) \<and> spaced w (history s))"

lemma call_step_window:
  assumes "call_step key secs s s'" and "window_ok (1000000 * secs) s"
  shows "window_ok (1000000 * secs) s'"
  using assms(1)
proof cases
  case (ticks t)
  then show ?thesis using assms(2) by (auto simp: window_ok_def elim: recorded_mono covers_later)
next
  case (replays i hit r)
  then have "r = sweep (clock s) (recent_writes s)" using recall_recent by blast
  then show ?thesis using assms(2) replays
    by (auto simp: window_ok_def elim!: recorded_mono intro: covers_sweep)
next
  case (refuses i r)
  then have "r = sweep (clock s) (recent_writes s)" using recall_recent by blast
  then show ?thesis using assms(2) refuses
    by (auto simp: window_ok_def elim!: recorded_mono intro: covers_sweep)
next
  case (starts i r)
  then have r: "sweep (clock s) (recent_writes s) (key i) = None" "r = sweep (clock s) (recent_writes s)"
    using recall_recent by blast+
  have "recorded (1000000 * secs) (clock s) r (history s)"
    using assms(2) r(2) by (auto simp: window_ok_def elim!: recorded_mono intro: covers_sweep)
  then have "recorded (1000000 * secs) (clock s) r (Started (key i) (clock s) # history s)"
    by (simp add: recorded_def)
  moreover have "spaced (1000000 * secs) (Started (key i) (clock s) # history s)"
    using assms(2) r(1) unfolding window_ok_def by (blast intro: spaced_start)
  ultimately show ?thesis using starts by (simp add: window_ok_def)
next
  case (succeeds i result)
  let ?r = "remember secs (clock s) (Some (key i)) result (recent_writes s)"
  have "recorded (1000000 * secs) (clock s) ?r (history s)"
    using assms(2) by (auto simp: window_ok_def elim!: recorded_mono intro: covers_remember)
  moreover have "covers (1000000 * secs) (clock s) ?r (key i) (clock s)"
    by (simp add: covers_def remember_def)
  ultimately show ?thesis using assms(2) succeeds by (simp add: window_ok_def recorded_def)
qed (use assms(2) in \<open>auto simp: window_ok_def\<close>)

lemma reached_window: "reached key secs s \<Longrightarrow> window_ok (1000000 * secs) s"
proof (induction rule: reached.induct)
  case (at_start t)
  show ?case by (simp add: no_calls_def window_ok_def recorded_def)
qed (rule call_step_window)

text \<open>C18: however the calls interleave, two identical writes are never inside the guarded stretch
together, an identical write never starts within the window after one that succeeded, and the table of
locks holds a key exactly while a call uses it.\<close>

theorem writes_deduplicated:
  assumes "reached key secs s"
  shows "(phase_of s i \<in> {Holding, Running} \<and> phase_of s j \<in> {Holding, Running} \<and> key i = key j \<longrightarrow> i = j) \<and>
    spaced (1000000 * secs) (history s) \<and> (inflight_locks s k \<noteq> None \<longleftrightarrow> users key (phase_of s) k \<noteq> {})"
proof (intro conjI impI)
  assume a: "phase_of s i \<in> {Holding, Running} \<and> phase_of s j \<in> {Holding, Running} \<and> key i = key j"
  then have "i \<in> inside key (phase_of s) (key i)" "j \<in> inside key (phase_of s) (key i)" by (auto simp: inside_def)
  then show "i = j" using reached_lock [OF assms, of "key i"]
    by (auto simp: entry_ok_def lock_ok_def split: option.splits if_splits)
next
  show "spaced (1000000 * secs) (history s)" using reached_window [OF assms] by (simp add: window_ok_def)
  show "inflight_locks s k \<noteq> None \<longleftrightarrow> users key (phase_of s) k \<noteq> {}"
    using reached_lock [OF assms, of k] by (auto simp: entry_ok_def lock_ok_def split: option.splits)
qed

definition one_key :: "nat \<Rightarrow> dedup_key" where
  "one_key i = (''ann'', ''cli'', ''start_jupyter'', ''h'')"

definition after_success :: calls where
  "after_success = \<lparr>clock = 0, phase_of = (\<lambda>_. Fresh)(0 := Finished), inflight_locks = Map.empty,
     recent_writes = [one_key 0 \<mapsto> (60000000, ''done'', 0)],
     history = [Succeeded (one_key 0) 0, Started (one_key 0) 0]\<rparr>"

lemma reached_success: "reached one_key 60 after_success"
proof -
  note step = after_step [of one_key 60]
  let ?k = "one_key 0"
  have e: "sweep 0 Map.empty = Map.empty" by (simp add: sweep_def)
  have "reached one_key 60 (no_calls 0)" by (rule at_start)
  from step [OF this queues [of _ 0]] have "reached one_key 60 (no_calls 0
      \<lparr>phase_of := (\<lambda>_. Fresh)(0 := Queued), inflight_locks := [?k \<mapsto> (False, 1)]\<rparr>)"
    by (simp add: no_calls_def enter_def)
  from step [OF this takes_lock [of _ 0 _ 1]] have "reached one_key 60 (no_calls 0
      \<lparr>phase_of := (\<lambda>_. Fresh)(0 := Holding), inflight_locks := [?k \<mapsto> (True, 1)]\<rparr>)"
    by (simp add: no_calls_def acquire_def)
  from step [OF this starts [of _ 0 _ Map.empty]] have "reached one_key 60 (no_calls 0
      \<lparr>phase_of := (\<lambda>_. Fresh)(0 := Running), inflight_locks := [?k \<mapsto> (True, 1)], history := [Started ?k 0]\<rparr>)"
    by (simp add: no_calls_def recall_def e)
  from step [OF this succeeds [of _ 0 _ _ "''done''"]] show ?thesis
    by (simp add: no_calls_def leave_def remember_def e after_success_def)
qed

lemma writes_deduplicated_witness:
  "reached one_key 60 after_success \<and> spaced 60000000 (history after_success) \<and>
   inflight_locks after_success (one_key 0) = None"
  using reached_success writes_deduplicated [OF reached_success, of 0 0 "one_key 0"]
  by (simp add: after_success_def)

section \<open>Progress\<close>

text \<open>The call inside the guarded stretch can leave it, and frees the lock for the others.\<close>

lemma inside_can_leave:
  assumes "phase_of s j \<in> {Holding, Running}" and "inflight_locks s (key j) = Some (True, n)" and "n > 1"
  shows "\<exists>s'. call_step key secs s s' \<and> phase_of s' = (phase_of s)(j := Finished) \<and>
    inflight_locks s' (key j) = Some (False, n - 1)"
proof (cases "phase_of s j = Running")
  case True
  then show ?thesis using fails [of s j key secs] assms(2,3) by (intro exI conjI) (auto simp: leave_def)
next
  case False
  then have h: "phase_of s j = Holding" using assms(1) by simp
  obtain hit r where recall: "recall (clock s) (Some (key j)) (recent_writes s) = (hit, r)" by fastforce
  let ?s = "s\<lparr>phase_of := (phase_of s)(j := Finished), inflight_locks := leave True (key j) (inflight_locks s)\<rparr>"
  have free: "leave True (key j) (inflight_locks s) (key j) = Some (False, n - 1)" using assms(2,3) by (simp add: leave_def)
  show ?thesis
  proof (cases hit)
    case None
    then show ?thesis using refuses [of s j key r secs] h recall free by (intro exI [of _ "?s\<lparr>recent_writes := r\<rparr>"]) simp
  next
    case (Some x)
    then show ?thesis using replays [of s j key x r secs] h recall free by (intro exI [of _ "?s\<lparr>recent_writes := r\<rparr>"]) simp
  qed
qed

text \<open>C32: no call waits in vain: from every state that calls can reach, a waiting call can get the lock
without any waiting call being cancelled.\<close>

theorem waiting_call_gets_lock:
  assumes "reached key secs s" and "phase_of s i = Queued"
  shows "\<exists>s'. (call_step key secs)\<^sup>*\<^sup>* s s' \<and> phase_of s' i = Holding \<and>
    (\<forall>j. phase_of s j = Queued \<longrightarrow> phase_of s' j \<in> {Queued, Holding})"
proof -
  have ok: "lock_ok (users key (phase_of s) (key i)) (inside key (phase_of s) (key i)) (inflight_locks s (key i))"
    using reached_lock [OF assms(1)] by (simp add: entry_ok_def)
  have iU: "i \<in> users key (phase_of s) (key i)" "i \<notin> inside key (phase_of s) (key i)"
    using assms(2) by (simp_all add: users_def inside_def)
  then obtain l n where e: "inflight_locks s (key i) = Some (l, n)" using ok by (cases "inflight_locks s (key i)") (auto simp: lock_ok_def)
  have take: "call_step key secs t (t\<lparr>phase_of := (phase_of t)(i := Holding), inflight_locks := acquire (key i) (inflight_locks t)\<rparr>)"
    if "phase_of t i = Queued" "inflight_locks t (key i) = Some (False, m)" for t m
    by (rule takes_lock [where s = t and i = i and n = m]) (rule that)+
  show ?thesis
  proof (cases l)
    case False
    then show ?thesis using take [OF assms(2)] e by (intro exI conjI r_into_rtranclp) auto
  next
    case True
    then obtain j where j: "inside key (phase_of s) (key i) = {j}" and n: "n = card (users key (phase_of s) (key i))"
      using ok e by (auto simp: lock_ok_def)
    then have js: "phase_of s j \<in> {Holding, Running}" "key j = key i" by (auto simp: inside_def)
    have "j \<in> users key (phase_of s) (key i)" "j \<noteq> i" using j js assms(2) by (auto simp: users_def)
    then have "n > 1" using ok n iU(1) card_mono [of "users key (phase_of s) (key i)" "{i, j}"] by (auto simp: lock_ok_def)
    then obtain t where t: "call_step key secs s t" "phase_of t = (phase_of s)(j := Finished)"
      "inflight_locks t (key i) = Some (False, n - 1)"
      using inside_can_leave [of s j key n secs] js e True by auto
    have "phase_of t i = Queued" using t(2) assms(2) js(1) by auto
    from take [OF this t(3)] t(1) show ?thesis
      using t(2) js(1) by (intro exI conjI) (rule rtranclp.rtrancl_into_rtrancl [OF r_into_rtranclp], auto)
  qed
qed

lemma waiting_call_gets_lock_witness:
  "\<exists>s s'. (call_step one_key 60)\<^sup>*\<^sup>* s s' \<and> phase_of s 1 = Queued \<and> phase_of s 2 = Queued \<and> phase_of s' 1 = Holding"
proof -
  note step = after_step [of one_key 60]
  let ?k = "one_key 0"
  have "reached one_key 60 (no_calls 0)" by (rule at_start)
  from step [OF this queues [of _ 1]] have "reached one_key 60 (no_calls 0
      \<lparr>phase_of := (\<lambda>_. Fresh)(1 := Queued), inflight_locks := [?k \<mapsto> (False, 1)]\<rparr>)"
    by (simp add: no_calls_def enter_def one_key_def)
  from step [OF this queues [of _ 2]] have r: "reached one_key 60 (no_calls 0
      \<lparr>phase_of := (\<lambda>_. Fresh)(1 := Queued, 2 := Queued), inflight_locks := [?k \<mapsto> (False, 2)]\<rparr>)"
    by (simp add: no_calls_def enter_def one_key_def numeral_2_eq_2)
  let ?s = "no_calls 0\<lparr>phase_of := (\<lambda>_. Fresh)(1 := Queued, 2 := Queued), inflight_locks := [?k \<mapsto> (False, 2)]\<rparr>"
  have q: "phase_of ?s 1 = Queued" "phase_of ?s 2 = Queued" by simp_all
  from waiting_call_gets_lock [OF r q(1)] show ?thesis using q by blast
qed

end
