(* ===== verification/Auth.thy ===== *)
theory Auth
  imports Guards Shlex
begin

text \<open>
  \<open>mcp-server/app/auth.py\<close>: from the request's headers to the verified caller. PyJWT is outside the
  repository: \<open>jwt_lib\<close> holds its reading of a token's header and its decoding of a token under a
  key, which checks signature, algorithm, audience, issuer, times and the presence of the required
  claims. The printing of containers by \<open>str\<close> is the argument rep, times are microseconds.
\<close>

datatype jwt_failure = Key_unavailable string | Token_invalid string | Other_failure exn

record jwt_lib =
  unverified_kid :: "string \<Rightarrow> jwt_failure + string option"
  decode_token :: "string \<Rightarrow> string \<Rightarrow> jwt_failure + dict"

datatype auth_failure = Auth_error string | Crash exn

section \<open>Identities\<close>

text \<open>\<open>isprintable\<close> on ASCII. A text is its UTF-8 bytes; those above 127 are taken as printable, where
Python looks up the code point, and lengths count bytes.\<close>

definition is_printable :: "string \<Rightarrow> bool" where
  "is_printable s = list_all (\<lambda>c. (of_char c :: nat) \<ge> 32 \<and> (of_char c :: nat) \<noteq> 127) s"

definition clean :: "(json \<Rightarrow> string) \<Rightarrow> json \<Rightarrow> nat \<Rightarrow> string option" where
  "clean rep value limit =
     (if value = JNull then None
      else let v = py_strip (str_json rep value) in
        if v = [] \<or> \<not> is_printable v then None else Some (take limit v))"

definition aistudio_role :: "(json \<Rightarrow> string) \<Rightarrow> dict \<Rightarrow> string option" where
  "aistudio_role rep claims =
     (let value = (case dict_get claims ''roles'' of
          JObj roles \<Rightarrow> dict_get roles ''aistudio''
        | _ \<Rightarrow> dict_get claims ''roles.aistudio'');
          value = (case value of JList [v] \<Rightarrow> v | JList _ \<Rightarrow> JNull | v \<Rightarrow> v)
      in if truthy value then Some (str_json rep value) else None)"

definition identity_from_claims :: "(json \<Rightarrow> string) \<Rightarrow> dict \<Rightarrow> identity" where
  "identity_from_claims rep claims = \<lparr>id_sub = str_json rep (dict_get claims ''sub''),
     id_role = aistudio_role rep claims,
     id_client_id = clean rep (json_or (dict_get claims ''client_id'') (dict_get claims ''azp'')) 128\<rparr>"

section \<open>Keys\<close>

text \<open>\<open>_FileJWKS\<close>: the keys by id and the time of the last reading; load is what a reading now gives.\<close>

record file_jwks =
  jwks_keys :: "(string \<times> string) list"
  jwks_loaded_at :: time

definition RELOAD_EVERY :: time where "RELOAD_EVERY = 30000000"

definition known_key :: "file_jwks \<Rightarrow> string option \<Rightarrow> string option" where
  "known_key st kid = Option.bind kid (map_of (jwks_keys st))"

definition signing_key ::
  "jwt_lib \<Rightarrow> string \<Rightarrow> time \<Rightarrow> exn + (string \<times> string) list \<Rightarrow> string \<Rightarrow> file_jwks \<Rightarrow> (jwt_failure + string) \<times> file_jwks" where
  "signing_key lib path now load token st =
     (case unverified_kid lib token of
        Inl f \<Rightarrow> (Inl f, st)
      | Inr kid \<Rightarrow>
          let stale = (known_key st kid = None \<and> now - jwks_loaded_at st \<ge> RELOAD_EVERY);
              st1 = (if stale then st\<lparr>jwks_loaded_at := now\<rparr> else st) in
          (case (if stale then load else Inr (jwks_keys st1)) of
             Inl e \<Rightarrow> (Inl (Other_failure e), st1)
           | Inr ks \<Rightarrow>
               let st2 = st1\<lparr>jwks_keys := ks\<rparr> in
               (case known_key st2 kid of
                  None \<Rightarrow> (Inl (Key_unavailable (''no key with kid '' @
                    (case kid of None \<Rightarrow> ''None'' | Some k \<Rightarrow> py_repr k) @ '' in '' @ path)), st2)
                | Some key \<Rightarrow> (Inr key, st2))))"

section \<open>Verification\<close>

definition claim_or_raise :: "dict \<Rightarrow> string \<Rightarrow> auth_failure + json" where
  "claim_or_raise claims k = (case map_of claims k of None \<Rightarrow> Inl (Crash (KeyError k)) | Some v \<Rightarrow> Inr v)"

definition lifetime :: "dict \<Rightarrow> auth_failure + rat" where
  "lifetime claims =
     (case (claim_or_raise claims ''exp'', claim_or_raise claims ''iat'') of
        (Inr e, Inr i) \<Rightarrow>
          (case (json_real e, json_real i) of
             (Some x, Some y) \<Rightarrow> Inr (x - y)
           | _ \<Rightarrow> Inl (Crash (TypeError (''unsupported operand type(s) for -: '' @ quoted (type_name e) @ '' and '' @
               quoted (type_name i)))))
      | (Inl f, _) \<Rightarrow> Inl f
      | (_, Inl f) \<Rightarrow> Inl f)"

fun auth_failure_of :: "jwt_failure \<Rightarrow> auth_failure" where
  "auth_failure_of (Key_unavailable m) = Auth_error (''signing key unavailable: '' @ m)"
| "auth_failure_of (Token_invalid m) = Auth_error (''invalid token: '' @ m)"
| "auth_failure_of (Other_failure e) = Crash e"

text \<open>The checks of \<open>verify\<close> after decoding.\<close>

definition check_claims :: "(json \<Rightarrow> string) \<Rightarrow> int \<Rightarrow> dict \<Rightarrow> auth_failure + dict" where
  "check_claims rep max_lifetime claims =
     (case (if max_lifetime > 0 then lifetime claims else Inr 0) of
        Inl f \<Rightarrow> Inl f
      | Inr d \<Rightarrow>
          if max_lifetime > 0 \<and> d > of_int max_lifetime
          then Inl (Auth_error (''invalid token: lifetime over '' @ show_int max_lifetime @
            '' s (MCP_JWT_MAX_LIFETIME_SECONDS)''))
          else (case claim_or_raise claims ''sub'' of
              Inl f \<Rightarrow> Inl f
            | Inr sub \<Rightarrow>
                if map_option JStr (clean rep sub 256) \<noteq> Some sub
                then Inl (Auth_error ''invalid token: sub is empty, too long or has a control character'')
                else Inr claims))"

definition verify ::
  "jwt_lib \<Rightarrow> (json \<Rightarrow> string) \<Rightarrow> int \<Rightarrow> ('s \<Rightarrow> (jwt_failure + string) \<times> 's) \<Rightarrow> string \<Rightarrow> 's \<Rightarrow> (auth_failure + dict) \<times> 's" where
  "verify lib rep max_lifetime get_key token st =
     (case get_key st of
        (Inl f, st1) \<Rightarrow> (Inl (auth_failure_of f), st1)
      | (Inr key, st1) \<Rightarrow>
          (case decode_token lib token key of
             Inl f \<Rightarrow> (Inl (auth_failure_of f), st1)
           | Inr claims \<Rightarrow> (check_claims rep max_lifetime claims, st1)))"

section \<open>The middleware\<close>

definition partition_space :: "string \<Rightarrow> string \<times> string" where
  "partition_space s = (takeWhile (\<lambda>c. c \<noteq> CHR '' '') s, drop 1 (dropWhile (\<lambda>c. c \<noteq> CHR '' '') s))"

fun bearer_token :: "(string \<times> string) list \<Rightarrow> string option" where
  "bearer_token [] = None"
| "bearer_token ((name, value) # headers) =
     (if py_lower name = ''authorization''
      then (case partition_space value of (scheme, token) \<Rightarrow>
        if py_lower scheme = ''bearer'' \<and> py_strip token \<noteq> [] then Some (py_strip token) else None)
      else bearer_token headers)"

record scope =
  sc_type :: string
  sc_path :: "string option"
  sc_headers :: "(string \<times> string) list"

datatype gate_result = Forwarded "identity option" | Unauthorized string | Raised exn

definition middleware ::
  "jwt_lib \<Rightarrow> (json \<Rightarrow> string) \<Rightarrow> int \<Rightarrow> string list \<Rightarrow> (string \<Rightarrow> 's \<Rightarrow> (jwt_failure + string) \<times> 's) \<Rightarrow>
   scope \<Rightarrow> 's \<Rightarrow> gate_result \<times> 's" where
  "middleware lib rep max_lifetime open_paths get_key scope st =
     (if sc_type scope \<noteq> ''http'' \<or> (case sc_path scope of None \<Rightarrow> False | Some p \<Rightarrow> p \<in> set open_paths)
      then (Forwarded None, st)
      else (case bearer_token (sc_headers scope) of
          None \<Rightarrow> (Unauthorized ''missing bearer token'', st)
        | Some token \<Rightarrow>
            (case verify lib rep max_lifetime (get_key token) token st of
               (Inl (Auth_error m), st1) \<Rightarrow> (Unauthorized ''invalid or expired token'', st1)
             | (Inl (Crash e), st1) \<Rightarrow> (Raised e, st1)
             | (Inr claims, st1) \<Rightarrow> (Forwarded (Some (identity_from_claims rep claims)), st1))))"

section \<open>The contract of a source of keys\<close>

text \<open>A source only hands out keys it trusts in the state it is left in.\<close>

locale key_source =
  fixes get_key :: "string \<Rightarrow> 's \<Rightarrow> (jwt_failure + string) \<times> 's"
    and trusted :: "'s \<Rightarrow> string set"
  assumes from_trusted: "get_key token st = (Inr key, st') \<Longrightarrow> key \<in> trusted st'"
begin

lemma verified:
  assumes "verify lib rep n (get_key token) token st = (Inr claims, st')"
  shows "\<exists>key \<in> trusted st'. decode_token lib token key = Inr claims \<and> check_claims rep n claims = Inr claims"
proof -
  obtain key st1 where k: "get_key token st = (Inr key, st1)"
    using assms by (auto simp: verify_def split: prod.splits sum.splits)
  then obtain cs where d: "decode_token lib token key = Inr cs"
    using assms by (auto simp: verify_def split: sum.splits)
  have st: "st1 = st'" and c: "check_claims rep n cs = Inr claims" using assms k d by (auto simp: verify_def)
  moreover have "cs = claims" using c by (auto simp: check_claims_def split: sum.splits if_splits)
  ultimately show ?thesis using d from_trusted [OF k] by auto
qed

end

lemma known_key_listed: "known_key st kid = Some key \<Longrightarrow> key \<in> snd ` set (jwks_keys st)"
  by (cases kid) (force simp: known_key_def dest: map_of_SomeD)+

lemma signing_key_listed:
  "signing_key lib path now load token st = (Inr key, st') \<Longrightarrow> key \<in> snd ` set (jwks_keys st')"
  by (auto simp: signing_key_def Let_def split: sum.splits option.splits if_splits dest: known_key_listed)

interpretation file_keys: key_source "signing_key lib path now load" "\<lambda>st. snd ` set (jwks_keys st)"
  by unfold_locales (rule signing_key_listed)

lemma check_claims_ok:
  assumes "check_claims rep n claims = Inr cs"
  shows "cs = claims \<and> (\<exists>sub. map_of claims ''sub'' = Some (JStr sub) \<and> sub \<noteq> [] \<and> length sub \<le> 256 \<and> is_printable sub) \<and>
    (n > 0 \<longrightarrow> (\<exists>d. lifetime claims = Inr d \<and> d \<le> of_int n))"
proof -
  from assms obtain sub where s: "claim_or_raise claims ''sub'' = Inr sub" "map_option JStr (clean rep sub 256) = Some sub"
    and cs: "cs = claims" and life: "n > 0 \<longrightarrow> (\<exists>d. lifetime claims = Inr d \<and> d \<le> of_int n)"
    by (auto simp: check_claims_def split: sum.splits if_splits)
  from s(2) obtain t where t: "clean rep sub 256 = Some t" "sub = JStr t" by auto
  then have "t = take 256 (py_strip (str_json rep sub)) \<and> py_strip (str_json rep sub) \<noteq> [] \<and>
      is_printable (py_strip (str_json rep sub))"
    by (auto simp: clean_def Let_def split: if_splits)
  then obtain u where u: "t = take 256 u" "u \<noteq> []" "is_printable u" by blast
  then have "t \<noteq> []" "length t \<le> 256" "is_printable t"
    by (auto simp: is_printable_def list_all_iff dest: in_set_takeD)
  with s(1) t(2) cs life show ?thesis by (auto simp: claim_or_raise_def split: option.splits)
qed

text \<open>the check in front of the tools fails closed. A request to a path that is not open is only
forwarded with an identity, and then its bearer token decodes, under a key of the key file as it was
last read, to claims with a printable subject of at most 256 characters and a lifetime within the
limit; the identity is the one of those claims.\<close>

theorem forwarded_only_verified:
  assumes "middleware lib rep n open_paths (signing_key lib path now load) scope st = (Forwarded who, st')"
    and "sc_type scope = ''http''" and "\<forall>p \<in> set open_paths. sc_path scope \<noteq> Some p"
  shows "\<exists>token claims sub. bearer_token (sc_headers scope) = Some token \<and> who = Some (identity_from_claims rep claims) \<and>
    (\<exists>key \<in> snd ` set (jwks_keys st'). decode_token lib token key = Inr claims) \<and>
    map_of claims ''sub'' = Some (JStr sub) \<and> sub \<noteq> [] \<and> length sub \<le> 256 \<and> is_printable sub \<and>
    (n > 0 \<longrightarrow> (\<exists>d. lifetime claims = Inr d \<and> d \<le> of_int n))"
proof -
  obtain token where token: "bearer_token (sc_headers scope) = Some token"
    using assms by (auto simp: middleware_def split: option.splits if_splits)
  then obtain claims where v: "verify lib rep n (signing_key lib path now load token) token st = (Inr claims, st')"
    and who: "who = Some (identity_from_claims rep claims)"
    using assms by (auto simp: middleware_def split: option.splits if_splits prod.splits sum.splits auth_failure.splits)
  from file_keys.verified [OF v] obtain key where key: "key \<in> snd ` set (jwks_keys st')"
      "decode_token lib token key = Inr claims" "check_claims rep n claims = Inr claims" by auto
  from check_claims_ok [OF key(3)] token who key(1,2) show ?thesis by blast
qed

text \<open>A token that lists several roles, or none, carries no role.\<close>

lemma several_roles_are_none:
  "dict_get claims ''roles'' = JObj [(''aistudio'', JList rs)] \<Longrightarrow> length rs \<noteq> 1 \<Longrightarrow> aistudio_role rep claims = None"
  by (cases rs; cases "tl rs") (auto simp: aistudio_role_def dict_get_def Let_def)

definition sample_claims :: dict where
  "sample_claims = [(''sub'', JStr ''ann''), (''iat'', JInt 0), (''exp'', JInt 600),
     (''roles'', JObj [(''aistudio'', JStr ''viewer'')])]"

definition sample_lib :: jwt_lib where
  "sample_lib = \<lparr>unverified_kid = (\<lambda>_. Inr (Some ''k1'')),
     decode_token = (\<lambda>t k. if t = ''abc'' \<and> k = ''key'' then Inr sample_claims else Inl (Token_invalid ''bad''))\<rparr>"

lemma forwarded_only_verified_witness:
  "\<exists>sub. fst (middleware sample_lib type_name 86400 [''/healthz''] (signing_key sample_lib ''f'' 0 (Inr []))
      \<lparr>sc_type = ''http'', sc_path = Some ''/mcp'', sc_headers = [(''Authorization'', ''Bearer abc'')]\<rparr>
      \<lparr>jwks_keys = [(''k1'', ''key'')], jwks_loaded_at = 0\<rparr>) =
    Forwarded (Some \<lparr>id_sub = sub, id_role = Some ''viewer'', id_client_id = None\<rparr>) \<and> length sub \<le> 256"
proof -
  let ?run = "middleware sample_lib type_name 86400 [''/healthz''] (signing_key sample_lib ''f'' 0 (Inr []))
      \<lparr>sc_type = ''http'', sc_path = Some ''/mcp'', sc_headers = [(''Authorization'', ''Bearer abc'')]\<rparr>
      \<lparr>jwks_keys = [(''k1'', ''key'')], jwks_loaded_at = 0\<rparr>"
  have r: "?run = (Forwarded (Some \<lparr>id_sub = ''ann'', id_role = Some ''viewer'', id_client_id = None\<rparr>),
      \<lparr>jwks_keys = [(''k1'', ''key'')], jwks_loaded_at = 0\<rparr>)"
    by code_simp
  from forwarded_only_verified [OF r] obtain claims sub where
      "\<lparr>id_sub = ''ann'', id_role = Some ''viewer'', id_client_id = None\<rparr> = identity_from_claims type_name claims"
      "map_of claims ''sub'' = Some (JStr sub)" "length sub \<le> 256"
    by auto
  then show ?thesis using r by (intro exI [of _ "''ann''"]) (auto simp: identity_from_claims_def dict_get_def str_json_def)
qed

end
