(* ===== verification/Bridge.thy ===== *)
theory Bridge
  imports Fence Auth
begin

text \<open>
  \<open>mcp-server/app/mcp_server.py\<close>: one tool call from the verified caller to the fenced result, and the
  building of the server. The tool itself is the argument run: given the arguments it returns a text,
  marked when it is a \<open>Done\<close>, or raises. A call's clock readings are arguments; the lock around the
  call is in \<open>Guards\<close>. \<open>str\<close> of a value is \<open>str_json rep\<close>.
\<close>

record mcp_settings =
  writes_enabled :: bool
  dedup_seconds :: int

datatype tool_outcome = Returned bool string | Raised_tool_error string | Raised_other string string

datatype reply = Answer string | Tool_error string

record audit =
  au_tool :: string
  au_ok :: bool
  au_who :: "identity option"
  au_note :: "(string \<times> string) list"
  au_args :: "(string \<times> string) list option"

datatype mcp_log =
    Call audit
  | Denied string string "string option"
  | Write_begins string identity "(string \<times> string) list"
  | Tool_failed string string
  | Injection_suspected string

record mcp_world =
  w_recent :: recent
  w_logs :: "mcp_log list"
  w_runs :: "(string \<times> dict) list"
  w_caller :: "identity option"

definition say :: "mcp_log \<Rightarrow> mcp_world \<Rightarrow> mcp_world" where
  "say l w = w\<lparr>w_logs := w_logs w @ [l]\<rparr>"

definition audit_line :: "string \<Rightarrow> identity option \<Rightarrow> bool \<Rightarrow> (string \<times> string) list \<Rightarrow> (string \<times> string) list option \<Rightarrow> mcp_log" where
  "audit_line tool who ok note args = Call \<lparr>au_tool = tool, au_ok = ok, au_who = who, au_note = note, au_args = args\<rparr>"

definition write_args :: "(json \<Rightarrow> string) \<Rightarrow> dict \<Rightarrow> (string \<times> string) list" where
  "write_args rep kwargs = map (\<lambda>(k, v). (k, take 120 (str_json rep v))) kwargs"

definition safe_error :: "string \<Rightarrow> string \<Rightarrow> string" where
  "safe_error kind text = kind @ '': '' @ take 500 (redact text)"

definition given_args :: "dict \<Rightarrow> dict" where
  "given_args kwargs = filter (\<lambda>(k, v). v \<noteq> JNull) kwargs"

text \<open>The run of the tool and what follows it, inside the lock.\<close>

definition finish_call ::
  "mcp_settings \<Rightarrow> time \<Rightarrow> string \<Rightarrow> identity \<Rightarrow> dedup_key option \<Rightarrow> (string \<times> string) list option \<Rightarrow>
   tool_outcome \<Rightarrow> mcp_world \<Rightarrow> reply \<times> mcp_world" where
  "finish_call cfg now tool who key args outcome w =
     (let failed = (\<lambda>kind message text.
            (Tool_error (fence (redact message)),
             say (audit_line tool (Some who) False [(''error'', kind)] args)
               (say (Tool_failed tool (take 500 (redact text))) w))) in
      case outcome of
        Raised_tool_error text \<Rightarrow> failed ''ToolError'' text text
      | Raised_other kind text \<Rightarrow> failed kind (''Tool '' @ tool @ '' raised an error: '' @ safe_error kind text) text
      | Returned is_done raw \<Rightarrow>
          let w1 = (if is_done then w\<lparr>w_recent := remember (dedup_seconds cfg) now key raw (w_recent w)\<rparr> else w);
              w2 = say (audit_line tool (Some who) True [] args) w1;
              result = redact raw;
              w3 = (if looks_like_injection result then say (Injection_suspected tool) w2 else w2)
          in (Answer (fence result), w3))"

definition bridge_call ::
  "mcp_settings \<Rightarrow> (json \<Rightarrow> string) \<Rightarrow> (dict \<Rightarrow> string) \<Rightarrow> (string \<Rightarrow> dict \<Rightarrow> tool_outcome) \<Rightarrow> time \<Rightarrow> time \<Rightarrow>
   identity option \<Rightarrow> string \<Rightarrow> dict \<Rightarrow> mcp_world \<Rightarrow> reply \<times> mcp_world" where
  "bridge_call cfg rep args_hash run now later caller tool kwargs w =
     (let kwargs = given_args kwargs in
      case caller of
        None \<Rightarrow> (Tool_error ''refused: no verified caller on this request.'',
          say (audit_line tool None False [(''denied'', ''no verified caller'')] None) w)
      | Some who \<Rightarrow>
          if \<not> role_allows (id_role who) tool
          then (Tool_error (''refused: it needs a higher aistudio role than '' @
                 (case id_role who of None \<Rightarrow> ''none'' | Some r \<Rightarrow> if r = [] then ''none'' else r) @ ''.''),
             say (audit_line tool (Some who) False [(''denied'', ''role'')] None)
               (say (Denied tool (id_sub who) (id_role who)) w))
          else
            let w1 = w\<lparr>w_caller := Some who\<rparr>;
                args = (if is_write tool = Some True then Some (write_args rep kwargs) else None);
                key = write_key args_hash (dedup_seconds cfg) (Some who) tool kwargs;
                (previous, r) = recall now key (w_recent w1);
                w2 = w1\<lparr>w_recent := r\<rparr>
            in case previous of
                Some (seconds_ago, result) \<Rightarrow>
                  (Answer (replay_note (dedup_seconds cfg) tool seconds_ago @ fence (redact result)),
                   say (audit_line tool (Some who) True [(''deduplicated'', ''True'')] args) w2)
              | None \<Rightarrow>
                  (case check_write (writes_enabled cfg) tool of
                     Inl (Refused reason message) \<Rightarrow>
                       (Tool_error (''refused: '' @ message),
                        say (audit_line tool (Some who) False [(''denied'', reason)] args) w2)
                   | Inr _ \<Rightarrow>
                       let w3 = (case args of None \<Rightarrow> w2 | Some a \<Rightarrow> say (Write_begins tool who a) w2);
                           w4 = w3\<lparr>w_runs := w_runs w3 @ [(tool, kwargs)]\<rparr>
                       in finish_call cfg later tool who key args (run tool kwargs) w4))"

section \<open>The server\<close>

text \<open>\<open>ALL_TOOLS\<close> of \<open>mcp-server/app/tools/registry.py\<close>, by name.\<close>

definition ALL_TOOLS :: "string list" where
  "ALL_TOOLS = [''timeline'', ''list_containers'', ''docker_logs'', ''inspect_container'', ''container_diff'',
     ''read_file'', ''list_dir'', ''grep_logs'', ''git_log'', ''git_show'',
     ''network_check'', ''list_listening_ports'', ''tcpdump_capture'', ''check_tls_cert'', ''check_clock_skew'',
     ''frontend_check'',
     ''workload_history'', ''throughput_compare'', ''queue_status'', ''check_service_health'', ''platform_catalog'',
     ''list_benchmarks'', ''get_benchmark'', ''summary'', ''model_config'', ''get_task_status'', ''get_task_logs'',
     ''check_ssh_connectivity'', ''check_node_docker'', ''node_docker_logs'', ''node_exec'',
     ''start_workload'', ''start_jupyter'', ''stop_jupyter'', ''delete_run_results'']"

definition unlisted_tools :: "string list" where
  "unlisted_tools = filter (\<lambda>t. t \<notin> set (map fst TOOL_POLICY)) ALL_TOOLS"

definition built_tools :: "mcp_settings \<Rightarrow> string list" where
  "built_tools cfg = filter (\<lambda>t. writes_enabled cfg \<or> is_write t \<noteq> Some True) ALL_TOOLS"

definition allowed_hosts :: "string \<Rightarrow> string list" where
  "allowed_hosts setting = map py_strip (filter (\<lambda>h. py_strip h \<noteq> []) (split_char CHR '','' setting))"

definition allowed_origins :: "string list \<Rightarrow> string list" where
  "allowed_origins names = concat (map (\<lambda>name. map (\<lambda>scheme. scheme @ ''://'' @ name) [''http'', ''https'']) names)"

definition transport_security :: "string \<Rightarrow> (string list \<times> string list) option" where
  "transport_security setting =
     (let names = allowed_hosts setting in if names = [] then None else Some (names, allowed_origins names))"

definition exposure_warnings :: "string \<Rightarrow> string \<Rightarrow> string \<Rightarrow> string \<Rightarrow> string list" where
  "exposure_warnings host certfile keyfile hosts =
     (let local = host \<in> {''127.0.0.1'', ''localhost'', ''::1''}; tls = certfile \<noteq> [] \<and> keyfile \<noteq> [] in
      if local \<or> tls then []
      else ''mcp.serving_without_tls'' # (if hosts = [] then [''mcp.no_host_allowlist''] else []))"

section \<open>What every call does\<close>

definition audit_entries :: "mcp_log list \<Rightarrow> audit list" where
  "audit_entries ls = concat (map (\<lambda>l. case l of Call a \<Rightarrow> [a] | _ \<Rightarrow> []) ls)"

lemma audit_entries_simps [simp]:
  "audit_entries [] = []" "audit_entries (l # ls) = (case l of Call a \<Rightarrow> [a] | _ \<Rightarrow> []) @ audit_entries ls"
  "audit_entries (ls @ ls') = audit_entries ls @ audit_entries ls'"
  by (simp_all add: audit_entries_def)

lemma say_fields [simp]:
  "w_logs (say l w) = w_logs w @ [l]" "w_runs (say l w) = w_runs w" "w_recent (say l w) = w_recent w"
  "w_caller (say l w) = w_caller w"
  by (simp_all add: say_def)

text \<open>One audit entry, which says whether the caller got an answer.\<close>

definition audited :: "string \<Rightarrow> reply \<Rightarrow> mcp_world \<Rightarrow> mcp_world \<Rightarrow> bool" where
  "audited tool r w w' = (\<exists>ls a. w_logs w' = w_logs w @ ls \<and> audit_entries ls = [a] \<and> au_tool a = tool \<and>
     (au_ok a \<longleftrightarrow> (case r of Answer _ \<Rightarrow> True | Tool_error _ \<Rightarrow> False)))"

text \<open>What the client sees: fenced and redacted text, or a refusal the server wrote itself.\<close>

definition safe_reply :: "reply \<Rightarrow> bool" where
  "safe_reply r = (case r of
      Answer t \<Rightarrow> (\<exists>note x. t = note @ fence (redact x) \<and> (note = [] \<or> starts_with ''ALREADY DONE: '' note))
    | Tool_error t \<Rightarrow> (\<exists>x. t = fence (redact x)) \<or> starts_with ''refused: '' t)"

lemma finish_call_ok:
  assumes "finish_call cfg now tool who key args outcome w = (r, w')"
  shows "audited tool r w w' \<and> safe_reply r \<and> w_runs w' = w_runs w"
proof (cases outcome)
  case (Returned d raw)
  then have "r = Answer (fence (redact raw))" using assms by (simp add: finish_call_def Let_def)
  moreover have "\<exists>note. fence (redact raw) = note @ fence (redact raw) \<and> (note = [] \<or> starts_with ''ALREADY DONE: '' note)"
    by (rule exI [of _ "[]"]) simp
  ultimately show ?thesis using assms Returned
    by (auto simp: finish_call_def Let_def audited_def safe_reply_def audit_line_def split: if_splits)
next
  case (Raised_tool_error m)
  then show ?thesis using assms
    by (auto simp: finish_call_def Let_def audited_def safe_reply_def audit_line_def)
next
  case (Raised_other kind m)
  then show ?thesis using assms
    by (auto simp: finish_call_def Let_def audited_def safe_reply_def audit_line_def)
qed

lemma check_write_runs: "check_write e tool = Inr u \<Longrightarrow> is_write tool = Some True \<Longrightarrow> e"
  by (auto simp: check_write_def is_write_def split: option.splits if_splits)

lemma replay_note_starts: "starts_with ''ALREADY DONE: '' (replay_note n tool s)"
  by (simp add: replay_note_def starts_with_prefix)

lemma audited_extend:
  "audited tool r w1 w' \<Longrightarrow> w_logs w1 = w_logs w @ ls \<Longrightarrow> audit_entries ls = [] \<Longrightarrow> audited tool r w w'"
  unfolding audited_def by (elim exE conjE) (rule exI, rule exI, rule conjI, simp, simp)

lemma bridge_call_ok:
  assumes "bridge_call cfg rep args_hash run now later caller tool kwargs w = (r, w')"
  shows "audited tool r w w' \<and> safe_reply r \<and>
    (w_runs w' = w_runs w \<or>
     (\<exists>who. caller = Some who \<and> role_allows (id_role who) tool \<and> (is_write tool = Some True \<longrightarrow> writes_enabled cfg) \<and>
        w_runs w' = w_runs w @ [(tool, given_args kwargs)]))"
proof (cases caller)
  case None
  then show ?thesis using assms
    by (auto simp: bridge_call_def Let_def audited_def safe_reply_def audit_line_def starts_with_prefix)
next
  case (Some who)
  show ?thesis
  proof (cases "role_allows (id_role who) tool")
    case False
    then show ?thesis using assms Some
      by (auto simp: bridge_call_def Let_def audited_def safe_reply_def audit_line_def starts_with_prefix)
  next
    case role: True
    let ?kw = "given_args kwargs" and ?args = "if is_write tool = Some True then Some (write_args rep (given_args kwargs)) else None"
    let ?key = "write_key args_hash (dedup_seconds cfg) (Some who) tool (given_args kwargs)"
    obtain previous rc where rc: "recall now ?key (w_recent w) = (previous, rc)" by fastforce
    show ?thesis
    proof (cases previous)
      case prev: (Some p)
      obtain ago result where p: "p = (ago, result)" by fastforce
      have "r = Answer (replay_note (dedup_seconds cfg) tool ago @ fence (redact result))"
        "w_logs w' = w_logs w @ [audit_line tool (Some who) True [(''deduplicated'', ''True'')] ?args]" "w_runs w' = w_runs w"
        using assms Some role rc prev p by (auto simp: bridge_call_def Let_def)
      then show ?thesis using replay_note_starts by (auto simp: audited_def safe_reply_def audit_line_def)
    next
      case prev: None
      show ?thesis
      proof (cases "check_write (writes_enabled cfg) tool")
        case (Inl x)
        obtain reason message where x: "x = Refused reason message" by (cases x)
        have "r = Tool_error (''refused: '' @ message)"
          "w_logs w' = w_logs w @ [audit_line tool (Some who) False [(''denied'', reason)] ?args]" "w_runs w' = w_runs w"
          using assms Some role rc prev Inl x by (auto simp: bridge_call_def Let_def)
        then show ?thesis by (auto simp: audited_def safe_reply_def audit_line_def starts_with_prefix)
      next
        case (Inr u)
        let ?w2 = "w\<lparr>w_caller := Some who, w_recent := rc\<rparr>"
        let ?w3 = "case ?args of None \<Rightarrow> ?w2 | Some a \<Rightarrow> say (Write_begins tool who a) ?w2"
        let ?w4 = "?w3\<lparr>w_runs := w_runs ?w3 @ [(tool, ?kw)]\<rparr>"
        have f: "finish_call cfg later tool who ?key ?args (run tool ?kw) ?w4 = (r, w')"
          using assms Some role rc prev Inr by (simp add: bridge_call_def Let_def)
        note ok = finish_call_ok [OF f]
        have "audited tool r w w'"
          by (rule audited_extend [OF ok [THEN conjunct1],
                where ls = "case ?args of None \<Rightarrow> [] | Some a \<Rightarrow> [Write_begins tool who a]"])
            (auto split: if_splits)
        moreover have "w_runs w' = w_runs w @ [(tool, ?kw)]" using ok by (auto split: if_splits)
        ultimately show ?thesis using ok role Some check_write_runs [OF Inr] by auto
      qed
    qed
  qed
qed

text \<open>C21: each call leaves one audit entry that tells its outcome; its reply is redacted and fenced or
is the server's own refusal; and the tool only ran when the caller was verified, holds a role that
may call it and, for a write, writes are switched on.\<close>

theorem call_guarded:
  assumes "bridge_call cfg rep args_hash run now later caller tool kwargs w = (r, w')"
  shows "audited tool r w w' \<and> safe_reply r \<and>
    (w_runs w' = w_runs w \<or>
     (\<exists>who. caller = Some who \<and> role_allows (id_role who) tool \<and> (is_write tool = Some True \<longrightarrow> writes_enabled cfg) \<and>
        w_runs w' = w_runs w @ [(tool, given_args kwargs)]))"
  by (rule bridge_call_ok [OF assms])

text \<open>Every tool has its row, and with writes off no write tool is even registered.\<close>

lemma all_tools_listed: "unlisted_tools = [] \<and> list_all (\<lambda>t. t \<in> set ALL_TOOLS) (map fst TOOL_POLICY)"
  by code_simp

lemma built_without_writes: "\<not> writes_enabled cfg \<Longrightarrow> t \<in> set (built_tools cfg) \<Longrightarrow> is_write t = Some False"
proof -
  assume a: "\<not> writes_enabled cfg" "t \<in> set (built_tools cfg)"
  then have "t \<notin> set unlisted_tools" "is_write t \<noteq> Some True" "t \<in> set ALL_TOOLS"
    using all_tools_listed by (auto simp: built_tools_def)
  then have "map_of TOOL_POLICY t \<noteq> None" by (simp add: unlisted_tools_def map_of_eq_None_iff)
  then show ?thesis using \<open>is_write t \<noteq> Some True\<close> by (auto simp: is_write_def)
qed

definition sample_world :: mcp_world where
  "sample_world = \<lparr>w_recent = Map.empty, w_logs = [], w_runs = [], w_caller = None\<rparr>"

definition sample_caller :: identity where
  "sample_caller = \<lparr>id_sub = ''ann'', id_role = Some ''viewer'', id_client_id = None\<rparr>"

lemma call_guarded_witness:
  "\<exists>r w'. bridge_call \<lparr>writes_enabled = True, dedup_seconds = 60\<rparr> type_name (\<lambda>_. ''h'')
      (\<lambda>_ _. Returned True ''stopped'') 0 1 (Some sample_caller) ''stop_jupyter'' [] sample_world = (r, w') \<and>
    safe_reply r \<and> w_runs w' = []"
proof -
  let ?call = "bridge_call \<lparr>writes_enabled = True, dedup_seconds = 60\<rparr> type_name (\<lambda>_. ''h'')
      (\<lambda>_ _. Returned True ''stopped'') 0 1 (Some sample_caller) ''stop_jupyter'' [] sample_world"
  have "map_of TOOL_POLICY ''stop_jupyter'' = Some (tool_policy_of ''write'' ''operator'' False True True)"
    by (simp add: TOOL_POLICY_def)
  then have "\<not> role_allows (Some ''viewer'') ''stop_jupyter''"
    by (simp add: role_allows_def min_role_def role_at_least_order role_of_def tool_policy_of_def less_eq_role_def)
  moreover have "?call = (fst ?call, snd ?call)" by simp
  from call_guarded [OF this] have "safe_reply (fst ?call)" and
    "w_runs (snd ?call) = [] \<or> role_allows (Some ''viewer'') ''stop_jupyter''"
    by (auto simp: sample_world_def sample_caller_def)
  ultimately show ?thesis by (metis prod.collapse)
qed

end
