(* ===== verification/Http_Client.thy ===== *)
theory Http_Client
  imports Tables Guards Shlex
begin

text \<open>
  What the MCP tools share: HTTP requests to the platform's API and the exceptions of the tools.
  The API's answers are outside the tools: \<open>answer n\<close> is what the n-th request of a call gets. A tool
  is a function of the requests sent so far; it returns a value or an exception and the requests
  sent. A path is recorded without the base URL of the settings.
\<close>

text \<open>UTF-8 bytes of characters in the answers of the tools.\<close>

definition u_warning :: string where "u_warning = [CHR 0xE2, CHR 0x9A, CHR 0xA0, CHR 0xEF, CHR 0xB8, CHR 0x8F]"
definition u_bullet :: string where "u_bullet = [CHR 0xE2, CHR 0x80, CHR 0xA2]"
definition u_dots :: string where "u_dots = [CHR 0xE2, CHR 0x80, CHR 0xA6]"

record http_request =
  rq_method :: string
  rq_path :: string
  rq_params :: dict
  rq_body :: "dict option"

record http_response =
  hr_status :: nat
  hr_json :: "exn + json"
  hr_text :: string

datatype tool_exn =
    ToolError string
  | PlatformApiError string
  | ConnectError string
  | StatusError nat string string
  | Python_error exn
  | Http_other string string

text \<open>\<open>type(exc).__name__\<close> and \<open>str(exc)\<close>; the name of a plain exception is a parameter of its user.\<close>

fun tool_exn_text :: "tool_exn \<Rightarrow> string" where
  "tool_exn_text (ToolError m) = m"
| "tool_exn_text (PlatformApiError m) = m"
| "tool_exn_text (ConnectError m) = m"
| "tool_exn_text (StatusError code body m) = m"
| "tool_exn_text (Python_error e) = exc_str e"
| "tool_exn_text (Http_other kind m) = m"

fun exn_name :: "exn \<Rightarrow> string" where
  "exn_name (ValueError _) = ''ValueError''"
| "exn_name (KeyError _) = ''KeyError''"
| "exn_name (TypeError _) = ''TypeError''"
| "exn_name (AttributeError _) = ''AttributeError''"
| "exn_name IndexError = ''IndexError''"
| "exn_name (OSError _) = ''OSError''"
| "exn_name _ = ''Exception''"

fun tool_exn_name :: "tool_exn \<Rightarrow> string" where
  "tool_exn_name (ToolError _) = ''ToolError''"
| "tool_exn_name (PlatformApiError _) = ''PlatformApiError''"
| "tool_exn_name (ConnectError _) = ''ConnectError''"
| "tool_exn_name (StatusError _ _ _) = ''HTTPStatusError''"
| "tool_exn_name (Python_error e) = exn_name e"
| "tool_exn_name (Http_other kind _) = kind"

record client =
  answer :: "nat \<Rightarrow> http_request \<Rightarrow> tool_exn + http_response"
  rep_json :: "json \<Rightarrow> string"
  parse_iso :: "string \<Rightarrow> time option"
  fmt_time :: "time \<Rightarrow> string"

type_synonym 'a tool = "http_request list \<Rightarrow> (tool_exn + 'a) \<times> http_request list"

definition retT :: "'a \<Rightarrow> 'a tool" where "retT a = (\<lambda>h. (Inr a, h))"

definition raiseT :: "tool_exn \<Rightarrow> 'a tool" where "raiseT e = (\<lambda>h. (Inl e, h))"

definition bindT :: "'a tool \<Rightarrow> ('a \<Rightarrow> 'b tool) \<Rightarrow> 'b tool" where
  "bindT m f = (\<lambda>h. case m h of (Inl e, h') \<Rightarrow> (Inl e, h') | (Inr a, h') \<Rightarrow> f a h')"

definition catchT :: "'a tool \<Rightarrow> (tool_exn \<Rightarrow> 'a tool) \<Rightarrow> 'a tool" where
  "catchT m f = (\<lambda>h. case m h of (Inl e, h') \<Rightarrow> f e h' | (Inr a, h') \<Rightarrow> (Inr a, h'))"

definition liftT :: "exn + 'a \<Rightarrow> 'a tool" where
  "liftT r = (case r of Inl e \<Rightarrow> raiseT (Python_error e) | Inr a \<Rightarrow> retT a)"

definition send :: "client \<Rightarrow> http_request \<Rightarrow> http_response tool" where
  "send c rq = (\<lambda>h. (answer c (length h) rq, h @ [rq]))"

definition get_request :: "string \<Rightarrow> dict \<Rightarrow> http_request" where
  "get_request path params = \<lparr>rq_method = ''GET'', rq_path = path, rq_params = params, rq_body = None\<rparr>"

text \<open>\<open>raise_for_status\<close>: anything but success raises; the text of the exception is httpx's.\<close>

definition raise_for_status :: "http_response \<Rightarrow> unit tool" where
  "raise_for_status r =
     (if 200 \<le> hr_status r \<and> hr_status r < 300 then retT ()
      else raiseT (StatusError (hr_status r) (hr_text r) (''HTTP status '' @ show_nat (hr_status r))))"

text \<open>\<open>str(v)\<close>, \<open>d[k]\<close> and \<open>'%.kf'\<close> of a value of unknown type.\<close>

definition show_json :: "client \<Rightarrow> json \<Rightarrow> string" where "show_json c = str_json (rep_json c)"

definition item :: "dict \<Rightarrow> string \<Rightarrow> exn + json" where
  "item d k = (case map_of d k of None \<Rightarrow> Inl (KeyError k) | Some v \<Rightarrow> Inr v)"

definition fixed_or_raise :: "nat \<Rightarrow> json \<Rightarrow> exn + string" where
  "fixed_or_raise k j = (case json_real j of
      Some r \<Rightarrow> Inr (fmt_fixed k r)
    | None \<Rightarrow> Inl (ValueError (''Unknown format code '' @ quoted ''f'' @ '' for object of type '' @ quoted (type_name j))))"

definition bindE :: "exn + 'a \<Rightarrow> ('a \<Rightarrow> exn + 'b) \<Rightarrow> exn + 'b" where
  "bindE m f = (case m of Inl e \<Rightarrow> Inl e | Inr a \<Rightarrow> f a)"

fun mapE :: "('a \<Rightarrow> exn + 'b) \<Rightarrow> 'a list \<Rightarrow> exn + 'b list" where
  "mapE f [] = Inr []"
| "mapE f (x # xs) = bindE (f x) (\<lambda>y. bindE (mapE f xs) (\<lambda>ys. Inr (y # ys)))"

text \<open>A JSON value as a dict, as a call of its \<open>get\<close> needs it.\<close>

definition as_dict :: "json \<Rightarrow> exn + dict" where
  "as_dict j = (case j of JObj d \<Rightarrow> Inr d | _ \<Rightarrow> Inl (no_attribute j ''get''))"

section \<open>Lemmas\<close>

named_theorems tool_defs \<open>the operations of the tool monad, unfolded\<close>

lemmas [tool_defs] = retT_def raiseT_def bindT_def catchT_def liftT_def send_def raise_for_status_def

text \<open>A tool only adds requests, and only ones of a kind.\<close>

definition sends :: "(http_request \<Rightarrow> bool) \<Rightarrow> 'a tool \<Rightarrow> bool" where
  "sends P m = (\<forall>h. \<exists>rs. snd (m h) = h @ rs \<and> list_all P rs)"

named_theorems sends_rules \<open>rules for the requests a tool sends\<close>

lemma sends_ret [sends_rules]: "sends P (retT a)" by (simp add: sends_def retT_def)
lemma sends_raise [sends_rules]: "sends P (raiseT e)" by (simp add: sends_def raiseT_def)
lemma sends_lift [sends_rules]: "sends P (liftT r)"
  by (cases r) (simp_all add: sends_def liftT_def retT_def raiseT_def)

lemma sends_send [sends_rules]: "P rq \<Longrightarrow> sends P (send c rq)" by (simp add: sends_def send_def)

lemma sends_status [sends_rules]: "sends P (raise_for_status r)"
  by (simp add: sends_def raise_for_status_def retT_def raiseT_def)

lemma sends_bind [sends_rules]: "sends P m \<Longrightarrow> (\<And>a. sends P (f a)) \<Longrightarrow> sends P (bindT m f)"
  unfolding sends_def bindT_def
proof (intro allI)
  fix h
  assume m: "\<forall>h. \<exists>rs. snd (m h) = h @ rs \<and> list_all P rs" and f: "\<And>a. \<forall>h. \<exists>rs. snd (f a h) = h @ rs \<and> list_all P rs"
  obtain rs where rs: "snd (m h) = h @ rs" "list_all P rs" using m by blast
  show "\<exists>rs. snd (case m h of (Inl e, h') \<Rightarrow> (Inl e, h') | (Inr a, h') \<Rightarrow> f a h') = h @ rs \<and> list_all P rs"
  proof (cases "fst (m h)")
    case (Inl e)
    then show ?thesis using rs by (auto split: prod.split)
  next
    case (Inr a)
    obtain qs where "snd (f a (h @ rs)) = (h @ rs) @ qs" "list_all P qs" using f by blast
    then show ?thesis using Inr rs by (intro exI [of _ "rs @ qs"]) (auto split: prod.split)
  qed
qed

lemma sends_catch [sends_rules]: "sends P m \<Longrightarrow> (\<And>e. sends P (f e)) \<Longrightarrow> sends P (catchT m f)"
  unfolding sends_def catchT_def
proof (intro allI)
  fix h
  assume m: "\<forall>h. \<exists>rs. snd (m h) = h @ rs \<and> list_all P rs" and f: "\<And>e. \<forall>h. \<exists>rs. snd (f e h) = h @ rs \<and> list_all P rs"
  obtain rs where rs: "snd (m h) = h @ rs" "list_all P rs" using m by blast
  show "\<exists>rs. snd (case m h of (Inl e, h') \<Rightarrow> f e h' | (Inr a, h') \<Rightarrow> (Inr a, h')) = h @ rs \<and> list_all P rs"
  proof (cases "fst (m h)")
    case (Inr a)
    then show ?thesis using rs by (auto split: prod.split)
  next
    case (Inl e)
    obtain qs where "snd (f e (h @ rs)) = (h @ rs) @ qs" "list_all P qs" using f by blast
    then show ?thesis using Inl rs by (intro exI [of _ "rs @ qs"]) (auto split: prod.split)
  qed
qed

lemma sends_if [sends_rules]: "(b \<Longrightarrow> sends P m) \<Longrightarrow> (\<not> b \<Longrightarrow> sends P n) \<Longrightarrow> sends P (if b then m else n)"
  by simp

lemma sends_case_option [sends_rules]:
  "(x = None \<Longrightarrow> sends P m) \<Longrightarrow> (\<And>a. x = Some a \<Longrightarrow> sends P (f a)) \<Longrightarrow> sends P (case x of None \<Rightarrow> m | Some a \<Rightarrow> f a)"
  by (cases x) auto

end
