(* ===== verification/Platform_Api.thy ===== *)
theory Platform_Api
  imports Http_Client "HOL-Library.Product_Lexorder"
begin

text \<open>
  \<open>mcp-server/app/services/platform_api.py\<close>: the platform's data as the MCP tools read it, and
  \<open>services/request_ctx.py\<close>: the caller is an argument of the tools. A row keeps its raw times; the
  converted ones stand beside it. The API's times carry a zone, so they are instants.
\<close>

section \<open>Values and paths\<close>

text \<open>\<open>str.replace\<close> of one character.\<close>

definition replace_char :: "char \<Rightarrow> string \<Rightarrow> string \<Rightarrow> string" where
  "replace_char c t s = concat (map (\<lambda>x. if x = c then t else [x]) s)"

definition ts :: "client \<Rightarrow> json \<Rightarrow> time option" where
  "ts c value = (if \<not> truthy value then None
     else parse_iso c (replace_char (CHR ''Z'') ''+00:00'' (show_json c value)))"

definition seg :: "string \<Rightarrow> tool_exn + string" where
  "seg value =
     (if py_strip value \<in> {[], ''.'', ''..''} then Inl (PlatformApiError (py_repr value @ '' is not a task or run id''))
      else Inr (url_quote value))"

definition rows_of :: "http_response \<Rightarrow> string \<Rightarrow> json tool" where
  "rows_of r what =
     (if hr_status r = 404 then raiseT (PlatformApiError (''this aistudio-server does not serve '' @ what))
      else if hr_status r \<ge> 400
      then raiseT (PlatformApiError (''aistudio-server answered '' @ show_nat (hr_status r) @ '' for '' @ what))
      else liftT (hr_json r))"

definition seg_path :: "string \<Rightarrow> string \<Rightarrow> string \<Rightarrow> string tool" where
  "seg_path base value rest = (case seg value of Inl e \<Rightarrow> raiseT e | Inr s \<Rightarrow> retT (base @ s @ rest))"

definition status_path :: "string \<Rightarrow> string tool" where
  "status_path task_id =
     (if starts_with ''jup-'' task_id then seg_path ''/api/v1/jupyter/instances/'' task_id ''/status''
      else seg_path ''/api/v1/benchmarks/'' task_id ''/status'')"

definition logs_path :: "string \<Rightarrow> string tool" where
  "logs_path task_id =
     (if starts_with ''jup-'' task_id then seg_path ''/api/v1/jupyter/instances/'' task_id ''/logs/stream''
      else seg_path ''/api/v1/benchmarks/'' task_id ''/logs/stream'')"

section \<open>Workloads and results\<close>

record workload_row =
  wr_row :: dict
  wr_updated_at :: "time option"
  wr_created_at :: "time option"

definition platform_workload :: "client \<Rightarrow> string \<Rightarrow> workload_row option tool" where
  "platform_workload c workload_id =
     bindT (status_path workload_id) (\<lambda>path.
     bindT (send c (get_request path [])) (\<lambda>r.
     if hr_status r = 404 then retT None
     else
       bindT (rows_of r ''the task status route'') (\<lambda>body.
       bindT (liftT (as_dict body)) (\<lambda>row.
       retT (Some \<lparr>wr_row = dict_set row ''workload_id'' (json_or (dict_get row ''workload_id'') (JStr workload_id)),
         wr_updated_at = ts c (dict_get row ''updated_at''), wr_created_at = ts c (dict_get row ''created_at'')\<rparr>)))))"

record read_row =
  bn_row :: dict
  bn_started_at :: "time option"

definition bench :: "client \<Rightarrow> dict \<Rightarrow> read_row" where
  "bench c row = \<lparr>bn_row = dict_set row ''node_ips'' (json_or (dict_get row ''node_ips'') (JList [])),
     bn_started_at = ts c (dict_get row ''started_at'')\<rparr>"

text \<open>Iterating over a value of unknown type, \<open>{**x}\<close> and \<open>x.get\<close> on what it yields.\<close>

definition iterate :: "json \<Rightarrow> exn + json list" where
  "iterate j = (case j of
      JList xs \<Rightarrow> Inr xs
    | JObj d \<Rightarrow> Inr (map (JStr \<circ> fst) d)
    | JStr s \<Rightarrow> Inr (map (\<lambda>ch. JStr [ch]) s)
    | _ \<Rightarrow> Inl (TypeError (quoted (type_name j) @ '' object is not iterable'')))"

definition as_mapping :: "json \<Rightarrow> exn + dict" where
  "as_mapping j = (case j of JObj d \<Rightarrow> Inr d
    | _ \<Rightarrow> Inl (TypeError (quoted (type_name j) @ '' object is not a mapping'')))"

definition benchmark_results :: "client \<Rightarrow> string \<Rightarrow> read_row list tool" where
  "benchmark_results c run_id =
     bindT (seg_path ''/api/v1/benchmarks/'' run_id []) (\<lambda>path.
     bindT (send c (get_request path [])) (\<lambda>r.
     if hr_status r = 404 then retT []
     else
       bindT (rows_of r ''/api/v1/benchmarks/{run_id}'') (\<lambda>body.
       bindT (liftT (bindE (as_dict body) (\<lambda>d. bindE (iterate (dict_get_or d ''sub_runs'' (JList []))) (mapE as_mapping)))) (\<lambda>rows.
       retT (map (bench c) rows)))))"

definition ROW_CAP :: int where "ROW_CAP = 1000"

definition result_params :: "dict \<Rightarrow> dict" where
  "result_params filters = dict_set (filter (\<lambda>(k, v). v \<noteq> JNull \<and> v \<noteq> JStr []) filters) ''limit'' (JInt ROW_CAP)"

definition result_rows :: "client \<Rightarrow> dict \<Rightarrow> dict list tool" where
  "result_rows c filters =
     bindT (send c (get_request ''/api/v1/benchmarks'' (result_params filters))) (\<lambda>r.
     bindT (rows_of r ''/api/v1/benchmarks'') (\<lambda>body.
     bindT (liftT (bindE (iterate body) (mapE as_dict))) (\<lambda>rows.
     retT (filter (\<lambda>row. truthy (dict_get row ''run_id'')) rows))))"

section \<open>Runs\<close>

record run =
  rn_run_id :: json
  rn_model_name :: json
  rn_gpu_type :: json
  rn_gpu_count :: json
  rn_sub_runs :: nat
  rn_all_success :: bool
  rn_started_at :: "time option"

definition new_run :: "dict \<Rightarrow> run" where
  "new_run row = \<lparr>rn_run_id = dict_get row ''run_id'', rn_model_name = dict_get row ''model_name'',
     rn_gpu_type = dict_get row ''gpu_type'', rn_gpu_count = dict_get row ''gpu_count'',
     rn_sub_runs = 0, rn_all_success = True, rn_started_at = None\<rparr>"

definition later_start :: "time option \<Rightarrow> time option \<Rightarrow> time option" where
  "later_start old new = (case (old, new) of
      (_, None) \<Rightarrow> old
    | (None, Some t) \<Rightarrow> Some t
    | (Some u, Some t) \<Rightarrow> if t > u then Some t else Some u)"

definition count_row :: "client \<Rightarrow> dict \<Rightarrow> run \<Rightarrow> run" where
  "count_row c row r = r\<lparr>rn_sub_runs := rn_sub_runs r + 1,
     rn_all_success := (rn_all_success r \<and> dict_get row ''status'' = JStr ''success''),
     rn_started_at := later_start (rn_started_at r) (ts c (dict_get row ''started_at''))\<rparr>"

text \<open>One turn of the grouping loop: the run of the row's id is found or appended, then updated.\<close>

fun add_row :: "client \<Rightarrow> dict \<Rightarrow> run list \<Rightarrow> run list" where
  "add_row c row [] = [count_row c row (new_run row)]"
| "add_row c row (r # rs) =
     (if rn_run_id r = dict_get row ''run_id'' then count_row c row r # rs else r # add_row c row rs)"

definition group_rows :: "client \<Rightarrow> dict list \<Rightarrow> run list" where
  "group_rows c rows = fold (add_row c) rows []"

definition clamp :: "nat \<Rightarrow> int \<Rightarrow> nat" where
  "clamp cap limit = nat (max 1 (min limit (int cap)))"

text \<open>A stable sort in descending order, as \<open>sort(reverse=True)\<close>; a run without a time is the oldest.\<close>

definition newest_first :: "run list \<Rightarrow> run list" where
  "newest_first rs = rev (sort_key (\<lambda>r. case rn_started_at r of None \<Rightarrow> (0, 0) | Some t \<Rightarrow> (1::nat, t)) (rev rs))"

definition select_runs :: "bool \<Rightarrow> int \<Rightarrow> run list \<Rightarrow> run list" where
  "select_runs only_failed limit runs =
     take (clamp 100 limit) (newest_first (filter (\<lambda>r. \<not> (only_failed \<and> rn_all_success r)) runs))"

definition recent_runs :: "client \<Rightarrow> bool \<Rightarrow> int \<Rightarrow> run list tool" where
  "recent_runs c only_failed limit =
     bindT (result_rows c []) (\<lambda>rows. retT (select_runs only_failed limit (group_rows c rows)))"

definition jupyter_instances :: "client \<Rightarrow> json tool" where
  "jupyter_instances c =
     bindT (send c (get_request ''/api/v1/jupyter/instances'' [])) (\<lambda>r.
     bindT (rows_of r ''/api/v1/jupyter/instances'') (\<lambda>body.
     case body of JList _ \<Rightarrow> retT body
     | _ \<Rightarrow> bindT (liftT (as_dict body)) (\<lambda>d. retT (dict_get_or d ''instances'' (JList [])))))"

definition is_peer :: "dict \<Rightarrow> dict \<Rightarrow> exn + bool" where
  "is_peer target row =
     bindE (item target ''run_id'') (\<lambda>rid.
     bindE (item target ''gpu_count'') (\<lambda>gc.
     Inr (dict_get row ''run_id'' \<noteq> rid \<and> dict_get row ''gpu_count'' = gc \<and>
       dict_get row ''total_token_throughput'' \<noteq> JNull)))"

definition peer_filters :: "dict \<Rightarrow> exn + dict" where
  "peer_filters target =
     bindE (mapE (\<lambda>(k, f). bindE (item target f) (\<lambda>v. Inr (k, v)))
       [(''model'', ''model_name''), (''gpu_type'', ''gpu_type''), (''concurrency'', ''concurrency''),
        (''precision'', ''precision''), (''input_tokens'', ''input_tokens''), (''output_tokens'', ''output_tokens'')]) (\<lambda>fs.
     Inr (fs @ [(''workload_type'', dict_get target ''workload_type''), (''status'', JStr ''success'')]))"

fun filterE :: "('a \<Rightarrow> exn + bool) \<Rightarrow> 'a list \<Rightarrow> exn + 'a list" where
  "filterE f [] = Inr []"
| "filterE f (x # xs) = bindE (f x) (\<lambda>b. bindE (filterE f xs) (\<lambda>ys. Inr (if b then x # ys else ys)))"

definition comparable_results :: "client \<Rightarrow> dict \<Rightarrow> int \<Rightarrow> read_row list tool" where
  "comparable_results c target limit =
     bindT (liftT (peer_filters target)) (\<lambda>filters.
     bindT (result_rows c filters) (\<lambda>rows.
     bindT (liftT (filterE (is_peer target) rows)) (\<lambda>peers.
     retT (take (clamp 50 limit) (map (bench c) peers)))))"

record found_run =
  fr_id :: json
  fr_model_name :: json
  fr_state :: json
  fr_gpu_type :: json
  fr_gpu_count :: json

definition matches_term :: "client \<Rightarrow> string \<Rightarrow> dict \<Rightarrow> bool" where
  "matches_term c needle row =
     (contains_sub needle (py_lower (show_json c (dict_get_or row ''run_id'' (JStr [])))) \<or>
      contains_sub needle (py_lower (show_json c (dict_get_or row ''model_name'' (JStr [])))))"

definition add_found :: "dict \<Rightarrow> found_run list \<Rightarrow> found_run list" where
  "add_found row out =
     (if list_ex (\<lambda>r. fr_id r = dict_get row ''run_id'') out then out
      else out @ [\<lparr>fr_id = dict_get row ''run_id'', fr_model_name = dict_get row ''model_name'',
        fr_state = dict_get row ''status'', fr_gpu_type = dict_get row ''gpu_type'',
        fr_gpu_count = dict_get row ''gpu_count''\<rparr>])"

definition search_runs :: "client \<Rightarrow> string \<Rightarrow> int \<Rightarrow> found_run list tool" where
  "search_runs c term limit =
     bindT (result_rows c []) (\<lambda>rows.
     retT (take (clamp 100 limit) (fold add_found (filter (matches_term c (py_lower term)) rows) [])))"

section \<open>Grouping\<close>

definition rows_with :: "json \<Rightarrow> dict list \<Rightarrow> dict list" where
  "rows_with rid rows = filter (\<lambda>row. dict_get row ''run_id'' = rid) rows"

text \<open>What a run's summary says of its rows.\<close>

definition summarises :: "dict list \<Rightarrow> run \<Rightarrow> bool" where
  "summarises rows r =
     (rn_sub_runs r = length (rows_with (rn_run_id r) rows) \<and> 0 < rn_sub_runs r \<and>
      (rn_all_success r \<longleftrightarrow> list_all (\<lambda>row. dict_get row ''status'' = JStr ''success'') (rows_with (rn_run_id r) rows)))"

lemma rows_with_snoc [simp]:
  "rows_with k (rows @ [row]) = (if dict_get row ''run_id'' = k then rows_with k rows @ [row] else rows_with k rows)"
  by (simp add: rows_with_def)

lemma count_row_fields [simp]:
  "rn_run_id (count_row c row r) = rn_run_id r" "rn_sub_runs (count_row c row r) = Suc (rn_sub_runs r)"
  by (simp_all add: count_row_def)

lemma add_row_ids:
  "map rn_run_id (add_row c row rs) =
     (if dict_get row ''run_id'' \<in> rn_run_id ` set rs then map rn_run_id rs
      else map rn_run_id rs @ [dict_get row ''run_id''])"
  by (induction rs) (auto simp: new_run_def)

lemma add_row_summarises:
  assumes "list_all (summarises rows) rs" and "rn_run_id ` set rs = (\<lambda>x. dict_get x ''run_id'') ` set rows"
    and "distinct (map rn_run_id rs)"
  shows "list_all (summarises (rows @ [row])) (add_row c row rs)"
proof (cases "dict_get row ''run_id'' \<in> rn_run_id ` set rs")
  case True
  have "list_all (summarises rows) xs \<Longrightarrow> distinct (map rn_run_id xs) \<Longrightarrow> dict_get row ''run_id'' \<in> rn_run_id ` set xs \<Longrightarrow>
      list_all (summarises (rows @ [row])) (add_row c row xs)" for xs
  proof (induction xs)
    case (Cons r xs)
    show ?case
    proof (cases "rn_run_id r = dict_get row ''run_id''")
      case same: True
      then have "summarises (rows @ [row]) (count_row c row r)"
        using Cons.prems(1) by (auto simp: summarises_def count_row_def)
      moreover have "list_all (summarises (rows @ [row])) xs"
        using Cons.prems same by (auto simp: list_all_iff summarises_def)
      ultimately show ?thesis using same by simp
    next
      case False
      then show ?thesis using Cons by (auto simp: summarises_def)
    qed
  qed simp
  then show ?thesis using assms True by blast
next
  case False
  then have new: "rows_with (dict_get row ''run_id'') rows = []"
  proof -
    have "dict_get x ''run_id'' \<in> rn_run_id ` set rs" if "x \<in> set rows" for x
      unfolding assms(2) using that by (rule imageI)
    then have "dict_get x ''run_id'' \<noteq> dict_get row ''run_id''" if "x \<in> set rows" for x
      using False that by metis
    then show ?thesis by (simp add: rows_with_def filter_empty_conv)
  qed
  have "dict_get row ''run_id'' \<notin> rn_run_id ` set xs \<Longrightarrow> list_all (summarises rows) xs \<Longrightarrow>
      list_all (summarises (rows @ [row])) (add_row c row xs)" for xs
    by (induction xs) (auto simp: summarises_def new new_run_def count_row_def)
  then show ?thesis using False assms(1) by blast
qed

lemma group_rows_ok:
  "distinct (map rn_run_id (group_rows c rows)) \<and>
   rn_run_id ` set (group_rows c rows) = (\<lambda>x. dict_get x ''run_id'') ` set rows \<and>
   list_all (summarises rows) (group_rows c rows)"
proof (induction rows rule: rev_induct)
  case (snoc row rows)
  let ?g = "group_rows c rows"
  have g: "group_rows c (rows @ [row]) = add_row c row ?g" by (simp add: group_rows_def)
  have "set (map rn_run_id (add_row c row ?g)) = insert (dict_get row ''run_id'') (set (map rn_run_id ?g))"
    unfolding add_row_ids by auto
  then have "rn_run_id ` set (add_row c row ?g) = insert (dict_get row ''run_id'') (rn_run_id ` set ?g)" by simp
  then show ?case using snoc add_row_summarises unfolding g by (auto simp: add_row_ids)
qed (simp add: group_rows_def)

lemma newest_first_set [simp]: "set (newest_first rs) = set rs"
  by (simp add: newest_first_def)

text \<open>the runs a tool lists are distinct, each counts exactly the result rows of its id and is
called a success only when all of them are, at most the limit and never more than a hundred are
listed, and with \<open>only_failed\<close> none of them succeeded.\<close>

theorem listed_runs_summarise:
  "let listed = select_runs only_failed limit (group_rows c rows) in
     distinct (map rn_run_id listed) \<and> list_all (summarises rows) listed \<and>
     length listed \<le> nat (max 1 (min limit 100)) \<and> (only_failed \<longrightarrow> list_all (\<lambda>r. \<not> rn_all_success r) listed)"
proof -
  let ?kept = "filter (\<lambda>r. \<not> (only_failed \<and> rn_all_success r)) (group_rows c rows)"
  let ?listed = "select_runs only_failed limit (group_rows c rows)"
  note g = group_rows_ok [of c rows]
  have kept: "distinct (map rn_run_id ?kept)" using g by (simp add: distinct_map_filter)
  then have "distinct (map rn_run_id (newest_first ?kept))"
    by (auto simp: newest_first_def distinct_map inj_on_def)
  then have "distinct (map rn_run_id ?listed)"
    by (simp add: select_runs_def take_map [symmetric])
  moreover have sub: "set ?listed \<subseteq> set ?kept"
    unfolding select_runs_def using set_take_subset newest_first_set by metis
  then have "list_all (summarises rows) ?listed" using g by (auto simp: list_all_iff)
  moreover have "only_failed \<longrightarrow> list_all (\<lambda>r. \<not> rn_all_success r) ?listed" using sub by (auto simp: list_all_iff)
  moreover have "length ?listed \<le> nat (max 1 (min limit 100))" by (simp add: select_runs_def clamp_def)
  ultimately show ?thesis by (simp add: Let_def)
qed

definition quiet_client :: client where
  "quiet_client = \<lparr>answer = (\<lambda>_ _. Inl (ConnectError [])), rep_json = type_name, parse_iso = (\<lambda>_. Some 0),
     fmt_time = (\<lambda>_. [])\<rparr>"

definition sample_rows :: "dict list" where
  "sample_rows = [[(''run_id'', JStr ''a''), (''status'', JStr ''success'')],
     [(''run_id'', JStr ''b''), (''status'', JStr ''failed'')], [(''run_id'', JStr ''b''), (''status'', JStr ''success'')]]"

lemma listed_runs_summarise_witness:
  "\<exists>r. select_runs True 10 (group_rows quiet_client sample_rows) = [r] \<and> rn_run_id r = JStr ''b'' \<and>
     summarises sample_rows r \<and> \<not> rn_all_success r"
proof -
  obtain r where r: "select_runs True 10 (group_rows quiet_client sample_rows) = [r]" "rn_run_id r = JStr ''b''"
    by (simp add: select_runs_def group_rows_def sample_rows_def new_run_def count_row_def dict_get_def
        newest_first_def clamp_def)
  with listed_runs_summarise [of True 10 quiet_client sample_rows] show ?thesis
    by (auto simp: Let_def)
qed

end
