(* ===== verification/Actions.thy ===== *)
theory Actions
  imports Platform_Api "HOL-Library.List_Lexorder" "HOL-Library.Char_ord"
begin

text \<open>
  \<open>mcp-server/app/tools/actions.py\<close>: the four write tools. A tool's answer is a text, marked when the
  write succeeded (\<open>Done\<close>); the verified caller is an argument.
\<close>

datatype tool_text = Done string | Plain string

definition MODEL_INFO_KEYS :: "string list" where
  "MODEL_INFO_KEYS = [''gated'', ''license'', ''license_url'', ''hf_repo'']"

definition FILLABLE :: "string list" where
  "FILLABLE = [''gpu_count'', ''concurrency'', ''max_model_len'', ''dataset_path'']"

section \<open>The run's configuration\<close>

definition is_blank_value :: "json \<Rightarrow> bool" where
  "is_blank_value v = (case v of JNull \<Rightarrow> True | JStr s \<Rightarrow> py_strip s = [] | _ \<Rightarrow> False)"

definition blank_fields :: "dict \<Rightarrow> string list" where
  "blank_fields config = sort (map fst (filter (\<lambda>(k, v). is_blank_value v) config))"

fun override :: "dict \<times> string list \<Rightarrow> string \<times> json \<Rightarrow> dict \<times> string list" where
  "override (config, unsupported) (name, value) =
     (if value = JNull \<or> value = JStr [] then (config, unsupported)
      else if map_of config name \<noteq> None then (dict_set config name value, unsupported)
      else (config, unsupported @ [name]))"

definition resolve_config :: "dict \<Rightarrow> dict \<Rightarrow> dict \<times> string list" where
  "resolve_config cfg_full overrides =
     (case foldl override (filter (\<lambda>(k, v). k \<notin> set MODEL_INFO_KEYS) cfg_full, []) overrides of
        (config, unsupported) \<Rightarrow> (config, sort unsupported))"

definition caller_sub :: "identity option \<Rightarrow> json" where
  "caller_sub who = (case who of None \<Rightarrow> JNull | Some w \<Rightarrow> JStr (id_sub w))"

definition start_payload :: "identity option \<Rightarrow> string \<Rightarrow> string \<Rightarrow> dict \<Rightarrow> dict" where
  "start_payload who model node_ip config = [(''model_name'', JStr model), (''node_ips'', JList [JStr node_ip]),
     (''config'', JObj config), (''created_by'', caller_sub who)]"

definition detail_of :: "client \<Rightarrow> http_response \<Rightarrow> string" where
  "detail_of c r = (case hr_json r of
      Inl _ \<Rightarrow> take 300 (hr_text r)
    | Inr body \<Rightarrow> take 300 (show_json c (case body of JObj d \<Rightarrow> dict_get_or d ''detail'' body | _ \<Rightarrow> body)))"

definition cfg_lines :: "client \<Rightarrow> dict \<Rightarrow> string" where
  "cfg_lines c config = py_join nl (map (\<lambda>(k, v). ''    '' @ k @ '': '' @ show_json c v) config)"

definition workload_started :: "client \<Rightarrow> json \<Rightarrow> string \<Rightarrow> string \<Rightarrow> dict \<Rightarrow> bool \<Rightarrow> string" where
  "workload_started c task_id model node_ip config gated = py_join nl
     ([''STARTED benchmark `'' @ model @ ''` on '' @ node_ip @ ''.'', ''  task_id: '' @ show_json c task_id, ''  config:'',
       cfg_lines c config] @
      (if gated then [''  '' @ u_warning @ '' gated model '' @ u_dash @ '' the node needs HF_TOKEN in ~/.aistudio/env for it.'']
       else []) @
      [''Follow it with get_task_status or get_task_logs.''])"

definition needs_value :: "client \<Rightarrow> string \<Rightarrow> string \<Rightarrow> dict \<Rightarrow> string" where
  "needs_value c model node_ip config =
     (let blank = blank_fields config; stuck = filter (\<lambda>f. f \<notin> set FILLABLE) blank in
      if stuck \<noteq> [] then
        ''Can'' @ [sq] @ ''t start `'' @ model @ ''` on '' @ node_ip @ '' from here: its catalog entry leaves '' @
        py_join '', '' stuck @ '' blank, and this tool has no parameter for '' @
        (if length stuck > 1 then ''them'' else ''it'') @ ''. Do NOT ask the user to supply '' @
        (if length stuck > 1 then ''these'' else ''this'') @ '' - say the model'' @ [sq] @ ''s catalog entry '' @
        ''(catalog.json) has to be completed first, then the run can be started.'' @ nl @
        ''Current config:'' @ nl @ cfg_lines c config
      else
        (let n = length blank in
         ''Can'' @ [sq] @ ''t start this run yet: `'' @ model @ ''` on '' @ node_ip @ '' needs '' @
         (if n = 1 then ''a value for '' else ''values for all '' @ show_nat n @ '' of these: '') @
         py_join '', '' blank @ ''. Current config:'' @ nl @ cfg_lines c config @ nl @
         ''Ask the user for '' @ (if n = 1 then ''that value'' else ''every one of those '' @ show_nat n @ '' values'') @
         '' - for dataset_path it'' @ [sq] @ ''s an absolute path to a ShareGPT-format JSON file '' @
         ''that already exists on the node. Don'' @ [sq] @ ''t guess any of them.''))"

section \<open>Starting\<close>

definition post :: "client \<Rightarrow> string \<Rightarrow> dict \<Rightarrow> http_response tool" where
  "post c path body = send c \<lparr>rq_method = ''POST'', rq_path = path, rq_params = [], rq_body = Some body\<rparr>"

definition fetch_config :: "client \<Rightarrow> string \<Rightarrow> json tool" where
  "fetch_config c model = catchT
     (bindT (send c (get_request ''/api/v1/models/config'' [(''model'', JStr model)])) (\<lambda>r.
      bindT (raise_for_status r) (\<lambda>_. liftT (hr_json r))))
     (\<lambda>e. raiseT (ToolError (''Couldn'' @ [sq] @ ''t fetch default config for '' @ py_repr model @ '' from aistudio ('' @
        tool_exn_text e @ ''). '' @ ''Not starting a run.'')))"

definition unsupported_text :: "client \<Rightarrow> string \<Rightarrow> string list \<Rightarrow> dict \<Rightarrow> string" where
  "unsupported_text c model unsupported config =
     ''`'' @ model @ ''` doesn'' @ [sq] @ ''t expose '' @ py_join '', '' unsupported @ '' as a configurable knob. '' @
     ''Its config is:'' @ nl @ cfg_lines c config @ nl @
     ''Drop that override (or name one of the fields above) and I'' @ [sq] @ ''ll start the run.''"

definition start_workload ::
  "client \<Rightarrow> identity option \<Rightarrow> string \<Rightarrow> string \<Rightarrow> string \<Rightarrow> int option \<Rightarrow> int option \<Rightarrow> int option \<Rightarrow> tool_text tool" where
  "start_workload c who model node_ip dataset_path gpu_count concurrency max_model_len =
     (let number = (\<lambda>x. case x of None \<Rightarrow> JNull | Some i \<Rightarrow> JInt i) in
      if contains_sub ''jupyter'' (py_lower model)
      then retT (Plain (''Jupyter is not a benchmark model. To launch a Jupyter notebook use '' @
        ''start_jupyter(node_ip=...) instead - it needs only a target node.''))
      else if node_ip = []
      then retT (Plain (''To start `'' @ model @ ''` I need a target node (its IP or hostname). '' @
        ''Tell me the node and I'' @ [sq] @ ''ll start the run.''))
      else
        bindT (fetch_config c model) (\<lambda>body.
        bindT (liftT (case body of JObj d \<Rightarrow> Inr d | _ \<Rightarrow> Inl (no_attribute body ''items''))) (\<lambda>cfg_full.
        case resolve_config cfg_full [(''gpu_count'', number gpu_count), (''concurrency'', number concurrency),
            (''max_model_len'', number max_model_len), (''dataset_path'', JStr dataset_path)] of
          (config, unsupported) \<Rightarrow>
            if unsupported \<noteq> [] then retT (Plain (unsupported_text c model unsupported config))
            else if blank_fields config \<noteq> [] then retT (Plain (needs_value c model node_ip config))
            else
              bindT (post c ''/api/v1/benchmarks/start'' (start_payload who model node_ip config)) (\<lambda>r.
              if hr_status r \<ge> 400
              then raiseT (ToolError (''aistudio refused to start `'' @ model @ ''` on '' @ node_ip @ '' ('' @
                show_nat (hr_status r) @ ''): '' @ detail_of c r))
              else
                bindT (liftT (bindE (hr_json r) as_dict)) (\<lambda>answer.
                retT (Done (workload_started c (dict_get answer ''task_id'') model node_ip config
                  (truthy (dict_get cfg_full ''gated'')))))))))"

definition start_jupyter :: "client \<Rightarrow> identity option \<Rightarrow> string \<Rightarrow> tool_text tool" where
  "start_jupyter c who node_ip =
     (if node_ip = []
      then retT (Plain ''To launch Jupyter I need a target node (its IP or hostname). Tell me the node.'')
      else
        bindT (post c ''/api/v1/jupyter/launch'' [(''node_ip'', JStr node_ip), (''created_by'', caller_sub who)]) (\<lambda>r.
        if hr_status r \<ge> 400
        then raiseT (ToolError (''aistudio refused to launch Jupyter on '' @ node_ip @ '' ('' @ show_nat (hr_status r) @
          ''): '' @ detail_of c r))
        else
          bindT (liftT (bindE (hr_json r) as_dict)) (\<lambda>answer.
          retT (Done (''Jupyter Lab is launching on '' @ node_ip @ ''.'' @ nl @ ''  task_id: '' @
            show_json c (dict_get answer ''task_id'') @ nl @
            ''Check progress with get_task_status; the notebook URL appears once it is READY.'')))))"

section \<open>Stopping and deleting\<close>

definition require_creator :: "client \<Rightarrow> identity option \<Rightarrow> string \<Rightarrow> unit tool" where
  "require_creator c who task_id =
     (case who of
        None \<Rightarrow> raiseT (ToolError ''Refused: no verified caller.'')
      | Some w \<Rightarrow>
          if id_role w = Some ''admin'' then retT ()
          else
            bindT (catchT (platform_workload c task_id)
              (\<lambda>e. raiseT (ToolError (''Refused: could not read who started '' @ task_id @ '' ('' @ tool_exn_name e @ '': '' @
                tool_exn_text e @ ''), '' @ ''so only an admin can act on it now.'')))) (\<lambda>workload.
            let creator = (case workload of None \<Rightarrow> JNull | Some row \<Rightarrow> dict_get (wr_row row) ''created_by'') in
            if truthy creator \<and> creator = JStr (id_sub w) then retT ()
            else raiseT (ToolError (''Refused: only the user who started '' @ task_id @ '' or an aistudio admin can stop or '' @
              ''delete it, and '' @
              (if truthy creator then ''it was started by '' @ show_json c creator
               else ''aistudio has no creator on record for it (started before creators were recorded, '' @
                 ''or through the UI or REST API without one)'') @ ''. Ask an admin to do it.''))))"

definition id_char :: "char \<Rightarrow> bool" where
  "id_char ch = (is_alnum ch \<or> ch \<in> set ''._-'')"

definition id_shaped :: "string \<Rightarrow> nat \<Rightarrow> string \<Rightarrow> bool" where
  "id_shaped lead most s = (starts_with lead s \<and>
     (let rest = drop (length lead) s in 1 \<le> length rest \<and> length rest \<le> most \<and> list_all id_char rest))"

definition checked_id :: "string \<Rightarrow> string \<Rightarrow> nat \<Rightarrow> string \<Rightarrow> string tool" where
  "checked_id value lead most shape =
     (let v = py_strip value in
      if \<not> id_shaped lead most v
      then raiseT (ToolError (py_repr v @ '' is not an id of the form '' @ shape @ ''. Ask the user for the exact id; '' @
        ''do not guess one.''))
      else retT v)"

definition delete_request :: "string \<Rightarrow> http_request" where
  "delete_request path = \<lparr>rq_method = ''DELETE'', rq_path = path, rq_params = [], rq_body = None\<rparr>"

definition stop_answer :: "client \<Rightarrow> string \<Rightarrow> http_response \<Rightarrow> tool_text tool" where
  "stop_answer c task_id r =
     (if hr_status r \<ge> 400
      then raiseT (ToolError (''aistudio refused to stop notebook '' @ task_id @ '' ('' @ show_nat (hr_status r) @ ''): '' @
        detail_of c r))
      else retT (Done (''Stopped Jupyter notebook '' @ task_id @ '' and removed its record.'')))"

definition stop_jupyter :: "client \<Rightarrow> identity option \<Rightarrow> string \<Rightarrow> tool_text tool" where
  "stop_jupyter c who task_id =
     bindT (checked_id task_id ''jup-'' 124 ''jup-YYYYMMDD-xxxxxx'') (\<lambda>task_id.
     bindT (require_creator c who task_id) (\<lambda>_.
     bindT (send c (delete_request (''/api/v1/jupyter/instances/'' @ url_quote task_id))) (stop_answer c task_id)))"

definition delete_answer :: "client \<Rightarrow> string \<Rightarrow> http_response \<Rightarrow> tool_text tool" where
  "delete_answer c run_id r =
     (if hr_status r \<ge> 400
      then raiseT (ToolError (''aistudio refused to delete run '' @ run_id @ '' ('' @ show_nat (hr_status r) @ ''): '' @
        detail_of c r))
      else
        bindT (liftT (bindE (hr_json r) as_dict)) (\<lambda>answer.
        retT (Done (''Deleted run '' @ run_id @ [sq] @ ''s recorded results ('' @
          show_json c (dict_get_or answer ''rows_deleted'' (JStr ''?'')) @ '' row(s)). '' @
          ''This cannot be undone. Any throughput_compare baseline that relied on this '' @
          ''run is lost with it, and nothing was cancelled: a run still in flight keeps going.''))))"

definition delete_run_results :: "client \<Rightarrow> identity option \<Rightarrow> string \<Rightarrow> tool_text tool" where
  "delete_run_results c who run_id =
     bindT (checked_id run_id ''wl-'' 125 ''wl-YYYYMMDD-xxxxxx'') (\<lambda>run_id.
     bindT (require_creator c who run_id) (\<lambda>_.
     bindT (send c (delete_request (''/api/v1/benchmarks/'' @ url_quote run_id))) (delete_answer c run_id)))"

section \<open>Who may delete\<close>

text \<open>The platform, asked for the task, answered that this user started it.\<close>

definition platform_says_creator :: "client \<Rightarrow> identity \<Rightarrow> string \<Rightarrow> bool" where
  "platform_says_creator c w task_id = (\<exists>path r row. status_path task_id [] = (Inr path, []) \<and>
     answer c 0 (get_request path []) = Inr r \<and> hr_status r < 400 \<and> hr_json r = Inr (JObj row) \<and>
     dict_get row ''created_by'' = JStr (id_sub w) \<and> id_sub w \<noteq> [])"

lemma status_path_pure: "snd (status_path t h) = h" "fst (status_path t h) = fst (status_path t [])"
  by (simp_all add: status_path_def seg_path_def retT_def raiseT_def split: sum.splits)

lemma workload_answer:
  assumes "platform_workload c t h = (Inr (Some row), h')"
  shows "\<exists>path r raw. status_path t [] = (Inr path, []) \<and> answer c (length h) (get_request path []) = Inr r \<and>
    hr_status r < 400 \<and> hr_json r = Inr (JObj raw) \<and>
    wr_row row = dict_set raw ''workload_id'' (json_or (dict_get raw ''workload_id'') (JStr t))"
proof -
  obtain path where p: "status_path t h = (Inr path, h)" "status_path t [] = (Inr path, [])"
    using assms status_path_pure [of t h] status_path_pure(1) [of t "[]"]
    by (cases "fst (status_path t [])"; cases "status_path t h"; cases "status_path t []")
      (auto simp: platform_workload_def bindT_def)
  obtain r where r: "answer c (length h) (get_request path []) = Inr r"
    using assms p(1) by (cases "answer c (length h) (get_request path [])")
      (auto simp: platform_workload_def bindT_def send_def)
  obtain raw where raw: "hr_status r < 400" "hr_json r = Inr raw"
    using assms p(1) r by (cases "hr_json r")
      (auto simp: platform_workload_def bindT_def send_def rows_of_def retT_def raiseT_def liftT_def split: if_splits)
  then obtain d where "raw = JObj d"
    using assms p(1) r by (cases raw)
      (auto simp: platform_workload_def bindT_def send_def rows_of_def retT_def raiseT_def liftT_def as_dict_def split: if_splits)
  then show ?thesis using assms p r raw
    by (auto simp: platform_workload_def bindT_def send_def rows_of_def retT_def raiseT_def liftT_def as_dict_def split: if_splits)
qed

lemma require_creator_ok:
  assumes "require_creator c who t [] = (Inr u, h')"
  shows "\<exists>w. who = Some w \<and> (id_role w = Some ''admin'' \<or> platform_says_creator c w t)"
proof -
  obtain w where w: "who = Some w" using assms by (cases who) (auto simp: require_creator_def raiseT_def)
  show ?thesis
  proof (cases "id_role w = Some ''admin''")
    case False
    let ?read = "catchT (platform_workload c t)
        (\<lambda>e. raiseT (ToolError (''Refused: could not read who started '' @ t @ '' ('' @ tool_exn_name e @ '': '' @
          tool_exn_text e @ ''), '' @ ''so only an admin can act on it now.'')))"
    obtain wl h1 where wl: "platform_workload c t [] = (Inr wl, h1)"
      using assms w False
      by (cases "platform_workload c t []"; cases "fst (platform_workload c t [])")
        (auto simp: require_creator_def bindT_def catchT_def raiseT_def)
    then obtain row where row: "wl = Some row" "dict_get (wr_row row) ''created_by'' = JStr (id_sub w)" "id_sub w \<noteq> []"
      using assms w False
      by (cases wl) (auto simp: require_creator_def bindT_def catchT_def raiseT_def retT_def Let_def split: if_splits)
    then have "platform_says_creator c w t"
      using workload_answer [of c t "[]" row h1] wl by (auto simp: platform_says_creator_def)
    then show ?thesis using w by blast
  qed (use w in blast)
qed

definition is_get :: "http_request \<Rightarrow> bool" where "is_get rq = (rq_method rq = ''GET'')"

lemma sends_rows_of [sends_rules]: "sends P (rows_of r what)"
  unfolding rows_of_def by (intro sends_rules)

lemma sends_seg_path [sends_rules]: "sends P (seg_path base v rest)"
  unfolding seg_path_def by (cases "seg v") (simp_all add: sends_rules)

lemma sends_require_creator: "sends is_get (require_creator c who t)"
  unfolding require_creator_def platform_workload_def status_path_def Let_def
  by (intro sends_rules) (simp_all add: is_get_def get_request_def)

lemma quote_id: "list_all id_char s \<Longrightarrow> url_quote s = s"
  by (induction s) (auto simp: url_quote_def quote_char_def is_unreserved_def id_char_def)

lemma quote_shaped: "id_shaped lead n s \<Longrightarrow> list_all id_char lead \<Longrightarrow> url_quote s = s"
proof -
  assume a: "id_shaped lead n s" "list_all id_char lead"
  then have "list_all id_char (lead @ drop (length lead) s)" by (simp add: id_shaped_def Let_def)
  moreover have "lead @ drop (length lead) s = s"
    using a(1) by (auto simp: id_shaped_def starts_with_prefix prefix_def)
  ultimately show ?thesis using quote_id by simp
qed

text \<open>The shape both tools have: check the id, check the caller, delete, answer.\<close>

definition guarded_delete ::
  "client \<Rightarrow> identity option \<Rightarrow> string \<Rightarrow> string \<Rightarrow> nat \<Rightarrow> string \<Rightarrow> string \<Rightarrow> (string \<Rightarrow> http_response \<Rightarrow> tool_text tool) \<Rightarrow> tool_text tool" where
  "guarded_delete c who v lead n shape base k =
     bindT (checked_id v lead n shape) (\<lambda>i.
     bindT (require_creator c who i) (\<lambda>_.
     bindT (send c (delete_request (base @ url_quote i))) (k i)))"

lemma guarded_delete_trace:
  assumes "rq \<in> set (snd (guarded_delete c who v lead n shape base k []))" and "rq_method rq = ''DELETE''"
    and "\<And>i r h. snd (k i r h) = h" and "list_all id_char lead"
  shows "\<exists>w. who = Some w \<and> id_shaped lead n (py_strip v) \<and> rq_path rq = base @ py_strip v \<and>
    (id_role w = Some ''admin'' \<or> platform_says_creator c w (py_strip v))"
proof -
  have s: "id_shaped lead n (py_strip v)"
    using assms(1) by (auto simp: guarded_delete_def checked_id_def bindT_def raiseT_def Let_def split: if_splits)
  let ?i = "py_strip v"
  obtain res h1 where rc: "require_creator c who ?i [] = (res, h1)" by fastforce
  have gets: "list_all is_get h1"
    using sends_require_creator [of c who ?i] rc unfolding sends_def by (metis append_Nil snd_conv)
  have "rq \<notin> set h1" using gets assms(2) by (auto simp: list_all_iff is_get_def)
  then obtain u where u: "res = Inr u"
    using assms(1) s rc by (cases res) (auto simp: guarded_delete_def checked_id_def bindT_def retT_def Let_def)
  have "snd (guarded_delete c who v lead n shape base k []) = h1 @ [delete_request (base @ url_quote ?i)]"
    using s rc u assms(3)
    by (cases "answer c (length h1) (delete_request (base @ url_quote ?i))")
      (auto simp: guarded_delete_def checked_id_def bindT_def retT_def send_def Let_def)
  then have "rq = delete_request (base @ url_quote ?i)" using assms(1) \<open>rq \<notin> set h1\<close> by auto
  then show ?thesis using s require_creator_ok [of c who ?i u h1] rc u quote_shaped [OF s assms(4)]
    by (auto simp: delete_request_def)
qed

lemma deletes_traced:
  assumes "tool = stop_jupyter c who task_id \<and> lead = ''jup-'' \<and> base = ''/api/v1/jupyter/instances/'' \<or>
      tool = delete_run_results c who task_id \<and> lead = ''wl-'' \<and> base = ''/api/v1/benchmarks/''"
    and "rq \<in> set (snd (tool []))" and "rq_method rq = ''DELETE''"
  shows "\<exists>w. who = Some w \<and> (id_role w = Some ''admin'' \<or> platform_says_creator c w (py_strip task_id)) \<and>
    rq_path rq = base @ py_strip task_id \<and> starts_with lead (py_strip task_id) \<and> list_all id_char (py_strip task_id)"
proof -
  have whole: "id_shaped lead n s \<Longrightarrow> list_all id_char lead \<Longrightarrow> starts_with lead s \<and> list_all id_char s" for n s lead
    unfolding id_shaped_def starts_with_def Let_def by (metis append_take_drop_id list_all_append)
  have answers: "snd (stop_answer c i r h) = h" "snd (delete_answer c i r h) = h" for i r h
    by (simp_all add: stop_answer_def delete_answer_def tool_defs split: sum.splits)
  have l: "list_all id_char ''jup-''" "list_all id_char ''wl-''" by code_simp+
  from assms(1) show ?thesis
  proof
    assume a: "tool = stop_jupyter c who task_id \<and> lead = ''jup-'' \<and> base = ''/api/v1/jupyter/instances/''"
    then have t: "tool = guarded_delete c who task_id ''jup-'' 124 ''jup-YYYYMMDD-xxxxxx'' base (stop_answer c)"
      by (simp add: stop_jupyter_def guarded_delete_def)
    from guarded_delete_trace [OF assms(2) [unfolded t] assms(3) answers(1) l(1)] show ?thesis
      using whole l(1) a by blast
  next
    assume a: "tool = delete_run_results c who task_id \<and> lead = ''wl-'' \<and> base = ''/api/v1/benchmarks/''"
    then have t: "tool = guarded_delete c who task_id ''wl-'' 125 ''wl-YYYYMMDD-xxxxxx'' base (delete_answer c)"
      by (simp add: delete_run_results_def guarded_delete_def)
    from guarded_delete_trace [OF assms(2) [unfolded t] assms(3) answers(2) l(2)] show ?thesis
      using whole l(2) a by blast
  qed
qed

text \<open>C22: a notebook is only stopped, and a run's results only deleted, for an administrator or for the
user the platform names as its creator, and the request can only name that one record: the id has the
tool's prefix and no character that could lead to another route.\<close>

theorem deletes_by_creator_only:
  assumes "tool = stop_jupyter c who task_id \<and> lead = ''jup-'' \<and> base = ''/api/v1/jupyter/instances/'' \<or>
      tool = delete_run_results c who task_id \<and> lead = ''wl-'' \<and> base = ''/api/v1/benchmarks/''"
    and "rq \<in> set (snd (tool []))" and "rq_method rq = ''DELETE''"
  shows "\<exists>w. who = Some w \<and> (id_role w = Some ''admin'' \<or> platform_says_creator c w (py_strip task_id)) \<and>
    rq_path rq = base @ py_strip task_id \<and> starts_with lead (py_strip task_id) \<and> list_all id_char (py_strip task_id)"
  by (rule deletes_traced [OF assms])

lemma record_eq_delete:
  "rq \<in> A \<Longrightarrow> rq_method rq = ''DELETE'' \<Longrightarrow> rq_path rq = p \<Longrightarrow> rq_params rq = [] \<Longrightarrow> rq_body rq = None \<Longrightarrow> delete_request p \<in> A"
  by (cases rq) (simp add: delete_request_def)

definition ann :: identity where "ann = \<lparr>id_sub = ''ann'', id_role = Some ''operator'', id_client_id = None\<rparr>"

definition anns_platform :: client where
  "anns_platform = \<lparr>answer = (\<lambda>_ rq. Inr \<lparr>hr_status = 200, hr_json = Inr (JObj [(''created_by'', JStr ''ann'')]), hr_text = []\<rparr>),
     rep_json = type_name, parse_iso = (\<lambda>_. None), fmt_time = (\<lambda>_. [])\<rparr>"

lemma deletes_by_creator_only_witness:
  "delete_request ''/api/v1/jupyter/instances/jup-1'' \<in> set (snd (stop_jupyter anns_platform (Some ann) ''jup-1'' [])) \<and>
   platform_says_creator anns_platform ann ''jup-1''"
proof -
  have "list_ex (\<lambda>rq. rq_method rq = ''DELETE'' \<and> rq_path rq = ''/api/v1/jupyter/instances/jup-1'' \<and> rq_params rq = [] \<and>
      rq_body rq = None) (snd (stop_jupyter anns_platform (Some ann) ''jup-1'' []))"
    by code_simp
  then have mem: "delete_request ''/api/v1/jupyter/instances/jup-1'' \<in>
      set (snd (stop_jupyter anns_platform (Some ann) ''jup-1'' []))" (is "?rq \<in> _")
    unfolding list_ex_iff using record_eq_delete by blast
  have "py_strip ''jup-1'' = ''jup-1''" by code_simp
  with deletes_by_creator_only [where tool = "stop_jupyter anns_platform (Some ann) ''jup-1''", OF _ mem,
      of anns_platform "Some ann" "''jup-1''" "''jup-''" "''/api/v1/jupyter/instances/''"] mem
  show ?thesis by (simp add: ann_def delete_request_def)
qed

section \<open>What a started run is\<close>

lemma override_entries:
  "map fst (fst (override (d, u) nv)) = map fst d \<and> set (fst (override (d, u) nv)) \<subseteq> insert nv (set d)"
proof -
  have k: "map_of d k \<noteq> None \<Longrightarrow> map fst (dict_set d k v) = map fst d" for k v by (induction d) auto
  have s: "set (dict_set d k v) \<subseteq> insert (k, v) (set d)" for k v
    by (induction d) (auto split: if_splits)
  show ?thesis using k s by (cases nv) auto
qed

lemma overrides_entries:
  "map fst (fst (foldl override (d, u) ovs)) = map fst d \<and> set (fst (foldl override (d, u) ovs)) \<subseteq> set d \<union> set ovs"
proof (induction ovs arbitrary: d u)
  case (Cons nv ovs)
  obtain d' u' where o: "override (d, u) nv = (d', u')" by fastforce
  then have "map fst d' = map fst d" "set d' \<subseteq> insert nv (set d)" using override_entries [of d u nv] by auto
  moreover note Cons [of d' u']
  ultimately show ?case using o by auto
qed simp

definition run_config :: "dict \<Rightarrow> dict" where
  "run_config cfg = filter (\<lambda>(k, v). k \<notin> set MODEL_INFO_KEYS) cfg"

lemma resolved_entries:
  assumes "resolve_config cfg ovs = (config, unsupported)"
  shows "map fst config = map fst (run_config cfg) \<and> set config \<subseteq> set (run_config cfg) \<union> set ovs"
  using assms overrides_entries [of "run_config cfg" "[]" ovs]
  by (auto simp: resolve_config_def run_config_def split: prod.splits)

definition start_overrides :: "string \<Rightarrow> int option \<Rightarrow> int option \<Rightarrow> int option \<Rightarrow> dict" where
  "start_overrides dataset_path gpu_count concurrency max_model_len =
     (let number = (\<lambda>x. case x of None \<Rightarrow> JNull | Some i \<Rightarrow> JInt i) in
      [(''gpu_count'', number gpu_count), (''concurrency'', number concurrency),
       (''max_model_len'', number max_model_len), (''dataset_path'', JStr dataset_path)])"

definition catalog_config :: "client \<Rightarrow> string \<Rightarrow> dict \<Rightarrow> bool" where
  "catalog_config c model cfg =
     (\<exists>r. answer c 0 (get_request ''/api/v1/models/config'' [(''model'', JStr model)]) = Inr r \<and>
       200 \<le> hr_status r \<and> hr_status r < 300 \<and> hr_json r = Inr (JObj cfg))"

lemma fetch_config_ok:
  assumes "fetch_config c model [] = (Inr body, h)"
  shows "h = [get_request ''/api/v1/models/config'' [(''model'', JStr model)]] \<and> (body = JObj cfg \<longrightarrow> catalog_config c model cfg)"
  using assms by (auto simp: fetch_config_def tool_defs catalog_config_def split: sum.splits if_splits)

lemma fetch_config_gets: "list_all is_get (snd (fetch_config c model []))"
  by (auto simp: fetch_config_def tool_defs is_get_def get_request_def split: sum.splits)

text \<open>a run is only started for a named node with the model's catalogue configuration just read
from the platform: exactly its run fields, each with the catalogue's value or the one the caller gave,
none of them blank, and the verified caller is recorded as its creator.\<close>

theorem started_config_complete:
  assumes "rq \<in> set (snd (start_workload c who model node_ip dataset_path gpu_count concurrency max_model_len []))"
    and "rq_method rq = ''POST''"
  shows "\<exists>cfg config. catalog_config c model cfg \<and> node_ip \<noteq> [] \<and> rq_path rq = ''/api/v1/benchmarks/start'' \<and>
    rq_body rq = Some (start_payload who model node_ip config) \<and> blank_fields config = [] \<and>
    map fst config = map fst (run_config cfg) \<and>
    set config \<subseteq> set (run_config cfg) \<union> set (start_overrides dataset_path gpu_count concurrency max_model_len)"
proof -
  let ?ovs = "start_overrides dataset_path gpu_count concurrency max_model_len"
  obtain res h where f: "fetch_config c model [] = (res, h)" by fastforce
  have "rq \<notin> set h" using fetch_config_gets [of c model] f assms(2) by (auto simp: list_all_iff is_get_def)
  note start = assms(1) [unfolded start_workload_def Let_def]
  obtain body where body: "res = Inr body" using start f \<open>rq \<notin> set h\<close>
    by (cases res) (auto simp: tool_defs split: if_splits)
  obtain cfg where cfg: "body = JObj cfg" using start f body \<open>rq \<notin> set h\<close>
    by (cases body) (auto simp: tool_defs split: if_splits)
  obtain config unsupported where rc: "resolve_config cfg ?ovs = (config, unsupported)" by fastforce
  have "node_ip \<noteq> []" "blank_fields config = []" "rq_body rq = Some (start_payload who model node_ip config)"
      "rq_path rq = ''/api/v1/benchmarks/start''"
    using start f body cfg rc \<open>rq \<notin> set h\<close>
    by (auto simp: tool_defs start_overrides_def Let_def post_def split: if_splits sum.splits)
  then show ?thesis using fetch_config_ok f body cfg resolved_entries [OF rc] by blast
qed

definition small_catalog :: client where
  "small_catalog = \<lparr>answer = (\<lambda>_ rq. Inr \<lparr>hr_status = 200, hr_json = Inr (JObj [(''gpu_count'', JInt 1),
       (''dataset_path'', JStr []), (''gated'', JBool False)]), hr_text = []\<rparr>),
     rep_json = type_name, parse_iso = (\<lambda>_. None), fmt_time = (\<lambda>_. [])\<rparr>"

lemma started_config_complete_witness:
  "\<exists>config. start_payload (Some ann) ''m'' ''n1'' config \<in> {b. \<exists>rq \<in> set (snd (start_workload small_catalog (Some ann)
       ''m'' ''n1'' ''/d.json'' None None None [])). rq_body rq = Some b} \<and> blank_fields config = []"
proof -
  have "list_ex (\<lambda>rq. rq_method rq = ''POST'')
      (snd (start_workload small_catalog (Some ann) ''m'' ''n1'' ''/d.json'' None None None []))"
    by code_simp
  then obtain rq where rq: "rq \<in> set (snd (start_workload small_catalog (Some ann) ''m'' ''n1'' ''/d.json'' None None None []))"
      "rq_method rq = ''POST''"
    by (auto simp: list_ex_iff)
  show ?thesis using started_config_complete [OF rq] rq(1) by blast
qed

end
