(* ===== verification/Run_Reports.thy ===== *)
theory Run_Reports
  imports Platform_Api "HOL-Library.List_Lexorder" "HOL-Library.Char_ord"
begin

text \<open>
  The tools of \<open>mcp-server/app/tools/aistudio.py\<close> that report on runs: \<open>workload_history\<close> and
  \<open>throughput_compare\<close> with their formatters. The rows are JSON of the platform; where a value has
  a type its schema does not allow, the exception is Python's, its wording only for the first value.
\<close>

definition u_times :: string where "u_times = [CHR 0xC3, CHR 0x97]"
definition u_range :: string where "u_range = [CHR 0xE2, CHR 0x80, CHR 0x93]"
definition u_play :: string where "u_play = [CHR 0xE2, CHR 0x96, CHR 0xB6]"

definition may_open :: "identity option \<Rightarrow> dict option \<Rightarrow> bool" where
  "may_open who row =
     (let creator = dict_get (dict_or_empty row) ''created_by'' in
      case who of None \<Rightarrow> False
      | Some w \<Rightarrow> id_role w = Some ''admin'' \<or> (truthy creator \<and> creator = JStr (id_sub w)))"

definition URL_HIDDEN :: string where
  "URL_HIDDEN = ''(hidden: only the notebook'' @ [sq] @ ''s creator or an aistudio admin sees its URL)''"

definition fmt_ts :: "client \<Rightarrow> time option \<Rightarrow> string" where
  "fmt_ts c t = (case t of None \<Rightarrow> ''?'' | Some t \<Rightarrow> fmt_time c t)"

section \<open>Values of a row\<close>

definition field :: "client \<Rightarrow> dict \<Rightarrow> string \<Rightarrow> string" where
  "field c d k = show_json c (dict_get d k)"

definition fields :: "client \<Rightarrow> dict \<Rightarrow> string list \<Rightarrow> exn + string list" where
  "fields c d ks = mapE (\<lambda>k. bindE (item d k) (\<lambda>v. Inr (show_json c v))) ks"

definition text_item :: "json \<Rightarrow> exn + string" where
  "text_item j = (case j of JStr s \<Rightarrow> Inr s
     | _ \<Rightarrow> Inl (TypeError (''sequence item 0: expected str instance, '' @ type_name j @ '' found'')))"

definition join_texts :: "json \<Rightarrow> exn + string" where
  "join_texts j = bindE (iterate j) (\<lambda>xs. bindE (mapE text_item xs) (\<lambda>ss. Inr (py_join '', '' ss)))"

definition number :: "json \<Rightarrow> exn + rat" where
  "number j = (case json_real j of Some r \<Rightarrow> Inr r
     | None \<Rightarrow> Inl (TypeError (quoted ''<'' @ '' not supported between instances of '' @ quoted (type_name j) @
         '' and '' @ quoted ''int'')))"

definition tokens :: "dict \<Rightarrow> json" where "tokens d = dict_get d ''total_token_throughput''"

definition numbers_of :: "dict list \<Rightarrow> dict list" where "numbers_of rows = filter (\<lambda>d. tokens d \<noteq> JNull) rows"

text \<open>\<open>min\<close> and \<open>max\<close> with a key: the first of the extreme values.\<close>

definition value_of :: "dict \<Rightarrow> rat" where
  "value_of d = (case json_real (tokens d) of Some r \<Rightarrow> r | None \<Rightarrow> 0)"

definition least :: "dict \<Rightarrow> dict list \<Rightarrow> dict" where
  "least d ds = foldl (\<lambda>b x. if value_of x < value_of b then x else b) d ds"

definition greatest :: "dict \<Rightarrow> dict list \<Rightarrow> dict" where
  "greatest d ds = foldl (\<lambda>b x. if value_of x > value_of b then x else b) d ds"

section \<open>A list of runs and one run\<close>

definition run_line :: "client \<Rightarrow> run \<Rightarrow> string" where
  "run_line c r = ''  '' @ u_bullet @ '' '' @ show_json c (rn_run_id r) @ ''  ['' @
     (if rn_all_success r then ''success'' else ''had failures'') @ '']  '' @ show_json c (rn_model_name r) @ ''  '' @
     show_json c (rn_gpu_type r) @ u_times @ show_json c (rn_gpu_count r) @ ''  ('' @ show_nat (rn_sub_runs r) @
     '' sub-run(s), '' @ fmt_ts c (rn_started_at r) @ '')''"

definition format_run_list :: "client \<Rightarrow> run list \<Rightarrow> bool \<Rightarrow> string" where
  "format_run_list c runs only_failed = py_join nl
     ([show_nat (length runs) @ '' completed '' @ (if only_failed then ''non-success '' else []) @
       ''benchmark run(s) (benchmark_results, newest first):''] @ map (run_line c) runs @
      [''For one run: workload_history(workload_id='' @ quoted ''<run>'' @ '') or '' @
       ''throughput_compare(run_id='' @ quoted ''<run>'' @ '').''])"

definition sub_run_line :: "client \<Rightarrow> dict \<Rightarrow> exn + string" where
  "sub_run_line c d =
     bindE (if tokens d = JNull then Inr ''no metric''
            else bindE (fixed_or_raise 1 (tokens d)) (\<lambda>s. Inr (s @ '' tok/s''))) (\<lambda>tp_s.
     Inr (''    - sub_run '' @ field c d ''sub_run_index'' @ '': concurrency='' @ field c d ''concurrency'' @
       ''  io='' @ field c d ''input_tokens'' @ ''/'' @ field c d ''output_tokens'' @ ''  '' @ tp_s @
       ''  ['' @ field c d ''status'' @ '']''))"

definition by_sub_run :: "dict list \<Rightarrow> exn + dict list" where
  "by_sub_run rows =
     bindE (mapE (\<lambda>d. bindE (number (json_or (dict_get d ''sub_run_index'') (JInt 0))) (\<lambda>k. Inr (k, d))) rows)
       (\<lambda>ks. Inr (map snd (sort_key fst ks)))"

definition endpoint :: "client \<Rightarrow> string \<Rightarrow> dict \<Rightarrow> string" where
  "endpoint c which d =
     which @ '' sub_run '' @ field c d ''sub_run_index'' @ '' (concurrency='' @ field c d ''concurrency'' @ '')''"

definition spans :: "client \<Rightarrow> dict list \<Rightarrow> exn + string list" where
  "spans c rows = (case numbers_of rows of [] \<Rightarrow> Inr []
    | d # ds \<Rightarrow>
        (let lo = least d ds; hi = greatest d ds in
         bindE (fixed_or_raise 1 (tokens lo)) (\<lambda>low.
         bindE (fixed_or_raise 1 (tokens hi)) (\<lambda>high.
         Inr [''  '' @ u_arrow @ '' throughput spans '' @ low @ u_range @ high @ '' tok/s '' @ u_dash @
           '' the two ENDPOINTS are '' @ endpoint c ''MIN'' lo @ '' and '' @ endpoint c ''MAX'' hi @ ''. '' @
           ''This is the min'' @ u_range @ ''max of the sweep (throughput rises with concurrency; expected, '' @
           ''not a regression). If asked '' @ quoted ''which two had this throughput'' @ '', it'' @ [sq] @ ''s these two.'']))))"

definition sub_run_part :: "client \<Rightarrow> string \<Rightarrow> dict list \<Rightarrow> exn + string list" where
  "sub_run_part c run_id rows =
     (if length rows > 1 then
        bindE (by_sub_run rows) (\<lambda>sorted_rows.
        bindE (mapE (sub_run_line c) sorted_rows) (\<lambda>ls.
        bindE (spans c rows) (\<lambda>sp.
        Inr ([''  sub-runs (all share run_id '' @ quoted run_id @ ''; a sub-run'' @ [sq] @ ''s id IS run_id + '' @
          ''sub_run_index '' @ u_dash @ '' there is no separate per-sub-run id):''] @ ls @ sp))))
      else
        (case numbers_of rows of [] \<Rightarrow> Inr []
         | d # _ \<Rightarrow> bindE (fixed_or_raise 1 (tokens d)) (\<lambda>s. Inr [''  throughput: '' @ s @ '' tok/s''])))"

definition status_texts :: "dict list \<Rightarrow> exn + string list" where
  "status_texts rows = bindE (mapE text_item (filter truthy (map (\<lambda>d. dict_get d ''status'') rows)))
     (\<lambda>ss. Inr (sort (remdups ss)))"

definition format_completed_run :: "client \<Rightarrow> string \<Rightarrow> dict list \<Rightarrow> exn + string" where
  "format_completed_run c run_id rows = (case rows of [] \<Rightarrow> Inl IndexError
    | r0 # _ \<Rightarrow>
        bindE (status_texts rows) (\<lambda>statuses.
        bindE (fields c r0 [''model_name'', ''gpu_type'', ''gpu_count'']) (\<lambda>hw.
        bindE (if truthy (dict_get r0 ''node_ips'')
               then bindE (join_texts (dict_get r0 ''node_ips'')) (\<lambda>ips.
                 Inr [''  node(s): '' @ ips @ ''  (node_exec here for GPU/PCIe/throttle health)''])
               else Inr []) (\<lambda>node_part.
        bindE (sub_run_part c run_id rows) (\<lambda>sub_part.
        Inr (py_join nl
          ([quoted run_id @ '' is a COMPLETED benchmark run '' @ u_dash @ '' it'' @ [sq] @ ''s in benchmark_results, not the '' @
            ''workloads lifecycle table (that'' @ [sq] @ ''s why a workload-id lookup missed it; it does '' @
            ''NOT mean the run doesn'' @ [sq] @ ''t exist).'',
            ''  model: '' @ hw ! 0 @ ''   hardware: '' @ hw ! 1 @ u_times @ hw ! 2 @ ''   precision: '' @ field c r0 ''precision'',
            ''  sub-runs: '' @ show_nat (length rows) @ ''   status: '' @
              (if statuses = [] then ''unknown'' else py_join '', '' statuses)] @ node_part @ sub_part @
           [if statuses = [''success'']
            then ''  '' @ u_arrow @ '' This run SUCCEEDED; nothing failed. If you mean it was SLOW or '' @
              ''regressed, call throughput_compare(run_id='' @ quoted run_id @ '').''
            else ''  '' @ u_arrow @ '' Not all sub-runs succeeded; call throughput_compare(run_id=...) '' @
              ''or get_task_logs for the failing detail.'']))))))) "

definition found_line :: "client \<Rightarrow> found_run \<Rightarrow> string" where
  "found_line c m = ''  '' @ u_bullet @ '' '' @ show_json c (fr_id m) @ ''  ['' @ show_json c (fr_state m) @ '']  '' @
     show_json c (fr_model_name m) @
     (if truthy (fr_gpu_type m) then ''  '' @ show_json c (fr_gpu_type m) @ u_times @ show_json c (fr_gpu_count m) else [])"

definition format_no_exact_match :: "client \<Rightarrow> string \<Rightarrow> found_run list \<Rightarrow> string" where
  "format_no_exact_match c term matches =
     (if matches = [] then
        ''No workload or benchmark run matches '' @ py_repr term @ '' '' @ u_dash @ '' searched the task status '' @
        ''routes AND completed benchmark_results, by id and by model. It may '' @
        ''be a typo or an older run (the search reads the newest '' @ show_int ROW_CAP @ '' '' @
        ''result rows). Give me the exact id if you '' @ ''have it, or ask me to list recent runs.''
      else py_join nl
        ([show_nat (length matches) @ '' run(s)/workload(s) matching '' @ py_repr term @ '' (id | state | model):''] @
         map (found_line c) matches @
         [''One run'' @ [sq] @ ''s detail: workload_history(workload_id='' @ quoted ''<id>'' @ ''); '' @
          ''slowness: throughput_compare(run_id='' @ quoted ''<id>'' @ '').'']))"

definition format_workload_detail :: "client \<Rightarrow> identity option \<Rightarrow> workload_row \<Rightarrow> exn + string" where
  "format_workload_detail c who wl =
     (let d = wr_row wl in
      bindE (json_strip (json_or (dict_get d ''error_message'') (JStr []))) (\<lambda>err.
      Inr (py_join nl
        ([''Workload '' @ field c d ''workload_id'',
          ''  state: '' @ field c d ''state'' @ ''   updated: '' @ fmt_ts c (wr_updated_at wl)] @
         (if truthy (dict_get d ''jupyter_url'')
          then [''  jupyter_url: '' @ (if may_open who (Some d) then field c d ''jupyter_url'' else URL_HIDDEN)] else []) @
         (if err \<noteq> [] then [''  error_message: '' @ err] else []) @
         (if dict_get d ''state'' = JStr ''FAILED'' then
            [nl @ ''  '' @ u_arrow @ '' get_task_logs(task_id) has the full validate '' @ u_arrow @ '' install '' @ u_arrow @
             '' benchmark output, '' @ ''which shows the failing stage. If it failed in the benchmark container, '' @
             ''node_docker_logs(node_ip, container='' @ quoted ''<task id>'' @ '') has its crash output for as '' @
             ''long as that container still exists on the node.'']
          else [])))))"

definition workload_history :: "client \<Rightarrow> identity option \<Rightarrow> bool \<Rightarrow> string \<Rightarrow> int \<Rightarrow> string tool" where
  "workload_history c who only_failed workload_id limit = catchT
     (if workload_id \<noteq> [] then
        bindT (platform_workload c workload_id) (\<lambda>wl. case wl of
          Some wl \<Rightarrow> liftT (format_workload_detail c who wl)
        | None \<Rightarrow>
            bindT (benchmark_results c workload_id) (\<lambda>rows.
            if rows \<noteq> [] then liftT (format_completed_run c workload_id (map bn_row rows))
            else bindT (search_runs c workload_id 10) (\<lambda>found. retT (format_no_exact_match c workload_id found))))
      else
        bindT (recent_runs c only_failed limit) (\<lambda>runs.
        if runs = [] then
          retT (''No '' @ (if only_failed then ''non-success '' else []) @ ''benchmark runs among the newest '' @
            show_int ROW_CAP @ '' result '' @ ''rows. Older runs: list_benchmarks(date=YYYY-MM-DD).'')
        else retT (format_run_list c runs only_failed)))
     (\<lambda>e. retT (''Could not read workload history from aistudio-server: '' @ tool_exn_text e))"

section \<open>Comparing a run with its past\<close>

definition REGRESSION_PCT :: rat where "REGRESSION_PCT = 10"

definition DIFF_FIELDS :: "string list" where "DIFF_FIELDS = [''node_ips'', ''server_name'', ''gpu_model'']"

definition ms :: "json \<Rightarrow> string" where
  "ms v = (case json_real v of Some r \<Rightarrow> fmt_fixed 0 r @ ''ms'' | None \<Rightarrow> ''?'')"

text \<open>\<open>statistics.median\<close>, and \<open>'%+.1f'\<close>.\<close>

definition median :: "rat list \<Rightarrow> rat" where
  "median xs =
     (let s = sort xs; n = length xs in
      if odd n then s ! (n div 2) else (s ! (n div 2 - 1) + s ! (n div 2)) / 2)"

definition signed_fixed :: "nat \<Rightarrow> rat \<Rightarrow> string" where
  "signed_fixed k r = (if r < 0 then [] else ''+'') @ fmt_fixed k r"

definition delta_pct :: "rat \<Rightarrow> rat \<Rightarrow> rat" where "delta_pct cur base = (cur - base) / base * 100"

definition verdict :: "rat \<Rightarrow> string" where
  "verdict d = (if d \<le> - REGRESSION_PCT then ''REGRESSION''
     else if d \<ge> REGRESSION_PCT then ''improved'' else ''in line with baseline'')"

definition tag_fields :: "string list" where
  "tag_fields = [''run_id'', ''sub_run_index'', ''model_name'', ''gpu_type'', ''gpu_count'', ''precision'', ''concurrency'',
     ''input_tokens'', ''output_tokens'']"

definition parallelism_part :: "dict \<Rightarrow> exn + string" where
  "parallelism_part t =
     (let p = dict_get t ''parallelism'' in
      if \<not> truthy p then Inr []
      else case p of JStr s \<Rightarrow> Inr ('', '' @ s)
      | _ \<Rightarrow> Inl (TypeError (''can only concatenate str (not '' @ dq @ type_name p @ dq @ '') to str'')))"

definition tag :: "client \<Rightarrow> dict \<Rightarrow> exn + string" where
  "tag c t =
     bindE (fields c t tag_fields) (\<lambda>f.
     bindE (parallelism_part t) (\<lambda>p.
     Inr (f ! 0 @ '' (sub_run '' @ f ! 1 @ '') '' @ u_dash @ '' '' @ f ! 2 @ '', '' @ f ! 3 @ u_times @ f ! 4 @ '', '' @ f ! 5 @
       '', concurrency='' @ f ! 6 @ '', io='' @ f ! 7 @ ''/'' @ f ! 8 @ p @ '')'')))"

definition this_run_line :: "dict \<Rightarrow> json \<Rightarrow> exn + string" where
  "this_run_line t cur =
     bindE (fixed_or_raise 1 cur) (\<lambda>s.
     bindE (mapE (item t) [''mean_ttft_ms'', ''mean_tpot_ms'', ''mean_e2el_ms'']) (\<lambda>v.
     Inr (''  this run:  '' @ s @ '' tok/s   ttft '' @ ms (v ! 0) @ ''  tpot '' @ ms (v ! 1) @ ''  e2e '' @ ms (v ! 2))))"

definition baseline_line :: "rat list \<Rightarrow> string" where
  "baseline_line tps = ''  baseline:  '' @ fmt_fixed 1 (median tps) @ '' tok/s   (median of '' @ show_nat (length tps) @
     '' past run(s); '' @ ''range '' @ fmt_fixed 1 (foldl min (hd tps) (tl tps)) @ u_range @
     fmt_fixed 1 (foldl max (hd tps) (tl tps)) @ '')''"

definition diff_lines :: "client \<Rightarrow> dict \<Rightarrow> dict \<Rightarrow> string list" where
  "diff_lines c ref t =
     (let diffs = filter (\<lambda>f. dict_get ref f \<noteq> dict_get t f) DIFF_FIELDS in
      if diffs \<noteq> [] then
        (''  what changed vs most-recent baseline ('' @ field c ref ''run_id'' @ ''):'') #
        map (\<lambda>f. ''    - '' @ f @ '': '' @ field c ref f @ ''  '' @ u_arrow @ ''  '' @ field c t f) diffs
      else [''  config identical to baseline '' @ u_dash @ '' cause is runtime, not config: '' @
        ''check node health during the run (node_exec: throttle/PCIe/topo) '' @ ''or contention from concurrent workloads.''])"

definition delta_lines :: "client \<Rightarrow> dict \<Rightarrow> rat \<Rightarrow> rat list \<Rightarrow> dict \<Rightarrow> string list" where
  "delta_lines c t cur tps ref =
     (let base = median tps; d = delta_pct cur base in
      if base = 0 then [''  delta:     n/a (baseline throughput is zero)'']
      else (''  delta:     '' @ signed_fixed 1 d @ ''%  '' @ u_arrow @ '' '' @ verdict d) # diff_lines c ref t)"

definition compared :: "client \<Rightarrow> dict \<Rightarrow> json \<Rightarrow> dict list \<Rightarrow> exn + string list" where
  "compared c t cur peers =
     bindE (this_run_line t cur) (\<lambda>this.
     case peers of
       [] \<Rightarrow> Inr [this, ''  baseline:  none '' @ u_dash @ '' no past runs with this exact config, so '' @
         ''slowness can'' @ [sq] @ ''t be proven as a regression. Absolute numbers only.'']
     | ref # _ \<Rightarrow>
         bindE (mapE (\<lambda>p. number (tokens p)) peers) (\<lambda>tps.
         bindE (number cur) (\<lambda>cur.
         Inr (this # baseline_line tps # delta_lines c t cur tps ref))))"

definition compare_one :: "client \<Rightarrow> int \<Rightarrow> dict \<Rightarrow> string tool" where
  "compare_one c limit t =
     bindT (liftT (bindE (tag c t) (\<lambda>tg. bindE (item t ''total_token_throughput'') (\<lambda>cur.
       bindE (item t ''status'') (\<lambda>status. Inr (tg, cur, status)))))) (\<lambda>(tg, cur, status).
     let head = u_play @ '' '' @ tg in
     if status \<noteq> JStr ''success'' \<or> cur = JNull then
       retT (py_join nl [head, ''  status='' @ show_json c status @ '', throughput='' @ show_json c cur @ '' '' @ u_dash @
         '' no usable metric '' @ ''(pending/failed row); nothing to compare.''])
     else
       bindT (comparable_results c t limit) (\<lambda>peers.
       bindT (liftT (compared c t cur (map bn_row peers))) (\<lambda>ls.
       retT (py_join nl (head # ls)))))"

fun mapT :: "('a \<Rightarrow> 'b tool) \<Rightarrow> 'a list \<Rightarrow> 'b list tool" where
  "mapT f [] = retT []"
| "mapT f (x # xs) = bindT (f x) (\<lambda>y. bindT (mapT f xs) (\<lambda>ys. retT (y # ys)))"

text \<open>The handler only covers reading the run; what raises in a comparison leaves the tool.\<close>

definition throughput_compare :: "client \<Rightarrow> string \<Rightarrow> int \<Rightarrow> string tool" where
  "throughput_compare c run_id limit =
     bindT (catchT (bindT (benchmark_results c run_id) (\<lambda>rows. retT (Inr rows)))
       (\<lambda>e. retT (Inl (''Could not read the run'' @ [sq] @ ''s results from aistudio-server: '' @ tool_exn_text e)))) (\<lambda>read.
     case read of
       Inl text_out \<Rightarrow> retT text_out
     | Inr rows \<Rightarrow>
         if rows = [] then
           retT (''No benchmark_results row for run '' @ py_repr run_id @ '' '' @ u_dash @ '' the run may have failed '' @
             ''before producing metrics. Check workload_history(workload_id=...) for the '' @
             ''lifecycle/error, or get_task_logs for the benchmark output.'')
         else bindT (mapT (compare_one c limit) (map bn_row rows)) (\<lambda>blocks. retT (py_join (nl @ nl) blocks)))"

section \<open>The verdict\<close>

lemma median_between:
  assumes "xs \<noteq> []"
  shows "length xs \<le> 2 * length (filter (\<lambda>x. x \<le> median xs) xs) \<and> length xs \<le> 2 * length (filter (\<lambda>x. median xs \<le> x) xs)"
proof -
  let ?s = "sort xs" and ?n = "length xs" and ?m = "median xs"
  have le: "i \<le> j \<Longrightarrow> j < ?n \<Longrightarrow> ?s ! i \<le> ?s ! j" for i j by (simp add: sorted_nth_mono)
  have count: "length (filter P xs) = card {i. i < ?n \<and> P (?s ! i)}" for P
    using length_filter_conv_card [of P ?s] by (simp add: filter_sort)
  have low: "i \<le> (?n - 1) div 2 \<Longrightarrow> ?s ! i \<le> ?m" for i
  proof (cases "odd ?n")
    case False
    assume i: "i \<le> (?n - 1) div 2"
    moreover have "0 < ?n" using assms by simp
    ultimately have "i \<le> ?n div 2 - 1" "?n div 2 - 1 < ?n" "?n div 2 < ?n" using False by presburger+
    then have "?s ! i \<le> ?s ! (?n div 2 - 1)" "?s ! (?n div 2 - 1) \<le> ?s ! (?n div 2)" by (auto intro: le)
    then show ?thesis using False by (simp add: median_def Let_def)
  qed (use assms in \<open>auto simp: median_def Let_def elim!: oddE intro!: le\<close>)
  have high: "?n div 2 \<le> i \<Longrightarrow> i < ?n \<Longrightarrow> ?m \<le> ?s ! i" for i
  proof (cases "odd ?n")
    case False
    assume i: "?n div 2 \<le> i" "i < ?n"
    then have "?s ! (?n div 2 - 1) \<le> ?s ! (?n div 2)" "?s ! (?n div 2) \<le> ?s ! i" by (auto intro: le)
    then show ?thesis using False by (simp add: median_def Let_def)
  qed (use assms in \<open>auto simp: median_def Let_def elim!: oddE intro!: le\<close>)
  have "0 < ?n" using assms by simp
  then have "i \<le> (?n - 1) div 2 \<Longrightarrow> i < ?n" for i by presburger
  then have "{..(?n - 1) div 2} \<subseteq> {i. i < ?n \<and> ?s ! i \<le> ?m}" using low by auto
  then have a: "(?n - 1) div 2 + 1 \<le> length (filter (\<lambda>x. x \<le> ?m) xs)"
    unfolding count using card_mono [of "{i. i < ?n \<and> ?s ! i \<le> ?m}" "{..(?n - 1) div 2}"] by simp
  have "{?n div 2..<?n} \<subseteq> {i. i < ?n \<and> ?m \<le> ?s ! i}" using high by auto
  then have b: "?n - ?n div 2 \<le> length (filter (\<lambda>x. ?m \<le> x) xs)"
    unfolding count using card_mono [of "{i. i < ?n \<and> ?m \<le> ?s ! i}" "{?n div 2..<?n}"] by simp
  show ?thesis using a b by presburger
qed

lemma numbers_are_values: "mapE (\<lambda>p. number (tokens p)) peers = Inr tps \<Longrightarrow> tps = map value_of peers"
proof (induction peers arbitrary: tps)
  case (Cons p peers)
  then show ?case
    by (cases "json_real (tokens p)"; cases "mapE (\<lambda>p. number (tokens p)) peers")
      (auto simp: bindE_def number_def value_of_def)
qed simp

lemma verdict_cases:
  assumes "0 < base"
  shows "verdict (delta_pct cur base) = (if cur \<le> base * 9 / 10 then ''REGRESSION''
    else if cur \<ge> base * 11 / 10 then ''improved'' else ''in line with baseline'')"
proof -
  have "delta_pct cur base \<le> - 10 \<longleftrightarrow> cur \<le> base * 9 / 10" "delta_pct cur base \<ge> 10 \<longleftrightarrow> cur \<ge> base * 11 / 10"
    using assms by (auto simp: delta_pct_def field_simps)
  then show ?thesis by (simp add: verdict_def REGRESSION_PCT_def)
qed

lemma filter_longer: "(\<And>x. P x \<Longrightarrow> Q x) \<Longrightarrow> length (filter P xs) \<le> length (filter Q xs)"
  by (induction xs) (auto intro: le_SucI)

lemma verdict_suffix: "suffix ''REGRESSION'' (p @ verdict d) \<longleftrightarrow> verdict d = ''REGRESSION''"
  by (auto simp: verdict_def suffix_to_prefix)

text \<open>a run compared with its past is reported as a regression exactly when its throughput is at
least a tenth below the median of the comparable runs, and then at least half of them were faster
than it by a ninth or more.\<close>

theorem regression_means_slower:
  assumes "compared c t cur peers = Inr ls" and "peers \<noteq> []" and "json_real cur = Some now"
    and "0 < median (map value_of peers)"
  shows "(suffix ''REGRESSION'' (ls ! 2) \<longleftrightarrow> now \<le> median (map value_of peers) * 9 / 10) \<and>
    (suffix ''REGRESSION'' (ls ! 2) \<longrightarrow> length peers \<le> 2 * length (filter (\<lambda>p. now * 10 / 9 \<le> value_of p) peers))"
proof -
  let ?m = "median (map value_of peers)"
  obtain ref rest where peers: "peers = ref # rest" using assms(2) by (cases peers) auto
  obtain this tps where tps: "mapE (\<lambda>p. number (tokens p)) peers = Inr tps"
      "ls = this # baseline_line tps # delta_lines c t now tps ref"
    using assms(1,3) peers
    by (cases "this_run_line t cur"; cases "mapE (\<lambda>p. number (tokens p)) peers")
      (auto simp: compared_def bindE_def number_def)
  obtain p where line: "ls ! 2 = p @ verdict (delta_pct now ?m)"
    using tps(2) numbers_are_values [OF tps(1)] assms(4)
    by (auto simp: delta_lines_def Let_def
        intro!: that [of "''  delta:     '' @ signed_fixed 1 (delta_pct now ?m) @ ''%  '' @ u_arrow @ '' ''"])
  have "suffix ''REGRESSION'' (ls ! 2) \<longleftrightarrow> verdict (delta_pct now ?m) = ''REGRESSION''"
    unfolding line by (rule verdict_suffix)
  also have "\<dots> \<longleftrightarrow> now \<le> ?m * 9 / 10" by (simp add: verdict_cases [OF assms(4)])
  finally have iff: "suffix ''REGRESSION'' (ls ! 2) \<longleftrightarrow> now \<le> ?m * 9 / 10" .
  have "length peers \<le> 2 * length (filter (\<lambda>p. ?m \<le> value_of p) peers)"
    using median_between [of "map value_of peers"] assms(2) by (simp add: filter_map comp_def)
  moreover have "now \<le> ?m * 9 / 10 \<Longrightarrow> length (filter (\<lambda>p. ?m \<le> value_of p) peers) \<le> length (filter (\<lambda>p. now * 10 / 9 \<le> value_of p) peers)"
    by (rule filter_longer) auto
  ultimately show ?thesis using iff by linarith
qed

definition past_runs :: "dict list" where
  "past_runs = [[(''total_token_throughput'', JInt 100)], [(''total_token_throughput'', JInt 120)]]"

definition slow_run :: dict where
  "slow_run = [(''mean_ttft_ms'', JInt 5), (''mean_tpot_ms'', JInt 6), (''mean_e2el_ms'', JInt 7)]"

lemma regression_means_slower_witness:
  "\<exists>ls. compared quiet_client slow_run (JInt 90) past_runs = Inr ls \<and> suffix ''REGRESSION'' (ls ! 2) \<and>
     2 \<le> 2 * length (filter (\<lambda>p. 100 \<le> value_of p) past_runs)"
proof -
  have m: "median (map value_of past_runs) = 110"
    by (simp add: past_runs_def median_def value_of_def tokens_def dict_get_def)
  obtain ls where ls: "compared quiet_client slow_run (JInt 90) past_runs = Inr ls"
    by (simp add: compared_def this_run_line_def fixed_or_raise_def slow_run_def item_def bindE_def past_runs_def number_def
        tokens_def dict_get_def)
  have "suffix ''REGRESSION'' (ls ! 2)"
    using regression_means_slower [OF ls, of 90] m by (simp add: past_runs_def)
  then show ?thesis using regression_means_slower [OF ls, of 90] m ls by (simp add: past_runs_def)
qed

end
