(* ===== verification/Task_Tools.thy ===== *)
theory Task_Tools
  imports Run_Reports Regex
begin

text \<open>
  The other tools of \<open>mcp-server/app/tools/aistudio.py\<close>: queues, health, the state and the logs of a
  task, the catalogue and the plain reads. A log stream is what the API answered: its lines until
  the stream ended, timed out or broke. \<open>json.dumps\<close> is the argument \<open>tc_dump\<close>.
\<close>

record tool_config =
  tc_api_url :: string
  tc_mgmt_url :: string
  tc_dump :: "json \<Rightarrow> string"

definition get_json :: "client \<Rightarrow> string \<Rightarrow> dict \<Rightarrow> json tool" where
  "get_json c path params =
     bindT (send c (get_request path params)) (\<lambda>r. bindT (raise_for_status r) (\<lambda>_. liftT (hr_json r)))"

section \<open>Queues\<close>

definition fetch_queues :: "client \<Rightarrow> tool_config \<Rightarrow> json tool" where
  "fetch_queues c cfg = get_json c (rstrip_slash (tc_mgmt_url cfg) @ ''/api/queues'') []"

definition queue_error :: "tool_config \<Rightarrow> tool_exn \<Rightarrow> string" where
  "queue_error cfg e = (case e of
      ConnectError _ \<Rightarrow> ''Cannot reach the RabbitMQ management API at '' @ tc_mgmt_url cfg @ ''. '' @
        ''The broker may be down (Celery can'' @ [sq] @ ''t queue or run tasks at all), or the '' @
        ''management port is unreachable from the agent.''
    | StatusError code _ _ \<Rightarrow>
        (if code = 401 then ''RabbitMQ management API rejected the configured credentials (HTTP 401).''
         else ''RabbitMQ management API returned HTTP '' @ show_nat code @ ''.'')
    | _ \<Rightarrow> ''Unexpected error querying RabbitMQ: '' @ tool_exn_text e)"

definition name_has :: "string \<Rightarrow> json \<Rightarrow> exn + bool" where
  "name_has queue q = bindE (as_dict q) (\<lambda>d. case dict_get_or d ''name'' (JStr []) of
      JStr s \<Rightarrow> Inr (contains_sub queue s)
    | v \<Rightarrow> Inl (TypeError (''argument of type '' @ quoted (type_name v) @ '' is not iterable'')))"

definition count_of :: "dict \<Rightarrow> string \<Rightarrow> json" where
  "count_of d k = json_or (dict_get_or d k (JInt 0)) (JInt 0)"

definition queue_flag :: "rat \<Rightarrow> rat \<Rightarrow> rat \<Rightarrow> string" where
  "queue_flag ready unacked consumers =
     (if ready > 0 \<and> consumers = 0
      then ''   '' @ u_warning @ '' NOTHING CONSUMING '' @ u_dash @ '' worker down? (tasks will never start)''
      else if unacked > 0 \<and> consumers > 0
      then ''   (in-flight '' @ u_dash @ '' a consumer is holding messages)'' else [])"

definition queue_line :: "client \<Rightarrow> dict \<Rightarrow> exn + string" where
  "queue_line c d =
     bindE (number (count_of d ''messages_ready'')) (\<lambda>ready.
     bindE (number (count_of d ''messages_unacknowledged'')) (\<lambda>unacked.
     bindE (number (count_of d ''consumers'')) (\<lambda>consumers.
     Inr (''  '' @ u_bullet @ '' '' @ show_json c (dict_get_or d ''name'' (JStr ''?'')) @ '': ready='' @
       show_json c (count_of d ''messages_ready'') @ '' unacked='' @ show_json c (count_of d ''messages_unacknowledged'') @
       '' consumers='' @ show_json c (count_of d ''consumers'') @ queue_flag ready unacked consumers))))"

text \<open>\<open>sorted(..., reverse=True)\<close> by the messages: equal keys keep their order.\<close>

definition by_messages :: "dict list \<Rightarrow> exn + dict list" where
  "by_messages ds =
     bindE (mapE (\<lambda>d. bindE (number (count_of d ''messages'')) (\<lambda>k. Inr (k, d))) ds)
       (\<lambda>ks. Inr (map snd (rev (sort_key fst (rev ks)))))"

definition queue_report :: "client \<Rightarrow> tool_config \<Rightarrow> string \<Rightarrow> json \<Rightarrow> exn + string" where
  "queue_report c cfg queue queues =
     bindE (if queue \<noteq> [] then bindE (iterate queues) (\<lambda>qs. bindE (filterE (name_has queue) qs) (Inr \<circ> JList)) else Inr queues)
       (\<lambda>queues.
     if \<not> truthy queues then
       Inr (''No queues'' @ (if queue \<noteq> [] then '' matching '' @ py_repr queue else []) @
         '' on the broker. If the worker never declared its '' @ ''queue, that itself points at a worker that never started.'')
     else
       bindE (iterate queues) (\<lambda>qs.
       bindE (mapE as_dict qs) (\<lambda>ds.
       bindE (by_messages ds) (\<lambda>ds.
       bindE (mapE (queue_line c) ds) (\<lambda>ls.
       Inr (py_join nl ((''RabbitMQ queues ('' @ tc_mgmt_url cfg @ ''):'') # ls)))))))"

definition queue_status :: "client \<Rightarrow> tool_config \<Rightarrow> string \<Rightarrow> string tool" where
  "queue_status c cfg queue =
     bindT (catchT (bindT (fetch_queues c cfg) (retT \<circ> Inr)) (\<lambda>e. retT (Inl (queue_error cfg e)))) (\<lambda>read.
     case read of Inl problem \<Rightarrow> retT problem | Inr queues \<Rightarrow> liftT (queue_report c cfg queue queues))"

section \<open>Health and state\<close>

definition check_service_health :: "client \<Rightarrow> tool_config \<Rightarrow> string tool" where
  "check_service_health c cfg = catchT
     (bindT (get_json c ''/health'' []) (\<lambda>body.
      bindT (liftT (as_dict body)) (\<lambda>d.
      retT (''API is healthy. Status: '' @ field c d ''status'' @ '', '' @ ''Database: '' @ field c d ''database''))))
     (\<lambda>e. retT (case e of
        ConnectError _ \<Rightarrow> ''CRITICAL: Cannot connect to aistudio-server at '' @ tc_api_url cfg @
          ''. The API may be down or unreachable.''
      | StatusError code body _ \<Rightarrow> ''API returned HTTP '' @ show_nat code @ '': '' @ take 500 body
      | _ \<Rightarrow> ''Unexpected error checking API health: '' @ tool_exn_text e))"

definition status_text :: "client \<Rightarrow> identity option \<Rightarrow> string \<Rightarrow> dict \<Rightarrow> string" where
  "status_text c who task_id d = py_join nl
     ([''Task '' @ task_id @ '' is in state: '' @ show_json c (dict_get_or d ''state'' (JStr ''UNKNOWN''))] @
      (if truthy (dict_get d ''error_message'') then [''Error message: '' @ field c d ''error_message''] else []) @
      (if truthy (dict_get d ''jupyter_url'')
       then [''Jupyter URL: '' @ (if may_open who (Some d) then field c d ''jupyter_url'' else URL_HIDDEN)] else []) @
      map (\<lambda>key. key @ '': '' @ field c d key) (filter (\<lambda>key. map_of d key \<noteq> None) [''workload_port'', ''updated_at'']))"

definition task_not_found :: "string \<Rightarrow> string" where
  "task_not_found task_id = ''Task '' @ task_id @ '' not found. It may not exist or has been deleted.''"

definition get_task_status :: "client \<Rightarrow> identity option \<Rightarrow> string \<Rightarrow> string tool" where
  "get_task_status c who task_id =
     bindT (status_path task_id) (\<lambda>endpoint. catchT
       (bindT (get_json c endpoint []) (\<lambda>body.
        bindT (liftT (as_dict body)) (\<lambda>d. retT (status_text c who task_id d))))
       (\<lambda>e. retT (case e of
          StatusError code _ _ \<Rightarrow> (if code = 404 then task_not_found task_id
            else ''Error querying task status: HTTP '' @ show_nat code)
        | ConnectError _ \<Rightarrow> ''Cannot connect to aistudio-server to check task status. '' @ ''The API may be down.''
        | _ \<Rightarrow> ''Unexpected error checking task status: '' @ tool_exn_text e)))"

section \<open>Logs\<close>

definition URL :: regex where
  "URL = Then (literal ''http'') (Then (maybe (\<lambda>c. c = CHR ''s'')) (Then (literal ''://'') (some (\<lambda>c. \<not> is_ws c))))"

definition hide_urls :: "string \<Rightarrow> string" where
  "hide_urls line = re_sub URL [Verbatim ''<url hidden>''] line"

datatype stream_end = Ended | Timed_out | Broken tool_exn

record log_stream =
  ls_response :: http_response
  ls_lines :: "string list"
  ls_end :: stream_end

definition last_of :: "nat \<Rightarrow> 'a list \<Rightarrow> 'a list" where
  "last_of n xs = drop (length xs - n) xs"

fun collect :: "nat \<Rightarrow> bool \<Rightarrow> string list \<Rightarrow> string list \<Rightarrow> string list \<times> string option" where
  "collect n closing recent [] = (recent, None)"
| "collect n closing recent (raw # raws) =
     (if starts_with ''event:'' raw \<and> py_strip (drop 6 raw) = ''close'' then collect n True recent raws
      else if starts_with ''data:'' raw then
        (let payload = py_strip (drop 5 raw) in
         if closing then (recent, Some payload) else collect n closing (last_of n (recent @ [payload])) raws)
      else collect n closing recent raws)"

text \<open>What was received, and the exception or the reason the stream was closed for, if any.\<close>

definition collect_sse_logs :: "nat \<Rightarrow> tool_exn + log_stream \<Rightarrow> string list \<times> (tool_exn + string option)" where
  "collect_sse_logs n stream = (case stream of
      Inl e \<Rightarrow> ([], Inl e)
    | Inr s \<Rightarrow>
        (case fst (raise_for_status (ls_response s) []) of
           Inl e \<Rightarrow> ([], Inl e)
         | Inr _ \<Rightarrow>
             (case collect n False [] (ls_lines s) of
                (recent, Some reason) \<Rightarrow> (recent, Inr (Some reason))
              | (recent, None) \<Rightarrow>
                  (recent, case ls_end s of Ended \<Rightarrow> Inr None | Timed_out \<Rightarrow> Inr None | Broken e \<Rightarrow> Inl e))))"

definition ERROR_WORDS :: "string list" where
  "ERROR_WORDS = [''error'', ''fail'', ''exception'', ''traceback'', ''refused'', ''denied'', ''timeout'', ''oom'', ''killed'',
     ''critical'']"

definition is_error_line :: "string \<Rightarrow> bool" where
  "is_error_line l = list_ex (\<lambda>kw. contains_sub kw (py_lower l)) ERROR_WORDS"

definition logs_text :: "string \<Rightarrow> string option \<Rightarrow> string list \<Rightarrow> string" where
  "logs_text task_id closed_reason lines =
     (let error_lines = filter is_error_line lines;
          note = (case closed_reason of None \<Rightarrow> ''task still running''
            | Some reason \<Rightarrow> if reason = [] then ''task still running'' else ''stream closed: '' @ reason) in
      py_join nl
        ([''Last '' @ show_nat (length lines) @ '' log line(s) for task '' @ task_id @ '' ('' @ note @ ''):''] @
         (if error_lines \<noteq> [] then
            (nl @ u_warning @ ''  '' @ show_nat (length error_lines) @ '' error/warning line(s):'') #
            map (\<lambda>el. ''  '' @ u_bullet @ '' '' @ el) (last_of 10 error_lines)
          else []) @
         [nl @ ''Most recent lines:''] @ map (\<lambda>l. ''  '' @ l) (last_of 20 lines)))"

definition owner_row :: "client \<Rightarrow> string \<Rightarrow> dict option tool" where
  "owner_row c task_id = catchT
     (bindT (platform_workload c task_id) (\<lambda>w. retT (case w of None \<Rightarrow> None | Some r \<Rightarrow> Some (wr_row r))))
     (\<lambda>_. retT None)"

definition no_logs_text :: "string \<Rightarrow> string" where
  "no_logs_text task_id = ''No logs available yet for task '' @ task_id @ ''.''"

definition received_logs :: "client \<Rightarrow> identity option \<Rightarrow> string \<Rightarrow> string option \<Rightarrow> string list \<Rightarrow> string tool" where
  "received_logs c who task_id closed_reason lines =
     (if lines = [] then retT (no_logs_text task_id)
      else if starts_with ''jup-'' task_id then
        bindT (owner_row c task_id) (\<lambda>owner.
        retT (logs_text task_id closed_reason (if may_open who owner then lines else map hide_urls lines)))
      else retT (logs_text task_id closed_reason lines))"

definition log_cap :: "int \<Rightarrow> nat" where "log_cap tail = nat (max 1 (min tail 5000))"

definition get_task_logs ::
  "client \<Rightarrow> identity option \<Rightarrow> (string \<Rightarrow> tool_exn + log_stream) \<Rightarrow> string \<Rightarrow> int \<Rightarrow> string tool" where
  "get_task_logs c who open_stream task_id tail =
     bindT (logs_path task_id) (\<lambda>endpoint.
     case collect_sse_logs (log_cap tail) (open_stream endpoint) of
       (recent, Inr closed_reason) \<Rightarrow> received_logs c who task_id closed_reason recent
     | (recent, Inl (StatusError code _ _)) \<Rightarrow>
         retT (if code = 404 then task_not_found task_id else ''Error fetching logs: HTTP '' @ show_nat code)
     | (recent, Inl (ConnectError _)) \<Rightarrow> retT ''Cannot connect to aistudio-server to fetch logs.''
     | (recent, Inl e) \<Rightarrow>
         if recent = [] then retT (''Unexpected error fetching logs: '' @ tool_exn_text e)
         else received_logs c who task_id None recent)"

section \<open>The catalogue and plain reads\<close>

definition CATALOG_KINDS :: "string list" where
  "CATALOG_KINDS = [''models'', ''nodes'', ''servers'', ''gpu-types'', ''workload-types'', ''concurrencies'', ''precisions'',
     ''input-tokens'', ''output-tokens'']"

definition CATALOG_MAX :: nat where "CATALOG_MAX = 40"

definition is_list :: "json \<Rightarrow> bool" where
  "is_list v = (case v of JList _ \<Rightarrow> True | _ \<Rightarrow> False)"

definition list_within :: "json \<Rightarrow> json" where
  "list_within raw = (case raw of
      JObj d \<Rightarrow> (case filter is_list (map snd d) of [] \<Rightarrow> JList [] | v # _ \<Rightarrow> v)
    | _ \<Rightarrow> raw)"

definition option_value :: "json \<Rightarrow> json" where
  "option_value j = (case j of
      JObj d \<Rightarrow> json_or (json_or (dict_get d ''name'') (dict_get d ''id'')) (dict_get d ''value'')
    | _ \<Rightarrow> j)"

definition scalars :: "client \<Rightarrow> json \<Rightarrow> string list" where
  "scalars c raw = (case list_within raw of
      JList xs \<Rightarrow> map (show_json c) (filter (\<lambda>v. v \<noteq> JNull) (map option_value xs))
    | _ \<Rightarrow> [])"

definition CATALOG_HEADER :: string where
  "CATALOG_HEADER = ''aistudio catalog '' @ u_dash @ '' what can be run:''"

definition catalog_line :: "string \<Rightarrow> string list \<Rightarrow> string" where
  "catalog_line kind vals =
     (if vals = [] then ''  '' @ kind @ '': none configured''
      else ''  '' @ kind @ '' ('' @ show_nat (length vals) @ ''): '' @ py_join '', '' (take CATALOG_MAX vals) @
        (if length vals > CATALOG_MAX then '', '' @ u_dots @ '' +'' @ show_nat (length vals - CATALOG_MAX) @ '' more'' else []))"

definition catalog_block :: "client \<Rightarrow> tool_config \<Rightarrow> string \<Rightarrow> string tool" where
  "catalog_block c cfg k = catchT
     (bindT (get_json c (''/api/v1/'' @ k) []) (\<lambda>body. retT (catalog_line k (scalars c body))))
     (\<lambda>e. retT (case e of
        ConnectError _ \<Rightarrow> ''  '' @ k @ '': cannot reach aistudio at '' @ tc_api_url cfg
      | _ \<Rightarrow> ''  '' @ k @ '': could not read ('' @ tool_exn_text e @ '')''))"

definition catalog_kind :: "string \<Rightarrow> string" where
  "catalog_kind kind = replace_char (CHR ''_'') ''-'' (py_lower (py_strip kind))"

text \<open>The reads of \<open>asyncio.gather\<close> run concurrently; here they are sent in the order of their kinds.\<close>

definition platform_catalog :: "client \<Rightarrow> tool_config \<Rightarrow> string \<Rightarrow> string tool" where
  "platform_catalog c cfg kind =
     (let kind = catalog_kind kind in
      if kind \<noteq> [] \<and> kind \<notin> set CATALOG_KINDS then
        retT (''No catalog named '' @ py_repr kind @ ''. Available: '' @ py_join '', '' CATALOG_KINDS @ '' '' @
          ''(or omit the arg for all of them).'')
      else
        bindT (mapT (catalog_block c cfg) (if kind \<noteq> [] then [kind] else CATALOG_KINDS)) (\<lambda>blocks.
        retT (CATALOG_HEADER @ nl @ py_join nl blocks)))"

definition is_left_out :: "json \<Rightarrow> bool" where
  "is_left_out v = (case v of JNull \<Rightarrow> True | JStr s \<Rightarrow> s = [] | JInt i \<Rightarrow> i = 0 | JBool b \<Rightarrow> \<not> b | JFloat r \<Rightarrow> r = 0 | _ \<Rightarrow> False)"

definition api_json :: "client \<Rightarrow> tool_config \<Rightarrow> string \<Rightarrow> dict \<Rightarrow> string tool" where
  "api_json c cfg path params = catchT
     (bindT (get_json c path (filter (\<lambda>(k, v). \<not> is_left_out v) params)) (\<lambda>body. retT (tc_dump cfg body)))
     (\<lambda>e. retT (case e of
        ConnectError _ \<Rightarrow> ''CRITICAL: cannot connect to aistudio-server at '' @ tc_api_url cfg @ ''.''
      | StatusError code body _ \<Rightarrow> ''API returned HTTP '' @ show_nat code @ '': '' @ take 500 body
      | _ \<Rightarrow> ''Unexpected error calling '' @ path @ '': '' @ tool_exn_text e))"

text \<open>The arguments of \<open>list_benchmarks\<close>, in the order of its signature.\<close>

record benchmark_query =
  bq_model :: string
  bq_gpu_type :: string
  bq_node_ip :: string
  bq_concurrency :: int
  bq_precision :: string
  bq_input_tokens :: int
  bq_output_tokens :: int
  bq_status :: string
  bq_date :: string
  bq_server_name :: string
  bq_workload_type :: string
  bq_limit :: int

definition list_benchmarks_tool :: "client \<Rightarrow> tool_config \<Rightarrow> benchmark_query \<Rightarrow> string tool" where
  "list_benchmarks_tool c cfg q = api_json c cfg ''/api/v1/benchmarks''
     [(''model'', JStr (bq_model q)), (''gpu_type'', JStr (bq_gpu_type q)), (''node_ip'', JStr (bq_node_ip q)),
      (''concurrency'', JInt (bq_concurrency q)), (''precision'', JStr (bq_precision q)),
      (''input_tokens'', JInt (bq_input_tokens q)), (''output_tokens'', JInt (bq_output_tokens q)),
      (''status'', JStr (bq_status q)), (''date'', JStr (bq_date q)), (''server_name'', JStr (bq_server_name q)),
      (''workload_type'', JStr (bq_workload_type q)), (''limit'', JInt (bq_limit q))]"

definition get_benchmark_tool :: "client \<Rightarrow> tool_config \<Rightarrow> string \<Rightarrow> string tool" where
  "get_benchmark_tool c cfg run_id =
     bindT (seg_path ''/api/v1/benchmarks/'' run_id []) (\<lambda>path. api_json c cfg path [])"

definition summary_tool :: "client \<Rightarrow> tool_config \<Rightarrow> string \<Rightarrow> string tool" where
  "summary_tool c cfg date = api_json c cfg ''/api/v1/summary'' [(''date'', JStr date)]"

definition model_config_tool :: "client \<Rightarrow> tool_config \<Rightarrow> string \<Rightarrow> string tool" where
  "model_config_tool c cfg model = api_json c cfg ''/api/v1/models/config'' [(''model'', JStr model)]"

section \<open>Hidden addresses\<close>

definition url_here :: "string \<Rightarrow> bool" where
  "url_here s = (\<exists>p x r. p \<in> {''http://'', ''https://''} \<and> s = p @ x # r \<and> \<not> is_ws x)"

definition url_free :: "string \<Rightarrow> bool" where
  "url_free s = (\<forall>a t. s = a @ t \<longrightarrow> \<not> url_here t)"

definition url_end :: "string \<Rightarrow> string" where
  "url_end s = dropWhile (\<lambda>c. \<not> is_ws c) (if starts_with ''https://'' s then drop 8 s else drop 7 s)"

lemma ends_some_word:
  "ends (some P) (b, s, g) = map (\<lambda>k. (rev (take k s) @ b, drop k s, g)) (rev [1..<Suc (length (takeWhile P s))])"
  by (simp add: some_def repeat_counts_def Let_def del: upt_Suc)

lemma some_word_first:
  "map_option (\<lambda>p. fst (snd p)) (case ends (some P) (b, s, g) of [] \<Rightarrow> None | p # _ \<Rightarrow> Some p) =
     (case s of [] \<Rightarrow> None | c # _ \<Rightarrow> if P c then Some (dropWhile P s) else None)"
proof (cases s)
  case (Cons c r)
  have "drop (length (takeWhile P r)) r = dropWhile P r" by (simp add: dropWhile_eq_drop)
  then show ?thesis using Cons by (auto simp: ends_some_word)
qed (simp add: ends_some_word)

lemma ends_maybe_s:
  "ends (maybe (\<lambda>c. c = CHR ''s'')) (b, s, g) =
     (case s of [] \<Rightarrow> [(b, s, g)] | c # r \<Rightarrow> if c = CHR ''s'' then [(c # b, r, g), (b, s, g)] else [(b, s, g)])"
  by (cases s) (auto simp: maybe_def repeat_counts_def Let_def)

lemma ends_URL:
  "ends URL (b, ''http://'' @ t, g) = ends (some (\<lambda>c. \<not> is_ws c)) (rev ''http://'' @ b, t, g)"
  "ends URL (b, ''https://'' @ t, g) = ends (some (\<lambda>c. \<not> is_ws c)) (rev ''https://'' @ b, t, g)"
  by (simp_all add: URL_def ends_literal ends_maybe_s starts_with_def del: literal.simps)

lemma ends_no_URL:
  assumes "\<not> starts_with ''http://'' s" and "\<not> starts_with ''https://'' s"
  shows "ends URL (b, s, g) = []"
proof (cases "starts_with ''http'' s")
  case True
  then obtain r where s: "s = ''http'' @ r" by (auto simp: starts_with_prefix prefix_def)
  show ?thesis
  proof (cases r)
    case (Cons c r')
    then show ?thesis using assms s
      by (cases "c = CHR ''s''") (auto simp: URL_def ends_literal ends_maybe_s starts_with_def simp del: literal.simps)
  qed (simp add: s URL_def ends_literal ends_maybe_s starts_with_def del: literal.simps)
qed (simp add: URL_def ends_literal del: literal.simps)

lemma url_match:
  "map_option (\<lambda>p. fst (snd p)) (match_at URL b s) = (if url_here s then Some (url_end s) else None)"
proof -
  have word: "(\<exists>x r. t = x # r \<and> \<not> is_ws x) \<longleftrightarrow> (case t of [] \<Rightarrow> False | x # _ \<Rightarrow> \<not> is_ws x)" for t
    by (cases t) auto
  consider t where "s = ''http://'' @ t" | t where "s = ''https://'' @ t"
    | "\<not> starts_with ''http://'' s" "\<not> starts_with ''https://'' s"
    by (auto simp: starts_with_prefix prefix_def)
  then show ?thesis
  proof cases
    case (1 t)
    then have "url_here s \<longleftrightarrow> (case t of [] \<Rightarrow> False | x # _ \<Rightarrow> \<not> is_ws x)" by (auto simp: url_here_def word [symmetric])
    moreover have "url_end s = dropWhile (\<lambda>c. \<not> is_ws c) t" using 1 by (simp add: url_end_def starts_with_def)
    ultimately show ?thesis unfolding match_at_def 1 ends_URL some_word_first by (auto split: list.splits)
  next
    case (2 t)
    then have "url_here s \<longleftrightarrow> (case t of [] \<Rightarrow> False | x # _ \<Rightarrow> \<not> is_ws x)" by (auto simp: url_here_def word [symmetric])
    moreover have "url_end s = dropWhile (\<lambda>c. \<not> is_ws c) t" using 2 by (simp add: url_end_def starts_with_def)
    ultimately show ?thesis unfolding match_at_def 2 ends_URL some_word_first by (auto split: list.splits)
  next
    case 3
    then have "\<not> url_here s" by (auto simp: url_here_def starts_with_def)
    then show ?thesis using ends_no_URL [OF 3] by (simp add: match_at_def)
  qed
qed

text \<open>Hiding, one character at a time.\<close>

lemma hide_url: "url_here s \<Longrightarrow> sub_from URL [Verbatim u] b s = u @ sub_from URL [Verbatim u] (fst (the (match_at URL b s))) (url_end s)"
proof -
  assume u: "url_here s"
  then obtain b' g where m: "match_at URL b s = Some (b', url_end s, g)"
    using url_match [of b s] by (cases "match_at URL b s") auto
  have "length (url_end s) < length s"
    using u length_dropWhile_le [of "\<lambda>c. \<not> is_ws c"] by (fastforce simp: url_here_def url_end_def intro: le_less_trans)
  then show ?thesis using sub_from_match [OF m] m by (simp add: expand_def)
qed

lemma hide_other: "\<not> url_here (c # s) \<Longrightarrow> sub_from URL t b (c # s) = c # sub_from URL t (c # b) s"
  using url_match [of b "c # s"] by (subst sub_from.simps) (auto split: option.splits)

lemma hide_nothing: "sub_from URL t b [] = []"
  using url_match [of b "[]"] by (subst sub_from.simps) (auto simp: url_here_def split: option.splits)

text \<open>Before the first replacement the text is unchanged, and no URL arises at its border.\<close>

lemma hide_front:
  assumes "sub_from URL [Verbatim ''<url hidden>''] b s = w @ x # r" and "CHR ''<'' \<notin> set w"
  shows "\<exists>x' r'. s = w @ x' # r' \<and> is_ws x' = is_ws x"
  using assms
proof (induction w arbitrary: b s)
  case Nil
  have lt: "is_ws CHR ''<'' = is_ws CHR ''h''" by code_simp
  show ?case
  proof (cases "url_here s")
    case True
    then have "x = CHR ''<''" "\<exists>r'. s = CHR ''h'' # r'" using Nil hide_url by (auto simp: url_here_def)
    then show ?thesis using lt by auto
  next
    case False
    then show ?thesis using Nil by (cases s) (auto simp: hide_other hide_nothing)
  qed
next
  case (Cons c w)
  then have no: "\<not> url_here s" using hide_url by auto
  then show ?case using Cons by (cases s) (fastforce simp: hide_other hide_nothing)+
qed

lemma url_free_Cons: "url_free (c # s) \<longleftrightarrow> \<not> url_here (c # s) \<and> url_free s"
  by (auto simp: url_free_def Cons_eq_append_conv)

lemma url_free_after:
  assumes "url_free rest" and "\<And>a u. m = a @ u \<Longrightarrow> u \<noteq> [] \<Longrightarrow> \<not> url_here (u @ rest)"
  shows "url_free (m @ rest)"
  unfolding url_free_def
proof (intro allI impI)
  fix a t assume "m @ rest = a @ t"
  then obtain u where "m = a @ u \<and> u @ rest = t \<or> m @ u = a \<and> rest = u @ t"
    by (auto simp: append_eq_append_conv2)
  then show "\<not> url_here t"
  proof (elim disjE conjE)
    assume u: "m = a @ u" "u @ rest = t"
    have "\<not> url_here rest" using assms(1) unfolding url_free_def by (metis append_Nil)
    then show ?thesis using u assms(2) by (cases "u = []") auto
  next
    assume "rest = u @ t"
    then show ?thesis using assms(1) by (simp add: url_free_def)
  qed
qed

lemma inside_mask: "''<url hidden>'' = a @ t \<Longrightarrow> t \<noteq> [] \<Longrightarrow> \<not> url_here (t @ s)"
proof -
  assume a: "''<url hidden>'' = a @ t" "t \<noteq> []"
  then have "t \<in> set (suffixes ''<url hidden>'')" by (simp add: suffix_def)
  then show ?thesis using a(2) by (auto simp: url_here_def)
qed

lemma hidden_url_free: "url_free (sub_from URL [Verbatim ''<url hidden>''] b s)"
proof (induction "length s" arbitrary: b s rule: less_induct)
  case less
  let ?hide = "sub_from URL [Verbatim ''<url hidden>'']"
  show ?case
  proof (cases "url_here s")
    case True
    let ?rest = "?hide (fst (the (match_at URL b s))) (url_end s)"
    have "length (url_end s) < length s"
      using True length_dropWhile_le [of "\<lambda>c. \<not> is_ws c"] by (fastforce simp: url_here_def url_end_def intro: le_less_trans)
    then have rest: "url_free ?rest" by (rule less)
    show ?thesis unfolding hide_url [OF True] using inside_mask by (intro url_free_after rest) blast
  next
    case False
    show ?thesis
    proof (cases s)
      case Nil
      then show ?thesis by (auto simp: hide_nothing url_free_def url_here_def)
    next
      case (Cons c r)
      have tail: "url_free (?hide (c # b) r)" using less [of r] Cons by simp
      have h: "?hide b s = c # ?hide (c # b) r" using False Cons by (simp add: hide_other)
      have "\<not> url_here (?hide b s)"
      proof
        assume "url_here (?hide b s)"
        then obtain p x q where p: "p \<in> {''http://'', ''https://''}" "?hide b s = p @ x # q" "\<not> is_ws x"
          unfolding url_here_def by blast
        then have "\<exists>x' q'. s = p @ x' # q' \<and> is_ws x' = is_ws x" by (intro hide_front) auto
        then show False using False p by (auto simp: url_here_def)
      qed
      then show ?thesis using tail by (simp add: h url_free_Cons)
    qed
  qed
qed

lemma hide_urls_free [simp]: "url_free (hide_urls s)"
  by (simp add: hide_urls_def re_sub_def hidden_url_free)

lemma url_free_no_slash: "CHR ''/'' \<notin> set s \<Longrightarrow> url_free s"
  by (auto simp: url_free_def url_here_def)

lemma url_free_no_h: "CHR ''h'' \<notin> set s \<Longrightarrow> url_free s"
  by (auto simp: url_free_def url_here_def)

text \<open>White space ends a URL, so texts joined by it are free of URLs when each is.\<close>

lemma url_here_before_ws: "url_here (a @ w # b) \<Longrightarrow> is_ws w \<Longrightarrow> a \<noteq> [] \<Longrightarrow> url_here a"
proof -
  assume u: "url_here (a @ w # b)" and w: "is_ws w"
  obtain p x r where p: "p \<in> {''http://'', ''https://''}" "a @ w # b = p @ x # r" "\<not> is_ws x"
    using u unfolding url_here_def by blast
  have "list_all (\<lambda>c. \<not> is_ws c) ''http://''" "list_all (\<lambda>c. \<not> is_ws c) ''https://''" by code_simp+
  then have px: "\<forall>c \<in> set (p @ [x]). \<not> is_ws c" using p(1,3) by (auto simp: list_all_iff)
  have "a @ w # b = (p @ [x]) @ r" using p(2) by simp
  then obtain u where "a = (p @ [x]) @ u \<and> u @ w # b = r \<or> a @ u = p @ [x] \<and> w # b = u @ r"
    unfolding append_eq_append_conv2 [of a "w # b" "p @ [x]" r] by blast
  then show ?thesis
  proof (elim disjE conjE)
    assume a: "a @ u = p @ [x]" "w # b = u @ r"
    then have "u = [] \<or> w \<in> set u" by (cases u) auto
    moreover have "w \<notin> set u" using a(1) px w by (metis Un_iff set_append)
    ultimately have "a = p @ x # []" using a(1) by simp
    then show ?thesis using p unfolding url_here_def by blast
  next
    assume "a = (p @ [x]) @ u"
    then have "a = p @ x # u" by simp
    then show ?thesis using p unfolding url_here_def by blast
  qed
qed

lemma url_free_ws:
  assumes "is_ws w" and "url_free a" and "url_free b"
  shows "url_free (a @ w # b)"
  using assms(2)
proof (induction a)
  case Nil
  have "\<not> url_here (w # b)" using assms(1) by (auto simp: url_here_def is_ws_def)
  then show ?case using assms(3) by (simp add: url_free_Cons)
next
  case (Cons c a)
  then show ?case using url_here_before_ws [of "c # a" w b] assms(1) by (auto simp: url_free_Cons)
qed

lemma url_free_join: "list_all url_free xs \<Longrightarrow> url_free (py_join nl xs)"
proof (induction xs rule: induct_list012)
  case (3 x y ys)
  have "is_ws CHR 0x0A" by code_simp
  then show ?case using 3 by (simp add: nl_def url_free_ws)
qed (simp_all add: url_free_no_slash)

lemma url_free_line: "url_free l \<Longrightarrow> url_free (''  '' @ l) \<and> url_free (''  '' @ u_bullet @ '' '' @ l)"
proof -
  assume l: "url_free l"
  have ws: "is_ws CHR '' ''" by code_simp
  have "url_free ('' '' @ CHR '' '' # l)" "url_free ((''  '' @ u_bullet) @ CHR '' '' # l)"
    by (intro url_free_ws ws l url_free_no_slash; simp add: u_bullet_def)+
  then show ?thesis by simp
qed

lemma digits_no_slash: "CHR ''/'' \<notin> set (show_nat n)"
proof
  assume "CHR ''/'' \<in> set (show_nat n)"
  then have "is_digit CHR ''/''" by (rule show_nat_digits)
  moreover have "\<not> is_digit CHR ''/''" by code_simp
  ultimately show False by blast
qed

lemma count_line_free: "url_free (nl @ u_warning @ ''  '' @ show_nat n @ '' error/warning line(s):'')"
proof -
  have "is_ws CHR '' ''" by code_simp
  moreover have "url_free (nl @ u_warning @ ''  '' @ show_nat n)"
    using digits_no_slash by (intro url_free_no_slash) (simp add: nl_def u_warning_def)
  moreover have "url_free ''error/warning line(s):''"
    by (rule url_free_no_h) simp
  ultimately have "url_free ((nl @ u_warning @ ''  '' @ show_nat n) @ CHR '' '' # ''error/warning line(s):'')"
    by (rule url_free_ws)
  then show ?thesis by simp
qed

lemma logs_text_free:
  assumes "list_all url_free lines" and "CHR ''/'' \<notin> set task_id"
    and "\<And>reason. closed_reason = Some reason \<Longrightarrow> CHR ''/'' \<notin> set reason"
  shows "url_free (logs_text task_id closed_reason lines)"
proof -
  have "list_all url_free (last_of n xs)" if "list_all url_free xs" for n xs
    using that by (auto simp: list_all_iff last_of_def dest: in_set_dropD)
  moreover have "list_all url_free (filter is_error_line lines)" using assms(1) by (simp add: list_all_iff)
  ultimately have l: "list_all url_free (last_of 20 lines)" "list_all url_free (last_of 10 (filter is_error_line lines))"
    using assms(1) by blast+
  let ?note = "case closed_reason of None \<Rightarrow> ''task still running''
      | Some reason \<Rightarrow> if reason = [] then ''task still running'' else ''stream closed: '' @ reason"
  have "CHR ''/'' \<notin> set ?note" using assms(3) by (cases closed_reason) auto
  then have head: "url_free (''Last '' @ show_nat (length lines) @ '' log line(s) for task '' @ task_id @ '' ('' @ ?note @ ''):'')"
    using assms(2) digits_no_slash by (intro url_free_no_slash) (simp del: set_append add: set_append)
  have recent: "url_free (nl @ ''Most recent lines:'')" by (rule url_free_no_slash) (simp add: nl_def)
  have shown: "list_all url_free (map (\<lambda>l. ''  '' @ l) xs)" "list_all url_free (map (\<lambda>l. ''  '' @ u_bullet @ '' '' @ l) xs)"
    if "list_all url_free xs" for xs
    using that url_free_line by (auto simp: list_all_iff)
  show ?thesis unfolding logs_text_def Let_def
    using head recent count_line_free shown(1) [OF l(1)] shown(2) [OF l(2)]
    by (intro url_free_join) (simp only: list_all_append list.pred_inject if_split refl simp_thms)
qed

text \<open>C29: a caller who may not open a notebook, as neither the one who started it nor an administrator,
reads its log without any URL: when the log of the notebook can be read at all, \<open>get_task_logs\<close>
answers, and the answer holds no URL, whatever the lines were and however the log was cut. Neither
the id nor the reason the platform closed the stream with holds a slash.\<close>

theorem notebook_url_hidden:
  assumes "starts_with ''jup-'' task_id" and "CHR ''/'' \<notin> set task_id"
    and "fst (logs_path task_id []) = Inr route"
    and "collect_sse_logs (log_cap tail) (open_stream route) = (lines, Inr closed_reason)"
    and "\<And>reason. closed_reason = Some reason \<Longrightarrow> CHR ''/'' \<notin> set reason"
    and "\<And>row. fst (owner_row c task_id []) = Inr row \<Longrightarrow> \<not> may_open who row"
  shows "\<exists>answer. fst (get_task_logs c who open_stream task_id tail []) = Inr answer \<and> url_free answer"
proof -
  have p: "logs_path task_id [] = (Inr route, [])"
    using assms(3) by (simp add: logs_path_def seg_path_def retT_def raiseT_def split: sum.splits if_splits)
  obtain row h where own: "owner_row c task_id [] = (Inr row, h)"
    by (cases "platform_workload c task_id []"; cases "fst (platform_workload c task_id [])")
      (auto simp: owner_row_def tool_defs)
  have bare: "url_free (no_logs_text task_id)"
    using assms(2) by (intro url_free_no_slash) (simp add: no_logs_text_def)
  have run: "get_task_logs c who open_stream task_id tail [] = received_logs c who task_id closed_reason lines []"
    by (simp add: get_task_logs_def bindT_def p assms(4))
  show ?thesis
  proof (cases "lines = []")
    case True
    then have "fst (get_task_logs c who open_stream task_id tail []) = Inr (no_logs_text task_id)"
      using run by (simp add: received_logs_def retT_def)
    then show ?thesis using bare by blast
  next
    case False
    have "\<not> may_open who row" using assms(6) own by simp
    then have "fst (get_task_logs c who open_stream task_id tail []) = Inr (logs_text task_id closed_reason (map hide_urls lines))"
      using False run assms(1) own by (simp add: received_logs_def bindT_def retT_def)
    moreover have "url_free (logs_text task_id closed_reason (map hide_urls lines))"
      using assms(2,5) by (intro logs_text_free) (auto simp: list_all_iff)
    ultimately show ?thesis by blast
  qed
qed

definition one_line_stream :: log_stream where
  "one_line_stream = \<lparr>ls_response = \<lparr>hr_status = 200, hr_json = Inr JNull, hr_text = []\<rparr>,
     ls_lines = [''data: open http://10.0.0.1:8888/lab''], ls_end = Timed_out\<rparr>"

lemma notebook_url_hidden_witness:
  "\<exists>answer. fst (get_task_logs quiet_client None (\<lambda>_. Inr one_line_stream) ''jup-1'' 50 []) = Inr answer \<and> url_free answer"
proof -
  have "fst (logs_path ''jup-1'' []) = Inr ''/api/v1/jupyter/instances/jup-1/logs/stream''" by code_simp
  moreover have "collect_sse_logs (log_cap 50) (Inr one_line_stream) = ([''open http://10.0.0.1:8888/lab''], Inr None)"
    by code_simp
  moreover have "starts_with ''jup-'' ''jup-1''" by code_simp
  moreover have "\<not> may_open None row" for row by (simp add: may_open_def Let_def)
  ultimately show ?thesis
    using notebook_url_hidden [where task_id = "''jup-1''" and open_stream = "\<lambda>_. Inr one_line_stream" and who = None
        and c = quiet_client and tail = 50] by simp
qed

text \<open>C30: what a caller who may not open a notebook reads of its state does not depend on the URL: the
text of \<open>get_task_status\<close> and the details of the workload are the same for any two URLs.\<close>

theorem hidden_url_not_shown:
  assumes "\<not> may_open who (Some d)" and "truthy u" and "truthy v"
  shows "status_text c who task_id (dict_set d ''jupyter_url'' u) = status_text c who task_id (dict_set d ''jupyter_url'' v) \<and>
    format_workload_detail c who (wl\<lparr>wr_row := dict_set d ''jupyter_url'' u\<rparr>) =
    format_workload_detail c who (wl\<lparr>wr_row := dict_set d ''jupyter_url'' v\<rparr>)"
proof -
  have "\<not> may_open who (Some (dict_set d ''jupyter_url'' x))" for x
    using assms(1) by (simp add: may_open_def dict_or_empty_def)
  then show ?thesis using assms(2,3)
    by (simp add: status_text_def format_workload_detail_def field_def Let_def)
qed

lemma hidden_url_not_shown_witness:
  "status_text quiet_client None ''jup-1'' [(''jupyter_url'', JStr ''http://a'')] =
   status_text quiet_client None ''jup-1'' [(''jupyter_url'', JStr ''http://b'')]"
proof -
  have "\<not> may_open None (Some [])" by (simp add: may_open_def)
  from hidden_url_not_shown [OF this, of "JStr ''http://a''" "JStr ''http://b''" quiet_client "''jup-1''"]
  show ?thesis by simp
qed

end
