(* ===== verification/Fs_Probes.thy ===== *)
theory Fs_Probes
  imports Http_Client "HOL-Library.List_Lexorder" "HOL-Library.Char_ord"
begin

text \<open>
  \<open>mcp-server/app/tools/fs_probes.py\<close> and \<open>_shell.py\<close>: the reads of files and of the repository. The
  file system is the argument \<open>host_fs\<close> and does not change during a call: \<open>os.path.realpath\<close> answers
  an absolute path without links, dots or a slash at its end. Files hold valid UTF-8. A command is
  run by the argument of the git tools: from the words to exit code, output and error text.
\<close>

record host_fs =
  fs_real :: "string \<Rightarrow> exn + string"
  fs_exists :: "string \<Rightarrow> bool"
  fs_isfile :: "string \<Rightarrow> bool"
  fs_isdir :: "string \<Rightarrow> bool"
  fs_size :: "string \<Rightarrow> exn + int"
  fs_content :: "string \<Rightarrow> exn + string"
  fs_walk :: "string \<Rightarrow> (string \<times> string list) list"
  fs_listdir :: "string \<Rightarrow> exn + string list"

record fs_settings =
  fc_roots :: string
  fc_repo :: string

section \<open>Paths\<close>

definition comma_list :: "string \<Rightarrow> string list" where
  "comma_list s = filter (\<lambda>r. r \<noteq> []) (map py_strip (split_char (CHR '','') s))"

definition readable_roots :: "fs_settings \<Rightarrow> string list" where
  "readable_roots cfg = comma_list (fc_roots cfg)"

definition SECRET_NAMES :: "string list" where
  "SECRET_NAMES = [''.env'', ''.env.*'', ''*.env'', ''.envrc'', ''*.pem'', ''*.key'', ''*.p12'', ''*.pfx'',
     ''*.kdbx'', ''*.tfvars'', ''*.ppk'', ''id_rsa*'', ''id_dsa*'', ''id_ecdsa*'', ''id_ed25519*'', ''id_xmss*'',
     ''*-keyfile.json'', ''gcr-key.json'', ''service-account*.json'', ''credentials*'', ''.git-credentials'', ''.netrc'',
     ''.pgpass'', ''.npmrc'', ''.pypirc'', ''kubeconfig'', ''kubeconfig.*'', ''*.kubeconfig'',
     ''auth.log*'', ''secure*'', ''btmp*'', ''faillog'', ''audit.log*'']"

definition SECRET_PATHS :: "string list" where
  "SECRET_PATHS = [''.docker/config.json'', ''.kube/config'']"

text \<open>\<open>os.path.basename\<close> and \<open>os.path.dirname\<close>.\<close>

definition basename :: "string \<Rightarrow> string" where
  "basename p = last (split_char (CHR ''/'') p)"

definition dirname :: "string \<Rightarrow> string" where
  "dirname p =
     (let head = take (length p - length (basename p)) p in
      if list_all (\<lambda>c. c = CHR ''/'') head then head else rstrip_slash head)"

text \<open>\<open>fnmatch\<close> for patterns whose only special character is the star.\<close>

fun fnmatch :: "string \<Rightarrow> string \<Rightarrow> bool" where
  "fnmatch [] s = (s = [])"
| "fnmatch (p # ps) [] = (p = CHR ''*'' \<and> fnmatch ps [])"
| "fnmatch (p # ps) (c # cs) =
     (if p = CHR ''*'' then fnmatch ps (c # cs) \<or> fnmatch (p # ps) cs else p = c \<and> fnmatch ps cs)"

definition is_secret :: "string \<Rightarrow> bool" where
  "is_secret path =
     (let name = py_lower (basename path); parent = py_lower (basename (dirname path)) in
      name \<noteq> ''.env.example'' \<and>
      (list_ex (\<lambda>p. fnmatch p name) SECRET_NAMES \<or>
       parent @ ''/'' @ name \<in> set SECRET_PATHS))"

text \<open>\<open>os.path.commonpath\<close> of two absolute paths.\<close>

definition components :: "string \<Rightarrow> string list" where
  "components p = filter (\<lambda>x. x \<noteq> [] \<and> x \<noteq> ''.'') (split_char (CHR ''/'') p)"

fun common_prefix :: "string list \<Rightarrow> string list \<Rightarrow> string list" where
  "common_prefix (x # xs) (y # ys) = (if x = y then x # common_prefix xs ys else [])"
| "common_prefix _ _ = []"

definition is_absolute :: "string \<Rightarrow> bool" where "is_absolute p = starts_with ''/'' p"

definition commonpath :: "string \<Rightarrow> string \<Rightarrow> exn + string" where
  "commonpath a b =
     (if is_absolute a \<noteq> is_absolute b then Inl (ValueError (''Can'' @ [sq] @ ''t mix absolute and relative paths''))
      else Inr ((if is_absolute a then ''/'' else []) @ py_join ''/'' (common_prefix (components a) (components b))))"

text \<open>The first root that holds the real path; a root that cannot be compared is skipped, and any
other exception of a root's \<open>realpath\<close> leaves the function.\<close>

definition root_holds :: "host_fs \<Rightarrow> string \<Rightarrow> string \<Rightarrow> exn + bool" where
  "root_holds fs rp top_dir = (case fs_real fs top_dir of
      Inl (ValueError _) \<Rightarrow> Inr False
    | Inl e \<Rightarrow> Inl e
    | Inr root_real \<Rightarrow> (case commonpath rp root_real of Inl _ \<Rightarrow> Inr False | Inr c \<Rightarrow> Inr (c = root_real)))"

fun held :: "host_fs \<Rightarrow> string \<Rightarrow> string list \<Rightarrow> exn + string option" where
  "held fs rp [] = Inr None"
| "held fs rp (top_dir # roots) =
     bindE (root_holds fs rp top_dir) (\<lambda>ok. if ok then Inr (Some rp) else held fs rp roots)"

definition resolve_within_roots :: "host_fs \<Rightarrow> string \<Rightarrow> string list \<Rightarrow> exn + string option" where
  "resolve_within_roots fs path roots = (case fs_real fs path of Inl _ \<Rightarrow> Inr None | Inr rp \<Rightarrow> held fs rp roots)"

definition repr_list :: "string list \<Rightarrow> string" where
  "repr_list xs = ''['' @ py_join '', '' (map py_repr xs) @ '']''"

definition open_regular :: "host_fs \<Rightarrow> string \<Rightarrow> exn + string" where
  "open_regular fs path =
     (if fs_isfile fs path then fs_content fs path else Inl (OSError (path @ '': not a regular file'')))"

section \<open>Reading one file\<close>

definition CAP :: int where "CAP = 1000000"

definition clamp_to :: "int \<Rightarrow> int \<Rightarrow> int \<Rightarrow> int" where "clamp_to lo hi n = max lo (min n hi)"

text \<open>The part of a large file that is read: its end, from the first full line on.\<close>

definition tail_data :: "int \<Rightarrow> string \<Rightarrow> string" where
  "tail_data bytes content =
     (let data = drop (nat (bytes - CAP)) content in
      if CHR 0x0A \<in> set data then tl (dropWhile (\<lambda>c. c \<noteq> CHR 0x0A) data) else data)"

definition read_data :: "bool \<Rightarrow> int \<Rightarrow> string \<Rightarrow> string" where
  "read_data from_end bytes content = (if from_end \<and> bytes > CAP then tail_data bytes content else take (nat CAP) content)"

definition file_answer :: "string \<Rightarrow> bool \<Rightarrow> nat \<Rightarrow> int \<Rightarrow> string \<Rightarrow> string" where
  "file_answer path from_end max_lines bytes data =
     (let lines = py_splitlines data;
          chosen = (if from_end then drop (length lines - max_lines) lines else take max_lines lines) in
      path @ '' ('' @ show_int bytes @ '' bytes, showing '' @ show_nat (length chosen) @ '' of '' @ show_nat (length lines) @
      '' line(s)):'' @ nl @ py_join nl chosen)"

definition read_file :: "host_fs \<Rightarrow> fs_settings \<Rightarrow> string \<Rightarrow> int \<Rightarrow> bool \<Rightarrow> exn + string" where
  "read_file fs cfg path max_lines from_end =
     (let roots = readable_roots cfg in
      bindE (resolve_within_roots fs path roots) (\<lambda>rp. case rp of
        None \<Rightarrow> Inr (''Refused: '' @ py_repr path @ '' is outside the allowed roots '' @ repr_list roots @ ''.'')
      | Some rp \<Rightarrow>
          if \<not> fs_isfile fs rp then Inr (''Not a file: '' @ py_repr path @ ''.'')
          else if is_secret rp then Inr (''Refused: '' @ py_repr path @ '' is a secrets file.'')
          else
            (case bindE (fs_size fs rp) (\<lambda>bytes. bindE (open_regular fs rp) (\<lambda>content.
                Inr (file_answer path from_end (nat (clamp_to 1 5000 max_lines)) bytes (read_data from_end bytes content)))) of
               Inl e \<Rightarrow> Inr (''Error reading '' @ py_repr path @ '': '' @ exc_str e)
             | Inr found \<Rightarrow> Inr found)))"

section \<open>Searching\<close>

definition join_path :: "string \<Rightarrow> string \<Rightarrow> string" where
  "join_path d n =
     (if starts_with ''/'' n then n
      else if d = [] \<or> last d = CHR ''/'' then d @ n else d @ ''/'' @ n)"

definition iter_files :: "host_fs \<Rightarrow> string \<Rightarrow> nat \<Rightarrow> string list" where
  "iter_files fs top_dir cap = take cap (concat (map (\<lambda>(d, names). map (join_path d) names) (fs_walk fs top_dir)))"

text \<open>An escaped pattern is a plain text; with the flag set its case is ignored.\<close>

definition line_matches :: "string \<Rightarrow> bool \<Rightarrow> string \<Rightarrow> bool" where
  "line_matches pat ignore_case line =
     (if ignore_case then contains_sub (py_lower pat) (py_lower line) else contains_sub pat line)"

fun grep_lines :: "(string \<Rightarrow> bool) \<Rightarrow> string \<Rightarrow> nat \<Rightarrow> nat \<Rightarrow> string list \<Rightarrow> string list \<Rightarrow> string list" where
  "grep_lines rx fp most i hits [] = hits"
| "grep_lines rx fp most i hits (line # lines) =
     (if rx line then
        (let hits' = hits @ [fp @ '':'' @ show_nat i @ '': '' @ take 300 (py_strip line)] in
         if length hits' \<ge> most then hits' else grep_lines rx fp most (i + 1) hits' lines)
      else grep_lines rx fp most (i + 1) hits lines)"

fun grep_files :: "host_fs \<Rightarrow> (string \<Rightarrow> bool) \<Rightarrow> nat \<Rightarrow> string list \<Rightarrow> nat \<Rightarrow> string list \<Rightarrow> exn + string list \<times> nat" where
  "grep_files fs rx most hits scanned [] = Inr (hits, scanned)"
| "grep_files fs rx most hits scanned (fp # fps) =
     (if length hits \<ge> most then Inr (hits, scanned)
      else (case open_regular fs fp of
          Inl (OSError _) \<Rightarrow> grep_files fs rx most hits (scanned + 1) fps
        | Inl e \<Rightarrow> Inl e
        | Inr content \<Rightarrow>
            grep_files fs rx most (grep_lines rx fp most 1 hits (py_splitlines (take (nat CAP) content))) (scanned + 1) fps))"

text \<open>The files under the target that may be searched.\<close>

fun searchable :: "host_fs \<Rightarrow> string list \<Rightarrow> string list \<Rightarrow> exn + string list" where
  "searchable fs roots [] = Inr []"
| "searchable fs roots (f # fs') =
     bindE (resolve_within_roots fs f roots) (\<lambda>r. bindE (searchable fs roots fs') (\<lambda>rest.
     Inr (case r of None \<Rightarrow> rest
       | Some r \<Rightarrow> if r \<noteq> [] \<and> fs_isfile fs r \<and> \<not> is_secret r then r # rest else rest)))"

definition SOURCE_IS_NOT_RUNTIME :: string where
  "SOURCE_IS_NOT_RUNTIME = nl @ nl @ ''Note: the above is source, not runtime. It carries no '' @
     ''information about whether the containers currently running include it '' @ u_dash @ '' a '' @
     ''merged fix and a deployed fix are different things. When a symptom persists '' @
     ''after a fix landed in source, an unchanged running artifact and an incomplete '' @
     ''fix are both live possibilities; container_diff compares a container'' @ [sq] @ ''s copy of '' @
     ''a file against the repo'' @ [sq] @ ''s and distinguishes them.''"

definition grep_answer :: "host_fs \<Rightarrow> fs_settings \<Rightarrow> string \<Rightarrow> string \<Rightarrow> string \<Rightarrow> nat \<Rightarrow> string list \<Rightarrow> nat \<Rightarrow> exn + string" where
  "grep_answer fs cfg pat target rp most hits scanned =
     (if hits = [] then
        Inr (''No matches for '' @ py_repr pat @ '' under '' @ target @ '' ('' @ show_nat scanned @ '' file(s) scanned).'')
      else
        bindE (fs_real fs (fc_repo cfg)) (\<lambda>repo.
        Inr (show_nat (length hits) @ '' match(es)'' @
          (if length hits \<ge> most then '' (capped '' @ u_dash @ '' narrow the pattern/path for more)'' else []) @
          '' for '' @ py_repr pat @ '' under '' @ target @ '' ('' @ show_nat scanned @ '' file(s) scanned):'' @ nl @
          py_join nl hits @ (if rp = repo \<or> starts_with (repo @ ''/'') rp then SOURCE_IS_NOT_RUNTIME else []))))"

definition grep_logs :: "host_fs \<Rightarrow> fs_settings \<Rightarrow> string \<Rightarrow> string \<Rightarrow> int \<Rightarrow> bool \<Rightarrow> exn + string" where
  "grep_logs fs cfg pat path max_matches ignore_case =
     (let most = nat (clamp_to 1 500 max_matches); roots = readable_roots cfg;
          target = (if path \<noteq> [] then path else case roots of [] \<Rightarrow> [] | r # _ \<Rightarrow> r) in
      if length pat > 200 then Inr ''Refused: pattern is over 200 characters; search for a shorter string.''
      else
        bindE (resolve_within_roots fs target roots) (\<lambda>rp. case rp of
          None \<Rightarrow> Inr (''Refused: '' @ py_repr target @ '' is outside the allowed roots '' @ repr_list roots @ ''.'')
        | Some rp \<Rightarrow>
            if \<not> fs_exists fs rp then Inr (''No such path: '' @ py_repr target @ ''.'')
            else
              (case bindE (searchable fs roots (if fs_isfile fs rp then [rp] else iter_files fs rp 2000)) (\<lambda>files.
                  bindE (grep_files fs (line_matches pat ignore_case) most [] 0 files) (\<lambda>(hits, scanned).
                  grep_answer fs cfg pat target rp most hits scanned)) of
                 Inl e \<Rightarrow> Inr (''Error searching '' @ py_repr target @ '': '' @ exc_str e)
               | Inr found \<Rightarrow> Inr found)))"

section \<open>Listing a directory\<close>

definition dir_entry :: "host_fs \<Rightarrow> string \<Rightarrow> string \<Rightarrow> exn + string" where
  "dir_entry fs rp name =
     (let full = join_path rp name in
      if fs_isdir fs full then Inr (''  '' @ name @ ''/'')
      else (case fs_size fs full of
          Inr bytes \<Rightarrow> Inr (''  '' @ name @ ''  ('' @ show_int bytes @ '' b)'')
        | Inl (OSError _) \<Rightarrow> Inr (''  '' @ name)
        | Inl e \<Rightarrow> Inl e))"

definition list_dir :: "host_fs \<Rightarrow> fs_settings \<Rightarrow> string \<Rightarrow> exn + string" where
  "list_dir fs cfg path =
     (let roots = readable_roots cfg in
      bindE (resolve_within_roots fs path roots) (\<lambda>rp. case rp of
        None \<Rightarrow> Inr (''Refused: '' @ py_repr path @ '' is outside the allowed roots '' @ repr_list roots @ ''.'')
      | Some rp \<Rightarrow>
          if \<not> fs_isdir fs rp then Inr (''Not a directory: '' @ py_repr path @ ''.'')
          else
            (case bindE (fs_listdir fs rp) (\<lambda>names. mapE (dir_entry fs rp) (take 200 (sort names))) of
               Inl e \<Rightarrow> Inr (''Error listing '' @ py_repr path @ '': '' @ exc_str e)
             | Inr entries \<Rightarrow>
                 Inr (if entries \<noteq> [] then path @ '':'' @ nl @ py_join nl entries else path @ '' is empty.''))))"

section \<open>Commands without a shell\<close>

definition option_like :: "string list \<Rightarrow> string" where
  "option_like values = (case find (starts_with ''-'') values of None \<Rightarrow> [] | Some v \<Rightarrow> v)"

text \<open>Draining a stream into a buffer of bounded length: what does not fit is dropped.\<close>

definition MAX_BYTES :: int where "MAX_BYTES = 2000000"

definition keep :: "string \<Rightarrow> string \<Rightarrow> string" where
  "keep buf chunk = (if int (length buf) < MAX_BYTES then buf @ take (nat (MAX_BYTES - int (length buf))) chunk else buf)"

definition drain_text :: "string list \<Rightarrow> string" where "drain_text chunks = foldl keep [] chunks"

definition output_text :: "string \<Rightarrow> string" where
  "output_text buf = buf @ (if int (length buf) \<ge> MAX_BYTES then nl @ u_dots @ '' (output truncated)'' else [])"

text \<open>How a started command ended: its exit code with what it wrote, or killed at the timeout.\<close>

datatype process =
    Not_installed
  | Not_permitted
  | Exited int "string list" "string list"
  | Killed "string list" "string list"

definition command_result :: "string list \<Rightarrow> nat \<Rightarrow> process \<Rightarrow> int \<times> string \<times> string" where
  "command_result args timeout p = (case p of
      Not_installed \<Rightarrow> (127, [], hd args @ '': not installed'')
    | Not_permitted \<Rightarrow> (126, [], hd args @ '': permission denied (cannot be started here)'')
    | Exited code out err \<Rightarrow> (code, output_text (drain_text out), output_text (drain_text err))
    | Killed out err \<Rightarrow> (124, output_text (drain_text out),
        py_strip (output_text (drain_text err) @ nl @ hd args @ '': timed out after '' @ show_nat timeout @ ''s'')))"

definition run_process :: "(string list \<Rightarrow> process) \<Rightarrow> nat \<Rightarrow> string list \<Rightarrow> int \<times> string \<times> string" where
  "run_process start timeout args = command_result args timeout (start args)"

section \<open>The repository\<close>

definition configured_repo :: "host_fs \<Rightarrow> fs_settings \<Rightarrow> string \<Rightarrow> exn + string option" where
  "configured_repo fs cfg repo =
     bindE (fs_real fs (fc_repo cfg)) (\<lambda>want.
     bindE (fs_real fs (if repo \<noteq> [] then repo else want)) (\<lambda>got. Inr (if got = want then Some want else None)))"

definition git :: "string \<Rightarrow> string list" where
  "git repo = [''git'', ''--no-pager'', ''-c'', ''safe.directory='' @ repo, ''-c'', ''core.fsmonitor='',
     ''-c'', ''core.pager=cat'', ''-c'', ''log.showSignature=false'', ''-c'', ''gpg.program=false'',
     ''-c'', ''diff.external='', ''-C'', repo]"

definition GIT_SECRET_EXCLUDES :: "string list" where
  "GIT_SECRET_EXCLUDES = map (\<lambda>p. '':(exclude,glob,icase)**/'' @ p) (SECRET_NAMES @ SECRET_PATHS)"

definition ref_char :: "char \<Rightarrow> bool" where "ref_char c = (is_alnum c \<or> c \<in> set (''._/~^@'' @ ''{}-''))"

definition is_ref :: "string \<Rightarrow> bool" where
  "is_ref s = (1 \<le> length s \<and> length s \<le> 100 \<and> list_all ref_char s)"

definition dirty_count :: "int \<Rightarrow> string \<Rightarrow> int" where
  "dirty_count code dirty =
     (if code = 0 then int (length (filter (\<lambda>l. py_strip l \<noteq> [] \<and> \<not> starts_with '' D'' l) (py_splitlines dirty))) else - 1)"

definition failed_text :: "string \<Rightarrow> string \<Rightarrow> string \<Rightarrow> string" where
  "failed_text what out err = what @ py_strip (if err \<noteq> [] then err else out)"

text \<open>The repository a git tool may read, or its refusal.\<close>

definition git_repo :: "host_fs \<Rightarrow> fs_settings \<Rightarrow> string \<Rightarrow> exn + string + string" where
  "git_repo fs cfg repo =
     bindE (resolve_within_roots fs repo (readable_roots cfg)) (\<lambda>rp.
     if rp = None then Inr (Inl (''Refused: repo '' @ py_repr repo @ '' is outside the allowed roots.''))
     else
       bindE (configured_repo fs cfg repo) (\<lambda>rp. Inr (case rp of
         None \<Rightarrow> Inl (''Refused: '' @ py_repr repo @ '' is not the configured repo ('' @ fc_repo cfg @ '').'')
       | Some rp \<Rightarrow> Inr rp)))"

definition log_args :: "string \<Rightarrow> int \<Rightarrow> int \<Rightarrow> string list" where
  "log_args rp since_minutes max_commits = git rp @
     [''log'', ''--since='' @ show_int since_minutes @ '' minutes ago'', ''-n'' @ show_int max_commits,
      ''--pretty=format:%h  %ci  %an  %s'']"

definition git_log ::
  "host_fs \<Rightarrow> fs_settings \<Rightarrow> (string list \<Rightarrow> process) \<Rightarrow> int \<Rightarrow> int \<Rightarrow> string \<Rightarrow> (exn + string) \<times> string list list" where
  "git_log fs cfg start since_minutes max_commits repo =
     (let repo = (if repo \<noteq> [] then repo else fc_repo cfg);
          since = clamp_to 1 129600 since_minutes; most = clamp_to 1 200 max_commits in
      case git_repo fs cfg repo of
        Inl e \<Rightarrow> (Inl e, [])
      | Inr (Inl refusal) \<Rightarrow> (Inr refusal, [])
      | Inr (Inr rp) \<Rightarrow>
          (let query = log_args rp since most; status = git rp @ [''status'', ''--porcelain'']; (code, out, err) = run_process start 15 query in
           if code = 127 then (Inr ''git is not installed in the agent image.'', [query])
           else if code \<noteq> 0 then (Inr (failed_text ''git log failed: '' out err), [query])
           else
             (let (code2, dirty, _) = run_process start 15 status; n = dirty_count code2 dirty in
              (Inr (py_join nl
                ([''Commits in the last '' @ show_int since @ '' min ('' @ repo @ ''):'',
                  if py_strip out \<noteq> [] then py_strip out else ''  (none '' @ u_dash @ '' no recent commits)''] @
                 (if n > 0 then [nl @ u_warning @ ''  '' @ show_int n @ '' uncommitted change(s) in the working tree '' @ u_dash @
                    '' '' @ ''someone may have edited files on the host directly.''] else [])) @
                (if py_strip out \<noteq> [] then SOURCE_IS_NOT_RUNTIME else [])),
               [query, status]))))"

definition show_args :: "string \<Rightarrow> string \<Rightarrow> string list" where
  "show_args rp ref = git rp @ [''show'', ref, ''--stat'', ''--patch'', ''--no-color'', ''--no-textconv'', ''--no-ext-diff'',
     ''--'', ''.''] @ GIT_SECRET_EXCLUDES"

definition show_answer :: "string \<Rightarrow> nat \<Rightarrow> string \<Rightarrow> string" where
  "show_answer ref max_lines out =
     (let lines = py_splitlines out;
          shown = (if length lines > max_lines
            then take max_lines lines @ [u_dots @ '' ('' @ show_nat (length lines - max_lines) @ '' more line(s) truncated)'']
            else lines) in
      if shown = [] then ''(commit '' @ py_repr ref @ '' produced no output)''
      else py_join nl shown @ SOURCE_IS_NOT_RUNTIME)"

definition git_show ::
  "host_fs \<Rightarrow> fs_settings \<Rightarrow> (string list \<Rightarrow> process) \<Rightarrow> string \<Rightarrow> string \<Rightarrow> int \<Rightarrow> (exn + string) \<times> string list list" where
  "git_show fs cfg start ref repo max_lines =
     (let repo = (if repo \<noteq> [] then repo else fc_repo cfg) in
      case git_repo fs cfg repo of
        Inl e \<Rightarrow> (Inl e, [])
      | Inr (Inl refusal) \<Rightarrow> (Inr refusal, [])
      | Inr (Inr rp) \<Rightarrow>
          if option_like [ref] \<noteq> [] then
            (Inr (''Refused: '' @ py_repr ref @ '' is a git option, not a revision. Pass a commit hash, '' @
              ''tag or ref (git_log lists the recent ones).''), [])
          else if \<not> is_ref ref then
            (Inr (''Refused: '' @ py_repr ref @ '' is not a plain revision (no '' @ quoted '':'' @ '' paths). Pass a commit '' @
              ''hash, tag or ref (git_log lists the recent ones).''), [])
          else
            (let args = show_args rp ref; (code, out, err) = run_process start 15 args in
             if code = 127 then (Inr ''git is not installed in the agent image.'', [args])
             else if code \<noteq> 0 then (Inr (failed_text ''git show failed: '' out err), [args])
             else (Inr (show_answer ref (nat (clamp_to 1 2000 max_lines)) out), [args])))"

section \<open>What is read\<close>

text \<open>A file a tool may show: under a readable root by its real path, and not named like a secret.\<close>

definition readable_file :: "host_fs \<Rightarrow> fs_settings \<Rightarrow> string \<Rightarrow> bool" where
  "readable_file fs cfg p = (\<not> is_secret p \<and>
     (\<exists>r \<in> set (readable_roots cfg). \<exists>d. fs_real fs r = Inr d \<and> commonpath p d = Inr d))"

lemma held_root: "held fs p roots = Inr (Some q) \<Longrightarrow> q = p \<and> (\<exists>r \<in> set roots. \<exists>d. fs_real fs r = Inr d \<and> commonpath p d = Inr d)"
proof (induction roots)
  case (Cons r roots)
  then show ?case
    by (cases "fs_real fs r") (auto simp: bindE_def root_holds_def split: sum.splits exn.splits if_splits)
qed simp

lemma resolved_root:
  "resolve_within_roots fs path roots = Inr (Some p) \<Longrightarrow> \<exists>r \<in> set roots. \<exists>d. fs_real fs r = Inr d \<and> commonpath p d = Inr d"
  using held_root by (fastforce simp: resolve_within_roots_def split: sum.splits)

lemma resolved_readable:
  "resolve_within_roots fs path (readable_roots cfg) = Inr (Some p) \<Longrightarrow> \<not> is_secret p \<Longrightarrow> readable_file fs cfg p"
  using resolved_root by (fastforce simp: readable_file_def)

text \<open>Finding out where a path leads does not depend on what files hold.\<close>

lemma held_content [simp]: "held (fs\<lparr>fs_content := other\<rparr>) p roots = held fs p roots"
  by (induction roots) (simp_all add: root_holds_def cong: if_cong)

lemma resolve_content [simp]: "resolve_within_roots (fs\<lparr>fs_content := other\<rparr>) path roots = resolve_within_roots fs path roots"
  by (simp add: resolve_within_roots_def cong: sum.case_cong)

lemma searchable_content [simp]: "searchable (fs\<lparr>fs_content := other\<rparr>) roots files = searchable fs roots files"
  by (induction files) (simp_all cong: option.case_cong if_cong)

lemma open_content: "other p = fs_content fs p \<Longrightarrow> open_regular (fs\<lparr>fs_content := other\<rparr>) p = open_regular fs p"
  by (simp add: open_regular_def)

lemma searchable_readable: "searchable fs (readable_roots cfg) files = Inr found \<Longrightarrow> list_all (readable_file fs cfg) found"
proof (induction files arbitrary: found)
  case (Cons f files)
  then obtain r rest where "resolve_within_roots fs f (readable_roots cfg) = Inr r" "searchable fs (readable_roots cfg) files = Inr rest"
      "found = (case r of None \<Rightarrow> rest | Some r \<Rightarrow> if r \<noteq> [] \<and> fs_isfile fs r \<and> \<not> is_secret r then r # rest else rest)"
    by (auto simp: bindE_def split: sum.splits)
  then show ?case using Cons.IH resolved_readable by (auto split: option.splits if_splits)
qed simp

lemma grep_files_content:
  assumes "\<And>p. p \<in> set files \<Longrightarrow> other p = fs_content fs p"
  shows "grep_files (fs\<lparr>fs_content := other\<rparr>) rx most hits n files = grep_files fs rx most hits n files"
  using assms
proof (induction files arbitrary: hits n)
  case (Cons p files)
  then have "open_regular (fs\<lparr>fs_content := other\<rparr>) p = open_regular fs p" by (simp add: open_content)
  with Cons show ?case by (simp split: sum.split exn.split)
qed simp

text \<open>C25: what the reading tools answer depends only on the contents of readable files: whatever a secrets
file or a file outside the roots holds, the answers to a read and to a search are the same. A
listing depends on no file's contents; it does name the entries of a directory, with their sizes,
and a secrets file is one of them.\<close>

theorem secrets_not_read:
  assumes "\<And>p. readable_file fs cfg p \<Longrightarrow> other p = fs_content fs p"
  shows "read_file (fs\<lparr>fs_content := other\<rparr>) cfg path max_lines from_end = read_file fs cfg path max_lines from_end \<and>
    grep_logs (fs\<lparr>fs_content := other\<rparr>) cfg pat path most ignore_case = grep_logs fs cfg pat path most ignore_case \<and>
    list_dir (fs\<lparr>fs_content := other\<rparr>) cfg path = list_dir fs cfg path"
proof (intro conjI)
  let ?fs = "fs\<lparr>fs_content := other\<rparr>"
  show "read_file ?fs cfg path max_lines from_end = read_file fs cfg path max_lines from_end"
  proof (cases "resolve_within_roots fs path (readable_roots cfg)")
    case (Inr found)
    have "open_regular ?fs p = open_regular fs p" if "found = Some p" "\<not> is_secret p" for p
      using Inr that resolved_readable assms open_content by blast
    then show ?thesis using Inr by (simp add: read_file_def bindE_def Let_def split: option.split)
  qed (simp add: read_file_def bindE_def)
  have search: "bindE (searchable fs (readable_roots cfg) files) (\<lambda>found. bindE (grep_files ?fs rx m hits n found) k) =
      bindE (searchable fs (readable_roots cfg) files) (\<lambda>found. bindE (grep_files fs rx m hits n found) k)" for files rx m hits n k
  proof (cases "searchable fs (readable_roots cfg) files")
    case (Inr found)
    then have "grep_files ?fs rx m hits n found = grep_files fs rx m hits n found"
      using searchable_readable assms by (intro grep_files_content) (auto simp: list_all_iff)
    then show ?thesis using Inr by (simp add: bindE_def)
  qed (simp add: bindE_def)
  have answer: "grep_answer ?fs = grep_answer fs" by (intro ext) (simp add: grep_answer_def)
  have walk: "iter_files ?fs = iter_files fs" by (intro ext) (simp add: iter_files_def)
  show "grep_logs ?fs cfg pat path most ignore_case = grep_logs fs cfg pat path most ignore_case"
    by (simp add: grep_logs_def search answer walk Let_def cong: option.case_cong if_cong sum.case_cong)
  have entry: "dir_entry ?fs = dir_entry fs" by (intro ext) (simp add: dir_entry_def Let_def cong: sum.case_cong if_cong)
  show "list_dir ?fs cfg path = list_dir fs cfg path"
    by (simp add: list_dir_def entry cong: option.case_cong if_cong sum.case_cong)
qed

definition small_fs :: host_fs where
  "small_fs = \<lparr>fs_real = Inr, fs_exists = (\<lambda>_. True), fs_isfile = (\<lambda>_. True), fs_isdir = (\<lambda>_. False), fs_size = (\<lambda>_. Inr 5),
     fs_content = (\<lambda>p. Inr (if p = ''/repo/.env'' then ''KEY=1'' else ''hello'')), fs_walk = (\<lambda>_. []), fs_listdir = (\<lambda>_. Inr [])\<rparr>"

definition repo_settings :: fs_settings where "repo_settings = \<lparr>fc_roots = ''/repo'', fc_repo = ''/repo''\<rparr>"

lemma secrets_not_read_witness:
  "read_file (small_fs\<lparr>fs_content := \<lambda>p. if is_secret p then Inr ''other'' else fs_content small_fs p\<rparr>) repo_settings ''/repo/.env'' 10 True =
   read_file small_fs repo_settings ''/repo/.env'' 10 True"
  using secrets_not_read [of small_fs repo_settings "\<lambda>p. if is_secret p then Inr ''other'' else fs_content small_fs p"]
  by (simp add: readable_file_def)

text \<open>a git command only ever runs in the configured repository, which lies under a readable root, with
the settings that could start a program switched off, and a revision given by the caller never
reads as an option.\<close>

theorem git_commands_fixed:
  assumes "args \<in> set (snd (git_show fs cfg start ref repo max_lines)) \<or>
      args \<in> set (snd (git_log fs cfg start since_minutes max_commits repo))"
  shows "\<exists>rp rest. fs_real fs (fc_repo cfg) = Inr rp \<and> args = git rp @ rest \<and>
    (\<exists>r \<in> set (readable_roots cfg). \<exists>d p. fs_real fs r = Inr d \<and> commonpath p d = Inr d) \<and>
    hd rest \<in> {''show'', ''log'', ''status''} \<and> (hd rest = ''show'' \<longrightarrow> rest ! 1 = ref \<and> \<not> starts_with ''-'' ref \<and> is_ref ref)"
proof -
  have allowed: "\<exists>p. resolve_within_roots fs r (readable_roots cfg) = Inr (Some p) \<and> fs_real fs (fc_repo cfg) = Inr rp"
    if "git_repo fs cfg r = Inr (Inr rp)" for r rp
    using that by (auto simp: git_repo_def configured_repo_def bindE_def split: sum.splits if_splits option.splits)
  have shown: "\<not> starts_with ''-'' ref" if "option_like [ref] = []"
    using that by (cases "starts_with ''-'' ref") (auto simp: option_like_def starts_with_def)
  show ?thesis
  proof (cases "args \<in> set (snd (git_show fs cfg start ref repo max_lines))")
    case True
    then obtain rp r where "git_repo fs cfg r = Inr (Inr rp)" "args = show_args rp ref" "option_like [ref] = []" "is_ref ref"
      by (auto simp: git_show_def Let_def split: sum.splits if_splits prod.splits)
    then show ?thesis using allowed [of r rp] resolved_root [of fs r "readable_roots cfg"] shown
      by (fastforce simp: show_args_def)
  next
    case False
    then obtain rp r m n where "git_repo fs cfg r = Inr (Inr rp)" "args = log_args rp m n \<or> args = git rp @ [''status'', ''--porcelain'']"
      using assms by (auto simp: git_log_def Let_def split: sum.splits if_splits prod.splits)
    then show ?thesis using allowed [of r rp] resolved_root [of fs r "readable_roots cfg"]
      by (fastforce simp: log_args_def)
  qed
qed

lemma git_commands_fixed_witness:
  "show_args ''/repo'' ''HEAD'' \<in> set (snd (git_show small_fs repo_settings (\<lambda>_. Not_installed) ''HEAD'' [] 200)) \<and>
   fs_real small_fs ''/repo'' = Inr ''/repo''"
proof -
  have "git_repo small_fs repo_settings ''/repo'' = Inr (Inr ''/repo'')" by code_simp
  moreover have "option_like [''HEAD''] = []" "is_ref ''HEAD''" by code_simp+
  ultimately have mem: "show_args ''/repo'' ''HEAD'' \<in> set (snd (git_show small_fs repo_settings (\<lambda>_. Not_installed) ''HEAD'' [] 200))"
    by (simp add: git_show_def repo_settings_def run_process_def command_result_def Let_def)
  then obtain rp where "fs_real small_fs (fc_repo repo_settings) = Inr rp"
    using git_commands_fixed by blast
  then show ?thesis using mem by (simp add: small_fs_def repo_settings_def)
qed

text \<open>C31: the output kept of a command is the beginning of its stream, at most the bounded number of bytes,
however the stream was cut into chunks, and it depends on nothing that came after them.\<close>

theorem drain_text_prefix:
  "drain_text chunks = take (nat MAX_BYTES) (concat chunks) \<and> int (length (drain_text chunks)) \<le> MAX_BYTES"
proof
  show eq: "drain_text chunks = take (nat MAX_BYTES) (concat chunks)"
  proof (induction chunks rule: rev_induct)
    case (snoc c chunks)
    have "drain_text (chunks @ [c]) = keep (drain_text chunks) c" by (simp add: drain_text_def)
    then show ?case using snoc by (auto simp: keep_def min_def nat_diff_distrib nat_le_iff)
  qed (simp add: drain_text_def)
  show "int (length (drain_text chunks)) \<le> MAX_BYTES" by (simp add: eq MAX_BYTES_def)
qed

end
