(* ===== verification/Docker_Probes.thy ===== *)
theory Docker_Probes
  imports Fs_Probes Platform_Api
begin

text \<open>
  \<open>mcp-server/app/tools/docker_probes.py\<close>: containers of the Docker host. The Docker SDK is the
  argument \<open>docker_api\<close>, a tar archive's members come from \<open>tar_members\<close> and a diff's lines from
  \<open>udiff\<close>. Times are seconds, printed by \<open>dk_iso\<close>; containers of JSON are printed by \<open>dk_rep\<close>.
\<close>

record container =
  ct_name :: string
  ct_status :: string
  ct_attrs :: dict
  ct_ports :: "(string \<times> json) list"

datatype docker_exn = Not_found string | Docker_error string

fun docker_text :: "docker_exn \<Rightarrow> string" where
  "docker_text (Not_found m) = m"
| "docker_text (Docker_error m) = m"

record archive_answer =
  ar_chunks :: "string list"
  ar_stat :: dict

record tar_member =
  tm_name :: string
  tm_isfile :: bool
  tm_data :: string

record docker_api =
  dk_get :: "string \<Rightarrow> docker_exn + container"
  dk_list :: "bool \<Rightarrow> docker_exn + container list"
  dk_logs :: "container \<Rightarrow> int option \<Rightarrow> int \<Rightarrow> docker_exn + string"
  dk_archive :: "container \<Rightarrow> string \<Rightarrow> docker_exn + archive_answer"
  dk_events :: "int \<Rightarrow> int \<Rightarrow> (docker_exn + dict list) option"
  tar_members :: "string \<Rightarrow> string + tar_member list"
  dk_rep :: "json \<Rightarrow> string"
  dk_iso :: "int \<Rightarrow> string"
  udiff :: "string list \<Rightarrow> string list \<Rightarrow> string \<Rightarrow> string \<Rightarrow> string list"

section \<open>Finding a container\<close>

definition EXIT_HINTS :: "(int \<times> string) list" where
  "EXIT_HINTS = [(125, ''docker run itself failed (bad flag/image)''), (126, ''container command not executable''),
     (127, ''container command not found''),
     (137, ''SIGKILL '' @ u_dash @ '' usually OOM-killed or `docker kill`''), (139, ''SIGSEGV '' @ u_dash @ '' segfault''),
     (143, ''SIGTERM '' @ u_dash @ '' graceful stop'')]"

definition DOCKER_ERROR_WORDS :: "string list" where
  "DOCKER_ERROR_WORDS = [''error'', ''fail'', ''exception'', ''traceback'', ''refused'', ''denied'', ''timeout'', ''oom'',
     ''killed'', ''critical'', ''fatal'', ''panic'']"

text \<open>Exit codes are numbers or missing.\<close>

definition dk_show :: "docker_api \<Rightarrow> json \<Rightarrow> string" where "dk_show d = str_json (dk_rep d)"

definition fmt_exit :: "docker_api \<Rightarrow> json \<Rightarrow> string" where
  "fmt_exit d code = (case code of
      JInt i \<Rightarrow> (case map_of EXIT_HINTS i of None \<Rightarrow> show_int i | Some hint \<Rightarrow> show_int i @ '' ('' @ hint @ '')'')
    | JNull \<Rightarrow> ''?''
    | v \<Rightarrow> dk_show d v)"

definition name_matches :: "string \<Rightarrow> container list \<Rightarrow> container list" where
  "name_matches name cs = filter (\<lambda>c. contains_sub (py_lower name) (py_lower (ct_name c))) cs"

definition sorted_names :: "container list \<Rightarrow> string" where
  "sorted_names cs = py_join '', '' (sort (map ct_name cs))"

definition resolve_container :: "docker_api \<Rightarrow> string \<Rightarrow> docker_exn + container" where
  "resolve_container d name = (case dk_get d name of
      Inr c \<Rightarrow> Inr c
    | Inl (Docker_error m) \<Rightarrow> Inl (Docker_error m)
    | Inl (Not_found _) \<Rightarrow>
        (case dk_list d True of Inl e \<Rightarrow> Inl e
         | Inr cs \<Rightarrow>
             (case name_matches name cs of
                [c] \<Rightarrow> Inr c
              | [] \<Rightarrow> Inl (Not_found (''no container named or matching '' @ py_repr name @ '' on this host (containers: '' @
                  (if sorted_names cs = [] then ''none'' else sorted_names cs) @ '')''))
              | ms \<Rightarrow> Inl (Not_found (py_repr name @ '' matches multiple containers ('' @ sorted_names ms @ '') '' @ u_dash @
                  '' retry with the full name.'')))))"

text \<open>A stopped container's logs are read whatever their age.\<close>

definition logs_raw :: "docker_api \<Rightarrow> string \<Rightarrow> int \<Rightarrow> int \<Rightarrow> docker_exn + string" where
  "logs_raw d name since tail = (case resolve_container d name of Inl e \<Rightarrow> Inl e
     | Inr c \<Rightarrow> dk_logs d c (if ct_status c = ''running'' then Some since else None) tail)"

definition subdict :: "dict \<Rightarrow> string \<Rightarrow> exn + dict" where
  "subdict a k = as_dict (dict_get_or a k (JObj []))"

section \<open>Listing and inspecting\<close>

definition port_texts :: "docker_api \<Rightarrow> (string \<times> json) list \<Rightarrow> exn + string list" where
  "port_texts d ports = bindE (mapE (\<lambda>(port, binds).
       bindE (iterate (json_or binds (JList []))) (mapE (\<lambda>b. bindE (as_dict b) (\<lambda>b. bindE (item b ''HostPort'') (\<lambda>h.
         Inr (dk_show d h @ ''->'' @ port)))))) ports) (\<lambda>pss. Inr (sort (concat pss)))"

definition exit_part :: "docker_api \<Rightarrow> container \<Rightarrow> dict \<Rightarrow> exn + string" where
  "exit_part d c state =
     (if ct_status c \<notin> {''exited'', ''dead''} then Inr []
      else
        (case dict_get_or state ''FinishedAt'' (JStr []) of
           JStr t \<Rightarrow> Inr ('' exit='' @ fmt_exit d (dict_get state ''ExitCode'') @
             (if starts_with ''2'' t then '' finished='' @ t else []))
         | v \<Rightarrow> Inl (no_attribute v ''startswith'')))"

definition container_line :: "docker_api \<Rightarrow> container \<Rightarrow> exn + string" where
  "container_line d c =
     bindE (subdict (ct_attrs c) ''State'') (\<lambda>state.
     bindE (as_dict (json_or (dict_get state ''Health'') (JObj []))) (\<lambda>health.
     bindE (exit_part d c state) (\<lambda>ended.
     bindE (subdict (ct_attrs c) ''Config'') (\<lambda>config.
     bindE (port_texts d (ct_ports c)) (\<lambda>pub.
     Inr (ct_name c @ ''  ['' @ ct_status c @ '']'' @
       (if truthy (dict_get health ''Status'') then '' health='' @ dk_show d (dict_get health ''Status'') else []) @ ended @
       ''  image='' @ dk_show d (json_or (dict_get config ''Image'') (JStr ''<none>'')) @
       (if pub \<noteq> [] then ''  ports='' @ py_join '','' pub else [])))))))"

definition list_containers :: "docker_api \<Rightarrow> bool \<Rightarrow> exn + string" where
  "list_containers d include_stopped = (case dk_list d include_stopped of
      Inl e \<Rightarrow> Inr (''Cannot reach the Docker daemon: '' @ docker_text e)
    | Inr cs \<Rightarrow> bindE (mapE (container_line d) cs) (\<lambda>rows.
        Inr (if rows = [] then ''No containers found on this host.''
          else ''Containers on host:'' @ nl @ py_join nl (map (\<lambda>r. ''  '' @ r) rows))))"

definition last_lines :: "nat \<Rightarrow> 'a list \<Rightarrow> 'a list" where
  "last_lines n xs = drop (length xs - n) xs"

definition docker_logs :: "docker_api \<Rightarrow> int \<Rightarrow> string \<Rightarrow> int \<Rightarrow> int \<Rightarrow> string" where
  "docker_logs d now name since_minutes tail =
     (let since_minutes = clamp_to 1 43200 since_minutes; tail = clamp_to 1 5000 tail in
      case logs_raw d name (now - 60 * since_minutes) tail of
        Inl (Not_found m) \<Rightarrow> m
      | Inl (Docker_error m) \<Rightarrow> ''Cannot read logs for '' @ py_repr name @ '': '' @ m
      | Inr txt \<Rightarrow>
          (let lines = filter (\<lambda>l. py_strip l \<noteq> []) (py_splitlines txt);
               errors = filter (\<lambda>l. list_ex (\<lambda>kw. contains_sub kw (py_lower l)) DOCKER_ERROR_WORDS) lines in
           if lines = [] then ''No logs for '' @ py_repr name @ '' in the last '' @ show_int since_minutes @ '' min.''
           else py_join nl
             ([''Logs for '' @ py_repr name @ '' (last '' @ show_int since_minutes @ '' min, '' @ show_nat (length lines) @
               '' line(s)):''] @
              (if errors \<noteq> [] then
                 [nl @ u_warning @ ''  '' @ show_nat (length errors) @ '' error/warning line(s):''] @
                 map (\<lambda>l. ''  '' @ u_bullet @ '' '' @ l) (last_lines 15 errors) else []) @
              [nl @ ''Most recent lines:''] @ map (\<lambda>l. ''  '' @ l) (last_lines 30 lines))))"

definition health_lines :: "docker_api \<Rightarrow> dict \<Rightarrow> exn + string list" where
  "health_lines d health =
     (if health = [] then Inr []
      else
        (let status = ''  health: '' @ dk_show d (dict_get health ''Status'') in
         case json_or (dict_get health ''Log'') (JList []) of
           JList [] \<Rightarrow> Inr [status]
         | JList xs \<Rightarrow>
             bindE (as_dict (last xs)) (\<lambda>entry.
             bindE (json_strip (dict_get_or entry ''Output'' (JStr []))) (\<lambda>out.
             Inr [status, ''  last health check: '' @ take 300 out]))
         | v \<Rightarrow> Inl (TypeError (quoted (type_name v) @ '' object is not subscriptable''))))"

definition format_inspect :: "docker_api \<Rightarrow> string \<Rightarrow> dict \<Rightarrow> exn + string" where
  "format_inspect d name a =
     bindE (subdict a ''State'') (\<lambda>state.
     bindE (as_dict (json_or (dict_get state ''Health'') (JObj []))) (\<lambda>health.
     bindE (bindE (subdict a ''HostConfig'') (\<lambda>h. subdict h ''RestartPolicy'')) (\<lambda>policy.
     bindE (subdict a ''Config'') (\<lambda>config.
     bindE (health_lines d health) (\<lambda>hl.
     Inr (py_join nl
       ([''Inspect '' @ py_repr name @ '':'',
         ''  status: '' @ dk_show d (dict_get state ''Status''),
         ''  exit code: '' @ fmt_exit d (dict_get state ''ExitCode''),
         ''  OOMKilled: '' @ dk_show d (dict_get state ''OOMKilled''),
         ''  restart count: '' @ dk_show d (dict_get a ''RestartCount''),
         ''  restart policy: '' @ dk_show d (dict_get policy ''Name''),
         ''  started: '' @ dk_show d (dict_get state ''StartedAt''),
         ''  finished: '' @ dk_show d (dict_get state ''FinishedAt''),
         ''  image: '' @ dk_show d (dict_get config ''Image'')] @ hl)))))))"

definition inspect_container :: "docker_api \<Rightarrow> string \<Rightarrow> exn + string" where
  "inspect_container d name = (case resolve_container d name of
      Inl (Not_found m) \<Rightarrow> Inr m
    | Inl (Docker_error m) \<Rightarrow> Inr (''Cannot inspect '' @ py_repr name @ '': '' @ m)
    | Inr c \<Rightarrow> format_inspect d name (ct_attrs c))"

section \<open>Reading one file of a container\<close>

datatype found_file = File string | Directory | Link string | Too_big string

definition extract_one_file :: "docker_api \<Rightarrow> string \<Rightarrow> string \<Rightarrow> string + found_file" where
  "extract_one_file d raw name = (case tar_members d raw of
      Inl e \<Rightarrow> Inl e
    | Inr [m] \<Rightarrow> Inr (if tm_isfile m \<and> tm_name m = name then File (take (nat CAP) (tm_data m)) else Directory)
    | Inr _ \<Rightarrow> Inr Directory)"

fun read_chunks :: "string \<Rightarrow> string list \<Rightarrow> string" where
  "read_chunks buf [] = buf"
| "read_chunks buf (c # cs) = (let buf = buf @ c in if int (length buf) > CAP + 200000 then buf else read_chunks buf cs)"

datatype read_error = Docker_failed docker_exn | Tar_failed string

text \<open>The size of the archive's header is a number or missing.\<close>

definition container_read :: "docker_api \<Rightarrow> string \<Rightarrow> string \<Rightarrow> read_error + found_file" where
  "container_read d name path = (case resolve_container d name of
      Inl e \<Rightarrow> Inl (Docker_failed e)
    | Inr c \<Rightarrow>
        (case dk_archive d c path of
           Inl e \<Rightarrow> Inl (Docker_failed e)
         | Inr a \<Rightarrow>
             (let target = dict_get (ar_stat a) ''linkTarget''; bytes = dict_get (ar_stat a) ''size'' in
              if truthy target then Inr (Link (dk_show d target))
              else if (case json_real bytes of None \<Rightarrow> False | Some r \<Rightarrow> r > of_int CAP) then Inr (Too_big (dk_show d bytes))
              else (case extract_one_file d (read_chunks [] (ar_chunks a)) (basename path) of
                  Inl e \<Rightarrow> Inl (Tar_failed e)
                | Inr f \<Rightarrow> Inr f))))"

definition container_roots :: "string \<Rightarrow> string list" where "container_roots s = comma_list s"

definition container_path_allowed :: "string \<Rightarrow> string \<Rightarrow> bool" where
  "container_path_allowed roots path =
     (starts_with ''/'' path \<and>
      list_ex (\<lambda>r. normpath path = r \<or> starts_with (rstrip_slash r @ ''/'') (normpath path)) (container_roots roots))"

record diff_settings =
  df_container_roots :: string
  df_fs :: fs_settings

text \<open>What is refused before anything is read.\<close>

definition diff_refusal :: "diff_settings \<Rightarrow> string \<Rightarrow> string \<Rightarrow> string \<Rightarrow> string option" where
  "diff_refusal cfg container path repo_path =
     (if py_strip container = [] then
        Some (''Refused: container is required '' @ u_dash @ '' `list_containers` names every container '' @
          ''on this host and its published ports.'')
      else if \<not> container_path_allowed (df_container_roots cfg) path then
        Some (''Refused: '' @ py_repr path @ '' is outside the container roots this tool may read '' @
          ''('' @ py_join '', '' (container_roots (df_container_roots cfg)) @ ''). Those hold deployed code and assets, '' @
          ''which is what a stale-code check compares; everything else in a '' @
          ''container'' @ [sq] @ ''s filesystem '' @ u_dash @ '' credentials and keys included '' @ u_dash @ '' is out of scope.'')
      else if repo_path = [] then
        Some (''Refused: container_diff needs the repo file to compare against '' @ u_dash @ '' it diffs '' @
          ''a deployed file against its source, it is not a file reader. Pass '' @
          ''repo_path=/repo/'' @ u_dots @ ''/'' @ basename path @ '' (`list_dir` finds it).'')
      else if is_secret path \<or> is_secret repo_path then
        Some (''Refused: '' @ py_repr (basename path) @ '' is a secrets file.'')
      else if basename path \<noteq> basename repo_path then
        Some (''Refused: '' @ py_repr (basename path) @ '' and '' @ py_repr (basename repo_path) @ '' '' @
          ''are different files, so a diff of them says nothing about stale code. '' @
          ''Compare a container file against its OWN source file.'')
      else None)"

definition read_error_text :: "string \<Rightarrow> string \<Rightarrow> read_error \<Rightarrow> string" where
  "read_error_text container path e = (case e of
      Docker_failed (Not_found m) \<Rightarrow> ''Not found: '' @ m @ '' (container missing, or '' @ py_repr path @ '' does not exist inside it).''
    | Docker_failed (Docker_error m) \<Rightarrow> ''Cannot read '' @ py_repr path @ '' from '' @ py_repr container @ '': '' @ m @ '' '' @
        ''(if the socket proxy blocks the archive GET, this tool is unavailable).''
    | Tar_failed m \<Rightarrow> ''Cannot read '' @ py_repr path @ '' from '' @ py_repr container @ '': the archive was unreadable ('' @ m @ '').'')"

definition diff_answer :: "docker_api \<Rightarrow> string \<Rightarrow> string \<Rightarrow> string \<Rightarrow> nat \<Rightarrow> string \<Rightarrow> string \<Rightarrow> string" where
  "diff_answer d container path repo_path max_lines repo_text txt =
     (if repo_text = txt then
        ''IDENTICAL '' @ u_dash @ '' '' @ py_repr path @ '' in '' @ py_repr container @ '' matches '' @ repo_path @ '' byte-for-byte. '' @
        ''The container is running the current source; the stale-code theory is ruled '' @
        ''out '' @ u_dash @ '' look elsewhere.''
      else
        (let diff = udiff d (py_splitlines repo_text) (py_splitlines txt) (''repo:'' @ repo_path)
               (''container:'' @ container @ '':'' @ path);
             shown = (if length diff > max_lines
               then take max_lines diff @ [u_dots @ '' ('' @ show_nat (length diff - max_lines) @ '' more diff line(s) truncated)'']
               else diff) in
         ''DIFFERS '' @ u_dash @ '' '' @ py_repr path @ '' in '' @ py_repr container @ '' is NOT the same as '' @ repo_path @ '' '' @
         ''(the container may be running stale code):'' @ nl @ py_join nl shown))"

definition container_diff ::
  "docker_api \<Rightarrow> host_fs \<Rightarrow> diff_settings \<Rightarrow> string \<Rightarrow> string \<Rightarrow> string \<Rightarrow> int \<Rightarrow> exn + string" where
  "container_diff d fs cfg container path repo_path max_lines =
     (let roots = readable_roots (df_fs cfg) in
      case diff_refusal cfg container path repo_path of Some refusal \<Rightarrow> Inr refusal
      | None \<Rightarrow>
          (case container_read d container path of
             Inl e \<Rightarrow> Inr (read_error_text container path e)
           | Inr Directory \<Rightarrow> Inr (py_repr path @ '' in '' @ py_repr container @ '' is a directory (or empty) '' @ u_dash @
               '' pass a single file path.'')
           | Inr (Link target) \<Rightarrow> Inr (''Refused: '' @ py_repr path @ '' in '' @ py_repr container @ '' is a symlink (to '' @
               py_repr target @ ''); pass the '' @ ''file it points to, if that is inside the container roots.'')
           | Inr (Too_big bytes) \<Rightarrow> Inr (py_repr path @ '' in '' @ py_repr container @ '' is '' @ bytes @
               '' bytes, over the 1 MB this tool compares.'')
           | Inr (File txt) \<Rightarrow>
               bindE (resolve_within_roots fs repo_path roots) (\<lambda>rp. case rp of
                 None \<Rightarrow> Inr (''Refused: repo_path '' @ py_repr repo_path @ '' is outside the allowed roots '' @ repr_list roots @ ''.'')
               | Some rp \<Rightarrow>
                   if \<not> fs_isfile fs rp then
                     Inr (''Repo file not found: '' @ py_repr repo_path @ '' '' @ u_dash @ '' `list_dir` the repo to find the real path.'')
                   else if is_secret rp then Inr (''Refused: '' @ py_repr repo_path @ '' is a secrets file.'')
                   else
                     bindE (fs_content fs rp) (\<lambda>content.
                     Inr (diff_answer d container path repo_path (nat (clamp_to 1 2000 max_lines)) (take (nat CAP) content) txt)))))"

section \<open>The latest failure\<close>

definition event_attrs :: "dict \<Rightarrow> exn + dict" where
  "event_attrs ev = bindE (subdict ev ''Actor'') (\<lambda>actor. subdict actor ''Attributes'')"

definition event_action :: "dict \<Rightarrow> json" where
  "event_action ev = json_or (json_or (dict_get ev ''Action'') (dict_get ev ''status'')) (JStr [])"

definition is_failure :: "docker_api \<Rightarrow> dict \<Rightarrow> exn + bool" where
  "is_failure d ev = (case event_action ev of
      JStr action \<Rightarrow>
        (if action = ''die''
         then bindE (event_attrs ev) (\<lambda>attrs. Inr (dk_show d (dict_get_or attrs ''exitCode'' (JStr ''0'')) \<noteq> ''0''))
         else Inr (action \<in> {''kill'', ''oom''} \<or> contains_sub ''unhealthy'' action))
    | v \<Rightarrow> Inl (TypeError (''argument of type '' @ quoted (type_name v) @ '' is not iterable'')))"

definition event_time :: "dict \<Rightarrow> exn + int" where
  "event_time ev = (case dict_get_or ev ''time'' (JInt 0) of JInt t \<Rightarrow> Inr t
     | v \<Rightarrow> Inl (TypeError (''an integer is required (got type '' @ type_name v @ '')'')))"

definition recent_line :: "docker_api \<Rightarrow> dict \<Rightarrow> exn + string" where
  "recent_line d ev = bindE (event_attrs ev) (\<lambda>attrs. bindE (event_time ev) (\<lambda>t.
     Inr (''  '' @ dk_iso d t @ ''  '' @ dk_show d (dict_get ev ''Action'') @ ''  '' @
       dk_show d (dict_get_or attrs ''name'' (JStr ''?'')))))"

definition exit_note :: "docker_api \<Rightarrow> dict \<Rightarrow> exn + string" where
  "exit_note d attrs = (case map_of attrs ''exitCode'' of None \<Rightarrow> Inr []
    | Some (JStr s) \<Rightarrow> (case py_int s of
          Some i \<Rightarrow> Inr ('' exit='' @ fmt_exit d (JInt i))
        | None \<Rightarrow> Inl (ValueError (''invalid literal for int() with base 10: '' @ py_repr s)))
    | Some v \<Rightarrow> bindE (int_or_raise v) (\<lambda>i. Inr ('' exit='' @ fmt_exit d (JInt i))))"

definition failure_inspection :: "docker_api \<Rightarrow> string \<Rightarrow> exn + string" where
  "failure_inspection d name = (case resolve_container d name of
      Inl _ \<Rightarrow> Inr (nl @ ''(cannot inspect '' @ py_repr name @ '' '' @ u_dash @ '' likely removed after exit)'')
    | Inr c \<Rightarrow> bindE (format_inspect d name (ct_attrs c)) (\<lambda>t. Inr (nl @ t)))"

definition failure_logs :: "docker_api \<Rightarrow> string \<Rightarrow> int \<Rightarrow> string list" where
  "failure_logs d name t = (case logs_raw d name (t - 180) 80 of
      Inl _ \<Rightarrow> [nl @ ''(no logs available for '' @ py_repr name @ '')'']
    | Inr txt \<Rightarrow>
        (let lines = filter (\<lambda>l. py_strip l \<noteq> []) (py_splitlines txt) in
         if lines = [] then []
         else (nl @ ''Logs for '' @ py_repr name @ '' around the failure (last '' @ show_nat (length lines) @ '' line(s)):'') #
           map (\<lambda>l. ''  '' @ l) (last_lines 30 lines)))"

definition u_clock :: string where "u_clock = [CHR 0xE2, CHR 0x8F, CHR 0xB1]"

text \<open>The name of the failed container is a text.\<close>

definition failure_report :: "docker_api \<Rightarrow> int \<Rightarrow> dict list \<Rightarrow> dict \<Rightarrow> exn + string" where
  "failure_report d since_minutes failures ev =
     bindE (event_attrs ev) (\<lambda>attrs.
     let name = dk_show d (dict_get_or attrs ''name'' (JStr ''?'')) in
     bindE (event_time ev) (\<lambda>t.
     bindE (exit_note d attrs) (\<lambda>note.
     bindE (failure_inspection d name) (\<lambda>inspection.
     Inr (py_join nl
       ([u_clock @ ''  Most recent failure: container '' @ py_repr name @ '' '' @ u_dash @ '' '' @
           dk_show d (dict_get ev ''Action'') @ note @ '' at '' @ dk_iso d t,
         ''   ('' @ show_nat (length failures) @ '' failure event(s) total in the last '' @ show_int since_minutes @ '' min)'',
         inspection] @ failure_logs d name t))))))"

definition timeline :: "docker_api \<Rightarrow> int \<Rightarrow> int \<Rightarrow> exn + string" where
  "timeline d now since_minutes =
     (let since_minutes = clamp_to 1 10080 since_minutes in
      case dk_events d (now - 60 * since_minutes) now of
        None \<Rightarrow> Inr ''Timed out reading docker evs.''
      | Some (Inl e) \<Rightarrow> Inr (''Cannot reach the Docker daemon: '' @ docker_text e)
      | Some (Inr evs) \<Rightarrow>
          if evs = [] then
            Inr (''No container evs in the last '' @ show_int since_minutes @ '' min (nothing started/stopped/failed).'')
          else
            bindE (filterE (is_failure d) evs) (\<lambda>failures.
            if failures = [] then
              bindE (mapE (recent_line d) (last_lines 15 evs)) (\<lambda>recent.
              Inr (show_nat (length evs) @ '' container event(s) in the last '' @ show_int since_minutes @ '' min, but no failures '' @
                ''(no non-zero exits, OOMs, or unhealthy states). Recent evs:'' @ nl @ py_join nl recent))
            else failure_report d since_minutes failures (last failures)))"

section \<open>What a comparison reads\<close>

text \<open>The archives and files a comparison may look at: a file of a container under the container roots,
a file of the host the reading tools may show, and neither named like a secret.\<close>

definition comparable_path :: "diff_settings \<Rightarrow> string \<Rightarrow> bool" where
  "comparable_path cfg p = (container_path_allowed (df_container_roots cfg) p \<and> \<not> is_secret p)"

lemma no_refusal_comparable: "diff_refusal cfg container path repo_path = None \<Longrightarrow> comparable_path cfg path"
  by (auto simp: diff_refusal_def comparable_path_def split: if_splits)

lemma container_read_archive:
  assumes "\<And>c. other c path = dk_archive d c path"
  shows "container_read (d\<lparr>dk_archive := other\<rparr>) name path = container_read d name path"
proof -
  have "resolve_container (d\<lparr>dk_archive := other\<rparr>) name = resolve_container d name"
    by (simp add: resolve_container_def cong: sum.case_cong docker_exn.case_cong)
  moreover have "extract_one_file (d\<lparr>dk_archive := other\<rparr>) = extract_one_file d"
    by (intro ext) (simp add: extract_one_file_def cong: sum.case_cong)
  moreover have "dk_show (d\<lparr>dk_archive := other\<rparr>) = dk_show d" by (intro ext) (simp add: dk_show_def)
  ultimately show ?thesis using assms by (simp add: container_read_def Let_def cong: sum.case_cong if_cong)
qed

text \<open>a comparison's answer depends on no file of a container outside the container roots or named
like a secret, and on no unreadable or secret file of the host.\<close>

theorem comparison_reads_allowed:
  assumes "\<And>c p. comparable_path cfg p \<Longrightarrow> archive c p = dk_archive d c p"
    and "\<And>p. readable_file fs (df_fs cfg) p \<Longrightarrow> other p = fs_content fs p"
  shows "container_diff (d\<lparr>dk_archive := archive\<rparr>) (fs\<lparr>fs_content := other\<rparr>) cfg container path repo_path max_lines =
    container_diff d fs cfg container path repo_path max_lines"
proof (cases "diff_refusal cfg container path repo_path")
  case None
  then have read: "container_read (d\<lparr>dk_archive := archive\<rparr>) container path = container_read d container path"
    using no_refusal_comparable assms(1) by (intro container_read_archive) blast
  have answer: "diff_answer (d\<lparr>dk_archive := archive\<rparr>) = diff_answer d" by (intro ext) (simp add: diff_answer_def cong: if_cong)
  show ?thesis
  proof (cases "resolve_within_roots fs repo_path (readable_roots (df_fs cfg))")
    case (Inr found)
    have "other p = fs_content fs p" if "found = Some p" "\<not> is_secret p" for p
      using Inr that resolved_readable assms(2) by blast
    then show ?thesis using None Inr
      by (simp add: container_diff_def read answer bindE_def Let_def split: option.split sum.split found_file.split)
  qed (simp add: container_diff_def None read bindE_def cong: sum.case_cong found_file.case_cong)
qed (simp add: container_diff_def)

definition app_container :: container where
  "app_container = \<lparr>ct_name = ''api'', ct_status = ''running'', ct_attrs = [], ct_ports = []\<rparr>"

definition small_docker :: docker_api where
  "small_docker = \<lparr>dk_get = (\<lambda>_. Inr app_container), dk_list = (\<lambda>_. Inr [app_container]), dk_logs = (\<lambda>_ _ _. Inr []),
     dk_archive = (\<lambda>_ p. Inr \<lparr>ar_chunks = [p], ar_stat = []\<rparr>), dk_events = (\<lambda>_ _. None),
     tar_members = (\<lambda>raw. Inr [\<lparr>tm_name = basename raw, tm_isfile = True, tm_data = raw\<rparr>]), dk_rep = type_name,
     dk_iso = show_int, udiff = (\<lambda>a b _ _. a @ b)\<rparr>"

definition app_diff :: diff_settings where "app_diff = \<lparr>df_container_roots = ''/app'', df_fs = repo_settings\<rparr>"

lemma comparison_reads_allowed_witness:
  "container_diff (small_docker\<lparr>dk_archive := \<lambda>c p. if comparable_path app_diff p then dk_archive small_docker c p
       else Inl (Not_found [])\<rparr>) (small_fs\<lparr>fs_content := fs_content small_fs\<rparr>) app_diff ''api'' ''/app/../etc/shadow'' ''/repo/shadow'' 10 =
   container_diff small_docker small_fs app_diff ''api'' ''/app/../etc/shadow'' ''/repo/shadow'' 10"
  by (rule comparison_reads_allowed) simp_all

text \<open>A name that is not a container's own finds a container only when it is the only one it is part of.\<close>

lemma resolved_container_unique:
  assumes "resolve_container d name = Inr c" and "dk_get d name \<noteq> Inr c"
  shows "\<exists>cs. dk_list d True = Inr cs \<and> filter (\<lambda>c. contains_sub (py_lower name) (py_lower (ct_name c))) cs = [c]"
  using assms by (auto simp: resolve_container_def name_matches_def split: sum.splits docker_exn.splits list.splits)

end
