(* ===== verification/Ip_Address.thy ===== *)
theory Ip_Address
  imports Shlex "HOL-Library.Word"
begin

text \<open>
  The part of Python's \<open>ipaddress\<close> the node and network probes use: addresses as words of 32 and 128
  bits, the parsers with their refusals, networks with their masks, the kinds of address and the
  printing. A parser's \<open>None\<close> is its \<open>ValueError\<close>.
\<close>

unbundle bit_operations_syntax

type_synonym v4 = "32 word"
type_synonym v6 = "128 word"

datatype ip = V4 v4 | V6 v6 "string option"

section \<open>Parsing\<close>

definition read_octet :: "string \<Rightarrow> nat option" where
  "read_octet s =
     (if s = [] \<or> \<not> list_all is_digit s \<or> length s > 3 \<or> (s \<noteq> ''0'' \<and> hd s = CHR ''0'') then None
      else case read_nat 0 s of None \<Rightarrow> None | Some n \<Rightarrow> if n > 255 then None else Some n)"

fun octets :: "string list \<Rightarrow> nat list option" where
  "octets [] = Some []"
| "octets (s # ss) = (case read_octet s of None \<Rightarrow> None | Some n \<Rightarrow> map_option (\<lambda>ns. n # ns) (octets ss))"

definition read_v4 :: "string \<Rightarrow> v4 option" where
  "read_v4 s =
     (let parts = split_char (CHR ''.'') s in
      if length parts \<noteq> 4 then None
      else map_option (foldl (\<lambda>w n. push_bit 8 w OR of_nat n) 0) (octets parts))"

definition hex_value :: "char \<Rightarrow> nat option" where
  "hex_value c =
     (if is_digit c then Some (of_char c - 48)
      else if lower_char c \<in> set ''abcdef'' then Some (of_char (lower_char c) - 87) else None)"

fun read_hex :: "nat \<Rightarrow> string \<Rightarrow> nat option" where
  "read_hex acc [] = Some acc"
| "read_hex acc (c # cs) = (case hex_value c of None \<Rightarrow> None | Some d \<Rightarrow> read_hex (acc * 16 + d) cs)"

definition read_hextet :: "string \<Rightarrow> nat option" where
  "read_hextet s = (if s = [] \<or> length s > 4 then None else read_hex 0 s)"

fun read_hextets :: "v6 \<Rightarrow> string list \<Rightarrow> v6 option" where
  "read_hextets w [] = Some w"
| "read_hextets w (s # ss) =
     (case read_hextet s of None \<Rightarrow> None | Some n \<Rightarrow> read_hextets (push_bit 16 w OR of_nat n) ss)"

definition show_hex_digits :: "nat \<Rightarrow> string" where
  "show_hex_digits n = (if n < 16 then [low_hex_digit n]
     else if n < 256 then [low_hex_digit (n div 16), low_hex_digit (n mod 16)]
     else if n < 4096 then [low_hex_digit (n div 256), low_hex_digit (n div 16 mod 16), low_hex_digit (n mod 16)]
     else [low_hex_digit (n div 4096), low_hex_digit (n div 256 mod 16), low_hex_digit (n div 16 mod 16),
       low_hex_digit (n mod 16)])"

text \<open>An IPv4 suffix becomes two hextets.\<close>

definition v4_suffix :: "string list \<Rightarrow> string list option" where
  "v4_suffix parts =
     (if CHR ''.'' \<in> set (last parts)
      then map_option (\<lambda>w. butlast parts @
          [show_hex_digits (unat (drop_bit 16 w AND 0xFFFF)), show_hex_digits (unat (w AND 0xFFFF))]) (read_v4 (last parts))
      else Some parts)"

definition empty_inside :: "string list \<Rightarrow> nat list" where
  "empty_inside parts = filter (\<lambda>i. parts ! i = []) [1..<length parts - 1]"

text \<open>How many parts stand before and after the \<open>::\<close> and how many hextets it stands for.\<close>

definition hextet_counts :: "string list \<Rightarrow> (nat \<times> nat \<times> nat) option" where
  "hextet_counts parts =
     (case empty_inside parts of
        [] \<Rightarrow> if length parts \<noteq> 8 \<or> hd parts = [] \<or> last parts = [] then None else Some (length parts, 0, 0)
      | [skip] \<Rightarrow>
          (let hi = skip; lo = length parts - skip - 1;
               hi' = (if hd parts = [] then hi - 1 else hi); lo' = (if last parts = [] then lo - 1 else lo) in
           if hd parts = [] \<and> hi' > 0 then None
           else if last parts = [] \<and> lo' > 0 then None
           else if hi' + lo' \<ge> 8 then None
           else Some (hi', 8 - (hi' + lo'), lo'))
      | _ \<Rightarrow> None)"

definition read_v6_bits :: "string \<Rightarrow> v6 option" where
  "read_v6_bits s =
     (let parts = split_char (CHR '':'') s in
      if s = [] \<or> length parts < 3 then None
      else case v4_suffix parts of None \<Rightarrow> None
      | Some parts \<Rightarrow>
          if length parts > 9 then None
          else case hextet_counts parts of None \<Rightarrow> None
          | Some (hi, skipped, lo) \<Rightarrow>
              (case read_hextets 0 (take hi parts) of None \<Rightarrow> None
               | Some w \<Rightarrow> read_hextets (push_bit (16 * skipped) w) (drop (length parts - lo) parts)))"

definition split_scope :: "string \<Rightarrow> (string \<times> string option) option" where
  "split_scope s =
     (case split_char (CHR ''%'') s of
        [a] \<Rightarrow> Some (a, None)
      | [a, scope] \<Rightarrow> if scope = [] then None else Some (a, Some scope)
      | _ \<Rightarrow> None)"

definition read_v6 :: "string \<Rightarrow> ip option" where
  "read_v6 s = (if CHR ''/'' \<in> set s then None else case split_scope s of None \<Rightarrow> None
     | Some (a, scope) \<Rightarrow> map_option (\<lambda>w. V6 w scope) (read_v6_bits a))"

definition ip_address :: "string \<Rightarrow> ip option" where
  "ip_address s = (case if CHR ''/'' \<in> set s then None else read_v4 s of Some w \<Rightarrow> Some (V4 w) | None \<Rightarrow> read_v6 s)"

section \<open>Networks\<close>

datatype ip_network = Net4 v4 nat | Net6 v6 nat

definition netmask :: "nat \<Rightarrow> 'a::len word" where
  "netmask p = (-1) XOR drop_bit p (-1)"

definition network4 :: "v4 \<Rightarrow> nat \<Rightarrow> ip_network" where "network4 w p = Net4 (w AND netmask p) p"
definition network6 :: "v6 \<Rightarrow> nat \<Rightarrow> ip_network" where "network6 w p = Net6 (w AND netmask p) p"

definition read_prefix :: "nat \<Rightarrow> string \<Rightarrow> nat option" where
  "read_prefix most s = (if s = [] \<or> \<not> list_all is_digit s then None
     else case read_nat 0 s of None \<Rightarrow> None | Some n \<Rightarrow> if n \<le> most then Some n else None)"

text \<open>A mask in address form: ones then zeros, or the other way round.\<close>

definition prefix_of_mask :: "v4 \<Rightarrow> nat option" where
  "prefix_of_mask m =
     (case filter (\<lambda>p. netmask p = m) [0..<33] of p # _ \<Rightarrow> Some p
      | [] \<Rightarrow> (case filter (\<lambda>p. netmask p = NOT m) [0..<33] of p # _ \<Rightarrow> Some p | [] \<Rightarrow> None))"

definition mask4 :: "string \<Rightarrow> nat option" where
  "mask4 s = (case read_prefix 32 s of Some p \<Rightarrow> Some p | None \<Rightarrow> Option.bind (read_v4 s) prefix_of_mask)"

definition read_network4 :: "string \<Rightarrow> ip_network option" where
  "read_network4 s =
     (case split_char (CHR ''/'') s of
        [a] \<Rightarrow> map_option (\<lambda>w. network4 w 32) (read_v4 a)
      | [a, m] \<Rightarrow> Option.bind (read_v4 a) (\<lambda>w. map_option (network4 w) (mask4 m))
      | _ \<Rightarrow> None)"

definition read_network6 :: "string \<Rightarrow> ip_network option" where
  "read_network6 s =
     (let bits = (\<lambda>a. case split_scope a of None \<Rightarrow> None | Some (b, _) \<Rightarrow> read_v6_bits b) in
      case split_char (CHR ''/'') s of
        [a] \<Rightarrow> map_option (\<lambda>w. network6 w 128) (bits a)
      | [a, m] \<Rightarrow> Option.bind (bits a) (\<lambda>w. map_option (network6 w) (read_prefix 128 m))
      | _ \<Rightarrow> None)"

text \<open>\<open>ip_network(s, strict=False)\<close>: bits after the prefix are dropped.\<close>

definition ip_network :: "string \<Rightarrow> exn + ip_network" where
  "ip_network s = (case read_network4 s of Some n \<Rightarrow> Inr n
     | None \<Rightarrow> (case read_network6 s of Some n \<Rightarrow> Inr n
         | None \<Rightarrow> Inl (ValueError (py_repr s @ '' does not appear to be an IPv4 or IPv6 network''))))"

fun in_network :: "ip \<Rightarrow> ip_network \<Rightarrow> bool" where
  "in_network (V4 w) (Net4 n p) = (w AND netmask p = n)"
| "in_network (V6 w _) (Net6 n p) = (w AND netmask p = n)"
| "in_network _ _ = False"

section \<open>Kinds of address\<close>

definition quad :: "v4 \<Rightarrow> v4 \<Rightarrow> v4 \<Rightarrow> v4 \<Rightarrow> v4" where
  "quad a b c d = push_bit 24 a OR push_bit 16 b OR push_bit 8 c OR d"

fun is_loopback :: "ip \<Rightarrow> bool" where
  "is_loopback (V4 w) = in_network (V4 w) (Net4 (quad 127 0 0 0) 8)"
| "is_loopback (V6 w _) = (w = 1)"

fun is_link_local :: "ip \<Rightarrow> bool" where
  "is_link_local (V4 w) = in_network (V4 w) (Net4 (quad 169 254 0 0) 16)"
| "is_link_local (V6 w s) = in_network (V6 w s) (Net6 (push_bit 112 0xFE80) 10)"

fun is_unspecified :: "ip \<Rightarrow> bool" where
  "is_unspecified (V4 w) = (w = 0)"
| "is_unspecified (V6 w _) = (w = 0)"

fun is_multicast :: "ip \<Rightarrow> bool" where
  "is_multicast (V4 w) = in_network (V4 w) (Net4 (quad 224 0 0 0) 4)"
| "is_multicast (V6 w s) = in_network (V6 w s) (Net6 (push_bit 112 0xFF00) 8)"

text \<open>The reserved IPv6 networks, by their first hextet.\<close>

definition reserved6 :: "(v6 \<times> nat) list" where
  "reserved6 = [(0, 8), (0x100, 8), (0x200, 7), (0x400, 6), (0x800, 5), (0x1000, 4), (0x4000, 3), (0x6000, 3), (0x8000, 3),
     (0xA000, 3), (0xC000, 3), (0xE000, 4), (0xF000, 5), (0xF800, 6), (0xFE00, 9)]"

fun is_reserved :: "ip \<Rightarrow> bool" where
  "is_reserved (V4 w) = in_network (V4 w) (Net4 (quad 240 0 0 0) 4)"
| "is_reserved (V6 w s) = list_ex (\<lambda>(h, p). in_network (V6 w s) (Net6 (push_bit 112 h) p)) reserved6"

section \<open>Printing\<close>

definition show_v4 :: "v4 \<Rightarrow> string" where
  "show_v4 w = py_join ''.'' (map (\<lambda>k. show_nat (unat (drop_bit k w AND 0xFF))) [24, 16, 8, 0])"

text \<open>The longest run of zero hextets, the first of the longest ones; a single zero is no run.\<close>

definition zero_run :: "string list \<Rightarrow> nat \<Rightarrow> nat" where
  "zero_run hs i = length (takeWhile (\<lambda>h. h = ''0'') (drop i hs))"

definition longest_run :: "string list \<Rightarrow> nat \<times> nat" where
  "longest_run hs = foldl (\<lambda>(start, len) i. if zero_run hs i > len then (i, zero_run hs i) else (start, len)) (0, 0)
     [0..<length hs]"

definition compress :: "string list \<Rightarrow> string list" where
  "compress hs =
     (case longest_run hs of (start, len) \<Rightarrow>
        if len > 1 then
          (if start = 0 then [[]] else []) @ take start hs @ [[]] @ drop (start + len) hs @
          (if start + len = length hs then [[]] else [])
        else hs)"

definition show_v6 :: "v6 \<Rightarrow> string" where
  "show_v6 w = py_join '':'' (compress (map (\<lambda>k. show_hex_digits (unat (drop_bit k w AND 0xFFFF)))
     [112, 96, 80, 64, 48, 32, 16, 0]))"

fun show_ip :: "ip \<Rightarrow> string" where
  "show_ip (V4 w) = show_v4 w"
| "show_ip (V6 w None) = show_v6 w"
| "show_ip (V6 w (Some scope)) = show_v6 w @ ''%'' @ scope"

section \<open>Printing and parsing\<close>

lemma hd_show_nat: "n > 0 \<Longrightarrow> hd (show_nat n) \<noteq> CHR ''0''"
proof (induction n rule: show_nat.induct)
  case (1 n)
  show ?case
  proof (cases "n < 10")
    case True
    have "CHR ''0'' = (char_of (48 :: nat) :: char)" by code_simp
    then have "char_of (48 + n) \<noteq> CHR ''0''" using True 1(2) of_char_digit [of n] of_char_digit [of 0] by force
    then show ?thesis using True by (simp add: show_nat.simps)
  next
    case False
    then show ?thesis using 1 by (simp add: show_nat.simps [of n])
  qed
qed

lemma length_show_nat: "n < 1000 \<Longrightarrow> length (show_nat n) \<le> 3"
  by (simp add: show_nat.simps [of n] show_nat.simps [of "n div 10"] show_nat.simps [of "n div 10 div 10"])

lemma read_octet_show: "n < 256 \<Longrightarrow> read_octet (show_nat n) = Some n"
proof -
  assume n: "n < 256"
  have z: "show_nat 0 = ''0''" by code_simp
  have "n = 0 \<or> hd (show_nat n) \<noteq> CHR ''0''" using hd_show_nat by blast
  moreover have "list_all is_digit (show_nat n)" using show_nat_digits by (auto simp: list_all_iff)
  ultimately show ?thesis using n length_show_nat [of n] read_nat_show [of 0 n]
    by (auto simp: read_octet_def z)
qed

lemma byte_less: "unat (w AND 0xFF :: v4) < 256"
proof -
  have "w AND 0xFF = w AND mask 8" by (simp add: mask_eq_exp_minus_1)
  then show ?thesis using and_mask_less' [of 8 w] by (simp add: word_less_nat_alt)
qed

lemma quad_parts:
  fixes w :: v4
  shows "push_bit 8 (push_bit 8 (push_bit 8 (drop_bit 24 w AND 0xFF) OR (drop_bit 16 w AND 0xFF)) OR (drop_bit 8 w AND 0xFF))
      OR (w AND 0xFF) = w"
proof -
  have m: "(0xFF :: v4) = mask 8" by (simp add: mask_eq_exp_minus_1)
  show ?thesis unfolding m
    by (rule bit_word_eqI) (auto simp: bit_simps; rename_tac n; case_tac "16 \<le> n"; case_tac "24 \<le> n"; simp)
qed

text \<open>Printing an IPv4 address and parsing it again gives it back.\<close>

theorem v4_roundtrip: "ip_address (show_ip (V4 w)) = Some (V4 w)"
proof -
  let ?ks = "[24, 16, 8, 0]"
  let ?ns = "map (\<lambda>k. unat (drop_bit k w AND 0xFF)) ?ks"
  have sep: "\<forall>p \<in> set (map show_nat ns). c \<notin> set p" if "\<not> is_digit c" for ns c using that show_nat_digits by auto
  have "\<not> is_digit (CHR ''.'')" "\<not> is_digit (CHR ''/'')" by code_simp+
  then have parts: "split_char (CHR ''.'') (show_v4 w) = map show_nat ?ns" and slash: "CHR ''/'' \<notin> set (show_v4 w)"
    unfolding show_v4_def using split_char_join [of "map show_nat ?ns" "CHR ''.''"] sep [of "CHR ''.''" ?ns] sep [of "CHR ''/''" ?ns]
    by (simp_all add: comp_def)
  have all: "octets (map show_nat ns) = Some ns" if "\<forall>n \<in> set ns. n < 256" for ns
    using that by (induction ns) (simp_all add: read_octet_show)
  have "octets (map show_nat ?ns) = Some ?ns" by (rule all) (use byte_less in auto)
  then have "read_v4 (show_v4 w) = Some w"
    using parts quad_parts [of w] by (simp add: read_v4_def)
  then show ?thesis using slash by (simp add: ip_address_def)
qed

end
