(* ===== verification/Net_Guard.thy ===== *)
theory Net_Guard
  imports Ip_Address Http_Client
begin

text \<open>
  \<open>mcp-server/app/tools/net_probes.py\<close>, the part that decides what may be contacted: the URL parser of
  \<open>urllib.parse\<close> (ASCII), the vetting of a host and the pinning of a URL to a vetted address. Each name
  lookup has a number, and the resolver's answer may change from one lookup to the next.
\<close>

section \<open>URLs\<close>

definition partition :: "char \<Rightarrow> string \<Rightarrow> string \<times> bool \<times> string" where
  "partition c s = (takeWhile (\<lambda>x. x \<noteq> c) s, c \<in> set s, drop 1 (dropWhile (\<lambda>x. x \<noteq> c) s))"

definition after_last :: "char \<Rightarrow> string \<Rightarrow> string" where
  "after_last c s = last (split_char c s)"

record url =
  u_scheme :: string
  u_netloc :: string
  u_path :: string
  u_query :: string
  u_fragment :: string

definition is_scheme_char :: "char \<Rightarrow> bool" where
  "is_scheme_char c = (is_alnum c \<or> c \<in> set ''+-.'')"

definition clean_url :: "string \<Rightarrow> string" where
  "clean_url s = filter (\<lambda>c. c \<notin> {CHR 0x09, CHR 0x0A, CHR 0x0D}) (dropWhile (\<lambda>c. (of_char c :: nat) \<le> 32) s)"

definition split_scheme :: "string \<Rightarrow> string \<times> string" where
  "split_scheme s =
     (case partition (CHR '':'') s of (a, found, b) \<Rightarrow>
        if found \<and> a \<noteq> [] \<and> is_alpha (hd a) \<and> list_all is_scheme_char a then (py_lower a, b) else ([], s))"

definition bracketed_ok :: "string \<Rightarrow> bool" where
  "bracketed_ok netloc =
     (let host = fst (partition (CHR '']'') (snd (snd (partition (CHR ''['') netloc)))) in
      if starts_with ''v'' host then
        (case partition (CHR ''.'') (tl host) of (a, dot, b) \<Rightarrow> a \<noteq> [] \<and> list_all (\<lambda>c. hex_value c \<noteq> None) a \<and> dot \<and> b \<noteq> [])
      else (case ip_address host of Some (V6 _ _) \<Rightarrow> True | _ \<Rightarrow> False))"

text \<open>The parameters of the last path segment stay part of the path; a lone semicolon at its end is
dropped when the URL is put together again.\<close>

definition drop_empty_params :: "string \<Rightarrow> string" where
  "drop_empty_params path =
     (let seg = after_last (CHR ''/'') path in
      if seg \<noteq> [] \<and> last seg = CHR '';'' \<and> CHR '';'' \<notin> set (butlast seg) then butlast path else path)"

definition urlparse :: "string \<Rightarrow> exn + url" where
  "urlparse s =
     (case split_scheme (clean_url s) of (scheme, rest) \<Rightarrow>
        let is_end = (\<lambda>c. c \<in> set ''/?#'');
            (netloc, rest) = (if starts_with ''//'' rest
              then (takeWhile (\<lambda>c. \<not> is_end c) (drop 2 rest), dropWhile (\<lambda>c. \<not> is_end c) (drop 2 rest)) else ([], rest)) in
        if (CHR ''['' \<in> set netloc) \<noteq> (CHR '']'' \<in> set netloc) then Inl (ValueError ''Invalid IPv6 URL'')
        else if CHR ''['' \<in> set netloc \<and> \<not> bracketed_ok netloc then Inl (ValueError ''Invalid IPv6 URL'')
        else
          (case partition (CHR ''#'') rest of (start, _, fragment) \<Rightarrow>
           case partition (CHR ''?'') start of (path, _, query) \<Rightarrow>
             Inr \<lparr>u_scheme = scheme, u_netloc = netloc, u_path = drop_empty_params path, u_query = query,
               u_fragment = fragment\<rparr>))"

definition host_port :: "url \<Rightarrow> string \<times> string" where
  "host_port u =
     (let info = after_last (CHR ''@'') (u_netloc u) in
      case partition (CHR ''['') info of (_, bracket, bracketed) \<Rightarrow>
        if bracket then
          (case partition (CHR '']'') bracketed of (host, _, tail_part) \<Rightarrow> (host, snd (snd (partition (CHR '':'') tail_part))))
        else (case partition (CHR '':'') info of (host, _, port) \<Rightarrow> (host, port)))"

definition hostname :: "url \<Rightarrow> string" where
  "hostname u = (case partition (CHR ''%'') (fst (host_port u)) of (host, percent, zone) \<Rightarrow>
     py_lower host @ (if percent then ''%'' else []) @ zone)"

definition port_of :: "url \<Rightarrow> exn + nat option" where
  "port_of u =
     (let p = snd (host_port u) in
      if p = [] then Inr None
      else if \<not> list_all is_digit p then Inl (ValueError (''Port could not be cast to integer value as '' @ py_repr p))
      else (case read_nat 0 p of None \<Rightarrow> Inr None
        | Some n \<Rightarrow> if n \<le> 65535 then Inr (Some n) else Inl (ValueError ''Port out of range 0-65535'')))"

definition geturl :: "url \<Rightarrow> string" where
  "geturl u = (if u_scheme u \<noteq> [] then u_scheme u @ '':'' else []) @
     (if u_netloc u \<noteq> [] then ''//'' @ u_netloc u @
        (if u_path u \<noteq> [] \<and> hd (u_path u) \<noteq> CHR ''/'' then ''/'' else []) else []) @
     u_path u @ (if u_query u \<noteq> [] then ''?'' @ u_query u else []) @ (if u_fragment u \<noteq> [] then ''#'' @ u_fragment u else [])"

text \<open>The path without the parameters of its last segment, and those parameters with their semicolon.\<close>

definition split_params :: "string \<Rightarrow> string \<times> string" where
  "split_params path =
     (let seg = after_last (CHR ''/'') path; front = take (length path - length seg) path in
      (front @ takeWhile (\<lambda>c. c \<noteq> CHR '';'') seg, dropWhile (\<lambda>c. c \<noteq> CHR '';'') seg))"

section \<open>Vetting\<close>

text \<open>The resolver: the answer of the n-th lookup, a failure with its text or the addresses found.\<close>

record net_world =
  nw_resolve :: "nat \<Rightarrow> string \<Rightarrow> string + string list"
  nw_docker_host :: string

definition docker_api_host :: "net_world \<Rightarrow> exn + string" where
  "docker_api_host w = bindE (urlparse (nw_docker_host w)) (\<lambda>u.
     Inr (if u_scheme u \<in> {''tcp'', ''http'', ''https''} then hostname u else []))"

definition first_of_each :: "'a list \<Rightarrow> 'a list" where "first_of_each xs = rev (remdups (rev xs))"

definition addresses :: "net_world \<Rightarrow> nat \<Rightarrow> string \<Rightarrow> string + string list" where
  "addresses w n host = map_sum id (\<lambda>ips. first_of_each (map (\<lambda>a. fst (partition (CHR ''%'') a)) ips)) (nw_resolve w n host)"

fun ipv4_mapped :: "ip \<Rightarrow> ip option" where
  "ipv4_mapped (V4 w) = None"
| "ipv4_mapped (V6 w s) = (if drop_bit 32 w = 0xFFFF then Some (V4 (ucast w)) else None)"

definition unmapped :: "string \<Rightarrow> exn + ip" where
  "unmapped raw = (case ip_address raw of
      None \<Rightarrow> Inl (ValueError (py_repr raw @ '' does not appear to be an IPv4 or IPv6 address''))
    | Some ip \<Rightarrow> Inr (case ipv4_mapped ip of None \<Rightarrow> ip | Some v \<Rightarrow> v))"

definition METADATA :: "ip list" where
  "METADATA = [V6 (push_bit 112 0xFD00 OR push_bit 96 0xEC2 OR 0x254) None, V4 (quad 100 100 100 200)]"

definition local_ip :: "ip \<Rightarrow> bool" where
  "local_ip ip = (is_link_local ip \<or> is_loopback ip \<or> is_unspecified ip \<or> is_multicast ip)"

text \<open>The first address that is refused, with the reason.\<close>

fun vet_addresses :: "string \<Rightarrow> ip list \<Rightarrow> string list \<Rightarrow> exn + string option" where
  "vet_addresses host docker_ips [] = Inr None"
| "vet_addresses host docker_ips (raw # ips) =
     bindE (unmapped raw) (\<lambda>ip.
     if local_ip ip then
       Inr (Some (host @ '' resolves to '' @ show_ip ip @ '', a link-local/loopback address (metadata, local admin)''))
     else if ip \<in> set METADATA then
       Inr (Some (host @ '' resolves to '' @ show_ip ip @ '', a cloud metadata service address''))
     else if ip \<in> set docker_ips then
       Inr (Some (host @ '' is the Docker API, whose responses carry every container'' @ [sq] @ ''s secrets''))
     else vet_addresses host docker_ips ips)"

fun unmap_all :: "string list \<Rightarrow> exn + ip list" where
  "unmap_all [] = Inr []"
| "unmap_all (a # as) = bindE (unmapped a) (\<lambda>ip. bindE (unmap_all as) (\<lambda>ips. Inr (ip # ips)))"

text \<open>A vet uses the lookups n and n + 1; its result is the refusal, if any, and the addresses.\<close>

definition vet :: "net_world \<Rightarrow> nat \<Rightarrow> string \<Rightarrow> exn + string option \<times> string list" where
  "vet w n host =
     (if host = [] then Inr (Some ''no host given'', [])
      else bindE (docker_api_host w) (\<lambda>docker.
        case addresses w n host of
          Inl e \<Rightarrow> Inr (Some (''cannot resolve '' @ py_repr host @ '': '' @ e), [])
        | Inr ips \<Rightarrow>
            if ips = [] then Inr (Some (''cannot resolve '' @ py_repr host @ '': no addresses''), [])
            else
              (case if docker = [] then Inr [] else addresses w (n + 1) docker of
                 Inl e \<Rightarrow> Inr (Some (''cannot resolve the Docker API host '' @ py_repr docker @
                   '' (DOCKER_HOST) to rule it out: '' @ e), [])
               | Inr docker_raw \<Rightarrow>
                   bindE (unmap_all docker_raw) (\<lambda>docker_ips.
                   bindE (vet_addresses host docker_ips ips) (\<lambda>refusal. Inr (refusal, ips))))))"

definition vet_url :: "net_world \<Rightarrow> nat \<Rightarrow> string \<Rightarrow> exn + string option \<times> string list" where
  "vet_url w n s =
     bindE (urlparse s) (\<lambda>u.
     if u_scheme u \<notin> {''http'', ''https''} then
       Inr (Some (''only http(s) URLs are fetched, not '' @
         py_repr (if u_scheme u \<noteq> [] then u_scheme u else ''no scheme'')), [])
     else if hostname u = [] then Inr (Some ''the URL has no host'', [])
     else vet w n (hostname u))"

definition blocked_url :: "net_world \<Rightarrow> nat \<Rightarrow> string \<Rightarrow> exn + string option" where
  "blocked_url w n s = bindE (vet_url w n s) (\<lambda>(refusal, _). Inr refusal)"

record pinned_request =
  pr_target :: string
  pr_host_header :: string
  pr_sni :: "string option"

definition pinned :: "string \<Rightarrow> string \<Rightarrow> exn + pinned_request" where
  "pinned s ip =
     bindE (urlparse s) (\<lambda>u.
     bindE (port_of u) (\<lambda>port.
     let host = (if CHR '':'' \<in> set ip then ''['' @ ip @ '']'' else ip);
         netloc = host @ (case port of None \<Rightarrow> [] | Some p \<Rightarrow> if p = 0 then [] else '':'' @ show_nat p) in
     Inr \<lparr>pr_target = geturl (u\<lparr>u_netloc := netloc\<rparr>), pr_host_header = after_last (CHR ''@'') (u_netloc u),
       pr_sni = (if u_scheme u = ''https'' then Some (hostname u) else None)\<rparr>))"

section \<open>What a passed vet means\<close>

text \<open>The addresses of one lookup, none of them local, a metadata service or an address the Docker API
had in the lookup after it.\<close>

definition vetted_by :: "net_world \<Rightarrow> nat \<Rightarrow> string \<Rightarrow> string list \<Rightarrow> bool" where
  "vetted_by w n host ips =
     (addresses w n host = Inr ips \<and> ips \<noteq> [] \<and>
      (\<exists>docker ds dips. docker_api_host w = Inr docker \<and>
         (if docker = [] then ds = [] else addresses w (n + 1) docker = Inr ds) \<and> unmap_all ds = Inr dips \<and>
         (\<forall>raw \<in> set ips. \<exists>ip. unmapped raw = Inr ip \<and> \<not> local_ip ip \<and> ip \<notin> set METADATA \<and> ip \<notin> set dips)))"

lemma vet_addresses_None:
  "vet_addresses host dips ips = Inr None \<Longrightarrow>
   \<forall>raw \<in> set ips. \<exists>ip. unmapped raw = Inr ip \<and> \<not> local_ip ip \<and> ip \<notin> set METADATA \<and> ip \<notin> set dips"
proof (induction ips)
  case (Cons raw ips)
  then show ?case by (cases "unmapped raw") (auto simp: bindE_def split: if_splits)
qed simp

lemma vet_passes: "vet w n host = Inr (None, ips) \<Longrightarrow> vetted_by w n host ips"
proof -
  assume v: "vet w n host = Inr (None, ips)"
  then obtain docker where docker: "docker_api_host w = Inr docker" "host \<noteq> []"
    by (cases "docker_api_host w") (auto simp: vet_def bindE_def split: if_splits)
  obtain found where found: "addresses w n host = Inr found" "found \<noteq> []"
    using v docker by (auto simp: vet_def bindE_def split: sum.splits if_splits)
  obtain ds where ds: "(if docker = [] then Inr [] else addresses w (n + 1) docker) = Inr ds"
    using v docker found
    by (cases "if docker = [] then Inr [] else addresses w (n + 1) docker") (auto simp: vet_def bindE_def)
  obtain dips where dips: "unmap_all ds = Inr dips"
    using v docker found ds by (cases "unmap_all ds") (auto simp: vet_def bindE_def)
  have "vet_addresses host dips found = Inr None \<and> found = ips"
    using v docker found ds dips by (cases "vet_addresses host dips found") (auto simp: vet_def bindE_def)
  then show ?thesis using vet_addresses_None [of host dips found] docker found ds dips
    unfolding vetted_by_def by (intro conjI exI [of _ docker] exI [of _ ds] exI [of _ dips]) (auto split: if_splits)
qed

lemma vet_url_passes: "vet_url w n s = Inr (None, ips) \<Longrightarrow> \<exists>host. vetted_by w n host ips"
  by (auto simp: vet_url_def bindE_def split: sum.splits if_splits intro: vet_passes)

end
