(* ===== verification/Effects.thy ===== *)
theory Effects
  imports Prelude
begin

text \<open>
  Tools that change a state and may raise, and the contract their steps keep: a reflexive and
  transitive relation between the state before and the state after. A client that is put together
  from steps keeping the relation keeps it.
\<close>

type_synonym ('s, 'a) action_on = "'s \<Rightarrow> (exn + 'a) \<times> 's"

definition returnS :: "'a \<Rightarrow> ('s, 'a) action_on" where "returnS a s = (Inr a, s)"

definition bindS :: "('s, 'a) action_on \<Rightarrow> ('a \<Rightarrow> ('s, 'b) action_on) \<Rightarrow> ('s, 'b) action_on" where
  "bindS m f s = (case m s of (Inl e, s') \<Rightarrow> (Inl e, s') | (Inr a, s') \<Rightarrow> f a s')"

locale state_steps =
  fixes R :: "'s \<Rightarrow> 's \<Rightarrow> bool"
  assumes refl: "R s s"
    and trans: "R s t \<Longrightarrow> R t u \<Longrightarrow> R s u"
begin

definition keeps :: "('s \<Rightarrow> 'a \<times> 's) \<Rightarrow> bool" where
  "keeps m = (\<forall>s. R s (snd (m s)))"

lemma stepsD: "keeps m \<Longrightarrow> R s (snd (m s))"
  by (simp add: keeps_def)

lemma steps_return: "keeps (returnS a)"
  by (simp add: keeps_def returnS_def refl)

text \<open>The continuation may use what the first step is known to return.\<close>

lemma steps_bind:
  assumes "keeps m" and "\<And>s a s'. m s = (Inr a, s') \<Longrightarrow> keeps (f a)"
  shows "keeps (bindS m f)"
  unfolding keeps_def
proof
  fix s
  obtain r s' where m: "m s = (r, s')" by (cases "m s")
  have s': "R s s'" using stepsD [OF assms(1), of s] m by simp
  show "R s (snd (bindS m f s))"
  proof (cases r)
    case (Inr a)
    then have "keeps (f a)" using assms(2) m by blast
    then show ?thesis using trans [OF s' stepsD, of "f a"] m Inr by (simp add: bindS_def)
  qed (use s' m in \<open>simp add: bindS_def\<close>)
qed

lemma steps_sum: "(\<And>x. r = Inl x \<Longrightarrow> keeps (f x)) \<Longrightarrow> (\<And>y. r = Inr y \<Longrightarrow> keeps (g y)) \<Longrightarrow>
    keeps (case r of Inl x \<Rightarrow> f x | Inr y \<Rightarrow> g y)"
  by (cases r) auto

lemma steps_option: "(r = None \<Longrightarrow> keeps m) \<Longrightarrow> (\<And>y. r = Some y \<Longrightarrow> keeps (g y)) \<Longrightarrow>
    keeps (case r of None \<Rightarrow> m | Some y \<Rightarrow> g y)"
  by (cases r) auto

lemma steps_pair: "(\<And>x y. p = (x, y) \<Longrightarrow> keeps (f x y)) \<Longrightarrow> keeps (case p of (x, y) \<Rightarrow> f x y)"
  by (cases p) auto

lemma steps_if: "(b \<Longrightarrow> keeps m) \<Longrightarrow> (\<not> b \<Longrightarrow> keeps n) \<Longrightarrow> keeps (if b then m else n)"
  by simp

lemmas steps_rules = steps_return steps_bind steps_sum steps_option steps_pair steps_if

end

end
