(* ===== verification/Node_Ssh.thy ===== *)
theory Node_Ssh
  imports Command_Gate Ip_Address Http_Client Effects
begin

text \<open>
  \<open>mcp-server/app/tools/ssh_probes.py\<close>, the connection: which address may be contacted, the host keys,
  the capped reading of a command's output, and the four node tools. asyncssh is the argument
  \<open>node_world\<close>; a stream is the function from the number of a read to the chunk it returns; timeouts are outcomes. The state
  is the known_hosts file and the list of network contacts made.
\<close>

record ssh_settings =
  ss_default_user :: string
  ss_node_user :: string
  ss_known_hosts :: string
  ss_policy :: string
  ss_cidrs :: string

section \<open>Addresses\<close>

definition DOC_RANGES :: "ip_network list" where
  "DOC_RANGES = [Net4 (quad 192 0 2 0) 24, Net4 (quad 198 51 100 0) 24, Net4 (quad 203 0 113 0) 24]"

definition unroutable_kind :: "ip \<Rightarrow> string" where
  "unroutable_kind ip =
     (if list_ex (in_network ip) DOC_RANGES
      then ''in a range reserved for documentation and examples (RFC 5737), '' @ ''which is deliberately not routable''
      else if is_loopback ip
      then ''a loopback address '' @ u_dash @ '' it refers to whichever machine is asking, so '' @
        ''it can never reach a separate node''
      else if is_link_local ip
      then ''a link-local address (RFC 3927), typically what a host assigns '' @
        ''itself when DHCP fails '' @ u_dash @ '' not a routable node address''
      else if is_unspecified ip \<or> is_multicast ip \<or> is_reserved ip then ''not a valid unicast host address''
      else [])"

definition unroutable_note :: "string \<Rightarrow> string" where
  "unroutable_note node_ip = (case ip_address node_ip of
      None \<Rightarrow> '' NOTE: '' @ py_repr node_ip @ '' is not a valid IP address, so no connection was '' @
        ''attempted. An address that cannot be parsed reaches nothing; whatever '' @ ''supplied it recorded a malformed value.''
    | Some ip \<Rightarrow>
        (let kind = unroutable_kind ip in
         if kind = [] then []
         else '' NOTE: '' @ node_ip @ '' is '' @ kind @ ''. No host can be reached at this address, so this '' @
           ''probe failure is expected and carries no information about node health. An '' @
           ''address in this range means the node record holds a placeholder or '' @
           ''misconfigured value rather than a real machine. Restarting the node, '' @
           ''reinstalling drivers, or retrying the workload cannot change this outcome; '' @
           ''only correcting the recorded address can.''))"

definition resolve_node_user :: "ssh_settings \<Rightarrow> string" where
  "resolve_node_user cfg = (if ss_node_user cfg \<noteq> [] then ss_node_user cfg else ss_default_user cfg)"

definition allowed_cidrs :: "ssh_settings \<Rightarrow> string list" where
  "allowed_cidrs cfg = filter (\<lambda>c. c \<noteq> []) (map py_strip (split_char (CHR '','') (ss_cidrs cfg)))"

text \<open>\<open>any(...)\<close> stops at the first network that holds the address; a network it reaches may raise.\<close>

fun in_any :: "ip \<Rightarrow> string list \<Rightarrow> exn + bool" where
  "in_any ip [] = Inr False"
| "in_any ip (c # cs) = bindE (ip_network c) (\<lambda>n. if in_network ip n then Inr True else in_any ip cs)"

definition never_a_node :: "ip \<Rightarrow> bool" where
  "never_a_node ip = (is_loopback ip \<or> is_link_local ip \<or> is_unspecified ip \<or> is_multicast ip)"

definition refuse_target :: "ssh_settings \<Rightarrow> string \<Rightarrow> exn + string" where
  "refuse_target cfg node_ip = (case ip_address (py_strip node_ip) of
      None \<Rightarrow> Inr (py_repr node_ip @ '' is not an IP address, and node probes take an IP only.'')
    | Some ip \<Rightarrow>
        if never_a_node ip
        then Inr (show_ip ip @ '' is not an address a GPU node can have, so no connection was attempted.'')
        else if allowed_cidrs cfg = []
        then Inr ''NODE_ALLOWED_CIDRS is not set, so node probes are off: no connection was attempted.''
        else bindE (in_any ip (allowed_cidrs cfg)) (\<lambda>ok.
          Inr (if ok then [] else show_ip ip @ '' is outside NODE_ALLOWED_CIDRS, so no connection was attempted.'')))"

section \<open>Output\<close>

definition MAX_OUTPUT :: int where "MAX_OUTPUT = 200000"

definition RUN_TIMEOUT :: nat where "RUN_TIMEOUT = 30"

definition capped_output :: "string \<Rightarrow> string" where
  "capped_output s =
     (let t = py_strip s in
      if int (length t) \<le> MAX_OUTPUT then t
      else take (nat MAX_OUTPUT) t @ nl @ u_dots @ '' (output truncated at '' @ show_int MAX_OUTPUT @ '' characters)'')"

text \<open>
  The two readers of \<open>_read_capped\<close>. A reader holds what its reads are going to be answered, the
  number of reads answered, its text, and whether it has returned. An answered read ends it when
  the chunk is empty, and when its text is past the cap, which also closes the channel: the other
  stream then answers what it had buffered, at most left more chunks, and ends.
\<close>

record reader =
  rd_chunk :: "nat \<Rightarrow> string"
  rd_reads :: nat
  rd_text :: string
  rd_done :: bool

definition reader_of :: "(nat \<Rightarrow> string) \<Rightarrow> reader" where
  "reader_of stream = \<lparr>rd_chunk = stream, rd_reads = 0, rd_text = [], rd_done = False\<rparr>"

definition drain :: "reader \<Rightarrow> reader \<times> bool" where
  "drain d =
     (let chunk = rd_chunk d (rd_reads d) in
      if chunk = [] then (d\<lparr>rd_done := True\<rparr>, False)
      else
        (let d' = d\<lparr>rd_reads := rd_reads d + 1, rd_text := rd_text d @ chunk\<rparr> in
         if int (length (rd_text d')) \<le> MAX_OUTPUT then (d', False) else (d'\<lparr>rd_done := True\<rparr>, True)))"

definition channel_closed :: "nat \<Rightarrow> reader \<Rightarrow> reader" where
  "channel_closed left d = d\<lparr>rd_chunk := (\<lambda>k. if k < rd_reads d + left then rd_chunk d k else [])\<rparr>"

text \<open>
  Both at once: turn says whose read is answered next while both wait. A run that both readers
  never return from would be None.
\<close>

partial_function (option) gather_readers ::
  "(nat \<Rightarrow> bool) \<Rightarrow> nat \<Rightarrow> nat \<Rightarrow> reader \<Rightarrow> reader \<Rightarrow> bool \<Rightarrow> (string \<times> string \<times> bool) option" where
  "gather_readers turn left i out err hit =
     (if rd_done out \<and> rd_done err then Some (rd_text out, rd_text err, hit)
      else if \<not> rd_done out \<and> (rd_done err \<or> turn i) then
        gather_readers turn left (i + 1) (fst (drain out)) (if snd (drain out) then channel_closed left err else err)
          (hit \<or> snd (drain out))
      else
        gather_readers turn left (i + 1) (if snd (drain err) then channel_closed left out else out) (fst (drain err))
          (hit \<or> snd (drain err)))"

text \<open>What the node sends: the answers to the reads of the two streams, their order, and what is
buffered when the channel is closed.\<close>

record sent =
  stdout_sent :: "nat \<Rightarrow> string"
  stderr_sent :: "nat \<Rightarrow> string"
  stdout_first :: "nat \<Rightarrow> bool"
  buffered :: nat

definition read_capped :: "sent \<Rightarrow> (string \<times> string \<times> bool) option" where
  "read_capped x = gather_readers (stdout_first x) (buffered x) 0 (reader_of (stdout_sent x)) (reader_of (stderr_sent x)) False"

section \<open>Connecting\<close>

datatype ssh_exn =
    Host_key_not_verifiable
  | Value_error string
  | Permission_denied
  | Connection_failed string
  | Connect_timeout
  | Other_failure string string

datatype run_outcome = Finished sent "int option" | Too_slow

record node_world =
  nw_match :: "string list \<Rightarrow> string \<Rightarrow> ssh_exn + bool"
  nw_host_key :: "string \<Rightarrow> ssh_exn + string option"
  nw_connect :: "string \<Rightarrow> string \<Rightarrow> string \<Rightarrow> string list option \<Rightarrow> ssh_exn + run_outcome"

datatype contact = Fetch_key string | Connect string string string

record ssh_state =
  known_hosts :: "string list option"
  contacts :: "contact list"

type_synonym 'a ssh = "ssh_state \<Rightarrow> 'a \<times> ssh_state"

definition contacted :: "contact \<Rightarrow> ssh_state \<Rightarrow> ssh_state" where
  "contacted c s = s\<lparr>contacts := contacts s @ [c]\<rparr>"

definition record_key :: "string \<Rightarrow> ssh_state \<Rightarrow> ssh_state" where
  "record_key line s = s\<lparr>known_hosts := Some ((case known_hosts s of None \<Rightarrow> [] | Some ls \<Rightarrow> ls) @ [line])\<rparr>"

definition known_hosts_for :: "ssh_settings \<Rightarrow> node_world \<Rightarrow> string \<Rightarrow> (ssh_exn + unit) ssh" where
  "known_hosts_for cfg w node_ip s =
     (let policy = py_lower (py_strip (ss_policy cfg)) in
      if policy \<notin> {''tofu'', ''strict''} then
        (Inl (Value_error (''SSH_HOST_KEY_POLICY must be '' @ quoted ''tofu'' @ '' or '' @ quoted ''strict'' @ '', not '' @
           py_repr policy)), s)
      else
        (case (case known_hosts s of None \<Rightarrow> Inr False | Some ls \<Rightarrow> nw_match w ls node_ip) of
           Inl e \<Rightarrow> (Inl e, s)
         | Inr known \<Rightarrow>
             if \<not> known \<and> policy = ''tofu'' then
               (let s' = contacted (Fetch_key node_ip) s in
                case nw_host_key w node_ip of
                  Inl e \<Rightarrow> (Inl e, s')
                | Inr None \<Rightarrow> (Inl (Connection_failed (node_ip @ '' offered no host key'')), s')
                | Inr (Some key) \<Rightarrow> (Inr (), record_key (node_ip @ '' '' @ py_strip key) s'))
             else (Inr (), s)))"

text \<open>
  The handlers in their order. Since Python 3.11 \<open>asyncio.TimeoutError\<close> is \<open>TimeoutError\<close>, an
  \<open>OSError\<close>, so the handler of \<open>OSError\<close> takes a timeout, whose text is empty, and the handler after it,
  the only use of the timeout's length, is never reached.
\<close>

definition ssh_failure_text :: "ssh_settings \<Rightarrow> string \<Rightarrow> string \<Rightarrow> ssh_exn \<Rightarrow> string" where
  "ssh_failure_text cfg node_ip user e = SSH_LAYER_ERROR @ '': '' @ (case e of
      Host_key_not_verifiable \<Rightarrow> node_ip @ '' is not the host recorded in '' @ ss_known_hosts cfg @
        '' (unknown under strict, or its key changed). A '' @
        ''changed key means either a re-imaged node or something answering for its '' @
        ''address. An admin accepts a re-imaged node by deleting its line from that file.''
    | Value_error m \<Rightarrow> m
    | Permission_denied \<Rightarrow> ''permission denied for '' @ user @ ''@'' @ node_ip @ ''. '' @
        ''The SSH key may not be authorized for user '' @ py_repr user @ '' on this node.''
    | Connection_failed m \<Rightarrow> ''cannot connect to '' @ node_ip @ '': '' @ m @ ''. '' @
        ''The node may be down, unreachable, or SSH daemon not running.''
    | Connect_timeout \<Rightarrow> ''cannot connect to '' @ node_ip @ '': '' @ [] @ ''. '' @
        ''The node may be down, unreachable, or SSH daemon not running.''
    | Other_failure kind m \<Rightarrow> ''unexpected '' @ kind @ '': '' @ m)"

text \<open>Reading always ends (\<open>output_read_ends\<close> below), so the last case of \<open>finished\<close> does not occur.\<close>

definition finished :: "sent \<Rightarrow> int option \<Rightarrow> bool \<times> string" where
  "finished x status = (case read_capped x of
      Some (out, err, hit) \<Rightarrow>
        (if status = Some 0 \<or> (hit \<and> status = None) then (True, capped_output out)
         else (False, ''Exit code '' @ (case status of None \<Rightarrow> ''None'' | Some i \<Rightarrow> show_int i) @ ''. stderr: '' @
           capped_output err @ ''. stdout: '' @ capped_output out))
    | None \<Rightarrow> (False, []))"

definition ssh_exec ::
  "ssh_settings \<Rightarrow> node_world \<Rightarrow> string \<Rightarrow> string \<Rightarrow> string \<Rightarrow> (exn + bool \<times> string) ssh" where
  "ssh_exec cfg w node_ip command username s =
     (let user = (if username \<noteq> [] then username else ss_default_user cfg) in
      case refuse_target cfg node_ip of
        Inl e \<Rightarrow> (Inl e, s)
      | Inr refusal \<Rightarrow>
          if refusal \<noteq> [] then (Inr (False, SSH_LAYER_ERROR @ '': '' @ refusal), s)
          else
            (case known_hosts_for cfg w node_ip s of
               (Inl e, s') \<Rightarrow> (Inr (False, ssh_failure_text cfg node_ip user e), s')
             | (Inr _, s') \<Rightarrow>
                 (let s'' = contacted (Connect node_ip user command) s' in
                  case nw_connect w node_ip user command (known_hosts s') of
                    Inl e \<Rightarrow> (Inr (False, ssh_failure_text cfg node_ip user e), s'')
                  | Inr Too_slow \<Rightarrow>
                      (Inr (False, ''the command did not finish within '' @ show_nat RUN_TIMEOUT @ ''s''), s'')
                  | Inr (Finished x status) \<Rightarrow> (Inr (finished x status), s''))))"

definition run_ssh_command ::
  "ssh_settings \<Rightarrow> node_world \<Rightarrow> string \<Rightarrow> string \<Rightarrow> string \<Rightarrow> (exn + bool \<times> string) ssh" where
  "run_ssh_command cfg w node_ip command username s =
     (case ssh_exec cfg w node_ip command username s of
        (Inr (ok, output), s') \<Rightarrow>
          (Inr (ok, if \<not> ok \<and> is_ssh_failure output then output @ unroutable_note node_ip else output), s')
      | r \<Rightarrow> r)"

section \<open>The tools\<close>

definition check_ssh_connectivity :: "ssh_settings \<Rightarrow> node_world \<Rightarrow> string \<Rightarrow> (exn + string) ssh" where
  "check_ssh_connectivity cfg w node_ip =
     bindS (run_ssh_command cfg w node_ip ''echo OK'' (resolve_node_user cfg)) (\<lambda>(success, output).
     returnS (if success \<and> contains_sub ''OK'' output
       then ''[SUCCESS] SSH to '' @ node_ip @ '' is working. Connection successful.''
       else ''[FAILED] SSH to '' @ node_ip @ '' failed. Error: '' @ output))"

definition docker_info :: string where "docker_info = ''docker info --format '' @ quoted ''{{.ServerVersion}}''"

definition toolkit_info :: string where "toolkit_info = ''nvidia-container-cli info 2>&1 | head -20''"

definition docker_ps :: string where
  "docker_ps = ''docker ps --format '' @ quoted (''table {{.Names}}'' @ [CHR 0x09] @ ''{{.Status}}'' @ [CHR 0x09] @ ''{{.Image}}'') @
     '' 2>&1 '' @ ''| head -15''"

definition docker_down :: "string \<Rightarrow> string \<Rightarrow> string \<Rightarrow> string list" where
  "docker_down user node_ip output =
     (if is_ssh_failure output then
        [''  [UNKNOWN] Node not reachable over SSH: '' @ output,
         ''  '' @ u_arrow @ '' Docker state is UNKNOWN '' @ u_dash @ '' no command ran on the node. '' @
           ''Fix: check SSH access for '' @ user @ ''@'' @ node_ip @ '' (key present in '' @ ''~'' @ user @
           ''/.ssh/authorized_keys on the node, NODE_SSH_USER correct '' @ ''for this node, node up).'']
      else [''  [FAILED] Docker daemon NOT running: '' @ output,
        ''  '' @ u_arrow @ '' Fix: Run '' @ quoted ''sudo systemctl start docker'' @ '' on the node.''])"

definition toolkit_line :: "bool \<Rightarrow> string \<Rightarrow> string" where
  "toolkit_line success output =
     (if success then ''  [SUCCESS] NVIDIA Container Toolkit sees the GPUs:'' @ nl @ ''    '' @ output
      else if is_ssh_failure output then ''  [UNKNOWN] NVIDIA Container Toolkit not checked: '' @ output
      else ''  [FAILED] NVIDIA Container Toolkit issue: '' @ output)"

definition containers_line :: "bool \<Rightarrow> string \<Rightarrow> string" where
  "containers_line success output =
     (if success then ''  Running containers:'' @ nl @ ''    '' @ output
      else if is_ssh_failure output then ''  Container list UNKNOWN: '' @ output
      else ''  Could not list containers: '' @ output)"

definition check_node_docker :: "ssh_settings \<Rightarrow> node_world \<Rightarrow> string \<Rightarrow> (exn + string) ssh" where
  "check_node_docker cfg w node_ip =
     (let user = resolve_node_user cfg; head = ''Docker diagnostic for node '' @ node_ip @ '':'' in
      bindS (run_ssh_command cfg w node_ip docker_info user) (\<lambda>(success, output).
      if \<not> success then returnS (py_join nl (head # docker_down user node_ip output))
      else
        bindS (run_ssh_command cfg w node_ip toolkit_info user) (\<lambda>(success2, output2).
        bindS (run_ssh_command cfg w node_ip docker_ps user) (\<lambda>(success3, output3).
        returnS (py_join nl [head, ''  [SUCCESS] Docker daemon running (version '' @ output @ '')'',
          toolkit_line success2 output2, containers_line success3 output3])))))"

text \<open>\<open>node_exec\<close> over this connection; the wording of its answers is \<open>Command_Gate.node_exec\<close>.\<close>

definition node_exec_tool :: "ssh_settings \<Rightarrow> node_world \<Rightarrow> string \<Rightarrow> string \<Rightarrow> (exn + string) ssh" where
  "node_exec_tool cfg w node_ip command = (case node_command command of
      Inl refusal \<Rightarrow> returnS refusal
    | Inr remote \<Rightarrow>
        bindS (run_ssh_command cfg w node_ip remote (resolve_node_user cfg)) (\<lambda>r.
        returnS (node_exec (\<lambda>_ _. r) (resolve_node_user cfg) node_ip command)))"

definition CONTAINER_REAPED :: string where
  "CONTAINER_REAPED = ''Note: a node lists only the containers it still holds, and it does not keep them '' @
     ''indefinitely. An absence here has two readings '' @ u_dash @ '' a container that ran and was '' @
     ''later reaped, and a run that failed before any container existed. get_task_logs('' @
     ''task_id) reads aistudio-server'' @ [sq] @ ''s archived log stream, which is retained after the '' @
     ''container is gone; workload_history records which stage the run reached.''"

definition clamp_int :: "int \<Rightarrow> int \<Rightarrow> int \<Rightarrow> int" where "clamp_int lo hi n = max lo (min n hi)"

definition docker_logs_command :: "string \<Rightarrow> int \<Rightarrow> int \<Rightarrow> string" where
  "docker_logs_command container tail since_minutes =
     ''c=$(docker ps -a --filter name='' @ shlex_quote container @ '' --format '' @ quoted ''{{.Names}}'' @ '' | head -1); '' @
     ''if [ -z '' @ dq @ ''$c'' @ dq @ '' ]; then echo NO_MATCH; '' @
     ''docker ps -a --format '' @ quoted (''{{.Names}}'' @ bs @ ''t{{.Status}}'') @ '' | head -20; exit 0; fi; '' @
     ''echo '' @ dq @ ''container: $c'' @ dq @ ''; '' @
     ''docker inspect --format '' @ quoted (''status={{.State.Status}} exit={{.State.ExitCode}} '' @
       ''oom={{.State.OOMKilled}} restarts={{.RestartCount}}'') @ '' '' @ dq @ ''$c'' @ dq @ ''; '' @
     ''echo '' @ dq @ ''--- logs ---'' @ dq @ ''; '' @
     ''docker logs --tail '' @ show_int tail @ '' --since '' @ show_int since_minutes @ ''m '' @ dq @ ''$c'' @ dq @
     '' 2>&1 | tail -'' @ show_int tail"

definition NODE_ERROR_WORDS :: "string list" where
  "NODE_ERROR_WORDS = [''error'', ''fail'', ''exception'', ''traceback'', ''refused'', ''denied'', ''oom'', ''killed'',
     ''critical'', ''fatal'', ''cuda'']"

definition docker_logs_report :: "string \<Rightarrow> string \<Rightarrow> string \<Rightarrow> string" where
  "docker_logs_report node_ip container output =
     (if starts_with ''NO_MATCH'' output then
        ''[node '' @ node_ip @ ''] no container matching '' @ py_repr container @ ''. Containers on the node:'' @ nl @
        py_strip (drop 8 output) @ nl @ nl @ CONTAINER_REAPED
      else
        (let errors = filter (\<lambda>l. list_ex (\<lambda>kw. contains_sub kw (py_lower l)) NODE_ERROR_WORDS) (py_splitlines output) in
         py_join nl ([''[node '' @ node_ip @ ''] '' @ container @ '':''] @
           (if errors \<noteq> [] then
              [u_warning @ ''  '' @ show_nat (length errors) @ '' error/warning line(s):''] @
              map (\<lambda>el. ''  '' @ u_bullet @ '' '' @ el) (drop (length errors - 12) errors) @ [''--- full tail ---'']
            else []) @ [output])))"

definition node_docker_logs :: "ssh_settings \<Rightarrow> node_world \<Rightarrow> string \<Rightarrow> string \<Rightarrow> int \<Rightarrow> int \<Rightarrow> (exn + string) ssh" where
  "node_docker_logs cfg w node_ip container tail since_minutes =
     (let user = resolve_node_user cfg in
      bindS (run_ssh_command cfg w node_ip
          (docker_logs_command container (clamp_int 1 2000 tail) (clamp_int 1 10080 since_minutes)) user) (\<lambda>(success, output).
      returnS
        (if \<not> success then
           (if is_ssh_failure output
            then ''[node '' @ node_ip @ ''] container '' @ py_repr container @ '' NOT checked '' @ u_dash @ '' '' @ output @
              '' Nothing was observed about the container.''
            else ''[node '' @ node_ip @ ''] could not read container logs (user '' @ user @ ''): '' @ output)
         else docker_logs_report node_ip container output)))"

section \<open>Reading ends\<close>

text \<open>A reader of a stream: its text is a beginning of what the stream sends, and as long as the
cap has not been hit it returns only at the stream's end.\<close>

definition CHUNK :: int where "CHUNK = 65536"

definition reads_from :: "(nat \<Rightarrow> string) \<Rightarrow> bool \<Rightarrow> reader \<Rightarrow> bool" where
  "reads_from stream hit d =
     (rd_text d = concat (map stream [0..<rd_reads d]) \<and> (\<forall>k. rd_chunk d k = stream k \<or> rd_chunk d k = []) \<and>
      (\<not> hit \<longrightarrow> rd_chunk d = stream \<and> (rd_done d \<longrightarrow> stream (rd_reads d) = [])) \<and>
      int (length (rd_text d)) \<le> MAX_OUTPUT + CHUNK \<and> (\<not> rd_done d \<longrightarrow> int (length (rd_text d)) \<le> MAX_OUTPUT))"

definition still_to_read :: "reader \<Rightarrow> nat" where
  "still_to_read d = (if rd_done d then 0 else nat (MAX_OUTPUT + 2 - int (length (rd_text d))))"

lemma reader_of_reads: "reads_from stream False (reader_of stream)"
  by (simp add: reads_from_def reader_of_def MAX_OUTPUT_def CHUNK_def)

lemma closed_reads:
  "reads_from stream hit d \<Longrightarrow> reads_from stream True (channel_closed left d)"
  "still_to_read (channel_closed left d) = still_to_read d" "rd_text (channel_closed left d) = rd_text d"
  "rd_done (channel_closed left d) = rd_done d"
  by (auto simp: reads_from_def channel_closed_def still_to_read_def)

lemma reads_hit: "reads_from stream hit d \<Longrightarrow> reads_from stream True d"
  by (auto simp: reads_from_def)

lemma drain_reads:
  assumes "reads_from stream hit d" and "\<not> rd_done d" and "\<And>k. int (length (stream k)) \<le> CHUNK"
  shows "reads_from stream (hit \<or> snd (drain d)) (fst (drain d))" "still_to_read (fst (drain d)) < still_to_read d"
    "snd (drain d) \<Longrightarrow> MAX_OUTPUT < int (length (rd_text (fst (drain d))))"
    "length (rd_text d) \<le> length (rd_text (fst (drain d)))"
proof -
  let ?c = "rd_chunk d (rd_reads d)"
  have small: "int (length (rd_text d)) \<le> MAX_OUTPUT" using assms(1,2) unfolding reads_from_def by blast
  have c: "?c \<noteq> [] \<Longrightarrow> ?c = stream (rd_reads d)" using assms(1) by (auto simp: reads_from_def)
  have len: "int (length ?c) \<le> CHUNK" using c assms(3) by (cases "?c = []") (auto simp: CHUNK_def)
  show "reads_from stream (hit \<or> snd (drain d)) (fst (drain d))"
    using assms(1,2) small len c unfolding reads_from_def drain_def Let_def
    by (cases "?c = []") auto
  show "still_to_read (fst (drain d)) < still_to_read d"
    using small assms(2) by (cases "?c") (auto simp: still_to_read_def drain_def Let_def)
  show "snd (drain d) \<Longrightarrow> MAX_OUTPUT < int (length (rd_text (fst (drain d))))"
    "length (rd_text d) \<le> length (rd_text (fst (drain d)))"
    by (auto simp: drain_def Let_def split: if_splits)
qed

definition read_answer :: "sent \<Rightarrow> string \<times> string \<times> bool \<Rightarrow> bool" where
  "read_answer x r = (case r of (out, err, hit) \<Rightarrow>
     (\<exists>i j. out = concat (map (stdout_sent x) [0..<i]) \<and> err = concat (map (stderr_sent x) [0..<j]) \<and>
        int (length out) \<le> MAX_OUTPUT + CHUNK \<and> int (length err) \<le> MAX_OUTPUT + CHUNK \<and>
        (if hit then MAX_OUTPUT < int (length out) \<or> MAX_OUTPUT < int (length err)
         else stdout_sent x i = [] \<and> stderr_sent x j = [])))"

lemma gather_ends:
  assumes "\<And>k. int (length (stdout_sent x k)) \<le> CHUNK" and "\<And>k. int (length (stderr_sent x k)) \<le> CHUNK"
    and "reads_from (stdout_sent x) hit out" and "reads_from (stderr_sent x) hit err"
    and "hit \<Longrightarrow> MAX_OUTPUT < int (length (rd_text out)) \<or> MAX_OUTPUT < int (length (rd_text err))"
  shows "\<exists>r. gather_readers turn left i out err hit = Some r \<and> read_answer x r"
  using assms(3-5)
proof (induction "still_to_read out + still_to_read err" arbitrary: i out err hit rule: less_induct)
  case less
  consider "rd_done out \<and> rd_done err" | "\<not> rd_done out \<and> (rd_done err \<or> turn i)"
    | "\<not> rd_done err \<and> \<not> (\<not> rd_done out \<and> (rd_done err \<or> turn i))" by blast
  then show ?case
  proof cases
    case 1
    then have "gather_readers turn left i out err hit = Some (rd_text out, rd_text err, hit)"
      by (simp add: gather_readers.simps [of turn left i])
    moreover have "read_answer x (rd_text out, rd_text err, hit)"
      using less.prems 1 unfolding read_answer_def reads_from_def prod.case
      by (intro exI [of _ "rd_reads out"] exI [of _ "rd_reads err"]) auto
    ultimately show ?thesis by blast
  next
    case 2
    let ?out = "fst (drain out)" let ?h = "snd (drain out)" let ?err = "if ?h then channel_closed left err else err"
    note d = drain_reads [OF less.prems(1) conjunct1 [OF 2] assms(1)]
    have "\<exists>r. gather_readers turn left (i + 1) ?out ?err (hit \<or> ?h) = Some r \<and> read_answer x r"
      using less.prems(2,3) d closed_reads
      by (intro less.hyps) (auto intro: reads_hit order_less_le_trans)
    then show ?thesis using 2 by (simp only: gather_readers.simps [of turn left i] if_True if_False simp_thms)
  next
    case 3
    let ?err = "fst (drain err)" let ?h = "snd (drain err)" let ?out = "if ?h then channel_closed left out else out"
    note d = drain_reads [OF less.prems(2) conjunct1 [OF 3] assms(2)]
    have "\<exists>r. gather_readers turn left (i + 1) ?out ?err (hit \<or> ?h) = Some r \<and> read_answer x r"
      using less.prems(1,3) d closed_reads
      by (intro less.hyps) (auto intro: reads_hit order_less_le_trans)
    then show ?thesis using 3 by (auto simp: gather_readers.simps [of turn left i])
  qed
qed

text \<open>C28: reading a command's output ends whatever the node prints and in whatever order its two
streams are served: each text is a beginning of what its stream sent and at most one read of 65536
characters past the cap; without a hit both streams were read to their end, and a hit means that
one text is past the cap. A single read yields at most 65536 characters.\<close>

theorem output_read_ends:
  assumes "\<And>k. int (length (stdout_sent x k)) \<le> CHUNK" and "\<And>k. int (length (stderr_sent x k)) \<le> CHUNK"
  shows "\<exists>out err hit i j. read_capped x = Some (out, err, hit) \<and>
    out = concat (map (stdout_sent x) [0..<i]) \<and> err = concat (map (stderr_sent x) [0..<j]) \<and>
    int (length out) \<le> MAX_OUTPUT + CHUNK \<and> int (length err) \<le> MAX_OUTPUT + CHUNK \<and>
    (if hit then MAX_OUTPUT < int (length out) \<or> MAX_OUTPUT < int (length err)
     else stdout_sent x i = [] \<and> stderr_sent x j = [])"
proof -
  have "\<exists>r. read_capped x = Some r \<and> read_answer x r"
    unfolding read_capped_def by (rule gather_ends [OF assms]) (simp_all add: reader_of_reads)
  then show ?thesis unfolding read_answer_def by blast
qed

text \<open>A command that prints without end on one stream while the other waits.\<close>

definition endless :: sent where
  "endless = \<lparr>stdout_sent = (\<lambda>_. ''all work and no play''), stderr_sent = (\<lambda>_. []), stdout_first = (\<lambda>_. True), buffered = 3\<rparr>"

lemma output_read_ends_witness:
  "\<exists>out err. read_capped endless = Some (out, err, True) \<and> MAX_OUTPUT < int (length out) \<and> int (length out) \<le> MAX_OUTPUT + CHUNK"
proof -
  have c: "int (length (stdout_sent endless k)) \<le> CHUNK" "int (length (stderr_sent endless k)) \<le> CHUNK" for k
    by (simp_all add: endless_def CHUNK_def)
  obtain out err hit i j where r: "read_capped endless = Some (out, err, hit)" "err = concat (map (stderr_sent endless) [0..<j])"
      "int (length out) \<le> MAX_OUTPUT + CHUNK"
      "if hit then MAX_OUTPUT < int (length out) \<or> MAX_OUTPUT < int (length err)
       else stdout_sent endless i = [] \<and> stderr_sent endless j = []"
    using output_read_ends [OF c] by blast
  have "stdout_sent endless i \<noteq> []" "err = []" using r(2) by (simp_all add: endless_def)
  then have hit: "hit" and len: "MAX_OUTPUT < int (length out)" using r(4) by (auto simp: MAX_OUTPUT_def split: if_splits)
  have "read_capped endless = Some (out, err, True)" using r(1) hit by simp
  then show ?thesis using r(3) len by blast
qed

section \<open>What a probe may touch\<close>

fun contact_ip :: "contact \<Rightarrow> string" where
  "contact_ip (Fetch_key a) = a"
| "contact_ip (Connect a _ _) = a"

definition allowed_target :: "ssh_settings \<Rightarrow> string \<Rightarrow> bool" where
  "allowed_target cfg a = (\<exists>ip. ip_address (py_strip a) = Some ip \<and> \<not> never_a_node ip \<and>
     (\<exists>c \<in> set (allowed_cidrs cfg). \<exists>n. ip_network c = Inr n \<and> in_network ip n))"

definition key_lines :: "ssh_state \<Rightarrow> string list" where
  "key_lines s = (case known_hosts s of None \<Rightarrow> [] | Some ls \<Rightarrow> ls)"

text \<open>What using the connection to one address may do to the state.\<close>

definition probe_step :: "ssh_settings \<Rightarrow> string \<Rightarrow> ssh_state \<Rightarrow> ssh_state \<Rightarrow> bool" where
  "probe_step cfg a s s' = (\<exists>cs ls. contacts s' = contacts s @ cs \<and> key_lines s' = key_lines s @ ls \<and>
     list_all (\<lambda>c. contact_ip c = a \<and> allowed_target cfg a) cs \<and>
     list_all (\<lambda>l. starts_with (a @ '' '') l \<and> py_lower (py_strip (ss_policy cfg)) = ''tofu'') ls)"

lemma probe_step_refl [simp]: "probe_step cfg a s s"
  by (auto simp: probe_step_def)

lemma probe_step_trans: "probe_step cfg a s s' \<Longrightarrow> probe_step cfg a s' s'' \<Longrightarrow> probe_step cfg a s s''"
proof -
  assume "probe_step cfg a s s'" "probe_step cfg a s' s''"
  then obtain cs ls cs' ls' where
      "contacts s' = contacts s @ cs" "key_lines s' = key_lines s @ ls"
      "contacts s'' = contacts s' @ cs'" "key_lines s'' = key_lines s' @ ls'"
      "list_all (\<lambda>c. contact_ip c = a \<and> allowed_target cfg a) (cs @ cs')"
      "list_all (\<lambda>l. starts_with (a @ '' '') l \<and> py_lower (py_strip (ss_policy cfg)) = ''tofu'') (ls @ ls')"
    unfolding probe_step_def list_all_append by blast
  then show ?thesis unfolding probe_step_def by (intro exI [of _ "cs @ cs'"] exI [of _ "ls @ ls'"]) simp
qed

interpretation probe: state_steps "probe_step cfg a" for cfg a
  by unfold_locales (auto intro: probe_step_trans)

lemma in_any_True: "in_any ip cs = Inr True \<Longrightarrow> \<exists>c \<in> set cs. \<exists>n. ip_network c = Inr n \<and> in_network ip n"
  by (induction cs) (auto simp: bindE_def split: sum.splits if_splits)

lemma refuse_target_allows: "refuse_target cfg a = Inr [] \<Longrightarrow> allowed_target cfg a"
  unfolding refuse_target_def allowed_target_def
  by (auto simp: bindE_def split: option.splits sum.splits if_splits dest: in_any_True)

lemma probe_step_contact: "allowed_target cfg (contact_ip c) \<Longrightarrow> probe_step cfg (contact_ip c) s (contacted c s)"
  unfolding probe_step_def contacted_def key_lines_def
  by (intro exI [of _ "[c]"] exI [of _ "[]"]) simp

lemma probe_step_key:
  "py_lower (py_strip (ss_policy cfg)) = ''tofu'' \<Longrightarrow> probe_step cfg a s (record_key (a @ '' '' @ k) s)"
  unfolding probe_step_def record_key_def key_lines_def
  by (intro exI [of _ "[]"] exI [of _ "[a @ '' '' @ k]"]) (auto simp: starts_with_def)

lemma known_hosts_probe:
  assumes "allowed_target cfg a" shows "probe_step cfg a s (snd (known_hosts_for cfg w a s))"
proof -
  have c: "probe_step cfg a s (contacted (Fetch_key a) s)"
    using probe_step_contact [of cfg "Fetch_key a"] assms by simp
  show ?thesis
    using c probe_step_trans [OF c probe_step_key [of cfg a]]
    by (auto simp: known_hosts_for_def Let_def split: sum.splits option.splits)
qed

lemma run_probe: "probe.keeps cfg a (run_ssh_command cfg w a command user)"
proof -
  have "probe_step cfg a s (snd (ssh_exec cfg w a command user s))" for s
  proof (cases "refuse_target cfg a = Inr []")
    case True
    then have ok: "allowed_target cfg a" by (rule refuse_target_allows)
    obtain r s' where k: "known_hosts_for cfg w a s = (r, s')" by fastforce
    have s': "probe_step cfg a s s'" using known_hosts_probe [OF ok, of s w] k by simp
    have "probe_step cfg a s (contacted (Connect a u command) s')" for u
      using probe_step_trans [OF s'] probe_step_contact [of cfg "Connect a u command"] ok by simp
    then show ?thesis using True k s'
      by (auto simp: ssh_exec_def Let_def split: sum.splits run_outcome.splits)
  next
    case False
    then show ?thesis by (cases "refuse_target cfg a") (auto simp: ssh_exec_def Let_def)
  qed
  moreover have "snd (run_ssh_command cfg w a command user s) = snd (ssh_exec cfg w a command user s)" for s
    by (auto simp: run_ssh_command_def split: prod.split sum.split)
  ultimately show ?thesis by (simp add: probe.keeps_def)
qed

lemma tools_probe:
  "probe.keeps cfg a (check_ssh_connectivity cfg w a)" "probe.keeps cfg a (check_node_docker cfg w a)"
  "probe.keeps cfg a (node_exec_tool cfg w a command)" "probe.keeps cfg a (node_docker_logs cfg w a container tail minutes)"
  unfolding check_ssh_connectivity_def check_node_docker_def node_exec_tool_def node_docker_logs_def Let_def
  by (intro probe.steps_rules run_probe)+

text \<open>The four tools on a node.\<close>

definition node_tools :: "ssh_settings \<Rightarrow> node_world \<Rightarrow> string \<Rightarrow> (exn + string) ssh set" where
  "node_tools cfg w a = {check_ssh_connectivity cfg w a, check_node_docker cfg w a} \<union>
     range (node_exec_tool cfg w a) \<union> {node_docker_logs cfg w a container tail minutes |container tail minutes. True}"

lemma node_tools_probe: "tool \<in> node_tools cfg w a \<Longrightarrow> probe.keeps cfg a tool"
  unfolding node_tools_def using tools_probe by auto

text \<open>C26: every connection any of the node tools makes, the fetching of a host key included, goes to the
address it was given, which is an IP address inside one of the configured networks and none of
loopback, link-local, unspecified or multicast.\<close>

theorem node_tools_stay_in_networks:
  assumes "tool \<in> node_tools cfg w a" and "c \<in> set (contacts (snd (tool s)))" and "c \<notin> set (contacts s)"
  shows "contact_ip c = a \<and> (\<exists>ip. ip_address (py_strip a) = Some ip \<and> \<not> never_a_node ip \<and>
    (\<exists>n \<in> set (allowed_cidrs cfg). \<exists>net. ip_network n = Inr net \<and> in_network ip net))"
proof -
  have "probe_step cfg a s (snd (tool s))" using node_tools_probe [OF assms(1)] by (simp add: probe.keeps_def)
  then obtain cs where "contacts (snd (tool s)) = contacts s @ cs" "list_all (\<lambda>c. contact_ip c = a \<and> allowed_target cfg a) cs"
    unfolding probe_step_def by blast
  then show ?thesis using assms(2,3) by (auto simp: list_all_iff allowed_target_def)
qed

definition lab_settings :: ssh_settings where
  "lab_settings = \<lparr>ss_default_user = ''ubuntu'', ss_node_user = [], ss_known_hosts = ''kh'', ss_policy = ''tofu'',
     ss_cidrs = ''10.0.0.0/8''\<rparr>"

definition lab_world :: node_world where
  "lab_world = \<lparr>nw_match = (\<lambda>ls a. Inr (list_ex (starts_with (a @ '' '')) ls)), nw_host_key = (\<lambda>_. Inr (Some ''key'')),
     nw_connect = (\<lambda>_ _ _ _. Inr (Finished \<lparr>stdout_sent = (\<lambda>k. if k = 0 then ''OK'' else []), stderr_sent = (\<lambda>_. []),
       stdout_first = (\<lambda>_. True), buffered = 0\<rparr> (Some 0)))\<rparr>"

definition fresh_state :: ssh_state where "fresh_state = \<lparr>known_hosts = None, contacts = []\<rparr>"

lemma lab_contacts:
  "contacts (snd (check_ssh_connectivity lab_settings lab_world ''10.0.0.7'' fresh_state)) =
     [Fetch_key ''10.0.0.7'', Connect ''10.0.0.7'' ''ubuntu'' ''echo OK'']"
  "key_lines (snd (check_ssh_connectivity lab_settings lab_world ''10.0.0.7'' fresh_state)) = [''10.0.0.7 key'']"
proof -
  have "refuse_target lab_settings ''10.0.0.7'' = Inr []" by code_simp
  moreover have "py_lower (py_strip ''tofu'') = ''tofu''" "py_strip ''key'' = ''key''" by code_simp+
  ultimately show "contacts (snd (check_ssh_connectivity lab_settings lab_world ''10.0.0.7'' fresh_state)) =
     [Fetch_key ''10.0.0.7'', Connect ''10.0.0.7'' ''ubuntu'' ''echo OK'']"
    "key_lines (snd (check_ssh_connectivity lab_settings lab_world ''10.0.0.7'' fresh_state)) = [''10.0.0.7 key'']"
    by (simp_all add: check_ssh_connectivity_def bindS_def run_ssh_command_def ssh_exec_def known_hosts_for_def
        lab_settings_def lab_world_def fresh_state_def contacted_def record_key_def resolve_node_user_def returnS_def
        key_lines_def Let_def split: prod.splits)
qed

lemma node_tools_stay_in_networks_witness:
  "Connect ''10.0.0.7'' ''ubuntu'' ''echo OK'' \<in>
     set (contacts (snd (check_ssh_connectivity lab_settings lab_world ''10.0.0.7'' fresh_state))) \<and>
   (\<exists>ip. ip_address (py_strip ''10.0.0.7'') = Some ip \<and> \<not> never_a_node ip)"
proof -
  have "check_ssh_connectivity lab_settings lab_world ''10.0.0.7'' \<in> node_tools lab_settings lab_world ''10.0.0.7''"
    by (simp add: node_tools_def)
  then show ?thesis
    using node_tools_stay_in_networks [of _ lab_settings lab_world "''10.0.0.7''" "Connect ''10.0.0.7'' ''ubuntu'' ''echo OK''" fresh_state]
      lab_contacts(1) by (fastforce simp: fresh_state_def)
qed

section \<open>Which host keys are recorded\<close>

text \<open>The known_hosts file is there and does not say that the node is unknown.\<close>

definition has_key :: "node_world \<Rightarrow> ssh_state \<Rightarrow> string \<Rightarrow> bool" where
  "has_key w s a = (\<exists>ls. known_hosts s = Some ls \<and> nw_match w ls a \<noteq> Inr False)"

text \<open>What the format of known_hosts promises: a line that names the address is a match for it.\<close>

definition matches_lines :: "node_world \<Rightarrow> string \<Rightarrow> bool" where
  "matches_lines w a = (\<forall>ls l. l \<in> set ls \<longrightarrow> starts_with (a @ '' '') l \<longrightarrow> nw_match w ls a \<noteq> Inr False)"

text \<open>The file stays as it is, or one line for the node is appended, under tofu and where there was no
key for it.\<close>

definition key_step :: "ssh_settings \<Rightarrow> node_world \<Rightarrow> string \<Rightarrow> ssh_state \<Rightarrow> ssh_state \<Rightarrow> bool" where
  "key_step cfg w a s s' =
     (matches_lines w a \<longrightarrow>
        known_hosts s' = known_hosts s \<or>
        (\<not> has_key w s a \<and> py_lower (py_strip (ss_policy cfg)) = ''tofu'' \<and>
         (\<exists>l. starts_with (a @ '' '') l \<and> known_hosts s' = Some (key_lines s @ [l]))))"

lemma key_step_cong: "known_hosts s' = known_hosts s \<Longrightarrow> key_step cfg w a s s'"
  by (simp add: key_step_def)

lemma key_step_trans: "key_step cfg w a s t \<Longrightarrow> key_step cfg w a t u \<Longrightarrow> key_step cfg w a s u"
proof (cases "matches_lines w a \<and> known_hosts t \<noteq> known_hosts s")
  case True
  assume st: "key_step cfg w a s t" and tu: "key_step cfg w a t u"
  obtain l where l: "starts_with (a @ '' '') l" "known_hosts t = Some (key_lines s @ [l])"
    using st True unfolding key_step_def by blast
  then have "has_key w t a" using True unfolding has_key_def matches_lines_def by (metis in_set_conv_decomp)
  then have "known_hosts u = known_hosts t" using tu True unfolding key_step_def by blast
  then show ?thesis using st by (simp add: key_step_def)
next
  case False
  assume "key_step cfg w a s t" "key_step cfg w a t u"
  then show ?thesis using False by (auto simp: key_step_def has_key_def key_lines_def)
qed

interpretation keyring: state_steps "key_step cfg w a" for cfg w a
  by unfold_locales (auto intro: key_step_cong key_step_trans)

lemma known_hosts_for_key: "key_step cfg w a s (snd (known_hosts_for cfg w a s))"
  by (auto simp: known_hosts_for_def Let_def key_step_def has_key_def contacted_def record_key_def key_lines_def
      starts_with_def split: sum.splits option.splits)

lemma run_keyring: "keyring.keeps cfg w a (run_ssh_command cfg w a command user)"
proof -
  have "key_step cfg w a s (snd (ssh_exec cfg w a command user s))" for s
  proof -
    obtain r s' where k: "known_hosts_for cfg w a s = (r, s')" by fastforce
    have s': "key_step cfg w a s s'" using known_hosts_for_key [of cfg w a s] k by simp
    have c: "known_hosts (contacted c s') = known_hosts s'" for c by (simp add: contacted_def)
    have "key_step cfg w a s (contacted c s')" for c
      using s' c [of c] by (simp add: key_step_def)
    then show ?thesis using k s' key_step_cong [of s s]
      by (auto simp: ssh_exec_def Let_def split: sum.splits run_outcome.splits)
  qed
  moreover have "snd (run_ssh_command cfg w a command user s) = snd (ssh_exec cfg w a command user s)" for s
    by (auto simp: run_ssh_command_def split: prod.split sum.split)
  ultimately show ?thesis by (simp add: keyring.keeps_def)
qed

lemma tools_keyring:
  "keyring.keeps cfg w a (check_ssh_connectivity cfg w a)" "keyring.keeps cfg w a (check_node_docker cfg w a)"
  "keyring.keeps cfg w a (node_exec_tool cfg w a command)" "keyring.keeps cfg w a (node_docker_logs cfg w a container tail minutes)"
  unfolding check_ssh_connectivity_def check_node_docker_def node_exec_tool_def node_docker_logs_def Let_def
  by (intro keyring.steps_rules run_keyring)+

lemma node_tools_keyring: "tool \<in> node_tools cfg w a \<Longrightarrow> keyring.keeps cfg w a tool"
  unfolding node_tools_def using tools_keyring by auto

text \<open>C27: recorded host keys are only added to, and only for an unknown node: a node tool leaves the
lines of known_hosts as they are, or appends exactly one, which names the node it was called on,
and that only under the policy tofu and when no key of the node was on file before. However many
commands the tool runs, the key is recorded once. A line that names an address is taken to match it.\<close>

theorem host_keys_only_added:
  assumes "tool \<in> node_tools cfg w a"
    and "\<And>ls l. l \<in> set ls \<Longrightarrow> starts_with (a @ '' '') l \<Longrightarrow> nw_match w ls a \<noteq> Inr False"
  shows "\<exists>ls. key_lines (snd (tool s)) = key_lines s @ ls \<and> length ls \<le> 1 \<and>
    list_all (\<lambda>l. starts_with (a @ '' '') l \<and> py_lower (py_strip (ss_policy cfg)) = ''tofu'' \<and> \<not> has_key w s a) ls"
proof -
  have "matches_lines w a" using assms(2) unfolding matches_lines_def by blast
  moreover have "key_step cfg w a s (snd (tool s))" using node_tools_keyring [OF assms(1)] by (simp add: keyring.keeps_def)
  ultimately consider "known_hosts (snd (tool s)) = known_hosts s"
    | l where "\<not> has_key w s a" "py_lower (py_strip (ss_policy cfg)) = ''tofu''" "starts_with (a @ '' '') l"
        "known_hosts (snd (tool s)) = Some (key_lines s @ [l])"
    unfolding key_step_def by blast
  then show ?thesis
  proof cases
    case 1
    then show ?thesis by (intro exI [of _ "[]"]) (simp add: key_lines_def)
  next
    case (2 l)
    then show ?thesis by (intro exI [of _ "[l]"]) (simp add: key_lines_def)
  qed
qed

lemma host_keys_only_added_witness:
  "\<exists>ls. [''10.0.0.7 key''] = [] @ ls \<and> list_all (\<lambda>l. starts_with ''10.0.0.7 '' l \<and> \<not> has_key lab_world fresh_state ''10.0.0.7'') ls"
proof -
  have "check_ssh_connectivity lab_settings lab_world ''10.0.0.7'' \<in> node_tools lab_settings lab_world ''10.0.0.7''"
    by (simp add: node_tools_def)
  moreover have "nw_match lab_world ls ''10.0.0.7'' \<noteq> Inr False" if "l \<in> set ls" "starts_with (''10.0.0.7'' @ '' '') l" for ls l
    using that by (auto simp: lab_world_def list_ex_iff)
  ultimately obtain ls where
      "key_lines (snd (check_ssh_connectivity lab_settings lab_world ''10.0.0.7'' fresh_state)) = key_lines fresh_state @ ls"
      "list_all (\<lambda>l. starts_with (''10.0.0.7'' @ '' '') l \<and> py_lower (py_strip (ss_policy lab_settings)) = ''tofu'' \<and>
         \<not> has_key lab_world fresh_state ''10.0.0.7'') ls"
    using host_keys_only_added [of _ lab_settings lab_world "''10.0.0.7''" fresh_state] by blast
  moreover have "key_lines fresh_state = []" by (simp add: fresh_state_def key_lines_def)
  ultimately show ?thesis unfolding lab_contacts(2) by (auto simp: list_all_iff)
qed

end
