(* ===== verification/Net_Probes.thy ===== *)
theory Net_Probes
  imports Net_Guard Fs_Probes Run_Reports Node_Ssh
begin

text \<open>
  \<open>mcp-server/app/tools/net_probes.py\<close>, the probes. The network is the argument \<open>probe_world\<close>; the
  state is the number of name lookups made and the contacts. The checks of \<open>asyncio.gather\<close> run
  concurrently; here they run in their order, and the resolver may answer every lookup as it likes.
\<close>

datatype tcp_outcome = Reached int | Tcp_timeout | Tcp_refused | Tcp_failed string

datatype http_outcome =
    Http_answer nat "string option" "string list" int
  | Http_unreachable string
  | Http_timeout
  | Http_failed string

record certificate =
  ce_subject :: string
  ce_issuer :: string
  ce_start :: int
  ce_end :: int
  ce_names :: "string list option"

datatype tls_outcome = Certificate certificate string | No_certificate string

record probe_world =
  pw_net :: net_world
  pw_tcp :: "string \<Rightarrow> int \<Rightarrow> tcp_outcome"
  pw_http :: "pinned_request \<Rightarrow> http_outcome"
  pw_run :: "string list \<Rightarrow> process"
  pw_tls :: "string \<Rightarrow> string \<Rightarrow> int \<Rightarrow> tls_outcome"
  pw_trust :: "string \<Rightarrow> string \<Rightarrow> int \<Rightarrow> string"
  pw_minute :: "int \<Rightarrow> string"
  pw_timeout :: int

datatype net_contact = Tcp_to string int | Http_to string pinned_request | Ping_to string | Tls_to string int

record net_state =
  ns_lookups :: nat
  ns_contacts :: "net_contact list"

type_synonym 'a net = "(net_state, 'a) action_on"

definition lookups :: "nat \<Rightarrow> (nat \<Rightarrow> exn + 'a) \<Rightarrow> 'a net" where
  "lookups k f s = (f (ns_lookups s), s\<lparr>ns_lookups := ns_lookups s + k\<rparr>)"

definition connect_to :: "net_contact \<Rightarrow> unit net" where
  "connect_to c s = (Inr (), s\<lparr>ns_contacts := ns_contacts s @ [c]\<rparr>)"

section \<open>Single checks\<close>

definition dns :: "probe_world \<Rightarrow> string \<Rightarrow> string net" where
  "dns w host = lookups 1 (\<lambda>n. Inr (case nw_resolve (pw_net w) n host of
      Inl e \<Rightarrow> ''DNS: [FAIL] cannot resolve '' @ py_repr host @ '': '' @ e
    | Inr ips \<Rightarrow> ''DNS: [OK] '' @ host @ '' '' @ u_arrow @ '' '' @ py_join '', '' (sort (remdups ips))))"

definition TCP_FAIL_IS_AMBIGUOUS :: string where
  "TCP_FAIL_IS_AMBIGUOUS = ''. A listener bound to 127.0.0.1 accepts connections over loopback and rejects '' @
     ''every other address, so a service can answer locally and be unreachable from '' @
     ''another host with nothing wrong in between; a filtered path and a missing '' @
     ''process produce this same line. list_listening_ports shows which address each '' @
     ''listener is actually bound to on this host.''"

text \<open>The vetted addresses are used; the first one is contacted.\<close>

definition vetted :: "probe_world \<Rightarrow> string \<Rightarrow> (string option \<times> string list) net" where
  "vetted w host = lookups 2 (\<lambda>n. vet (pw_net w) n host)"

definition tcp :: "probe_world \<Rightarrow> string \<Rightarrow> int \<Rightarrow> int \<Rightarrow> string net" where
  "tcp w host port timeout =
     (let head = ''TCP '' @ host @ '':'' @ show_int port @ '': '' in
      bindS (vetted w host) (\<lambda>(refused, ips). case refused of
        Some r \<Rightarrow> returnS (head @ ''[REFUSED] '' @ r)
      | None \<Rightarrow>
          bindS (connect_to (Tcp_to (hd ips) port)) (\<lambda>_.
          returnS (head @ (case pw_tcp w (hd ips) port of
            Reached millis \<Rightarrow> ''[OK] reachable ('' @ show_int millis @ '' ms)''
          | Tcp_timeout \<Rightarrow> ''[FAIL] timed out after '' @ show_int timeout @ ''s'' @ TCP_FAIL_IS_AMBIGUOUS
          | Tcp_refused \<Rightarrow> ''[FAIL] refused '' @ u_dash @ '' the SYN reached a host that had '' @
              ''no listener on this address'' @ TCP_FAIL_IS_AMBIGUOUS
          | Tcp_failed e \<Rightarrow> ''[FAIL] '' @ e)))))"

definition BODY_CAP :: int where "BODY_CAP = 65536"

fun read_body :: "string \<Rightarrow> string list \<Rightarrow> string" where
  "read_body body [] = body"
| "read_body body (c # cs) = (if int (length (body @ c)) > BODY_CAP then body @ c else read_body (body @ c) cs)"

definition u_atleast :: string where "u_atleast = [CHR 0xE2, CHR 0x89, CHR 0xA5]"

text \<open>The body is text in ASCII.\<close>

definition http_line :: "string \<Rightarrow> int \<Rightarrow> http_outcome \<Rightarrow> string" where
  "http_line s timeout r = ''HTTP '' @ s @ '': '' @ (case r of
      Http_answer code ctype chunks millis \<Rightarrow>
        (let body = read_body [] chunks;
             kind = py_strip (hd (split_char (CHR '';'') (case ctype of None \<Rightarrow> ''?'' | Some t \<Rightarrow> t)));
             amount = (if int (length body) > BODY_CAP then u_atleast @ show_int BODY_CAP else show_nat (length body));
             snippet = py_join '' '' (py_words (take 200 (take 800 body))) in
         ''['' @ show_nat code @ ''] '' @ (if kind = [] then ''?'' else kind) @ '' ('' @ show_int millis @ '' ms, '' @ amount @ '' bytes)'' @
         (if snippet \<noteq> [] then nl @ ''    body: '' @ snippet else []))
    | Http_unreachable e \<Rightarrow> ''[FAIL] cannot connect: '' @ e
    | Http_timeout \<Rightarrow> ''[FAIL] timed out after '' @ show_int timeout @ ''s''
    | Http_failed e \<Rightarrow> ''[FAIL] '' @ e)"

definition http :: "probe_world \<Rightarrow> string \<Rightarrow> int \<Rightarrow> string net" where
  "http w s timeout =
     bindS (lookups 2 (\<lambda>n. vet_url (pw_net w) n s)) (\<lambda>(refused, ips). case refused of
       Some r \<Rightarrow> returnS (''HTTP '' @ s @ '': [REFUSED] '' @ r)
     | None \<Rightarrow>
         bindS (lookups 0 (\<lambda>_. pinned s (hd ips))) (\<lambda>rq.
         bindS (connect_to (Http_to (hd ips) rq)) (\<lambda>_.
         returnS (http_line s timeout (pw_http w rq)))))"

definition ping_args :: "string \<Rightarrow> string list" where
  "ping_args a = [''ping'', ''-c'', ''3'', ''-w'', ''8'', a]"

definition ping :: "probe_world \<Rightarrow> string \<Rightarrow> string net" where
  "ping w host =
     (if option_like [host] \<noteq> [] then
        returnS (''PING: refused '' @ u_dash @ '' '' @ py_repr host @ '' is a ping option, not a host.'')
      else
        bindS (vetted w host) (\<lambda>(refused, ips). case refused of
          Some r \<Rightarrow> returnS (''PING '' @ host @ '': [REFUSED] '' @ r)
        | None \<Rightarrow>
            bindS (connect_to (Ping_to (hd ips))) (\<lambda>_.
            case run_process (pw_run w) 11 (ping_args (hd ips)) of (code, out, err) \<Rightarrow>
              if code = 127 then returnS ''PING: (ping not installed in image)''
              else
                (let lines = py_splitlines (py_strip out);
                     shown = (if py_strip out \<noteq> [] then drop (length lines - 2) lines else [py_strip err]) in
                 returnS (''PING '' @ host @ '': '' @
                   (if code = 0 then ''[OK]'' else ''[FAIL] (note: ICMP is often firewalled '' @ u_dash @ '' not proof host is down)'') @
                   nl @ ''  '' @ py_join (nl @ ''  '') shown)))))"

section \<open>Reachability\<close>

text \<open>\<open>gather(..., return_exceptions=True)\<close>: an exception becomes its line.\<close>

definition line_of :: "string net \<Rightarrow> string net" where
  "line_of m s = (case m s of (Inl e, s') \<Rightarrow> (Inr (''[error] '' @ exc_str e), s') | r \<Rightarrow> r)"

fun gather :: "string net list \<Rightarrow> string list net" where
  "gather [] = returnS []"
| "gather (m # rest) = bindS (line_of m) (\<lambda>l. bindS (gather rest) (\<lambda>ls. returnS (l # ls)))"

definition network_check :: "probe_world \<Rightarrow> string \<Rightarrow> int \<Rightarrow> string \<Rightarrow> int \<Rightarrow> string net" where
  "network_check w host port s timeout =
     (let t = clamp_to 1 30 (if timeout \<noteq> 0 then timeout else pw_timeout w) in
      bindS (lookups 0 (\<lambda>_. if host = [] \<and> s \<noteq> [] then bindE (urlparse s) (Inr \<circ> hostname) else Inr host)) (\<lambda>host.
      if host = [] \<and> s = [] then returnS ''Provide at least a host or a url to check.''
      else
        bindS (gather ((if host \<noteq> [] then [dns w host] else []) @ (if host \<noteq> [] \<and> port \<noteq> 0 then [tcp w host port t] else []) @
            (if s \<noteq> [] then [http w s t] else []) @ (if host \<noteq> [] then [ping w host] else []))) (\<lambda>lines.
        returnS (''Network check for '' @ (if host \<noteq> [] then host else s) @ '':'' @ nl @ py_join nl lines))))"

section \<open>This host's ports and packets\<close>

definition list_listening_ports :: "(string list \<Rightarrow> process) \<Rightarrow> string" where
  "list_listening_ports start = (case run_process start 15 [''ss'', ''-tlnp''] of (code, out, err) \<Rightarrow>
     if code = 127 then ''ss is not installed (add iproute2 to the image).''
     else if code \<noteq> 0 then ''ss failed: '' @ py_strip err
     else ''Listening TCP sockets in the aistudio-mcp container'' @ [sq] @ ''s network namespace (the Docker '' @
       ''host'' @ [sq] @ ''s own listeners are not visible from here; list_containers shows published '' @ ''ports):'' @ nl @ py_strip out)"

definition tcpdump_args :: "string \<Rightarrow> int \<Rightarrow> string \<Rightarrow> string list" where
  "tcpdump_args iface count bpf =
     [''tcpdump'', ''-l'', ''-q'', ''-s'', ''96'', ''-i'', iface, ''-c'', show_int count, ''-nn'', ''-tttt''] @ py_words bpf"

definition tcpdump_answer :: "string \<Rightarrow> int \<Rightarrow> int \<Rightarrow> int \<times> string \<times> string \<Rightarrow> string" where
  "tcpdump_answer bpf count timeout r = (case r of (code, out, err) \<Rightarrow>
     if code = 127 then ''tcpdump is not installed in the agent image.''
     else if code \<noteq> 0 \<and> contains_sub ''permission'' (py_lower err)
     then ''tcpdump: permission denied '' @ u_dash @ '' the container needs the NET_RAW capability.''
     else if code = 124 then
       (if py_strip out = [] then ''tcpdump captured no packets matching '' @ py_repr bpf @ '' in '' @ show_int timeout @ ''s.''
        else ''tcpdump ('' @ bpf @ ''): '' @ show_nat (length (py_splitlines (py_strip out))) @ '' pkt in the '' @ show_int timeout @
          ''s '' @ ''window (fewer than '' @ show_int count @ ''):'' @ nl @ py_strip out)
     else
       (let body = (if py_strip out \<noteq> [] then py_strip out else py_strip err) in
        if body \<noteq> [] then ''tcpdump ('' @ bpf @ ''), up to '' @ show_int count @ '' pkt:'' @ nl @ body
        else ''tcpdump captured no packets in the window (no matching traffic).''))"

text \<open>The answer and the command that was run, if any.\<close>

definition tcpdump_capture :: "(string list \<Rightarrow> process) \<Rightarrow> string \<Rightarrow> string \<Rightarrow> int \<Rightarrow> int \<Rightarrow> string \<times> string list option" where
  "tcpdump_capture start bpf iface count timeout =
     (let count = clamp_to 1 500 count; timeout = clamp_to 1 60 timeout; bad = option_like (py_words bpf @ [iface]) in
      if py_strip bpf = [] then
        (''Refused: provide a BPF filter (e.g. '' @ quoted ''host X and port Y'' @ '') '' @ u_dash @ '' don'' @ [sq] @ ''t capture everything.'', None)
      else if bad \<noteq> [] then
        (''Refused: '' @ py_repr bad @ '' is a tcpdump option, not filter syntax. A BPF filter '' @
         ''is made of expressions like '' @ quoted ''host 10.0.0.1 and port 8002'' @ ''.'', None)
      else
        (let args = tcpdump_args iface count bpf in
         (tcpdump_answer bpf count timeout (run_process start (nat timeout) args), Some args)))"

section \<open>Certificates\<close>

definition TLS_IS_NOT_REACHABILITY :: string where
  "TLS_IS_NOT_REACHABILITY = nl @ ''  Reading this chain required a TCP connection and a TLS handshake, so the '' @
     ''listener is up and answering. A plain HTTP probe against the same port reports '' @
     ''a rejected handshake as '' @ quoted ''cannot connect'' @ '', which is the same text an unreachable '' @
     ''host produces '' @ u_dash @ '' the two are separable only by whether a certificate came back. '' @
     ''Validity windows above are compared against this container'' @ [sq] @ ''s own clock; '' @
     ''check_clock_skew separates a genuinely expired certificate from a local clock '' @ ''that is wrong.''"

text \<open>\<open>timedelta.days\<close>.\<close>

definition days :: "int \<Rightarrow> int" where "days t = t div 86400"

definition validity_line :: "probe_world \<Rightarrow> certificate \<Rightarrow> int \<Rightarrow> string" where
  "validity_line w c now =
     (if now > ce_end c then ''  EXPIRED '' @ show_int (days (now - ce_end c)) @ '' day(s) ago '' @
        ''(container clock now: '' @ pw_minute w now @ '' UTC)''
      else if now < ce_start c then ''  NOT YET VALID '' @ u_dash @ '' starts in '' @ show_int (days (ce_start c - now)) @ '' day(s) '' @
        ''(container clock now: '' @ pw_minute w now @ '' UTC)''
      else ''  in window, '' @ show_int (days (ce_end c - now)) @ '' day(s) of validity left'')"

definition cert_lines :: "probe_world \<Rightarrow> certificate \<Rightarrow> int \<Rightarrow> string list" where
  "cert_lines w c now =
     [''  subject:   '' @ ce_subject c,
      ''  issuer:    '' @ ce_issuer c @ (if ce_subject c = ce_issuer c then ''   (self-signed: subject == issuer)'' else []),
      ''  valid:     '' @ pw_minute w (ce_start c) @ '' UTC  ->  '' @ pw_minute w (ce_end c) @ '' UTC'',
      validity_line w c now,
      (case ce_names c of
         None \<Rightarrow> ''  SANs:      (no SubjectAlternativeName extension)''
       | Some names \<Rightarrow> ''  SANs:      '' @ (if names \<noteq> [] then py_join '', '' names else ''(none)''))]"

definition check_tls_cert :: "probe_world \<Rightarrow> int \<Rightarrow> string \<Rightarrow> int \<Rightarrow> string net" where
  "check_tls_cert w now host port =
     (let port = clamp_to 1 65535 port; head = ''TLS certificate for '' @ host @ '':'' @ show_int port in
      if py_strip host = [] then returnS ''Provide a host to check.''
      else
        bindS (vetted w (py_strip host)) (\<lambda>(refused, ips). case refused of
          Some r \<Rightarrow> returnS (head @ '': [REFUSED] '' @ r)
        | None \<Rightarrow>
            bindS (connect_to (Tls_to (hd ips) port)) (\<lambda>_.
            case pw_tls w host (hd ips) port of
              No_certificate e \<Rightarrow> returnS (head @ nl @ ''  no certificate could be read: '' @ e @ nl @
                ''  Nothing came back from the handshake, so this alone does not separate '' @
                ''an unreachable host from a closed port or a listener speaking something '' @ ''other than TLS here.'')
            | Certificate c version \<Rightarrow>
                bindS (connect_to (Tls_to (hd ips) port)) (\<lambda>_.
                let reason = pw_trust w host (hd ips) port in
                returnS (py_join nl ([head, ''  handshake: '' @ version] @ cert_lines w c now @
                  [''  trust-store validation: '' @ (if reason = [] then ''PASSED'' else ''FAILED '' @ u_dash @ '' '' @ reason)]) @
                  TLS_IS_NOT_REACHABILITY)))))"

section \<open>Clocks\<close>

definition SKEW_BREAKS_AUTH :: string where
  "SKEW_BREAKS_AUTH = nl @ ''  Certificate and token validity windows (JWT iat/exp, Kerberos tickets, '' @
     ''signed URLs) are each evaluated against the clock of the host doing the '' @
     ''checking, so an offset larger than a token'' @ [sq] @ ''s lifetime rejects credentials that '' @
     ''are themselves valid. Those rejections arrive as 401/403, not as a time error. '' @
     ''Skew also reorders log lines collected from different hosts, so a merged '' @
     ''timeline can place an effect before its cause.''"

definition skew_line :: "string \<Rightarrow> rat \<Rightarrow> rat \<Rightarrow> int \<Rightarrow> int \<Rightarrow> string" where
  "skew_line label remote here noise max_ok =
     (let offset = remote - here in
      ''  ['' @ (if \<bar>offset\<bar> \<le> of_int max_ok then ''OK'' else ''SKEWED'') @ ''] '' @ label @ '': '' @
      (if \<bar>offset\<bar> \<le> of_int noise then ''within +/-'' @ show_int noise @ ''s measurement noise''
       else signed_fixed 1 offset @ ''s relative to this container''))"

text \<open>What reading the API's clock gave: a failed request, or the status and the \<open>Date\<close> header.\<close>

datatype api_clock_answer = Api_failed string string | Api_date nat string

record clock_world =
  cw_api_url :: string
  cw_api :: api_clock_answer
  cw_parse_date :: "string \<Rightarrow> rat option"
  cw_parse_float :: "string \<Rightarrow> rat option"
  cw_before :: rat
  cw_later :: rat

definition midway :: "clock_world \<Rightarrow> rat" where "midway cw = (cw_before cw + cw_later cw) / 2"

definition api_clock :: "clock_world \<Rightarrow> int \<Rightarrow> exn + string" where
  "api_clock cw max_ok =
     (let s = rstrip_slash (cw_api_url cw) @ ''/health'' in
      case cw_api cw of
        Api_failed kind m \<Rightarrow> Inr (''  [UNKNOWN] aistudio API ('' @ s @ ''): '' @ kind @ '': '' @ m)
      | Api_date status raw \<Rightarrow>
          if raw = [] then Inr (''  [UNKNOWN] aistudio API: answered '' @ show_nat status @ '' with no Date header'')
          else (case cw_parse_date cw raw of
              None \<Rightarrow> Inr (''  [UNKNOWN] aistudio API: unparseable Date header '' @ py_repr raw)
            | Some server \<Rightarrow>
                bindE (urlparse s) (\<lambda>u.
                Inr (skew_line (''aistudio API ('' @ hostname u @ '')'') server (midway cw) 2 max_ok))))"

definition node_clock_line :: "clock_world \<Rightarrow> string \<Rightarrow> int \<Rightarrow> bool \<times> string \<Rightarrow> string" where
  "node_clock_line cw node_ip max_ok r = (case r of (ok, out) \<Rightarrow>
     if \<not> ok then
       ''  [UNKNOWN] node '' @ node_ip @ '': clock not read '' @ u_dash @ '' '' @
         (if out \<noteq> [] then hd (py_splitlines out) else ''no output'')
     else
       (case (case py_words (py_strip out) of [] \<Rightarrow> None | x # _ \<Rightarrow> cw_parse_float cw x) of
          None \<Rightarrow> ''  [UNKNOWN] node '' @ node_ip @ '': unexpected date output '' @ py_repr (take 60 (py_strip out))
        | Some remote \<Rightarrow> skew_line (''node '' @ node_ip) remote (midway cw) 1 max_ok))"

definition node_clock :: "ssh_settings \<Rightarrow> node_world \<Rightarrow> clock_world \<Rightarrow> string \<Rightarrow> int \<Rightarrow> (exn + string) ssh" where
  "node_clock cfg w cw node_ip max_ok =
     bindS (run_ssh_command cfg w node_ip ''date -u +%s'' (resolve_node_user cfg)) (\<lambda>r.
     returnS (node_clock_line cw node_ip max_ok r))"

definition clock_lines :: "(exn + string) list \<Rightarrow> string list" where
  "clock_lines rs = map (\<lambda>r. case r of Inr l \<Rightarrow> l | Inl e \<Rightarrow> ''  [error] '' @ exc_str e) rs"

fun node_clocks :: "ssh_settings \<Rightarrow> node_world \<Rightarrow> clock_world \<Rightarrow> int \<Rightarrow> string list \<Rightarrow> ssh_state \<Rightarrow> (exn + string) list \<times> ssh_state" where
  "node_clocks cfg w cw max_ok [] s = ([], s)"
| "node_clocks cfg w cw max_ok (a # as) s =
     (case node_clock cfg w cw a max_ok s of (r, s') \<Rightarrow>
      case node_clocks cfg w cw max_ok as s' of (rs, s'') \<Rightarrow> (r # rs, s''))"

definition MAX_CLOCK_NODES :: nat where "MAX_CLOCK_NODES = 20"

text \<open>\<open>now\<close> is the text of the container's clock.\<close>

definition check_clock_skew ::
  "ssh_settings \<Rightarrow> node_world \<Rightarrow> clock_world \<Rightarrow> string \<Rightarrow> string \<Rightarrow> int \<Rightarrow> ssh_state \<Rightarrow> string \<times> ssh_state" where
  "check_clock_skew cfg w cw now node_ips max_ok_seconds s =
     (let max_ok = max 1 max_ok_seconds; ips = comma_list node_ips; kept = take MAX_CLOCK_NODES ips;
          dropped = drop MAX_CLOCK_NODES ips in
      case node_clocks cfg w cw max_ok kept s of (rs, s') \<Rightarrow>
        (''Clock comparison (reference = this container: '' @ now @ '' UTC, flagging offsets over '' @ show_int max_ok @ ''s)'' @ nl @
         py_join nl (clock_lines (api_clock cw max_ok # rs)) @
         (if kept = [] then nl @ ''  No node addresses were supplied, so only the API clock was compared.'' else []) @
         (if dropped \<noteq> [] then nl @ ''  Only the first '' @ show_nat MAX_CLOCK_NODES @ '' nodes were checked; '' @
           show_nat (length dropped) @ '' more were not.'' else []) @ SKEW_BREAKS_AUTH, s'))"

section \<open>What is contacted\<close>

text \<open>A contact with the first of the addresses that a lookup gave and the vet passed.\<close>

definition vetted_contact :: "probe_world \<Rightarrow> net_contact \<Rightarrow> bool" where
  "vetted_contact w c =
     (\<exists>n host ips. vetted_by (pw_net w) n host ips \<and>
       (case c of Tcp_to a _ \<Rightarrow> a = hd ips | Ping_to a \<Rightarrow> a = hd ips | Tls_to a _ \<Rightarrow> a = hd ips
        | Http_to a rq \<Rightarrow> a = hd ips \<and> (\<exists>s. pinned s a = Inr rq)))"

definition vetted_step :: "probe_world \<Rightarrow> net_state \<Rightarrow> net_state \<Rightarrow> bool" where
  "vetted_step w s s' = (\<exists>cs. ns_contacts s' = ns_contacts s @ cs \<and> list_all (vetted_contact w) cs)"

lemma vetted_step_trans: "vetted_step w s t \<Longrightarrow> vetted_step w t u \<Longrightarrow> vetted_step w s u"
proof -
  assume "vetted_step w s t" "vetted_step w t u"
  then obtain cs ds where "ns_contacts t = ns_contacts s @ cs" "ns_contacts u = ns_contacts t @ ds"
      "list_all (vetted_contact w) (cs @ ds)"
    unfolding vetted_step_def list_all_append by blast
  then show ?thesis unfolding vetted_step_def by (intro exI [of _ "cs @ ds"]) simp
qed

interpretation net: state_steps "vetted_step w" for w
  by unfold_locales (auto simp: vetted_step_def intro: vetted_step_trans [unfolded vetted_step_def])

lemma net_lookups: "net.keeps w (lookups k f)"
  by (simp add: net.keeps_def lookups_def vetted_step_def)

lemma net_contact: "vetted_contact w c \<Longrightarrow> net.keeps w (connect_to c)"
  by (simp add: net.keeps_def connect_to_def vetted_step_def)

lemma lookups_result: "lookups k f s = (Inr a, s') \<Longrightarrow> f (ns_lookups s) = Inr a"
  by (simp add: lookups_def)

lemma vetted_result:
  assumes "vetted w host s = (Inr (None, ips), s')"
  shows "\<exists>n host. vetted_by (pw_net w) n host ips"
  using vet_passes lookups_result [OF assms [unfolded vetted_def]] by blast

lemma net_tcp: "net.keeps w (tcp w host port t)"
  unfolding tcp_def vetted_def Let_def
  by (intro net.steps_rules net_lookups net_contact)
    (auto simp: vetted_contact_def dest!: lookups_result vet_passes)

lemma net_ping: "net.keeps w (ping w host)"
  unfolding ping_def vetted_def Let_def
  by (intro net.steps_rules net_lookups net_contact)
    (auto simp: vetted_contact_def dest!: lookups_result vet_passes)

lemma net_http: "net.keeps w (http w s t)"
  unfolding http_def
  by (intro net.steps_rules net_lookups net_contact)
    (fastforce simp: vetted_contact_def dest!: lookups_result vet_url_passes)

lemma net_tls_case: "(\<And>c v. net.keeps w (f c v)) \<Longrightarrow> (\<And>e. net.keeps w (g e)) \<Longrightarrow>
    net.keeps w (case r of Certificate c v \<Rightarrow> f c v | No_certificate e \<Rightarrow> g e)"
  by (cases r) auto

lemma net_tls: "net.keeps w (check_tls_cert w now host port)"
  unfolding check_tls_cert_def vetted_def Let_def
  by (intro net.steps_rules net_tls_case net_lookups net_contact)
    (auto simp: vetted_contact_def dest!: lookups_result vet_passes)

lemma net_dns: "net.keeps w (dns w host)"
  unfolding dns_def by (rule net_lookups)

lemma net_gather: "list_all (net.keeps w) rest \<Longrightarrow> net.keeps w (gather rest)"
proof (induction rest)
  case (Cons m rest)
  have "snd (line_of m s) = snd (m s)" for s by (auto simp: line_of_def split: prod.split sum.split)
  then have "net.keeps w (line_of m)" using Cons.prems by (simp add: net.keeps_def)
  then show ?case using Cons by (auto intro!: net.steps_rules)
qed (simp add: net.steps_return)

lemma net_network_check: "net.keeps w (network_check w host port s t)"
proof -
  have "list_all (net.keeps w) ((if h \<noteq> [] then [dns w h] else []) @ (if h \<noteq> [] \<and> port \<noteq> 0 then [tcp w h port t] else []) @
      (if s \<noteq> [] then [http w s t] else []) @ (if h \<noteq> [] then [ping w h] else []))" for h t
    using net_dns net_tcp net_http net_ping by simp
  then show ?thesis unfolding network_check_def Let_def
    by (intro net.steps_rules net_lookups net_gather)
qed

text \<open>C24: a reachability check or a certificate check only ever connects to the first of the addresses a
name lookup just gave, after all of them were found not to be loopback, link-local, unspecified,
multicast, a metadata service or the Docker API, also in their IPv4-mapped form, and whatever the
resolver answers later; a web request is sent to that address with its own host name.\<close>

theorem probes_contact_vetted:
  assumes "tool = network_check w host port s timeout \<or> tool = check_tls_cert w now host port"
    and "c \<in> set (ns_contacts (snd (tool st)))" and "c \<notin> set (ns_contacts st)"
  shows "\<exists>n name ips. vetted_by (pw_net w) n name ips \<and>
    (case c of Tcp_to a _ \<Rightarrow> a = hd ips | Ping_to a \<Rightarrow> a = hd ips | Tls_to a _ \<Rightarrow> a = hd ips
     | Http_to a rq \<Rightarrow> a = hd ips \<and> (\<exists>s. pinned s a = Inr rq))"
proof -
  have "net.keeps w tool" using assms(1) net_network_check net_tls by auto
  then have "vetted_step w st (snd (tool st))" by (rule net.stepsD)
  then have "vetted_contact w c" using assms(2,3) by (auto simp: vetted_step_def list_all_iff)
  then show ?thesis by (simp add: vetted_contact_def)
qed

definition changing_resolver :: "nat \<Rightarrow> string \<Rightarrow> string + string list" where
  "changing_resolver n host = Inr [if n < 3 then ''10.0.0.7'' else ''127.0.0.1'']"

definition small_net :: probe_world where
  "small_net = \<lparr>pw_net = \<lparr>nw_resolve = changing_resolver, nw_docker_host = ''unix:///var/run/docker.sock''\<rparr>,
     pw_tcp = (\<lambda>_ _. Reached 1), pw_http = (\<lambda>_. Http_timeout), pw_run = (\<lambda>_. Not_installed),
     pw_tls = (\<lambda>_ _ _. No_certificate []), pw_trust = (\<lambda>_ _ _. []), pw_minute = show_int, pw_timeout = 5\<rparr>"

definition no_contacts :: net_state where "no_contacts = \<lparr>ns_lookups = 0, ns_contacts = []\<rparr>"

lemma probes_contact_vetted_witness:
  "Tcp_to ''10.0.0.7'' 80 \<in> set (ns_contacts (snd (network_check small_net ''h'' 80 [] 0 no_contacts))) \<and>
   (\<exists>n name ips. vetted_by (pw_net small_net) n name ips \<and> ''10.0.0.7'' = hd ips)"
proof -
  have "vet (pw_net small_net) 1 ''h'' = Inr (None, [''10.0.0.7''])" by code_simp
  then have mem: "Tcp_to ''10.0.0.7'' 80 \<in> set (ns_contacts (snd (network_check small_net ''h'' 80 [] 0 no_contacts)))"
    by (simp add: network_check_def bindS_def returnS_def lookups_def dns_def tcp_def vetted_def connect_to_def line_of_def
        no_contacts_def Let_def split: prod.split sum.split option.split)
      (auto simp: ping_def vetted_def lookups_def bindS_def returnS_def connect_to_def run_process_def Let_def
        split: prod.split sum.split option.split)
  have "\<exists>n name ips. vetted_by (pw_net small_net) n name ips \<and>
      (case Tcp_to ''10.0.0.7'' 80 of Tcp_to a _ \<Rightarrow> a = hd ips | Ping_to a \<Rightarrow> a = hd ips | Tls_to a _ \<Rightarrow> a = hd ips
       | Http_to a rq \<Rightarrow> a = hd ips \<and> (\<exists>s. pinned s a = Inr rq))"
    by (rule probes_contact_vetted [where tool = "network_check small_net ''h'' 80 [] 0" and st = no_contacts])
      (use mem in \<open>auto simp: no_contacts_def\<close>)
  then show ?thesis using mem by simp
qed

text \<open>the packet capture's command is fixed but for the interface and the words of the filter, and
none of those reads as an option of tcpdump.\<close>

theorem capture_takes_no_options:
  assumes "snd (tcpdump_capture start bpf iface count timeout) = Some args"
  shows "\<exists>n. args = [''tcpdump'', ''-l'', ''-q'', ''-s'', ''96'', ''-i'', iface, ''-c'', show_int n, ''-nn'', ''-tttt''] @ py_words bpf \<and>
    1 \<le> n \<and> n \<le> 500 \<and> list_all (\<lambda>word. \<not> starts_with ''-'' word) (iface # py_words bpf)"
proof -
  have none: "list_all (\<lambda>v. \<not> starts_with ''-'' v) vs" if "option_like vs = []" for vs
  proof (cases "find (starts_with ''-'') vs")
    case None
    then show ?thesis by (auto simp: list_all_iff find_None_iff)
  next
    case (Some v)
    then have "starts_with ''-'' v" using find_SomeD by metis
    then show ?thesis using that Some by (auto simp: option_like_def starts_with_def)
  qed
  have "args = tcpdump_args iface (clamp_to 1 500 count) bpf" "option_like (py_words bpf @ [iface]) = []"
    using assms by (auto simp: tcpdump_capture_def Let_def split: if_splits)
  then show ?thesis using none [of "py_words bpf @ [iface]"]
    by (intro exI [of _ "clamp_to 1 500 count"]) (simp add: tcpdump_args_def clamp_to_def)
qed

lemma capture_takes_no_options_witness:
  "\<exists>n. tcpdump_args ''any'' 7 ''port 80'' =
     [''tcpdump'', ''-l'', ''-q'', ''-s'', ''96'', ''-i'', ''any'', ''-c'', show_int n, ''-nn'', ''-tttt''] @ py_words ''port 80''"
proof -
  have "snd (tcpdump_capture (\<lambda>_. Not_installed) ''port 80'' ''any'' 7 15) = Some (tcpdump_args ''any'' 7 ''port 80'')"
    by code_simp
  from capture_takes_no_options [OF this] show ?thesis by auto
qed

end
