(* ===== verification/Browser_Probe.thy ===== *)
theory Browser_Probe
  imports Net_Guard
begin

text \<open>
  \<open>mcp-server/app/tools/browser_probes.py\<close>: the page check. The browser is Playwright's: a visit is
  the list of what it reports, in order, where a routed request carries what fetching it gave. The
  guard vets every request and every redirect before the browser sees the answer. A handler that
  raises leaves its request unanswered.
\<close>

section \<open>Joining URLs\<close>

text \<open>\<open>urljoin\<close> for a base of scheme http or https, which the vet has established before.\<close>

definition path_segments :: "string \<Rightarrow> string \<Rightarrow> string list" where
  "path_segments base_path path =
     (if starts_with ''/'' path then split_char (CHR ''/'') path
      else
        (let base = split_char (CHR ''/'') base_path;
             parts = (if last base \<noteq> [] then butlast base else base) @ split_char (CHR ''/'') path in
         if length parts \<le> 2 then parts
         else hd parts # filter (\<lambda>s. s \<noteq> []) (butlast (tl parts)) @ [last parts]))"

definition resolve_segment :: "string list \<Rightarrow> string \<Rightarrow> string list" where
  "resolve_segment done seg = (if seg = ''..'' then butlast done else if seg = ''.'' then done else done @ [seg])"

definition resolve_path :: "string list \<Rightarrow> string" where
  "resolve_path segments =
     (let parts = foldl resolve_segment [] segments @ (if last segments \<in> {''.'', ''..''} then [[]] else []);
          path = py_join ''/'' parts in
      if path = [] then ''/'' else path)"

definition urljoin :: "string \<Rightarrow> string \<Rightarrow> exn + string" where
  "urljoin base s =
     (if base = [] then Inr s
      else if s = [] then Inr base
      else
        bindE (urlparse base) (\<lambda>b.
        bindE (urlparse s) (\<lambda>u.
        let scheme = (if u_scheme u = [] then u_scheme b else u_scheme u);
            u = u\<lparr>u_scheme := scheme\<rparr>;
            (base_path, _) = split_params (u_path b); (path, params) = split_params (u_path u) in
        Inr (if scheme \<noteq> u_scheme b \<or> scheme \<notin> {''http'', ''https''} then s
          else if u_netloc u \<noteq> [] then geturl u
          else if u_path u = [] then
            geturl (u\<lparr>u_netloc := u_netloc b, u_path := u_path b,
              u_query := (if u_query u = [] then u_query b else u_query u)\<rparr>)
          else
            geturl (u\<lparr>u_netloc := u_netloc b, u_path := resolve_path (path_segments base_path path) @ params\<rparr>)))))"

section \<open>The report\<close>

definition MAX_ITEMS :: nat where "MAX_ITEMS = 10"

type_synonym console_line = "string \<times> string"
type_synonym failed_request = "string \<times> string \<times> string"

definition texts_of :: "string \<Rightarrow> console_line list \<Rightarrow> string list" where
  "texts_of lvl console = map snd (filter (\<lambda>(l, _). l = lvl) console)"

definition load_line :: "int option \<Rightarrow> string \<Rightarrow> string" where
  "load_line status page_title =
     (case status of
        None \<Rightarrow> ''  Load: [FAIL] no HTTP response '' @ u_dash @ '' the page itself did not load (DNS/refused/timeout).''
      | Some n \<Rightarrow>
          if n \<ge> 400 then ''  Load: [FAIL] the page returned HTTP '' @ show_int n @ ''.''
          else ''  Load: [OK] HTTP '' @ show_int n @ '' '' @ u_dash @ '' title: '' @ py_repr page_title)"

definition page_clean :: "int option \<Rightarrow> string list \<Rightarrow> failed_request list \<Rightarrow> (int \<times> string) list \<Rightarrow> bool" where
  "page_clean status errors failed http_errors =
     ((case status of None \<Rightarrow> False | Some n \<Rightarrow> n < 400) \<and> errors = [] \<and> failed = [] \<and> http_errors = [])"

definition summarize_page ::
  "string \<Rightarrow> int option \<Rightarrow> string \<Rightarrow> console_line list \<Rightarrow> failed_request list \<Rightarrow> (int \<times> string) list \<Rightarrow> string" where
  "summarize_page s status page_title console failed http_errors =
     (let errors = texts_of ''error'' console; warnings = texts_of ''warning'' console in
      py_join nl
       ([''Frontend check: '' @ s, load_line status page_title] @
        (if errors \<noteq> [] then (''  Console errors ('' @ show_nat (length errors) @ ''):'')
             # map (\<lambda>t. ''    [ERROR] '' @ take 300 t) (take MAX_ITEMS errors)
         else [''  Console errors: none'']) @
        (if warnings \<noteq> [] then [''  Console warnings: '' @ show_nat (length warnings) @ '' (first: '' @ take 200 (hd warnings) @ '')'']
         else []) @
        (if failed \<noteq> [] then (''  Failed network requests ('' @ show_nat (length failed) @ ''):'')
             # map (\<lambda>(m, u, why). ''    [FAIL] '' @ m @ '' '' @ u @ '' '' @ u_dash @ '' '' @ why) (take MAX_ITEMS failed)
         else []) @
        (if http_errors \<noteq> [] then (''  HTTP error responses ('' @ show_nat (length http_errors) @ ''):'')
             # map (\<lambda>(st, u). ''    ['' @ show_int st @ ''] '' @ u) (take MAX_ITEMS http_errors)
         else []) @
        [if page_clean status errors failed http_errors
         then ''  Verdict: page loaded cleanly '' @ u_dash @ '' no console errors or failed requests. '' @
           ''The problem is likely NOT in the frontend itself.''
         else ''  Verdict: frontend problems above '' @ u_dash @ '' start with the console errors and '' @
           ''failed API calls; a failed API call points back to the backend.'']))"

section \<open>The guard\<close>

text \<open>What fetching a routed request gave: a failure, or the status and the \<open>location\<close> header.\<close>

type_synonym fetched = "string + int \<times> string option"

datatype page_event =
    Console_line string string
  | Routed string string fetched
  | Request_failed string string string
  | Response int string

text \<open>\<open>fetched_urls\<close> are the URLs the guard let be fetched, \<open>released_hops\<close> the redirect targets handed to
the browser.\<close>

record visit =
  lookups_made :: nat
  console :: "console_line list"
  failed :: "failed_request list"
  http_errors :: "(int \<times> string) list"
  fetched_urls :: "string list"
  released_hops :: "string list"

definition guard_hop :: "net_world \<Rightarrow> string \<Rightarrow> string \<Rightarrow> string \<Rightarrow> visit \<Rightarrow> visit" where
  "guard_hop w m s loc v =
     (case urljoin s loc of
        Inl _ \<Rightarrow> v
      | Inr hop \<Rightarrow>
          (let v' = v\<lparr>lookups_made := lookups_made v + 2\<rparr> in
           case blocked_url w (lookups_made v) hop of
             Inl _ \<Rightarrow> v'
           | Inr (Some why) \<Rightarrow> v'\<lparr>failed := failed v @ [(m, s, ''refused redirect to '' @ hop @ '': '' @ why)]\<rparr>
           | Inr None \<Rightarrow> v'\<lparr>released_hops := released_hops v @ [hop]\<rparr>))"

definition route_guard :: "net_world \<Rightarrow> string \<Rightarrow> string \<Rightarrow> fetched \<Rightarrow> visit \<Rightarrow> visit" where
  "route_guard w m s fetched v =
     (let v' = v\<lparr>lookups_made := lookups_made v + 2\<rparr> in
      case blocked_url w (lookups_made v) s of
        Inl _ \<Rightarrow> v'
      | Inr (Some why) \<Rightarrow> v'\<lparr>failed := failed v @ [(m, s, ''refused: '' @ why)]\<rparr>
      | Inr None \<Rightarrow>
          (let v'' = v'\<lparr>fetched_urls := fetched_urls v @ [s]\<rparr> in
           case fetched of
             Inl e \<Rightarrow> v''\<lparr>failed := failed v @ [(m, s, ''fetch failed: '' @ e)]\<rparr>
           | Inr (status, loc) \<Rightarrow>
               if 300 \<le> status \<and> status < 400 \<and> (case loc of None \<Rightarrow> False | Some l \<Rightarrow> l \<noteq> [])
               then guard_hop w m s (the loc) v'' else v''))"

definition page_step :: "net_world \<Rightarrow> visit \<Rightarrow> page_event \<Rightarrow> visit" where
  "page_step w v e =
     (case e of
        Console_line l t \<Rightarrow> v\<lparr>console := console v @ [(l, t)]\<rparr>
      | Routed m s r \<Rightarrow> route_guard w m s r v
      | Request_failed m s why \<Rightarrow> v\<lparr>failed := failed v @ [(m, s, if why = [] then ''failed'' else why)]\<rparr>
      | Response st s \<Rightarrow> if st \<ge> 400 then v\<lparr>http_errors := http_errors v @ [(st, s)]\<rparr> else v)"

text \<open>A visit ends with an exception or with the page's status, if there was an answer, and its title.\<close>

record browser =
  cdp_url :: string
  page_events :: "page_event list"
  page_end :: "string + int option \<times> string"

definition start_visit :: visit where
  "start_visit = \<lparr>lookups_made = 2, console = [], failed = [], http_errors = [], fetched_urls = [], released_hops = []\<rparr>"

definition visit_page :: "net_world \<Rightarrow> browser \<Rightarrow> visit" where
  "visit_page w b = foldl (page_step w) start_visit (page_events b)"

text \<open>The answer and the visit, if the browser was driven.\<close>

definition frontend_check :: "net_world \<Rightarrow> browser \<Rightarrow> string \<Rightarrow> exn + string \<times> visit option" where
  "frontend_check w b s =
     (if cdp_url b = [] then
        Inr (''frontend_check unavailable: the browser sandbox is not configured '' @
          ''(BROWSER_CDP_URL is unset). Point it at a headless browser'' @ [sq] @ ''s CDP endpoint.'', None)
      else
        bindE (blocked_url w 0 s) (\<lambda>refused. case refused of
          Some why \<Rightarrow> Inr (''frontend_check: [REFUSED] '' @ s @ '': '' @ why, None)
        | None \<Rightarrow>
            (let v = visit_page w b in
             Inr (case page_end b of
                 Inl e \<Rightarrow> ''frontend_check: [FAIL] could not drive the browser for '' @ s @ '': '' @ e
               | Inr (status, page_title) \<Rightarrow> summarize_page s status page_title (console v) (failed v) (http_errors v), Some v))))"

section \<open>Only vetted addresses are shown to the browser\<close>

definition vetted_url :: "net_world \<Rightarrow> string \<Rightarrow> bool" where
  "vetted_url w s = (\<exists>u n ips. urlparse s = Inr u \<and> u_scheme u \<in> {''http'', ''https''} \<and> vetted_by w n (hostname u) ips)"

lemma blocked_url_passes: "blocked_url w n s = Inr None \<Longrightarrow> vetted_url w s"
  unfolding vetted_url_def blocked_url_def vet_url_def bindE_def
  by (auto split: sum.splits if_splits) (blast dest: vet_passes)+

definition vetted_visit :: "net_world \<Rightarrow> visit \<Rightarrow> bool" where
  "vetted_visit w v = (\<forall>u \<in> set (fetched_urls v) \<union> set (released_hops v). vetted_url w u)"

lemma guard_hop_vetted: "vetted_visit w v \<Longrightarrow> vetted_visit w (guard_hop w m s loc v)"
  by (auto simp: guard_hop_def vetted_visit_def Let_def dest: blocked_url_passes split: sum.split option.split)

lemma page_step_vetted: "vetted_visit w v \<Longrightarrow> vetted_visit w (page_step w v e)"
proof (cases e)
  case (Routed m s r)
  assume v: "vetted_visit w v"
  show ?thesis
  proof (cases "blocked_url w (lookups_made v) s = Inr None")
    case True
    let ?v = "v\<lparr>lookups_made := lookups_made v + 2, fetched_urls := fetched_urls v @ [s]\<rparr>"
    have "vetted_visit w ?v" using v blocked_url_passes [OF True] by (auto simp: vetted_visit_def)
    moreover have "vetted_visit w (?v\<lparr>failed := f\<rparr>)" for f using calculation by (simp add: vetted_visit_def)
    ultimately show ?thesis using True Routed
      by (auto simp: page_step_def route_guard_def Let_def guard_hop_vetted split: sum.split)
  next
    case False
    then show ?thesis using v Routed
      by (auto simp: page_step_def route_guard_def vetted_visit_def Let_def split: sum.split option.split)
  qed
qed (auto simp: page_step_def vetted_visit_def)

lemma visit_vetted: "vetted_visit w v \<Longrightarrow> vetted_visit w (foldl (page_step w) v es)"
  by (induction es arbitrary: v) (simp_all add: page_step_vetted)

text \<open>C37: every URL the guard lets the browser's network fetch, and every redirect target it hands on, is
an http or https URL whose host had just been looked up and vetted, whatever the page asks for and
wherever its servers redirect.\<close>

theorem browser_fetches_vetted:
  assumes "frontend_check w b s = Inr (report, Some v)"
    and "u \<in> set (fetched_urls v) \<union> set (released_hops v)"
  shows "\<exists>p n ips. urlparse u = Inr p \<and> u_scheme p \<in> {''http'', ''https''} \<and> vetted_by w n (hostname p) ips"
proof -
  have "v = visit_page w b"
    using assms(1) by (auto simp: frontend_check_def bindE_def Let_def split: if_splits sum.splits option.splits)
  moreover have "vetted_visit w start_visit" by (simp add: vetted_visit_def start_visit_def)
  ultimately have "vetted_visit w v" using visit_vetted by (simp add: visit_page_def)
  then show ?thesis using assms(2) unfolding vetted_visit_def vetted_url_def by blast
qed

definition rebinding_net :: net_world where
  "rebinding_net = \<lparr>nw_resolve = (\<lambda>n host. Inr [if host = ''app'' then ''10.0.0.7'' else ''169.254.169.254'']),
     nw_docker_host = ''unix:///var/run/docker.sock''\<rparr>"

definition redirecting_page :: browser where
  "redirecting_page = \<lparr>cdp_url = ''ws://browser'', page_events =
     [Routed ''GET'' ''http://app/'' (Inr (302, Some ''../b/./c?x=1'')), Routed ''GET'' ''http://app/b/c?x=1'' (Inr (302, Some ''//meta/x''))],
     page_end = Inr (Some 200, ''App'')\<rparr>"

lemma rebinding_net_always: "blocked_url rebinding_net n u = blocked_url rebinding_net 0 u"
proof -
  have "nw_resolve rebinding_net k = (\<lambda>host. Inr [if host = ''app'' then ''10.0.0.7'' else ''169.254.169.254''])" for k
    by (simp add: rebinding_net_def)
  then show ?thesis by (simp only: blocked_url_def vet_url_def vet_def addresses_def)
qed

lemma rebinding_net_checks:
  "blocked_url rebinding_net n ''http://app/'' = Inr None" "blocked_url rebinding_net n ''http://app/b/c?x=1'' = Inr None"
  by (subst rebinding_net_always, code_simp)+

lemma rebinding_net_refuses: "case blocked_url rebinding_net n ''http://meta/x'' of Inr (Some _) \<Rightarrow> True | _ \<Rightarrow> False"
  by (subst rebinding_net_always) code_simp

lemma joined_urls:
  "urljoin ''http://app/'' ''../b/./c?x=1'' = Inr ''http://app/b/c?x=1''" "urljoin ''http://app/b/c?x=1'' ''//meta/x'' = Inr ''http://meta/x''"
  by code_simp+

lemma redirecting_visit:
  "fetched_urls (visit_page rebinding_net redirecting_page) = [''http://app/'', ''http://app/b/c?x=1''] \<and>
   released_hops (visit_page rebinding_net redirecting_page) = [''http://app/b/c?x=1''] \<and>
   failed (visit_page rebinding_net redirecting_page) \<noteq> []"
  using rebinding_net_checks joined_urls rebinding_net_refuses [of 8]
  by (simp add: visit_page_def redirecting_page_def start_visit_def page_step_def route_guard_def guard_hop_def Let_def
      split: sum.splits option.splits)

lemma browser_fetches_vetted_witness:
  "\<exists>p n ips. urlparse ''http://app/b/c?x=1'' = Inr p \<and> vetted_by rebinding_net n (hostname p) ips"
proof -
  have "blocked_url rebinding_net 0 ''http://app/'' = Inr None" by (rule rebinding_net_checks)
  moreover have "cdp_url redirecting_page \<noteq> []" by (simp add: redirecting_page_def)
  ultimately obtain report where
    "frontend_check rebinding_net redirecting_page ''http://app/'' = Inr (report, Some (visit_page rebinding_net redirecting_page))"
    by (auto simp: frontend_check_def bindE_def Let_def)
  from browser_fetches_vetted [OF this, of "''http://app/b/c?x=1''"] show ?thesis
    using redirecting_visit by auto
qed

text \<open>A page that asked for something the guard refused is never reported as clean.\<close>

lemma failed_not_forgotten: "failed v \<noteq> [] \<Longrightarrow> failed (foldl (page_step w) v es) \<noteq> []"
proof (induction es arbitrary: v)
  case (Cons e es)
  have "failed (page_step w v e) \<noteq> []" using Cons.prems
    by (auto simp: page_step_def route_guard_def guard_hop_def Let_def split: page_event.split sum.split option.split)
  then show ?case using Cons.IH by simp
qed simp

theorem refused_request_reported:
  assumes "blocked_url w (lookups_made (foldl (page_step w) start_visit es)) u = Inr (Some why)"
    and "page_events b = es @ Routed m u r # rest"
  shows "\<not> page_clean status errors (failed (visit_page w b)) http"
proof -
  let ?v = "page_step w (foldl (page_step w) start_visit es) (Routed m u r)"
  have "failed ?v \<noteq> []" using assms(1) by (simp add: page_step_def route_guard_def Let_def)
  then show ?thesis using failed_not_forgotten [of ?v w rest] assms(2) by (simp add: visit_page_def page_clean_def)
qed

end
