(* ===== verification/Mcp_Config.thy ===== *)
theory Mcp_Config
  imports Net_Probes Docker_Probes Browser_Probe Task_Tools Bridge
begin

text \<open>
  \<open>mcp-server/app/config.py\<close>: the settings of the MCP server with their defaults, the parts of them the
  components take, and what the defaults mean together. Reading the environment and the secrets
  directory is pydantic's.
\<close>

record server_settings =
  aistudio_api_url :: string
  mcp_jwks_url :: string
  mcp_jwks_file :: string
  mcp_jwt_issuer :: string
  mcp_jwt_audience :: string
  mcp_jwt_leeway_seconds :: int
  mcp_jwt_max_lifetime_seconds :: int
  mcp_writes_enabled :: bool
  mcp_write_dedup_seconds :: int
  ssh_key_path :: string
  ssh_default_user :: string
  ssh_connect_timeout :: int
  node_ssh_user :: string
  ssh_known_hosts :: string
  ssh_host_key_policy :: string
  node_allowed_cidrs :: string
  docker_host :: string
  repo_path :: string
  file_roots :: string
  container_readable_roots :: string
  net_probe_timeout :: int
  browser_cdp_url :: string
  rabbitmq_mgmt_url :: string
  rabbitmq_user :: string
  rabbitmq_password :: string
  mcp_host :: string
  mcp_port :: int
  mcp_tls_certfile :: string
  mcp_tls_keyfile :: string
  mcp_allowed_hosts :: string

definition default_server_settings :: server_settings where
  "default_server_settings = \<lparr>
     aistudio_api_url = ''http://localhost:8002'',
     mcp_jwks_url = [], mcp_jwks_file = [], mcp_jwt_issuer = ''aistudio'', mcp_jwt_audience = ''mcp:aistudio'',
     mcp_jwt_leeway_seconds = 30, mcp_jwt_max_lifetime_seconds = 86400,
     mcp_writes_enabled = False, mcp_write_dedup_seconds = 60,
     ssh_key_path = ''/root/.ssh/id_rsa'', ssh_default_user = ''ubuntu'', ssh_connect_timeout = 10, node_ssh_user = [],
     ssh_known_hosts = ''~/.ssh/aistudio_mcp_known_hosts'', ssh_host_key_policy = ''tofu'', node_allowed_cidrs = [],
     docker_host = ''unix:///var/run/docker.sock'',
     repo_path = ''/repo'', file_roots = ''/repo,/var/log'', container_readable_roots = ''/app,/repo,/AIStudio/app,/AIStudio/alembic'',
     net_probe_timeout = 5, browser_cdp_url = [],
     rabbitmq_mgmt_url = ''http://localhost:15672'', rabbitmq_user = [], rabbitmq_password = [],
     mcp_host = ''127.0.0.1'', mcp_port = 8081, mcp_tls_certfile = [], mcp_tls_keyfile = [], mcp_allowed_hosts = []\<rparr>"

section \<open>What the components take\<close>

definition ssh_settings_of :: "server_settings \<Rightarrow> ssh_settings" where
  "ssh_settings_of s = \<lparr>ss_default_user = ssh_default_user s, ss_node_user = node_ssh_user s,
     ss_known_hosts = ssh_known_hosts s, ss_policy = ssh_host_key_policy s, ss_cidrs = node_allowed_cidrs s\<rparr>"

definition fs_settings_of :: "server_settings \<Rightarrow> fs_settings" where
  "fs_settings_of s = \<lparr>fc_roots = file_roots s, fc_repo = repo_path s\<rparr>"

definition diff_settings_of :: "server_settings \<Rightarrow> diff_settings" where
  "diff_settings_of s = \<lparr>df_container_roots = container_readable_roots s, df_fs = fs_settings_of s\<rparr>"

definition bridge_settings_of :: "server_settings \<Rightarrow> mcp_settings" where
  "bridge_settings_of s = \<lparr>writes_enabled = mcp_writes_enabled s, dedup_seconds = mcp_write_dedup_seconds s\<rparr>"

section \<open>What the defaults mean\<close>

lemma no_networks_no_contact:
  assumes "allowed_cidrs cfg = []" and "tool \<in> node_tools cfg w a"
  shows "contacts (snd (tool s)) = contacts s"
proof -
  have "probe_step cfg a s (snd (tool s))" using node_tools_probe [OF assms(2)] by (simp add: probe.keeps_def)
  then obtain cs where cs: "contacts (snd (tool s)) = contacts s @ cs" "list_all (\<lambda>c. contact_ip c = a \<and> allowed_target cfg a) cs"
    unfolding probe_step_def by blast
  have "\<not> allowed_target cfg a" using assms(1) by (simp add: allowed_target_def)
  then have "cs = []" using cs(2) by (cases cs) auto
  then show ?thesis using cs(1) by simp
qed

text \<open>a server that is started with the default settings fails closed: no node tool makes a connection, no
write tool is registered and a call of one is refused, and the browser is not driven.\<close>

theorem defaults_fail_closed:
  assumes "tool \<in> node_tools (ssh_settings_of default_server_settings) w a" and "is_write t = Some True"
    and "cdp_url b = browser_cdp_url default_server_settings"
  shows "contacts (snd (tool s)) = contacts s \<and>
    t \<notin> set (built_tools (bridge_settings_of default_server_settings)) \<and>
    (\<exists>reason. check_write (writes_enabled (bridge_settings_of default_server_settings)) t = Inl reason) \<and>
    (\<exists>report. frontend_check net b u = Inr (report, None))"
proof -
  have "allowed_cidrs (ssh_settings_of default_server_settings) = []"
    by (simp add: allowed_cidrs_def ssh_settings_of_def default_server_settings_def py_strip_def)
  then have "contacts (snd (tool s)) = contacts s" using assms(1) by (rule no_networks_no_contact)
  moreover have "t \<notin> set (built_tools (bridge_settings_of default_server_settings))"
    using assms(2) by (simp add: built_tools_def bridge_settings_of_def default_server_settings_def)
  moreover have "\<exists>reason. check_write (writes_enabled (bridge_settings_of default_server_settings)) t = Inl reason"
    using assms(2) by (auto simp: check_write_def is_write_def bridge_settings_of_def default_server_settings_def split: option.splits)
  moreover have "\<exists>report. frontend_check net b u = Inr (report, None)"
    using assms(3) by (simp add: frontend_check_def default_server_settings_def)
  ultimately show ?thesis by blast
qed

lemma defaults_fail_closed_witness:
  "contacts (snd (check_ssh_connectivity (ssh_settings_of default_server_settings) lab_world ''10.0.0.7'' fresh_state)) = [] \<and>
   ''stop_jupyter'' \<notin> set (built_tools (bridge_settings_of default_server_settings))"
proof -
  let ?cfg = "ssh_settings_of default_server_settings"
  have t: "check_ssh_connectivity ?cfg lab_world ''10.0.0.7'' \<in> node_tools ?cfg lab_world ''10.0.0.7''" by (simp add: node_tools_def)
  have w: "is_write ''stop_jupyter'' = Some True" by code_simp
  have b: "cdp_url \<lparr>cdp_url = [], page_events = [], page_end = Inl []\<rparr> = browser_cdp_url default_server_settings"
    by (simp add: default_server_settings_def)
  from defaults_fail_closed [OF t w b] show ?thesis by (simp add: fresh_state_def)
qed

end
