(* ===== verification/Gateway_Certs.thy ===== *)
theory Gateway_Certs
  imports Net_Guard
begin

text \<open>
  \<open>gateway/mint.py\<close>: the local certificate authority and the gateway's TLS certificate. A key is a number,
  drawn from the state's counter; a certificate is its names, its end and the key that signed it, which
  is what the code reads back. The files are those under MCP_SECRETS_DIR; their contents are the
  program's own, so loading them does not fail. Times are seconds.
\<close>

datatype general_name = Dns_name string | Ip_name ip | Ip_net ip_network

text \<open>The CA's certificate: its public key and the permitted names, if it has constraints.\<close>

record ca_cert =
  ca_key :: nat
  ca_permitted :: "general_name list option"
  ca_subject :: string

record gateway_cert =
  gc_key :: nat
  gc_names :: "general_name list"
  gc_end :: int
  gc_signer :: nat

record cert_files =
  f_ca_key :: "nat option"
  f_ca_pem :: "ca_cert option"
  f_key_pem :: "nat option"
  f_cert_pem :: "gateway_cert option"
  next_key :: nat

record mint_settings =
  secrets_dir :: string
  tls_hosts :: string

datatype cli_error = System_exit string | Raised exn

definition CA_DAYS :: int where "CA_DAYS = 3650"
definition CERT_DAYS :: int where "CERT_DAYS = 365"
definition RENEW_DAYS :: int where "RENEW_DAYS = 30"

definition in_days :: "int \<Rightarrow> int" where "in_days d = d * 86400"

section \<open>Names\<close>

definition hosts_of :: "mint_settings \<Rightarrow> string list \<Rightarrow> string list" where
  "hosts_of st values =
     (let raw = (let s = py_join '' '' values in if s \<noteq> [] then s else tls_hosts st) in
      first_of_each (py_words (map (\<lambda>c. if c = CHR '','' then CHR '' '' else c) raw)))"

text \<open>A DNS name must be ASCII; an IP name is stored without its scope.\<close>

definition dns_name :: "string \<Rightarrow> cli_error + general_name" where
  "dns_name h = (if list_all (\<lambda>c. (of_char c :: nat) < 128) h then Inr (Dns_name h)
     else Inl (Raised (ValueError ''DNSName values should be passed as an A-label string. '')))"

fun unscoped :: "ip \<Rightarrow> ip" where
  "unscoped (V4 w) = V4 w"
| "unscoped (V6 w s) = V6 w None"

definition san :: "string \<Rightarrow> cli_error + general_name" where
  "san h = (case ip_address h of Some ip \<Rightarrow> Inr (Ip_name (unscoped ip)) | None \<Rightarrow> dns_name h)"

text \<open>\<open>str(n.value)\<close> of a name of the certificate.\<close>

fun name_text :: "general_name \<Rightarrow> string" where
  "name_text (Dns_name h) = h"
| "name_text (Ip_name ip) = show_ip ip"
| "name_text (Ip_net n) = []"

definition cert_hosts :: "gateway_cert \<Rightarrow> string list" where
  "cert_hosts c = map name_text (gc_names c)"

text \<open>The network of one address.\<close>

fun single_net :: "ip \<Rightarrow> ip_network" where
  "single_net (V4 w) = network4 w 32"
| "single_net (V6 w s) = network6 w 128"

definition subtree_of :: "string \<Rightarrow> cli_error + general_name" where
  "subtree_of h = (case ip_address h of Some ip \<Rightarrow> Inr (Ip_net (single_net ip)) | None \<Rightarrow> dns_name h)"

definition rstrip_dot :: "string \<Rightarrow> string" where
  "rstrip_dot s = rev (dropWhile (\<lambda>c. c = CHR ''.'') (rev s))"

definition ends_with :: "string \<Rightarrow> string \<Rightarrow> bool" where
  "ends_with p s = starts_with (rev p) (rev s)"

definition dns_within :: "string \<Rightarrow> string \<Rightarrow> bool" where
  "dns_within h d = (h = py_lower d \<or> ends_with (''.'' @ py_lower d) h)"

text \<open>The subtrees that cover a host.\<close>

fun ip_covers :: "ip \<Rightarrow> general_name \<Rightarrow> bool" where
  "ip_covers ip (Ip_net n) = in_network ip n"
| "ip_covers ip _ = False"

fun dns_covers :: "string \<Rightarrow> general_name \<Rightarrow> bool" where
  "dns_covers h (Dns_name d) = dns_within (rstrip_dot (py_lower h)) d"
| "dns_covers h _ = False"

definition covered :: "general_name list \<Rightarrow> string \<Rightarrow> bool" where
  "covered subtrees h =
     (case ip_address h of Some ip \<Rightarrow> list_ex (ip_covers ip) subtrees | None \<Rightarrow> list_ex (dns_covers h) subtrees)"

definition remake_text :: "mint_settings \<Rightarrow> string" where
  "remake_text st = '': delete '' @ secrets_dir st @ ''/ca.key and '' @ secrets_dir st @ ''/tls, '' @
     ''then make mcp-tls; clients must trust the new ca.pem''"

definition permits :: "mint_settings \<Rightarrow> ca_cert \<Rightarrow> string \<Rightarrow> cli_error + bool" where
  "permits st ca h = (case ca_permitted ca of
      None \<Rightarrow> Inl (System_exit (secrets_dir st @ ''/tls/ca.pem can sign any name'' @ remake_text st))
    | Some subtrees \<Rightarrow> Inr (covered subtrees h))"

section \<open>Issuing\<close>

definition bindR :: "'e + 'a \<Rightarrow> ('a \<Rightarrow> 'e + 'b) \<Rightarrow> 'e + 'b" where
  "bindR m f = (case m of Inl e \<Rightarrow> Inl e | Inr a \<Rightarrow> f a)"

fun mapR :: "('a \<Rightarrow> 'e + 'b) \<Rightarrow> 'a list \<Rightarrow> 'e + 'b list" where
  "mapR f [] = Inr []"
| "mapR f (x # xs) = bindR (f x) (\<lambda>y. bindR (mapR f xs) (\<lambda>ys. Inr (y # ys)))"

definition LOCAL_HOSTS :: "string list" where "LOCAL_HOSTS = [''localhost'', ''127.0.0.1'']"

text \<open>The CA on file, or a new one for \<open>hosts\<close>, which is not empty.\<close>

definition ca_for :: "string list \<Rightarrow> cert_files \<Rightarrow> cli_error + nat \<times> ca_cert \<times> cert_files" where
  "ca_for hosts f =
     (case (f_ca_key f, f_ca_pem f) of
        (Some k, Some ca) \<Rightarrow> Inr (k, ca, f)
      | _ \<Rightarrow>
          bindR (mapR subtree_of (first_of_each (hosts @ LOCAL_HOSTS))) (\<lambda>subtrees.
          let k = next_key f;
              ca = \<lparr>ca_key = k, ca_permitted = Some subtrees, ca_subject = ''AIStudio MCP CA ('' @ hd hosts @ '')''\<rparr> in
          Inr (k, ca, f\<lparr>f_ca_key := Some k, f_ca_pem := Some ca, next_key := k + 1\<rparr>)))"

text \<open>The certificate's signature is the CA's, and more than the renewal time is left.\<close>

definition still_fresh :: "int \<Rightarrow> ca_cert \<Rightarrow> gateway_cert \<Rightarrow> bool" where
  "still_fresh now ca c = (gc_end c - now > in_days RENEW_DAYS \<and> gc_signer c = ca_key ca)"

definition issue :: "int \<Rightarrow> nat \<Rightarrow> string list \<Rightarrow> cert_files \<Rightarrow> cli_error + bool \<times> cert_files" where
  "issue now signer hosts f =
     bindR (mapR san hosts) (\<lambda>names.
     let k = next_key f in
     Inr (True, f\<lparr>f_key_pem := Some k, next_key := k + 1,
       f_cert_pem := Some \<lparr>gc_key = k, gc_names = names, gc_end = now + in_days CERT_DAYS, gc_signer = signer\<rparr>\<rparr>))"

definition or_else :: "'a list \<Rightarrow> 'a list \<Rightarrow> 'a list" where
  "or_else xs ys = (if xs \<noteq> [] then xs else ys)"

text \<open>The result and the files; a new CA stays on file when the certificate is refused.\<close>

definition tls_with ::
  "mint_settings \<Rightarrow> int \<Rightarrow> string list \<Rightarrow> bool \<Rightarrow> gateway_cert option \<Rightarrow> nat \<Rightarrow> ca_cert \<Rightarrow> cert_files \<Rightarrow>
   cli_error + bool \<times> cert_files" where
  "tls_with st now hosts if_needed current signer ca f =
     (let have = (case current of None \<Rightarrow> [] | Some c \<Rightarrow> cert_hosts c) in
      bindR (mapR (permits st ca) hosts) (\<lambda>oks.
      let kept = map fst (filter snd (zip hosts oks)) in
      if hosts \<noteq> [] \<and> \<not> hd oks then
        Inl (System_exit (''the CA was not made for '' @ hd hosts @ remake_text st))
      else
        (case if if_needed then current else None of
           Some c \<Rightarrow>
             if still_fresh now ca c \<and> set kept \<subseteq> set have then Inr (False, f)
             else issue now signer (or_else (or_else (first_of_each (have @ kept)) have) LOCAL_HOSTS) f
         | None \<Rightarrow> issue now signer (or_else (or_else kept have) LOCAL_HOSTS) f)))"

definition tls :: "mint_settings \<Rightarrow> int \<Rightarrow> string list \<Rightarrow> bool \<Rightarrow> cert_files \<Rightarrow> (cli_error + bool) \<times> cert_files" where
  "tls st now hosts if_needed f =
     (let current = f_cert_pem f; have = (case current of None \<Rightarrow> [] | Some c \<Rightarrow> cert_hosts c) in
      case ca_for (or_else (or_else hosts have) LOCAL_HOSTS) f of
        Inl e \<Rightarrow> (Inl e, f)
      | Inr (signer, ca, f') \<Rightarrow>
          (case tls_with st now hosts if_needed current signer ca f' of
             Inl e \<Rightarrow> (Inl e, f')
           | Inr (issued, f'') \<Rightarrow> (Inr issued, f'')))"

section \<open>The command line\<close>

definition usage_text :: string where
  "usage_text = ''Usage (this text is the CLI help):'' @ nl @ nl @
     ''  python gateway/mint.py tls [--if-needed] [host ...]  # gateway TLS cert from the local CA (MCP_TLS_HOSTS)'' @ nl"

definition mint_main :: "mint_settings \<Rightarrow> (int \<Rightarrow> string) \<Rightarrow> int \<Rightarrow> string list \<Rightarrow> cert_files \<Rightarrow> (cli_error + string) \<times> cert_files" where
  "mint_main st fmt_day now argv f =
     (case argv of
        [] \<Rightarrow> (Inl (System_exit usage_text), f)
      | command # args \<Rightarrow>
          if command \<noteq> ''tls'' then (Inl (System_exit usage_text), f)
          else
            (case tls st now (hosts_of st (filter (\<lambda>a. a \<noteq> ''--if-needed'') args)) (''--if-needed'' \<in> set argv) f of
               (Inl e, f') \<Rightarrow> (Inl e, f')
             | (Inr issued, f') \<Rightarrow>
                 (case f_cert_pem f' of
                    None \<Rightarrow> (Inl (Raised (OSError ''tls/cert.pem'')), f')
                  | Some c \<Rightarrow> (Inr ((if issued then ''issued'' else ''current'') @ '': tls/cert.pem for '' @
                      py_join '', '' (cert_hosts c) @ '', expires '' @ fmt_day (gc_end c) @
                      ''; clients trust tls/ca.pem in MCP_SECRETS_DIR''), f'))))"

section \<open>Names and subtrees\<close>

fun name_covered :: "general_name list \<Rightarrow> general_name \<Rightarrow> bool" where
  "name_covered ss (Dns_name h) = list_ex (dns_covers h) ss"
| "name_covered ss (Ip_name ip) = list_ex (ip_covers ip) ss"
| "name_covered ss (Ip_net n) = False"

lemma ip_covers_unscoped [simp]: "ip_covers (unscoped ip) = ip_covers ip"
proof (rule ext)
  fix n
  show "ip_covers (unscoped ip) n = ip_covers ip n"
  proof (cases n)
    case (Ip_net m)
    then show ?thesis by (cases ip; cases m) auto
  qed auto
qed

lemma san_covered: "san h = Inr n \<Longrightarrow> name_covered ss n = covered ss h"
  by (auto simp: san_def covered_def dns_name_def split: option.splits if_splits)

lemma mapR_Inr: "mapR f xs = Inr ys \<Longrightarrow> list_all2 (\<lambda>x y. f x = Inr y) xs ys"
  by (induction xs arbitrary: ys) (auto simp: bindR_def split: sum.splits)

lemma mapR_member: "mapR f xs = Inr ys \<Longrightarrow> x \<in> set xs \<Longrightarrow> \<exists>y \<in> set ys. f x = Inr y"
  using mapR_Inr [of f xs ys] by (auto simp: list_all2_conv_all_nth in_set_conv_nth)

lemma mapR_image: "mapR f xs = Inr ys \<Longrightarrow> y \<in> set ys \<Longrightarrow> \<exists>x \<in> set xs. f x = Inr y"
  by (induction xs arbitrary: ys) (auto simp: bindR_def split: sum.splits)

lemma mapR_pure: "(\<And>x. x \<in> set xs \<Longrightarrow> f x = Inr (g x)) \<Longrightarrow> mapR f xs = Inr (map g xs)"
  by (induction xs) (auto simp: bindR_def)

lemma filter_zip_map: "map fst (filter snd (zip xs (map g xs))) = filter g xs"
  by (induction xs) auto

lemma set_first_of_each [simp]: "set (first_of_each xs) = set xs"
  by (simp add: first_of_each_def)

text \<open>A CA made for some hosts covers each of them that ends in no dot, and the local names.\<close>

lemma rstrip_dot_id: "h = [] \<or> last h \<noteq> CHR ''.'' \<Longrightarrow> rstrip_dot h = h"
  by (cases h rule: rev_cases) (auto simp: rstrip_dot_def)

lemma lower_dot: "lower_char c = CHR ''.'' \<Longrightarrow> c = CHR ''.''"
proof -
  assume l: "lower_char c = CHR ''.''"
  have "of_char (CHR ''.'') = (46 :: nat)" by code_simp
  then have "(of_char (lower_char c) :: nat) = 46" using l by simp
  then have "\<not> is_upper c" by (auto simp: lower_char_def is_upper_def Let_def)
  then show ?thesis using l by (simp add: lower_char_def)
qed

lemma netmask_full: "w AND netmask (LENGTH('a)) = (w :: 'a::len word)"
  by (simp add: netmask_def drop_bit_eq_div)

lemma in_single_net: "in_network ip (single_net ip)"
  using netmask_full [where 'a = 32] netmask_full [where 'a = 128]
  by (cases ip) (simp_all add: network4_def network6_def)

lemma subtree_covers:
  assumes "subtree_of h = Inr n" and "n \<in> set ss" and "h = [] \<or> last h \<noteq> CHR ''.''"
  shows "covered ss h"
proof (cases "ip_address h")
  case (Some ip)
  then show ?thesis using assms in_single_net [of ip] by (auto simp: subtree_of_def covered_def list_ex_iff intro!: bexI [of _ n])
next
  case None
  then have n: "n = Dns_name h" using assms(1) by (auto simp: subtree_of_def dns_name_def split: if_splits)
  have "rstrip_dot (py_lower h) = py_lower h"
    using assms(3) lower_dot by (intro rstrip_dot_id) (auto simp: py_lower_def last_map)
  then show ?thesis using None n assms(2) by (auto simp: covered_def list_ex_iff dns_within_def intro!: bexI [of _ n])
qed

section \<open>The files after a run\<close>

text \<open>The CA on file signs what its key signs and covers the local names; the certificate's key is on file.\<close>

definition ca_ok :: "nat \<Rightarrow> ca_cert \<Rightarrow> bool" where
  "ca_ok k ca = (ca_key ca = k \<and>
     (case ca_permitted ca of None \<Rightarrow> False | Some ss \<Rightarrow> list_all (covered ss) LOCAL_HOSTS))"

definition files_ok :: "cert_files \<Rightarrow> bool" where
  "files_ok f =
     ((case (f_ca_key f, f_ca_pem f) of (Some k, Some ca) \<Rightarrow> ca_ok k ca | _ \<Rightarrow> True) \<and>
      (case f_cert_pem f of None \<Rightarrow> True | Some c \<Rightarrow> f_key_pem f = Some (gc_key c)))"

lemma ca_for_ok:
  assumes "files_ok f" and "ca_for hosts f = Inr (k, ca, f')"
  shows "ca_ok k ca \<and> f_ca_key f' = Some k \<and> f_ca_pem f' = Some ca \<and> f_cert_pem f' = f_cert_pem f \<and> f_key_pem f' = f_key_pem f"
proof (cases "f_ca_key f = None \<or> f_ca_pem f = None")
  case False
  then show ?thesis using assms by (auto simp: ca_for_def files_ok_def)
next
  case True
  then have "ca_for hosts f = bindR (mapR subtree_of (first_of_each (hosts @ LOCAL_HOSTS))) (\<lambda>subtrees.
      let k = next_key f; ca = \<lparr>ca_key = k, ca_permitted = Some subtrees, ca_subject = ''AIStudio MCP CA ('' @ hd hosts @ '')''\<rparr> in
      Inr (k, ca, f\<lparr>f_ca_key := Some k, f_ca_pem := Some ca, next_key := k + 1\<rparr>))"
    by (cases "f_ca_key f"; cases "f_ca_pem f") (simp_all add: ca_for_def)
  then obtain ss where ss: "mapR subtree_of (first_of_each (hosts @ LOCAL_HOSTS)) = Inr ss"
    and ca: "ca_key ca = k" "ca_permitted ca = Some ss"
    and f': "f' = f\<lparr>f_ca_key := Some k, f_ca_pem := Some ca, next_key := k + 1\<rparr>"
    using assms(2) by (auto simp: bindR_def Let_def split: sum.splits)
  have "covered ss h" if "h \<in> set LOCAL_HOSTS" for h
  proof -
    have "h \<in> set (first_of_each (hosts @ LOCAL_HOSTS))" using that by simp
    then obtain n where "subtree_of h = Inr n" "n \<in> set ss" using mapR_member [OF ss] by blast
    moreover have "last h \<noteq> CHR ''.''" using that by (auto simp: LOCAL_HOSTS_def)
    ultimately show ?thesis using subtree_covers by blast
  qed
  then have "ca_ok k ca" using ca by (auto simp: ca_ok_def list_all_iff)
  then show ?thesis using f' by simp
qed

lemma issue_result:
  assumes "issue now signer hosts f = Inr (r, f')"
  shows "\<exists>c names. r \<and> mapR san hosts = Inr names \<and> c = \<lparr>gc_key = next_key f, gc_names = names, gc_end = now + in_days CERT_DAYS, gc_signer = signer\<rparr> \<and>
    f' = f\<lparr>f_key_pem := Some (gc_key c), f_cert_pem := Some c, next_key := next_key f + 1\<rparr>"
  using assms by (auto simp: issue_def bindR_def Let_def split: sum.splits)

definition held_names :: "gateway_cert option \<Rightarrow> string list" where
  "held_names current = (case current of None \<Rightarrow> [] | Some c \<Rightarrow> cert_hosts c)"

text \<open>What a run asks a certificate to name: the hosts the CA covers, and beyond them only names of the
old certificate or the local ones.\<close>

definition names_asked :: "general_name list \<Rightarrow> string list \<Rightarrow> gateway_cert option \<Rightarrow> string list \<Rightarrow> bool" where
  "names_asked ss hosts current hs =
     (set (filter (covered ss) hosts) \<subseteq> set hs \<and>
      (\<forall>h \<in> set hs. covered ss h \<or> h \<in> set (held_names current) \<or> h \<in> set LOCAL_HOSTS))"

lemma tls_with_result:
  assumes "tls_with st now hosts if_needed current signer ca f = Inr (r, f')" and "ca_permitted ca = Some ss"
  shows "(\<not> r \<and> f' = f \<and> if_needed \<and> (\<exists>c. current = Some c \<and> still_fresh now ca c \<and>
        set (filter (covered ss) hosts) \<subseteq> set (cert_hosts c))) \<or>
      (r \<and> (\<exists>hs. issue now signer hs f = Inr (r, f') \<and> names_asked ss hosts current hs))"
proof -
  let ?kept = "filter (covered ss) hosts"
  have oks: "mapR (permits st ca) hosts = Inr (map (covered ss) hosts)"
    using assms(2) by (intro mapR_pure) (simp add: permits_def)
  have issued: "r" if "issue now signer hs f = Inr (r, f')" for hs using issue_result [OF that] by blast
  have asked: "names_asked ss hosts current (or_else (or_else hs (held_names current)) LOCAL_HOSTS)"
    if "set ?kept \<subseteq> set hs" "set hs \<subseteq> set (held_names current) \<union> set ?kept" for hs
    using that by (auto simp: names_asked_def or_else_def)
  have run: "(case if if_needed then current else None of
        Some c \<Rightarrow> if still_fresh now ca c \<and> set ?kept \<subseteq> set (held_names current) then Inr (False, f)
          else issue now signer (or_else (or_else (first_of_each (held_names current @ ?kept)) (held_names current)) LOCAL_HOSTS) f
      | None \<Rightarrow> issue now signer (or_else (or_else ?kept (held_names current)) LOCAL_HOSTS) f) = Inr (r, f')"
    using assms(1) unfolding tls_with_def Let_def held_names_def [symmetric] oks bindR_def sum.case filter_zip_map
    by (metis (no_types, lifting) Inl_not_Inr)
  show ?thesis
  proof (cases "if if_needed then current else None")
    case None
    then show ?thesis using run issued asked [of ?kept] by auto
  next
    case (Some c)
    then have c: "if_needed" "current = Some c" by (auto split: if_splits)
    show ?thesis
    proof (cases "still_fresh now ca c \<and> set ?kept \<subseteq> set (held_names current)")
      case True
      then show ?thesis using run Some c by (auto simp: held_names_def)
    next
      case False
      then have "issue now signer (or_else (or_else (first_of_each (held_names current @ ?kept)) (held_names current)) LOCAL_HOSTS) f = Inr (r, f')"
        using run by (simp only: Some option.case False if_False)
      then show ?thesis using issued asked [of "first_of_each (held_names current @ ?kept)"] by auto
    qed
  qed
qed

lemma tls_run:
  assumes "tls st now hosts if_needed f = (Inr r, f')" and "files_ok f"
  obtains k ca ss g where "ca_for (or_else (or_else hosts (held_names (f_cert_pem f))) LOCAL_HOSTS) f = Inr (k, ca, g)"
    "ca_ok k ca" "ca_permitted ca = Some ss" "f_ca_key g = Some k" "f_ca_pem g = Some ca" "f_cert_pem g = f_cert_pem f"
    "f_key_pem g = f_key_pem f" "tls_with st now hosts if_needed (f_cert_pem f) k ca g = Inr (r, f')"
proof -
  obtain k ca g where run: "ca_for (or_else (or_else hosts (held_names (f_cert_pem f))) LOCAL_HOSTS) f = Inr (k, ca, g)"
    "tls_with st now hosts if_needed (f_cert_pem f) k ca g = Inr (r, f')"
    using assms(1) by (auto simp: tls_def Let_def held_names_def split: sum.splits)
  then show ?thesis using ca_for_ok [OF assms(2) run(1)] that by (auto simp: ca_ok_def split: option.splits)
qed

lemma names_covered:
  assumes "mapR san hs = Inr names" and "names_asked ss hosts current hs" and "list_all (covered ss) LOCAL_HOSTS"
    and "list_all (covered ss) (held_names current)"
  shows "list_all (name_covered ss) names"
  unfolding list_all_iff
proof
  fix n
  assume "n \<in> set names"
  then obtain h where h: "h \<in> set hs" "san h = Inr n" using mapR_image [OF assms(1)] by blast
  then have "covered ss h" using assms(2-4) by (auto simp: names_asked_def list_all_iff)
  then show "name_covered ss n" using san_covered [OF h(2)] by simp
qed


definition empty_files :: cert_files where
  "empty_files = \<lparr>f_ca_key = None, f_ca_pem = None, f_key_pem = None, f_cert_pem = None, next_key = 0\<rparr>"

definition mint_lab :: mint_settings where "mint_lab = \<lparr>secrets_dir = ''/secrets'', tls_hosts = []\<rparr>"


text \<open>A host the certificate shows as it was given.\<close>

definition shown_as_given :: "string \<Rightarrow> bool" where
  "shown_as_given h = (case san h of Inl _ \<Rightarrow> False | Inr n \<Rightarrow> name_text n = h)"

text \<open>right after a certificate was issued for some hosts, and as long as more than the renewal time is
left, asking for it again with \<open>--if-needed\<close> issues nothing and changes no file.\<close>

theorem fresh_certificate_kept:
  assumes "files_ok f" and "tls st now hosts if_needed f = (Inr True, f')" and "list_all shown_as_given hosts"
    and "later - now < in_days (CERT_DAYS - RENEW_DAYS)"
  shows "tls st later hosts True f' = (Inr False, f')"
proof (rule tls_run [OF assms(2,1)])
  fix k ca ss g
  assume ca: "ca_permitted ca = Some ss" "ca_ok k ca"
    and g: "f_ca_key g = Some k" "f_ca_pem g = Some ca" "f_cert_pem g = f_cert_pem f" "f_key_pem g = f_key_pem f"
    and run: "tls_with st now hosts if_needed (f_cert_pem f) k ca g = Inr (True, f')"
  obtain hs where iss: "issue now k hs g = Inr (True, f')" and asked: "names_asked ss hosts (f_cert_pem f) hs"
    using tls_with_result [OF run ca(1)] by auto
  then obtain c names where names: "mapR san hs = Inr names"
    and c: "c = \<lparr>gc_key = next_key g, gc_names = names, gc_end = now + in_days CERT_DAYS, gc_signer = k\<rparr>"
    and f': "f' = g\<lparr>f_key_pem := Some (gc_key c), f_cert_pem := Some c, next_key := next_key g + 1\<rparr>"
    using issue_result by blast
  have fresh: "still_fresh later ca c" using assms(4) c ca(2) by (simp add: still_fresh_def in_days_def ca_ok_def algebra_simps)
  have kept: "set (filter (covered ss) hosts) \<subseteq> set (cert_hosts c)"
  proof
    fix h
    assume h: "h \<in> set (filter (covered ss) hosts)"
    then have "h \<in> set hs" using asked by (auto simp: names_asked_def)
    then obtain n where n: "n \<in> set names" "san h = Inr n" using mapR_member [OF names] by blast
    moreover have "name_text n = h" using h n assms(3) by (auto simp: list_all_iff shown_as_given_def)
    ultimately show "h \<in> set (cert_hosts c)" using c by (auto simp: cert_hosts_def)
  qed
  have on_file: "f_ca_key f' = Some k" "f_ca_pem f' = Some ca" "f_cert_pem f' = Some c" using f' g by simp_all
  have same_ca: "ca_for x f' = Inr (k, ca, f')" for x using on_file by (simp add: ca_for_def)
  have oks: "mapR (permits st ca) hosts = Inr (map (covered ss) hosts)"
    using ca(1) by (intro mapR_pure) (simp add: permits_def)
  have first: "hosts = [] \<or> hd (map (covered ss) hosts)"
  proof (rule ccontr)
    assume "\<not> ?thesis"
    then have "tls_with st now hosts if_needed (f_cert_pem f) k ca g = Inl (System_exit (''the CA was not made for '' @ hd hosts @ remake_text st))"
      using oks by (simp add: tls_with_def bindR_def Let_def)
    then show False using run by simp
  qed
  have "tls_with st later hosts True (Some c) k ca f' = Inr (False, f')"
    using oks first fresh kept by (auto simp: tls_with_def bindR_def Let_def filter_zip_map)
  then show ?thesis using same_ca on_file by (simp add: tls_def Let_def)
qed

lemma fresh_certificate_kept_witness:
  "tls mint_lab (in_days 300) [''ai.lan'', ''10.0.0.5''] True (snd (tls mint_lab 0 [''ai.lan'', ''10.0.0.5''] False empty_files)) =
   (Inr False, snd (tls mint_lab 0 [''ai.lan'', ''10.0.0.5''] False empty_files))"
proof -
  have ok: "files_ok empty_files" and given: "list_all shown_as_given [''ai.lan'', ''10.0.0.5'']" by code_simp+
  have "fst (tls mint_lab 0 [''ai.lan'', ''10.0.0.5''] False empty_files) = Inr True" by code_simp
  then have "tls mint_lab 0 [''ai.lan'', ''10.0.0.5''] False empty_files =
      (Inr True, snd (tls mint_lab 0 [''ai.lan'', ''10.0.0.5''] False empty_files))"
    by (metis prod.collapse)
  from fresh_certificate_kept [OF ok this given, of "in_days 300"] show ?thesis
    by (simp add: in_days_def CERT_DAYS_def RENEW_DAYS_def)
qed

text \<open>when the CA's key is lost and made again for another host, the renewed certificate still names the
old host, which the new CA does not permit.\<close>

theorem remade_ca_keeps_old_names:
  "(let f = snd (tls mint_lab 0 [''old.lan''] False empty_files);
        f' = snd (tls mint_lab 1 [''new.lan''] True (f\<lparr>f_ca_key := None\<rparr>)) in
    case (f_ca_pem f', f_cert_pem f') of
      (Some ca, Some c) \<Rightarrow> cert_hosts c = [''old.lan'', ''new.lan''] \<and> permits mint_lab ca ''old.lan'' = Inr False
    | _ \<Rightarrow> False)"
  by code_simp

end
