(* ===== verification/Gateway_Users.thy ===== *)
theory Gateway_Users
  imports Net_Guard
begin

text \<open>
  \<open>gateway/kc.py\<close>: the Keycloak set-up of the gateway. Keycloak is the argument \<open>keycloak\<close>: its answer to
  the n-th request. A command is a tool in the sense of \<open>Http_Client\<close>: it returns a value or raises, and
  the requests it sent are recorded, with the paths below \<open>/admin/realms/aistudio\<close> and without the bearer
  token the admin client adds. \<open>SystemExit\<close> is an exception of that name. Random tokens and SHA-256 are
  arguments.
\<close>

record web_response = http_response +
  hr_location :: "string option"

record keycloak =
  kc_answer :: "nat \<Rightarrow> http_request \<Rightarrow> tool_exn + web_response"
  kc_rep :: "json \<Rightarrow> string"

definition call_web :: "keycloak \<Rightarrow> http_request \<Rightarrow> web_response tool" where
  "call_web kc rq = (\<lambda>h. (kc_answer kc (length h) rq, h @ [rq]))"

definition system_exit :: "string \<Rightarrow> tool_exn" where "system_exit m = Http_other ''SystemExit'' m"

definition INTERNAL :: string where "INTERNAL = ''http://keycloak:8080''"
definition KC_CLIENT :: string where "KC_CLIENT = ''aistudio-mcp-clients''"
definition SCOPE :: string where "SCOPE = ''aistudio-mcp''"
definition KC_ROLES :: "string list" where "KC_ROLES = [''viewer'', ''operator'', ''admin'']"
definition REDIRECT :: string where "REDIRECT = ''http://localhost:6274/oauth/callback''"
definition SAFE_MAPPERS :: "string list" where
  "SAFE_MAPPERS = [''oidc-full-name-mapper'', ''oidc-address-mapper'', ''oidc-sha256-pairwise-sub-mapper'']"

section \<open>Values of unknown type\<close>

text \<open>Iterating a value, and reading a key of it.\<close>

fun elements :: "json \<Rightarrow> exn + json list" where
  "elements (JList xs) = Inr xs"
| "elements (JObj d) = Inr (map (JStr \<circ> fst) d)"
| "elements (JStr s) = Inr (map (\<lambda>c. JStr [c]) s)"
| "elements j = Inl (TypeError (quoted (type_name j) @ '' object is not iterable''))"

definition kc_item :: "json \<Rightarrow> string \<Rightarrow> exn + json" where
  "kc_item j k = (case j of JObj d \<Rightarrow> item d k
     | _ \<Rightarrow> Inl (TypeError (quoted (type_name j) @ '' object is not subscriptable by text'')))"

definition first_of :: "json \<Rightarrow> exn + json" where
  "first_of j = (case j of JList (x # _) \<Rightarrow> Inr x | JList [] \<Rightarrow> Inl IndexError
     | _ \<Rightarrow> Inl (TypeError (quoted (type_name j) @ '' object has no first item'')))"

definition text_of :: "json \<Rightarrow> exn + string" where
  "text_of j = (case j of JStr s \<Rightarrow> Inr s | _ \<Rightarrow> Inl (TypeError (''expected text, got '' @ type_name j)))"

text \<open>\<open>{**a, **b}\<close> and \<open>d.update(b)\<close>.\<close>

definition dict_update :: "dict \<Rightarrow> dict \<Rightarrow> dict" where
  "dict_update a b = foldl (\<lambda>d (k, v). dict_set d k v) a b"

definition kc_str :: "keycloak \<Rightarrow> json \<Rightarrow> string" where "kc_str kc = str_json (kc_rep kc)"

section \<open>Requests\<close>

definition get_json_kc :: "keycloak \<Rightarrow> string \<Rightarrow> dict \<Rightarrow> json tool" where
  "get_json_kc kc path params = bindT (call_web kc (get_request path params)) (\<lambda>r. liftT (hr_json r))"

definition checked :: "keycloak \<Rightarrow> string \<Rightarrow> string \<Rightarrow> dict option \<Rightarrow> web_response tool" where
  "checked kc m path body =
     bindT (call_web kc \<lparr>rq_method = m, rq_path = path, rq_params = [], rq_body = body\<rparr>) (\<lambda>r.
     bindT (raise_for_status (http_response.truncate r)) (\<lambda>_. retT r))"

section \<open>The environment file and the admin client\<close>

text \<open>The file's text is what is written when it did not exist; the passwords are drawn.\<close>

definition kc_env :: "string option \<Rightarrow> string \<Rightarrow> string \<Rightarrow> string \<times> string" where
  "kc_env file admin_pw db_pw =
     (case file of
        Some body \<Rightarrow> (''keycloak.env exists; kept'', body)
      | None \<Rightarrow>
          (''wrote keycloak.env; Keycloak admin console user: admin (password in that file)'',
           ''KC_BOOTSTRAP_ADMIN_USERNAME=admin'' @ nl @ ''KC_BOOTSTRAP_ADMIN_PASSWORD='' @ admin_pw @ nl @
           ''KC_DB_PASSWORD='' @ db_pw @ nl))"

definition conf_of :: "string \<Rightarrow> (string \<times> string) list" where
  "conf_of body = rev (map (\<lambda>l. case partition (CHR ''='') l of (k, _, v) \<Rightarrow> (k, v))
     (filter (\<lambda>l. CHR ''='' \<in> set l) (py_splitlines body)))"

definition conf_item :: "(string \<times> string) list \<Rightarrow> string \<Rightarrow> exn + string" where
  "conf_item conf k = (case map_of conf k of None \<Rightarrow> Inl (KeyError k) | Some v \<Rightarrow> Inr v)"

text \<open>The bearer token of the admin client.\<close>

definition admin_client :: "keycloak \<Rightarrow> string \<Rightarrow> json tool" where
  "admin_client kc env_body =
     bindT (liftT (conf_item (conf_of env_body) ''KC_BOOTSTRAP_ADMIN_USERNAME'')) (\<lambda>name.
     bindT (liftT (conf_item (conf_of env_body) ''KC_BOOTSTRAP_ADMIN_PASSWORD'')) (\<lambda>pw.
     bindT (checked kc ''POST'' (INTERNAL @ ''/realms/master/protocol/openid-connect/token'')
       (Some [(''grant_type'', JStr ''password''), (''client_id'', JStr ''admin-cli''), (''username'', JStr name),
         (''password'', JStr pw)])) (\<lambda>tok.
     bindT (liftT (hr_json tok)) (\<lambda>j. liftT (kc_item j ''access_token'')))))"

section \<open>Users\<close>

definition role_attrs :: "string \<Rightarrow> dict" where
  "role_attrs role = (if role \<noteq> ''none'' then [(''aistudio_role'', JList [JStr role])] else [])"

definition credential :: "string \<Rightarrow> bool \<Rightarrow> dict" where
  "credential pw temporary = [(''type'', JStr ''password''), (''value'', JStr pw), (''temporary'', JBool temporary)]"

definition new_user :: "string \<Rightarrow> string \<Rightarrow> string \<Rightarrow> bool \<Rightarrow> dict" where
  "new_user name role pw temporary = [(''username'', JStr name), (''enabled'', JBool True),
     (''attributes'', JObj (role_attrs role)), (''credentials'', JList [JObj (credential pw temporary)])]"

definition items_of :: "json \<Rightarrow> exn + dict" where
  "items_of j = (case j of JObj d \<Rightarrow> Inr d | _ \<Rightarrow> Inl (no_attribute j ''items''))"

text \<open>The representation with its role set or cleared, every other attribute kept.\<close>

definition with_role :: "dict \<Rightarrow> string \<Rightarrow> exn + dict" where
  "with_role rep role =
     bindE (items_of (json_or (dict_get rep ''attributes'') (JObj []))) (\<lambda>attrs.
     Inr (dict_set rep ''attributes''
       (JObj (dict_update (filter (\<lambda>(k, _). k \<noteq> ''aistudio_role'') attrs) (role_attrs role)))))"

definition user :: "keycloak \<Rightarrow> string \<Rightarrow> string \<Rightarrow> string \<Rightarrow> string \<Rightarrow> string \<Rightarrow> bool \<Rightarrow> string tool" where
  "user kc env_body fresh name role pw temporary =
     (if role \<notin> set (KC_ROLES @ [''none'']) then
        raiseT (system_exit (''role must be one of '' @ py_join '', '' KC_ROLES @ '' or none''))
      else
        bindT (admin_client kc env_body) (\<lambda>_.
        bindT (get_json_kc kc ''/users'' [(''username'', JStr name), (''exact'', JStr ''true'')]) (\<lambda>found.
        if \<not> truthy found then
          (let pw = (if pw \<noteq> [] then pw else fresh) in
           bindT (checked kc ''POST'' ''/users'' (Some (new_user name role pw temporary))) (\<lambda>_. retT pw))
        else
          bindT (liftT (bindE (first_of found) as_dict)) (\<lambda>rep.
          bindT (liftT (with_role rep role)) (\<lambda>rep.
          bindT (liftT (item rep ''id'')) (\<lambda>uid.
          bindT (checked kc ''PUT'' (''/users/'' @ kc_str kc uid) (Some rep)) (\<lambda>_.
          if pw \<noteq> [] then
            bindT (checked kc ''PUT'' (''/users/'' @ kc_str kc uid @ ''/reset-password'') (Some (credential pw temporary)))
              (\<lambda>_. retT [])
          else retT [])))))))"

section \<open>The first administrator\<close>

fun needs_first_admin :: "json list \<Rightarrow> exn + bool" where
  "needs_first_admin [] = Inr True"
| "needs_first_admin (u # us) =
     bindE (kc_item u ''username'') (\<lambda>name.
     case name of
       JStr s \<Rightarrow> if starts_with ''mcp-check-'' s then needs_first_admin us else Inr False
     | _ \<Rightarrow> Inl (no_attribute name ''startswith''))"

record kc_files =
  env_body :: string
  admin_user :: string

text \<open>What is printed, and the text of the file with the one-time password, if one is written.\<close>

definition first_admin :: "keycloak \<Rightarrow> kc_files \<Rightarrow> string \<Rightarrow> (string list \<times> string option) tool" where
  "first_admin kc f fresh =
     bindT (get_json_kc kc ''/users'' [(''q'', JStr ''aistudio_role:admin''), (''max'', JInt 1000)]) (\<lambda>admins.
     bindT (liftT (bindE (elements admins) needs_first_admin)) (\<lambda>needed.
     if \<not> needed then retT ([], None)
     else
       (let name = (if admin_user f \<noteq> [] then admin_user f else ''aistudio-admin'') in
        bindT (get_json_kc kc ''/users'' [(''username'', JStr name), (''exact'', JStr ''true'')]) (\<lambda>found.
        if truthy found then
          retT ([''no AIStudio admin, and '' @ name @ '' exists without the role: make mcp-user NAME=<user> ROLE=admin''], None)
        else
          bindT (user kc (env_body f) fresh name ''admin'' [] True) (\<lambda>pw.
          retT ([''created the first AIStudio admin: '' @ name @ '', one-time password '' @ pw @ '' '' @
              ''(also in first-admin.txt in MCP_SECRETS_DIR)''],
            Some (''user: '' @ name @ nl @ ''one-time password: '' @ pw @ nl @
              ''Keycloak asks for a new password at the first login; delete this file after it.'' @ nl)))))))"

section \<open>Set-up\<close>

fun mapTool :: "('a \<Rightarrow> 'b tool) \<Rightarrow> 'a list \<Rightarrow> 'b list tool" where
  "mapTool f [] = retT []"
| "mapTool f (x # xs) = bindT (f x) (\<lambda>y. bindT (mapTool f xs) (\<lambda>ys. retT (y # ys)))"

definition named :: "json \<Rightarrow> exn + (json \<times> json) list" where
  "named js = bindE (elements js) (mapE (\<lambda>s. bindE (kc_item s ''name'') (\<lambda>n. Inr (n, s))))"

definition new_scope :: "json \<Rightarrow> dict" where
  "new_scope mappers = [(''name'', JStr SCOPE), (''protocol'', JStr ''openid-connect''), (''protocolMappers'', mappers),
     (''attributes'', JObj [(''include.in.token.scope'', JStr ''false''), (''display.on.consent.screen'', JStr ''true''),
       (''consent.screen.text'', JStr ''Use the AIStudio MCP tools with your AIStudio role'')])]"

text \<open>The scope's id, as the last scope of that name in the list that was read.\<close>

definition scope_id :: "(json \<times> json) list \<Rightarrow> exn + json" where
  "scope_id scopes = (case map_of (rev scopes) (JStr SCOPE) of None \<Rightarrow> Inl (KeyError SCOPE) | Some s \<Rightarrow> kc_item s ''id'')"

definition ensure_scope :: "keycloak \<Rightarrow> json \<Rightarrow> (json \<times> json) list tool" where
  "ensure_scope kc mappers =
     bindT (bindT (get_json_kc kc ''/client-scopes'' []) (\<lambda>j. liftT (named j))) (\<lambda>scopes.
     if JStr SCOPE \<in> fst ` set scopes then retT scopes
     else
       bindT (checked kc ''POST'' ''/client-scopes'' (Some (new_scope mappers))) (\<lambda>_.
       bindT (get_json_kc kc ''/client-scopes'' []) (\<lambda>j. liftT (named j))))"

definition ensure_default_scope :: "keycloak \<Rightarrow> (json \<times> json) list \<Rightarrow> unit tool" where
  "ensure_default_scope kc scopes =
     bindT (bindT (get_json_kc kc ''/default-default-client-scopes'' []) (\<lambda>j. liftT (named j))) (\<lambda>defaults.
     if JStr SCOPE \<in> fst ` set defaults then retT ()
     else
       bindT (liftT (scope_id scopes)) (\<lambda>i.
       bindT (checked kc ''PUT'' (''/default-default-client-scopes/'' @ kc_str kc i) None) (\<lambda>_. retT ())))"

definition texts :: "string list \<Rightarrow> json" where "texts xs = JList (map JStr xs)"

text \<open>The registration policies of anonymous clients that are changed, with their new settings.\<close>

definition REGISTRATION_RULES :: "(string \<times> dict) list" where
  "REGISTRATION_RULES =
     [(''trusted-hosts'', [(''trusted-hosts'', texts [''localhost'', ''127.0.0.1'']),
        (''host-sending-registration-request-must-match'', texts [''false'']), (''client-uris-must-match'', texts [''true''])]),
      (''allowed-client-templates'', [(''allowed-client-scopes'', texts [''openid'', ''offline_access'', SCOPE]),
        (''allow-default-scopes'', texts [''true''])]),
      (''allowed-protocol-mappers'', [(''allowed-protocol-mapper-types'', texts SAFE_MAPPERS)])]"

definition rule_applies :: "json \<Rightarrow> dict \<Rightarrow> string \<Rightarrow> bool" where
  "rule_applies provider policy name = (provider = JStr name \<and> dict_get policy ''subType'' = JStr ''anonymous'')"

definition restricted :: "dict \<Rightarrow> dict \<Rightarrow> exn + dict" where
  "restricted policy change =
     bindE (item policy ''config'') (\<lambda>config. bindE (case config of JObj d \<Rightarrow> Inr d | _ \<Rightarrow> Inl (no_attribute config ''update''))
       (\<lambda>d. Inr (dict_set policy ''config'' (JObj (dict_update d change)))))"

fun apply_rules :: "keycloak \<Rightarrow> (string \<times> dict) list \<Rightarrow> dict \<Rightarrow> unit tool" where
  "apply_rules kc [] policy = retT ()"
| "apply_rules kc ((name, change) # rules) policy =
     bindT (liftT (item policy ''providerId'')) (\<lambda>provider.
     if rule_applies provider policy name then
       bindT (liftT (restricted policy change)) (\<lambda>policy.
       bindT (liftT (item policy ''id'')) (\<lambda>i.
       bindT (checked kc ''PUT'' (''/components/'' @ kc_str kc i) (Some policy)) (\<lambda>_. apply_rules kc rules policy)))
     else apply_rules kc rules policy)"

definition POLICY_KIND :: string where
  "POLICY_KIND = ''org.keycloak.services.clientregistration.policy.ClientRegistrationPolicy''"

definition restrict_component :: "keycloak \<Rightarrow> json \<Rightarrow> unit tool" where
  "restrict_component kc j = (case j of
      JObj policy \<Rightarrow> apply_rules kc REGISTRATION_RULES policy
    | _ \<Rightarrow> liftT (bindE (kc_item j ''providerId'') (\<lambda>_. Inr ())))"

definition kc_setup :: "keycloak \<Rightarrow> kc_files \<Rightarrow> exn + json \<Rightarrow> string \<Rightarrow> (string list \<times> string option) tool" where
  "kc_setup kc f mappers fresh =
     bindT (admin_client kc (env_body f)) (\<lambda>_.
     bindT (liftT mappers) (\<lambda>mappers.
     bindT (ensure_scope kc mappers) (\<lambda>scopes.
     bindT (ensure_default_scope kc scopes) (\<lambda>_.
     bindT (get_json_kc kc ''/components'' [(''type'', JStr POLICY_KIND)]) (\<lambda>comps.
     bindT (liftT (elements comps)) (\<lambda>comps.
     bindT (mapTool (restrict_component kc) comps) (\<lambda>_.
     bindT (first_admin kc f fresh) (\<lambda>(printed, file).
     retT ((''Keycloak: scope '' @ SCOPE @ '' on every new client; self-registration limited to localhost redirects, no role mappers'')
       # printed, file)))))))))"

section \<open>Idle clients\<close>

definition is_hex_low :: "char \<Rightarrow> bool" where
  "is_hex_low c = (is_digit c \<or> c \<in> set ''abcdef'')"

definition is_uuid :: "string \<Rightarrow> bool" where
  "is_uuid s = (let parts = split_char (CHR ''-'') s in
     map length parts = [8, 4, 4, 4, 12] \<and> list_all (list_all is_hex_low) parts)"

definition session_count :: "keycloak \<Rightarrow> string \<Rightarrow> string \<Rightarrow> rat tool" where
  "session_count kc cid k =
     bindT (get_json_kc kc (''/clients/'' @ cid @ ''/'' @ k @ ''-count'') []) (\<lambda>j.
     bindT (liftT (kc_item j ''count'')) (\<lambda>n. liftT (real_or_raise n)))"

definition sessions :: "keycloak \<Rightarrow> json \<Rightarrow> rat tool" where
  "sessions kc cid =
     bindT (session_count kc (kc_str kc cid) ''session'') (\<lambda>a.
     bindT (session_count kc (kc_str kc cid) ''offline-session'') (\<lambda>b. retT (a + b)))"

text \<open>Whether a client is self-registered and idle; its sessions are asked for only when its id has the
shape of a UUID.\<close>

definition is_idle :: "(json \<Rightarrow> rat tool) \<Rightarrow> json \<Rightarrow> bool tool" where
  "is_idle count x =
     bindT (liftT (bindE (kc_item x ''clientId'') text_of)) (\<lambda>cid.
     if is_uuid cid then
       bindT (liftT (kc_item x ''id'')) (\<lambda>i. bindT (count i) (\<lambda>n. retT (n = 0)))
     else retT False)"

fun idle_registered :: "json list \<Rightarrow> (json \<Rightarrow> rat tool) \<Rightarrow> json list tool" where
  "idle_registered [] count = retT []"
| "idle_registered (x # xs) count =
     bindT (is_idle count x) (\<lambda>idle.
     bindT (idle_registered xs count) (\<lambda>rest. retT (if idle then x # rest else rest)))"

definition delete_client :: "keycloak \<Rightarrow> json \<Rightarrow> unit tool" where
  "delete_client kc x =
     bindT (liftT (kc_item x ''id'')) (\<lambda>i. bindT (checked kc ''DELETE'' (''/clients/'' @ kc_str kc i) None) (\<lambda>_. retT ()))"

definition prune :: "keycloak \<Rightarrow> string \<Rightarrow> string tool" where
  "prune kc body =
     bindT (admin_client kc body) (\<lambda>_.
     bindT (get_json_kc kc ''/clients'' [(''max'', JInt 10000)]) (\<lambda>j.
     bindT (liftT (elements j)) (\<lambda>clients.
     bindT (idle_registered clients (sessions kc)) (\<lambda>gone.
     bindT (mapTool (delete_client kc) gone) (\<lambda>_.
     retT (''removed '' @ show_nat (length gone) @ '' idle self-registered client(s)''))))))"

section \<open>A login as a client makes it\<close>

text \<open>\<open>unquote\<close> on ASCII: a percent sign with two hexadecimal digits is the byte they denote.\<close>

fun unquote :: "string \<Rightarrow> string" where
  "unquote [] = []"
| "unquote (c # cs) =
     (case (c, cs) of
        (CHR ''%'', a # b # rest) \<Rightarrow>
          (case (hex_value a, hex_value b) of
             (Some m, Some n) \<Rightarrow> char_of (16 * m + n) # unquote rest
           | _ \<Rightarrow> c # unquote cs)
      | _ \<Rightarrow> c # unquote cs)"

definition form_text :: "string \<Rightarrow> string" where
  "form_text s = unquote (map (\<lambda>c. if c = CHR ''+'' then CHR '' '' else c) s)"

text \<open>\<open>parse_qs\<close>: pairs without a value are left out.\<close>

definition query_pairs :: "string \<Rightarrow> (string \<times> string) list" where
  "query_pairs q =
     (let pairs = filter (\<lambda>(k, found, v). found \<and> v \<noteq> []) (map (partition (CHR ''='')) (split_char (CHR ''&'') q)) in
      map (\<lambda>(k, _, v). (form_text k, form_text v)) pairs)"

definition query_first :: "string \<Rightarrow> string \<Rightarrow> string option" where
  "query_first q k = map_of (query_pairs q) k"

text \<open>The form's address: the first nonempty \<open>action="..."\<close> of the page, with its ampersands decoded.\<close>

fun form_action :: "string \<Rightarrow> string option" where
  "form_action [] = None"
| "form_action (c # cs) =
     (if starts_with (''action='' @ dq) (c # cs) then
        (case partition (CHR 0x22) (drop 8 (c # cs)) of (v, end_found, _) \<Rightarrow>
           if end_found \<and> v \<noteq> [] then Some v else form_action cs)
      else form_action cs)"

fun decode_amp :: "string \<Rightarrow> string" where
  "decode_amp [] = []"
| "decode_amp (c # cs) = (if starts_with ''&amp;'' (c # cs) then CHR ''&'' # decode_amp (drop 4 cs) else c # decode_amp cs)"

record login_world =
  lw_kc :: keycloak
  lw_files :: kc_files
  lw_public_url :: "string option"
  lw_password :: string
  lw_verifier :: string
  lw_challenge :: "string \<Rightarrow> string"

definition post_form :: "keycloak \<Rightarrow> string \<Rightarrow> dict \<Rightarrow> web_response tool" where
  "post_form kc path body = call_web kc \<lparr>rq_method = ''POST'', rq_path = path, rq_params = [], rq_body = Some body\<rparr>"

definition json_text :: "json \<Rightarrow> string \<Rightarrow> exn + string" where
  "json_text j k = bindE (kc_item j k) text_of"

text \<open>The issuer the resource names, and its metadata, which must name the same issuer.\<close>

definition discover :: "keycloak \<Rightarrow> string \<Rightarrow> (string \<times> json) tool" where
  "discover kc base =
     bindT (get_json_kc kc (base @ ''/.well-known/oauth-protected-resource/mcp/aistudio'') []) (\<lambda>res.
     bindT (liftT (bindE (bindE (kc_item res ''authorization_servers'') first_of) text_of)) (\<lambda>issuer.
     bindT (liftT (urlparse issuer)) (\<lambda>u.
     bindT (get_json_kc kc (u_scheme u @ ''://'' @ u_netloc u @ ''/.well-known/oauth-authorization-server'' @ fst (split_params (u_path u))) []) (\<lambda>metadata.
     bindT (liftT (kc_item metadata ''issuer'')) (\<lambda>claimed.
     if claimed \<noteq> JStr issuer then
       raiseT (system_exit (''metadata issuer '' @ kc_str kc claimed @ '' is not '' @ issuer))
     else retT (issuer, metadata))))))"

definition login_form :: "login_world \<Rightarrow> string \<Rightarrow> json \<Rightarrow> string tool" where
  "login_form lw base metadata =
     bindT (liftT (json_text metadata ''authorization_endpoint'')) (\<lambda>address.
     bindT (call_web (lw_kc lw) (get_request address
       [(''client_id'', JStr KC_CLIENT), (''redirect_uri'', JStr REDIRECT), (''response_type'', JStr ''code''),
        (''scope'', JStr ''openid''), (''state'', JStr ''check''), (''code_challenge'', JStr (lw_challenge lw (lw_verifier lw))),
        (''code_challenge_method'', JStr ''S256''), (''resource'', JStr (base @ ''/mcp/aistudio''))])) (\<lambda>page.
     case form_action (hr_text page) of
       None \<Rightarrow> raiseT (Python_error (AttributeError (quoted ''NoneType'' @ '' object has no attribute '' @ quoted ''group'')))
     | Some a \<Rightarrow> retT (decode_amp a)))"

text \<open>The code of the redirect after the login, which must come from the same issuer.\<close>

definition login_code :: "login_world \<Rightarrow> string \<Rightarrow> string \<Rightarrow> string \<Rightarrow> string tool" where
  "login_code lw role issuer action =
     bindT (post_form (lw_kc lw) action
       [(''username'', JStr (''mcp-check-'' @ role)), (''password'', JStr (lw_password lw)), (''credentialId'', JStr [])]) (\<lambda>page.
     bindT (liftT (case hr_location page of None \<Rightarrow> Inl (KeyError ''location'') | Some l \<Rightarrow> Inr l)) (\<lambda>l.
     bindT (liftT (urlparse l)) (\<lambda>u.
     (case query_first (u_query u) ''iss'' of
        Some iss \<Rightarrow>
          if iss \<noteq> issuer then raiseT (system_exit (''authorization response iss '' @ iss @ '' is not '' @ issuer @ '' (RFC 9207)''))
          else liftT (case query_first (u_query u) ''code'' of None \<Rightarrow> Inl (KeyError ''code'') | Some code \<Rightarrow> Inr code)
      | None \<Rightarrow> liftT (case query_first (u_query u) ''code'' of None \<Rightarrow> Inl (KeyError ''code'') | Some code \<Rightarrow> Inr code)))))"

definition token :: "login_world \<Rightarrow> string \<Rightarrow> json tool" where
  "token lw role =
     bindT (user (lw_kc lw) (env_body (lw_files lw)) [] (''mcp-check-'' @ role) role (lw_password lw) False) (\<lambda>_.
     bindT (liftT (case lw_public_url lw of None \<Rightarrow> Inl (KeyError ''MCP_PUBLIC_URL'') | Some s \<Rightarrow> Inr (rstrip_slash s))) (\<lambda>base.
     bindT (discover (lw_kc lw) base) (\<lambda>(issuer, metadata).
     bindT (login_form lw base metadata) (\<lambda>action.
     bindT (login_code lw role issuer action) (\<lambda>code.
     bindT (liftT (json_text metadata ''token_endpoint'')) (\<lambda>address.
     bindT (checked (lw_kc lw) ''POST'' address
       (Some [(''grant_type'', JStr ''authorization_code''), (''code'', JStr code), (''redirect_uri'', JStr REDIRECT),
         (''client_id'', JStr KC_CLIENT), (''code_verifier'', JStr (lw_verifier lw))])) (\<lambda>tok.
     bindT (liftT (hr_json tok)) (\<lambda>j. liftT (kc_item j ''access_token'')))))))))"

section \<open>The command line\<close>

datatype kc_result = Kc_env string string | Kc_printed "string list" "string option"

definition kc_main ::
  "login_world \<Rightarrow> string option \<Rightarrow> string \<times> string \<Rightarrow> exn + json \<Rightarrow> string \<Rightarrow> string \<Rightarrow> string list \<Rightarrow> kc_result tool" where
  "kc_main lw env_file pws mappers fresh usage_doc argv =
     (let kc = lw_kc lw; body = env_body (lw_files lw) in
      case argv of
        [] \<Rightarrow> raiseT (system_exit usage_doc)
      | command # args \<Rightarrow>
          if command = ''env'' then
            (case kc_env env_file (fst pws) (snd pws) of (printed, text_written) \<Rightarrow> retT (Kc_env printed text_written))
          else if command = ''setup'' then
            bindT (kc_setup kc (lw_files lw) mappers fresh) (\<lambda>(printed, file). retT (Kc_printed printed file))
          else if command = ''prune'' then bindT (prune kc body) (\<lambda>line. retT (Kc_printed [line] None))
          else
            (case (command = ''user'', command = ''token'', args) of
               (True, _, [name, role]) \<Rightarrow>
                 bindT (user kc body fresh name role [] True) (\<lambda>pw.
                 retT (Kc_printed [if pw \<noteq> [] then ''created '' @ name @ '' ('' @ role @ ''); one-time password: '' @ pw
                   else name @ '': role '' @ role] None))
             | (_, True, [role]) \<Rightarrow>
                 if role \<in> set KC_ROLES then bindT (token lw role) (\<lambda>t. retT (Kc_printed [kc_str kc t] None))
                 else raiseT (system_exit usage_doc)
             | _ \<Rightarrow> raiseT (system_exit usage_doc)))"

section \<open>Requests a command sends\<close>

lemma bindT_result:
  assumes "bindT m f h = (Inr v, h')"
  obtains a h1 where "m h = (Inr a, h1)" "f a h1 = (Inr v, h')"
  using assms by (auto simp: bindT_def split: prod.splits sum.splits)

text \<open>What follows may use what the first step is known to return.\<close>

lemma sends_bind_known:
  assumes "sends P m" and "\<And>h a h'. m h = (Inr a, h') \<Longrightarrow> sends P (f a)"
  shows "sends P (bindT m f)"
  unfolding sends_def
proof
  fix h
  obtain r h1 where m: "m h = (r, h1)" by (cases "m h")
  obtain rs where rs: "h1 = h @ rs" "list_all P rs" using assms(1) m unfolding sends_def by (metis snd_conv)
  show "\<exists>rs. snd (bindT m f h) = h @ rs \<and> list_all P rs"
  proof (cases r)
    case (Inr a)
    then have "sends P (f a)" using assms(2) m by blast
    then obtain qs where "snd (f a h1) = h1 @ qs" "list_all P qs" unfolding sends_def by blast
    then show ?thesis using m Inr rs by (intro exI [of _ "rs @ qs"]) (simp add: bindT_def)
  qed (use m rs in \<open>auto simp: bindT_def\<close>)
qed

lemma sends_call_web [sends_rules]: "P rq \<Longrightarrow> sends P (call_web kc rq)" by (simp add: sends_def call_web_def)

lemma sends_get_json [sends_rules]: "P (get_request path params) \<Longrightarrow> sends P (get_json_kc kc path params)"
  unfolding get_json_kc_def by (intro sends_rules)

lemma sends_checked [sends_rules]:
  "P \<lparr>rq_method = m, rq_path = path, rq_params = [], rq_body = body\<rparr> \<Longrightarrow> sends P (checked kc m path body)"
  unfolding checked_def by (intro sends_rules)

lemma sends_mapTool [sends_rules]: "(\<And>x. x \<in> set xs \<Longrightarrow> sends P (f x)) \<Longrightarrow> sends P (mapTool f xs)"
  by (induction xs) (auto intro!: sends_rules)

lemma liftT_result: "liftT r h = (Inr a, h') \<longleftrightarrow> r = Inr a \<and> h' = h"
  by (cases r) (auto simp: tool_defs)

lemma sends_admin_client [sends_rules]:
  "(\<And>b. P \<lparr>rq_method = ''POST'', rq_path = INTERNAL @ ''/realms/master/protocol/openid-connect/token'', rq_params = [],
     rq_body = Some b\<rparr>) \<Longrightarrow> sends P (admin_client kc body)"
  unfolding admin_client_def by (intro sends_rules)

lemma sends_history: "sends P m \<Longrightarrow> m h = (r, h') \<Longrightarrow> prefix h h'"
  unfolding sends_def by (metis prefixI snd_conv)

section \<open>Pruning\<close>

definition delete_client_request :: "keycloak \<Rightarrow> json \<Rightarrow> http_request" where
  "delete_client_request kc i =
     \<lparr>rq_method = ''DELETE'', rq_path = ''/clients/'' @ kc_str kc i, rq_params = [], rq_body = None\<rparr>"

text \<open>A client that registered itself and whose sessions were counted, by the requests in the log, as none.\<close>

definition idle_client :: "keycloak \<Rightarrow> http_request list \<Rightarrow> json \<Rightarrow> json \<Rightarrow> bool" where
  "idle_client kc hist x i = (kc_item x ''id'' = Inr i \<and> (\<exists>cid. kc_item x ''clientId'' = Inr (JStr cid) \<and> is_uuid cid) \<and>
     (\<exists>h h'. sessions kc i h = (Inr 0, h') \<and> prefix h' hist))"

text \<open>A client of the list that Keycloak answered the request for its clients with.\<close>

definition clients_request :: http_request where
  "clients_request = get_request ''/clients'' [(''max'', JInt 10000)]"

definition listed_client :: "keycloak \<Rightarrow> http_request list \<Rightarrow> json \<Rightarrow> bool" where
  "listed_client kc hist x = (\<exists>h r clients. kc_answer kc (length h) clients_request = Inr r \<and> prefix (h @ [clients_request]) hist \<and>
     bindE (hr_json r) elements = Inr clients \<and> x \<in> set clients)"

lemma listed_client_later: "listed_client kc hist x \<Longrightarrow> prefix hist later_hist \<Longrightarrow> listed_client kc later_hist x"
  unfolding listed_client_def by (blast intro: prefix_order.trans)

lemma idle_client_later: "idle_client kc hist x i \<Longrightarrow> prefix hist later_hist \<Longrightarrow> idle_client kc later_hist x i"
  unfolding idle_client_def by (blast intro: prefix_order.trans)

lemma is_idle_sound:
  assumes "is_idle (sessions kc) x h = (Inr True, h')"
  shows "\<exists>i. idle_client kc h' x i"
proof -
  obtain cid where cid: "bindE (kc_item x ''clientId'') text_of = Inr cid"
    and rest: "(if is_uuid cid then bindT (liftT (kc_item x ''id'')) (\<lambda>i. bindT (sessions kc i) (\<lambda>n. retT (n = 0)))
      else retT False) h = (Inr True, h')"
    using assms unfolding is_idle_def by (auto elim!: bindT_result simp: liftT_result)
  have uuid: "is_uuid cid" using rest by (auto simp: retT_def split: if_splits)
  have "kc_item x ''clientId'' = Inr (JStr cid)"
    using cid by (auto simp: bindE_def text_of_def split: sum.splits json.splits)
  moreover obtain i h1 where "kc_item x ''id'' = Inr i" "sessions kc i h1 = (Inr 0, h')"
    using rest uuid by (auto elim!: bindT_result simp: liftT_result retT_def)
  ultimately show ?thesis using uuid unfolding idle_client_def by blast
qed

lemma sends_idle [sends_rules]: "(\<And>path. P (get_request path [])) \<Longrightarrow> sends P (idle_registered xs (sessions kc))"
proof (induction xs)
  case (Cons x xs)
  then show ?case
    by (auto simp: is_idle_def sessions_def session_count_def intro!: sends_rules)
qed (simp add: sends_ret)

lemma idle_registered_sound:
  "idle_registered xs (sessions kc) h = (Inr gone, h') \<Longrightarrow> x \<in> set gone \<Longrightarrow> \<exists>i. idle_client kc h' x i"
proof (induction xs arbitrary: h gone h')
  case (Cons y xs)
  obtain idle h1 where idle: "is_idle (sessions kc) y h = (Inr idle, h1)"
    and r: "bindT (idle_registered xs (sessions kc)) (\<lambda>rest. retT (if idle then y # rest else rest)) h1 = (Inr gone, h')"
    using Cons.prems(1) by (auto elim: bindT_result)
  obtain rest where rest: "idle_registered xs (sessions kc) h1 = (Inr rest, h')" "gone = (if idle then y # rest else rest)"
    using r by (auto elim!: bindT_result simp: retT_def)
  have "sends (\<lambda>_. True) (idle_registered xs (sessions kc))" by (rule sends_idle) simp
  then have later: "prefix h1 h'" using rest(1) unfolding sends_def by (metis prefixI snd_conv)
  show ?case
  proof (cases "x \<in> set rest")
    case True
    then show ?thesis using Cons.IH rest(1) by blast
  next
    case False
    then have "idle" "x = y" using Cons.prems(2) rest(2) by (auto split: if_splits)
    then have "is_idle (sessions kc) x h = (Inr True, h1)" using idle by simp
    then obtain i where "idle_client kc h1 x i" using is_idle_sound by blast
    then show ?thesis using idle_client_later later by blast
  qed
qed (simp add: retT_def)

definition prune_front :: "keycloak \<Rightarrow> string \<Rightarrow> json list tool" where
  "prune_front kc body = bindT (admin_client kc body) (\<lambda>_. bindT (get_json_kc kc ''/clients'' [(''max'', JInt 10000)]) (\<lambda>j.
     bindT (liftT (elements j)) (\<lambda>clients. idle_registered clients (sessions kc))))"

lemma bindT_assoc: "bindT (bindT m f) g = bindT m (\<lambda>a. bindT (f a) g)"
  by (rule ext) (auto simp: bindT_def split: prod.split sum.split)

lemma prune_split: "prune kc body = bindT (prune_front kc body) (\<lambda>gone. bindT (mapTool (delete_client kc) gone) (\<lambda>_.
    retT (''removed '' @ show_nat (length gone) @ '' idle self-registered client(s)'')))"
  by (simp add: prune_def prune_front_def bindT_assoc)

lemma idle_registered_subset: "idle_registered xs count h = (Inr gone, h') \<Longrightarrow> set gone \<subseteq> set xs"
proof (induction xs arbitrary: h gone)
  case (Cons y xs)
  then obtain idle rest h1 where "idle_registered xs count h1 = (Inr rest, h')" "gone = (if idle then y # rest else rest)"
    by (auto elim!: bindT_result simp: retT_def)
  then show ?case using Cons.IH by auto
qed (simp add: retT_def)

lemma prune_front_sound:
  assumes "prune_front kc body h = (Inr gone, h')" and "x \<in> set gone"
  shows "listed_client kc h' x \<and> (\<exists>i. idle_client kc h' x i)"
proof -
  obtain h1 j h2 clients where read: "get_json_kc kc ''/clients'' [(''max'', JInt 10000)] h1 = (Inr j, h2)" "elements j = Inr clients"
    and idle: "idle_registered clients (sessions kc) h2 = (Inr gone, h')"
    using assms(1) unfolding prune_front_def by (auto elim!: bindT_result simp: liftT_result)
  obtain r where r: "kc_answer kc (length h1) clients_request = Inr r" "hr_json r = Inr j" "h2 = h1 @ [clients_request]"
    using read(1) unfolding get_json_kc_def clients_request_def by (auto elim!: bindT_result simp: call_web_def liftT_result)
  have "prefix h2 h'" by (rule sends_history [where P = "\<lambda>_. True", OF sends_idle idle]) simp
  moreover have "x \<in> set clients" using idle_registered_subset [OF idle] assms(2) by blast
  ultimately have "listed_client kc h' x" using r read(2) unfolding listed_client_def bindE_def by force
  then show ?thesis using idle_registered_sound [OF idle assms(2)] by blast
qed

text \<open>A deletion of a client that was listed, had registered itself and was idle.\<close>

definition deletes_idle :: "keycloak \<Rightarrow> http_request list \<Rightarrow> http_request \<Rightarrow> bool" where
  "deletes_idle kc hist rq = (\<exists>x i. listed_client kc hist x \<and> idle_client kc hist x i \<and> rq = delete_client_request kc i)"

lemma sends_delete:
  assumes "listed_client kc hist x \<and> (\<exists>i. idle_client kc hist x i)"
  shows "sends (deletes_idle kc hist) (delete_client kc x)"
proof -
  have "sends (deletes_idle kc hist) (bindT (checked kc ''DELETE'' (''/clients/'' @ kc_str kc i) None) (\<lambda>_. retT ()))"
    if "liftT (kc_item x ''id'') h = (Inr i, h')" for h i h'
  proof -
    have "idle_client kc hist x i" using assms that by (auto simp: idle_client_def liftT_result)
    then show ?thesis using assms
      by (intro sends_bind sends_checked sends_ret) (auto simp: deletes_idle_def delete_client_request_def)
  qed
  then show ?thesis unfolding delete_client_def by (rule sends_bind_known [OF sends_lift]) blast
qed

text \<open>C34: pruning deletes no client but those that Keycloak listed, that registered themselves, as their
id has the shape of a UUID, and whose sessions it had counted as none before, whether it ends well
or not.\<close>

theorem prune_removes_idle_only:
  assumes "rq \<in> set (snd (prune kc body []))" and "rq_method rq = ''DELETE''"
  shows "\<exists>x i cid. listed_client kc (snd (prune kc body [])) x \<and> kc_item x ''clientId'' = Inr (JStr cid) \<and> is_uuid cid \<and>
    kc_item x ''id'' = Inr i \<and> (\<exists>h h'. sessions kc i h = (Inr 0, h') \<and> prefix h' (snd (prune kc body []))) \<and>
    rq = delete_client_request kc i"
proof -
  obtain r hist where front: "prune_front kc body [] = (r, hist)" by (cases "prune_front kc body []")
  have "sends (\<lambda>rq. rq_method rq \<noteq> ''DELETE'') (prune_front kc body)"
    unfolding prune_front_def
    by (intro sends_bind sends_admin_client sends_get_json sends_lift sends_idle) (simp_all add: get_request_def)
  then obtain fs where "snd (prune_front kc body []) = [] @ fs" "list_all (\<lambda>rq. rq_method rq \<noteq> ''DELETE'') fs"
    unfolding sends_def by blast
  then have no_delete: "\<forall>rq \<in> set hist. rq_method rq \<noteq> ''DELETE''" using front by (simp add: list_all_iff)
  show ?thesis
  proof (cases r)
    case (Inl e)
    then have "snd (prune kc body []) = hist" using front by (simp add: prune_split bindT_def)
    then show ?thesis using assms no_delete by auto
  next
    case (Inr gone)
    let ?rest = "bindT (mapTool (delete_client kc) gone) (\<lambda>_.
      retT (''removed '' @ show_nat (length gone) @ '' idle self-registered client(s)''))"
    have "listed_client kc hist x \<and> (\<exists>i. idle_client kc hist x i)" if "x \<in> set gone" for x
      using prune_front_sound front Inr that by blast
    then have "sends (deletes_idle kc hist) ?rest" by (intro sends_bind sends_mapTool sends_ret sends_delete)
    then obtain rs where rs: "snd (?rest hist) = hist @ rs" "list_all (deletes_idle kc hist) rs"
      unfolding sends_def by blast
    have run: "snd (prune kc body []) = hist @ rs" using front Inr rs(1) by (simp add: prune_split bindT_def)
    then have "rq \<in> set rs" using assms no_delete by auto
    then obtain x i where x: "listed_client kc hist x" "idle_client kc hist x i" "rq = delete_client_request kc i"
      using rs(2) by (auto simp: list_all_iff deletes_idle_def)
    have "prefix hist (snd (prune kc body []))" using run by simp
    then have "listed_client kc (snd (prune kc body [])) x" "idle_client kc (snd (prune kc body [])) x i"
      using listed_client_later [OF x(1)] idle_client_later [OF x(2)] by blast+
    then show ?thesis using x(3) unfolding idle_client_def by blast
  qed
qed

definition json_answer :: "json \<Rightarrow> tool_exn + web_response" where
  "json_answer j = Inr \<lparr>hr_status = 200, hr_json = Inr j, hr_text = [], hr_location = None\<rparr>"

definition idle_id :: string where "idle_id = ''0a1b2c3d-0000-4000-8000-0123456789ab''"

definition one_idle :: keycloak where
  "one_idle = \<lparr>kc_answer = (\<lambda>n rq.
      if n = 0 then json_answer (JObj [(''access_token'', JStr ''t'')])
      else if n = 1 then json_answer (JList [JObj [(''clientId'', JStr SCOPE), (''id'', JStr ''a'')],
        JObj [(''clientId'', JStr idle_id), (''id'', JStr ''b'')]])
      else json_answer (JObj [(''count'', JInt 0)])), kc_rep = (\<lambda>_. [])\<rparr>"

definition env_lab :: string where
  "env_lab = ''KC_BOOTSTRAP_ADMIN_USERNAME=admin'' @ nl @ ''KC_BOOTSTRAP_ADMIN_PASSWORD=pw''"

lemma prune_removes_idle_only_witness:
  "\<exists>x cid. listed_client one_idle (snd (prune one_idle env_lab [])) x \<and> kc_item x ''clientId'' = Inr (JStr cid) \<and> is_uuid cid"
proof -
  have "last (snd (prune one_idle env_lab [])) = delete_client_request one_idle (JStr ''b'') \<and> snd (prune one_idle env_lab []) \<noteq> []"
    by code_simp
  then have "delete_client_request one_idle (JStr ''b'') \<in> set (snd (prune one_idle env_lab []))" by (metis last_in_set)
  from prune_removes_idle_only [OF this] show ?thesis by (auto simp: delete_client_request_def)
qed

section \<open>Setting a role\<close>

lemma map_of_dict_update: "map_of (dict_update a b) k = (case map_of (rev b) k of None \<Rightarrow> map_of a k | Some v \<Rightarrow> Some v)"
proof (induction b rule: rev_induct)
  case (snoc p b)
  obtain k' v where p: "p = (k', v)" by (cases p)
  have "dict_update a (b @ [p]) = dict_set (dict_update a b) k' v" by (simp add: dict_update_def p)
  then show ?case using snoc p by simp
qed (simp add: dict_update_def)

text \<open>Two representations of a user that differ at most in the role, which the second one has.\<close>

definition only_role_changed :: "dict \<Rightarrow> dict \<Rightarrow> string \<Rightarrow> bool" where
  "only_role_changed rep rep' role =
     ((\<forall>k. k \<noteq> ''attributes'' \<longrightarrow> map_of rep' k = map_of rep k) \<and>
      (\<exists>attrs attrs'. json_or (dict_get rep ''attributes'') (JObj []) = JObj attrs \<and> map_of rep' ''attributes'' = Some (JObj attrs') \<and>
         map_of attrs' ''aistudio_role'' = (if role = ''none'' then None else Some (JList [JStr role])) \<and>
         (\<forall>k. k \<noteq> ''aistudio_role'' \<longrightarrow> map_of attrs' k = map_of attrs k)))"

lemma map_of_other: "map_of (filter (\<lambda>(k, _). k \<noteq> k0) d) k = (if k = k0 then None else map_of d k)"
  by (induction d) auto

lemma with_role_sound: "with_role rep role = Inr rep' \<Longrightarrow> only_role_changed rep rep' role"
  unfolding with_role_def only_role_changed_def bindE_def items_of_def
  by (auto simp: map_of_dict_update map_of_other role_attrs_def split: sum.splits json.splits)

definition user_request :: "string \<Rightarrow> string \<Rightarrow> bool \<Rightarrow> http_request \<Rightarrow> bool" where
  "user_request role pw temporary rq =
     (rq_method rq = ''PUT'' \<longrightarrow> role \<in> {''viewer'', ''operator'', ''admin'', ''none''} \<and>
        (rq_body rq = Some (credential pw temporary) \<and> pw \<noteq> [] \<or>
         (\<exists>rep rep'. rq_body rq = Some rep' \<and> only_role_changed rep rep' role)))"

text \<open>giving an existing user a role sends its representation back with no attribute changed but the role,
which becomes the one that was asked for or is cleared; besides it only a password that was given is
set, and a role that does not exist sends nothing.\<close>

theorem role_change_touches_role_only:
  assumes "rq \<in> set (snd (user kc body fresh name role pw temporary []))" and "rq_method rq = ''PUT''"
  shows "role \<in> {''viewer'', ''operator'', ''admin'', ''none''} \<and>
    (rq_body rq = Some (credential pw temporary) \<and> pw \<noteq> [] \<or>
     (\<exists>rep rep'. rq_body rq = Some rep' \<and> only_role_changed rep rep' role))"
proof -
  have get: "user_request role pw temporary (get_request path params)" for path params
    by (simp add: user_request_def get_request_def)
  have post: "user_request role pw temporary \<lparr>rq_method = ''POST'', rq_path = path, rq_params = [], rq_body = b\<rparr>" for path b
    by (simp add: user_request_def)
  have known: "role \<in> {''viewer'', ''operator'', ''admin'', ''none''}" if "role \<in> set (KC_ROLES @ [''none''])"
    using that by (simp add: KC_ROLES_def)
  have "sends (user_request role pw temporary) (user kc body fresh name role pw temporary)"
  proof (cases "role \<in> set (KC_ROLES @ [''none''])")
    case False
    then show ?thesis by (simp add: user_def sends_raise)
  next
    case True
    have put: "sends (user_request role pw temporary)
        (bindT (liftT (item rep ''id'')) (\<lambda>uid.
         bindT (checked kc ''PUT'' (''/users/'' @ kc_str kc uid) (Some rep)) (\<lambda>_.
         if pw \<noteq> [] then
           bindT (checked kc ''PUT'' (''/users/'' @ kc_str kc uid @ ''/reset-password'') (Some (credential pw temporary))) (\<lambda>_. retT [])
         else retT [])))"
      if "liftT (with_role old role) h = (Inr rep, h')" for old rep h h'
      using with_role_sound [of old role rep] that known [OF True]
      by (intro sends_bind sends_lift sends_checked sends_if sends_ret) (auto simp: user_request_def liftT_result)
    have change: "sends (user_request role pw temporary) (bindT (liftT (with_role old role)) (\<lambda>rep.
         bindT (liftT (item rep ''id'')) (\<lambda>uid.
         bindT (checked kc ''PUT'' (''/users/'' @ kc_str kc uid) (Some rep)) (\<lambda>_.
         if pw \<noteq> [] then
           bindT (checked kc ''PUT'' (''/users/'' @ kc_str kc uid @ ''/reset-password'') (Some (credential pw temporary))) (\<lambda>_. retT [])
         else retT []))))" for old
      by (rule sends_bind_known [OF sends_lift]) (rule put)
    show ?thesis unfolding user_def Let_def using True
      by (simp only: not_True_eq_False if_False simp_thms)
        (intro sends_bind sends_if sends_ret sends_lift sends_get_json sends_checked sends_admin_client get post change)
  qed
  then obtain rs where "snd (user kc body fresh name role pw temporary []) = [] @ rs" "list_all (user_request role pw temporary) rs"
    unfolding sends_def by blast
  then have "user_request role pw temporary rq" using assms(1) by (simp add: list_all_iff)
  then show ?thesis using assms(2) by (simp add: user_request_def)
qed

definition known_user :: keycloak where
  "known_user = \<lparr>kc_answer = (\<lambda>n rq.
      if n = 0 then json_answer (JObj [(''access_token'', JStr ''t'')])
      else json_answer (JList [JObj [(''id'', JStr ''u1''), (''attributes'',
        JObj [(''team'', JStr ''lab''), (''aistudio_role'', JList [JStr ''admin''])])]])), kc_rep = (\<lambda>_. [])\<rparr>"

definition demoted :: dict where
  "demoted = [(''id'', JStr ''u1''), (''attributes'', JObj [(''team'', JStr ''lab''), (''aistudio_role'', JList [JStr ''viewer''])])]"

lemma role_change_touches_role_only_witness: "\<exists>rep. only_role_changed rep demoted ''viewer''"
proof -
  let ?run = "user known_user env_lab [] ''ann'' ''viewer'' [] True []"
  have "last (snd ?run) = \<lparr>rq_method = ''PUT'', rq_path = ''/users/u1'', rq_params = [], rq_body = Some demoted\<rparr> \<and> snd ?run \<noteq> []"
    by code_simp
  then have "\<lparr>rq_method = ''PUT'', rq_path = ''/users/u1'', rq_params = [], rq_body = Some demoted\<rparr> \<in> set (snd ?run)"
    by (metis last_in_set)
  from role_change_touches_role_only [OF this] show ?thesis by auto
qed

section \<open>The registration policies\<close>

lemma mapTool_member:
  assumes "mapTool f xs h = (Inr ys, h')" and "x \<in> set xs" and "\<And>x. sends (\<lambda>_. True) (f x)"
  shows "\<exists>h1 y h2. f x h1 = (Inr y, h2) \<and> prefix h2 h'"
  using assms(1,2)
proof (induction xs arbitrary: h ys)
  case (Cons z xs)
  obtain y h1 zs where y: "f z h = (Inr y, h1)" "mapTool f xs h1 = (Inr zs, h')"
    using Cons.prems(1) by (auto elim!: bindT_result simp: retT_def)
  have "prefix h1 h'" using sends_history [OF sends_mapTool y(2)] assms(3) by blast
  then show ?case using Cons y by auto
qed simp

lemma sends_apply_rules: "(\<And>p b. P \<lparr>rq_method = ''PUT'', rq_path = p, rq_params = [], rq_body = Some b\<rparr>) \<Longrightarrow> sends P (apply_rules kc rules policy)"
  by (induction kc rules policy rule: apply_rules.induct) (auto intro!: sends_rules)

lemma sends_restrict: "(\<And>p b. P \<lparr>rq_method = ''PUT'', rq_path = p, rq_params = [], rq_body = Some b\<rparr>) \<Longrightarrow> sends P (restrict_component kc j)"
  unfolding restrict_component_def by (cases j) (auto intro!: sends_rules sends_apply_rules)

text \<open>An update of a policy, sent to the component of its id, that sets the named settings to the wanted
values and keeps the others and everything else of the policy.\<close>

definition sets_config :: "keycloak \<Rightarrow> dict \<Rightarrow> dict \<Rightarrow> http_request \<Rightarrow> bool" where
  "sets_config kc policy change rq = (rq_method rq = ''PUT'' \<and>
     (\<exists>i. map_of policy ''id'' = Some i \<and> rq_path rq = ''/components/'' @ kc_str kc i) \<and>
     (\<exists>policy' old new. rq_body rq = Some policy' \<and> map_of policy ''config'' = Some (JObj old) \<and>
        map_of policy' ''config'' = Some (JObj new) \<and> (\<forall>k. k \<noteq> ''config'' \<longrightarrow> map_of policy' k = map_of policy k) \<and>
        (\<forall>k. map_of new k = (case map_of (rev change) k of None \<Rightarrow> map_of old k | Some v \<Rightarrow> Some v))))"

lemma restricted_sets: "restricted policy change = Inr policy' \<Longrightarrow> item policy' ''id'' = Inr i \<Longrightarrow>
    sets_config kc policy change \<lparr>rq_method = ''PUT'', rq_path = ''/components/'' @ kc_str kc i, rq_params = [], rq_body = Some policy'\<rparr>"
  by (auto simp: restricted_def sets_config_def bindE_def item_def map_of_dict_update split: sum.splits option.splits json.splits)

lemma apply_rules_put:
  "apply_rules kc rules policy h = (Inr (), h') \<Longrightarrow> distinct (map fst rules) \<Longrightarrow> (name, change) \<in> set rules \<Longrightarrow>
   map_of policy ''providerId'' = Some (JStr name) \<Longrightarrow> dict_get policy ''subType'' = JStr ''anonymous'' \<Longrightarrow>
   \<exists>rq \<in> set h'. sets_config kc policy change rq"
proof (induction rules arbitrary: h)
  case (Cons rule rules)
  obtain n c where rule: "rule = (n, c)" by (cases rule)
  have provider: "liftT (item policy ''providerId'') h = (Inr (JStr name), h)" using Cons.prems(4) by (simp add: item_def liftT_result)
  then have run: "(if rule_applies (JStr name) policy n then
       bindT (liftT (restricted policy c)) (\<lambda>policy. bindT (liftT (item policy ''id'')) (\<lambda>i.
       bindT (checked kc ''PUT'' (''/components/'' @ kc_str kc i) (Some policy)) (\<lambda>_. apply_rules kc rules policy)))
     else apply_rules kc rules policy) h = (Inr (), h')"
    using Cons.prems(1) rule by (auto elim!: bindT_result)
  show ?case
  proof (cases "n = name")
    case False
    then show ?thesis using Cons run rule by (auto simp: rule_applies_def)
  next
    case True
    then have c: "c = change" using Cons.prems(2,3) rule by (auto simp: image_iff)
    have applies: "rule_applies (JStr name) policy n" using True Cons.prems(5) by (simp add: rule_applies_def)
    obtain policy' i r h1 where p: "restricted policy change = Inr policy'" "item policy' ''id'' = Inr i"
      and put: "checked kc ''PUT'' (''/components/'' @ kc_str kc i) (Some policy') h = (Inr r, h1)"
      and rest: "apply_rules kc rules policy' h1 = (Inr (), h')"
      using run applies c by (auto elim!: bindT_result simp: liftT_result)
    let ?rq = "\<lparr>rq_method = ''PUT'', rq_path = ''/components/'' @ kc_str kc i, rq_params = [], rq_body = Some policy'\<rparr>"
    have "h1 = h @ [?rq]" using put unfolding checked_def by (auto elim!: bindT_result simp: call_web_def raise_for_status_def retT_def raiseT_def split: if_splits)
    moreover have "prefix h1 h'"
      by (rule sends_history [where P = "\<lambda>_. True" and m = "apply_rules kc rules policy'", OF _ rest]) (simp add: sends_apply_rules)
    ultimately have "?rq \<in> set h'" by (auto simp: prefix_def)
    then show ?thesis using restricted_sets [OF p] by blast
  qed
qed simp

text \<open>C35: a set-up that ends well has read the registration policies and sent, to the component of each
policy of anonymous clients whose provider it has a rule for, an update with the rule's settings,
all others kept: redirects to localhost only, and no mapper with a claim name of the client's
choice.\<close>

theorem set_up_restricts_registration:
  assumes "kc_setup kc f mappers fresh h = (Inr out, h')"
  shows "\<exists>h1 r policies. kc_answer kc (length h1) (get_request ''/components'' [(''type'', JStr POLICY_KIND)]) = Inr r \<and>
    prefix (h1 @ [get_request ''/components'' [(''type'', JStr POLICY_KIND)]]) h' \<and> bindE (hr_json r) elements = Inr policies \<and>
    (\<forall>policy name change. JObj policy \<in> set policies \<longrightarrow> (name, change) \<in> set REGISTRATION_RULES \<longrightarrow>
       map_of policy ''providerId'' = Some (JStr name) \<longrightarrow> dict_get policy ''subType'' = JStr ''anonymous'' \<longrightarrow>
       (\<exists>rq \<in> set h'. sets_config kc policy change rq))"
proof -
  obtain h1 j h2 policies units h3 printed where
    read: "get_json_kc kc ''/components'' [(''type'', JStr POLICY_KIND)] h1 = (Inr j, h2)" "elements j = Inr policies"
    and puts: "mapTool (restrict_component kc) policies h2 = (Inr units, h3)"
    and rest: "first_admin kc f fresh h3 = (Inr printed, h')"
    using assms unfolding kc_setup_def by (auto elim!: bindT_result simp: liftT_result retT_def)
  obtain r where r: "kc_answer kc (length h1) (get_request ''/components'' [(''type'', JStr POLICY_KIND)]) = Inr r" "hr_json r = Inr j"
    "h2 = h1 @ [get_request ''/components'' [(''type'', JStr POLICY_KIND)]]"
    using read(1) unfolding get_json_kc_def by (auto elim!: bindT_result simp: call_web_def liftT_result)
  have later: "prefix h3 h'"
    by (rule sends_history [where P = "\<lambda>_. True" and m = "first_admin kc f fresh", OF _ rest])
      (auto simp: first_admin_def user_def Let_def intro!: sends_rules split: prod.split)
  have restrict: "sends (\<lambda>_. True) (restrict_component kc x)" for x by (rule sends_restrict) simp
  have "prefix h2 h3" by (rule sends_history [where P = "\<lambda>_. True", OF sends_mapTool puts]) (rule restrict)
  then have "prefix h2 h'" using later by (rule prefix_order.trans)
  moreover have "\<exists>rq \<in> set h'. sets_config kc policy change rq"
    if p: "JObj policy \<in> set policies" and rule: "(name, change) \<in> set REGISTRATION_RULES"
      "map_of policy ''providerId'' = Some (JStr name)" "dict_get policy ''subType'' = JStr ''anonymous''" for policy name change
  proof -
    obtain ha y hb where one: "restrict_component kc (JObj policy) ha = (Inr y, hb)" "prefix hb h3"
      using mapTool_member [OF puts p restrict] by blast
    have "distinct (map fst REGISTRATION_RULES)" by (simp add: REGISTRATION_RULES_def)
    then obtain rq where rq: "rq \<in> set hb" "sets_config kc policy change rq"
      using apply_rules_put [of kc REGISTRATION_RULES policy ha hb name change] one(1) rule by (auto simp: restrict_component_def)
    have "set hb \<subseteq> set h'" using one(2) later by (meson order_trans set_mono_prefix)
    then show ?thesis using rq by blast
  qed
  ultimately show ?thesis using r read(2) by (intro exI [of _ h1] exI [of _ r] exI [of _ policies]) (simp add: bindE_def)
qed

definition lab_policy :: dict where
  "lab_policy = [(''id'', JStr ''p''), (''providerId'', JStr ''allowed-protocol-mappers''), (''subType'', JStr ''anonymous''),
     (''config'', JObj [(''allowed-protocol-mapper-types'', texts [''oidc-usermodel-attribute-mapper''])])]"

definition lab_answer :: "string \<Rightarrow> json" where
  "lab_answer path =
     (if path = ''/components'' then JList [JObj lab_policy]
      else if path = ''/users'' then JList [JObj [(''username'', JStr ''root'')]]
      else if path = ''/client-scopes'' \<or> path = ''/default-default-client-scopes'' then JList [JObj [(''name'', JStr SCOPE), (''id'', JStr ''s'')]]
      else JObj [(''access_token'', JStr ''t'')])"

definition lab_keycloak :: keycloak where
  "lab_keycloak = \<lparr>kc_answer = (\<lambda>n rq. json_answer (lab_answer (rq_path rq))), kc_rep = (\<lambda>_. [])\<rparr>"

definition lab_files :: kc_files where "lab_files = \<lparr>env_body = env_lab, admin_user = []\<rparr>"

lemma set_up_restricts_registration_witness:
  "\<exists>rq \<in> set (snd (kc_setup lab_keycloak lab_files (Inr JNull) [] [])).
     sets_config lab_keycloak lab_policy [(''allowed-protocol-mapper-types'', texts SAFE_MAPPERS)] rq"
proof -
  let ?run = "kc_setup lab_keycloak lab_files (Inr JNull) [] []"
  have "case fst ?run of Inl e \<Rightarrow> False | Inr out \<Rightarrow> True" by code_simp
  then obtain out where run: "?run = (Inr out, snd ?run)" by (cases "fst ?run") (auto simp: prod_eq_iff)
  obtain h1 :: "http_request list" and r policies where r: "kc_answer lab_keycloak (length h1) (get_request ''/components'' [(''type'', JStr POLICY_KIND)]) = Inr r"
    "bindE (hr_json r) elements = Inr policies"
    and all: "\<forall>policy name change. JObj policy \<in> set policies \<longrightarrow> (name, change) \<in> set REGISTRATION_RULES \<longrightarrow>
      map_of policy ''providerId'' = Some (JStr name) \<longrightarrow> dict_get policy ''subType'' = JStr ''anonymous'' \<longrightarrow>
      (\<exists>rq \<in> set (snd ?run). sets_config lab_keycloak policy change rq)"
    using set_up_restricts_registration [OF run] by (elim exE conjE) (rule that, assumption+)
  have "policies = [JObj lab_policy]"
    using r by (auto simp: lab_keycloak_def json_answer_def get_request_def lab_answer_def bindE_def)
  then show ?thesis
    using all [rule_format, of lab_policy "''allowed-protocol-mappers''"] by (simp add: REGISTRATION_RULES_def lab_policy_def dict_get_def)
qed

end
