(* ===== verification/Notices.thy ===== *)
theory Notices
  imports Gateway_Certs Gateway_Rules Http_Client Calendar
    "HOL-Library.Product_Lexorder" "HOL-Library.List_Lexorder" "HOL-Library.Char_ord"
begin

text \<open>
  \<open>scripts/generate_third_party_notices.py\<close>: the licence inventory of the pinned packages, written or
  checked. PyPI is the argument \<open>pypi\<close>, its answer to the n-th request of a run; a run keeps the
  requests it made. The files are a map from paths relative to the repository to texts. What goes to
  standard error and the pauses between attempts are left out.
\<close>

section \<open>The tables of the script\<close>

record notices_target =
  nt_requirements :: string
  nt_output :: string
  nt_title :: string
  nt_scope :: string

definition SERVER_TARGET :: notices_target where
  "SERVER_TARGET = \<lparr>nt_requirements = ''requirements.txt'', nt_output = ''THIRD-PARTY-NOTICES.md'',
     nt_title = ''aistudio-server'',
     nt_scope = ''This file covers the **server application** dependency tree only. It does'' @ nl @
       ''**not** cover:'' @ nl @ nl @
       ''- the distributed workload container images (`llminference`,'' @ nl @
       ''  `jupyternotebook`) '' @ u_dash @ '' see `sbom/` for their SBOMs,'' @ nl @
       ''  generated by `make sbom`;'' @ nl @
       ''- the optional MCP server (`mcp-server/`) '' @ u_dash @ '' see'' @ nl @
       ''  `mcp-server/THIRD-PARTY-NOTICES.md`, and `sbom/` for its image and the'' @ nl @
       ''  agentgateway, docker-socket-proxy and Keycloak images it runs with;'' @ nl @
       ''- model weights and datasets '' @ u_dash @ '' see `MODEL-LICENSES.md`.'' @ nl\<rparr>"

definition MCP_TARGET :: notices_target where
  "MCP_TARGET = \<lparr>nt_requirements = ''mcp-server/requirements.txt'', nt_output = ''mcp-server/THIRD-PARTY-NOTICES.md'',
     nt_title = ''aistudio MCP server'',
     nt_scope = ''This file covers the **MCP server** (`mcp-server/`, compose profile `mcp`)'' @ nl @
       ''Python dependency tree only. It does **not** cover:'' @ nl @ nl @
       ''- the server application '' @ u_dash @ '' see `../THIRD-PARTY-NOTICES.md`;'' @ nl @
       ''- the aistudio-mcp image'' @ [sq] @ ''s Debian packages (git, tcpdump, iproute2,'' @ nl @
       ''  iputils-ping, openssh-client) or the agentgateway, docker-socket-proxy,'' @ nl @
       ''  Keycloak images '' @ u_dash @ '' see `../sbom/`, generated by `make sbom-mcp`;'' @ nl @
       ''- browser binaries: the image installs the `playwright` package but never'' @ nl @
       ''  runs `playwright install`; `frontend_check` drives a browser you run'' @ nl @
       ''  separately (`BROWSER_CDP_URL`), under that browser'' @ [sq] @ ''s own licence.'' @ nl\<rparr>"

definition OFFLINE_AFTER :: nat where "OFFLINE_AFTER = 3"

definition CLASSIFIER_TO_SPDX :: "(string \<times> string) list" where
  "CLASSIFIER_TO_SPDX = [
     (''BSD License'', ''BSD-3-Clause''),
     (''MIT License'', ''MIT''),
     (''MIT No Attribution License (MIT-0)'', ''MIT-0''),
     (''Apache Software License'', ''Apache-2.0''),
     (''Mozilla Public License 2.0 (MPL 2.0)'', ''MPL-2.0''),
     (''GNU Library or Lesser General Public License (LGPL)'', ''LGPL-3.0-or-later''),
     (''GNU Lesser General Public License v2 (LGPLv2)'', ''LGPL-2.1''),
     (''Python Software Foundation License'', ''PSF-2.0''),
     (''ISC License (ISCL)'', ''ISC'')]"

definition RECIPROCAL_PREFIXES :: "string list" where
  "RECIPROCAL_PREFIXES = [''LGPL'', ''MPL'', ''GPL'', ''EPL'', ''CDDL'', ''EUPL'']"

definition RECIPROCAL_NOTES :: "(string \<times> string) list" where
  "RECIPROCAL_NOTES = [
     (''paramiko'',
        ''Used as an unmodified library, imported dynamically at runtime. LGPL-2.1 '' @
        ''Section 6 obligations (licence text + relinking ability) attach only when '' @
        ''CoreSpan conveys a copy. Satisfied by shipping the licence text and the '' @
        ''pinned version, which is installable from PyPI.''),
     (''psycopg2-binary'',
        ''LGPL-3.0-or-later with an OpenSSL linking exception. Same conveyance '' @
        ''analysis as paramiko. Note the -binary wheel also embeds libpq '' @
        ''(PostgreSQL Licence) and OpenSSL (Apache-2.0 for 3.x).''),
     (''certifi'',
        ''MPL-2.0 is file-level copyleft. Unmodified, so MPL Section 3.2 is '' @
        ''satisfied by shipping the licence text and pointing at the upstream '' @
        ''source. Do not patch the bundled CA bundle without re-reading Section 3.3.''),
     (''orjson'',
        ''MCP server only, pulled in by langsmith (via langchain-core). orjson itself '' @
        ''is Apache-2.0 OR MIT; the MPL-2.0 part is code it bundles, which ships in '' @
        ''the compiled wheel. Unmodified, so as for certifi: MPL Section 3.2 is '' @
        ''satisfied by shipping the licence texts the wheel carries (LICENSE-MPL-2.0 '' @
        ''among them) and pointing at the upstream source.'')]"

section \<open>Pins\<close>

definition pin_name_char :: "char \<Rightarrow> bool" where
  "pin_name_char c = (is_alnum c \<or> c \<in> set ''_.-'')"

definition pin_version_char :: "char \<Rightarrow> bool" where
  "pin_version_char c = (\<not> is_ws c \<and> c \<noteq> CHR '';'')"

text \<open>\<open>PIN_RE.match\<close>: the classes and what follows them are disjoint, so the greedy match is the only one.\<close>

definition pin_of :: "string \<Rightarrow> (string \<times> string) option" where
  "pin_of line =
     (let name = takeWhile pin_name_char line; rest = dropWhile pin_name_char line in
      if name = [] \<or> \<not> starts_with ''=='' rest then None
      else (case drop 2 rest of
          d # ds \<Rightarrow> if is_digit d then Some (name, d # takeWhile pin_version_char ds) else None
        | [] \<Rightarrow> None))"

text \<open>\<open>read_text\<close> turns every CR LF and every CR into a line feed.\<close>

fun universal_newlines :: "string \<Rightarrow> string" where
  "universal_newlines [] = []"
| "universal_newlines (c # cs) =
     (if c = CHR 0x0D then CHR 0x0A # (case cs of [] \<Rightarrow> []
        | d # ds \<Rightarrow> if d = CHR 0x0A then universal_newlines ds else universal_newlines (d # ds))
      else c # universal_newlines cs)"

definition parse_pins :: "string \<Rightarrow> string \<Rightarrow> cli_error + (string \<times> string) list" where
  "parse_pins path content =
     (let pins = List.map_filter (\<lambda>line. pin_of (py_strip line)) (py_splitlines (universal_newlines content)) in
      if pins = [] then Inl (System_exit (''error: no pinned requirements found in '' @ path)) else Inr pins)"

section \<open>The licence of a package\<close>

text \<open>A request is answered, or raises one of the two exceptions the script catches, or another one.\<close>

datatype pypi_answer = Body json | Unreachable string | Fatal exn

record notices_world =
  pypi :: "nat \<Rightarrow> string \<Rightarrow> pypi_answer"
  nw_str :: "json \<Rightarrow> string"
  nw_today :: int

type_synonym 'a lookup = "string list \<Rightarrow> (cli_error + 'a) \<times> string list"

definition bindL :: "'a lookup \<Rightarrow> ('a \<Rightarrow> 'b lookup) \<Rightarrow> 'b lookup" where
  "bindL m f h = (case m h of (Inl e, h') \<Rightarrow> (Inl e, h') | (Inr a, h') \<Rightarrow> f a h')"

definition retL :: "cli_error + 'a \<Rightarrow> 'a lookup" where "retL r h = (r, h)"

definition raised :: "exn + 'a \<Rightarrow> cli_error + 'a" where
  "raised r = (case r of Inl e \<Rightarrow> Inl (Raised e) | Inr a \<Rightarrow> Inr a)"

text \<open>\<open>json.load(response)["info"]\<close>: a KeyError counts as a failed attempt.\<close>

definition info_of :: "json \<Rightarrow> exn + json option" where
  "info_of j = (case j of
      JObj d \<Rightarrow> Inr (map_of d ''info'')
    | JList _ \<Rightarrow> Inl (TypeError ''list indices must be integers or slices, not str'')
    | _ \<Rightarrow> Inl (TypeError (quoted (type_name j) @ '' object is not subscriptable'')))"

text \<open>The attempts left, the text of the last error, and then the info or the last error.\<close>

fun fetch_info :: "notices_world \<Rightarrow> string \<Rightarrow> nat \<Rightarrow> string \<Rightarrow> (string + json) lookup" where
  "fetch_info w url 0 last_error h = (Inr (Inl last_error), h)"
| "fetch_info w url (Suc k) last_error h =
     (case pypi w (length h) url of
        Fatal e \<Rightarrow> (Inl (Raised e), h @ [url])
      | Unreachable e \<Rightarrow> fetch_info w url k e (h @ [url])
      | Body j \<Rightarrow> (case info_of j of
            Inl e \<Rightarrow> (Inl (Raised e), h @ [url])
          | Inr (Some i) \<Rightarrow> (Inr (Inr i), h @ [url])
          | Inr None \<Rightarrow> fetch_info w url k (quoted ''info'') (h @ [url])))"

lemma after_sub_shorter: "sep \<noteq> [] \<Longrightarrow> after_sub sep s = Some t \<Longrightarrow> length t < length s"
  by (induction sep s rule: after_sub.induct) (auto split: if_splits)

text \<open>\<open>c.split("::")[-1]\<close>.\<close>

function last_part :: "string \<Rightarrow> string" where
  "last_part s = (case after_sub ''::'' s of None \<Rightarrow> s | Some t \<Rightarrow> last_part t)"
  by auto
termination by (relation "measure length") (auto dest: after_sub_shorter [rotated])

definition classifier_text :: "json \<Rightarrow> exn + string option" where
  "classifier_text j = (case j of
      JStr c \<Rightarrow> Inr (if starts_with ''License ::'' c then Some (py_strip (last_part c)) else None)
    | _ \<Rightarrow> Inl (no_attribute j ''startswith''))"

definition info_items :: "json \<Rightarrow> string \<Rightarrow> exn + json list" where
  "info_items info k = (case info of
      JObj d \<Rightarrow> (case dict_get_or d k (JList []) of
          JList xs \<Rightarrow> Inr xs
        | JStr s \<Rightarrow> Inr (map (\<lambda>c. JStr [c]) s)
        | JObj e \<Rightarrow> Inr (map (\<lambda>(n, _). JStr n) e)
        | j \<Rightarrow> Inl (TypeError (quoted (type_name j) @ '' object is not iterable'')))
    | _ \<Rightarrow> Inl (no_attribute info ''get''))"

definition spdx :: "string \<Rightarrow> string" where
  "spdx c = (case map_of CLASSIFIER_TO_SPDX c of Some s \<Rightarrow> s | None \<Rightarrow> c)"

definition stripped :: "json \<Rightarrow> string \<Rightarrow> exn + string" where
  "stripped info k = bindE (json_get info k) (\<lambda>j. json_strip (json_or j (JStr [])))"

definition licence_of :: "json \<Rightarrow> exn + string" where
  "licence_of info =
     bindE (stripped info ''license_expression'') (\<lambda>expression.
     if expression \<noteq> [] then Inr expression else
     bindE (info_items info ''classifiers'') (\<lambda>items.
     bindE (mapE classifier_text items) (\<lambda>classifiers.
     let joined = py_join '' OR '' (first_of_each (map spdx (List.map_filter id classifiers))) in
     if joined \<noteq> [] then Inr joined else
     bindE (stripped info ''license'') (\<lambda>raw.
     Inr (if raw \<noteq> [] then take 60 (hd (py_splitlines raw)) else ''UNKNOWN'')))))"

definition homepage_of :: "notices_world \<Rightarrow> string \<Rightarrow> json \<Rightarrow> exn + string" where
  "homepage_of w name info =
     bindE (json_get info ''home_page'') (\<lambda>home.
     if truthy home then Inr (str_json (nw_str w) home) else
     bindE (json_get info ''project_urls'') (\<lambda>urls.
     bindE (json_get (json_or urls (JObj [])) ''Homepage'') (\<lambda>page.
     Inr (if truthy page then str_json (nw_str w) page else ''https://pypi.org/project/'' @ name @ ''/''))))"

definition fetch_licence :: "notices_world \<Rightarrow> string \<Rightarrow> string \<Rightarrow> (string \<times> string) lookup" where
  "fetch_licence w name version =
     bindL (fetch_info w (''https://pypi.org/pypi/'' @ name @ ''/'' @ version @ ''/json'') 3 ''None'') (\<lambda>r. case r of
        Inl last_error \<Rightarrow> retL (Inr (''LOOKUP-FAILED ('' @ last_error @ '')'', []))
      | Inr info \<Rightarrow> retL (raised (bindE (licence_of info) (\<lambda>expression.
          bindE (homepage_of w name info) (\<lambda>homepage. Inr (expression, homepage))))))"

definition is_reciprocal :: "string \<Rightarrow> bool" where
  "is_reciprocal expression = list_ex (\<lambda>p. starts_with p (py_upper expression)) RECIPROCAL_PREFIXES"

section \<open>The document\<close>

type_synonym licence_row = "string \<times> string \<times> string \<times> string"

definition u_middot :: string where "u_middot = [CHR 0xC2, CHR 0xB7]"

definition row_licence :: "licence_row \<Rightarrow> string" where "row_licence r = fst (snd (snd r))"

definition lookup_failed :: "licence_row \<Rightarrow> bool" where
  "lookup_failed r = starts_with ''LOOKUP-FAILED'' (row_licence r)"

text \<open>\<open>date.isoformat()\<close> of a day number.\<close>

definition iso_date :: "int \<Rightarrow> string" where
  "iso_date day = (case civil_date day of (y, m, d) \<Rightarrow>
     zero_pad 4 (show_nat y) @ ''-'' @ zero_pad 2 (show_nat m) @ ''-'' @ zero_pad 2 (show_nat d))"

definition heading_part :: "string \<Rightarrow> string" where
  "heading_part title = ''# Third-Party Notices '' @ u_dash @ '' '' @ title @ nl @
     ''Inventory of the third-party Python packages resolved by `requirements.txt`'' @ nl @
     ''(the pinned output of `uv pip compile requirements.in`).'' @ nl"

definition generated_line :: "int \<Rightarrow> licence_row list \<Rightarrow> string" where
  "generated_line today rows = ''Generated: '' @ iso_date today @ '' '' @ u_middot @ '' Packages: '' @
     show_nat (length rows) @ '' '' @ u_middot @ '' Reciprocal: '' @
     show_nat (length (filter (\<lambda>r. is_reciprocal (row_licence r)) rows))"

definition obligation_text :: "licence_row \<Rightarrow> string" where
  "obligation_text r = (case r of (name, version, expression, _) \<Rightarrow>
     nl @ ''### '' @ name @ '' '' @ version @ '' '' @ u_dash @ '' `'' @ expression @ ''`'' @ nl @
     (case map_of RECIPROCAL_NOTES name of
        Some note \<Rightarrow> nl @ note @ nl
      | None \<Rightarrow> nl @ ''Obligation review pending.'' @ nl))"

definition unresolved_text :: "licence_row \<Rightarrow> string" where
  "unresolved_text r = (case r of (name, version, expression, _) \<Rightarrow>
     ''- `'' @ name @ ''=='' @ version @ ''` '' @ u_dash @ '' '' @ expression @ nl)"

definition inventory_text :: "licence_row \<Rightarrow> string" where
  "inventory_text r = (case r of (name, version, expression, homepage) \<Rightarrow>
     ''| `'' @ name @ ''` | '' @ version @ '' | '' @ expression @
     (if is_reciprocal expression then '' '' @ u_warning else []) @ '' | '' @ homepage @ '' |'' @ nl)"

definition body_part :: "licence_row list \<Rightarrow> string \<Rightarrow> string" where
  "body_part rows scope =
     (let reciprocal = filter (\<lambda>r. is_reciprocal (row_licence r)) rows;
          unknown = filter (\<lambda>r. row_licence r = ''UNKNOWN'' \<or> lookup_failed r) rows in
      ''> Regenerate with `make third-party`. CI fails if this file drifts from'' @ nl @
      ''> `requirements.txt`. Do not edit the table by hand.'' @ nl @
      nl @ ''## Scope'' @ nl @ scope @
      nl @ ''## Redistribution obligations'' @ nl @
      (if reciprocal \<noteq> [] then
         ''The packages below carry notice or source-availability obligations that'' @ nl @
         ''survive redistribution of a **binary** artifact. If CoreSpan ships a'' @ nl @
         ''prebuilt server image, wheel, or installer containing them, the'' @ nl @
         ''corresponding licence text must travel with it and, for LGPL, users must'' @ nl @
         ''retain the ability to substitute their own build of the library.'' @ nl @
         concat (map obligation_text reciprocal)
       else nl @ ''None. Every dependency is permissively licensed.'' @ nl) @
      (if unknown \<noteq> [] then
         nl @ ''## Unresolved'' @ nl @
         nl @ ''These packages did not report a machine-readable licence. Resolve each'' @ nl @
         ''manually before the next release.'' @ nl @ nl @
         concat (map unresolved_text unknown)
       else []) @
      nl @ ''## Full inventory'' @ nl @ nl @
      ''| Package | Version | Licence | Project |'' @ nl @
      ''| --- | --- | --- | --- |'' @ nl @
      concat (map inventory_text (sort rows)) @
      nl @ ''---'' @ nl @ nl @ ''Licence strings are taken from each project'' @ [sq] @ ''s PyPI metadata '' @
      ''(`license_expression`, falling back to trove classifiers). Where a project'' @ [sq] @ ''s '' @
      ''metadata is ambiguous, the upstream LICENSE file governs.'' @ nl)"

definition render_notices :: "int \<Rightarrow> licence_row list \<Rightarrow> string \<Rightarrow> string \<Rightarrow> string" where
  "render_notices today rows title scope =
     heading_part title @ generated_line today rows @ nl @ body_part rows scope"

section \<open>The run\<close>

text \<open>Once \<open>OFFLINE_AFTER\<close> packages in a row failed, the rest is not looked up.\<close>

fun licence_rows :: "notices_world \<Rightarrow> (string \<times> string) list \<Rightarrow> bool \<Rightarrow> nat \<Rightarrow> licence_row list lookup" where
  "licence_rows w [] offline failures = retL (Inr [])"
| "licence_rows w ((name, version) # pins) offline failures =
     (if offline then
        bindL (licence_rows w pins offline failures) (\<lambda>rows.
        retL (Inr ((name, version, ''LOOKUP-FAILED (skipped: PyPI unreachable)'', []) # rows)))
      else
        bindL (fetch_licence w name version) (\<lambda>(expression, homepage).
        let failed = starts_with ''LOOKUP-FAILED'' expression;
            failures' = (if failed then failures + 1 else 0) in
        bindL (licence_rows w pins (failed \<and> failures' \<ge> OFFLINE_AFTER) failures') (\<lambda>rows.
        retL (Inr ((name, version, expression, homepage) # rows)))))"

definition without_date :: "string \<Rightarrow> string" where
  "without_date content = py_join nl (filter (\<lambda>l. \<not> starts_with ''Generated:'' l) (py_splitlines content))"

text \<open>What \<open>generate\<close> does with the rows: the exit code, the lines printed and the files.\<close>

definition finish_run ::
  "notices_world \<Rightarrow> bool \<Rightarrow> notices_target \<Rightarrow> licence_row list \<Rightarrow> files \<Rightarrow> nat \<times> string list \<times> files" where
  "finish_run w check t rows fs =
     (if filter lookup_failed rows \<noteq> [] \<and> check then (0, [], fs)
      else
        let rendered = render_notices (nw_today w) rows (nt_title t) (nt_scope t); shown = nt_output t in
        if check then
          (case fs (nt_output t) of
             None \<Rightarrow> (1, [''error: '' @ shown @ '' is missing. Run `make third-party`.''], fs)
           | Some content \<Rightarrow>
               if without_date (universal_newlines content) \<noteq> without_date rendered
               then (1, [''error: '' @ shown @ '' is out of date with '' @ nt_requirements t @
                 ''. Run `make third-party` and commit the result.''], fs)
               else (0, [shown @ '' is up to date ('' @ show_nat (length rows) @ '' packages).''], fs))
        else (0, [''wrote '' @ shown @ '' ('' @ show_nat (length rows) @ '' packages)''],
          fs(nt_output t \<mapsto> rendered)))"

definition generate ::
  "notices_world \<Rightarrow> bool \<Rightarrow> notices_target \<Rightarrow> files \<Rightarrow> (nat \<times> string list \<times> files) lookup" where
  "generate w check t fs =
     (case fs (nt_requirements t) of
        None \<Rightarrow> retL (Inl (Raised (OSError (''No such file or directory: '' @ nt_requirements t))))
      | Some content \<Rightarrow>
          bindL (retL (parse_pins (nt_requirements t) content)) (\<lambda>pins.
          bindL (licence_rows w pins False 0) (\<lambda>rows. retL (Inr (finish_run w check t rows fs)))))"

text \<open>\<open>main\<close> over the chosen targets: the worst exit code.\<close>

fun notices_main ::
  "notices_world \<Rightarrow> bool \<Rightarrow> notices_target list \<Rightarrow> files \<Rightarrow> (nat \<times> string list \<times> files) lookup" where
  "notices_main w check [] fs = retL (Inr (0, [], fs))"
| "notices_main w check (t # ts) fs =
     bindL (generate w check t fs) (\<lambda>(code, printed, fs').
     bindL (notices_main w check ts fs') (\<lambda>(code', printed', fs''). retL (Inr (max code code', printed @ printed', fs''))))"

section \<open>Lemmas\<close>

lemma splitlines_univ: "splitlines_acc acc (universal_newlines s) = splitlines_acc acc s"
proof (induction s arbitrary: acc rule: universal_newlines.induct)
  case (2 c cs)
  then show ?case by (auto simp: is_break_def split: list.splits)
qed simp

lemma without_date_read: "without_date (universal_newlines s) = without_date s"
  by (simp add: without_date_def py_splitlines_def splitlines_univ)

lemma splitlines_feed:
  "splitlines_acc acc (xs @ CHR 0x0A # ys) = splitlines_acc acc (xs @ [CHR 0x0A]) @ splitlines_acc [] ys"
proof (induction acc xs rule: splitlines_acc.induct)
  case (1 acc)
  then show ?case by (simp add: is_break_def)
next
  case (2 acc c cs)
  then show ?case by (cases cs) auto
qed

lemma splitlines_line:
  "list_all (\<lambda>c. \<not> is_break c) l \<Longrightarrow> splitlines_acc acc (l @ [CHR 0x0A]) = [rev acc @ l]"
proof (induction l arbitrary: acc)
  case (Cons c l)
  then have "c \<noteq> CHR 0x0D" by (auto simp: is_break_def)
  then show ?case using Cons by simp
qed (simp add: is_break_def)

lemma plain_chars: "is_digit c \<Longrightarrow> \<not> is_break c"
  by (auto simp: is_digit_def is_break_def Let_def)

lemma show_nat_plain [simp]: "list_all (\<lambda>c. \<not> is_break c) (show_nat n)"
  using show_nat_digits plain_chars by (auto simp: list_all_iff)

lemma zero_pad_plain [simp]: "list_all (\<lambda>c. \<not> is_break c) s \<Longrightarrow> list_all (\<lambda>c. \<not> is_break c) (zero_pad k s)"
  by (auto simp: zero_pad_def list_all_iff is_break_def)

lemma generated_line_plain: "list_all (\<lambda>c. \<not> is_break c) (generated_line today rows)"
  by (simp add: generated_line_def iso_date_def u_middot_def split: prod.split) (simp add: is_break_def)

lemma splitlines_cut:
  assumes "list_all (\<lambda>c. \<not> is_break c) l"
  shows "py_splitlines ((x @ nl) @ l @ nl @ y) = py_splitlines (x @ nl) @ [l] @ py_splitlines y"
  using splitlines_feed [of "[]" x "l @ nl @ y"] splitlines_feed [of "[]" l y] splitlines_line [OF assms, of "[]"]
  by (simp add: py_splitlines_def nl_def)

text \<open>Without its date line the document does not depend on the day.\<close>

lemma without_date_render_notices: "without_date (render_notices day rows title scope) = without_date (render_notices day' rows title scope)"
proof -
  obtain x where x: "heading_part title = x @ nl" by (simp add: heading_part_def)
  have g: "starts_with ''Generated:'' (generated_line d rows)" for d
    by (simp add: generated_line_def starts_with_def)
  have "filter (\<lambda>l. \<not> starts_with ''Generated:'' l) (py_splitlines (render_notices d rows title scope)) =
      filter (\<lambda>l. \<not> starts_with ''Generated:'' l) (py_splitlines (x @ nl) @ py_splitlines (body_part rows scope))" for d
    unfolding render_notices_def x splitlines_cut [OF generated_line_plain] using g by simp
  then show ?thesis by (simp add: without_date_def)
qed

text \<open>PyPI answers a request the same way each time.\<close>

definition stable :: "notices_world \<Rightarrow> bool" where
  "stable w = (\<forall>n m url. pypi w n url = pypi w m url)"

lemma fetch_info_stable:
  "stable w \<Longrightarrow> fst (fetch_info (w\<lparr>nw_today := d\<rparr>) url k e h) = fst (fetch_info w url k e h')"
proof (induction k arbitrary: e h h')
  case (Suc k)
  have "pypi w (length h) url = pypi w (length h') url" using Suc.prems by (simp add: stable_def)
  then show ?case using Suc by (simp split: pypi_answer.split sum.split option.split)
qed simp

lemma fst_bindL:
  assumes "\<And>h h'. fst (m h) = fst (m' h')" and "\<And>a h h'. fst (f a h) = fst (f' a h')"
  shows "fst (bindL m f h) = fst (bindL m' f' h')"
  using assms(1) [of h h'] assms(2) by (cases "m h"; cases "m' h'") (auto simp: bindL_def split: sum.split)

lemma homepage_today: "homepage_of (w\<lparr>nw_today := d\<rparr>) name info = homepage_of w name info"
  by (simp add: homepage_of_def cong: if_cong)

lemma fetch_licence_stable:
  assumes "stable w"
  shows "fst (fetch_licence (w\<lparr>nw_today := d\<rparr>) name version h) = fst (fetch_licence w name version h')"
  unfolding fetch_licence_def
  by (rule fst_bindL) (simp_all add: fetch_info_stable [OF assms] retL_def homepage_today split: sum.split)

lemma licence_rows_stable:
  assumes "stable w"
  shows "fst (licence_rows (w\<lparr>nw_today := d\<rparr>) pins off k h) = fst (licence_rows w pins off k h')"
proof (induction pins arbitrary: off k h h')
  case (Cons p pins)
  obtain n v where p: "p = (n, v)" by (cases p)
  have tail: "fst (bindL (licence_rows (w\<lparr>nw_today := d\<rparr>) pins off k) (\<lambda>rows. retL (Inr (r # rows))) h) =
      fst (bindL (licence_rows w pins off k) (\<lambda>rows. retL (Inr (r # rows))) h')" for off k r h h'
    by (rule fst_bindL) (simp_all add: Cons.IH retL_def)
  show ?case
  proof (cases off)
    case False
    then show ?thesis unfolding p licence_rows.simps Let_def
      by simp (rule fst_bindL, simp add: fetch_licence_stable [OF assms], simp add: tail split: prod.split)
  qed (simp add: p tail)
qed (simp add: retL_def)

lemma generate_result:
  assumes "generate w check t fs h = (Inr r, h')"
  shows "\<exists>content pins rows. fs (nt_requirements t) = Some content \<and> parse_pins (nt_requirements t) content = Inr pins \<and>
    licence_rows w pins False 0 h = (Inr rows, h') \<and> r = finish_run w check t rows fs"
  using assms by (auto simp: generate_def bindL_def retL_def split: option.splits sum.splits prod.splits)

lemma rows_pins:
  "licence_rows w pins off k h = (Inr rows, h') \<Longrightarrow> map (\<lambda>r. (fst r, fst (snd r))) rows = pins"
proof (induction pins arbitrary: off k h rows)
  case (Cons p pins)
  obtain n v where p: "p = (n, v)" by (cases p)
  show ?case using Cons.prems Cons.IH
    by (auto simp: p bindL_def retL_def Let_def split: sum.splits prod.splits if_splits)
qed (simp add: retL_def)

lemma after_sub_here: "after_sub p (p @ y) = Some y"
proof (cases "p @ y")
  case (Cons c cs)
  have "starts_with p (c # cs)" unfolding Cons [symmetric] by simp
  moreover have "drop (length p) (c # cs) = y" unfolding Cons [symmetric] by simp
  ultimately show ?thesis unfolding Cons by simp
qed simp

lemma contains_middle: "contains_sub p (x @ p @ y)"
proof (induction x)
  case Nil
  show ?case by (simp add: contains_sub_def after_sub_here)
next
  case (Cons c x)
  then show ?case by (auto simp: contains_sub_def)
qed

lemma contains_left: "contains_sub p y \<Longrightarrow> contains_sub p (x @ y)"
  by (metis contains_split contains_middle append.assoc)

lemma contains_right: "contains_sub p x \<Longrightarrow> contains_sub p (x @ y)"
  by (metis contains_split contains_middle append.assoc)

lemma inventory_row:
  assumes "(name, version, x, hp) \<in> set rows"
  shows "contains_sub (''| `'' @ name @ ''` | '' @ version @ '' | '') (concat (map inventory_text (sort rows)))"
proof -
  have row: "contains_sub (''| `'' @ name @ ''` | '' @ version @ '' | '') (inventory_text (name, version, x, hp))"
    using contains_middle [of "''| `'' @ name @ ''` | '' @ version @ '' | ''" "[]"]
    unfolding inventory_text_def prod.case append_Nil by (simp only: append_assoc)
  obtain xs ys where "sort rows = xs @ (name, version, x, hp) # ys" using assms by (metis set_sort split_list)
  then show ?thesis by (simp only: map_append concat_append list.map concat.simps) (intro contains_left contains_right row)
qed

text \<open>One failed package costs three requests.\<close>

lemma fetch_info_down:
  assumes "\<forall>n url. \<exists>e. pypi w n url = Unreachable e"
  shows "\<exists>e. fetch_info w url k e0 h = (Inr (Inl e), h @ replicate k url)"
proof (induction k arbitrary: e0 h)
  case (Suc k)
  obtain e where "pypi w (length h) url = Unreachable e" using assms by blast
  then show ?case using Suc.IH [of e "h @ [url]"] by (auto simp: replicate_append_same)
qed simp

lemma fetch_licence_down:
  assumes "\<forall>n url. \<exists>e. pypi w n url = Unreachable e"
  shows "\<exists>x h'. fetch_licence w name version h = (Inr (x, []), h') \<and> starts_with ''LOOKUP-FAILED'' x \<and>
     length h' = length h + 3"
  using fetch_info_down [OF assms, of "''https://pypi.org/pypi/'' @ name @ ''/'' @ version @ ''/json''" 3 "''None''" h]
  by (auto simp: fetch_licence_def bindL_def retL_def starts_with_def)

lemma licence_rows_down:
  assumes "\<forall>n url. \<exists>e. pypi w n url = Unreachable e"
  shows "\<exists>rows h'. licence_rows w pins False k h = (Inr rows, h') \<and> list_all lookup_failed rows \<and>
     length h' = length h + 3 * min (max 1 (3 - k)) (length pins)"
proof (induction pins arbitrary: k h)
  case (Cons p pins)
  obtain n v where p: "p = (n, v)" by (cases p)
  have skipped: "\<exists>rows. licence_rows w pins True k h = (Inr rows, h) \<and> list_all lookup_failed rows" for pins k h
    by (induction pins) (auto simp: retL_def bindL_def lookup_failed_def row_licence_def starts_with_def)
  obtain x h1 where x: "fetch_licence w n v h = (Inr (x, []), h1)" "starts_with ''LOOKUP-FAILED'' x" "length h1 = length h + 3"
    using fetch_licence_down [OF assms] by blast
  have f: "lookup_failed (n, v, x, [])" using x(2) by (simp add: lookup_failed_def row_licence_def)
  show ?case
  proof (cases "k + 1 \<ge> OFFLINE_AFTER")
    case True
    obtain rows where "licence_rows w pins True (k + 1) h1 = (Inr rows, h1)" "list_all lookup_failed rows" using skipped by blast
    then show ?thesis using True x f by (simp add: p bindL_def retL_def OFFLINE_AFTER_def)
  next
    case False
    obtain rows h2 where "licence_rows w pins False (k + 1) h1 = (Inr rows, h2)" "list_all lookup_failed rows"
      "length h2 = length h1 + 3 * min (max 1 (3 - (k + 1))) (length pins)" using Cons.IH by blast
    moreover have "k = 0 \<or> k = 1" using False by (auto simp: OFFLINE_AFTER_def)
    then have "3 + 3 * min (max 1 (3 - (k + 1))) (length pins) = 3 * min (max 1 (3 - k)) (Suc (length pins))" by auto
    ultimately show ?thesis using False x f by (simp add: p bindL_def retL_def OFFLINE_AFTER_def)
  qed
qed (simp add: retL_def)


section \<open>Properties\<close>

text \<open>C40: a document that was just written passes the check, on whatever day it runs, as long as PyPI
keeps its answers; the check changes no file.\<close>

theorem written_notices_pass_check:
  assumes "generate w False t fs h = (Inr (code, printed, fs'), h')" and "stable w"
    and "nt_output t \<noteq> nt_requirements t"
  shows "code = 0 \<and> (\<exists>printed' h''. generate (w\<lparr>nw_today := day\<rparr>) True t fs' h' = (Inr (0, printed', fs'), h''))"
proof -
  obtain content pins rows where 1: "fs (nt_requirements t) = Some content"
    "parse_pins (nt_requirements t) content = Inr pins" "licence_rows w pins False 0 h = (Inr rows, h')"
    and r: "(code, printed, fs') = finish_run w False t rows fs"
    using generate_result [OF assms(1)] by blast
  let ?w = "w\<lparr>nw_today := day\<rparr>"
  have fs': "fs' = fs(nt_output t \<mapsto> render_notices (nw_today w) rows (nt_title t) (nt_scope t))" and code: "code = 0"
    using r by (simp_all add: finish_run_def Let_def)
  obtain h'' where rows: "licence_rows ?w pins False 0 h' = (Inr rows, h'')"
    using licence_rows_stable [OF assms(2), of day pins False 0 h' h] 1(3) by (cases "licence_rows ?w pins False 0 h'") auto
  have "\<exists>printed'. finish_run ?w True t rows fs' = (0, printed', fs')"
    by (simp add: finish_run_def Let_def fs' without_date_read without_date_render_notices [of "nw_today w" _ _ _ day])
  then obtain printed' where "finish_run ?w True t rows fs' = (0, printed', fs')" ..
  moreover have "fs' (nt_requirements t) = Some content" using 1(1) assms(3) by (simp add: fs')
  ultimately have "generate ?w True t fs' h' = (Inr (0, printed', fs'), h'')"
    using 1(2) rows by (simp add: generate_def bindL_def retL_def)
  then show ?thesis using code by blast
qed

text \<open>every pinned package is in the inventory of the written document.\<close>

theorem every_pin_listed:
  assumes "generate w False t fs h = (Inr (code, printed, fs'), h')" and "fs (nt_requirements t) = Some content"
    and "parse_pins (nt_requirements t) content = Inr pins" and "(name, version) \<in> set pins"
  shows "\<exists>written. fs' (nt_output t) = Some written \<and>
    contains_sub (''| `'' @ name @ ''` | '' @ version @ '' | '') written"
proof -
  obtain rows where rows: "licence_rows w pins False 0 h = (Inr rows, h')"
    and r: "(code, printed, fs') = finish_run w False t rows fs"
    using generate_result [OF assms(1)] assms(2,3) by auto
  obtain x hp where x: "(name, version, x, hp) \<in> set rows"
    using rows_pins [OF rows] assms(4) by force
  then have i: "contains_sub (''| `'' @ name @ ''` | '' @ version @ '' | '') (concat (map inventory_text (sort rows)))"
    by (rule inventory_row)
  have "contains_sub (''| `'' @ name @ ''` | '' @ version @ '' | '') (render_notices day rows title scope)" for day title scope
    unfolding render_notices_def body_part_def Let_def append_assoc
    by ((rule contains_right, rule i) | rule contains_left)+
  then show ?thesis using r by (auto simp: finish_run_def Let_def)
qed

text \<open>when PyPI is down the run gives up after three packages, nine requests; the check then accepts
whatever is there, and the writing run replaces the document by one in which every lookup failed.\<close>

theorem outage_gives_up:
  assumes "\<forall>n url. \<exists>e. pypi w n url = Unreachable e" and "fs (nt_requirements t) = Some content"
    and "parse_pins (nt_requirements t) content = Inr pins"
  shows "\<exists>rows printed h'. generate w check t fs h = (Inr (0, printed,
        if check then fs else fs(nt_output t \<mapsto> render_notices (nw_today w) rows (nt_title t) (nt_scope t))), h') \<and>
     list_all lookup_failed rows \<and> map (\<lambda>r. (fst r, fst (snd r))) rows = pins \<and>
     length h' = length h + 3 * min 3 (length pins)"
proof -
  obtain rows h' where rows: "licence_rows w pins False 0 h = (Inr rows, h')" "list_all lookup_failed rows"
    "length h' = length h + 3 * min (max 1 (3 - 0)) (length pins)"
    using licence_rows_down [OF assms(1)] by blast
  have "pins \<noteq> []" using assms(3) by (auto simp: parse_pins_def Let_def split: if_splits)
  then have "rows \<noteq> []" using rows_pins [OF rows(1)] by auto
  then have "filter lookup_failed rows \<noteq> []" using rows(2) by (cases rows) auto
  then have "\<exists>printed. finish_run w check t rows fs = (0, printed,
      if check then fs else fs(nt_output t \<mapsto> render_notices (nw_today w) rows (nt_title t) (nt_scope t)))"
    by (simp add: finish_run_def Let_def)
  then obtain printed where "finish_run w check t rows fs = (0, printed,
      if check then fs else fs(nt_output t \<mapsto> render_notices (nw_today w) rows (nt_title t) (nt_scope t)))" ..
  then show ?thesis using rows rows_pins [OF rows(1)] assms(2,3)
    by (intro exI [of _ rows] exI [of _ printed] exI [of _ h']) (simp add: generate_def bindL_def retL_def)
qed

definition sample_pypi :: notices_world where
  "sample_pypi = \<lparr>
     pypi = (\<lambda>_ _. Body (JObj [(''info'', JObj [(''license_expression'', JStr '' MIT ''), (''home_page'', JStr ''https://amqp.dev'')])])),
     nw_str = (\<lambda>_. []), nw_today = 20671\<rparr>"

definition sample_requirements :: string where
  "sample_requirements = ''# by uv'' @ nl @ ''amqp==5.3.1'' @ nl @ ''    # via kombu'' @ nl @ ''celery==5.6.3'' @ nl"

definition sample_pins :: files where "sample_pins = [''requirements.txt'' \<mapsto> sample_requirements]"

lemma sample_parsed:
  "parse_pins ''requirements.txt'' sample_requirements = Inr [(''amqp'', ''5.3.1''), (''celery'', ''5.6.3'')]"
  by code_simp

lemma sample_licence: "fetch_licence sample_pypi n v h =
    (Inr (''MIT'', ''https://amqp.dev''), h @ [''https://pypi.org/pypi/'' @ n @ ''/'' @ v @ ''/json''])"
proof -
  have s: "py_strip '' MIT '' = ''MIT''" by code_simp
  show ?thesis
    by (simp add: fetch_licence_def bindL_def retL_def numeral_3_eq_3 sample_pypi_def info_of_def licence_of_def stripped_def
        json_get_def dict_get_def json_strip_def json_or_def bindE_def homepage_of_def raised_def str_json_def s)
qed

lemma sample_generated:
  "\<exists>printed fs h. generate sample_pypi False SERVER_TARGET sample_pins [] = (Inr (0, printed, fs), h)"
  using sample_parsed
  by (simp add: generate_def bindL_def retL_def SERVER_TARGET_def sample_pins_def sample_licence starts_with_def
      finish_run_def Let_def)

lemma written_notices_pass_check_witness:
  "\<exists>printed fs h printed' h'. generate sample_pypi False SERVER_TARGET sample_pins [] = (Inr (0, printed, fs), h) \<and>
     generate (sample_pypi\<lparr>nw_today := 20700\<rparr>) True SERVER_TARGET fs h = (Inr (0, printed', fs), h')"
proof -
  obtain printed fs h where g: "generate sample_pypi False SERVER_TARGET sample_pins [] = (Inr (0, printed, fs), h)"
    using sample_generated by blast
  have "stable sample_pypi" "nt_output SERVER_TARGET \<noteq> nt_requirements SERVER_TARGET"
    by (simp_all add: stable_def sample_pypi_def SERVER_TARGET_def)
  from written_notices_pass_check [OF g this, of 20700] g show ?thesis by blast
qed

lemma every_pin_listed_witness:
  "\<exists>printed fs h written. generate sample_pypi False SERVER_TARGET sample_pins [] = (Inr (0, printed, fs), h) \<and>
     fs (nt_output SERVER_TARGET) = Some written \<and> contains_sub ''| `celery` | 5.6.3 | '' written"
proof -
  obtain printed fs h where g: "generate sample_pypi False SERVER_TARGET sample_pins [] = (Inr (0, printed, fs), h)"
    using sample_generated by blast
  have p: "nt_requirements SERVER_TARGET = ''requirements.txt''" by (simp add: SERVER_TARGET_def)
  have "sample_pins (nt_requirements SERVER_TARGET) = Some sample_requirements" by (simp add: p sample_pins_def)
  from every_pin_listed [OF g this, unfolded p, OF sample_parsed, of "''celery''" "''5.6.3''"] g show ?thesis by auto
qed

definition outage_world :: notices_world where
  "outage_world = sample_pypi\<lparr>pypi := (\<lambda>_ _. Unreachable ''timed out'')\<rparr>"

lemma outage_gives_up_witness:
  "\<exists>rows printed h. generate outage_world False SERVER_TARGET sample_pins [] =
       (Inr (0, printed, sample_pins(nt_output SERVER_TARGET \<mapsto>
         render_notices 20671 rows (nt_title SERVER_TARGET) (nt_scope SERVER_TARGET))), h) \<and>
     list_all lookup_failed rows \<and> length h = 6"
proof -
  have p: "nt_requirements SERVER_TARGET = ''requirements.txt''" by (simp add: SERVER_TARGET_def)
  have c: "sample_pins (nt_requirements SERVER_TARGET) = Some sample_requirements" by (simp add: p sample_pins_def)
  have d: "\<forall>n url. \<exists>e. pypi outage_world n url = Unreachable e" by (simp add: outage_world_def)
  have s: "parse_pins (nt_requirements SERVER_TARGET) sample_requirements = Inr [(''amqp'', ''5.3.1''), (''celery'', ''5.6.3'')]"
    unfolding p by (rule sample_parsed)
  have "nw_today outage_world = 20671" by (simp add: outage_world_def sample_pypi_def)
  then show ?thesis
    using outage_gives_up [of outage_world sample_pins SERVER_TARGET sample_requirements
        "[(''amqp'', ''5.3.1''), (''celery'', ''5.6.3'')]" False "[]"] d c s by auto
qed

end
