(* ===== verification/Model_Access.thy ===== *)
theory Model_Access
  imports Http_Client "HOL-Library.Product_Lexorder" "HOL-Library.List_Lexorder" "HOL-Library.Char_ord"
begin

text \<open>
  \<open>scripts/check_model_access.py\<close>: which of the models the repository names are gated, under which
  licence, and whether a token opens them. The Hugging Face hub is the argument \<open>hub\<close>: its answer to
  a URL requested with or without a token; a run asks each URL once. The files are arguments: the
  catalogue's JSON, if it is there, and the scripts below \<open>benchmarks\<close> in the order of their paths.
\<close>

section \<open>The models\<close>

type_synonym found_models = "(string \<times> string list) list"

text \<open>\<open>found.setdefault(model, []).append(place)\<close>.\<close>

fun note_model :: "string \<Rightarrow> string \<Rightarrow> found_models \<Rightarrow> found_models" where
  "note_model m place [] = [(m, [place])]"
| "note_model m place ((m', places) # found) =
     (if m' = m then (m', places @ [place]) # found else (m', places) # note_model m place found)"

text \<open>\<open>MODEL_RE.findall\<close>: the text between the quotes, which is not empty and may hold line breaks.\<close>

definition model_mark :: string where "model_mark = ''MODEL='' @ dq"

function models_in :: "string \<Rightarrow> string list" where
  "models_in [] = []"
| "models_in (c # cs) =
     (let rest = drop (length model_mark) (c # cs);
          name = takeWhile (\<lambda>x. [x] \<noteq> dq) rest; after = dropWhile (\<lambda>x. [x] \<noteq> dq) rest in
      if starts_with model_mark (c # cs) \<and> name \<noteq> [] \<and> after \<noteq> [] then name # models_in (tl after)
      else models_in cs)"
  by pat_completeness auto
termination
proof (relation "measure length")
  fix c :: char and cs rest name after
  assume "rest = drop (length model_mark) (c # cs)" and "after = dropWhile (\<lambda>x. [x] \<noteq> dq) rest"
    and "starts_with model_mark (c # cs) \<and> name \<noteq> [] \<and> after \<noteq> []"
  moreover have "length (dropWhile (\<lambda>x. [x] \<noteq> dq) rest) \<le> length rest" by (rule length_dropWhile_le)
  ultimately show "(tl after, c # cs) \<in> measure length" by (auto simp: model_mark_def)
qed auto

text \<open>The repository of a catalogue entry. One that is no text does not sort with the others.\<close>

definition hf_repo :: "json \<Rightarrow> exn + string option" where
  "hf_repo entry = bindE (json_get entry ''hf_repo'') (\<lambda>j. case j of
      JStr s \<Rightarrow> Inr (if s = [] then None else Some s)
    | _ \<Rightarrow> if truthy j then Inl (TypeError ''<'') else Inr None)"

definition catalog_repos :: "json option \<Rightarrow> exn + string list" where
  "catalog_repos catalog = (case catalog of
      None \<Rightarrow> Inr []
    | Some (JObj d) \<Rightarrow> (case dict_get_or d ''supported_models'' (JList []) of
          JList entries \<Rightarrow> bindE (mapE hf_repo entries) (\<lambda>rs. Inr (List.map_filter id rs))
        | j \<Rightarrow> Inl (TypeError (quoted (type_name j) @ '' object is not iterable'')))
    | Some j \<Rightarrow> Inl (no_attribute j ''get''))"

definition collect_models :: "json option \<Rightarrow> (string \<times> string) list \<Rightarrow> exn + found_models" where
  "collect_models catalog scripts =
     bindE (catalog_repos catalog) (\<lambda>repos.
     let found = fold (\<lambda>r. note_model r ''catalog.json'') repos [] in
     Inr (fold (\<lambda>(path, content). fold (\<lambda>m. note_model m path) (models_in content)) scripts found))"

section \<open>The hub\<close>

text \<open>An answer, one of the failures the script handles, or another exception.\<close>

datatype hub_answer = Hub_json json | Http_error nat | Url_error string | Hub_raises exn

type_synonym hub = "string \<Rightarrow> string option \<Rightarrow> hub_answer"

definition model_url :: "string \<Rightarrow> string" where "model_url m = ''https://huggingface.co/api/models/'' @ m"
definition probe_url :: "string \<Rightarrow> string" where "probe_url m = ''https://huggingface.co/'' @ m @ ''/resolve/main/config.json''"

text \<open>An empty token counts as none.\<close>

definition used_token :: "string option \<Rightarrow> string option" where
  "used_token t = (case t of Some [] \<Rightarrow> None | _ \<Rightarrow> t)"

definition hub_query :: "hub \<Rightarrow> string \<Rightarrow> string option \<Rightarrow> exn + json" where
  "hub_query hub m token = (case hub (model_url m) (used_token token) of
      Hub_json j \<Rightarrow> Inr j
    | Http_error code \<Rightarrow> Inr (JObj [(''_error'', JStr (''HTTP '' @ show_nat code))])
    | Url_error e \<Rightarrow> Inr (JObj [(''_error'', JStr e)])
    | Hub_raises e \<Rightarrow> Inl e)"

text \<open>\<open>"_error" in data\<close>, where data is what the hub documents, an object.\<close>

definition has_error :: "json \<Rightarrow> exn + bool" where
  "has_error j = (case j of
      JObj d \<Rightarrow> Inr (map_of d ''_error'' \<noteq> None)
    | JList xs \<Rightarrow> Inr (JStr ''_error'' \<in> set xs)
    | JStr s \<Rightarrow> Inr (contains_sub ''_error'' s)
    | _ \<Rightarrow> Inl (TypeError (''argument of type '' @ quoted (type_name j) @ '' is not iterable'')))"

definition error_item :: "json \<Rightarrow> exn + json" where
  "error_item j = (case j of
      JObj d \<Rightarrow> Inr (dict_get d ''_error'')
    | JList _ \<Rightarrow> Inl (TypeError ''list indices must be integers or slices, not str'')
    | _ \<Rightarrow> Inl (TypeError (''string indices must be integers, not '' @ quoted ''str'')))"

text \<open>\<open>gate in (False, None)\<close>: zero equals False.\<close>

definition is_open :: "json \<Rightarrow> bool" where
  "is_open gate = (gate \<in> {JNull, JBool False, JInt 0, JFloat 0})"

definition pad_to :: "nat \<Rightarrow> string \<Rightarrow> string" where
  "pad_to k s = s @ replicate (k - length s) CHR '' ''"

text \<open>The probe of a gated model's file: whether it counts as a failure, and the line.\<close>

definition access_probe :: "hub \<Rightarrow> string \<Rightarrow> string option \<Rightarrow> exn + bool \<times> string list" where
  "access_probe hub m token = (case hub (probe_url m) token of
      Hub_json _ \<Rightarrow> Inr (False, [])
    | Http_error code \<Rightarrow> Inr (True, [pad_to 52 [] @ '' -> ACCESS DENIED with supplied token (HTTP '' @ show_nat code @ '')''])
    | Url_error e \<Rightarrow> Inr (False, [pad_to 52 [] @ '' -> access probe failed: '' @ e])
    | Hub_raises e \<Rightarrow> Inl e)"

text \<open>One model: the failures it adds, whether it is gated, and its lines.\<close>

definition check_model :: "hub \<Rightarrow> (json \<Rightarrow> string) \<Rightarrow> string option \<Rightarrow> string \<Rightarrow> exn + nat \<times> bool \<times> string list" where
  "check_model hub rep token m =
     bindE (hub_query hub m token) (\<lambda>data.
     bindE (has_error data) (\<lambda>failed.
     if failed then
       bindE (error_item data) (\<lambda>e.
       Inr (1, False, [pad_to 52 m @ '' '' @ pad_to 10 ''?'' @ '' lookup failed: '' @ str_json rep e]))
     else
       bindE (json_get data ''gated'') (\<lambda>gate.
       bindE (json_get data ''cardData'') (\<lambda>card.
       bindE (as_dict (json_or card (JObj []))) (\<lambda>fields.
       let line = pad_to 52 m @ '' '' @ pad_to 10 (if is_open gate then ''no'' else str_json rep gate) @ '' '' @
             str_json rep (dict_get_or fields ''license'' (JStr ''unstated'')) in
       if is_open gate \<or> used_token token = None then Inr (0, \<not> is_open gate, [line])
       else bindE (access_probe hub m token) (\<lambda>(denied, more_lines).
         Inr (if denied then 1 else 0, True, line # more_lines)))))))"

fun check_models :: "hub \<Rightarrow> (json \<Rightarrow> string) \<Rightarrow> string option \<Rightarrow> found_models \<Rightarrow> exn + nat \<times> found_models \<times> string list" where
  "check_models hub rep token [] = Inr (0, [], [])"
| "check_models hub rep token ((m, places) # found) =
     bindE (check_model hub rep token m) (\<lambda>(failures, gated, lines).
     bindE (check_models hub rep token found) (\<lambda>(failures', gated', lines').
     Inr (failures + failures', (if gated then [(m, places)] else []) @ gated', lines @ lines')))"

text \<open>\<open>dict.fromkeys\<close> keeps the first of equal places.\<close>

definition gated_report :: "found_models \<Rightarrow> string list" where
  "gated_report gated = (if gated = [] then [] else
     [nl @ ''Gated models require HF_TOKEN on the GPU node. Referenced from:''] @
     concat (map (\<lambda>(m, places). (''  '' @ m) # map (\<lambda>p. ''    - '' @ p) (rev (remdups (rev places)))) gated) @
     [nl @ ''See MODEL-LICENSES.md.''])"

text \<open>\<open>main\<close>: the exit code and the lines printed. The models are listed in order.\<close>

definition access_main ::
  "hub \<Rightarrow> (json \<Rightarrow> string) \<Rightarrow> string option \<Rightarrow> json option \<Rightarrow> (string \<times> string) list \<Rightarrow> exn + nat \<times> string list" where
  "access_main hub rep token catalog scripts =
     bindE (collect_models catalog scripts) (\<lambda>found.
     if found = [] then Inr (1, [''No models found in catalog.json or benchmarks/.''])
     else bindE (check_models hub rep token (sort found)) (\<lambda>(failures, gated, lines).
       Inr (if failures \<noteq> 0 then 1 else 0,
         [pad_to 52 ''MODEL'' @ '' '' @ pad_to 10 ''GATED'' @ '' LICENCE'', replicate 90 CHR ''-''] @ lines @
         gated_report gated @
         (if used_token token = None
          then [nl @ ''Run again with --token $HF_TOKEN to verify the token actually has access.''] else []))))"

section \<open>Lemmas\<close>

text \<open>The lookup found the model; a probe with a token was refused.\<close>

definition resolved :: "hub \<Rightarrow> string option \<Rightarrow> string \<Rightarrow> bool" where
  "resolved hub token m = (\<exists>d. hub (model_url m) (used_token token) = Hub_json (JObj d) \<and> map_of d ''_error'' = None)"

definition denied :: "hub \<Rightarrow> string option \<Rightarrow> string \<Rightarrow> bool" where
  "denied hub token m = (used_token token \<noteq> None \<and>
     (\<exists>d. hub (model_url m) (used_token token) = Hub_json (JObj d) \<and> \<not> is_open (dict_get d ''gated'')) \<and>
     (\<exists>code. hub (probe_url m) token = Http_error code))"

lemma check_model_failures:
  assumes "check_model hub rep token m = Inr (failures, gated, lines)"
  shows "failures = 0 \<longleftrightarrow> resolved hub token m \<and> \<not> denied hub token m"
  using assms
  by (auto simp: check_model_def hub_query_def has_error_def bindE_def json_get_def error_item_def access_probe_def resolved_def
      denied_def Let_def split: hub_answer.splits sum.splits json.splits if_splits)

lemma check_models_failures:
  "check_models hub rep token found = Inr (failures, gated, lines) \<Longrightarrow>
     failures = 0 \<longleftrightarrow> (\<forall>(m, places) \<in> set found. resolved hub token m \<and> \<not> denied hub token m)"
proof (induction found arbitrary: failures gated lines)
  case (Cons x found)
  obtain m places where x: "x = (m, places)" by (cases x)
  obtain f g l f' g' l' where "check_model hub rep token m = Inr (f, g, l)"
    "check_models hub rep token found = Inr (f', g', l')" "failures = f + f'"
    using Cons.prems by (auto simp: x bindE_def split: sum.splits)
  then show ?case using check_model_failures Cons.IH by (auto simp: x)
qed simp

text \<open>the exit code is 0 exactly when there are models and each of them was found and, with a token,
not refused; the failure of a probe to get an answer does not count.\<close>

theorem access_exit_code:
  assumes "access_main hub rep token catalog scripts = Inr (code, lines)"
  shows "\<exists>found. collect_models catalog scripts = Inr found \<and> code \<le> 1 \<and>
    (code = 0 \<longleftrightarrow> found \<noteq> [] \<and> (\<forall>(m, places) \<in> set found. resolved hub token m \<and> \<not> denied hub token m))"
proof -
  obtain found where found: "collect_models catalog scripts = Inr found"
    using assms by (auto simp: access_main_def bindE_def split: sum.splits)
  show ?thesis
  proof (cases "found = []")
    case True
    then show ?thesis using assms found by (simp add: access_main_def bindE_def)
  next
    case False
    then obtain f g l where "check_models hub rep token (sort found) = Inr (f, g, l)" "code = (if f \<noteq> 0 then 1 else 0)"
      using assms found by (auto simp: access_main_def bindE_def split: sum.splits)
    then show ?thesis using check_models_failures found False by fastforce
  qed
qed

definition sample_hub :: hub where
  "sample_hub url token = (if url = probe_url ''meta/llama'' then Http_error 403
     else Hub_json (JObj [(''gated'', JStr ''manual'')]))"

definition sample_script :: string where "sample_script = ''MODEL='' @ dq @ ''meta/llama'' @ dq"

lemma sample_run:
  "(case access_main sample_hub (\<lambda>_. []) (Some ''hf_x'') None [(''run.sh'', sample_script)] of Inr _ \<Rightarrow> True | Inl _ \<Rightarrow> False)"
  by code_simp

lemma access_exit_code_witness:
  "\<exists>lines. access_main sample_hub (\<lambda>_. []) (Some ''hf_x'') None [(''run.sh'', sample_script)] = Inr (1, lines) \<and>
     denied sample_hub (Some ''hf_x'') ''meta/llama''"
proof -
  have c: "collect_models None [(''run.sh'', sample_script)] = Inr [(''meta/llama'', [''run.sh''])]" by code_simp
  have d: "denied sample_hub (Some ''hf_x'') ''meta/llama''"
    by (simp add: denied_def sample_hub_def used_token_def is_open_def dict_get_def probe_url_def model_url_def)
  obtain code lines where m: "access_main sample_hub (\<lambda>_. []) (Some ''hf_x'') None [(''run.sh'', sample_script)] = Inr (code, lines)"
    using sample_run by (auto split: sum.splits)
  from access_exit_code [OF m] have "code \<le> 1" "code \<noteq> 0" using c d by auto
  then have "code = 1" by simp
  then show ?thesis using m d by blast
qed

end
