(* ===== verification/Web_App.thy ===== *)
theory Web_App
  imports System_Api Actions
begin

text \<open>
  \<open>app/main.py\<close>: which endpoint a request reaches, and what the application adds to its response. The
  routes are those the routers' decorators declare, in the order the routers are included; they are
  matched as Starlette documents it: the first route whose path and method match, where a parameter
  takes one segment that is not empty. The documentation pages FastAPI adds, CORS headers and the
  answer FastAPI makes of an HTTPException (the argument http_handler) are the library's.
\<close>

section \<open>Routes\<close>

record route =
  ro_method :: string
  ro_path :: string
  ro_endpoint :: string

definition routes_of :: "(string \<times> string \<times> string) list \<Rightarrow> route list" where
  "routes_of rs = map (\<lambda>(m, p, e). \<lparr>ro_method = m, ro_path = p, ro_endpoint = e\<rparr>) rs"

definition SYSTEM_ROUTES :: "route list" where
  "SYSTEM_ROUTES = routes_of [
     (''GET'', ''/health/live'', ''liveness_check''),
     (''GET'', ''/health/ready'', ''readiness_check''),
     (''GET'', ''/health'', ''health_check''),
     (''GET'', ''/api/v1/models/config'', ''get_model_config''),
     (''GET'', ''/api/v1/workload-types'', ''list_workload_types'')]"

definition INGEST_ROUTES :: "route list" where
  "INGEST_ROUTES = routes_of [(''POST'', ''/api/v1/metrics'', ''ingest_metrics'')]"

definition BENCHMARKS_ROUTES :: "route list" where
  "BENCHMARKS_ROUTES = routes_of [
     (''POST'', ''/api/v1/benchmarks/start'', ''start_benchmark''),
     (''GET'', ''/api/v1/benchmarks/{task_id}/status'', ''get_benchmark_status''),
     (''GET'', ''/api/v1/benchmarks/{task_id}/logs/stream'', ''stream_benchmark_logs'')]"

definition RESULTS_ROUTES :: "route list" where
  "RESULTS_ROUTES = routes_of [
     (''GET'', ''/api/v1/benchmarks'', ''list_benchmarks''),
     (''GET'', ''/api/v1/benchmarks/compare'', ''compare_benchmarks''),
     (''GET'', ''/api/v1/benchmarks/{run_id}'', ''get_benchmark''),
     (''DELETE'', ''/api/v1/benchmarks/bulk'', ''delete_benchmarks_bulk''),
     (''DELETE'', ''/api/v1/benchmarks/filter'', ''delete_benchmarks_by_filter''),
     (''DELETE'', ''/api/v1/benchmarks/all'', ''delete_all_benchmarks''),
     (''DELETE'', ''/api/v1/benchmarks/{run_id}'', ''delete_benchmark''),
     (''GET'', ''/api/v1/models'', ''list_models''),
     (''GET'', ''/api/v1/gpu-types'', ''list_gpu_types''),
     (''GET'', ''/api/v1/servers'', ''list_servers''),
     (''GET'', ''/api/v1/nodes'', ''list_nodes''),
     (''GET'', ''/api/v1/concurrencies'', ''list_concurrencies''),
     (''GET'', ''/api/v1/precisions'', ''list_precisions''),
     (''GET'', ''/api/v1/input-tokens'', ''list_input_tokens''),
     (''GET'', ''/api/v1/output-tokens'', ''list_output_tokens''),
     (''GET'', ''/api/v1/summary'', ''get_summary'')]"

definition GPU_ROUTES :: "route list" where
  "GPU_ROUTES = routes_of [
     (''GET'', ''/api/v1/gpu-specs'', ''list_gpu_specs''),
     (''GET'', ''/api/v1/gpu-specs/{gpu_type}'', ''get_gpu_spec''),
     (''POST'', ''/api/v1/gpu-specs'', ''upsert_gpu_spec'')]"

definition JUPYTER_ROUTES :: "route list" where
  "JUPYTER_ROUTES = routes_of [
     (''GET'', ''/api/v1/jupyter/assistant'', ''get_jupyter_assistant''),
     (''GET'', ''/api/v1/jupyter/assistant/health'', ''check_assistant_health''),
     (''GET'', ''/api/v1/jupyter/instances'', ''list_jupyter_instances''),
     (''POST'', ''/api/v1/jupyter/persistent'', ''set_persistent_jupyter''),
     (''POST'', ''/api/v1/jupyter/launch'', ''launch_jupyter''),
     (''GET'', ''/api/v1/jupyter/instances/{task_id}/status'', ''get_jupyter_instance_status''),
     (''GET'', ''/api/v1/jupyter/instances/{task_id}/logs/stream'', ''stream_jupyter_logs''),
     (''DELETE'', ''/api/v1/jupyter/instances/{task_id}'', ''delete_jupyter_instance''),
     (''GET'', ''/api/v1/jupyter/instances/{task_id}/health'', ''check_instance_health'')]"

definition ROUTES :: "route list" where
  "ROUTES = SYSTEM_ROUTES @ INGEST_ROUTES @ BENCHMARKS_ROUTES @ RESULTS_ROUTES @ GPU_ROUTES @ JUPYTER_ROUTES"

fun match_parts :: "string list \<Rightarrow> string list \<Rightarrow> (string \<times> string) list option" where
  "match_parts [] [] = Some []"
| "match_parts (p # ps) (s # ss) =
     (if starts_with ''{'' p
      then if s = [] then None else map_option ((#) (butlast (tl p), s)) (match_parts ps ss)
      else if p = s then match_parts ps ss else None)"
| "match_parts _ _ = None"

definition match_path :: "string \<Rightarrow> string \<Rightarrow> (string \<times> string) list option" where
  "match_path template path = match_parts (split_char CHR ''/'' template) (split_char CHR ''/'' path)"

datatype resolution = Endpoint string "(string \<times> string) list" | Method_not_allowed | Not_found

fun resolve :: "route list \<Rightarrow> string \<Rightarrow> string \<Rightarrow> resolution" where
  "resolve [] method path = Not_found"
| "resolve (r # rs) method path =
     (case match_path (ro_path r) path of
        None \<Rightarrow> resolve rs method path
      | Some params \<Rightarrow>
          if ro_method r = method then Endpoint (ro_endpoint r) params
          else (case resolve rs method path of Not_found \<Rightarrow> Method_not_allowed | x \<Rightarrow> x))"

section \<open>Responses\<close>

record app_response =
  wr_status :: nat
  wr_headers :: "(string \<times> string) list"
  wr_body :: json

text \<open>\<open>response.headers[k] = v\<close>: the first header of that name gets the value and further ones go.\<close>

fun set_header :: "string \<Rightarrow> string \<Rightarrow> (string \<times> string) list \<Rightarrow> (string \<times> string) list" where
  "set_header k v [] = [(k, v)]"
| "set_header k v ((k', v') # hs) =
     (if k' = k then (k, v) # filter (\<lambda>(n, _). n \<noteq> k) hs else (k', v') # set_header k v hs)"

definition CACHE_CONTROL :: string where "CACHE_CONTROL = ''cache-control''"
definition NO_STORE :: string where "NO_STORE = ''no-store, no-cache, must-revalidate, max-age=0''"

definition no_cache_middleware :: "app_response \<Rightarrow> app_response" where
  "no_cache_middleware r = r\<lparr>wr_headers := set_header CACHE_CONTROL NO_STORE (wr_headers r)\<rparr>"

definition error_json :: "error_response \<Rightarrow> app_response" where
  "error_json e = \<lparr>wr_status = er_code e, wr_headers = [],
     wr_body = JObj [(''status'', JStr ''error''), (''code'', JInt (int (er_code e))), (''detail'', JStr (er_detail e)),
       (''hint'', JStr (er_hint e))]\<rparr>"

text \<open>What comes of an endpoint: a response, a request that does not fit its parameters, or an exception.\<close>

datatype endpoint_result = Responds app_response | Invalid_request "(string \<times> json list) list" | Raises exn

text \<open>The handler of Exception stands outside every middleware, the others inside.\<close>

definition app_call ::
  "env \<Rightarrow> string option \<Rightarrow> time option \<Rightarrow> (json \<Rightarrow> string) \<Rightarrow> (nat \<Rightarrow> string \<Rightarrow> app_response) \<Rightarrow> endpoint_result \<Rightarrow>
   (app_response \<times> time option) act" where
  "app_call env lookup last_alert rep http_handler result =
     (case result of
        Responds r \<Rightarrow> ret (no_cache_middleware r, last_alert)
      | Invalid_request errors \<Rightarrow> ret (no_cache_middleware (error_json (validation_exception_handler rep errors)), last_alert)
      | Raises (HTTPException code detail) \<Rightarrow> ret (no_cache_middleware (http_handler code detail), last_alert)
      | Raises e \<Rightarrow> bindM (generic_exception_handler env lookup last_alert e) (\<lambda>(r, l). ret (error_json r, l)))"

section \<open>Lemmas\<close>

lemma split_char_last: "c \<notin> set b \<Longrightarrow> split_char c (a @ c # b) = split_char c a @ [b]"
proof (induction a)
  case Nil
  have "c \<notin> set b \<Longrightarrow> split_char c b = [b]" by (induction b) auto
  then show ?case using Nil by simp
next
  case (Cons x a)
  then show ?case by (auto split: list.splits)
qed

lemma header_set: "map_of (set_header k v hs) k = Some v"
  by (induction hs) auto

lemma benchmarks_parts:
  "CHR ''/'' \<notin> set x \<Longrightarrow> split_char CHR ''/'' (''/api/v1/benchmarks/'' @ x) = [[], ''api'', ''v1'', ''benchmarks'', x]"
  using split_char_last [of "CHR ''/''" x "''/api/v1/benchmarks''"] by simp

lemma instances_parts:
  "CHR ''/'' \<notin> set x \<Longrightarrow> split_char CHR ''/'' (''/api/v1/jupyter/instances/'' @ x) = [[], ''api'', ''v1'', ''jupyter'', ''instances'', x]"
  using split_char_last [of "CHR ''/''" x "''/api/v1/jupyter/instances''"] by simp

lemmas route_tables = ROUTES_def SYSTEM_ROUTES_def INGEST_ROUTES_def BENCHMARKS_ROUTES_def RESULTS_ROUTES_def GPU_ROUTES_def
  JUPYTER_ROUTES_def routes_of_def

lemma delete_benchmark_route:
  assumes "x \<noteq> []" and "CHR ''/'' \<notin> set x"
  shows "resolve ROUTES ''DELETE'' (''/api/v1/benchmarks/'' @ x) =
    (if x = ''bulk'' then Endpoint ''delete_benchmarks_bulk'' []
     else if x = ''filter'' then Endpoint ''delete_benchmarks_by_filter'' []
     else if x = ''all'' then Endpoint ''delete_all_benchmarks'' []
     else Endpoint ''delete_benchmark'' [(''run_id'', x)])"
  using assms(1) benchmarks_parts [OF assms(2)]
  by (simp add: route_tables match_path_def starts_with_def)

lemma delete_instance_route:
  assumes "x \<noteq> []" and "CHR ''/'' \<notin> set x"
  shows "resolve ROUTES ''DELETE'' (''/api/v1/jupyter/instances/'' @ x) = Endpoint ''delete_jupyter_instance'' [(''task_id'', x)]"
  using assms(1) instances_parts [OF assms(2)]
  by (simp add: route_tables match_path_def starts_with_def)

section \<open>Properties\<close>

text \<open>C23: whatever id a tool of the MCP server deletes by, the platform routes its request to the endpoint that
deletes the one record with that id, never to the endpoints beside it that delete in bulk, by filter or
everything.\<close>

theorem tool_deletes_reach_by_id:
  assumes "tool = stop_jupyter c who task_id \<and> target = ''delete_jupyter_instance'' \<and> param = ''task_id'' \<or>
      tool = delete_run_results c who task_id \<and> target = ''delete_benchmark'' \<and> param = ''run_id''"
    and "rq \<in> set (snd (tool []))" and "rq_method rq = ''DELETE''"
  shows "resolve ROUTES (rq_method rq) (rq_path rq) = Endpoint target [(param, py_strip task_id)]"
proof -
  let ?id = "py_strip task_id"
  define lead where "lead = (if target = ''delete_benchmark'' then ''wl-'' else ''jup-'')"
  define base where "base = (if target = ''delete_benchmark'' then ''/api/v1/benchmarks/'' else ''/api/v1/jupyter/instances/'')"
  have "tool = stop_jupyter c who task_id \<and> lead = ''jup-'' \<and> base = ''/api/v1/jupyter/instances/'' \<or>
      tool = delete_run_results c who task_id \<and> lead = ''wl-'' \<and> base = ''/api/v1/benchmarks/''"
    using assms(1) by (auto simp: lead_def base_def)
  from deletes_traced [OF this assms(2,3)] have path: "rq_path rq = base @ ?id" and lead: "starts_with lead ?id"
    and chars: "list_all id_char ?id" by auto
  have "\<not> id_char CHR ''/''" by code_simp
  then have slash: "CHR ''/'' \<notin> set ?id" using chars by (auto simp: list_all_iff)
  have some: "?id \<noteq> []" using lead by (auto simp: lead_def starts_with_def split: if_splits)
  have "?id \<notin> {''bulk'', ''filter'', ''all''}" if "target = ''delete_benchmark''"
    using lead that by (auto simp: lead_def starts_with_def)
  then show ?thesis
    using assms(1,3) path delete_benchmark_route [OF some slash] delete_instance_route [OF some slash]
    by (auto simp: base_def)
qed

text \<open>A run is deleted by its id only when the id is none of three words: the run with the id all cannot
be deleted alone, its request is the one that deletes everything.\<close>

theorem delete_by_id_route:
  assumes "x \<noteq> []" and "CHR ''/'' \<notin> set x"
  shows "resolve ROUTES ''DELETE'' (''/api/v1/benchmarks/'' @ x) = Endpoint ''delete_benchmark'' [(''run_id'', x)] \<longleftrightarrow>
    x \<notin> {''bulk'', ''filter'', ''all''}"
  unfolding delete_benchmark_route [OF assms] by auto

text \<open>Every response forbids caching but the one to an unhandled exception, which no middleware sees.\<close>

theorem responses_uncached:
  assumes "app_call env lookup l rep http_handler result s = (Inr (r, l'), s')"
  shows "if (\<exists>e. result = Raises e \<and> (\<forall>code d. e \<noteq> HTTPException code d)) then wr_headers r = []
    else map_of (wr_headers r) CACHE_CONTROL = Some NO_STORE"
proof (cases result)
  case (Raises e)
  then show ?thesis using assms
    by (cases e) (auto simp: app_call_def no_cache_middleware_def header_set error_json_def ret_def bindM_def split: prod.splits sum.splits)
qed (use assms in \<open>auto simp: app_call_def no_cache_middleware_def header_set ret_def\<close>)

lemma tool_deletes_reach_by_id_witness:
  "\<exists>rq \<in> set (snd (delete_run_results anns_platform (Some ann) ''wl-20260101-abc'' [])).
     resolve ROUTES (rq_method rq) (rq_path rq) = Endpoint ''delete_benchmark'' [(''run_id'', ''wl-20260101-abc'')]"
proof -
  let ?t = "delete_run_results anns_platform (Some ann) ''wl-20260101-abc''" and ?rq = "delete_request ''/api/v1/benchmarks/wl-20260101-abc''"
  have "?rq \<in> set (snd (?t []))" by code_simp
  moreover have "rq_method ?rq = ''DELETE''" by (simp add: delete_request_def)
  moreover have "py_strip ''wl-20260101-abc'' = ''wl-20260101-abc''" by code_simp
  ultimately show ?thesis
    using tool_deletes_reach_by_id [of ?t anns_platform "Some ann" "''wl-20260101-abc''" "''delete_benchmark''" "''run_id''" ?rq]
    by force
qed

end
