(* ===== verification/Migrations.thy ===== *)
theory Migrations
  imports Prelude
begin

text \<open>
  \<open>alembic/versions\<close>: the schema revisions. A revision is two lists of DDL statements, run in order on a
  schema: tables with their columns and constraints, indexes, and the enumeration types. The effect of
  a statement is PostgreSQL's: it fails when what it names exists already or does not exist, when it
  refers to a missing table, or when something else needs what it drops; dropping a table or a column
  takes its indexes and constraints along. Comments on columns are left out, and so are the rows: a
  schema says nothing of the data a statement may refuse.
\<close>

section \<open>Schemas\<close>

datatype sql_type =
    Uuid | Varchar nat | Integer | Double | Text | Boolean | Timestamptz | Jsonb | Text_array
  | Pg_enum string "string list"

record column =
  co_name :: string
  co_type :: sql_type
  co_nullable :: bool
  co_default :: "string option"

text \<open>The conditions of the checks: \<open>c = lower(c)\<close> and \<open>c >= n\<close>.\<close>

datatype check = Is_lower string | At_least string int

datatype on_delete = Cascade | Set_null

text \<open>A foreign key names its column, the table whose \<open>id\<close> it holds, and what a delete there does.\<close>

datatype table_constraint =
    Primary_key "string list"
  | Unique_key string "string list"
  | Check string check
  | Foreign_key string string on_delete

record table_def =
  td_columns :: "column list"
  td_constraints :: "table_constraint list"

record index_def =
  ix_name :: string
  ix_table :: string
  ix_columns :: "string list"
  ix_unique :: bool

record schema =
  sc_tables :: "(string \<times> table_def) list"
  sc_indexes :: "index_def list"
  sc_enums :: "(string \<times> string list) list"

definition empty_schema :: schema where
  "empty_schema = \<lparr>sc_tables = [], sc_indexes = [], sc_enums = []\<rparr>"

section \<open>Statements\<close>

datatype ddl =
    Create_table string "column list" "table_constraint list"
  | Drop_table string
  | Create_index index_def
  | Drop_index string string
  | Add_column string column
  | Drop_column string string
  | Alter_type string string sql_type
  | Create_check string string check
  | Drop_check string string
  | Drop_type string

fun enum_of :: "sql_type \<Rightarrow> (string \<times> string list) list" where
  "enum_of (Pg_enum n vs) = [(n, vs)]"
| "enum_of _ = []"

definition enums_of :: "column list \<Rightarrow> (string \<times> string list) list" where
  "enums_of cs = concat (map (\<lambda>c. enum_of (co_type c)) cs)"

fun references :: "table_constraint \<Rightarrow> string list" where
  "references (Foreign_key _ t _) = [t]"
| "references _ = []"

fun check_column :: "check \<Rightarrow> string" where
  "check_column (Is_lower c) = c"
| "check_column (At_least c _) = c"

fun constraint_columns :: "table_constraint \<Rightarrow> string list" where
  "constraint_columns (Primary_key cs) = cs"
| "constraint_columns (Unique_key _ cs) = cs"
| "constraint_columns (Check _ c) = [check_column c]"
| "constraint_columns (Foreign_key c _ _) = [c]"

fun constraint_named :: "string \<Rightarrow> table_constraint \<Rightarrow> bool" where
  "constraint_named n (Unique_key m _) = (m = n)"
| "constraint_named n (Check m _) = (m = n)"
| "constraint_named n _ = False"

definition missing :: "string \<Rightarrow> string" where "missing n = n @ '' does not exist''"
definition present :: "string \<Rightarrow> string" where "present n = n @ '' already exists''"

definition has_column :: "string \<Rightarrow> table_def \<Rightarrow> bool" where
  "has_column c d = (c \<in> set (map co_name (td_columns d)))"

text \<open>A change of one table, in its place.\<close>

definition on_table :: "string \<Rightarrow> (table_def \<Rightarrow> string + table_def) \<Rightarrow> schema \<Rightarrow> string + schema" where
  "on_table t f s = (case map_of (sc_tables s) t of
      None \<Rightarrow> Inl (missing t)
    | Some d \<Rightarrow> (case f d of
        Inl e \<Rightarrow> Inl e
      | Inr d' \<Rightarrow> Inr (s\<lparr>sc_tables := map (\<lambda>(n, x). if n = t then (n, d') else (n, x)) (sc_tables s)\<rparr>)))"

fun run_ddl :: "ddl \<Rightarrow> schema \<Rightarrow> string + schema" where
  "run_ddl (Create_table t cols cons) s =
     (if map_of (sc_tables s) t \<noteq> None then Inl (present t)
      else if list_ex (\<lambda>r. map_of (sc_tables s) r = None) (concat (map references cons)) then Inl ''referenced table does not exist''
      else if list_ex (\<lambda>(n, vs). map_of (sc_enums s) n \<noteq> None) (enums_of cols) then Inl ''type already exists''
      else Inr (s\<lparr>sc_tables := sc_tables s @ [(t, \<lparr>td_columns = cols, td_constraints = cons\<rparr>)],
        sc_enums := sc_enums s @ enums_of cols\<rparr>))"
| "run_ddl (Drop_table t) s =
     (if map_of (sc_tables s) t = None then Inl (missing t)
      else if list_ex (\<lambda>(n, d). n \<noteq> t \<and> t \<in> set (concat (map references (td_constraints d)))) (sc_tables s)
      then Inl (''other objects depend on '' @ t)
      else Inr (s\<lparr>sc_tables := filter (\<lambda>(n, d). n \<noteq> t) (sc_tables s),
        sc_indexes := filter (\<lambda>i. ix_table i \<noteq> t) (sc_indexes s)\<rparr>))"
| "run_ddl (Create_index i) s =
     (if ix_name i \<in> set (map ix_name (sc_indexes s)) then Inl (present (ix_name i))
      else (case map_of (sc_tables s) (ix_table i) of
          None \<Rightarrow> Inl (missing (ix_table i))
        | Some d \<Rightarrow>
            if list_all (\<lambda>c. has_column c d) (ix_columns i) then Inr (s\<lparr>sc_indexes := sc_indexes s @ [i]\<rparr>)
            else Inl ''column does not exist''))"
| "run_ddl (Drop_index n t) s =
     (if list_ex (\<lambda>i. ix_name i = n) (sc_indexes s)
      then Inr (s\<lparr>sc_indexes := filter (\<lambda>i. ix_name i \<noteq> n) (sc_indexes s)\<rparr>)
      else Inl (missing n))"
| "run_ddl (Add_column t c) s =
     on_table t (\<lambda>d. if has_column (co_name c) d then Inl (present (co_name c))
       else Inr (d\<lparr>td_columns := td_columns d @ [c]\<rparr>)) s"
| "run_ddl (Drop_column t c) s =
     (case on_table t (\<lambda>d. if has_column c d
         then Inr (d\<lparr>td_columns := filter (\<lambda>x. co_name x \<noteq> c) (td_columns d),
           td_constraints := filter (\<lambda>x. c \<notin> set (constraint_columns x)) (td_constraints d)\<rparr>)
         else Inl (missing c)) s of
        Inl e \<Rightarrow> Inl e
      | Inr s' \<Rightarrow> Inr (s'\<lparr>sc_indexes := filter (\<lambda>i. \<not> (ix_table i = t \<and> c \<in> set (ix_columns i))) (sc_indexes s')\<rparr>))"
| "run_ddl (Alter_type t c ty) s =
     on_table t (\<lambda>d. if has_column c d
       then Inr (d\<lparr>td_columns := map (\<lambda>x. if co_name x = c then x\<lparr>co_type := ty\<rparr> else x) (td_columns d)\<rparr>)
       else Inl (missing c)) s"
| "run_ddl (Create_check n t chk) s =
     on_table t (\<lambda>d. if \<not> has_column (check_column chk) d then Inl (missing (check_column chk))
       else if list_ex (constraint_named n) (td_constraints d) then Inl (present n)
       else Inr (d\<lparr>td_constraints := td_constraints d @ [Check n chk]\<rparr>)) s"
| "run_ddl (Drop_check n t) s =
     on_table t (\<lambda>d. if list_ex (constraint_named n) (td_constraints d)
       then Inr (d\<lparr>td_constraints := filter (\<lambda>x. \<not> constraint_named n x) (td_constraints d)\<rparr>)
       else Inl (missing n)) s"
| "run_ddl (Drop_type n) s =
     (if list_ex (\<lambda>(t, d). n \<in> set (map fst (enums_of (td_columns d)))) (sc_tables s)
      then Inl (''other objects depend on '' @ n)
      else Inr (s\<lparr>sc_enums := filter (\<lambda>(m, vs). m \<noteq> n) (sc_enums s)\<rparr>))"

fun run_all :: "ddl list \<Rightarrow> schema \<Rightarrow> string + schema" where
  "run_all [] s = Inr s"
| "run_all (x # xs) s = (case run_ddl x s of Inl e \<Rightarrow> Inl e | Inr s' \<Rightarrow> run_all xs s')"

lemma run_all_append:
  "run_all (xs @ ys) s = (case run_all xs s of Inl e \<Rightarrow> Inl e | Inr s' \<Rightarrow> run_all ys s')"
  by (induction xs arbitrary: s) (auto split: sum.split)

section \<open>Revisions\<close>

record revision =
  rv_id :: string
  rv_down :: "string option"
  rv_upgrade :: "ddl list"
  rv_downgrade :: "ddl list"

text \<open>Alembic's order: each revision follows the one it names. The number bounds the search.\<close>

fun chain_from :: "nat \<Rightarrow> revision list \<Rightarrow> string option \<Rightarrow> revision list" where
  "chain_from 0 revs down = []"
| "chain_from (Suc n) revs down =
     (case find (\<lambda>r. rv_down r = down) revs of
        None \<Rightarrow> []
      | Some r \<Rightarrow> r # chain_from n revs (Some (rv_id r)))"

definition in_order :: "revision list \<Rightarrow> revision list" where
  "in_order revs = chain_from (length revs) revs None"

definition upgrades :: "revision list \<Rightarrow> ddl list" where
  "upgrades revs = concat (map rv_upgrade revs)"

definition downgrades :: "revision list \<Rightarrow> ddl list" where
  "downgrades revs = concat (map rv_downgrade (rev revs))"

lemma upgrades_append: "upgrades (xs @ ys) = upgrades xs @ upgrades ys"
  by (simp add: upgrades_def)

text \<open>Every revision can be applied after the ones before it, and its downgrade undoes it.\<close>

fun reversible :: "revision list \<Rightarrow> schema \<Rightarrow> bool" where
  "reversible [] s = True"
| "reversible (r # rs) s = (case run_all (rv_upgrade r) s of
      Inl _ \<Rightarrow> False
    | Inr s' \<Rightarrow> run_all (rv_downgrade r) s' = Inr s \<and> reversible rs s')"

lemma reversible_append:
  "reversible (xs @ ys) s \<longleftrightarrow> reversible xs s \<and> (\<forall>s'. run_all (upgrades xs) s = Inr s' \<longrightarrow> reversible ys s')"
  by (induction xs arbitrary: s) (auto simp: upgrades_def run_all_append split: sum.splits)

lemma reversible_undone:
  "reversible rs s \<Longrightarrow> \<exists>s'. run_all (upgrades rs) s = Inr s' \<and> run_all (downgrades rs) s' = Inr s"
proof (induction rs arbitrary: s)
  case (Cons r rs)
  obtain s1 where 1: "run_all (rv_upgrade r) s = Inr s1" "run_all (rv_downgrade r) s1 = Inr s" "reversible rs s1"
    using Cons.prems by (auto split: sum.splits)
  obtain s2 where "run_all (upgrades rs) s1 = Inr s2" "run_all (downgrades rs) s2 = Inr s1"
    using Cons.IH [OF 1(3)] by blast
  then show ?case using 1 by (simp add: upgrades_def downgrades_def run_all_append)
qed (simp add: upgrades_def downgrades_def)

section \<open>The revisions of the repository\<close>

definition col :: "string \<Rightarrow> sql_type \<Rightarrow> bool \<Rightarrow> string option \<Rightarrow> column" where
  "col name type nullable dflt = \<lparr>co_name = name, co_type = type, co_nullable = nullable, co_default = dflt\<rparr>"

definition index_on :: "string \<Rightarrow> string \<Rightarrow> string list \<Rightarrow> bool \<Rightarrow> index_def" where
  "index_on name table cols unique = \<lparr>ix_name = name, ix_table = table, ix_columns = cols, ix_unique = unique\<rparr>"

definition initial_upgrade :: "ddl list" where
  "initial_upgrade = [
     Create_table ''benchmark_results''
      [col ''id'' Uuid False None,
       col ''run_id'' (Varchar 64) False None,
       col ''sub_run_index'' Integer False None,
       col ''model_name'' (Varchar 128) False None,
       col ''pipeline_version'' (Varchar 32) False None,
       col ''node_ips'' Text_array False None,
       col ''gpu_type'' (Varchar 16) False None,
       col ''gpu_count'' Integer False None,
       col ''gpu_model'' (Varchar 64) True None,
       col ''precision'' (Varchar 16) False None,
       col ''input_tokens'' Integer False None,
       col ''output_tokens'' Integer False None,
       col ''concurrency'' Integer False None,
       col ''status'' (Varchar 16) False None,
       col ''total_token_throughput'' Double True None,
       col ''mean_ttft_ms'' Double True None,
       col ''mean_tpot_ms'' Double True None,
       col ''mean_e2el_ms'' Double True None,
       col ''metrics'' Jsonb False None,
       col ''started_at'' Timestamptz False None,
       col ''completed_at'' Timestamptz True None,
       col ''duration_seconds'' Double True None,
       col ''created_at'' Timestamptz False (Some ''now()'')]
      [Check ''ck_gpu_type_lower'' (Is_lower ''gpu_type''),
       Check ''ck_model_name_lower'' (Is_lower ''model_name''),
       Check ''ck_precision_lower'' (Is_lower ''precision''),
       Primary_key [''id''],
       Unique_key ''uq_benchmark_run_sub'' [''run_id'', ''sub_run_index'']],
     Create_index (index_on ''ix_benchmark_results_concurrency'' ''benchmark_results'' [''concurrency''] False),
     Create_index (index_on ''ix_benchmark_results_gpu_type'' ''benchmark_results'' [''gpu_type''] False),
     Create_index (index_on ''ix_benchmark_results_model_name'' ''benchmark_results'' [''model_name''] False),
     Create_index (index_on ''ix_benchmark_results_run_id'' ''benchmark_results'' [''run_id''] False),
     Create_table ''workload_types''
      [col ''id'' Uuid False None,
       col ''name'' (Varchar 50) False None,
       col ''display_name'' (Varchar 100) False None,
       col ''description'' Text True None]
      [Primary_key [''id'']],
     Create_index (index_on ''ix_workload_types_name'' ''workload_types'' [''name''] True),
     Create_table ''workloads''
      [col ''id'' Uuid False None,
       col ''workload_id'' (Varchar 30) False None,
       col ''model_name'' (Varchar 128) False None,
       col ''workload_config'' Jsonb False None,
       col ''state'' (Pg_enum ''workload_state'' [''CREATED'', ''VALIDATING'', ''VALIDATED'', ''INSTALLING'', ''READY'', ''RUNNING'', ''FAILED'']) False None,
       col ''error_message'' Text True None,
       col ''workload_port'' Integer True None,
       col ''communication_port'' Integer True None,
       col ''created_at'' Timestamptz False (Some ''now()''),
       col ''updated_at'' Timestamptz False (Some ''now()'')]
      [Primary_key [''id'']],
     Create_index (index_on ''ix_workloads_state'' ''workloads'' [''state''] False),
     Create_index (index_on ''ix_workloads_workload_id'' ''workloads'' [''workload_id''] True),
     Create_table ''nodes''
      [col ''id'' Uuid False None,
       col ''workload_id'' Uuid False None,
       col ''machine_id'' (Varchar 30) False None,
       col ''machine_ip'' (Varchar 45) False None,
       col ''machine_username'' (Varchar 30) False None,
       col ''state'' (Pg_enum ''node_state'' [''ADDED'', ''VALIDATING'', ''VALIDATED'', ''INSTALLING'', ''READY'', ''RUNNING'', ''FAILED'']) False None,
       col ''sw_installed'' Boolean False None,
       col ''gpus'' Jsonb True None,
       col ''specs'' Jsonb True None,
       col ''pcie_tree'' Text True None,
       col ''heartbeat_interval'' Integer False None,
       col ''hb_error_count'' Integer False None,
       col ''running_task'' (Varchar 50) True None,
       col ''created_at'' Timestamptz False (Some ''now()''),
       col ''updated_at'' Timestamptz False (Some ''now()'')]
      [Foreign_key ''workload_id'' ''workloads'' Cascade,
       Primary_key [''id'']],
     Create_index (index_on ''ix_nodes_state'' ''nodes'' [''state''] False),
     Create_index (index_on ''ix_nodes_workload_id'' ''nodes'' [''workload_id''] False),
     Create_table ''workload_events''
      [col ''id'' Uuid False None,
       col ''workload_id'' Uuid False None,
       col ''state'' (Varchar 20) False None,
       col ''trigger'' (Varchar 50) False None,
       col ''message'' Text False None,
       col ''event_time'' Timestamptz False (Some ''now()'')]
      [Foreign_key ''workload_id'' ''workloads'' Cascade,
       Primary_key [''id'']],
     Create_index (index_on ''ix_workload_events_workload_id'' ''workload_events'' [''workload_id''] False),
     Create_table ''tasks''
      [col ''id'' Uuid False None,
       col ''workload_id'' Uuid False None,
       col ''node_id'' Uuid True None,
       col ''run_name'' (Varchar 100) False None,
       col ''task_config'' Jsonb False None,
       col ''status'' (Varchar 20) False None,
       col ''started_at'' Timestamptz False (Some ''now()''),
       col ''completed_at'' Timestamptz True None]
      [Foreign_key ''node_id'' ''nodes'' Set_null,
       Foreign_key ''workload_id'' ''workloads'' Cascade,
       Primary_key [''id'']],
     Create_index (index_on ''ix_tasks_run_name'' ''tasks'' [''run_name''] True),
     Create_index (index_on ''ix_tasks_workload_id'' ''tasks'' [''workload_id''] False),
     Create_table ''task_logs''
      [col ''id'' Uuid False None,
       col ''task_id'' Uuid False None,
       col ''line'' Text False None,
       col ''logged_at'' Timestamptz False (Some ''now()'')]
      [Foreign_key ''task_id'' ''tasks'' Cascade,
       Primary_key [''id'']],
     Create_index (index_on ''ix_task_logs_logged_at'' ''task_logs'' [''logged_at''] False),
     Create_index (index_on ''ix_task_logs_task_id'' ''task_logs'' [''task_id''] False)]"

definition initial_downgrade :: "ddl list" where
  "initial_downgrade = [
     Drop_index ''ix_task_logs_task_id'' ''task_logs'',
     Drop_index ''ix_task_logs_logged_at'' ''task_logs'',
     Drop_table ''task_logs'',
     Drop_index ''ix_tasks_workload_id'' ''tasks'',
     Drop_index ''ix_tasks_run_name'' ''tasks'',
     Drop_table ''tasks'',
     Drop_index ''ix_workload_events_workload_id'' ''workload_events'',
     Drop_table ''workload_events'',
     Drop_index ''ix_nodes_workload_id'' ''nodes'',
     Drop_index ''ix_nodes_state'' ''nodes'',
     Drop_table ''nodes'',
     Drop_index ''ix_workloads_workload_id'' ''workloads'',
     Drop_index ''ix_workloads_state'' ''workloads'',
     Drop_table ''workloads'',
     Drop_index ''ix_workload_types_name'' ''workload_types'',
     Drop_table ''workload_types'',
     Drop_index ''ix_benchmark_results_run_id'' ''benchmark_results'',
     Drop_index ''ix_benchmark_results_model_name'' ''benchmark_results'',
     Drop_index ''ix_benchmark_results_gpu_type'' ''benchmark_results'',
     Drop_index ''ix_benchmark_results_concurrency'' ''benchmark_results'',
     Drop_table ''benchmark_results'',
     Drop_type ''node_state'',
     Drop_type ''workload_state'']"

definition initial_revision :: revision where
  "initial_revision = \<lparr>rv_id = ''f0e43419bf9b'', rv_down = None,
     rv_upgrade = initial_upgrade, rv_downgrade = initial_downgrade\<rparr>"

definition image_tag_upgrade :: "ddl list" where
  "image_tag_upgrade = [
     Add_column ''workload_types'' (col ''image_tag'' (Varchar 64) True None)]"

definition image_tag_downgrade :: "ddl list" where
  "image_tag_downgrade = [
     Drop_column ''workload_types'' ''image_tag'']"

definition image_tag_revision :: revision where
  "image_tag_revision = \<lparr>rv_id = ''a1b2c3d4e5f6'', rv_down = Some ''f0e43419bf9b'',
     rv_upgrade = image_tag_upgrade, rv_downgrade = image_tag_downgrade\<rparr>"

definition gpu_specs_table_upgrade :: "ddl list" where
  "gpu_specs_table_upgrade = [
     Create_table ''gpu_specs''
      [col ''id'' Uuid False None,
       col ''gpu_type'' (Varchar 32) False None,
       col ''display_name'' (Varchar 64) False None,
       col ''vendor'' (Varchar 16) False None,
       col ''arch'' (Varchar 32) False None,
       col ''vram_gb'' Integer False None,
       col ''tdp_watts'' Integer False None,
       col ''tier_rank'' Integer False None,
       col ''fp16_tflops'' Double True None,
       col ''fp8_tflops'' Double True None]
      [Primary_key [''id''],
       Unique_key ''uq_gpu_specs_gpu_type'' [''gpu_type''],
       Check ''ck_gpu_specs_type_lower'' (Is_lower ''gpu_type''),
       Check ''ck_gpu_specs_vendor_lower'' (Is_lower ''vendor''),
       Check ''ck_gpu_specs_arch_lower'' (Is_lower ''arch''),
       Check ''ck_gpu_specs_tier_positive'' (At_least ''tier_rank'' 1)],
     Create_index (index_on ''ix_gpu_specs_tier_rank'' ''gpu_specs'' [''tier_rank''] False)]"

definition gpu_specs_table_downgrade :: "ddl list" where
  "gpu_specs_table_downgrade = [
     Drop_index ''ix_gpu_specs_tier_rank'' ''gpu_specs'',
     Drop_table ''gpu_specs'']"

definition gpu_specs_table_revision :: revision where
  "gpu_specs_table_revision = \<lparr>rv_id = ''b1c2d3e4f5a6'', rv_down = Some ''a1b2c3d4e5f6'',
     rv_upgrade = gpu_specs_table_upgrade, rv_downgrade = gpu_specs_table_downgrade\<rparr>"

definition server_name_upgrade :: "ddl list" where
  "server_name_upgrade = [
     Add_column ''benchmark_results'' (col ''server_name'' (Varchar 128) True None),
     Create_index (index_on ''ix_benchmark_results_server_name'' ''benchmark_results'' [''server_name''] False)]"

definition server_name_downgrade :: "ddl list" where
  "server_name_downgrade = [
     Drop_index ''ix_benchmark_results_server_name'' ''benchmark_results'',
     Drop_column ''benchmark_results'' ''server_name'']"

definition server_name_revision :: revision where
  "server_name_revision = \<lparr>rv_id = ''c1d2e3f4a5b6'', rv_down = Some ''b1c2d3e4f5a6'',
     rv_upgrade = server_name_upgrade, rv_downgrade = server_name_downgrade\<rparr>"

definition parallelism_upgrade :: "ddl list" where
  "parallelism_upgrade = [
     Add_column ''benchmark_results'' (col ''parallelism'' (Varchar 16) True None),
     Create_index (index_on ''ix_benchmark_results_parallelism'' ''benchmark_results'' [''parallelism''] False)]"

definition parallelism_downgrade :: "ddl list" where
  "parallelism_downgrade = [
     Drop_index ''ix_benchmark_results_parallelism'' ''benchmark_results'',
     Drop_column ''benchmark_results'' ''parallelism'']"

definition parallelism_revision :: revision where
  "parallelism_revision = \<lparr>rv_id = ''d1e2f3a4b5c6'', rv_down = Some ''c1d2e3f4a5b6'',
     rv_upgrade = parallelism_upgrade, rv_downgrade = parallelism_downgrade\<rparr>"

definition run_recipe_upgrade :: "ddl list" where
  "run_recipe_upgrade = []"

definition run_recipe_downgrade :: "ddl list" where
  "run_recipe_downgrade = []"

definition run_recipe_revision :: revision where
  "run_recipe_revision = \<lparr>rv_id = ''e1f2a3b4c5d6'', rv_down = Some ''d1e2f3a4b5c6'',
     rv_upgrade = run_recipe_upgrade, rv_downgrade = run_recipe_downgrade\<rparr>"

definition workload_type_upgrade :: "ddl list" where
  "workload_type_upgrade = [
     Add_column ''benchmark_results'' (col ''workload_type'' (Varchar 32) False (Some ''llm'')),
     Create_index (index_on ''ix_benchmark_results_workload_type'' ''benchmark_results'' [''workload_type''] False),
     Create_check ''ck_workload_type_lower'' ''benchmark_results'' (Is_lower ''workload_type'')]"

definition workload_type_downgrade :: "ddl list" where
  "workload_type_downgrade = [
     Drop_check ''ck_workload_type_lower'' ''benchmark_results'',
     Drop_index ''ix_benchmark_results_workload_type'' ''benchmark_results'',
     Drop_column ''benchmark_results'' ''workload_type'']"

definition workload_type_revision :: revision where
  "workload_type_revision = \<lparr>rv_id = ''f1a2b3c4d5e6'', rv_down = Some ''e1f2a3b4c5d6'',
     rv_upgrade = workload_type_upgrade, rv_downgrade = workload_type_downgrade\<rparr>"

definition wider_version_upgrade :: "ddl list" where
  "wider_version_upgrade = [
     Alter_type ''benchmark_results'' ''pipeline_version'' (Varchar 128)]"

definition wider_version_downgrade :: "ddl list" where
  "wider_version_downgrade = [
     Alter_type ''benchmark_results'' ''pipeline_version'' (Varchar 32)]"

definition wider_version_revision :: revision where
  "wider_version_revision = \<lparr>rv_id = ''a2b3c4d5e6f7'', rv_down = Some ''f1a2b3c4d5e6'',
     rv_upgrade = wider_version_upgrade, rv_downgrade = wider_version_downgrade\<rparr>"

definition created_by_upgrade :: "ddl list" where
  "created_by_upgrade = [
     Add_column ''workloads'' (col ''created_by'' (Varchar 256) True None),
     Create_index (index_on ''ix_workloads_created_by'' ''workloads'' [''created_by''] False)]"

definition created_by_downgrade :: "ddl list" where
  "created_by_downgrade = [
     Drop_index ''ix_workloads_created_by'' ''workloads'',
     Drop_column ''workloads'' ''created_by'']"

definition created_by_revision :: revision where
  "created_by_revision = \<lparr>rv_id = ''b3c4d5e6f7a8'', rv_down = Some ''a2b3c4d5e6f7'',
     rv_upgrade = created_by_upgrade, rv_downgrade = created_by_downgrade\<rparr>"

text \<open>The directory, in the order of the file names.\<close>

definition VERSIONS :: "revision list" where
  "VERSIONS = [image_tag_revision, wider_version_revision, gpu_specs_table_revision, created_by_revision, server_name_revision, parallelism_revision, run_recipe_revision, initial_revision, workload_type_revision]"

lemma VERSIONS_in_order:
  "in_order VERSIONS = [initial_revision, image_tag_revision, gpu_specs_table_revision, server_name_revision,
     parallelism_revision, run_recipe_revision, workload_type_revision, wider_version_revision, created_by_revision]"
  by code_simp

lemma VERSIONS_reversible: "reversible (in_order VERSIONS) empty_schema"
  by code_simp

end
