(* ===== verification/Seed_Scripts.thy ===== *)
theory Seed_Scripts
  imports Results_Api Ingest_Api System_Api Calendar
begin

text \<open>
  \<open>scripts/seed_*.py\<close>: the scripts that fill the platform with measured results and with the GPU
  catalogue, over its API. A request is the endpoint of the other theories, run in the session; what
  lies between (the network, the text of an error's answer, \<open>str\<close> of a number) is the record \<open>api\<close>.
  A script's answer is the list of what it prints. Pydantic reads back the instants that
  \<open>isoformat\<close> printed, so a payload holds the instant. The Slack alert of an unhandled error is left out.
\<close>

section \<open>Times\<close>

text \<open>\<open>datetime(y, m, d, h, 0, 0, tzinfo=timezone.utc)\<close>, in microseconds.\<close>

definition at_utc :: "nat \<Rightarrow> nat \<Rightarrow> nat \<Rightarrow> nat \<Rightarrow> time" where
  "at_utc y m d h = (date_days y m d * 24 + int h) * 3600000000"

definition plus_seconds :: "time \<Rightarrow> rat \<Rightarrow> time" where
  "plus_seconds t s = t + round_half_even (s * 1000000)"

text \<open>\<open>isoformat()\<close> of a time in UTC.\<close>

definition two_digits :: "int \<Rightarrow> string" where
  "two_digits n = zero_pad 2 (show_int n)"

definition isoformat :: "time \<Rightarrow> string" where
  "isoformat t = (case civil_date (utc_day t) of (y, m, d) \<Rightarrow>
     let us = t mod 86400000000; s = us div 1000000; f = us mod 1000000 in
     zero_pad 4 (show_nat y) @ ''-'' @ zero_pad 2 (show_nat m) @ ''-'' @ zero_pad 2 (show_nat d) @ ''T'' @
     two_digits (s div 3600) @ '':'' @ two_digits (s div 60 mod 60) @ '':'' @ two_digits (s mod 60) @
     (if f = 0 then [] else ''.'' @ zero_pad 6 (show_int f)) @ ''+00:00'')"

section \<open>Requests\<close>

record api =
  api_env :: env
  api_reach :: "nat \<Rightarrow> exn option"
  api_reply :: "exn \<Rightarrow> string"
  api_str :: "json \<Rightarrow> string"

definition status_of :: "exn \<Rightarrow> nat" where
  "status_of e = (case e of HTTPException code _ \<Rightarrow> code | _ \<Rightarrow> 500)"

text \<open>The outer exception is httpx's; the inner one is the endpoint's and arrives as a status.\<close>

definition request :: "api \<Rightarrow> 'a act \<Rightarrow> (exn + 'a) act" where
  "request a m = thenM (ask_fallible (api_reach a)) (catchM (bindM m (\<lambda>x. ret (Inr x))) (\<lambda>e. ret (Inl e)))"

definition response_code :: "nat \<Rightarrow> exn + 'a \<Rightarrow> nat" where
  "response_code ok r = (case r of Inr _ \<Rightarrow> ok | Inl e \<Rightarrow> status_of e)"

definition response_text :: "api \<Rightarrow> exn + 'a \<Rightarrow> string" where
  "response_text a r = (case r of Inr _ \<Rightarrow> [] | Inl e \<Rightarrow> take 120 (api_reply a e))"

definition mark_of :: "nat list \<Rightarrow> nat \<Rightarrow> string" where
  "mark_of oks code = (if code \<in> set oks then ''OK'' else ''FAIL('' @ show_nat code @ '')'')"

text \<open>The lines printed after a request: the mark with the label, and the text of a failure.\<close>

definition post_lines :: "api \<Rightarrow> nat list \<Rightarrow> nat \<Rightarrow> string \<Rightarrow> exn + 'a \<Rightarrow> string list" where
  "post_lines a oks ok label r =
     (let code = response_code ok r in
      (''  ['' @ mark_of oks code @ ''] '' @ label) #
      (if code \<in> set oks then [] else [''         '' @ response_text a r]))"

fun print_all :: "string list act list \<Rightarrow> string list act" where
  "print_all [] = ret []"
| "print_all (m # ms) = bindM m (\<lambda>l. bindM (print_all ms) (\<lambda>ls. ret (l @ ls)))"

text \<open>\<open>post\<close> of the T4 and MI210 scripts: the run and its index are written into the payload.\<close>

definition indexed :: "string \<Rightarrow> int \<Rightarrow> ingest_payload \<Rightarrow> ingest_payload" where
  "indexed run_id i p = p\<lparr>in_run_id := run_id, in_sub_run_index := i\<rparr>"

definition post_indexed :: "api \<Rightarrow> string \<Rightarrow> int \<Rightarrow> ingest_payload \<Rightarrow> string list act" where
  "post_indexed a run_id i p =
     bindM (request a (ingest_metrics (api_env a) (indexed run_id i p))) (\<lambda>r.
     ret (post_lines a [200, 202] 202 (run_id @ ''['' @ show_int i @ '']'') r))"

text \<open>\<open>post\<close> of the P40 script, and of the H100 script, whose payloads carry their run.\<close>

definition post_first :: "api \<Rightarrow> string \<Rightarrow> ingest_payload \<Rightarrow> string list act" where
  "post_first a run_id p =
     bindM (request a (ingest_metrics (api_env a) (indexed run_id 0 p))) (\<lambda>r.
     ret (post_lines a [200, 202] 202 run_id r))"

definition post_whole :: "api \<Rightarrow> string \<Rightarrow> ingest_payload \<Rightarrow> string list act" where
  "post_whole a run_id p =
     bindM (request a (ingest_metrics (api_env a) p)) (\<lambda>r. ret (post_lines a [200, 202] 202 run_id r))"

text \<open>\<open>post\<close> of the RTX 5090 script prints one line.\<close>

definition post_marked :: "api \<Rightarrow> string \<Rightarrow> ingest_payload \<Rightarrow> string list act" where
  "post_marked a run_id p =
     bindM (request a (ingest_metrics (api_env a) p)) (\<lambda>r.
     let code = response_code 202 r in
     ret [if code \<in> {200, 202} then ''  [OK]   '' @ run_id
          else ''  [FAIL] '' @ run_id @ ''  HTTP '' @ show_nat code @ '': '' @ response_text a r])"

definition times_sign :: string where "times_sign = [CHR 0xC3, CHR 0x97]"

definition parallel_sizes :: "int \<Rightarrow> int \<Rightarrow> json" where
  "parallel_sizes tp pp = JObj [(''tensor_parallel_size'', JInt tp), (''pipeline_parallel_size'', JInt pp)]"

section \<open>T4\<close>

type_synonym llm_row =
  "int \<times> int \<times> rat \<times> rat \<times> rat \<times> rat \<times> rat \<times> rat \<times> rat \<times> rat \<times> int \<times> int"

definition TP1 :: "llm_row list" where
  "TP1 =
    [(0, 4, 14481 / 100, 56541 / 100, 3569 / 10, 1381 / 100, 1447989 / 100, 4933 / 10, 28284 / 100, 28 / 100, 40920, 40960),
     (1, 8, 17356 / 100, 94161 / 100, 61937 / 100, 1636 / 100, 1735315 / 100, 96065 / 100, 47199 / 100, 46 / 100, 81509, 81920),
     (2, 16, 2214 / 10, 147774 / 100, 105553 / 100, 2061 / 100, 221347 / 10, 180669 / 100, 74001 / 100, 72 / 100, 163336, 163840)]"

definition TP2 :: "llm_row list" where
  "TP2 =
    [(0, 4, 11871 / 100, 68974 / 100, 32507 / 100, 1129 / 100, 1186965 / 100, 41597 / 100, 34504 / 100, 34 / 100, 40920, 40960),
     (1, 8, 1407 / 10, 116152 / 100, 5322 / 10, 1323 / 100, 1406775 / 100, 79998 / 100, 58222 / 100, 57 / 100, 81509, 81920),
     (2, 16, 18234 / 100, 179432 / 100, 92408 / 100, 1692 / 100, 182282 / 10, 155983 / 100, 89854 / 100, 88 / 100, 163336, 163840)]"

definition t4_payload :: "int \<Rightarrow> int \<Rightarrow> time \<Rightarrow> llm_row \<Rightarrow> ingest_payload" where
  "t4_payload tp gpu_count base row =
     (case row of (sub, c, dur, tpt, ttft, tpot, e2el, p99, otp, rtp, tin, tout) \<Rightarrow>
      \<lparr>in_run_id = [], in_timestamp = (plus_seconds base dur, True),
       in_workload_name = ''tinyllama-1.1b-chat'', in_workload_type = ''llm'',
       in_metrics = [
         (''total_token_throughput'', JFloat tpt),
         (''mean_ttft_ms'', JFloat ttft),
         (''mean_tpot_ms'', JFloat tpot),
         (''mean_e2el_ms'', JFloat e2el),
         (''p99_ttft_ms'', JFloat p99),
         (''output_throughput'', JFloat otp),
         (''request_throughput'', JFloat rtp),
         (''total_input_tokens'', JInt tin),
         (''total_output_tokens'', JInt tout),
         (''benchmark_tool'', JStr ''vLLM benchmark''),
         (''server_name'', JStr ''Dell Inc.''),
         (''parallelism'', parallel_sizes tp 1)],
       in_status = ''success'', in_gpu_type = ''t4'', in_node_ip = ''10.6.12.23'',
       in_config = [
         (''concurrency'', JInt c),
         (''precision'', JStr ''fp16''),
         (''input_tokens'', JInt 1023),
         (''output_tokens'', JInt 1024),
         (''gpu_count'', JInt gpu_count),
         (''gpu_model'', JStr ''NVIDIA T4''),
         (''pipeline_version'', JStr ''vllm-openai:v0.14.1''),
         (''started_at'', JStr (isoformat base)),
         (''notes'', JStr (''TinyLlama-1.1B-Chat TP='' @ show_int tp @ '', '' @ show_int gpu_count @ times_sign @ '' T4''))],
       in_sub_run_index = 0\<rparr>)"

text \<open>The posts of a script: run, index and payload.\<close>

definition t4_posts :: "(string \<times> int \<times> ingest_payload) list" where
  "t4_posts = concat (map (\<lambda>(tp, gpu_count, base, data).
     map (\<lambda>row. (''t4-tinyllama-1b-tp'' @ show_int tp, fst row, t4_payload tp gpu_count base row)) data)
     [(1, 1, at_utc 2025 10 3 10, TP1), (2, 2, at_utc 2025 10 12 10, TP2)])"

definition seed_t4 :: "api \<Rightarrow> string list act" where
  "seed_t4 a = bindM (print_all (map (\<lambda>(run, i, p). post_indexed a run i p) t4_posts)) (\<lambda>ls.
     ret ((nl @ ''Seeding T4 TinyLlama benchmark results...'' @ nl) # ls))"

section \<open>MI210\<close>

text \<open>\<open>_llm\<close>: the payload of a run with every metric.\<close>

definition MI210_VERSION :: string where "MI210_VERSION = ''rocm/vllm-dev:nightly_0624_rc2_0624_rc2_20250620''"

definition mi210_llm ::
  "string \<Rightarrow> llm_row \<Rightarrow> int \<Rightarrow> time \<Rightarrow> string \<Rightarrow> int \<Rightarrow> int \<Rightarrow> int option \<Rightarrow> ingest_payload" where
  "mi210_llm model row gpu_count base notes in_tok out_tok tp =
     (case row of (sub, concurrency, duration, tpt, ttft, tpot, e2el, p99, otp, rtp, tin, tout) \<Rightarrow>
      \<lparr>in_run_id = [], in_timestamp = (plus_seconds base duration, True),
       in_workload_name = model, in_workload_type = ''llm'',
       in_metrics = [
         (''total_token_throughput'', JFloat tpt),
         (''mean_ttft_ms'', JFloat ttft),
         (''mean_tpot_ms'', JFloat tpot),
         (''mean_e2el_ms'', JFloat e2el),
         (''p99_ttft_ms'', JFloat p99),
         (''output_throughput'', JFloat otp),
         (''request_throughput'', JFloat rtp),
         (''total_input_tokens'', JInt tin),
         (''total_output_tokens'', JInt tout),
         (''benchmark_tool'', JStr ''vLLM benchmark''),
         (''server_name'', JStr ''SuperMicro'')] @
         (case tp of Some n \<Rightarrow> if n = 0 then [] else [(''parallelism'', parallel_sizes n 1)] | None \<Rightarrow> []),
       in_status = ''success'', in_gpu_type = ''mi210'', in_node_ip = ''10.6.12.11'',
       in_config = [
         (''concurrency'', JInt concurrency),
         (''precision'', JStr ''bf16''),
         (''input_tokens'', JInt in_tok),
         (''output_tokens'', JInt out_tok),
         (''gpu_count'', JInt gpu_count),
         (''gpu_model'', JStr ''AMD Instinct MI210''),
         (''pipeline_version'', JStr MI210_VERSION),
         (''started_at'', JStr (isoformat base)),
         (''notes'', JStr notes)],
       in_sub_run_index = 0\<rparr>)"

text \<open>The loops over rows with the default token counts.\<close>

definition mi210_runs ::
  "string \<Rightarrow> string \<Rightarrow> int \<Rightarrow> time \<Rightarrow> string \<Rightarrow> llm_row list \<Rightarrow> (string \<times> int \<times> ingest_payload) list" where
  "mi210_runs run model gpus base notes rows =
     map (\<lambda>row. (run, fst row, mi210_llm model row gpus base notes 1023 1024 (Some gpus))) rows"

definition mi210_tp4 :: "(string \<times> int \<times> ingest_payload) list" where
  "mi210_tp4 = mi210_runs ''mi210-llama31-70b-tp4'' ''llama3.1-70b-instruct'' 4 (at_utc 2026 1 29 10)
     (''Llama-3.1-70B TP=4, 4'' @ times_sign @ '' MI210, Random dataset'')
    [(0, 4, 78949 / 100, 10371 / 100, 82392 / 100, 7636 / 100, 7893853 / 100, 128239 / 100, 5188 / 100, 5 / 100, 40920, 40960),
     (1, 8, 82147 / 100, 19935 / 100, 86833 / 100, 7943 / 100, 8212767 / 100, 334499 / 100, 9972 / 100, 10 / 100, 81840, 81920),
     (2, 16, 89322 / 100, 36651 / 100, 125003 / 100, 8606 / 100, 8928967 / 100, 668281 / 100, 18343 / 100, 18 / 100, 163539, 163840)]"

definition mi210_tp8 :: "(string \<times> int \<times> ingest_payload) list" where
  "mi210_tp8 = mi210_runs ''mi210-llama31-70b-tp8'' ''llama3.1-70b-instruct'' 8 (at_utc 2026 2 5 10)
     (''Llama-3.1-70B TP=8, 8'' @ times_sign @ '' MI210, Random dataset'')
    [(0, 4, 67354 / 100, 12157 / 100, 122106 / 100, 6464 / 100, 6734395 / 100, 268097 / 100, 6081 / 100, 6 / 100, 40920, 40960),
     (1, 8, 63681 / 100, 25716 / 100, 110357 / 100, 6115 / 100, 6364455 / 100, 447908 / 100, 12864 / 100, 13 / 100, 81840, 81920),
     (2, 16, 69612 / 100, 47029 / 100, 16879 / 10, 6637 / 100, 6958084 / 100, 867551 / 100, 23536 / 100, 23 / 100, 163539, 163840)]"

text \<open>The rows of the Open Orca runs end with the token counts of a request.\<close>

type_synonym orca_row =
  "int \<times> int \<times> rat \<times> rat \<times> rat \<times> rat \<times> rat \<times> rat \<times> rat \<times> rat \<times> int \<times> int \<times> int \<times> int"

definition orca_rows :: "orca_row list" where
  "orca_rows =
    [(0, 32, 18907 / 100, 75777 / 100, 84767 / 100, 7078 / 100, 1899761 / 100, 454339 / 100, 43327 / 100, 169 / 100, 61353, 81920, 192, 256),
     (1, 64, 21192 / 100, 13654 / 10, 40346 / 100, 8149 / 100, 2118422 / 100, 8120 / 10, 7731 / 10, 302 / 100, 125522, 163840, 196, 256),
     (2, 128, 27602 / 100, 211275 / 100, 62683 / 100, 10574 / 100, 2759049 / 100, 9145 / 10, 118717 / 100, 464 / 100, 255477, 327680, 200, 256)]"

definition orca_post :: "string \<Rightarrow> string \<Rightarrow> time \<Rightarrow> string \<Rightarrow> orca_row \<Rightarrow> string \<times> int \<times> ingest_payload" where
  "orca_post run model base notes row =
     (case row of (sub, c, dur, tpt, ttft, tpot, e2el, p99, otp, rtp, tin, tout, in_tok, out_tok) \<Rightarrow>
      (run, sub, mi210_llm model (sub, c, dur, tpt, ttft, tpot, e2el, p99, otp, rtp, tin, tout) 8 base notes
        in_tok out_tok (Some 8)))"

definition mi210_deepseek :: "(string \<times> int \<times> ingest_payload) list" where
  "mi210_deepseek = map (orca_post ''mi210-deepseek-r1-70b-tp8'' ''deepseek-r1-distill-llama-70b''
     (at_utc 2026 2 5 12) (''DeepSeek-R1-Distill-Llama-70B TP=8, 8'' @ times_sign @ '' MI210, Open Orca dataset'')) orca_rows"

definition mi210_openorca :: "(string \<times> int \<times> ingest_payload) list" where
  "mi210_openorca = map (orca_post ''mi210-llama31-70b-tp8-openorca'' ''llama3.1-70b-instruct''
     (at_utc 2026 2 5 14) (''Llama-3.1-70B TP=8, 8'' @ times_sign @ '' MI210, Open Orca dataset'')) orca_rows"

text \<open>The partial figures of the Benchmarks page; the first two tables hold some of them as integers.\<close>

type_synonym page_row = "int \<times> int \<times> rat \<times> rat \<times> json \<times> rat \<times> rat \<times> int \<times> int"

definition bench_payload :: "string \<Rightarrow> int \<Rightarrow> time \<Rightarrow> string \<Rightarrow> page_row \<Rightarrow> ingest_payload" where
  "bench_payload model gpus base notes row =
     (case row of (sub, c, dur, tpt, ttft, tpot, otp, tin, tout) \<Rightarrow>
      \<lparr>in_run_id = [], in_timestamp = (plus_seconds base dur, True),
       in_workload_name = model, in_workload_type = ''llm'',
       in_metrics = [
         (''total_token_throughput'', JFloat tpt), (''mean_ttft_ms'', ttft),
         (''mean_tpot_ms'', JFloat tpot), (''mean_e2el_ms'', JNull), (''p99_ttft_ms'', JNull),
         (''output_throughput'', JFloat otp), (''total_input_tokens'', JInt tin),
         (''total_output_tokens'', JInt tout), (''benchmark_tool'', JStr ''vLLM benchmark''),
         (''server_name'', JStr ''SuperMicro''),
         (''parallelism'', parallel_sizes gpus 1)],
       in_status = ''success'', in_gpu_type = ''mi210'', in_node_ip = ''10.6.12.11'',
       in_config = [
         (''concurrency'', JInt c), (''precision'', JStr ''bf16''), (''input_tokens'', JInt 1023),
         (''output_tokens'', JInt 1024), (''gpu_count'', JInt gpus), (''gpu_model'', JStr ''AMD Instinct MI210''),
         (''pipeline_version'', JStr MI210_VERSION), (''started_at'', JStr (isoformat base)),
         (''notes'', JStr notes)],
       in_sub_run_index = 0\<rparr>)"

definition mi210_bench8 :: "(string \<times> int \<times> ingest_payload) list" where
  "mi210_bench8 = map (\<lambda>row. (''mi210-llama31-70b-tp8-bench'', fst row,
     bench_payload ''llama3.1-70b-instruct'' 8 (at_utc 2026 2 5 16)
       (''Llama-3.1-70B TP=8, 8'' @ times_sign @ '' MI210 '' @ u_dash @ '' Benchmarks page summary'') row))
    [(0, 4, 621, 13178 / 100, JInt 2817, 5798 / 100, 6592 / 100, 40920, 40960),
     (1, 8, 640, 25570 / 100, JInt 2781, 5987 / 100, 12791 / 100, 81840, 81920),
     (2, 16, 787, 41573 / 100, JInt 4136, 7291 / 100, 20806 / 100, 163539, 163840)]"

definition mi210_bench4 :: "(string \<times> int \<times> ingest_payload) list" where
  "mi210_bench4 = map (\<lambda>row. (''mi210-llama31-70b-tp4-bench'', fst row,
     bench_payload ''llama3.1-70b-instruct'' 4 (at_utc 2026 1 29 14)
       (''Llama-3.1-70B TP=4, 4'' @ times_sign @ '' MI210 '' @ u_dash @ '' Benchmarks page summary'') row))
    [(0, 4, 766, 10677 / 100, JInt 777, 7419 / 100, 5341 / 100, 40920, 40960),
     (1, 8, 79651 / 100, 2056 / 10, JInt 814, 7704 / 100, 10285 / 100, 81840, 81920),
     (2, 16, 87065 / 100, 37601 / 100, JInt 1173, 8393 / 100, 18818 / 100, 163539, 163840)]"

definition mi210_l33 :: "(string \<times> int \<times> ingest_payload) list" where
  "mi210_l33 = map (\<lambda>row. (''mi210-llama33-70b-tp8'', fst row,
     bench_payload ''llama3.3-70b-instruct'' 8 (at_utc 2026 2 5 18)
       (''Llama-3.3-70B-Instruct TP=8, 8'' @ times_sign @ '' MI210'') row))
    [(0, 4, 62900 / 100, 13017 / 100, JFloat (281049 / 100), 5873 / 100, 6512 / 100, 40920, 40960),
     (1, 8, 65214 / 100, 25111 / 100, JFloat (283855 / 100), 6096 / 100, 12562 / 100, 81840, 81920),
     (2, 16, 79736 / 100, 41058 / 100, JFloat (416385 / 100), 7385 / 100, 20548 / 100, 163539, 163840)]"

definition mi210_posts :: "(string \<times> int \<times> ingest_payload) list" where
  "mi210_posts = mi210_tp4 @ mi210_tp8 @ mi210_deepseek @ mi210_openorca @ mi210_bench8 @ mi210_bench4 @ mi210_l33"

definition seed_mi210 :: "api \<Rightarrow> string list act" where
  "seed_mi210 a = bindM (print_all (map (\<lambda>(run, i, p). post_indexed a run i p) mi210_posts)) (\<lambda>ls.
     ret ((nl @ ''Seeding AMD MI210 benchmark results...'' @ nl) # ls))"

section \<open>H100\<close>

definition h100_payload ::
  "string \<Rightarrow> time \<Rightarrow> rat \<Rightarrow> (string \<times> json) list \<Rightarrow> int \<Rightarrow> ingest_payload" where
  "h100_payload run started seconds figures concurrency =
     \<lparr>in_run_id = run, in_timestamp = (plus_seconds started seconds, True),
      in_workload_name = ''llama3.1-70b-instruct'', in_workload_type = ''llm'',
      in_metrics = figures @ [
        (''benchmark_tool'', JStr ''vLLM benchmark''),
        (''server_name'', JStr ''PRU''),
        (''parallelism'', parallel_sizes 2 1)],
      in_status = ''success'', in_gpu_type = ''h100'', in_node_ip = ''10.6.91.204'',
      in_config = [
        (''concurrency'', JInt concurrency),
        (''precision'', JStr ''fp16''),
        (''input_tokens'', JInt 8092),
        (''output_tokens'', JInt 256),
        (''gpu_count'', JInt 2),
        (''gpu_model'', JStr ''NVIDIA H100 NVL''),
        (''pipeline_version'', JStr ''vllm-openai:v0.14.1''),
        (''started_at'', JStr (isoformat started)),
        (''notes'', JStr (''Context length 8092, 2'' @ times_sign @ '' H100 NVL, tensor parallel 2''))],
      in_sub_run_index = 0\<rparr>"

definition h100_c128 :: ingest_payload where
  "h100_c128 = h100_payload ''h100-llama3-70b-c128'' (at_utc 2026 1 15 9) (24393 / 100)
     [(''total_token_throughput'', JFloat (254507 / 100)),
      (''mean_ttft_ms'', JFloat (408457 / 100)),
      (''mean_tpot_ms'', JFloat (7955 / 100)),
      (''mean_e2el_ms'', JFloat (2437031 / 100)),
      (''p99_ttft_ms'', JFloat (93467 / 10)),
      (''output_throughput'', JFloat (134335 / 100)),
      (''request_throughput'', JFloat (523 / 100)),
      (''total_input_tokens'', JInt 293134),
      (''total_output_tokens'', JInt 327680),
      (''avg_gpu_power_watts'', JFloat (66476 / 100)),
      (''gpu_power_efficiency_score'', JFloat (37251 / 10000)),
      (''avg_gpu_utilization_percent'', JFloat (973 / 10))] 128"

definition h100_c256 :: ingest_payload where
  "h100_c256 = h100_payload ''h100-llama3-70b-c256'' (at_utc 2026 1 15 10) (55746 / 100)
     [(''total_token_throughput'', JFloat (225598 / 100)),
      (''mean_ttft_ms'', JFloat (1142978 / 100)),
      (''mean_tpot_ms'', JFloat (17117 / 100)),
      (''mean_e2el_ms'', JFloat (5507905 / 100)),
      (''p99_ttft_ms'', JFloat (2871476 / 100)),
      (''output_throughput'', JFloat (117563 / 100)),
      (''request_throughput'', JFloat (459 / 100)),
      (''total_input_tokens'', JInt 602246),
      (''total_output_tokens'', JInt 655360),
      (''avg_gpu_power_watts'', JFloat (63109 / 100)),
      (''gpu_power_efficiency_score'', JFloat (34595 / 10000)),
      (''avg_gpu_utilization_percent'', JFloat (9678 / 100))] 256"

definition h100_posts :: "(string \<times> ingest_payload) list" where
  "h100_posts = [(''h100-llama3-70b-c128'', h100_c128), (''h100-llama3-70b-c256'', h100_c256)]"

definition seed_h100 :: "api \<Rightarrow> string list act" where
  "seed_h100 a = bindM (print_all (map (\<lambda>(run, p). post_whole a run p) h100_posts)) (\<lambda>ls.
     ret ((nl @ ''Seeding 2'' @ times_sign @ '' H100 NVL LLM benchmark results...'' @ nl) # ls))"

section \<open>P40\<close>

definition IMAGENET_IMAGES :: int where "IMAGENET_IMAGES = 1281167"
definition EPOCHS :: int where "EPOCHS = 15"
definition TOTAL_IMAGES :: int where "TOTAL_IMAGES = IMAGENET_IMAGES * EPOCHS"

definition p40_throughput :: "rat \<Rightarrow> rat" where
  "p40_throughput duration = round_to 1 (of_int TOTAL_IMAGES / duration)"

definition p40_payload ::
  "time \<Rightarrow> rat \<Rightarrow> (string \<times> json) list \<Rightarrow> int \<Rightarrow> string \<Rightarrow> ingest_payload" where
  "p40_payload started duration utilization gpu_count notes =
     \<lparr>in_run_id = [], in_timestamp = (plus_seconds started duration, True),
      in_workload_name = ''resnet50'', in_workload_type = ''cv'',
      in_metrics = [
        (''total_token_throughput'', JFloat (p40_throughput duration)),
        (''mean_ttft_ms'', JNull),
        (''mean_tpot_ms'', JNull),
        (''mean_e2el_ms'', JNull),
        (''num_epochs'', JInt EPOCHS),
        (''dataset_size'', JInt IMAGENET_IMAGES),
        (''epoch_time_s'', JFloat (round_to 2 (duration / of_int EPOCHS)))] @ utilization @
        [(''benchmark_tool'', JStr ''PyTorch distributed training'')],
      in_status = ''success'', in_gpu_type = ''p40'', in_node_ip = ''unknown'',
      in_config = [
        (''concurrency'', JInt 0),
        (''precision'', JStr ''fp32''),
        (''input_tokens'', JInt 0),
        (''output_tokens'', JInt 0),
        (''gpu_count'', JInt gpu_count),
        (''gpu_model'', JStr ''NVIDIA Tesla P40''),
        (''pipeline_version'', JStr ''pytorch-resnet-2.4.2''),
        (''started_at'', JStr (isoformat started)),
        (''notes'', JStr notes)],
      in_sub_run_index = 0\<rparr>"

definition p40_1node :: ingest_payload where
  "p40_1node = p40_payload (at_utc 2025 6 1 9) (224037 / 100)
     [(''avg_gpu_utilization_gpu0_pct'', JFloat (8639 / 100)),
      (''avg_gpu_utilization_gpu1_pct'', JFloat (8381 / 100))] 2
     (''ResNet50 training, single node 2'' @ times_sign @ '' P40, 15 epochs ImageNet'')"

definition p40_2node :: ingest_payload where
  "p40_2node = p40_payload (at_utc 2025 6 2 9) (149142 / 100)
     [(''node0_gpu0_utilization_pct'', JFloat (7789 / 100)),
      (''node0_gpu1_utilization_pct'', JFloat (79944 / 1000)),
      (''node1_gpu0_utilization_pct'', JFloat (6222 / 100)),
      (''node1_gpu1_utilization_pct'', JFloat (6259 / 100))] 4
     ''ResNet50 training, multi-node 2+2 P40 (4 GPUs), 15 epochs ImageNet''"

definition p40_posts :: "(string \<times> ingest_payload) list" where
  "p40_posts = [(''p40-resnet50-training-1node'', p40_1node), (''p40-resnet50-training-2node'', p40_2node)]"

definition seed_p40 :: "api \<Rightarrow> string list act" where
  "seed_p40 a = bindM (print_all (map (\<lambda>(run, p). post_first a run p) p40_posts)) (\<lambda>ls.
     ret ((nl @ ''Seeding P40 ResNet50 training results...'' @ nl) # ls))"

section \<open>RTX 5090\<close>

definition rtx_payload ::
  "string \<Rightarrow> time \<Rightarrow> rat \<Rightarrow> (string \<times> json) list \<Rightarrow> string \<Rightarrow> string \<Rightarrow> ingest_payload" where
  "rtx_payload run started seconds metrics precision notes =
     \<lparr>in_run_id = run, in_timestamp = (plus_seconds started seconds, True),
      in_workload_name = ''qwen2.5-32b-instruct'', in_workload_type = ''llm'',
      in_metrics = metrics,
      in_status = ''success'', in_gpu_type = ''rtx5090'', in_node_ip = ''10.6.5.158'',
      in_config = [
        (''concurrency'', JInt 20),
        (''precision'', JStr precision),
        (''input_tokens'', JInt 14),
        (''output_tokens'', JInt 1024),
        (''gpu_count'', JInt 4),
        (''gpu_model'', JStr ''NVIDIA GeForce RTX 5090''),
        (''pipeline_version'', JStr ''vllm-openai:v0.14.1''),
        (''started_at'', JStr (isoformat started)),
        (''notes'', JStr notes)],
      in_sub_run_index = 0\<rparr>"

definition rtx_tp4 :: ingest_payload where
  "rtx_tp4 = rtx_payload ''rtx5090-tp4-bf16-v1'' (at_utc 2026 5 13 10) (238709 / 1000)
     [(''total_token_throughput'', JFloat 860),
      (''mean_ttft_ms'', JNull),
      (''mean_tpot_ms'', JNull),
      (''mean_e2el_ms'', JFloat 23870),
      (''p50_e2el_ms'', JFloat 21713),
      (''p95_e2el_ms'', JFloat 24521),
      (''max_e2el_ms'', JFloat 26726),
      (''requests_per_second'', JFloat (84 / 100)),
      (''total_requests'', JInt 200),
      (''successful_requests'', JInt 200),
      (''failed_requests'', JInt 0),
      (''per_gpu_throughput_tok_s'', JFloat 215),
      (''benchmark_tool'', JStr ''ApacheBench''),
      (''parallelism'', parallel_sizes 4 1),
      (''chunked_prefill'', JBool False),
      (''server_name'', JStr ''PRU'')]
     ''bf16'' ''Tensor Parallel 4, BF16, no chunked prefill''"

definition rtx_pp4 :: ingest_payload where
  "rtx_pp4 = rtx_payload ''rtx5090-pp4-fp8-v1'' (at_utc 2026 5 13 12) (383 / 10)
     [(''total_token_throughput'', JFloat 5345),
      (''mean_ttft_ms'', JNull),
      (''mean_tpot_ms'', JNull),
      (''mean_e2el_ms'', JFloat 3830),
      (''p50_e2el_ms'', JFloat 127),
      (''p95_e2el_ms'', JFloat 7000),
      (''max_e2el_ms'', JFloat 30100),
      (''requests_per_second'', JFloat (522 / 100)),
      (''total_requests'', JInt 200),
      (''successful_requests'', JInt 200),
      (''failed_requests'', JInt 0),
      (''per_gpu_throughput_tok_s'', JFloat 1336),
      (''benchmark_tool'', JStr ''ApacheBench''),
      (''parallelism'', parallel_sizes 1 4),
      (''chunked_prefill'', JBool True),
      (''max_num_batched_tokens'', JInt 65536),
      (''server_name'', JStr ''PRU'')]
     ''fp8'' ''Pipeline Parallel 4, FP8, chunked prefill, max_num_batched_tokens=65536''"

definition rtx_posts :: "(string \<times> ingest_payload) list" where
  "rtx_posts = [(''rtx5090-tp4-bf16-v1'', rtx_tp4), (''rtx5090-pp4-fp8-v1'', rtx_pp4)]"

definition seed_rtx5090 :: "api \<Rightarrow> string list act" where
  "seed_rtx5090 a = bindM (print_all (map (\<lambda>(run, p). post_marked a run p) rtx_posts)) (\<lambda>ls.
     ret ((nl @ ''Seeding 4'' @ times_sign @ '' RTX 5090 benchmark results...'' @ nl) # ls))"

section \<open>Verification\<close>

text \<open>\<open>verify\<close>: each run is read back. The T4 and MI210 scripts count its sub-runs, the other
scripts print figures of the first.\<close>

definition read_back :: "api \<Rightarrow> (string \<Rightarrow> detail_sub_run list \<Rightarrow> string) \<Rightarrow> string \<Rightarrow> string list act" where
  "read_back a show_runs run =
     bindM (request a (get_benchmark run)) (\<lambda>r. ret [''  '' @ run @ '': '' @ (case r of
         Inr x \<Rightarrow> show_runs run (snd x)
       | Inl e \<Rightarrow> ''HTTP '' @ show_nat (status_of e))])"

definition verify_runs :: "api \<Rightarrow> (string \<Rightarrow> detail_sub_run list \<Rightarrow> string) \<Rightarrow> string list \<Rightarrow> string list act" where
  "verify_runs a show_runs runs = bindM (print_all (map (read_back a show_runs) runs)) (\<lambda>ls.
     ret ((nl @ ''--- Verification ---'' @ nl) # ls @ [[]]))"

definition sub_run_count :: "nat \<Rightarrow> detail_sub_run list \<Rightarrow> string" where
  "sub_run_count expected runs = show_nat (length runs) @ ''/'' @ show_nat expected @ '' sub-runs''"

definition verify_t4 :: "api \<Rightarrow> string list act" where
  "verify_t4 a = verify_runs a (\<lambda>_. sub_run_count 3) (map (\<lambda>tp. ''t4-tinyllama-1b-tp'' @ show_int tp) [1, 2])"

definition mi210_expected :: "(string \<times> nat) list" where
  "mi210_expected = [(''mi210-llama31-70b-tp4'', 3), (''mi210-llama31-70b-tp8'', 3), (''mi210-deepseek-r1-70b-tp8'', 3),
     (''mi210-llama31-70b-tp8-openorca'', 3), (''mi210-llama31-70b-tp8-bench'', 3),
     (''mi210-llama31-70b-tp4-bench'', 3), (''mi210-llama33-70b-tp8'', 3)]"

definition verify_mi210 :: "api \<Rightarrow> string list act" where
  "verify_mi210 a = verify_runs a (\<lambda>run. sub_run_count (the (map_of mi210_expected run))) (map fst mi210_expected)"

text \<open>\<open>r.json().get("sub_runs", [{}])[0]\<close>: the API answers 404 for a run without rows.\<close>

definition first_run_text :: "api \<Rightarrow> detail_sub_run list \<Rightarrow> string" where
  "first_run_text a runs = ''throughput='' @ api_str a (rr_total_token_throughput (hd runs)) @ ''  status='' @ rr_status (hd runs)"

definition verify_h100 :: "api \<Rightarrow> string list act" where
  "verify_h100 a = verify_runs a (\<lambda>_. first_run_text a) [''h100-llama3-70b-c128'', ''h100-llama3-70b-c256'']"

definition verify_p40 :: "api \<Rightarrow> string list act" where
  "verify_p40 a = verify_runs a (\<lambda>_ runs. ''throughput='' @ api_str a (rr_total_token_throughput (hd runs)) @
     '' status='' @ rr_status (hd runs)) [''p40-resnet50-training-1node'', ''p40-resnet50-training-2node'']"

definition verify_rtx5090 :: "api \<Rightarrow> string list act" where
  "verify_rtx5090 a = verify_runs a (\<lambda>_ runs. api_str a (rr_total_token_throughput (hd runs)) @ '' tok/s  | e2el='' @
     api_str a (rr_mean_e2el_ms (hd runs)) @ ''ms  | status='' @ rr_status (hd runs))
     [''rtx5090-tp4-bf16-v1'', ''rtx5090-pp4-fp8-v1'']"

section \<open>The GPU catalogue\<close>

definition gpu_entry ::
  "string \<Rightarrow> string \<Rightarrow> string \<Rightarrow> string \<Rightarrow> int \<Rightarrow> int \<Rightarrow> int \<Rightarrow> rat option \<Rightarrow> rat option \<Rightarrow> gpu_payload" where
  "gpu_entry gpu_type display_name vendor arch vram_gb tdp_watts tier_rank fp16_tflops fp8_tflops =
     \<lparr>gp_gpu_type = gpu_type, gp_display_name = display_name, gp_vendor = vendor, gp_arch = arch,
      gp_vram_gb = vram_gb, gp_tdp_watts = tdp_watts, gp_tier_rank = tier_rank,
      gp_fp16_tflops = fp16_tflops, gp_fp8_tflops = fp8_tflops\<rparr>"

definition GPU_SPECS :: "gpu_payload list" where
  "GPU_SPECS = [
     gpu_entry ''h100'' ''NVIDIA H100 NVL'' ''nvidia'' ''hopper'' 94 400 1 (Some 1979) (Some 3958),
     gpu_entry ''rtx5090'' ''NVIDIA GeForce RTX 5090'' ''nvidia'' ''blackwell'' 32 575 2 (Some 838) (Some 1676),
     gpu_entry ''a100'' ''NVIDIA A100 SXM4-80GB'' ''nvidia'' ''ampere'' 80 400 3 (Some 312) None,
     gpu_entry ''mi300x'' ''AMD Instinct MI300X'' ''amd'' ''cdna3'' 192 750 4 (Some 1307) (Some 2614),
     gpu_entry ''mi210'' ''AMD Instinct MI210'' ''amd'' ''cdna2'' 64 300 5 (Some 181) None,
     gpu_entry ''t4'' ''NVIDIA Tesla T4'' ''nvidia'' ''turing'' 16 70 6 (Some 65) None,
     gpu_entry ''p100'' ''NVIDIA Tesla P100 SXM2'' ''nvidia'' ''pascal'' 16 300 7 (Some (187 / 10)) None,
     gpu_entry ''p40'' ''NVIDIA Tesla P40'' ''nvidia'' ''pascal'' 24 250 8 None None]"

definition pad_right :: "nat \<Rightarrow> string \<Rightarrow> string" where
  "pad_right k s = s @ replicate (k - length s) CHR '' ''"

definition pad_left :: "nat \<Rightarrow> string \<Rightarrow> string" where
  "pad_left k s = replicate (k - length s) CHR '' '' @ s"

definition post_spec :: "api \<Rightarrow> gpu_payload \<Rightarrow> (bool \<times> string list) act" where
  "post_spec a p =
     bindM (request a (upsert_gpu_spec (api_env a) p)) (\<lambda>r.
     ret (response_code 201 r \<in> {200, 201},
       post_lines a [200, 201] 201 (''tier='' @ show_int (gp_tier_rank p) @ ''  '' @
         pad_right 12 (gp_gpu_type p) @ ''  '' @ gp_display_name p) r))"

fun post_specs :: "api \<Rightarrow> gpu_payload list \<Rightarrow> (bool \<times> string list) act" where
  "post_specs a [] = ret (True, [])"
| "post_specs a (p # ps) = bindM (post_spec a p) (\<lambda>(ok, l). bindM (post_specs a ps) (\<lambda>(oks, ls). ret (ok \<and> oks, l @ ls)))"

text \<open>\<open>seed\<close> answers whether every post was accepted; the script does not use the answer.\<close>

definition seed_gpu_specs :: "api \<Rightarrow> (bool \<times> string list) act" where
  "seed_gpu_specs a = bindM (post_specs a GPU_SPECS) (\<lambda>(ok, ls).
     ret (ok, (nl @ ''Seeding GPU specs catalog...'' @ nl) # ls @ [[]]))"

definition spec_line :: "api \<Rightarrow> gpu_spec \<Rightarrow> string" where
  "spec_line a g =
     (let fp16 = (case gs_fp16_tflops g of
          Some x \<Rightarrow> if x = 0 then u_dash else api_str a (JFloat x) @ '' TF'' | None \<Rightarrow> u_dash) in
      ''  tier='' @ show_int (gs_tier_rank g) @ ''  '' @ pad_right 12 (gs_gpu_type g) @ ''  '' @
      pad_left 4 (show_int (gs_vram_gb g)) @ ''GB  '' @
      fp16 @ replicate (12 - (if fp16 = u_dash then 1 else length fp16)) CHR '' '' @ ''  '' @ gs_display_name g)"

definition verify_gpu_specs :: "api \<Rightarrow> string list act" where
  "verify_gpu_specs a = bindM (request a list_gpu_specs) (\<lambda>r.
     ret ((''--- Verification (ordered by tier) ---'' @ nl) #
       (case r of Inr gs \<Rightarrow> map (spec_line a) gs
        | Inl e \<Rightarrow> [''  HTTP '' @ show_nat (status_of e) @ '': '' @ response_text a r]) @ [[]]))"

definition gpu_seed_main :: "api \<Rightarrow> string list act" where
  "gpu_seed_main a = bindM (seed_gpu_specs a) (\<lambda>(ok, ls). bindM (verify_gpu_specs a) (\<lambda>vs. ret (ls @ vs)))"


section \<open>What a post stores\<close>

text \<open>The row of a payload, up to its id and time of creation.\<close>

definition row_of :: "env \<Rightarrow> ingest_payload \<Rightarrow> benchmark_result \<Rightarrow> bool" where
  "row_of env p x = (\<exists>row. ingest_row env p = Inr row \<and> x = row (br_id x) (br_created_at x))"

definition payload_key :: "ingest_payload \<Rightarrow> string \<times> int" where
  "payload_key p = (in_run_id p, in_sub_run_index p)"

text \<open>The payload's row meets the checks of the table.\<close>

definition fits_table :: "env \<Rightarrow> ingest_payload \<Rightarrow> bool" where
  "fits_table env p = (\<exists>row. ingest_row env p = Inr row \<and> (\<forall>i t. result_checks (row i t)))"

text \<open>The database takes every commit that keeps the table's constraints.\<close>

definition takes_valid :: "env \<Rightarrow> bool" where
  "takes_valid env = (\<forall>n d. results_valid d \<longrightarrow> e_refuse env n d = None)"

text \<open>\<open>fromisoformat\<close> reads a text with an offset as an aware time.\<close>

definition reads_aware :: "env \<Rightarrow> bool" where
  "reads_aware env = (\<forall>t u aware. e_parse_iso env (isoformat t) = Some (u, aware) \<longrightarrow> aware)"

lemma ingest_row_columns:
  assumes "ingest_row env p = Inr row"
  shows "br_id (row i t) = i" "br_created_at (row i t) = t" "result_key (row i t) = payload_key p"
    "row_of env p (row i t)"
proof -
  show a: "br_id (row i t) = i" "br_created_at (row i t) = t"
    using assms by (auto simp: ingest_row_def Let_def split: sum.splits)
  show "result_key (row i t) = payload_key p" using ingest_row_key [OF assms] by (simp add: payload_key_def)
  show "row_of env p (row i t)" using assms a by (auto simp: row_of_def)
qed

lemma row_of_key: "row_of env p x \<Longrightarrow> result_key x = payload_key p"
  unfolding row_of_def using ingest_row_columns(3) by metis

lemma row_of_merge:
  assumes "row_of env p new" and "row_of env p x"
  shows "merge_row new x = x"
proof -
  obtain row where row: "ingest_row env p = Inr row" and n: "new = row (br_id new) (br_created_at new)"
    and x: "x = row (br_id x) (br_created_at x)"
    using assms by (auto simp: row_of_def)
  then show ?thesis using ingest_row_merge(1) [OF row] by metis
qed

lemma merge_row_of:
  assumes "row_of env p new" and "merge_row new x = x"
  shows "row_of env p x"
proof -
  obtain row where row: "ingest_row env p = Inr row" and n: "new = row (br_id new) (br_created_at new)"
    using assms(1) by (auto simp: row_of_def)
  have "(row i t)\<lparr>br_id := j, br_created_at := u\<rparr> = row j u" for i t j u
    using row by (auto simp: ingest_row_def Let_def split: sum.splits)
  then have "merge_row new x = row (br_id x) (br_created_at x)" using n by (metis merge_row_def)
  then show ?thesis using row assms(2) by (auto simp: row_of_def)
qed

text \<open>The rows a list of payloads leaves: each is put in, in order.\<close>

definition ingested :: "env \<Rightarrow> ingest_payload list \<Rightarrow> benchmark_result list \<Rightarrow> benchmark_result list \<Rightarrow> bool" where
  "ingested env ps rs rs' = (\<exists>news. list_all2 (row_of env) ps news \<and> rs' = fold upsert news rs)"

lemma ingested_Nil: "ingested env [] rs rs" by (simp add: ingested_def)

lemma ingested_append:
  assumes "ingested env ps rs rs1" and "ingested env qs rs1 rs2"
  shows "ingested env (ps @ qs) rs rs2"
proof -
  obtain news news' where "list_all2 (row_of env) ps news" "rs1 = fold upsert news rs"
    "list_all2 (row_of env) qs news'" "rs2 = fold upsert news' rs1"
    using assms by (auto simp: ingested_def)
  then show ?thesis unfolding ingested_def
    by (intro exI [of _ "news @ news'"]) (simp add: list_all2_appendI)
qed

lemma news_keys: "list_all2 (row_of env) ps news \<Longrightarrow> map result_key news = map payload_key ps"
  by (induction rule: list_all2_induct) (auto dest: row_of_key)

lemma ingested_stored:
  assumes "ingested env ps rs rs'" and "distinct (map result_key rs)" and "distinct (map payload_key ps)" and "p \<in> set ps"
  shows "\<exists>x. filter (\<lambda>r. result_key r = payload_key p) rs' = [x] \<and> row_of env p x"
proof -
  obtain news where news: "list_all2 (row_of env) ps news" and rs': "rs' = fold upsert news rs"
    using assms(1) by (auto simp: ingested_def)
  obtain n where n: "n \<in> set news" "row_of env p n" using list_all2_found [OF news assms(4)] by blast
  obtain x where x: "x \<in> set rs'" "result_key x = payload_key p" "merge_row n x = x"
    using measured.puts_found [of news n rs] n(1) assms(3) news_keys [OF news] row_of_key [OF n(2)]
    by (auto simp: rs')
  have d: "distinct (map result_key rs')" using measured.puts_distinct [OF assms(2)] by (simp add: rs')
  have "filter (\<lambda>r. result_key r = payload_key p) rs' = [x]"
  proof -
    have "distinct ys \<Longrightarrow> set ys = {x} \<Longrightarrow> ys = [x]" for ys :: "benchmark_result list"
      by (cases ys; cases "tl ys") auto
    moreover have "distinct (filter (\<lambda>r. result_key r = payload_key p) rs')"
      using d by (simp add: distinct_map)
    moreover have "set (filter (\<lambda>r. result_key r = payload_key p) rs') = {x}"
      using d x(1,2) by (auto simp: distinct_map inj_on_def)
    ultimately show ?thesis by blast
  qed
  then show ?thesis using merge_row_of [OF n(2) x(3)] by blast
qed

lemma ingested_others:
  assumes "ingested env ps rs rs'"
  shows "filter (\<lambda>r. result_key r \<notin> payload_key ` set ps) rs' = filter (\<lambda>r. result_key r \<notin> payload_key ` set ps) rs"
proof -
  obtain news where news: "list_all2 (row_of env) ps news" and rs': "rs' = fold upsert news rs"
    using assms by (auto simp: ingested_def)
  have "result_key ` set news = payload_key ` set ps" using news_keys [OF news] by (metis set_map)
  then show ?thesis by (simp add: rs' measured.puts_others)
qed

lemma ingested_again:
  assumes "ingested env ps rs rs1" and "ingested env ps rs1 rs2"
    and "distinct (map result_key rs)" and "distinct (map payload_key ps)"
  shows "rs2 = rs1"
proof -
  obtain news news' where news: "list_all2 (row_of env) ps news" "list_all2 (row_of env) ps news'"
    and rs: "rs1 = fold upsert news rs" "rs2 = fold upsert news' rs1"
    using assms(1,2) by (auto simp: ingested_def)
  have "list_all2 (\<lambda>n' n. result_key n' = result_key n \<and> merge_row n' n = n) news' news"
  proof (rule list_all2_all_nthI)
    show "length news' = length news" using news by (simp add: list_all2_conv_all_nth)
    fix i assume "i < length news'"
    then have "row_of env (ps ! i) (news ! i)" "row_of env (ps ! i) (news' ! i)"
      using news by (simp_all add: list_all2_conv_all_nth)
    then show "result_key (news' ! i) = result_key (news ! i) \<and> merge_row (news' ! i) (news ! i) = news ! i"
      by (simp add: row_of_key row_of_merge)
  qed
  then show ?thesis using measured.puts_again [OF assms(3)] assms(4) news_keys [OF news(1)] by (simp add: rs)
qed

lemma upsert_valid:
  assumes "results_valid d" and "result_checks new"
  shows "results_valid (d\<lparr>results := upsert new (results d)\<rparr>)"
proof -
  have m: "result_checks (merge_row new r)" for r
    using assms(2) by (simp add: result_checks_def merge_row_def)
  show ?thesis using assms m
    using upsert_keys_distinct [of "results d" new]
    by (auto simp: results_valid_def list_all_iff upsert_def update_where_def simp del: map_append split: if_splits)
qed

section \<open>What a script stores\<close>

text \<open>From every valid table the script prints these lines and puts these payloads in.\<close>

definition seeds :: "api \<Rightarrow> string list act \<Rightarrow> ingest_payload list \<Rightarrow> string list \<Rightarrow> bool" where
  "seeds a m ps ls = (\<forall>s. results_valid (committed s) \<longrightarrow>
     (\<exists>s'. m s = (Inr ls, s') \<and> results_valid (committed s') \<and>
       (\<exists>rs'. ingested (api_env a) ps (results (committed s)) rs' \<and> committed s' = (committed s)\<lparr>results := rs'\<rparr>)))"

lemma seedsD:
  assumes "seeds a m ps ls" and "results_valid (committed s)"
  obtains s' rs' where "m s = (Inr ls, s')" "results_valid (committed s')"
    "ingested (api_env a) ps (results (committed s)) rs'" "committed s' = (committed s)\<lparr>results := rs'\<rparr>"
  using assms unfolding seeds_def by blast

lemma seeds_ret: "seeds a (ret []) [] []"
  by (auto simp: seeds_def ret_def intro!: exI [of _ "results _"] ingested_Nil)

lemma seeds_bind:
  assumes "seeds a m ps ls" and "\<And>s. seeds a (f ls) qs ls'"
  shows "seeds a (bindM m f) (ps @ qs) ls'"
  unfolding seeds_def
proof (intro allI impI)
  fix s :: sess assume s: "results_valid (committed s)"
  obtain s1 rs1 where 1: "m s = (Inr ls, s1)" "results_valid (committed s1)"
    "ingested (api_env a) ps (results (committed s)) rs1" "committed s1 = (committed s)\<lparr>results := rs1\<rparr>"
    by (rule seedsD [OF assms(1) s])
  obtain s2 rs2 where 2: "f ls s1 = (Inr ls', s2)" "results_valid (committed s2)"
    "ingested (api_env a) qs (results (committed s1)) rs2" "committed s2 = (committed s1)\<lparr>results := rs2\<rparr>"
    by (rule seedsD [OF assms(2) 1(2)])
  have "bindM m f s = (Inr ls', s2)" using 1(1) 2(1) by (simp add: bindM_def)
  moreover have "ingested (api_env a) (ps @ qs) (results (committed s)) rs2"
    using ingested_append [OF 1(3)] 2(3) 1(4) by simp
  ultimately show "\<exists>s'. bindM m f s = (Inr ls', s') \<and> results_valid (committed s') \<and>
      (\<exists>rs'. ingested (api_env a) (ps @ qs) (results (committed s)) rs' \<and> committed s' = (committed s)\<lparr>results := rs'\<rparr>)"
    using 1(4) 2(2,4) by auto
qed

lemma seeds_map: "seeds a m ps ls \<Longrightarrow> seeds a (bindM m (\<lambda>l. ret (f l))) ps (f ls)"
  by (fastforce simp: seeds_def bindM_def ret_def)

lemma seeds_print_all:
  assumes "\<And>x. x \<in> set xs \<Longrightarrow> seeds a (post x) [payload x] [line x]"
  shows "seeds a (print_all (map post xs)) (map payload xs) (map line xs)"
  using assms
proof (induction xs)
  case (Cons x xs)
  have "seeds a (bindM (print_all (map post xs)) (\<lambda>ls. ret ([line x] @ ls))) (map payload xs) ([line x] @ map line xs)"
    using Cons by (intro seeds_map) simp
  then show ?case using seeds_bind [OF Cons.prems [of x]] by simp
qed (simp add: seeds_ret)

lemma seeds_pair:
  assumes "seeds a m ps ls" and "seeds a (print_all ms) qs ls'"
  shows "seeds a (print_all (m # ms)) (ps @ qs) (ls @ ls')"
  using seeds_bind [OF assms(1), of "\<lambda>l. bindM (print_all ms) (\<lambda>ls. ret (l @ ls))" qs "ls @ ls'"] seeds_map [OF assms(2)]
  by simp

lemma request_ingest:
  assumes "takes_valid (api_env a)" and "api_reach a = (\<lambda>_. None)" and "fits_table (api_env a) p"
    and "results_valid (committed s)"
  shows "\<exists>s' new. request a (ingest_metrics (api_env a) p) s = (Inr (Inr (in_run_id p)), s') \<and>
     results_valid (committed s') \<and> row_of (api_env a) p new \<and>
     committed s' = (committed s)\<lparr>results := upsert new (results (committed s))\<rparr>"
proof -
  obtain row where row: "ingest_row (api_env a) p = Inr row" and ok: "\<And>i t. result_checks (row i t)"
    using assms(3) by (auto simp: fits_table_def)
  have v: "results_valid ((committed s)\<lparr>results := upsert (row i t) (results (committed s))\<rparr>)" for i t
    by (rule upsert_valid [OF assms(4) ok])
  then have "e_refuse (api_env a) n ((committed s)\<lparr>results := upsert (row i t) (results (committed s))\<rparr>) = None" for n i t
    using assms(1) by (simp add: takes_valid_def)
  then show ?thesis using row v ingest_row_columns(4) [OF row]
    by (auto simp: request_def ingest_metrics_def act_defs assms(2) intro!: exI [of _ "row _ _"])
qed

lemma seeds_post:
  assumes "takes_valid (api_env a)" and "api_reach a = (\<lambda>_. None)" and "fits_table (api_env a) p"
    and "f (Inr (in_run_id p)) = ls"
  shows "seeds a (bindM (request a (ingest_metrics (api_env a) p)) (\<lambda>r. ret (f r))) [p] ls"
  unfolding seeds_def
proof (intro allI impI)
  fix s :: sess assume s: "results_valid (committed s)"
  obtain s' new where "request a (ingest_metrics (api_env a) p) s = (Inr (Inr (in_run_id p)), s')"
    "results_valid (committed s')" "row_of (api_env a) p new"
    "committed s' = (committed s)\<lparr>results := upsert new (results (committed s))\<rparr>"
    using request_ingest [OF assms(1-3) s] by blast
  moreover have "ingested (api_env a) [p] rs (upsert new rs)" for rs
    using calculation(3) unfolding ingested_def by (intro exI [of _ "[new]"]) simp
  ultimately show "\<exists>s'. bindM (request a (ingest_metrics (api_env a) p)) (\<lambda>r. ret (f r)) s = (Inr ls, s') \<and>
      results_valid (committed s') \<and>
      (\<exists>rs'. ingested (api_env a) [p] (results (committed s)) rs' \<and> committed s' = (committed s)\<lparr>results := rs'\<rparr>)"
    using assms(4) by (auto simp: bindM_def ret_def)
qed

text \<open>A payload with a time in UTC that names its columns fits the table.\<close>

definition sizes_or_none :: "json \<Rightarrow> bool" where
  "sizes_or_none j = (j = JNull \<or> (\<exists>tp pp. j = parallel_sizes tp pp))"

lemma sizes_simps [simp]: "sizes_or_none JNull" "sizes_or_none (parallel_sizes tp pp)"
  by (auto simp: sizes_or_none_def)

lemma parallelism_read: "sizes_or_none (dict_get m ''parallelism'') \<Longrightarrow> \<exists>par. parallelism_of m = Inr par"
  by (auto simp: sizes_or_none_def parallelism_of_def parallel_sizes_def degree_def dict_get_or_def json_or_def json_int_def)

lemma fits_tableI:
  assumes "reads_aware env" and "in_timestamp p = (t, True)"
    and "dict_get (in_config p) ''started_at'' = JStr (isoformat b)"
    and "sizes_or_none (dict_get (in_metrics p) ''parallelism'')"
    and "py_lower (in_workload_name p) = in_workload_name p"
    and "json_lower_ok (dict_get_or (in_config p) ''precision'' (JStr ''fp16''))"
    and "\<forall>k \<in> {''gpu_count'', ''input_tokens'', ''output_tokens'', ''concurrency'', ''pipeline_version''}.
      map_of (in_config p) k \<noteq> None \<and> map_of (in_config p) k \<noteq> Some JNull"
    and "py_lower (workload_type_text (in_workload_type p)) = workload_type_text (in_workload_type p)"
  shows "fits_table env p"
  using assms parallelism_read [OF assms(4)]
  by (auto simp: fits_table_def ingest_row_def Let_def started_of_def reads_aware_def duration_of_def result_checks_def
      dict_get_or_def split: option.split)

lemma seed_names_lower:
  "py_lower ''tinyllama-1.1b-chat'' = ''tinyllama-1.1b-chat''" "py_lower ''llama3.1-70b-instruct'' = ''llama3.1-70b-instruct''"
  "py_lower ''llama3.3-70b-instruct'' = ''llama3.3-70b-instruct''"
  "py_lower ''deepseek-r1-distill-llama-70b'' = ''deepseek-r1-distill-llama-70b''" "py_lower ''resnet50'' = ''resnet50''"
  "py_lower ''qwen2.5-32b-instruct'' = ''qwen2.5-32b-instruct''"
  "py_lower ''fp16'' = ''fp16''" "py_lower ''bf16'' = ''bf16''" "py_lower ''fp32'' = ''fp32''" "py_lower ''fp8'' = ''fp8''"
  "workload_type_text ''llm'' = ''llm''" "workload_type_text ''cv'' = ''cv''" "py_lower ''llm'' = ''llm''" "py_lower ''cv'' = ''cv''"
  by code_simp+

lemmas seed_fields = dict_get_def dict_get_or_def seed_names_lower indexed_def

lemma fits_indexed: "fits_table env (indexed run i p) = fits_table env p" for env p
  unfolding fits_table_def ingest_row_def Let_def indexed_def
  by (simp add: result_checks_def split: sum.splits)

lemma t4_fits: "reads_aware env \<Longrightarrow> fits_table env (t4_payload tp gpus base row)"
proof -
  assume r: "reads_aware env"
  obtain sub c dur tpt ttft tpot e2el p99 otp rtp tin tout
    where row: "row = (sub, c, dur, tpt, ttft, tpot, e2el, p99, otp, rtp, tin, tout)" by (cases row) auto
  show ?thesis by (rule fits_tableI [OF r]) (simp_all add: row t4_payload_def seed_fields)
qed

lemma mi210_llm_fits:
  assumes "reads_aware env" and "py_lower model = model"
  shows "fits_table env (mi210_llm model row gpus base notes in_tok out_tok tp)"
proof -
  obtain sub c dur tpt ttft tpot e2el p99 otp rtp tin tout
    where row: "row = (sub, c, dur, tpt, ttft, tpot, e2el, p99, otp, rtp, tin, tout)" by (cases row) auto
  show ?thesis
    by (rule fits_tableI [OF assms(1)]) (auto simp: row mi210_llm_def seed_fields MI210_VERSION_def assms(2) split: option.split)
qed

lemma bench_fits:
  assumes "reads_aware env" and "py_lower model = model"
  shows "fits_table env (bench_payload model gpus base notes row)"
proof -
  obtain sub c dur tpt ttft tpot otp tin tout
    where row: "row = (sub, c, dur, tpt, ttft, tpot, otp, tin, tout)" by (cases row) auto
  show ?thesis
    by (rule fits_tableI [OF assms(1)]) (simp_all add: row bench_payload_def seed_fields MI210_VERSION_def assms(2))
qed

lemma mi210_fits: "reads_aware env \<Longrightarrow> (run, i, p) \<in> set mi210_posts \<Longrightarrow> fits_table env p"
  unfolding mi210_posts_def mi210_tp4_def mi210_tp8_def mi210_deepseek_def mi210_openorca_def mi210_bench8_def
    mi210_bench4_def mi210_l33_def mi210_runs_def
  by (auto simp: orca_post_def seed_names_lower intro!: mi210_llm_fits bench_fits)

lemma h100_fits: "reads_aware env \<Longrightarrow> (run, p) \<in> set h100_posts \<Longrightarrow> fits_table env p"
proof -
  assume r: "reads_aware env" and "(run, p) \<in> set h100_posts"
  then have "p = h100_c128 \<or> p = h100_c256" by (auto simp: h100_posts_def)
  then show ?thesis
    by (elim disjE; intro fits_tableI [OF r]) (simp_all add: h100_c128_def h100_c256_def h100_payload_def seed_fields)
qed

lemma p40_fits: "reads_aware env \<Longrightarrow> (run, p) \<in> set p40_posts \<Longrightarrow> fits_table env p"
proof -
  assume r: "reads_aware env" and "(run, p) \<in> set p40_posts"
  then have "p = p40_1node \<or> p = p40_2node" by (auto simp: p40_posts_def)
  then show ?thesis
    by (elim disjE; intro fits_tableI [OF r]) (simp_all add: p40_1node_def p40_2node_def p40_payload_def seed_fields)
qed

lemma rtx_fits: "reads_aware env \<Longrightarrow> (run, p) \<in> set rtx_posts \<Longrightarrow> fits_table env p"
proof -
  assume r: "reads_aware env" and "(run, p) \<in> set rtx_posts"
  then have "p = rtx_tp4 \<or> p = rtx_pp4" by (auto simp: rtx_posts_def)
  then show ?thesis
    by (elim disjE; intro fits_tableI [OF r]) (simp_all add: rtx_tp4_def rtx_pp4_def rtx_payload_def seed_fields)
qed

section \<open>The scripts\<close>

lemma ok_lines: "post_lines a [200, 202] 202 label (Inr x) = [''  [OK] '' @ label]"
  by (simp add: post_lines_def response_code_def mark_of_def)

definition indexed_label :: "string \<times> int \<times> ingest_payload \<Rightarrow> string" where
  "indexed_label x = fst x @ ''['' @ show_int (fst (snd x)) @ '']''"

definition indexed_payload :: "string \<times> int \<times> ingest_payload \<Rightarrow> ingest_payload" where
  "indexed_payload x = indexed (fst x) (fst (snd x)) (snd (snd x))"

lemma seeds_indexed:
  assumes "takes_valid (api_env a)" and "api_reach a = (\<lambda>_. None)"
    and "\<And>run i p. (run, i, p) \<in> set xs \<Longrightarrow> fits_table (api_env a) p"
  shows "seeds a (bindM (print_all (map (\<lambda>(run, i, p). post_indexed a run i p) xs)) (\<lambda>ls. ret (heading # ls)))
    (map indexed_payload xs) (heading # map (\<lambda>x. ''  [OK] '' @ indexed_label x) xs)"
proof (intro seeds_map)
  have "seeds a (case x of (run, i, p) \<Rightarrow> post_indexed a run i p) [indexed_payload x] [''  [OK] '' @ indexed_label x]"
    if "x \<in> set xs" for x
  proof -
    obtain run i p where x: "x = (run, i, p)" by (cases x) auto
    have "fits_table (api_env a) (indexed run i p)" using that assms(3) by (simp add: x fits_indexed)
    then show ?thesis unfolding x prod.case post_indexed_def indexed_payload_def indexed_label_def fst_conv snd_conv
      by (intro seeds_post [OF assms(1,2)]) (simp_all add: ok_lines)
  qed
  from seeds_print_all [of xs a _ indexed_payload, OF this]
  show "seeds a (print_all (map (\<lambda>(run, i, p). post_indexed a run i p) xs)) (map indexed_payload xs)
      (map (\<lambda>x. ''  [OK] '' @ indexed_label x) xs)" by simp
qed

lemma seeds_named:
  assumes "\<And>run p. (run, p) \<in> set xs \<Longrightarrow> seeds a (post run p) [payload run p] [line run]"
  shows "seeds a (bindM (print_all (map (\<lambda>(run, p). post run p) xs)) (\<lambda>ls. ret (heading # ls)))
    (map (\<lambda>(run, p). payload run p) xs) (heading # map (\<lambda>x. line (fst x)) xs)"
proof (intro seeds_map)
  have "seeds a (case x of (run, p) \<Rightarrow> post run p) [case x of (run, p) \<Rightarrow> payload run p] [line (fst x)]"
    if "x \<in> set xs" for x using that assms [of "fst x" "snd x"] by (simp add: split_def)
  from seeds_print_all [of xs a _ "\<lambda>(run, p). payload run p", OF this]
  show "seeds a (print_all (map (\<lambda>(run, p). post run p) xs)) (map (\<lambda>(run, p). payload run p) xs)
      (map (\<lambda>x. line (fst x)) xs)" by simp
qed

text \<open>Every payload the five scripts post, in the order T4, H100, P40, RTX 5090, MI210.\<close>

definition seed_payloads :: "ingest_payload list" where
  "seed_payloads = map indexed_payload t4_posts @ map snd h100_posts @
     map (\<lambda>(run, p). indexed run 0 p) p40_posts @ map snd rtx_posts @ map indexed_payload mi210_posts"

definition seed_scripts :: "api \<Rightarrow> string list act list" where
  "seed_scripts a = [seed_t4 a, seed_h100 a, seed_p40 a, seed_rtx5090 a, seed_mi210 a]"

definition accepted_line :: "string \<Rightarrow> bool" where
  "accepted_line l = starts_with ''  [OK]'' l"

lemma seeds_scripts:
  assumes "takes_valid (api_env a)" and "reads_aware (api_env a)" and "api_reach a = (\<lambda>_. None)"
  shows "\<exists>ls. seeds a (print_all (seed_scripts a)) seed_payloads ls \<and> length (filter accepted_line ls) = length seed_payloads"
proof -
  note post = assms(1,3)
  have t4: "seeds a (seed_t4 a) (map indexed_payload t4_posts)
      ((nl @ ''Seeding T4 TinyLlama benchmark results...'' @ nl) # map (\<lambda>x. ''  [OK] '' @ indexed_label x) t4_posts)"
    unfolding seed_t4_def by (rule seeds_indexed [OF post]) (auto simp: t4_posts_def intro: t4_fits [OF assms(2)])
  have mi: "seeds a (seed_mi210 a) (map indexed_payload mi210_posts)
      ((nl @ ''Seeding AMD MI210 benchmark results...'' @ nl) # map (\<lambda>x. ''  [OK] '' @ indexed_label x) mi210_posts)"
    unfolding seed_mi210_def by (rule seeds_indexed [OF post]) (rule mi210_fits [OF assms(2)])
  have h: "seeds a (seed_h100 a) (map snd h100_posts)
      ((nl @ ''Seeding 2'' @ times_sign @ '' H100 NVL LLM benchmark results...'' @ nl) #
        map (\<lambda>x. ''  [OK] '' @ fst x) h100_posts)"
    unfolding seed_h100_def snd_def
    by (rule seeds_named) (auto simp: post_whole_def ok_lines intro!: seeds_post [OF post] h100_fits [OF assms(2)])
  have p: "seeds a (seed_p40 a) (map (\<lambda>(run, p). indexed run 0 p) p40_posts)
      ((nl @ ''Seeding P40 ResNet50 training results...'' @ nl) # map (\<lambda>x. ''  [OK] '' @ fst x) p40_posts)"
    unfolding seed_p40_def
    by (rule seeds_named) (auto simp: post_first_def ok_lines fits_indexed intro!: seeds_post [OF post] intro: p40_fits [OF assms(2)])
  have r: "seeds a (seed_rtx5090 a) (map snd rtx_posts)
      ((nl @ ''Seeding 4'' @ times_sign @ '' RTX 5090 benchmark results...'' @ nl) #
        map (\<lambda>x. ''  [OK]   '' @ fst x) rtx_posts)"
    unfolding seed_rtx5090_def snd_def
    by (rule seeds_named)
      (auto simp: post_marked_def Let_def response_code_def intro!: seeds_post [OF post] rtx_fits [OF assms(2)])
  have none: "seeds a (print_all []) [] []" by (simp add: seeds_ret)
  show ?thesis
    using seeds_pair [OF t4 seeds_pair [OF h seeds_pair [OF p seeds_pair [OF r seeds_pair [OF mi none]]]]]
    by (intro exI conjI) (simp add: seed_scripts_def seed_payloads_def, simp add: seed_payloads_def accepted_line_def starts_with_def nl_def filter_map comp_def)
qed


lemma seed_posts_keys:
  "map (\<lambda>x. (fst x, fst (snd x))) t4_posts =
    [(''t4-tinyllama-1b-tp1'', 0), (''t4-tinyllama-1b-tp1'', 1), (''t4-tinyllama-1b-tp1'', 2),
     (''t4-tinyllama-1b-tp2'', 0), (''t4-tinyllama-1b-tp2'', 1), (''t4-tinyllama-1b-tp2'', 2)]"
  "map (\<lambda>x. (fst x, fst (snd x))) mi210_posts = concat (map (\<lambda>run. [(run, 0), (run, 1), (run, 2)])
    [''mi210-llama31-70b-tp4'', ''mi210-llama31-70b-tp8'', ''mi210-deepseek-r1-70b-tp8'',
     ''mi210-llama31-70b-tp8-openorca'', ''mi210-llama31-70b-tp8-bench'', ''mi210-llama31-70b-tp4-bench'',
     ''mi210-llama33-70b-tp8''])"
proof -
  have "show_int 1 = ''1''" "show_int 2 = ''2''" by code_simp+
  then show "map (\<lambda>x. (fst x, fst (snd x))) t4_posts =
    [(''t4-tinyllama-1b-tp1'', 0), (''t4-tinyllama-1b-tp1'', 1), (''t4-tinyllama-1b-tp1'', 2),
     (''t4-tinyllama-1b-tp2'', 0), (''t4-tinyllama-1b-tp2'', 1), (''t4-tinyllama-1b-tp2'', 2)]"
    by (simp add: t4_posts_def TP1_def TP2_def)
qed (simp add: mi210_posts_def mi210_tp4_def mi210_tp8_def mi210_deepseek_def mi210_openorca_def mi210_bench8_def
    mi210_bench4_def mi210_l33_def mi210_runs_def orca_rows_def orca_post_def)

lemma indexed_key: "payload_key (indexed run i p) = (run, i)"
  by (simp add: payload_key_def indexed_def)

lemma seed_keys:
  "map payload_key seed_payloads = map (\<lambda>x. (fst x, fst (snd x))) t4_posts @
     [(''h100-llama3-70b-c128'', 0), (''h100-llama3-70b-c256'', 0), (''p40-resnet50-training-1node'', 0),
      (''p40-resnet50-training-2node'', 0), (''rtx5090-tp4-bf16-v1'', 0), (''rtx5090-pp4-fp8-v1'', 0)] @
     map (\<lambda>x. (fst x, fst (snd x))) mi210_posts"
proof -
  have "payload_key (h100_payload run b d fs n) = (run, 0)" for run b d fs n
    by (simp add: payload_key_def h100_payload_def)
  moreover have "payload_key (rtx_payload run b d fs pr no) = (run, 0)" for run b d fs pr no
    by (simp add: payload_key_def rtx_payload_def)
  ultimately show ?thesis
    by (simp add: seed_payloads_def indexed_payload_def indexed_key comp_def h100_posts_def h100_c128_def h100_c256_def
        p40_posts_def rtx_posts_def rtx_tp4_def rtx_pp4_def)
qed

lemma seed_keys_distinct: "distinct (map payload_key seed_payloads)" "length seed_payloads = 33"
proof -
  show "distinct (map payload_key seed_payloads)" unfolding seed_keys seed_posts_keys by simp
  have "length (map payload_key seed_payloads) = 33" unfolding seed_keys seed_posts_keys by simp
  then show "length seed_payloads = 33" by simp
qed

section \<open>Properties\<close>

text \<open>C6: the five result scripts, run against a database that keeps the table's constraints, have
all their 33 posts accepted; each payload is then the one row under its run and index, no other row
is touched, and running all scripts again changes nothing.\<close>

theorem seeds_accepted_once:
  assumes "takes_valid (api_env a)" and "reads_aware (api_env a)" and "api_reach a = (\<lambda>_. None)"
    and "results_valid (committed s)"
  shows "\<exists>ls s1 s2. print_all (seed_scripts a) s = (Inr ls, s1) \<and> length (filter accepted_line ls) = 33 \<and>
    (\<forall>p \<in> set seed_payloads. \<exists>x. filter (\<lambda>r. result_key r = payload_key p) (results (committed s1)) = [x] \<and>
      row_of (api_env a) p x) \<and>
    filter (\<lambda>r. result_key r \<notin> payload_key ` set seed_payloads) (results (committed s1)) =
      filter (\<lambda>r. result_key r \<notin> payload_key ` set seed_payloads) (results (committed s)) \<and>
    print_all (seed_scripts a) s1 = (Inr ls, s2) \<and> committed s2 = committed s1"
proof -
  obtain ls where ls: "seeds a (print_all (seed_scripts a)) seed_payloads ls" "length (filter accepted_line ls) = 33"
    using seeds_scripts [OF assms(1-3)] seed_keys_distinct(2) by auto
  have d: "distinct (map result_key (results (committed s)))" using assms(4) by (simp add: results_valid_def)
  obtain s1 rs1 where 1: "print_all (seed_scripts a) s = (Inr ls, s1)" "results_valid (committed s1)"
    "ingested (api_env a) seed_payloads (results (committed s)) rs1" "committed s1 = (committed s)\<lparr>results := rs1\<rparr>"
    by (rule seedsD [OF ls(1) assms(4)])
  obtain s2 rs2 where 2: "print_all (seed_scripts a) s1 = (Inr ls, s2)" "results_valid (committed s2)"
    "ingested (api_env a) seed_payloads (results (committed s1)) rs2" "committed s2 = (committed s1)\<lparr>results := rs2\<rparr>"
    by (rule seedsD [OF ls(1) 1(2)])
  have rs1: "results (committed s1) = rs1" by (simp add: 1(4))
  have "rs2 = rs1" using ingested_again [OF 1(3) _ d seed_keys_distinct(1)] 2(3) by (simp add: rs1)
  then have "committed s2 = committed s1" by (simp add: 2(4) 1(4))
  moreover have "\<forall>p \<in> set seed_payloads. \<exists>x. filter (\<lambda>r. result_key r = payload_key p) rs1 = [x] \<and> row_of (api_env a) p x"
    using ingested_stored [OF 1(3) d seed_keys_distinct(1)] by blast
  ultimately show ?thesis using 1(1) 2(1) ls(2) ingested_others [OF 1(3)] rs1 by auto
qed

definition sample_api :: api where
  "sample_api = \<lparr>
     api_env = calm_env\<lparr>e_refuse := (\<lambda>_ d. if results_valid d then None else Some (DatabaseError ''check'')),
       e_parse_iso := (\<lambda>x. case strptime_date (take 10 x) of Inr d \<Rightarrow> Some (d * 86400000000, True) | Inl _ \<Rightarrow> None)\<rparr>,
     api_reach = (\<lambda>_. None), api_reply = exc_str, api_str = (\<lambda>_. [])\<rparr>"

lemma seeds_accepted_once_witness:
  "\<exists>ls s1 s2. print_all (seed_scripts sample_api) (fresh_sess empty_db) = (Inr ls, s1) \<and>
     length (filter accepted_line ls) = 33 \<and>
     print_all (seed_scripts sample_api) s1 = (Inr ls, s2) \<and> committed s2 = committed s1"
proof -
  have "takes_valid (api_env sample_api)" "reads_aware (api_env sample_api)" "api_reach sample_api = (\<lambda>_. None)"
    by (auto simp: takes_valid_def reads_aware_def sample_api_def split: sum.splits)
  moreover have "results_valid (committed (fresh_sess empty_db))"
    by (simp add: results_valid_def fresh_sess_def empty_db_def)
  ultimately show ?thesis using seeds_accepted_once [of sample_api "fresh_sess empty_db"] by fastforce
qed

text \<open>The Open Orca runs of two models are posted with the same figures.\<close>

theorem openorca_figures_shared:
  "map (\<lambda>(run, i, p). (i, in_metrics p)) mi210_deepseek = map (\<lambda>(run, i, p). (i, in_metrics p)) mi210_openorca"
  "map (\<lambda>(run, i, p). in_workload_name p) mi210_deepseek \<noteq> map (\<lambda>(run, i, p). in_workload_name p) mi210_openorca"
  by (simp_all add: mi210_deepseek_def mi210_openorca_def orca_rows_def orca_post_def mi210_llm_def)

text \<open>The throughputs the P40 script computes.\<close>

theorem p40_throughputs:
  "p40_throughput (224037 / 100) = 85778 / 10" "p40_throughput (149142 / 100) = 128854 / 10"
  by code_simp+

section \<open>Seeding the GPU catalogue\<close>

text \<open>The specification of a payload, up to the id of its row.\<close>

definition holds_spec :: "gpu_payload \<Rightarrow> gpu_spec \<Rightarrow> bool" where
  "holds_spec p g = (g = gpu_row (gs_id g) p)"

lemma holds_spec_simps:
  "holds_spec p (gpu_row i p)" "holds_spec p g \<Longrightarrow> gs_gpu_type g = py_lower (gp_gpu_type p)"
  "holds_spec p n \<Longrightarrow> holds_spec p g \<Longrightarrow> n\<lparr>gs_id := gs_id g\<rparr> = g"
  "holds_spec p n \<Longrightarrow> n\<lparr>gs_id := gs_id g\<rparr> = g \<Longrightarrow> holds_spec p g"
  unfolding holds_spec_def gpu_row_def
  by (simp, (metis gpu_spec.select_convs(2)), (cases n; cases g; simp), (cases n; cases g; simp))

lemma post_specs_run:
  assumes "accepting (api_env a)" and "api_reach a = (\<lambda>_. None)"
  shows "\<exists>ls s' news. post_specs a ps s = (Inr (True, ls), s') \<and> list_all2 holds_spec ps news \<and>
    committed s' = (committed s)\<lparr>gpu_specs := fold upsert_gpu news (gpu_specs (committed s))\<rparr>"
proof (induction ps arbitrary: s)
  case Nil
  then show ?case by (simp add: ret_def)
next
  case (Cons p ps)
  obtain s1 i where 1: "request a (upsert_gpu_spec (api_env a) p) s = (Inr (Inr (py_lower (gp_gpu_type p))), s1)"
    "committed s1 = (committed s)\<lparr>gpu_specs := upsert_gpu (gpu_row i p) (gpu_specs (committed s))\<rparr>"
    using assms by (auto simp: request_def upsert_gpu_spec_def act_defs accepting_def)
  obtain ls s2 news where 2: "post_specs a ps s1 = (Inr (True, ls), s2)" "list_all2 holds_spec ps news"
    "committed s2 = (committed s1)\<lparr>gpu_specs := fold upsert_gpu news (gpu_specs (committed s1))\<rparr>"
    using Cons.IH by blast
  obtain l where "post_spec a p s = (Inr (True, l), s1)"
    using 1(1) by (auto simp: post_spec_def bindM_def ret_def response_code_def)
  then have "post_specs a (p # ps) s = (Inr (True, l @ ls), s2)" using 2(1) by (simp add: bindM_def ret_def)
  moreover have "list_all2 holds_spec (p # ps) (gpu_row i p # news)" using 2(2) by (simp add: holds_spec_simps(1))
  moreover have "committed s2 = (committed s)\<lparr>gpu_specs := fold upsert_gpu (gpu_row i p # news) (gpu_specs (committed s))\<rparr>"
    by (simp add: 2(3) 1(2))
  ultimately show ?case by blast
qed


lemma specs_keys: "list_all2 holds_spec ps news \<Longrightarrow> map gs_gpu_type news = map (\<lambda>p. py_lower (gp_gpu_type p)) ps"
  by (induction rule: list_all2_induct) (auto dest: holds_spec_simps(2))

lemma GPU_SPECS_types:
  "map (\<lambda>p. py_lower (gp_gpu_type p)) GPU_SPECS = [''h100'', ''rtx5090'', ''a100'', ''mi300x'', ''mi210'', ''t4'', ''p100'', ''p40'']"
  by code_simp

text \<open>the GPU script stores its eight specifications, one row per type, and a second run changes
nothing, as its first comment promises.\<close>

theorem gpu_seed_idempotent:
  assumes "accepting (api_env a)" and "api_reach a = (\<lambda>_. None)"
    and "distinct (map gs_gpu_type (gpu_specs (committed s)))"
  shows "\<exists>ls s1 ls2 s2. seed_gpu_specs a s = (Inr (True, ls), s1) \<and>
    (\<forall>p \<in> set GPU_SPECS. \<exists>g \<in> set (gpu_specs (committed s1)). holds_spec p g) \<and>
    distinct (map gs_gpu_type (gpu_specs (committed s1))) \<and>
    seed_gpu_specs a s1 = (Inr (True, ls2), s2) \<and> committed s2 = committed s1"
proof -
  obtain ls s1 news where 1: "post_specs a GPU_SPECS s = (Inr (True, ls), s1)" "list_all2 holds_spec GPU_SPECS news"
    "committed s1 = (committed s)\<lparr>gpu_specs := fold upsert_gpu news (gpu_specs (committed s))\<rparr>"
    using post_specs_run [OF assms(1,2)] by blast
  obtain ls2 s2 news2 where 2: "post_specs a GPU_SPECS s1 = (Inr (True, ls2), s2)" "list_all2 holds_spec GPU_SPECS news2"
    "committed s2 = (committed s1)\<lparr>gpu_specs := fold upsert_gpu news2 (gpu_specs (committed s1))\<rparr>"
    using post_specs_run [OF assms(1,2)] by blast
  have d: "distinct (map gs_gpu_type news)" unfolding specs_keys [OF 1(2)] GPU_SPECS_types by simp
  have "list_all2 (\<lambda>n' n. gs_gpu_type n' = gs_gpu_type n \<and> n'\<lparr>gs_id := gs_id n\<rparr> = n) news2 news"
  proof (rule list_all2_all_nthI)
    show "length news2 = length news" using 1(2) 2(2) by (simp add: list_all2_conv_all_nth)
    fix i assume "i < length news2"
    then have "holds_spec (GPU_SPECS ! i) (news ! i)" "holds_spec (GPU_SPECS ! i) (news2 ! i)"
      using 1(2) 2(2) by (simp_all add: list_all2_conv_all_nth)
    then show "gs_gpu_type (news2 ! i) = gs_gpu_type (news ! i) \<and> (news2 ! i)\<lparr>gs_id := gs_id (news ! i)\<rparr> = news ! i"
      using holds_spec_simps(2,3) by metis
  qed
  then have "committed s2 = committed s1"
    using catalogue.puts_again [OF assms(3) d] by (simp add: 2(3) 1(3))
  moreover have "\<exists>g \<in> set (gpu_specs (committed s1)). holds_spec p g" if "p \<in> set GPU_SPECS" for p
  proof -
    obtain n where n: "n \<in> set news" "holds_spec p n" using list_all2_found [OF 1(2) \<open>p \<in> set GPU_SPECS\<close>] by blast
    then show ?thesis using catalogue.puts_found [OF d n(1)] holds_spec_simps(4) [OF n(2)] by (fastforce simp: 1(3))
  qed
  ultimately show ?thesis using 1(1) 2(1) catalogue.puts_distinct [OF assms(3)]
    by (simp add: seed_gpu_specs_def bindM_def ret_def 1(3))
qed

lemma gpu_seed_idempotent_witness:
  "\<exists>ls s1 ls2 s2. seed_gpu_specs (sample_api\<lparr>api_env := calm_env\<rparr>) (fresh_sess empty_db) = (Inr (True, ls), s1) \<and>
     seed_gpu_specs (sample_api\<lparr>api_env := calm_env\<rparr>) s1 = (Inr (True, ls2), s2) \<and> committed s2 = committed s1"
proof -
  have "accepting (api_env (sample_api\<lparr>api_env := calm_env\<rparr>))" "api_reach (sample_api\<lparr>api_env := calm_env\<rparr>) = (\<lambda>_. None)"
    "distinct (map gs_gpu_type (gpu_specs (committed (fresh_sess empty_db))))"
    by (simp_all add: accepting_calm sample_api_def fresh_sess_def empty_db_def)
  from gpu_seed_idempotent [OF this] show ?thesis by blast
qed

end
