(* ===== verification/Orm_Schema.thy ===== *)
theory Orm_Schema
  imports Migrations Seed_Scripts
begin

text \<open>
  \<open>app/models\<close> as a schema: the columns the eight classes map, with SQLAlchemy's names for what they
  do not name, next to the schema the revisions of \<open>Migrations\<close> lead to. Comments on columns and the
  defaults that only Python knows are left out.
\<close>

section \<open>The mapped classes\<close>

datatype orm_flag = Primary | Indexed | Unique | References string on_delete | Server_default string

type_synonym orm_column = "string \<times> sql_type \<times> bool \<times> orm_flag list"

record orm_model =
  om_table :: string
  om_columns :: "orm_column list"
  om_constraints :: "table_constraint list"
  om_indexes :: "index_def list"

definition workload_type_model :: orm_model where
  "workload_type_model = \<lparr>om_table = ''workload_types'', om_columns = [
      (''id'', Uuid, False, [Primary]),
      (''name'', (Varchar 50), False, [Unique, Indexed]),
      (''display_name'', (Varchar 100), False, []),
      (''description'', Text, True, []),
      (''image_tag'', (Varchar 64), True, [])],
     om_constraints = [],
     om_indexes = []\<rparr>"

definition workload_model :: orm_model where
  "workload_model = \<lparr>om_table = ''workloads'', om_columns = [
      (''id'', Uuid, False, [Primary]),
      (''workload_id'', (Varchar 30), False, [Unique, Indexed]),
      (''model_name'', (Varchar 128), False, []),
      (''workload_config'', Jsonb, False, []),
      (''created_by'', (Varchar 256), True, [Indexed]),
      (''state'', (Pg_enum ''workload_state'' [''CREATED'', ''VALIDATING'', ''VALIDATED'', ''INSTALLING'', ''READY'', ''RUNNING'', ''FAILED'']), False, [Indexed]),
      (''error_message'', Text, True, []),
      (''workload_port'', Integer, True, []),
      (''communication_port'', Integer, True, []),
      (''created_at'', Timestamptz, False, [Server_default ''now()'']),
      (''updated_at'', Timestamptz, False, [Server_default ''now()''])],
     om_constraints = [],
     om_indexes = []\<rparr>"

definition workload_event_model :: orm_model where
  "workload_event_model = \<lparr>om_table = ''workload_events'', om_columns = [
      (''id'', Uuid, False, [Primary]),
      (''workload_id'', Uuid, False, [References ''workloads'' Cascade, Indexed]),
      (''state'', (Varchar 20), False, []),
      (''trigger'', (Varchar 50), False, []),
      (''message'', Text, False, []),
      (''event_time'', Timestamptz, False, [Server_default ''now()''])],
     om_constraints = [],
     om_indexes = []\<rparr>"

definition node_model :: orm_model where
  "node_model = \<lparr>om_table = ''nodes'', om_columns = [
      (''id'', Uuid, False, [Primary]),
      (''workload_id'', Uuid, False, [References ''workloads'' Cascade, Indexed]),
      (''machine_id'', (Varchar 30), False, []),
      (''machine_ip'', (Varchar 45), False, []),
      (''machine_username'', (Varchar 30), False, []),
      (''state'', (Pg_enum ''node_state'' [''ADDED'', ''VALIDATING'', ''VALIDATED'', ''INSTALLING'', ''READY'', ''RUNNING'', ''FAILED'']), False, [Indexed]),
      (''sw_installed'', Boolean, False, []),
      (''gpus'', Jsonb, True, []),
      (''specs'', Jsonb, True, []),
      (''pcie_tree'', Text, True, []),
      (''heartbeat_interval'', Integer, False, []),
      (''hb_error_count'', Integer, False, []),
      (''running_task'', (Varchar 50), True, []),
      (''created_at'', Timestamptz, False, [Server_default ''now()'']),
      (''updated_at'', Timestamptz, False, [Server_default ''now()''])],
     om_constraints = [],
     om_indexes = []\<rparr>"

definition task_model :: orm_model where
  "task_model = \<lparr>om_table = ''tasks'', om_columns = [
      (''id'', Uuid, False, [Primary]),
      (''workload_id'', Uuid, False, [References ''workloads'' Cascade, Indexed]),
      (''node_id'', Uuid, True, [References ''nodes'' Set_null]),
      (''run_name'', (Varchar 100), False, [Unique, Indexed]),
      (''task_config'', Jsonb, False, []),
      (''status'', (Varchar 20), False, []),
      (''started_at'', Timestamptz, False, [Server_default ''now()'']),
      (''completed_at'', Timestamptz, True, [])],
     om_constraints = [],
     om_indexes = []\<rparr>"

definition task_log_model :: orm_model where
  "task_log_model = \<lparr>om_table = ''task_logs'', om_columns = [
      (''id'', Uuid, False, [Primary]),
      (''task_id'', Uuid, False, [References ''tasks'' Cascade, Indexed]),
      (''line'', Text, False, []),
      (''logged_at'', Timestamptz, False, [Indexed, Server_default ''now()''])],
     om_constraints = [],
     om_indexes = [index_on ''ix_task_logs_task_id_logged_at'' ''task_logs'' [''task_id'', ''logged_at''] False]\<rparr>"

definition benchmark_result_model :: orm_model where
  "benchmark_result_model = \<lparr>om_table = ''benchmark_results'', om_columns = [
      (''id'', Uuid, False, [Primary]),
      (''run_id'', (Varchar 64), False, [Indexed]),
      (''sub_run_index'', Integer, False, []),
      (''model_name'', (Varchar 128), False, [Indexed]),
      (''pipeline_version'', (Varchar 128), False, []),
      (''node_ips'', Text_array, False, []),
      (''gpu_type'', (Varchar 16), False, [Indexed]),
      (''gpu_count'', Integer, False, []),
      (''gpu_model'', (Varchar 64), True, []),
      (''server_name'', (Varchar 128), True, [Indexed]),
      (''precision'', (Varchar 16), False, []),
      (''input_tokens'', Integer, False, []),
      (''output_tokens'', Integer, False, []),
      (''concurrency'', Integer, False, [Indexed]),
      (''parallelism'', (Varchar 16), True, [Indexed]),
      (''workload_type'', (Varchar 32), False, [Indexed]),
      (''status'', (Varchar 16), False, []),
      (''total_token_throughput'', Double, True, []),
      (''mean_ttft_ms'', Double, True, []),
      (''mean_tpot_ms'', Double, True, []),
      (''mean_e2el_ms'', Double, True, []),
      (''metrics'', Jsonb, False, []),
      (''started_at'', Timestamptz, False, []),
      (''completed_at'', Timestamptz, True, []),
      (''duration_seconds'', Double, True, []),
      (''created_at'', Timestamptz, False, [Server_default ''now()''])],
     om_constraints = [Unique_key ''uq_benchmark_run_sub'' [''run_id'', ''sub_run_index''],
      Check ''ck_model_name_lower'' (Is_lower ''model_name''),
      Check ''ck_gpu_type_lower'' (Is_lower ''gpu_type''),
      Check ''ck_precision_lower'' (Is_lower ''precision''),
      Check ''ck_workload_type_lower'' (Is_lower ''workload_type'')],
     om_indexes = []\<rparr>"

definition gpu_spec_model :: orm_model where
  "gpu_spec_model = \<lparr>om_table = ''gpu_specs'', om_columns = [
      (''id'', Uuid, False, [Primary]),
      (''gpu_type'', (Varchar 32), False, []),
      (''display_name'', (Varchar 64), False, []),
      (''vendor'', (Varchar 16), False, []),
      (''arch'', (Varchar 32), False, []),
      (''vram_gb'', Integer, False, []),
      (''tdp_watts'', Integer, False, []),
      (''tier_rank'', Integer, False, [Indexed]),
      (''fp16_tflops'', Double, True, []),
      (''fp8_tflops'', Double, True, [])],
     om_constraints = [Unique_key ''uq_gpu_specs_gpu_type'' [''gpu_type''],
      Check ''ck_gpu_specs_type_lower'' (Is_lower ''gpu_type''),
      Check ''ck_gpu_specs_vendor_lower'' (Is_lower ''vendor''),
      Check ''ck_gpu_specs_arch_lower'' (Is_lower ''arch''),
      Check ''ck_gpu_specs_tier_positive'' (At_least ''tier_rank'' 1)],
     om_indexes = []\<rparr>"

definition MODELS :: "orm_model list" where
  "MODELS = [workload_type_model, workload_model, workload_event_model, node_model, task_model, task_log_model, benchmark_result_model, gpu_spec_model]"

text \<open>What \<open>alembic/env.py\<close> loads with \<open>from app.models import *\<close>: the imports of the package.\<close>

definition PACKAGE_MODELS :: "orm_model list" where
  "PACKAGE_MODELS = [benchmark_result_model, node_model, task_model, task_log_model, workload_model,
     workload_event_model, workload_type_model]"

section \<open>The schema of the classes\<close>

fun flag_default :: "orm_flag \<Rightarrow> string list" where
  "flag_default (Server_default v) = [v]"
| "flag_default _ = []"

definition orm_col :: "orm_column \<Rightarrow> column" where
  "orm_col c = (case c of (n, ty, nullable, flags) \<Rightarrow>
     col n ty nullable (case concat (map flag_default flags) of [] \<Rightarrow> None | v # _ \<Rightarrow> Some v))"

definition flag_constraints :: "string \<Rightarrow> orm_flag list \<Rightarrow> orm_flag \<Rightarrow> table_constraint list" where
  "flag_constraints n flags f = (case f of
      Primary \<Rightarrow> [Primary_key [n]]
    | References t d \<Rightarrow> [Foreign_key n t d]
    | Unique \<Rightarrow> if Indexed \<in> set flags then [] else [Unique_key [] [n]]
    | _ \<Rightarrow> [])"

text \<open>\<open>index=True\<close> names its index after the table and the column; with \<open>unique=True\<close> it is unique.\<close>

definition flag_indexes :: "string \<Rightarrow> string \<Rightarrow> orm_flag list \<Rightarrow> index_def list" where
  "flag_indexes t n flags =
     (if Indexed \<in> set flags then [index_on (''ix_'' @ t @ ''_'' @ n) t [n] (Unique \<in> set flags)] else [])"

definition orm_table :: "orm_model \<Rightarrow> table_def" where
  "orm_table m = \<lparr>td_columns = map orm_col (om_columns m),
     td_constraints = concat (map (\<lambda>(n, _, _, flags). concat (map (flag_constraints n flags) flags)) (om_columns m)) @
       om_constraints m\<rparr>"

definition orm_indexes :: "orm_model \<Rightarrow> index_def list" where
  "orm_indexes m = concat (map (\<lambda>(n, _, _, flags). flag_indexes (om_table m) n flags) (om_columns m)) @ om_indexes m"

definition metadata :: "orm_model list \<Rightarrow> schema" where
  "metadata ms = \<lparr>sc_tables = map (\<lambda>m. (om_table m, orm_table m)) ms, sc_indexes = concat (map orm_indexes ms),
     sc_enums = concat (map (\<lambda>m. enums_of (map orm_col (om_columns m))) ms)\<rparr>"

text \<open>Two schemas are compared in a form that does not depend on the order of declarations.\<close>

fun constraint_key :: "table_constraint \<Rightarrow> string" where
  "constraint_key (Primary_key cs) = []"
| "constraint_key (Unique_key n cs) = n"
| "constraint_key (Check n c) = n"
| "constraint_key (Foreign_key c t d) = c"

definition sorted_table :: "table_def \<Rightarrow> table_def" where
  "sorted_table d = \<lparr>td_columns = sort_key co_name (td_columns d), td_constraints = sort_key constraint_key (td_constraints d)\<rparr>"

definition normal_form :: "schema \<Rightarrow> schema" where
  "normal_form s = \<lparr>sc_tables = sort_key fst (map (\<lambda>(n, d). (n, sorted_table d)) (sc_tables s)),
     sc_indexes = sort_key ix_name (sc_indexes s), sc_enums = sort_key fst (sc_enums s)\<rparr>"

definition migrated :: "string + schema" where
  "migrated = run_all (upgrades (in_order VERSIONS)) empty_schema"

section \<open>Widths\<close>

fun varchar_width :: "sql_type \<Rightarrow> nat option" where
  "varchar_width (Varchar n) = Some n"
| "varchar_width _ = None"

definition widths :: "schema \<Rightarrow> string \<Rightarrow> (string \<times> nat) list" where
  "widths s t = (case map_of (sc_tables s) t of
      None \<Rightarrow> []
    | Some d \<Rightarrow> List.map_filter (\<lambda>c. map_option (Pair (co_name c)) (varchar_width (co_type c))) (td_columns d))"

definition json_strings :: "json \<Rightarrow> string list" where
  "json_strings j = (case j of JStr s \<Rightarrow> [s] | _ \<Rightarrow> [])"

text \<open>The texts a row puts into its columns.\<close>

definition row_texts :: "benchmark_result \<Rightarrow> (string \<times> string) list" where
  "row_texts r = [(''run_id'', br_run_id r), (''model_name'', br_model_name r), (''gpu_type'', br_gpu_type r),
       (''workload_type'', br_workload_type r), (''status'', br_status r)] @
     map (Pair ''pipeline_version'') (json_strings (br_pipeline_version r)) @
     map (Pair ''gpu_model'') (json_strings (br_gpu_model r)) @
     map (Pair ''server_name'') (json_strings (br_server_name r)) @
     map (Pair ''precision'') (json_strings (br_precision r)) @
     (case br_parallelism r of None \<Rightarrow> [] | Some x \<Rightarrow> [(''parallelism'', x)])"

definition fits_widths :: "(string \<times> nat) list \<Rightarrow> benchmark_result \<Rightarrow> bool" where
  "fits_widths ws r = list_all (\<lambda>(c, x). case map_of ws c of None \<Rightarrow> True | Some n \<Rightarrow> length x \<le> n) (row_texts r)"

definition schema_after :: "nat \<Rightarrow> schema" where
  "schema_after k = projr (run_all (upgrades (take k (in_order VERSIONS))) empty_schema)"

lemma widths_before: "widths (schema_after 7) ''benchmark_results'' =
    [(''run_id'', 64), (''model_name'', 128), (''pipeline_version'', 32), (''gpu_type'', 16), (''gpu_model'', 64),
     (''precision'', 16), (''status'', 16), (''server_name'', 128), (''parallelism'', 16), (''workload_type'', 32)]"
  by code_simp

lemma widths_now: "widths (schema_after 9) ''benchmark_results'' =
    [(''run_id'', 64), (''model_name'', 128), (''pipeline_version'', 128), (''gpu_type'', 16), (''gpu_model'', 64),
     (''precision'', 16), (''status'', 16), (''server_name'', 128), (''parallelism'', 16), (''workload_type'', 32)]"
  by code_simp

definition no_default :: "string \<Rightarrow> string \<Rightarrow> schema \<Rightarrow> schema" where
  "no_default t c s = s\<lparr>sc_tables := map (\<lambda>(n, d). (n, if n = t then d\<lparr>td_columns :=
     map (\<lambda>x. if co_name x = c then x\<lparr>co_default := None\<rparr> else x) (td_columns d)\<rparr> else d)) (sc_tables s)\<rparr>"

lemma row_texts_of:
  assumes "ingest_row env p = Inr row"
  shows "\<exists>par. parallelism_of (in_metrics p) = Inr par \<and> row_texts (row i t) =
    [(''run_id'', in_run_id p), (''model_name'', in_workload_name p), (''gpu_type'', py_lower (in_gpu_type p)),
       (''workload_type'', workload_type_text (in_workload_type p)), (''status'', py_lower (in_status p))] @
     map (Pair ''pipeline_version'') (json_strings (dict_get_or (in_config p) ''pipeline_version'' (JStr ''unknown''))) @
     map (Pair ''gpu_model'') (json_strings (dict_get (in_config p) ''gpu_model'')) @
     map (Pair ''server_name'') (json_strings (json_or (dict_get (in_metrics p) ''server_name'') (dict_get (in_config p) ''server_name''))) @
     map (Pair ''precision'') (json_strings (dict_get_or (in_config p) ''precision'' (JStr ''fp16''))) @
     (case par of None \<Rightarrow> [] | Some x \<Rightarrow> [(''parallelism'', x)])"
  using assms by (auto simp: ingest_row_def Let_def row_texts_def split: sum.splits)

text \<open>What the widths ask of a payload.\<close>

definition texts_fit :: "nat \<Rightarrow> ingest_payload \<Rightarrow> bool" where
  "texts_fit version_width p =
     (length (in_run_id p) \<le> 64 \<and> length (in_workload_name p) \<le> 128 \<and> length (in_gpu_type p) \<le> 16 \<and>
      length (workload_type_text (in_workload_type p)) \<le> 32 \<and> length (in_status p) \<le> 16 \<and>
      list_all (\<lambda>x. length x \<le> version_width) (json_strings (dict_get_or (in_config p) ''pipeline_version'' (JStr ''unknown''))) \<and>
      list_all (\<lambda>x. length x \<le> 64) (json_strings (dict_get (in_config p) ''gpu_model'')) \<and>
      list_all (\<lambda>x. length x \<le> 128) (json_strings (json_or (dict_get (in_metrics p) ''server_name'') (dict_get (in_config p) ''server_name''))) \<and>
      list_all (\<lambda>x. length x \<le> 16) (json_strings (dict_get_or (in_config p) ''precision'' (JStr ''fp16''))) \<and>
      (case parallelism_of (in_metrics p) of Inr (Some x) \<Rightarrow> length x \<le> 16 | _ \<Rightarrow> True))"

lemma length_py_lower [simp]: "length (py_lower s) = length s"
  by (simp add: py_lower_def)

lemma width_lookup:
  "map_of (widths (schema_after 9) ''benchmark_results'') c = (if c = ''pipeline_version'' then Some 128 else
     map_of (widths (schema_after 7) ''benchmark_results'') c)"
  unfolding widths_now widths_before by simp

lemma width_values:
  "map_of (widths (schema_after 7) ''benchmark_results'') ''run_id'' = Some 64"
  "map_of (widths (schema_after 7) ''benchmark_results'') ''model_name'' = Some 128"
  "map_of (widths (schema_after 7) ''benchmark_results'') ''gpu_type'' = Some 16"
  "map_of (widths (schema_after 7) ''benchmark_results'') ''workload_type'' = Some 32"
  "map_of (widths (schema_after 7) ''benchmark_results'') ''status'' = Some 16"
  "map_of (widths (schema_after 7) ''benchmark_results'') ''pipeline_version'' = Some 32"
  "map_of (widths (schema_after 7) ''benchmark_results'') ''gpu_model'' = Some 64"
  "map_of (widths (schema_after 7) ''benchmark_results'') ''server_name'' = Some 128"
  "map_of (widths (schema_after 7) ''benchmark_results'') ''precision'' = Some 16"
  "map_of (widths (schema_after 7) ''benchmark_results'') ''parallelism'' = Some 16"
  unfolding widths_before by simp_all

lemma fits_widths_iff:
  assumes "ingest_row env p = Inr row"
  shows "fits_widths (widths (schema_after 9) ''benchmark_results'') (row i t) = texts_fit 128 p"
    "fits_widths (widths (schema_after 7) ''benchmark_results'') (row i t) = texts_fit 32 p"
proof -
  obtain par where "parallelism_of (in_metrics p) = Inr par" and "row_texts (row i t) =
    [(''run_id'', in_run_id p), (''model_name'', in_workload_name p), (''gpu_type'', py_lower (in_gpu_type p)),
       (''workload_type'', workload_type_text (in_workload_type p)), (''status'', py_lower (in_status p))] @
     map (Pair ''pipeline_version'') (json_strings (dict_get_or (in_config p) ''pipeline_version'' (JStr ''unknown''))) @
     map (Pair ''gpu_model'') (json_strings (dict_get (in_config p) ''gpu_model'')) @
     map (Pair ''server_name'') (json_strings (json_or (dict_get (in_metrics p) ''server_name'') (dict_get (in_config p) ''server_name''))) @
     map (Pair ''precision'') (json_strings (dict_get_or (in_config p) ''precision'' (JStr ''fp16''))) @
     (case par of None \<Rightarrow> [] | Some x \<Rightarrow> [(''parallelism'', x)])"
    using row_texts_of [OF assms] by blast
  then show "fits_widths (widths (schema_after 9) ''benchmark_results'') (row i t) = texts_fit 128 p"
    "fits_widths (widths (schema_after 7) ''benchmark_results'') (row i t) = texts_fit 32 p"
    by (simp_all add: fits_widths_def texts_fit_def width_lookup width_values list.pred_map comp_def conj_assoc split: option.split)
qed

lemma parallel_sizes_text:
  "dict_get m ''parallelism'' = parallel_sizes tp pp \<Longrightarrow> 0 < tp \<Longrightarrow> 0 < pp \<Longrightarrow>
     parallelism_of m = Inr (Some (parallelism_text tp pp))"
  by (simp add: parallelism_of_def parallel_sizes_def degree_def dict_get_or_def json_or_def json_int_def)

lemma parallelism_texts:
  "length (parallelism_text 1 1) \<le> 16" "length (parallelism_text 2 1) \<le> 16" "length (parallelism_text 4 1) \<le> 16"
  "length (parallelism_text 8 1) \<le> 16" "length (parallelism_text 1 4) \<le> 16"
  by code_simp+

lemma texts_fit_posted:
  assumes "texts_fit w p" and "length run \<le> 64"
  shows "texts_fit w (indexed run i p)"
  using assms by (simp add: texts_fit_def indexed_def)

lemma texts_unfit_posted: "\<not> texts_fit w p \<Longrightarrow> in_run_id p = [] \<Longrightarrow> \<not> texts_fit w (indexed run i p)"
  by (auto simp: texts_fit_def indexed_def)

lemmas text_fields = texts_fit_def seed_fields json_strings_def json_or_def parallel_sizes_text parallelism_texts

lemma t4_texts: "tp \<in> {1, 2} \<Longrightarrow> texts_fit 128 (t4_payload tp gpus base row)"
proof -
  obtain sub c dur tpt ttft tpot e2el p99 otp rtp tin tout
    where row: "row = (sub, c, dur, tpt, ttft, tpot, e2el, p99, otp, rtp, tin, tout)" by (cases row) auto
  show "tp \<in> {1, 2} \<Longrightarrow> ?thesis" by (auto simp: row t4_payload_def text_fields)
qed

lemma mi210_llm_texts:
  assumes "length model \<le> 128" and "g \<in> {4, 8}"
  shows "texts_fit 128 (mi210_llm model row gpus base notes in_tok out_tok (Some g))"
    "\<not> texts_fit 32 (mi210_llm model row gpus base notes in_tok out_tok (Some g))"
proof -
  obtain sub c dur tpt ttft tpot e2el p99 otp rtp tin tout
    where row: "row = (sub, c, dur, tpt, ttft, tpot, e2el, p99, otp, rtp, tin, tout)" by (cases row) auto
  show "texts_fit 128 (mi210_llm model row gpus base notes in_tok out_tok (Some g))"
    "\<not> texts_fit 32 (mi210_llm model row gpus base notes in_tok out_tok (Some g))"
    using assms by (auto simp: row mi210_llm_def text_fields MI210_VERSION_def)
qed

lemma bench_texts:
  assumes "length model \<le> 128" and "gpus \<in> {4, 8}"
  shows "texts_fit 128 (bench_payload model gpus base notes row)"
proof -
  obtain sub c dur tpt ttft tpot otp tin tout
    where row: "row = (sub, c, dur, tpt, ttft, tpot, otp, tin, tout)" by (cases row) auto
  show ?thesis using assms by (auto simp: row bench_payload_def text_fields MI210_VERSION_def)
qed

lemma mi210_texts: "x \<in> set mi210_posts \<Longrightarrow> texts_fit 128 (indexed_payload x)"
  unfolding mi210_posts_def mi210_tp4_def mi210_tp8_def mi210_deepseek_def mi210_openorca_def mi210_bench8_def
    mi210_bench4_def mi210_l33_def mi210_runs_def indexed_payload_def
  by (auto simp: orca_post_def split: prod.split intro!: texts_fit_posted mi210_llm_texts bench_texts)

lemma other_texts:
  "texts_fit 128 h100_c128" "texts_fit 128 h100_c256" "texts_fit 128 rtx_tp4" "texts_fit 128 rtx_pp4"
  by (simp_all add: h100_c128_def h100_c256_def h100_payload_def rtx_tp4_def rtx_pp4_def rtx_payload_def text_fields)

lemma p40_texts: "texts_fit 128 p40_1node" "texts_fit 128 p40_2node"
  by (simp_all add: p40_1node_def p40_2node_def p40_payload_def text_fields parallelism_of_def)

lemma t4_posts_texts: "x \<in> set t4_posts \<Longrightarrow> texts_fit 128 (indexed_payload x)"
proof -
  have "show_int 1 = ''1''" "show_int 2 = ''2''" by code_simp+
  then show "x \<in> set t4_posts \<Longrightarrow> ?thesis"
    by (auto simp: t4_posts_def indexed_payload_def intro!: texts_fit_posted t4_texts)
qed

lemma seed_texts: "p \<in> set seed_payloads \<Longrightarrow> texts_fit 128 p"
  unfolding seed_payloads_def
  by (auto simp: h100_posts_def p40_posts_def rtx_posts_def other_texts p40_texts intro: t4_posts_texts mi210_texts intro!: texts_fit_posted)

section \<open>Properties\<close>

text \<open>the revisions, run in their order on an empty database, give the tables, columns, constraints
and indexes of the model classes, but for two differences: the index on (\<open>task_id\<close>, \<open>logged_at\<close>) of
\<open>task_logs\<close> is never created, and \<open>workload_type\<close> has a default only the revisions know.\<close>

lemma migrations_reach_models:
  "case migrated of
     Inl _ \<Rightarrow> False
   | Inr s \<Rightarrow> ''ix_task_logs_task_id_logged_at'' \<notin> set (map ix_name (sc_indexes s)) \<and>
      (case run_ddl (Create_index (index_on ''ix_task_logs_task_id_logged_at'' ''task_logs'' [''task_id'', ''logged_at''] False))
         (no_default ''benchmark_results'' ''workload_type'' s) of
        Inl _ \<Rightarrow> False
      | Inr s' \<Rightarrow> normal_form s' = normal_form (metadata MODELS))"
  by code_simp

text \<open>C38: from the schema after any number of revisions one can go back to the schema after fewer: the
downgrades in reverse order restore it exactly.\<close>

theorem downgrades_restore:
  assumes "j \<le> k" and "k \<le> length VERSIONS"
  shows "\<exists>s s'. run_all (upgrades (take j (in_order VERSIONS))) empty_schema = Inr s \<and>
     run_all (upgrades (take k (in_order VERSIONS))) empty_schema = Inr s' \<and>
     run_all (downgrades (drop j (take k (in_order VERSIONS)))) s' = Inr s"
proof -
  let ?h = "in_order VERSIONS"
  have "reversible (take j (take k ?h) @ drop j (take k ?h) @ drop k ?h) empty_schema"
    using VERSIONS_reversible by (metis append.assoc append_take_drop_id)
  then have first: "reversible (take j (take k ?h)) empty_schema"
    and rest: "\<And>s. run_all (upgrades (take j (take k ?h))) empty_schema = Inr s \<Longrightarrow> reversible (drop j (take k ?h)) s"
    unfolding reversible_append by blast+
  obtain s where s: "run_all (upgrades (take j (take k ?h))) empty_schema = Inr s"
    using reversible_undone [OF first] by blast
  obtain s' where s': "run_all (upgrades (drop j (take k ?h))) s = Inr s'" "run_all (downgrades (drop j (take k ?h))) s' = Inr s"
    using reversible_undone [OF rest [OF s]] by blast
  have "upgrades (take k ?h) = upgrades (take j (take k ?h)) @ upgrades (drop j (take k ?h))"
    using upgrades_append [of "take j (take k ?h)" "drop j (take k ?h)"] by (simp only: append_take_drop_id)
  then have "run_all (upgrades (take k ?h)) empty_schema = Inr s'" using s s'(1) by (simp add: run_all_append)
  then show ?thesis using s s'(2) assms(1) by (simp add: min_def)
qed

lemma downgrades_restore_witness:
  "\<exists>s s'. run_all (upgrades (take 2 (in_order VERSIONS))) empty_schema = Inr s \<and>
     run_all (upgrades (take 9 (in_order VERSIONS))) empty_schema = Inr s' \<and>
     run_all (downgrades (drop 2 (take 9 (in_order VERSIONS)))) s' = Inr s"
proof -
  have "(2::nat) \<le> 9" "9 \<le> length VERSIONS" by (simp_all add: VERSIONS_def)
  then show ?thesis by (rule downgrades_restore)
qed

text \<open>C39: every text of every row the seed scripts post fits the width of its column after all
revisions; before the widening revision the image name of the MI210 runs did not.\<close>

theorem seed_rows_fit_columns:
  assumes "p \<in> set seed_payloads" and "ingest_row env p = Inr row"
  shows "fits_widths (widths (schema_after 9) ''benchmark_results'') (row i t) \<and>
    (in_run_id p = ''mi210-llama31-70b-tp4'' \<longrightarrow> \<not> fits_widths (widths (schema_after 7) ''benchmark_results'') (row i t))"
proof -
  have "\<not> texts_fit 32 p" if run: "in_run_id p = ''mi210-llama31-70b-tp4''"
  proof -
    have "p \<in> set (map indexed_payload mi210_tp4)"
      using assms(1) run
      by (auto simp: seed_payloads_def t4_posts_def h100_posts_def p40_posts_def rtx_posts_def mi210_posts_def
          mi210_tp8_def mi210_deepseek_def mi210_openorca_def mi210_bench8_def mi210_bench4_def mi210_l33_def mi210_runs_def
          orca_post_def indexed_payload_def indexed_def h100_c128_def h100_c256_def h100_payload_def rtx_tp4_def rtx_pp4_def
          rtx_payload_def split: prod.splits)
    then obtain row where "p = indexed ''mi210-llama31-70b-tp4'' (fst row)
        (mi210_llm ''llama3.1-70b-instruct'' row 4 (at_utc 2026 1 29 10)
          (''Llama-3.1-70B TP=4, 4'' @ times_sign @ '' MI210, Random dataset'') 1023 1024 (Some 4))"
      by (auto simp: mi210_tp4_def mi210_runs_def indexed_payload_def)
    moreover have "in_run_id (mi210_llm model row gpus base nts in_tok out_tok tp) = []"
      for model row gpus base nts in_tok out_tok tp by (simp add: mi210_llm_def split: prod.split)
    ultimately show ?thesis by (simp add: texts_unfit_posted mi210_llm_texts(2))
  qed
  then show ?thesis using seed_texts [OF assms(1)] fits_widths_iff [OF assms(2)] by simp
qed

lemma seed_rows_fit_columns_witness:
  "\<exists>row. ingest_row (api_env sample_api) (indexed_payload (hd mi210_tp4)) = Inr row \<and>
     fits_widths (widths (schema_after 9) ''benchmark_results'') (row 0 0) \<and>
     \<not> fits_widths (widths (schema_after 7) ''benchmark_results'') (row 0 0)"
proof -
  let ?x = "hd mi210_tp4"
  have x: "?x \<in> set mi210_posts" by (simp add: mi210_posts_def mi210_tp4_def mi210_runs_def)
  then have m: "indexed_payload ?x \<in> set seed_payloads" by (simp add: seed_payloads_def)
  have run: "in_run_id (indexed_payload ?x) = ''mi210-llama31-70b-tp4''"
    by (simp add: indexed_payload_def indexed_def mi210_tp4_def mi210_runs_def)
  have "reads_aware (api_env sample_api)" by (auto simp: reads_aware_def sample_api_def split: sum.splits)
  then have "fits_table (api_env sample_api) (indexed_payload ?x)"
    using x mi210_fits [of _ "fst ?x" "fst (snd ?x)" "snd (snd ?x)"] by (simp add: indexed_payload_def fits_indexed)
  then obtain row where row: "ingest_row (api_env sample_api) (indexed_payload ?x) = Inr row" by (auto simp: fits_table_def)
  from seed_rows_fit_columns [OF m row, of 0 0] run row show ?thesis by blast
qed

text \<open>The package that alembic loads leaves out the GPU catalogue's class.\<close>

theorem package_misses_gpu_specs:
  "''gpu_specs'' \<in> set (map om_table MODELS)" "''gpu_specs'' \<notin> set (map om_table PACKAGE_MODELS)"
  by code_simp+

text \<open>The image name the widening revision quotes has 48 characters, not 49.\<close>

theorem image_name_length: "length MI210_VERSION = 48"
  by code_simp

end
