(* ===== verification/Migration_Env.thy ===== *)
theory Migration_Env
  imports Orm_Schema Shlex
begin

text \<open>
  \<open>alembic/env.py\<close>: the URL a migration runs with, the tables autogenerate may propose for removal, and
  the run itself. In the offline mode the URL passes through the configuration file's parser, whose
  check of percent signs in \<open>set\<close> is Python's \<open>configparser\<close>; its reading back is the argument
  get_main. Alembic's version table is left out: a run is given its revisions.
\<close>

section \<open>The filter of autogenerate\<close>

definition EXCLUDE_TABLES :: "string list" where
  "EXCLUDE_TABLES = [''celery_taskmeta'', ''celery_tasksetmeta'']"

definition include_object :: "string \<Rightarrow> string \<Rightarrow> bool" where
  "include_object name kind = (\<not> (kind = ''table'' \<and> name \<in> set EXCLUDE_TABLES))"

text \<open>Autogenerate proposes to drop the included tables the metadata does not have.\<close>

definition proposed_drops :: "schema \<Rightarrow> orm_model list \<Rightarrow> string list" where
  "proposed_drops db models =
     filter (\<lambda>t. t \<notin> set (map om_table models) \<and> include_object t ''table'') (map fst (sc_tables db))"

section \<open>Python's configuration parser\<close>

fun without_doubled :: "string \<Rightarrow> string" where
  "without_doubled (c # d # cs) =
     (if c = CHR ''%'' \<and> d = CHR ''%'' then without_doubled cs else c # without_doubled (d # cs))"
| "without_doubled s = s"

text \<open>What the pattern \<open>%\([^)]+\)s\<close> matches is taken out.\<close>

function without_names :: "string \<Rightarrow> string" where
  "without_names [] = []"
| "without_names (c # cs) =
     (let name = takeWhile (\<lambda>x. x \<noteq> CHR '')'') (drop 1 cs); rest = dropWhile (\<lambda>x. x \<noteq> CHR '')'') (drop 1 cs) in
      if c = CHR ''%'' \<and> starts_with ''('' cs \<and> name \<noteq> [] \<and> starts_with '')s'' rest
      then without_names (drop 2 rest) else c # without_names cs)"
  by pat_completeness auto
termination
proof (relation "measure length")
  fix c :: char and cs name rest
  assume "rest = dropWhile (\<lambda>x. x \<noteq> CHR '')'') (drop 1 cs)"
  moreover have "length (dropWhile (\<lambda>x. x \<noteq> CHR '')'') (drop 1 cs)) \<le> length (drop 1 cs)" by (rule length_dropWhile_le)
  ultimately show "(drop 2 rest, c # cs) \<in> measure length" by simp
qed auto

text \<open>\<open>set_main_option\<close>: the value as it is stored, or the parser's refusal.\<close>

definition set_main_option :: "string \<Rightarrow> exn + string" where
  "set_main_option v =
     (let t = without_names (without_doubled v) in
      if CHR ''%'' \<in> set t
      then Inl (ValueError (''invalid interpolation syntax in '' @ py_repr v @ '' at position '' @
        show_nat (length (takeWhile (\<lambda>c. c \<noteq> CHR ''%'') t))))
      else Inr v)"

section \<open>The runs\<close>

text \<open>Offline the statements are written out for the URL; nothing is executed.\<close>

definition run_migrations_offline :: "(string \<Rightarrow> exn + string) \<Rightarrow> settings \<Rightarrow> ddl list \<Rightarrow> exn + string \<times> ddl list" where
  "run_migrations_offline get_main s script =
     (case set_main_option (get_sync_database_url s) of
        Inl e \<Rightarrow> Inl e
      | Inr v \<Rightarrow> (case get_main v of Inl e \<Rightarrow> Inl e | Inr url \<Rightarrow> Inr (url, script)))"

text \<open>The statements run in one transaction, which PostgreSQL rolls back as a whole.\<close>

definition do_run_migrations :: "ddl list \<Rightarrow> schema \<Rightarrow> (string + unit) \<times> schema" where
  "do_run_migrations script db = (case run_all script db of Inl e \<Rightarrow> (Inl e, db) | Inr db' \<Rightarrow> (Inr (), db'))"

definition run_async_migrations :: "settings \<Rightarrow> ddl list \<Rightarrow> (string \<Rightarrow> schema) \<Rightarrow> (string + unit) \<times> (string \<Rightarrow> schema)" where
  "run_async_migrations s script dbs =
     (case do_run_migrations script (dbs (get_database_url s)) of (r, db) \<Rightarrow> (r, dbs(get_database_url s := db)))"

section \<open>Lemmas\<close>

text \<open>Every percent sign is followed by a character that starts no escape of the parser.\<close>

fun lone_percents :: "string \<Rightarrow> bool" where
  "lone_percents [] = True"
| "lone_percents (c # cs) = ((c = CHR ''%'' \<longrightarrow> cs \<noteq> [] \<and> hd cs \<notin> {CHR ''%'', CHR ''(''}) \<and> lone_percents cs)"

lemma lone_without_doubled: "lone_percents s \<Longrightarrow> without_doubled s = s"
  by (induction s rule: without_doubled.induct) auto

lemma lone_without_names: "lone_percents s \<Longrightarrow> without_names s = s"
proof (induction s rule: without_names.induct)
  case (2 c cs)
  have "\<not> (c = CHR ''%'' \<and> starts_with ''('' cs)" using 2(3) by (cases cs) (auto simp: starts_with_def)
  then show ?case using 2 by (auto simp: Let_def)
qed simp

lemma no_percent_lone: "CHR ''%'' \<notin> set s \<Longrightarrow> lone_percents s"
  by (induction s) auto

lemma hex_digit_no_escape: "n < 16 \<Longrightarrow> hex_digit n \<notin> {CHR ''%'', CHR ''(''}"
proof -
  assume n: "n < 16"
  have "(of_char (hex_digit n) :: nat) \<in> {48..57} \<union> {65..70}"
    using n by (simp add: hex_digit_def)
  then show ?thesis by auto
qed

lemma unreserved_no_percent: "is_unreserved c \<Longrightarrow> c \<noteq> CHR ''%''"
  by (auto simp: is_unreserved_def is_alnum_def is_alpha_def is_upper_def is_lower_def is_digit_def Let_def)

lemma lone_quoted: "lone_percents t \<Longrightarrow> lone_percents (url_quote s @ t)"
proof (induction s)
  case (Cons c s)
  have "(of_char c div 16 :: nat) < 16" using of_char_less_256 [of c] by (simp add: less_mult_imp_div_less)
  moreover have "(of_char c mod 16 :: nat) < 16" by simp
  ultimately show ?case using Cons unreserved_no_percent [of c] hex_digit_no_escape
    by (auto simp: url_quote_def quote_char_def)
qed (simp add: url_quote_def)

lemma percent_in_char: "CHR ''%'' \<in> set (quote_char c) \<longleftrightarrow> \<not> is_unreserved c"
  using unreserved_no_percent by (auto simp: quote_char_def)

lemma percent_quoted: "CHR ''%'' \<in> set (url_quote s) \<longleftrightarrow> \<not> list_all is_unreserved s"
  by (simp add: url_quote_def percent_in_char list_all_iff)

lemma show_int_no_percent: "CHR ''%'' \<notin> set (show_int i)"
  by (auto simp: show_int_def is_digit_def dest!: show_nat_digits)

lemma lone_append_plain: "CHR ''%'' \<notin> set a \<Longrightarrow> lone_percents b \<Longrightarrow> lone_percents (a @ b)"
  by (induction a) auto

section \<open>Properties\<close>

text \<open>The offline mode writes its script only when the database's user and password need no escaping; with
any other password the parser refuses the URL, whose escapes it takes for interpolation. The online
mode hands the URL over without the parser.\<close>

theorem offline_needs_plain_password:
  assumes "\<And>v. CHR ''%'' \<notin> set v \<Longrightarrow> get_main v = Inr v"
    and "CHR ''%'' \<notin> set (POSTGRES_HOST s)" and "CHR ''%'' \<notin> set (POSTGRES_DATABASE s)"
  shows "if list_all is_unreserved (POSTGRES_USERNAME s @ POSTGRES_PASSWORD s)
    then run_migrations_offline get_main s script = Inr (get_sync_database_url s, script)
    else \<exists>m. run_migrations_offline get_main s script = Inl (ValueError m)"
proof -
  let ?url = "get_sync_database_url s"
  let ?rest = "''@'' @ POSTGRES_HOST s @ '':'' @ show_int (POSTGRES_PORT s) @ ''/'' @ POSTGRES_DATABASE s"
  have rest: "CHR ''%'' \<notin> set ?rest" using assms(2,3) show_int_no_percent by simp
  have url: "?url = ''postgresql://'' @ url_quote (POSTGRES_USERNAME s) @ '':'' @ url_quote (POSTGRES_PASSWORD s) @ ?rest"
    by (simp add: get_sync_database_url_def pg_authority_def)
  have "lone_percents ?url"
    unfolding url by (intro lone_append_plain lone_quoted no_percent_lone rest) simp_all
  then have t: "without_names (without_doubled ?url) = ?url"
    by (simp only: lone_without_doubled lone_without_names)
  have "CHR ''%'' \<in> set ?url \<longleftrightarrow> \<not> list_all is_unreserved (POSTGRES_USERNAME s @ POSTGRES_PASSWORD s)"
    unfolding url using rest percent_quoted by auto
  then show ?thesis using assms(1) by (auto simp: run_migrations_offline_def set_main_option_def t Let_def)
qed

text \<open>A failed run leaves the schema as it was.\<close>

theorem failed_run_changes_nothing:
  "case run_async_migrations s script dbs of (Inl _, dbs') \<Rightarrow> dbs' = dbs | (Inr _, dbs') \<Rightarrow>
     run_all script (dbs (get_database_url s)) = Inr (dbs' (get_database_url s)) \<and>
     (\<forall>u. u \<noteq> get_database_url s \<longrightarrow> dbs' u = dbs u)"
  by (auto simp: run_async_migrations_def do_run_migrations_def split: sum.splits)

text \<open>With the models the package collects, autogenerate would drop the GPU catalogue; the tables of
Celery are left alone.\<close>

theorem autogenerate_drops_gpu_specs:
  "case migrated of Inl _ \<Rightarrow> False | Inr db \<Rightarrow> proposed_drops db PACKAGE_MODELS = [''gpu_specs''] \<and> proposed_drops db MODELS = []"
  "\<not> include_object ''celery_taskmeta'' ''table''"
  by code_simp+

end
