(* ===== verification/Spec2Isabelle.thy ===== *)
theory Spec2Isabelle
  imports Jupyter_Api Ingest_Api Results_Api System_Api Gateway_Rules Command_Gate Bridge Actions Task_Tools Docker_Probes Net_Probes Browser_Probe
    Mcp_Config Gateway_Certs Gateway_Users Notices Model_Access Mcp_Server Web_App Migration_Env
begin

text \<open>
  AI Studio server: a verification development.

  The program. A FastAPI application (\<open>app/routers\<close>) stores workloads in PostgreSQL and hands
  them to Celery; the Celery tasks (\<open>app/worker.py\<close>) drive GPU nodes over SSH, move each workload
  through a state machine, write log lines and result rows, and publish notebooks through nginx.
  The clients poll states, read logs as server-sent events, read and delete results. Beside it an
  MCP server (\<open>mcp-server/app\<close>) offers tools to language models behind a gateway, whose
  certificates and accounts are set up by \<open>gateway/mint.py\<close> and \<open>gateway/kc.py\<close>.

  How it is modelled. A session is a record of the committed database, the transaction's working
  copy, the log, the queue of dispatched chains and a step counter (\<open>Session\<close>); an action takes
  a session to a result or an exception and a session. Everything outside the repository is the
  record \<open>env\<close> of answers, indexed by the step counter: clock, random ids, SSH replies, HTTP
  replies, whether a commit or a broker call fails, the JSON parser. The theorems hold for every
  \<open>env\<close>, unless a premise says otherwise. Exceptions are the values of \<open>exn\<close>.

  Theories, in the order of the code's layers.
  \<^item> \<open>Prelude\<close>: JSON, exceptions, Python text operations, shared lemmas and rule collections.
  \<^item> \<open>Tables\<close>: \<open>app/config.py\<close> and \<open>app/models\<close>: settings, the rows and the table's checks.
  \<^item> \<open>Session\<close>: the SQLAlchemy session, the outside world and the rules to reason on actions.
  \<^item> \<open>State_Machine\<close>: \<open>services/state_machine.py\<close>; the life cycle as an inductive relation, the
    audit invariant, and the locale \<open>workload_invariant\<close> the tasks rest on.
  \<^item> \<open>Manifest_Builder\<close>, \<open>Alerts\<close>, \<open>Ssh_Exec\<close>, \<open>Nginx_Proxy\<close>: the remaining \<open>services\<close>.
  \<^item> \<open>Worker\<close>: \<open>app/worker.py\<close>, all tasks, the failure handler and the two chains; the locale
    \<open>celery_task\<close> is the contract of a task, interpreted for each task and each chain.
  \<^item> \<open>Masking\<close>, \<open>Sse\<close>: \<open>utils/sse.py\<close>: address masking and the log stream, poll by poll.
  \<^item> \<open>Calendar\<close>: the part of \<open>strptime\<close> and \<open>strftime\<close> the routers use.
  \<^item> \<open>Results_Api\<close>, \<open>Benchmarks_Api\<close>, \<open>Jupyter_Api\<close>, \<open>Ingest_Api\<close>, \<open>System_Api\<close>: the routers with
    their schemas, the catalogue and its seeding. What an upsert by key promises is the locale
    \<open>keyed_rows\<close> of \<open>Keyed_Rows\<close>, interpreted for the results and for the GPU catalogue.
  \<^item> \<open>Web_App\<close>: \<open>app/main.py\<close>: the routes in their order, and what surrounds an endpoint.

  The database's schema and the scripts.
  \<^item> \<open>Migrations\<close>, \<open>Orm_Schema\<close>, \<open>Migration_Env\<close>: the revisions of \<open>alembic/versions\<close> as DDL statements
    run on a schema, the schema that \<open>app/models\<close> declares, and \<open>alembic/env.py\<close>.
  \<^item> \<open>Seed_Scripts\<close>: \<open>scripts/seed_*.py\<close>, every payload, posted to the endpoints above.
  \<^item> \<open>Notices\<close>, \<open>Model_Access\<close>: \<open>scripts/generate_third_party_notices.py\<close> and
    \<open>scripts/check_model_access.py\<close>.

  The MCP server and its gateway. A tool call passes the caller's verification, the policy, the
  write guards and the output fence; the tools read the platform over HTTP or probe hosts.
  \<^item> \<open>Mcp_Config\<close>: \<open>mcp-server/app/config.py\<close>, the settings and what each component takes of them.
  \<^item> \<open>Policy\<close>, \<open>Gateway_Rules\<close>: \<open>policy.py\<close> and \<open>manifest.py\<close>: roles as a linear order, the table of
    tools, the generated rules and the command that keeps them in the gateway's files.
  \<^item> \<open>Auth\<close>: \<open>auth.py\<close>: from a request's headers to the verified caller; the locale \<open>key_source\<close> is
    what both sources of signing keys promise.
  \<^item> \<open>Guards\<close>: \<open>guards.py\<close>: the write switch, and the deduplication as an inductive step relation
    over every interleaving of concurrent calls.
  \<^item> \<open>Regex\<close>, \<open>Fence\<close>: Python's backtracking matcher for the patterns used, and \<open>fence.py\<close> over it.
  \<^item> \<open>Bridge\<close>: \<open>mcp_server.py\<close> and \<open>tools/registry.py\<close>: one tool call through all of the above.
  \<^item> \<open>Mcp_Server\<close>: the rest of \<open>mcp_server.py\<close>: the server that is built, its start, and a request from
    its headers to the tool.
  \<^item> \<open>Http_Client\<close>, \<open>Platform_Api\<close>, \<open>Actions\<close>, \<open>Run_Reports\<close>, \<open>Task_Tools\<close>: the requests of a tool as
    a history, \<open>services/platform_api.py\<close>, \<open>tools/actions.py\<close> and \<open>tools/aistudio.py\<close>.
  \<^item> \<open>Shlex\<close>, \<open>Command_Gate\<close>: the shell's word splitting and the gate of \<open>node_exec\<close> in
    \<open>tools/ssh_probes.py\<close>, against what the tools' manual pages and the
    node's links make of a command.
  \<^item> \<open>Ip_Address\<close>, \<open>Effects\<close>: addresses as words of 32 and 128 bits; tools over a state, and the locale
    \<open>state_steps\<close>, the contract of a step, which \<open>Node_Ssh\<close> and \<open>Net_Probes\<close> interpret.
  \<^item> \<open>Node_Ssh\<close>: the connection and the node tools of \<open>ssh_probes.py\<close>.
  \<^item> \<open>Fs_Probes\<close>, \<open>Docker_Probes\<close>: \<open>tools/fs_probes.py\<close> with \<open>_shell.py\<close>, and \<open>docker_probes.py\<close>.
  \<^item> \<open>Net_Guard\<close>, \<open>Net_Probes\<close>, \<open>Browser_Probe\<close>: \<open>tools/net_probes.py\<close>, first what may be contacted,
    then the probes, and \<open>browser_probes.py\<close>.
  \<^item> \<open>Gateway_Certs\<close>, \<open>Gateway_Users\<close>: \<open>gateway/mint.py\<close> and \<open>gateway/kc.py\<close>.

  What the lemmas show. A benchmark or notebook chain always leaves its workload READY or FAILED
  or reports it as stuck, and every row of the audit log is a step of the documented life cycle;
  every parsable result line of a run becomes one row, where the database accepts it; a submission creates one workload and
  dispatches one chain, and the run it starts settles. The log stream delivers every visible row
  exactly once on one connection. Deletes remove what the filter names and nothing else, ingestion
  is idempotent, the leaderboard is ordered. The tool policy fails closed, and the gateway's rules
  are the server's. A request without a verified token never reaches a tool, and a tool's
  delete reaches the one record it names; a repeated write
  runs once and a call that waits gets its lock; the fence masks every private key. A command that
  passes the node gate only observes, and \<open>cat\<close> opens counters only, except for the empty argument
  and the verb \<open>chg\<close>, which the gate lets through; nodes outside the networks are not contacted, a host
  key is recorded once for an unknown node and never replaced, and reading a command's output ends
  at most one read past the cap. The network and browser probes contact vetted addresses only, the
  file probes read no secrets file, and who may not open a notebook is not shown its URL. A
  certificate left by the minting command is valid and signed by the CA in use; pruning removes
  listed, self-registered clients without sessions only, and set-up sends each registration policy
  with a rule its settings. Going back over revisions restores the schema; the seed scripts' results
  are all accepted, fit their columns and are stored once however often the scripts run; a licence
  inventory passes the check it was written for. Some theorems record behaviour a reader would
  not expect, such as a failed run that is stored nowhere; they carry the condition under which it
  happens.

  Bounds. No fuel is used: loops are recursion over lists that end, and the streams are lists
  of the polls that happened. The one loop without such a measure, reading the output of a node,
  is a \<open>partial_function\<close>, and it is proved to end for every output. Integers are Python's and
  unbounded; addresses are words. Floating-point numbers are the rationals they denote; rounding
  of their arithmetic is not modelled.

  Not modelled. Tasks and requests of the platform running at the same time, and rows cached by a
  session while another commits; Celery's delivery and its hard time limit (the soft one is an
  exception of the outside world, a redelivery is a second run); FastAPI's parsing and
  validation of requests, its CORS headers; the database engine, and its enforcement of
  foreign keys when rows change; alembic's record of the revisions that ran; case, white
  space, digits and printability beyond ASCII; the time that passes between two polls of a stream; cryptography,
  TLS and the operating system's locking and process groups. The tests are not part of the
  development.
\<close>

end
